(* ===== verification/Prelude.thy ===== *)
theory Prelude
  imports Complex_Main "HOL-Library.Word" "HOL-Library.Signed_Division" "HOL-Library.Monad_Syntax"
begin

text \<open>
  Shared vocabulary of the development.

  \<^item> C integers: a signed 32-bit \<open>int\<close> of the source is an \<open>int\<close> here; where an
    operation can overflow, divide by zero or shift out of range the model returns
    \<open>None\<close> (the C behaviour is undefined), through \<open>c_int\<close>, \<open>c_rem\<close> and the
    option monad.
  \<^item> C strings: a NUL-terminated \<open>char *\<close> is the \<open>string\<close> (list of characters)
    before its terminator. Functions of the C library that the source calls
    (\<open>strspn\<close>, \<open>strchr\<close>, \<open>strpbrk\<close>, \<open>strtok\<close>, \<open>strcasecmp\<close>, \<open>strncmp\<close> against a
    prefix, \<open>strtol\<close>, \<open>isspace\<close>, \<open>isdigit\<close>, \<open>isxdigit\<close>, in the C locale) are
    defined here once.
  \<^item> Arithmetic of \<open>float\<close> and \<open>double\<close> is idealised: a value is an exact rational,
    so no rounding takes place. Conversions to \<open>int\<close> truncate (\<open>c_trunc\<close>) as in C.
\<close>

named_theorems cdefs "definitions of the C-library functions"

section \<open>Machine integers\<close>

abbreviation INT_MAX :: int where "INT_MAX \<equiv> 2147483647"
abbreviation INT_MIN :: int where "INT_MIN \<equiv> - 2147483648"

definition c_int :: "int \<Rightarrow> int option" where
  "c_int n = (if INT_MIN \<le> n \<and> n \<le> INT_MAX then Some n else None)"

text \<open>The C remainder truncates towards zero; a zero divisor traps.\<close>

definition c_rem :: "int \<Rightarrow> int \<Rightarrow> int option" where
  "c_rem a b = (if b = 0 then None else Some (a smod b))"

text \<open>Conversion of a wider integer to \<open>int\<close> (two's complement truncation).\<close>

definition to_int32 :: "int \<Rightarrow> int" where
  "to_int32 n = (n + 2147483648) mod 4294967296 - 2147483648"

lemma to_int32_id: "INT_MIN \<le> n \<Longrightarrow> n \<le> INT_MAX \<Longrightarrow> to_int32 n = n"
  by (simp add: to_int32_def)

lemma to_int32_range: "INT_MIN \<le> to_int32 n \<and> to_int32 n \<le> INT_MAX"
proof -
  have "0 \<le> (n + 2147483648) mod 4294967296" "(n + 2147483648) mod 4294967296 < 4294967296"
    by simp_all
  then show ?thesis unfolding to_int32_def by linarith
qed

text \<open>Truncation of a floating value to an integer.\<close>

definition c_trunc :: "rat \<Rightarrow> int" where
  "c_trunc x = (if 0 \<le> x then \<lfloor>x\<rfloor> else \<lceil>x\<rceil>)"

lemma c_trunc_of_int [simp]: "c_trunc (of_int n) = n"
  by (simp add: c_trunc_def)

lemma c_trunc_nonneg: "0 \<le> x \<Longrightarrow> 0 \<le> c_trunc x"
  by (simp add: c_trunc_def)

section \<open>Characters\<close>

definition tolower :: "char \<Rightarrow> char" where
  "tolower c = (let n = of_char c :: nat in if 65 \<le> n \<and> n \<le> 90 then char_of (n + 32) else c)"

definition isspace :: "char \<Rightarrow> bool" where
  "isspace c = (c \<in> {CHR '' '', CHR 0x0C, CHR 0x0A, CHR 0x0D, CHR 0x09, CHR 0x0B})"

definition isdigit :: "char \<Rightarrow> bool" where
  "isdigit c = (let n = of_char c :: nat in 48 \<le> n \<and> n \<le> 57)"

definition digit_val :: "char \<Rightarrow> nat" where
  "digit_val c = of_char c - 48"

definition isxdigit :: "char \<Rightarrow> bool" where
  "isxdigit c = (isdigit c \<or> (let n = of_char c :: nat in (65 \<le> n \<and> n \<le> 70) \<or> (97 \<le> n \<and> n \<le> 102)))"

definition xdigit_val :: "char \<Rightarrow> nat" where
  "xdigit_val c = (let n = of_char c :: nat in
     if n \<le> 57 then n - 48 else if n \<le> 70 then n - 55 else n - 87)"

declare tolower_def [cdefs] isspace_def [cdefs] isdigit_def [cdefs] digit_val_def [cdefs]
  isxdigit_def [cdefs] xdigit_val_def [cdefs]

lemma digit_val_less: "isdigit c \<Longrightarrow> digit_val c < 10"
  by (auto simp: isdigit_def digit_val_def Let_def)

lemma xdigit_val_less: "isxdigit c \<Longrightarrow> xdigit_val c < 16"
  by (auto simp: isxdigit_def isdigit_def xdigit_val_def Let_def)

section \<open>Strings\<close>

text \<open>\<open>strspn (s, chars)\<close>: the part of the string after the longest prefix in the set.\<close>

definition skip_chars :: "(char \<Rightarrow> bool) \<Rightarrow> string \<Rightarrow> string" where
  "skip_chars P s = dropWhile P s"

definition strcasecmp_eq :: "string \<Rightarrow> string \<Rightarrow> bool" where
  "strcasecmp_eq a b = (map tolower a = map tolower b)"

text \<open>\<open>strcmp\<close>: the sign of the first difference, bytes compared as unsigned.\<close>

fun strcmp :: "string \<Rightarrow> string \<Rightarrow> int" where
  "strcmp [] [] = 0"
| "strcmp [] (b # bs) = - 1"
| "strcmp (a # as) [] = 1"
| "strcmp (a # as) (b # bs) =
     (if a = b then strcmp as bs
      else if (of_char a :: nat) < of_char b then - 1 else 1)"

text \<open>\<open>strncmp (s, p, strlen p) == 0\<close>.\<close>

definition has_prefix_str :: "string \<Rightarrow> string \<Rightarrow> bool" where
  "has_prefix_str s p = (take (length p) s = p)"

declare skip_chars_def [cdefs] strcasecmp_eq_def [cdefs] has_prefix_str_def [cdefs]

lemma strcmp_refl [simp]: "strcmp a a = 0"
  by (induction a) auto

lemma strcmp_eq_0 [simp]: "strcmp a b = 0 \<longleftrightarrow> a = b"
  by (induction a b rule: strcmp.induct) auto

lemma strcmp_antisym: "strcmp b a = - strcmp a b"
  by (induction a b rule: strcmp.induct) auto

lemma length_skip_chars [simp]: "length (skip_chars P s) \<le> length s"
  by (simp add: skip_chars_def length_dropWhile_le)

text \<open>
  Tokens of \<open>strtok\<close> over a whole string: the maximal runs of characters that are not
  delimiters, in order.
\<close>

function strtok_all :: "(char \<Rightarrow> bool) \<Rightarrow> string \<Rightarrow> string list" where
  "strtok_all D s =
     (case dropWhile D s of
        [] \<Rightarrow> []
      | c # cs \<Rightarrow> takeWhile (\<lambda>x. \<not> D x) (c # cs) # strtok_all D (dropWhile (\<lambda>x. \<not> D x) (c # cs)))"
  by pat_completeness auto
termination
proof (relation "measure (\<lambda>(D, s). length s)", goal_cases)
  case 1
  show ?case by simp
next
  case (2 D s c cs)
  have "\<not> D c" using "2" by (metis dropWhile_eq_Cons_conv)
  moreover have "length (c # cs) \<le> length s" using "2" by (metis length_dropWhile_le)
  moreover have "length (dropWhile (\<lambda>x. \<not> D x) cs) \<le> length cs" by (rule length_dropWhile_le)
  ultimately show ?case by auto
qed

declare strtok_all.simps [simp del]

lemma strtok_all_Nil [simp]: "strtok_all D [] = []"
  by (simp add: strtok_all.simps)

lemma strtok_all_token:
  assumes "t \<noteq> []" "\<forall>c \<in> set t. \<not> D c" "D d"
  shows "strtok_all D (t @ d # s) = t # strtok_all D (d # s)"
proof -
  obtain c cs where t: "t = c # cs" using assms(1) by (cases t) auto
  have "\<not> D c" using assms(2) t by simp
  then show ?thesis using assms t
    by (subst strtok_all.simps) (simp add: takeWhile_tail dropWhile_append)
qed

lemma strtok_all_delim: "D d \<Longrightarrow> strtok_all D (d # s) = strtok_all D s"
  by (subst strtok_all.simps, subst (2) strtok_all.simps) simp

lemma strtok_all_last:
  assumes "t \<noteq> []" "\<forall>c \<in> set t. \<not> D c"
  shows "strtok_all D t = [t]"
proof -
  obtain c cs where t: "t = c # cs" using assms(1) by (cases t) auto
  have "dropWhile D t = t" using assms t by simp
  moreover have "takeWhile (\<lambda>x. \<not> D x) t = t" "dropWhile (\<lambda>x. \<not> D x) t = []"
    using assms(2) by simp_all
  ultimately show ?thesis using t by (subst strtok_all.simps) simp
qed

lemma strtok_all_tokens:
  "t \<in> set (strtok_all D s) \<Longrightarrow> t \<noteq> [] \<and> (\<forall>c \<in> set t. \<not> D c \<and> c \<in> set s)"
proof (induction D s rule: strtok_all.induct)
  case (1 D s)
  show ?case
  proof (cases "dropWhile D s")
    case Nil
    with "1.prems" show ?thesis by (simp add: strtok_all.simps [of D s])
  next
    case (Cons c cs)
    have nc: "\<not> D c" using Cons by (metis dropWhile_eq_Cons_conv)
    have sub: "set (c # cs) \<subseteq> set s" using Cons by (metis set_dropWhileD subsetI)
    have "t = takeWhile (\<lambda>x. \<not> D x) (c # cs) \<or>
          t \<in> set (strtok_all D (dropWhile (\<lambda>x. \<not> D x) (c # cs)))"
      using "1.prems" Cons by (simp add: strtok_all.simps [of D s])
    then show ?thesis
    proof
      assume "t = takeWhile (\<lambda>x. \<not> D x) (c # cs)"
      then show ?thesis using nc sub by (auto dest: set_takeWhileD)
    next
      assume "t \<in> set (strtok_all D (dropWhile (\<lambda>x. \<not> D x) (c # cs)))"
      from "1.IH" [OF Cons this] have "t \<noteq> []" "\<forall>x \<in> set t. \<not> D x"
          "set t \<subseteq> set (dropWhile (\<lambda>x. \<not> D x) (c # cs))" by blast+
      moreover have "set (dropWhile (\<lambda>x. \<not> D x) (c # cs)) \<subseteq> set s"
        using sub set_dropWhileD by fastforce
      ultimately show ?thesis by blast
    qed
  qed
qed

text \<open>Joining with a separator, and \<open>strtok\<close> as its inverse on delimiter-free tokens.\<close>

fun join_sep :: "string \<Rightarrow> string list \<Rightarrow> string" where
  "join_sep d [] = []"
| "join_sep d [t] = t"
| "join_sep d (t # u # ts) = t @ d @ join_sep d (u # ts)"

lemma strtok_join_sep:
  assumes "\<forall>t \<in> set ts. t \<noteq> [] \<and> (\<forall>c \<in> set t. c \<noteq> d)"
  shows "strtok_all (\<lambda>c. c = d) (join_sep [d] ts) = ts"
  using assms
proof (induction "[d]" ts rule: join_sep.induct)
  case 1
  show ?case by simp
next
  case (2 t)
  then show ?case by (auto intro: strtok_all_last)
next
  case (3 t u ts)
  have "strtok_all (\<lambda>c. c = d) (t @ d # join_sep [d] (u # ts))
      = t # strtok_all (\<lambda>c. c = d) (d # join_sep [d] (u # ts))"
    using "3.prems" by (intro strtok_all_token) auto
  with "3" show ?case by (simp add: strtok_all_delim)
qed

section \<open>Numbers in strings\<close>

text \<open>Value of a run of digits, most significant first.\<close>

definition digits_val :: "nat \<Rightarrow> (char \<Rightarrow> nat) \<Rightarrow> string \<Rightarrow> nat" where
  "digits_val b f s = foldl (\<lambda>n c. n * b + f c) 0 s"

text \<open>
  \<open>strtoll (s, &end, 10)\<close>: leading white space, an optional sign, decimal digits. The
  result is the value clamped to 64 bits, whether it was clamped (\<open>errno\<close> set to
  \<open>ERANGE\<close>), and the rest of the string; with no digits it is 0 and the whole string.
\<close>

definition strtoll10 :: "string \<Rightarrow> int \<times> bool \<times> string" where
  "strtoll10 s =
     (let s1 = dropWhile isspace s;
          (neg, s2) = (case s1 of [] \<Rightarrow> (False, s1)
                       | c # cs \<Rightarrow> if c = CHR ''-'' then (True, cs)
                                   else if c = CHR ''+'' then (False, cs) else (False, s1));
          ds = takeWhile isdigit s2;
          v = int (digits_val 10 digit_val ds);
          n = (if neg then - v else v)
      in if ds = [] then (0, False, s)
         else if n > 2 ^ 63 - 1 then (2 ^ 63 - 1, True, dropWhile isdigit s2)
         else if n < - (2 ^ 63) then (- (2 ^ 63), True, dropWhile isdigit s2)
         else (n, False, dropWhile isdigit s2))"

text \<open>\<open>(int) strtol (s, &end, 10)\<close> on a 64-bit \<open>long\<close>: value and rest.\<close>

definition strtol10_int :: "string \<Rightarrow> int \<times> string" where
  "strtol10_int s = (case strtoll10 s of (n, _, r) \<Rightarrow> (to_int32 n, r))"

text \<open>Decimal printing of a natural number (\<open>%u\<close>).\<close>

fun show_nat :: "nat \<Rightarrow> string" where
  "show_nat n = (if n < 10 then [char_of (n + 48)] else show_nat (n div 10) @ [char_of (n mod 10 + 48)])"

declare show_nat.simps [simp del]

lemma isdigit_char_of: "d < 10 \<Longrightarrow> isdigit (char_of (d + 48 :: nat))"
  by (simp add: isdigit_def Let_def)

lemma digit_val_char_of: "d < 10 \<Longrightarrow> digit_val (char_of (d + 48 :: nat)) = d"
  by (simp add: digit_val_def)

lemma show_nat_digits: "\<forall>c \<in> set (show_nat n). isdigit c"
proof (induction n rule: show_nat.induct)
  case (1 n)
  show ?case
    by (cases "n < 10"; subst show_nat.simps) (use "1" in \<open>auto intro!: isdigit_char_of\<close>)
qed

lemma show_nat_nonempty [simp]: "show_nat n \<noteq> []"
  by (subst show_nat.simps) simp

lemma digits_val_append1: "digits_val b f (s @ [c]) = digits_val b f s * b + f c"
  by (simp add: digits_val_def)

lemma digits_val_show_nat: "digits_val 10 digit_val (show_nat n) = n"
proof (induction n rule: show_nat.induct)
  case (1 n)
  show ?case
  proof (cases "n < 10")
    case True
    then show ?thesis
      by (subst show_nat.simps) (simp add: digits_val_def digit_val_char_of)
  next
    case False
    with "1" show ?thesis
      by (subst show_nat.simps) (simp add: digits_val_append1 digit_val_char_of)
  qed
qed

lemma isdigit_not_space: "isdigit c \<Longrightarrow> \<not> isspace c"
  by (auto simp: isdigit_def isspace_def Let_def)

lemma isdigit_not_sign: "isdigit c \<Longrightarrow> c \<noteq> CHR ''-'' \<and> c \<noteq> CHR ''+''"
  by (auto simp: isdigit_def Let_def)

lemma strtoll10_show_nat:
  assumes "n < 2 ^ 63"
  shows "strtoll10 (show_nat n) = (int n, False, [])"
proof -
  obtain c cs where s: "show_nat n = c # cs" using show_nat_nonempty [of n] by (cases "show_nat n") blast+
  have d: "\<forall>x \<in> set (show_nat n). isdigit x" by (rule show_nat_digits)
  then have c: "isdigit c" using s by simp
  have cs: "\<forall>x \<in> set cs. isdigit x" using d s by simp
  have v: "digits_val 10 digit_val (c # cs) = n" using digits_val_show_nat [of n] s by simp
  have "\<not> isspace c" "c \<noteq> CHR ''-''" "c \<noteq> CHR ''+''"
    using c isdigit_not_space isdigit_not_sign by blast+
  moreover have "takeWhile isdigit cs = cs" "dropWhile isdigit cs = []"
    using cs by simp_all
  moreover have "int n \<le> 9223372036854775807" using assms by simp
  ultimately show ?thesis using c v
    by (simp add: s strtoll10_def Let_def del: takeWhile_eq_all_conv dropWhile_eq_Nil_conv)
qed

section \<open>Lists\<close>

lemma find_index_less: "i < length xs \<Longrightarrow> P (xs ! i) \<Longrightarrow> \<exists>x \<in> set xs. P x"
  using nth_mem by blast

definition remove_at :: "nat \<Rightarrow> 'a list \<Rightarrow> 'a list" where
  "remove_at i xs = take i xs @ drop (Suc i) xs"

definition insert_at :: "nat \<Rightarrow> 'a \<Rightarrow> 'a list \<Rightarrow> 'a list" where
  "insert_at i x xs = take i xs @ x # drop i xs"

lemma set_insert_at [simp]: "set (insert_at i x xs) = insert x (set xs)"
  unfolding insert_at_def
  by (metis append_take_drop_id list.simps(15) Un_insert_right set_append)

lemma length_insert_at [simp]: "length (insert_at i x xs) = Suc (length xs)"
  unfolding insert_at_def
  by (metis add_Suc_right append_take_drop_id length_Cons length_append)

lemma length_remove_at: "i < length xs \<Longrightarrow> length (remove_at i xs) = length xs - 1"
  by (simp add: remove_at_def)

lemma distinct_insert_at: "distinct (insert_at i x xs) \<longleftrightarrow> x \<notin> set xs \<and> distinct xs"
proof -
  have *: "distinct (ys @ x # zs) \<longleftrightarrow> x \<notin> set (ys @ zs) \<and> distinct (ys @ zs)" for ys zs
    by auto
  show ?thesis unfolding insert_at_def * append_take_drop_id ..
qed

lemma remove_at_insert_at: "i \<le> length xs \<Longrightarrow> remove_at i (insert_at i x xs) = xs"
  by (simp add: remove_at_def insert_at_def)

lemma set_remove_at_distinct:
  assumes "distinct xs" "i < length xs"
  shows "set (remove_at i xs) = set xs - {xs ! i}"
proof -
  have xs: "xs = take i xs @ xs ! i # drop (Suc i) xs" using assms(2) by (rule id_take_nth_drop)
  have "distinct (take i xs @ xs ! i # drop (Suc i) xs)" using assms(1) xs by metis
  then have "xs ! i \<notin> set (remove_at i xs)" by (auto simp: remove_at_def)
  moreover have "set xs = insert (xs ! i) (set (remove_at i xs))"
    by (subst xs) (auto simp: remove_at_def)
  ultimately show ?thesis by blast
qed

lemma set_remove_at_subset: "set (remove_at i xs) \<subseteq> set xs"
  by (auto simp: remove_at_def dest: in_set_takeD in_set_dropD)

lemma distinct_remove_at: "distinct xs \<Longrightarrow> distinct (remove_at i xs)"
proof -
  assume d: "distinct xs"
  have "set (take i xs) \<inter> set (drop (Suc i) xs) = {}"
    using d by (simp add: set_take_disj_set_drop_if_distinct)
  then show ?thesis using d by (simp add: remove_at_def)
qed

end
