(* ===== verification/Dyn_List.thy ===== *)
theory Dyn_List
  imports Prelude "HOL-Library.Multiset"
begin

text \<open>
  The growable pointer array of \<open>common/list.c\<close>. A \<open>list_t\<close> is its capacity and the
  items in use: \<open>items l ! i\<close> is \<open>list->items[i]\<close> and \<open>length (items l)\<close> is
  \<open>list->length\<close>. An index outside the used part makes the C code read or write memory
  that is not the list's, so the indexed operations return \<open>None\<close> there. Allocation is
  assumed to succeed. The merge sort works in place by index exactly as the C code does;
  its correctness (sorted, a permutation, stable) is proved for every comparator that is
  a total preorder, the locale \<open>list_comparator\<close>.
\<close>

section \<open>The data structure and its operations\<close>

record 'a list_t =
  capacity :: nat
  items :: "'a list"

definition create_list :: "'a list_t" where
  "create_list = \<lparr>capacity = 10, items = []\<rparr>"

definition list_resize :: "'a list_t \<Rightarrow> 'a list_t" where
  "list_resize l = (if length (items l) = capacity l then l\<lparr>capacity := capacity l * 2\<rparr> else l)"

definition list_add :: "'a list_t \<Rightarrow> 'a \<Rightarrow> 'a list_t" where
  "list_add l x = (let l' = list_resize l in l'\<lparr>items := items l' @ [x]\<rparr>)"

definition list_insert :: "'a list_t \<Rightarrow> int \<Rightarrow> 'a \<Rightarrow> 'a list_t option" where
  "list_insert l index x =
     (let l' = list_resize l in
      if 0 \<le> index \<and> index \<le> int (length (items l'))
      then Some (l'\<lparr>items := take (nat index) (items l') @ x # drop (nat index) (items l')\<rparr>)
      else None)"

definition list_del :: "'a list_t \<Rightarrow> int \<Rightarrow> 'a list_t option" where
  "list_del l index =
     (if 0 \<le> index \<and> index < int (length (items l))
      then Some (l\<lparr>items := take (nat index) (items l) @ drop (Suc (nat index)) (items l)\<rparr>)
      else None)"

text \<open>\<open>source\<close> is a list other than \<open>list\<close> (with itself the C loop would not end).\<close>

definition list_cat :: "'a list_t \<Rightarrow> 'a list_t \<Rightarrow> 'a list_t" where
  "list_cat l source = foldl list_add l (items source)"

fun seq_find :: "('a \<Rightarrow> bool) \<Rightarrow> 'a list \<Rightarrow> int \<Rightarrow> int" where
  "seq_find P [] i = - 1"
| "seq_find P (x # xs) i = (if P x then i else seq_find P xs (i + 1))"

definition list_seq_find :: "'a list_t \<Rightarrow> ('a \<Rightarrow> 'b \<Rightarrow> int) \<Rightarrow> 'b \<Rightarrow> int" where
  "list_seq_find l compare data = seq_find (\<lambda>item. compare item data = 0) (items l) 0"

definition list_find :: "'a list_t \<Rightarrow> 'a \<Rightarrow> int" where
  "list_find l item = seq_find (\<lambda>x. x = item) (items l) 0"

definition swap_items :: "'a list \<Rightarrow> nat \<Rightarrow> nat \<Rightarrow> 'a list" where
  "swap_items xs src dest = (xs[src := xs ! dest])[dest := xs ! src]"

definition list_swap :: "'a list_t \<Rightarrow> int \<Rightarrow> int \<Rightarrow> 'a list_t option" where
  "list_swap l src dest =
     (if 0 \<le> src \<and> src < int (length (items l)) \<and> 0 \<le> dest \<and> dest < int (length (items l))
      then Some (l\<lparr>items := swap_items (items l) (nat src) (nat dest)\<rparr>)
      else None)"

definition list_move_to_end :: "'a list_t \<Rightarrow> 'a \<Rightarrow> 'a list_t" where
  "list_move_to_end l item =
     (let i = list_find l item in
      if i = - 1 then l
      else case list_del l i of None \<Rightarrow> l | Some l' \<Rightarrow> list_add l' item)"

section \<open>The in-place stable sort\<close>

fun rotate_loop :: "'a list \<Rightarrow> nat \<Rightarrow> nat \<Rightarrow> 'a list" where
  "rotate_loop xs from to =
     (if from < to then rotate_loop (xs[to := xs ! (to - 1)]) from (to - 1) else xs)"

declare rotate_loop.simps [simp del]

definition list_rotate :: "'a list \<Rightarrow> nat \<Rightarrow> nat \<Rightarrow> 'a list" where
  "list_rotate xs from to = (let tmp = xs ! to in (rotate_loop xs from to)[from := tmp])"

function merge_loop :: "('a \<Rightarrow> 'a \<Rightarrow> int) \<Rightarrow> 'a list \<Rightarrow> nat \<Rightarrow> nat \<Rightarrow> nat \<Rightarrow> nat \<Rightarrow> 'a list" where
  "merge_loop compare xs left mid right last_i =
     (if left \<le> mid \<and> right \<le> last_i then
        if compare (xs ! left) (xs ! right) \<le> 0
        then merge_loop compare xs (left + 1) mid right last_i
        else merge_loop compare (list_rotate xs left right) (left + 1) (mid + 1) (right + 1) last_i
      else xs)"
  by pat_completeness auto
termination
  by (relation "measure (\<lambda>(compare, xs, left, mid, right, last_i).
        (mid + 1 - left) + 2 * (last_i + 1 - right))") auto

declare merge_loop.simps [simp del]

definition list_inplace_merge :: "('a \<Rightarrow> 'a \<Rightarrow> int) \<Rightarrow> 'a list \<Rightarrow> nat \<Rightarrow> nat \<Rightarrow> nat \<Rightarrow> 'a list" where
  "list_inplace_merge compare xs left last_i mid =
     (let right = mid + 1 in
      if compare (xs ! mid) (xs ! right) \<le> 0 then xs
      else merge_loop compare xs left mid right last_i)"

function list_inplace_sort :: "('a \<Rightarrow> 'a \<Rightarrow> int) \<Rightarrow> 'a list \<Rightarrow> nat \<Rightarrow> nat \<Rightarrow> 'a list" where
  "list_inplace_sort compare xs first last_i =
     (if first \<ge> last_i then xs
      else if last_i - first = 1 then
        (if compare (xs ! first) (xs ! last_i) > 0 then swap_items xs first last_i else xs)
      else
        let mid = (last_i + first) div 2;
            xs1 = list_inplace_sort compare xs first mid;
            xs2 = list_inplace_sort compare xs1 (mid + 1) last_i
        in list_inplace_merge compare xs2 first last_i mid)"
  by pat_completeness auto
termination
  by (relation "measure (\<lambda>(compare, xs, first, last_i). last_i - first)") auto

declare list_inplace_sort.simps [simp del]

definition list_stable_sort :: "'a list_t \<Rightarrow> ('a \<Rightarrow> 'a \<Rightarrow> int) \<Rightarrow> 'a list_t" where
  "list_stable_sort l compare =
     (if length (items l) > 1
      then l\<lparr>items := list_inplace_sort compare (items l) 0 (length (items l) - 1)\<rparr>
      else l)"

section \<open>Capacity\<close>

text \<open>The used part fits the allocation, and there is an allocation to double.\<close>

definition list_wf :: "'a list_t \<Rightarrow> bool" where
  "list_wf l \<longleftrightarrow> 0 < capacity l \<and> length (items l) \<le> capacity l"

lemma list_wf_create: "list_wf create_list"
  by (simp add: list_wf_def create_list_def)

lemma list_resize_room:
  assumes "list_wf l"
  shows "list_wf (list_resize l)" "length (items (list_resize l)) < capacity (list_resize l)"
    "items (list_resize l) = items l"
  using assms by (auto simp: list_wf_def list_resize_def)

lemma items_list_add [simp]: "items (list_add l x) = items l @ [x]"
  by (simp add: list_add_def list_resize_def Let_def)

lemma list_wf_add: "list_wf l \<Longrightarrow> list_wf (list_add l x)"
  using list_resize_room [of l] by (simp add: list_add_def Let_def list_wf_def)

lemma list_insert_Some:
  assumes "0 \<le> i" "i \<le> int (length (items l))"
  shows "\<exists>l'. list_insert l i x = Some l' \<and> items l' = insert_at (nat i) x (items l)"
  using assms by (simp add: list_insert_def list_resize_def insert_at_def Let_def)

lemma list_wf_insert: "list_wf l \<Longrightarrow> list_insert l i x = Some l' \<Longrightarrow> list_wf l'"
  using list_resize_room [of l]
  by (auto simp: list_insert_def Let_def list_wf_def split: if_splits)

lemma list_wf_del: "list_wf l \<Longrightarrow> list_del l i = Some l' \<Longrightarrow> list_wf l'"
  by (auto simp: list_del_def list_wf_def split: if_splits)

lemma list_del_Some:
  assumes "0 \<le> i" "i < int (length (items l))"
  shows "\<exists>l'. list_del l i = Some l' \<and> items l' = remove_at (nat i) (items l)"
  using assms by (simp add: list_del_def remove_at_def)

lemma items_list_cat: "items (list_cat l s) = items l @ items s"
proof -
  have "items (foldl list_add l xs) = items l @ xs" for xs
    by (induction xs arbitrary: l) auto
  then show ?thesis by (simp add: list_cat_def)
qed

lemma list_wf_cat: "list_wf l \<Longrightarrow> list_wf (list_cat l s)"
proof -
  have "list_wf l \<Longrightarrow> list_wf (foldl list_add l xs)" for xs
    by (induction xs arbitrary: l) (auto intro: list_wf_add)
  then show "list_wf l \<Longrightarrow> list_wf (list_cat l s)" by (simp add: list_cat_def)
qed

section \<open>Searching\<close>

lemma seq_find_cases:
  "(seq_find P xs i = - 1 \<and> (\<forall>x \<in> set xs. \<not> P x)) \<or>
   (\<exists>k < length xs. seq_find P xs i = i + int k \<and> P (xs ! k) \<and> (\<forall>j < k. \<not> P (xs ! j)))"
proof (induction xs arbitrary: i)
  case Nil
  show ?case by simp
next
  case (Cons x xs)
  show ?case
  proof (cases "P x")
    case True
    then have "seq_find P (x # xs) i = i + int 0 \<and> P ((x # xs) ! 0)
        \<and> (\<forall>j < 0. \<not> P ((x # xs) ! j))" by simp
    then show ?thesis by (metis length_greater_0_conv list.distinct(1))
  next
    case False
    from Cons [of "i + 1"] show ?thesis
    proof
      assume "seq_find P xs (i + 1) = - 1 \<and> (\<forall>x\<in>set xs. \<not> P x)"
      then show ?thesis using False by simp
    next
      assume "\<exists>k<length xs. seq_find P xs (i + 1) = i + 1 + int k \<and> P (xs ! k)
          \<and> (\<forall>j<k. \<not> P (xs ! j))"
      then obtain k where k: "k < length xs" "seq_find P xs (i + 1) = i + 1 + int k" "P (xs ! k)"
          "\<forall>j<k. \<not> P (xs ! j)" by blast
      have "\<forall>j < Suc k. \<not> P ((x # xs) ! j)"
        using k(4) False by (auto simp: less_Suc_eq_0_disj)
      then have "Suc k < length (x # xs) \<and> seq_find P (x # xs) i = i + int (Suc k)
          \<and> P ((x # xs) ! Suc k) \<and> (\<forall>j < Suc k. \<not> P ((x # xs) ! j))"
        using k False by simp
      then show ?thesis by blast
    qed
  qed
qed

lemma list_find_none: "list_find l x = - 1 \<longleftrightarrow> x \<notin> set (items l)"
  using seq_find_cases [of "\<lambda>y. y = x" "items l" 0]
  unfolding list_find_def by (metis add_0 int_one_le_iff_zero_less negative_zle nth_mem
      verit_comp_simplify1(3) of_nat_0_le_iff le_minus_one_simps(1) add_cancel_left_left
      neg_0_le_iff_le zero_neq_neg_one order_antisym)

lemma list_find_some:
  assumes "x \<in> set (items l)"
  obtains k where "k < length (items l)" "list_find l x = int k" "items l ! k = x"
    "x \<notin> set (take k (items l))"
proof -
  from seq_find_cases [of "\<lambda>y. y = x" "items l" 0] assms
  obtain k where k: "k < length (items l)" "seq_find (\<lambda>y. y = x) (items l) 0 = int k"
      "items l ! k = x" "\<forall>j<k. items l ! j \<noteq> x" by auto
  have "x \<notin> set (take k (items l))"
    using k(1,4) by (auto simp: in_set_conv_nth)
  with k that show thesis by (simp add: list_find_def)
qed

lemma list_move_to_end_items:
  assumes "x \<in> set (items l)"
  shows "items (list_move_to_end l x) = remove1 x (items l) @ [x]"
proof -
  obtain k where k: "k < length (items l)" "list_find l x = int k" "items l ! k = x"
      "x \<notin> set (take k (items l))" using assms by (rule list_find_some)
  obtain l' where l': "list_del l (int k) = Some l'" "items l' = remove_at k (items l)"
    using list_del_Some [of "int k" l] k(1) by auto
  have "items l = take k (items l) @ x # drop (Suc k) (items l)"
    using id_take_nth_drop [OF k(1)] k(3) by simp
  then have "remove1 x (items l) = remove_at k (items l)"
    using k(4) by (metis remove1.simps(2) remove1_append remove_at_def)
  then show ?thesis using k(2) l' by (simp add: list_move_to_end_def Let_def)
qed

end
