(* ===== verification/Dyn_List_Sort.thy ===== *)
theory Dyn_List_Sort
  imports Dyn_List
begin

text \<open>
  Correctness of \<open>list_stable_sort\<close> of \<open>common/list.c\<close>. The in-place merge by rotation
  computes the list merge \<open>smerge\<close> on the segment it works on and leaves the rest of the
  array alone; the sort computes the recursive merge sort \<open>msort\<close> of its segment. For a
  comparator that is a total preorder (locale \<open>list_comparator\<close>) the result is sorted, a
  permutation of the input, and keeps the order of equivalent items.
\<close>

fun smerge :: "('a \<Rightarrow> 'a \<Rightarrow> int) \<Rightarrow> 'a list \<Rightarrow> 'a list \<Rightarrow> 'a list" where
  "smerge cmp [] ys = ys"
| "smerge cmp (x # xs) [] = x # xs"
| "smerge cmp (x # xs) (y # ys) =
     (if cmp x y \<le> 0 then x # smerge cmp xs (y # ys) else y # smerge cmp (x # xs) ys)"

lemma smerge_induct [case_names left right both]:
  fixes cmp :: "'a \<Rightarrow> 'a \<Rightarrow> int"
  assumes "\<And>ys. P [] ys" "\<And>x xs. P (x # xs) []"
    "\<And>x xs y ys. (cmp x y \<le> 0 \<Longrightarrow> P xs (y # ys)) \<Longrightarrow>
       (\<not> cmp x y \<le> 0 \<Longrightarrow> P (x # xs) ys) \<Longrightarrow> P (x # xs) (y # ys)"
  shows "P xs ys"
  using assms by (induction cmp xs ys rule: smerge.induct) auto

section \<open>The index-level loops compute list functions\<close>

lemma rotate_loop_shift:
  "rotate_loop (pre @ A @ b # post) (length pre) (length pre + length A) =
     (if A = [] then pre @ b # post else pre @ hd A # A @ post)"
proof (induction A arbitrary: b post rule: rev_induct)
  case Nil
  show ?case by (simp add: rotate_loop.simps)
next
  case (snoc a A)
  have upd: "(pre @ (A @ [a]) @ b # post)[length pre + length (A @ [a]) := a] = pre @ A @ a # a # post"
    by (simp add: list_update_append)
  have nth: "(pre @ (A @ [a]) @ b # post) ! (length pre + length (A @ [a]) - 1) = a"
    by (simp add: nth_append)
  have "rotate_loop (pre @ (A @ [a]) @ b # post) (length pre) (length pre + length (A @ [a]))
      = rotate_loop (pre @ A @ a # a # post) (length pre) (length pre + length A)"
    by (subst rotate_loop.simps) (simp only: nth upd, simp)
  then show ?case using snoc [of a "a # post"] by (cases A) simp_all
qed

lemma list_rotate_segment:
  "list_rotate (pre @ A @ b # post) (length pre) (length pre + length A) = pre @ b # A @ post"
  by (simp add: list_rotate_def rotate_loop_shift nth_append Let_def list_update_append)

lemma merge_loop_segment:
  assumes "mid + 1 = length pre + length A" "last_i + 1 = mid + 1 + length B"
  shows "merge_loop cmp (pre @ A @ B @ post) (length pre) mid (mid + 1) last_i
    = pre @ smerge cmp A B @ post"
  using assms
proof (induction cmp A B arbitrary: pre mid last_i rule: smerge.induct)
  case (1 cmp ys)
  then show ?case by (subst merge_loop.simps) simp
next
  case (2 cmp x xs)
  then show ?case by (subst merge_loop.simps) simp
next
  case (3 cmp x xs y ys)
  have l: "(pre @ (x # xs) @ (y # ys) @ post) ! length pre = x" by simp
  have r: "(pre @ (x # xs) @ (y # ys) @ post) ! (mid + 1) = y"
    using "3.prems"(1) by (simp add: nth_append)
  have guard: "length pre \<le> mid \<and> mid + 1 \<le> last_i" using "3.prems" by simp
  show ?case
  proof (cases "cmp x y \<le> 0")
    case True
    have "merge_loop cmp (pre @ (x # xs) @ (y # ys) @ post) (length pre) mid (mid + 1) last_i
      = merge_loop cmp ((pre @ [x]) @ xs @ (y # ys) @ post) (length (pre @ [x])) mid (mid + 1) last_i"
      using guard l r True by (subst merge_loop.simps) simp
    also have "\<dots> = (pre @ [x]) @ smerge cmp xs (y # ys) @ post"
      by (rule "3.IH"(1) [OF True]) (use "3.prems" in auto)
    finally show ?thesis using True by simp
  next
    case False
    have rot: "list_rotate (pre @ (x # xs) @ (y # ys) @ post) (length pre) (mid + 1)
        = (pre @ [y]) @ (x # xs) @ ys @ post"
      using list_rotate_segment [of pre "x # xs" y "ys @ post"] "3.prems"(1) by simp
    have "merge_loop cmp (pre @ (x # xs) @ (y # ys) @ post) (length pre) mid (mid + 1) last_i
      = merge_loop cmp ((pre @ [y]) @ (x # xs) @ ys @ post) (length (pre @ [y])) (mid + 1) (mid + 1 + 1) last_i"
      using guard l r False rot by (subst merge_loop.simps) simp
    also have "\<dots> = (pre @ [y]) @ smerge cmp (x # xs) ys @ post"
      by (rule "3.IH"(2) [OF False]) (use "3.prems" in auto)
    finally show ?thesis using False by simp
  qed
qed

section \<open>Comparators\<close>

text \<open>
  The contract of a comparator of \<open>list_stable_sort\<close>: its sign is a total preorder.
\<close>

locale list_comparator =
  fixes compare :: "'a \<Rightarrow> 'a \<Rightarrow> int"
  assumes total: "compare x y \<le> 0 \<or> compare y x \<le> 0"
    and trans: "compare x y \<le> 0 \<Longrightarrow> compare y z \<le> 0 \<Longrightarrow> compare x z \<le> 0"
begin

definition equiv :: "'a \<Rightarrow> 'a \<Rightarrow> bool" where
  "equiv x y \<longleftrightarrow> compare x y \<le> 0 \<and> compare y x \<le> 0"

definition sorted_by :: "'a list \<Rightarrow> bool" where
  "sorted_by xs \<longleftrightarrow> sorted_wrt (\<lambda>x y. compare x y \<le> 0) xs"

text \<open>What a stable sort promises of its result.\<close>

definition stable_sorting :: "'a list \<Rightarrow> 'a list \<Rightarrow> bool" where
  "stable_sorting xs ys \<longleftrightarrow> sorted_by ys \<and> mset ys = mset xs
     \<and> (\<forall>a. filter (equiv a) ys = filter (equiv a) xs)"

lemma set_smerge: "set (smerge compare xs ys) = set xs \<union> set ys"
  by (induction xs ys rule: smerge_induct [where cmp = compare]) auto

lemma mset_smerge: "mset (smerge compare xs ys) = mset xs + mset ys"
  by (induction xs ys rule: smerge_induct [where cmp = compare]) auto

lemma not_le: "\<not> compare x y \<le> 0 \<Longrightarrow> compare y x \<le> 0"
  using total by blast

lemma sorted_smerge: "sorted_by xs \<Longrightarrow> sorted_by ys \<Longrightarrow> sorted_by (smerge compare xs ys)"
proof (induction xs ys rule: smerge_induct [where cmp = compare])
  case (both x xs y ys)
  then show ?case
    by (fastforce simp: sorted_by_def set_smerge dest: not_le intro: trans)
qed (auto simp: sorted_by_def)

lemma filter_smerge:
  "sorted_by xs \<Longrightarrow> sorted_by ys \<Longrightarrow>
     filter (equiv a) (smerge compare xs ys) = filter (equiv a) xs @ filter (equiv a) ys"
proof (induction xs ys rule: smerge_induct [where cmp = compare])
  case (both x xs y ys)
  show ?case
  proof (cases "compare x y \<le> 0")
    case True
    with both show ?thesis by (auto simp: sorted_by_def)
  next
    case False
    have none: "filter (equiv a) (x # xs) = []" if "equiv a y"
    proof -
      have "\<not> equiv a z" if "z \<in> set (x # xs)" for z
      proof
        assume "equiv a z"
        have "compare x z \<le> 0" using that both.prems(1) total [of x x] by (auto simp: sorted_by_def)
        with \<open>equiv a z\<close> \<open>equiv a y\<close> have "compare x y \<le> 0"
          unfolding equiv_def by (blast intro: trans)
        with False show False by simp
      qed
      then show ?thesis by (simp add: filter_empty_conv)
    qed
    have "filter (equiv a) (smerge compare (x # xs) ys) = filter (equiv a) (x # xs) @ filter (equiv a) ys"
      using both.IH(2) [OF False] both.prems by (simp add: sorted_by_def)
    then show ?thesis using False none by (cases "equiv a y") simp_all
  qed
qed auto

lemma smerge_ordered:
  assumes "sorted_by xs" "sorted_by ys" "xs \<noteq> []" "ys \<noteq> []" "compare (last xs) (hd ys) \<le> 0"
  shows "smerge compare xs ys = xs @ ys"
  using assms
proof (induction xs ys rule: smerge_induct [where cmp = compare])
  case (both x xs y ys)
  have "compare x (last (x # xs)) \<le> 0"
    using both.prems(1) total [of x x] by (cases "xs = []") (auto simp: sorted_by_def)
  with both.prems(5) have "compare x y \<le> 0" by (auto intro: trans)
  with both show ?case by (cases xs) (auto simp: sorted_by_def)
qed auto

lemma inplace_merge_segment:
  assumes "sorted_by A" "sorted_by B" "A \<noteq> []" "B \<noteq> []"
    "mid + 1 = length pre + length A" "last_i + 1 = mid + 1 + length B"
  shows "list_inplace_merge compare (pre @ A @ B @ post) (length pre) last_i mid
    = pre @ smerge compare A B @ post"
proof -
  have mid: "(pre @ A @ B @ post) ! mid = last A"
  proof -
    have mid: "mid = length pre + (length A - 1)" and less: "length A - 1 < length A"
      using assms(3,5) by (cases A; simp)+
    show ?thesis unfolding mid using assms(3) less
      by (simp only: nth_append_length_plus nth_append [of A] last_conv_nth) (simp add: last_conv_nth)
  qed
  have right: "(pre @ A @ B @ post) ! (mid + 1) = hd B"
    using assms(4,5) by (simp add: nth_append hd_conv_nth)
  show ?thesis
  proof (cases "compare (last A) (hd B) \<le> 0")
    case True
    then show ?thesis using mid right smerge_ordered [OF assms(1,2,3,4)]
      by (simp add: list_inplace_merge_def Let_def)
  next
    case False
    then show ?thesis using mid right merge_loop_segment [OF assms(5,6)]
      by (simp add: list_inplace_merge_def Let_def)
  qed
qed

lemma stable_sorting_refl: "sorted_by xs \<Longrightarrow> stable_sorting xs xs"
  by (simp add: stable_sorting_def)

lemma stable_sorting_merge:
  assumes "stable_sorting A A'" "stable_sorting B B'"
  shows "stable_sorting (A @ B) (smerge compare A' B')"
  using assms by (simp add: stable_sorting_def sorted_smerge mset_smerge filter_smerge)

lemma stable_sorting_length: "stable_sorting A B \<Longrightarrow> length B = length A"
  by (metis stable_sorting_def size_mset)

text \<open>Sorting the segment from \<open>first\<close> to \<open>last_i\<close> sorts it stably and touches nothing else.\<close>

lemma inplace_sort_segment:
  assumes "S \<noteq> []" "first = length pre" "last_i + 1 = length pre + length S"
  shows "\<exists>S'. list_inplace_sort compare (pre @ S @ post) first last_i = pre @ S' @ post
     \<and> stable_sorting S S'"
  using assms
proof (induction "length S" arbitrary: S pre post first last_i rule: less_induct)
  case less
  have len: "last_i - first = length S - 1" using less.prems by (cases S) auto
  consider (one) a where "S = [a]" | (two) a b where "S = [a, b]"
    | (many) "3 \<le> length S"
    using less.prems(1) by (cases S; cases "tl S"; cases "tl (tl S)") auto
  then show ?case
  proof cases
    case one
    then show ?thesis using less.prems
      by (subst list_inplace_sort.simps) (auto intro!: stable_sorting_refl simp: sorted_by_def)
  next
    case two
    let ?xs = "pre @ S @ post"
    have i: "first = length pre" "last_i = length pre + 1" using less.prems two by auto
    have n: "?xs ! first = a" "?xs ! last_i = b" using i two by (simp_all add: nth_append)
    show ?thesis
    proof (cases "compare a b > 0")
      case True
      have "\<not> (equiv c a \<and> equiv c b)" for c
        using True trans [of a c b] by (auto simp: equiv_def)
      then have "filter (equiv c) [b, a] = filter (equiv c) [a, b]" for c by auto
      then have "stable_sorting S [b, a]"
        using True two not_le [of a b] by (simp add: stable_sorting_def sorted_by_def)
      moreover have "swap_items ?xs first last_i = pre @ [b, a] @ post"
        using n i two by (simp add: swap_items_def list_update_append)
      ultimately show ?thesis
        using True n i by (subst list_inplace_sort.simps) auto
    next
      case False
      then have "stable_sorting S S" using two by (auto simp: sorted_by_def intro!: stable_sorting_refl)
      then show ?thesis using False n i two by (subst list_inplace_sort.simps) auto
    qed
  next
    case many
    define mid where "mid = (last_i + first) div 2"
    define k where "k = mid + 1 - first"
    let ?A = "take k S" and ?B = "drop k S"
    have whole: "pre @ ?A @ ?B @ post = pre @ S @ post"
      by (simp only: append_assoc [symmetric] append_same_eq) (simp add: append_assoc)
    have bounds: "first \<le> mid" "mid < last_i" using many less.prems unfolding mid_def by auto
    have kb: "0 < k" "k < length S" "mid + 1 = length pre + k"
      using bounds less.prems unfolding k_def by auto
    have la: "length ?A = k" "length ?B = length S - k" using kb by simp_all
    obtain A' where A': "list_inplace_sort compare (pre @ ?A @ (?B @ post)) first mid = pre @ A' @ (?B @ post)"
        "stable_sorting ?A A'"
      using less.hyps [of ?A first pre mid "?B @ post"] kb la less.prems by auto
    obtain B' where B': "list_inplace_sort compare ((pre @ A') @ ?B @ post) (mid + 1) last_i = (pre @ A') @ B' @ post"
        "stable_sorting ?B B'"
      using less.hyps [of ?B "mid + 1" "pre @ A'" last_i post] kb la less.prems stable_sorting_length [OF A'(2)]
      by auto
    have lens: "length A' = k" "length B' = length S - k"
      using stable_sorting_length [OF A'(2)] stable_sorting_length [OF B'(2)] la by simp_all
    have unfold: "list_inplace_sort compare (pre @ S @ post) first last_i
        = list_inplace_merge compare (list_inplace_sort compare
            (list_inplace_sort compare (pre @ S @ post) first mid) (mid + 1) last_i) first last_i mid"
    proof -
      have "\<not> first \<ge> last_i" "last_i - first \<noteq> 1" using len many by auto
      then show ?thesis unfolding mid_def
        by (subst list_inplace_sort.simps) (simp only: Let_def if_False)
    qed
    have first_half: "list_inplace_sort compare (pre @ S @ post) first mid = pre @ A' @ ?B @ post"
      using A'(1) unfolding whole .
    have second_half: "list_inplace_sort compare (pre @ A' @ ?B @ post) (mid + 1) last_i
        = pre @ A' @ B' @ post" using B'(1) by simp
    have "list_inplace_merge compare (pre @ A' @ B' @ post) (length pre) last_i mid
        = pre @ smerge compare A' B' @ post"
      using A'(2) B'(2) lens kb less.prems
      by (intro inplace_merge_segment) (auto simp: stable_sorting_def)
    then have "list_inplace_sort compare (pre @ S @ post) first last_i
        = pre @ smerge compare A' B' @ post"
      unfolding unfold first_half second_half using less.prems(2) by simp
    moreover have "stable_sorting S (smerge compare A' B')"
      using stable_sorting_merge [OF A'(2) B'(2)] by simp
    ultimately show ?thesis by blast
  qed
qed

lemma list_stable_sort_stable: "stable_sorting (items l) (items (list_stable_sort l compare))"
proof (cases "length (items l) > 1")
  case True
  then have "items l \<noteq> []" by auto
  then obtain S' where "list_inplace_sort compare ([] @ items l @ []) 0 (length (items l) - 1) = [] @ S' @ []"
      "stable_sorting (items l) S'"
    using inplace_sort_segment [of "items l" 0 "[]" "length (items l) - 1" "[]"] by auto
  then show ?thesis using True by (simp add: list_stable_sort_def)
next
  case False
  then have "sorted_by (items l)" by (cases "items l") (auto simp: sorted_by_def)
  then show ?thesis using False by (simp add: list_stable_sort_def stable_sorting_refl)
qed

end

end
