(* ===== verification/String_Ops.thy ===== *)
theory String_Ops
  imports Prelude
begin

text \<open>
  The string functions of \<open>common/stringop.c\<close>. Functions that rewrite a buffer in place
  (\<open>strip_whitespace\<close>, \<open>unescape_string\<close>) are modelled on the buffer, by index, with the
  terminator as its last character and \<open>None\<close> for an access outside it; functions that walk
  a pointer over a string (\<open>strip_quotes\<close>, \<open>split_args\<close>, \<open>argsep\<close>) are recursions on the
  rest of the string or on offsets. \<open>wordexp\<close>, which \<open>expand_path\<close> calls, is a parameter.
\<close>

section \<open>Trimming and quotes\<close>

abbreviation NUL :: char where "NUL \<equiv> CHR 0x00"
abbreviation BACKSLASH :: char where "BACKSLASH \<equiv> CHR 0x5C"
abbreviation DQUOTE :: char where "DQUOTE \<equiv> CHR 0x22"
abbreviation SQUOTE :: char where "SQUOTE \<equiv> CHR 0x27"
abbreviation SPACE :: char where "SPACE \<equiv> CHR '' ''"

text \<open>The loop \<open>for (...; isspace(str[len]); --len)\<close>; \<open>None\<close> if it would run below index 0.\<close>

fun trim_end :: "string \<Rightarrow> nat \<Rightarrow> nat option" where
  "trim_end s 0 = (if isspace (s ! 0) then None else Some 0)"
| "trim_end s (Suc n) = (if isspace (s ! Suc n) then trim_end s n else Some (Suc n))"

definition strip_whitespace :: "string \<Rightarrow> string option" where
  "strip_whitespace str =
     (let len = length str;
          start = length (takeWhile isspace str);
          str' = drop start str
      in if str' = [] then Some []
         else do { e \<leftarrow> trim_end str' (len - (start + 1)); Some (take (e + 1) str') })"

fun strip_quotes_loop :: "bool \<Rightarrow> bool \<Rightarrow> bool \<Rightarrow> string \<Rightarrow> string" where
  "strip_quotes_loop in_str in_chr escaped [] = []"
| "strip_quotes_loop in_str in_chr escaped (c # cs) =
     (if c = SQUOTE \<and> \<not> in_str \<and> \<not> escaped then strip_quotes_loop in_str (\<not> in_chr) escaped cs
      else if c = DQUOTE \<and> \<not> in_chr \<and> \<not> escaped then strip_quotes_loop (\<not> in_str) in_chr escaped cs
      else if c = BACKSLASH then c # strip_quotes_loop in_str in_chr (\<not> escaped) cs
      else c # strip_quotes_loop in_str in_chr False cs)"

definition strip_quotes :: "string \<Rightarrow> string" where
  "strip_quotes str = strip_quotes_loop False False False str"

section \<open>Null-tolerant helpers\<close>

text \<open>A nullable \<open>char *\<close> is a \<open>string option\<close>.\<close>

definition lenient_strcat :: "string option \<Rightarrow> string option \<Rightarrow> string option" where
  "lenient_strcat dest src =
     (case (dest, src) of (Some d, Some s) \<Rightarrow> Some (d @ s) | _ \<Rightarrow> dest)"

definition lenient_strncat :: "string option \<Rightarrow> string option \<Rightarrow> nat \<Rightarrow> string option" where
  "lenient_strncat dest src len =
     (case (dest, src) of (Some d, Some s) \<Rightarrow> Some (d @ take len s) | _ \<Rightarrow> dest)"

definition lenient_strcmp :: "string option \<Rightarrow> string option \<Rightarrow> int" where
  "lenient_strcmp a b =
     (case (a, b) of (None, None) \<Rightarrow> 0 | (None, Some _) \<Rightarrow> - 1 | (Some _, None) \<Rightarrow> 1
      | (Some x, Some y) \<Rightarrow> strcmp x y)"

definition has_prefix :: "string \<Rightarrow> string \<Rightarrow> bool" where
  "has_prefix str prefix = has_prefix_str str prefix"

section \<open>Splitting and joining\<close>

definition split_string :: "string \<Rightarrow> string \<Rightarrow> string list" where
  "split_string str delims = strtok_all (\<lambda>c. c \<in> set delims) str"

text \<open>
  The body of the loop of \<open>split_args\<close> with \<open>in_token\<close> set: \<open>tok\<close> are the characters
  from \<open>start\<close> to \<open>end\<close>, the last argument is the string at \<open>end\<close>. At the end of a token
  the next round of the loop skips the white space before the following one; at the end of
  the string the loop leaves with the token as the last argument.
\<close>

function split_args_loop :: "bool \<Rightarrow> bool \<Rightarrow> bool \<Rightarrow> bool \<Rightarrow> string \<Rightarrow> string \<Rightarrow> string list" where
  "split_args_loop in_string in_char in_brackets escaped tok s =
     (case s of
        [] \<Rightarrow> if tok = [] then [] else [tok]
      | c # cs \<Rightarrow>
          if c = DQUOTE \<and> \<not> in_char \<and> \<not> escaped
          then split_args_loop (\<not> in_string) in_char in_brackets False (tok @ [c]) cs
          else if c = SQUOTE \<and> \<not> in_string \<and> \<not> escaped
          then split_args_loop in_string (\<not> in_char) in_brackets False (tok @ [c]) cs
          else if c = CHR ''['' \<and> \<not> in_string \<and> \<not> in_char \<and> \<not> in_brackets \<and> \<not> escaped
          then split_args_loop in_string in_char True False (tok @ [c]) cs
          else if c = CHR '']'' \<and> \<not> in_string \<and> \<not> in_char \<and> in_brackets \<and> \<not> escaped
          then split_args_loop in_string in_char False False (tok @ [c]) cs
          else if c = BACKSLASH
          then split_args_loop in_string in_char in_brackets (\<not> escaped) (tok @ [c]) cs
          else if \<not> in_string \<and> \<not> in_char \<and> \<not> in_brackets \<and> \<not> escaped \<and> isspace c
          then (if tok = [] then [] else [tok]) @
               split_args_loop in_string in_char in_brackets False [] (dropWhile isspace cs)
          else split_args_loop in_string in_char in_brackets False (tok @ [c]) cs)"
  by pat_completeness auto
termination
  by (relation "measure (\<lambda>(_, _, _, _, _, s). length s)")
     (auto simp: less_Suc_eq_le length_dropWhile_le)

declare split_args_loop.simps [simp del]

definition split_args :: "string option \<Rightarrow> string list" where
  "split_args start =
     (case start of None \<Rightarrow> []
      | Some s \<Rightarrow> split_args_loop False False False False [] (dropWhile isspace s))"

definition join_args :: "string list \<Rightarrow> string option" where
  "join_args argv =
     (if argv = [] then None else Some (butlast (concat (map (\<lambda>a. a @ [SPACE]) argv))))"

section \<open>Escapes\<close>

text \<open>The one-letter escapes of the \<open>switch\<close>.\<close>

definition simple_escape :: "char \<Rightarrow> char option" where
  "simple_escape c =
     (if c = CHR ''a'' then Some (CHR 0x07) else if c = CHR ''b'' then Some (CHR 0x08)
      else if c = CHR ''f'' then Some (CHR 0x0C) else if c = CHR ''n'' then Some (CHR 0x0A)
      else if c = CHR ''r'' then Some (CHR 0x0D) else if c = CHR ''t'' then Some (CHR 0x09)
      else if c = CHR ''v'' then Some (CHR 0x0B) else if c = BACKSLASH then Some BACKSLASH
      else if c = SQUOTE then Some SQUOTE else if c = DQUOTE then Some DQUOTE
      else if c = CHR ''?'' then Some (CHR ''?'') else None)"

text \<open>
  The first loop of \<open>unescape_string\<close> on the buffer \<open>b\<close>, terminator included. The result is
  the rewritten buffer and the value of an early return; \<open>None\<close> when the loop reads past the
  end of the buffer. Every escape leaves NULs in the places it no longer needs.
\<close>

function unescape_scan :: "string \<Rightarrow> nat \<Rightarrow> (string \<times> nat option) option" where
  "unescape_scan b i =
     (if length b \<le> i then None
      else if b ! i = NUL then Some (b, None)
      else if b ! i \<noteq> BACKSLASH then unescape_scan b (i + 1)
      else
        let j = i + 1 in
        if length b \<le> j then None
        else if b ! j = CHR ''0'' then Some (b[j - 1 := NUL], Some (j - 1))
        else case simple_escape (b ! j) of
            Some c \<Rightarrow> unescape_scan (b[j - 1 := c, j := NUL]) (j + 1)
          | None \<Rightarrow>
            if b ! j = CHR ''x'' then
              (if j + 1 < length b \<and> isdigit (b ! (j + 1)) then
                 (if j + 2 < length b \<and> isdigit (b ! (j + 2)) then
                    unescape_scan
                      (b[j + 2 := NUL, j + 1 := NUL, j := NUL,
                         j - 1 := char_of (digit_val (b ! (j + 1)) * 16 + digit_val (b ! (j + 2)))])
                      (j + 1)
                  else
                    unescape_scan
                      (b[j + 1 := NUL, j := NUL, j - 1 := char_of (digit_val (b ! (j + 1)))]) (j + 1))
               else unescape_scan (b[j := NUL, j - 1 := NUL]) (j + 1))
            else unescape_scan b (j + 1))"
  by pat_completeness auto
termination
  by (relation "measure (\<lambda>(b, i). length b - i)") auto

declare unescape_scan.simps [simp del]

text \<open>
  The whole function: the returned length and the C string left in the buffer. The second
  loop shifts the characters over the NULs, up to the original length; the early return for
  \<open>\0\<close> does not shift, so the string ends at the first NUL of the buffer.
\<close>

definition unescape_string :: "string \<Rightarrow> (nat \<times> string) option" where
  "unescape_string str =
     (case unescape_scan (str @ [NUL]) 0 of
        None \<Rightarrow> None
      | Some (b, Some n) \<Rightarrow> Some (n, takeWhile (\<lambda>c. c \<noteq> NUL) b)
      | Some (b, None) \<Rightarrow>
          (let r = filter (\<lambda>c. c \<noteq> NUL) (take (length str) b) in Some (length r, r)))"

section \<open>\<open>argsep\<close>\<close>

text \<open>\<open>strpbrk (s + from, set)\<close> as an offset into \<open>s\<close>.\<close>

definition strpbrk_from :: "string \<Rightarrow> nat \<Rightarrow> (char \<Rightarrow> bool) \<Rightarrow> nat option" where
  "strpbrk_from s from P =
     (let n = length (takeWhile (\<lambda>c. \<not> P c) (drop from s))
      in if from + n < length s then Some (from + n) else None)"

definition argsep_next_interesting :: "string \<Rightarrow> nat \<Rightarrow> string \<Rightarrow> nat option" where
  "argsep_next_interesting s from delim =
     (let special = strpbrk_from s from (\<lambda>c. c \<in> {DQUOTE, SQUOTE, BACKSLASH});
          next_delim = strpbrk_from s from (\<lambda>c. c \<in> set delim)
      in case special of None \<Rightarrow> next_delim
         | Some sp \<Rightarrow> (case next_delim of None \<Rightarrow> Some sp
                        | Some nd \<Rightarrow> if nd < sp then Some nd else Some sp))"

text \<open>
  The loop on the offsets \<open>start\<close> and \<open>end\<close>. The result is the token, the rest of the
  string (\<open>*stringp\<close> afterwards, \<open>None\<close> for \<open>NULL\<close>) and the matched delimiter.
\<close>

lemma strpbrk_from_bounds:
  "strpbrk_from s from P = Some i \<Longrightarrow> from \<le> i \<and> i < length s \<and> P (s ! i) \<and> (\<forall>j. from \<le> j \<and> j < i \<longrightarrow> \<not> P (s ! j))"
proof -
  assume a: "strpbrk_from s from P = Some i"
  define n where "n = length (takeWhile (\<lambda>c. \<not> P c) (drop from s))"
  have i: "i = from + n" "from + n < length s"
    using a by (auto simp: strpbrk_from_def n_def Let_def split: if_splits)
  have n: "n < length (drop from s)" using i by simp
  have "P (drop from s ! n)" using nth_length_takeWhile [of "\<lambda>c. \<not> P c" "drop from s"] n
    by (simp add: n_def)
  moreover have "\<not> P (s ! j)" if "from \<le> j" "j < i" for j
  proof -
    have jn: "j - from < length (takeWhile (\<lambda>c. \<not> P c) (drop from s))"
      using that i by (simp add: n_def)
    then have "takeWhile (\<lambda>c. \<not> P c) (drop from s) ! (j - from) = drop from s ! (j - from)"
      by (rule takeWhile_nth)
    moreover have "takeWhile (\<lambda>c. \<not> P c) (drop from s) ! (j - from)
        \<in> set (takeWhile (\<lambda>c. \<not> P c) (drop from s))" using jn by (rule nth_mem)
    ultimately have "\<not> P (drop from s ! (j - from))" using set_takeWhileD by metis
    then show ?thesis using that i(2) by simp
  qed
  ultimately show ?thesis using i by auto
qed

lemma strpbrk_from_None:
  assumes "strpbrk_from s from P = None" "from \<le> k" "k < length s"
  shows "\<not> P (s ! k)"
proof -
  have "length (drop from s) \<le> length (takeWhile (\<lambda>c. \<not> P c) (drop from s))"
    using assms by (auto simp: strpbrk_from_def Let_def split: if_splits)
  then have "takeWhile (\<lambda>c. \<not> P c) (drop from s) = drop from s"
    by (metis length_takeWhile_le order_antisym takeWhile_eq_take take_all)
  then have "\<forall>c \<in> set (drop from s). \<not> P c" by (metis takeWhile_eq_all_conv)
  moreover have "s ! k \<in> set (drop from s)"
    using assms(2,3) nth_mem [of "k - from" "drop from s"] by simp
  ultimately show ?thesis by blast
qed

lemma next_interesting_bounds:
  assumes "argsep_next_interesting s from delim = Some i"
  shows "from \<le> i \<and> i < length s"
    and "s ! i \<in> {DQUOTE, SQUOTE, BACKSLASH} \<union> set delim"
    and "from \<le> j \<Longrightarrow> j < i \<Longrightarrow> s ! j \<notin> {DQUOTE, SQUOTE, BACKSLASH} \<union> set delim"
proof -
  let ?S = "\<lambda>c. c \<in> {DQUOTE, SQUOTE, BACKSLASH}" and ?D = "\<lambda>c. c \<in> set delim"
  have none: "strpbrk_from s from P = None \<Longrightarrow> from \<le> k \<Longrightarrow> k < length s \<Longrightarrow> \<not> P (s ! k)" for P k
    by (rule strpbrk_from_None)
  consider (s) "strpbrk_from s from ?S = Some i" "\<forall>k. from \<le> k \<and> k < i \<longrightarrow> \<not> ?D (s ! k)"
    | (d) "strpbrk_from s from ?D = Some i" "\<forall>k. from \<le> k \<and> k < i \<longrightarrow> \<not> ?S (s ! k)"
    using assms none [of ?S] none [of ?D]
    unfolding argsep_next_interesting_def Let_def
    by (auto split: option.splits if_splits dest!: strpbrk_from_bounds)
  note cases = this
  show "from \<le> i \<and> i < length s"
    using cases by cases (auto dest: strpbrk_from_bounds)
  show "s ! i \<in> {DQUOTE, SQUOTE, BACKSLASH} \<union> set delim"
    using cases by cases (auto dest: strpbrk_from_bounds)
  show "from \<le> j \<Longrightarrow> j < i \<Longrightarrow> s ! j \<notin> {DQUOTE, SQUOTE, BACKSLASH} \<union> set delim"
    using cases by cases (auto dest!: strpbrk_from_bounds)
qed

function argsep_loop ::
  "string \<Rightarrow> string \<Rightarrow> nat \<Rightarrow> nat \<Rightarrow> bool \<Rightarrow> bool \<Rightarrow> bool \<Rightarrow> string \<times> string option \<times> char" where
  "argsep_loop s delim start end_i in_string in_char escaped =
     (case argsep_next_interesting s end_i delim of
        None \<Rightarrow> (drop start s, None, NUL)
      | Some i \<Rightarrow>
          let escaped = (if escaped \<and> i \<noteq> end_i then False else escaped) in
          if s ! i = DQUOTE \<and> \<not> in_char \<and> \<not> escaped
          then argsep_loop s delim start (i + 1) (\<not> in_string) in_char escaped
          else if s ! i = SQUOTE \<and> \<not> in_string \<and> \<not> escaped
          then argsep_loop s delim start (i + 1) in_string (\<not> in_char) escaped
          else if s ! i = BACKSLASH
          then argsep_loop s delim start (i + 1) in_string in_char (\<not> escaped)
          else if \<not> in_string \<and> \<not> in_char \<and> \<not> escaped
          then (if i \<noteq> start then (take (i - start) (drop start s), Some (drop (i + 1) s), s ! i)
                else argsep_loop s delim (start + 1) (start + 1) in_string in_char escaped)
          else argsep_loop s delim start (end_i + 1) in_string in_char escaped)"
  by pat_completeness auto
termination
  by (relation "measure (\<lambda>(s, delim, start, end_i, _). length s - end_i)")
     (auto simp: diff_less_mono2 dest!: next_interesting_bounds(1) split: if_splits)

declare argsep_loop.simps [simp del]

definition argsep :: "string \<Rightarrow> string \<Rightarrow> string \<times> string option \<times> char" where
  "argsep stringp delim = argsep_loop stringp delim 0 0 False False False"

section \<open>\<open>expand_path\<close>\<close>

text \<open>
  The loop that puts a backslash between two adjacent spaces until no such pair is left,
  and the expansion; \<open>wordexp\<close> gives the words, or \<open>None\<close> when it fails.
\<close>

fun escape_spaces :: "string \<Rightarrow> string" where
  "escape_spaces (a # b # cs) =
     (if a = SPACE \<and> b = SPACE then a # BACKSLASH # escape_spaces (b # cs)
      else a # escape_spaces (b # cs))"
| "escape_spaces s = s"

definition expand_path :: "(string \<Rightarrow> string list option) \<Rightarrow> string \<Rightarrow> string option" where
  "expand_path wordexp path =
     (case wordexp (escape_spaces path) of
        None \<Rightarrow> None
      | Some words \<Rightarrow> if words = [] then None else join_args words)"

end
