(* ===== verification/String_Laws.thy ===== *)
theory String_Laws
  imports String_Ops
begin

text \<open>
  What the string functions of \<open>common/stringop.c\<close> guarantee: trimming and quoting against
  their list specifications, the round trip of \<open>join_args\<close> and \<open>split_args\<close>, the in-place
  escape scanner against a recursive specification and its memory bounds, and the
  decomposition and quoting laws of \<open>argsep\<close>.
\<close>

section \<open>Trimming\<close>

lemma trim_end_take:
  "n < length s \<Longrightarrow> trim_end s n = Some e \<Longrightarrow>
     take (e + 1) s = rev (dropWhile isspace (rev (take (Suc n) s)))"
  by (induction n) (auto simp: take_Suc_conv_app_nth split: if_splits)

lemma trim_end_stops:
  "n < length s \<Longrightarrow> \<not> isspace (s ! 0) \<Longrightarrow> \<exists>e. trim_end s n = Some e"
  by (induction n) auto

text \<open>\<open>strip_whitespace\<close> never reads outside its buffer and leaves exactly the string
  without its leading and trailing white space.\<close>

theorem strip_whitespace_correct:
  "strip_whitespace s = Some (rev (dropWhile isspace (rev (dropWhile isspace s))))"
proof -
  define t where "t = dropWhile isspace s"
  have t: "drop (length (takeWhile isspace s)) s = t" by (simp add: t_def dropWhile_eq_drop)
  have len: "length s - (length (takeWhile isspace s) + 1) = length t - 1"
    unfolding t [symmetric] by simp
  show ?thesis
  proof (cases t)
    case Nil
    then show ?thesis unfolding strip_whitespace_def Let_def t t_def [symmetric] by simp
  next
    case (Cons c cs)
    then have "\<not> isspace (t ! 0)" unfolding t_def by (metis dropWhile_eq_Cons_conv nth_Cons_0)
    then obtain e where e: "trim_end t (length t - 1) = Some e"
      using trim_end_stops [of "length t - 1" t] Cons by auto
    have "take (e + 1) t = rev (dropWhile isspace (rev t))"
      using trim_end_take [OF _ e] Cons by simp
    then show ?thesis using Cons e
      unfolding strip_whitespace_def Let_def t t_def [symmetric] len by simp
  qed
qed

section \<open>Quotes\<close>

lemma strip_quotes_in_string:
  "\<forall>c \<in> set s. c \<noteq> DQUOTE \<and> c \<noteq> BACKSLASH \<Longrightarrow>
     strip_quotes_loop True False False (s @ r) = s @ strip_quotes_loop True False False r"
  by (induction s) auto

lemma strip_quotes_plain:
  "\<forall>c \<in> set s. c \<noteq> DQUOTE \<and> c \<noteq> SQUOTE \<and> c \<noteq> BACKSLASH \<Longrightarrow> strip_quotes s = s"
proof -
  assume "\<forall>c \<in> set s. c \<noteq> DQUOTE \<and> c \<noteq> SQUOTE \<and> c \<noteq> BACKSLASH"
  then have "strip_quotes_loop False False False s = s" by (induction s) auto
  then show ?thesis by (simp add: strip_quotes_def)
qed

lemma strip_quotes_quoted:
  assumes "\<forall>c \<in> set s. c \<noteq> DQUOTE \<and> c \<noteq> BACKSLASH"
  shows "strip_quotes (DQUOTE # s @ [DQUOTE]) = s"
  using strip_quotes_in_string [OF assms, of "[DQUOTE]"] by (simp add: strip_quotes_def)

section \<open>\<open>split_args\<close> and \<open>join_args\<close>\<close>

definition plain_char :: "char \<Rightarrow> bool" where
  "plain_char c = (\<not> isspace c \<and> c \<notin> {DQUOTE, SQUOTE, BACKSLASH, CHR ''['', CHR '']''})"

definition quoted_word :: "string \<Rightarrow> bool" where
  "quoted_word w = (2 \<le> length w \<and> hd w = DQUOTE \<and> last w = DQUOTE \<and>
     list_all (\<lambda>c. c \<noteq> DQUOTE \<and> c \<noteq> BACKSLASH) (butlast (tl w)))"

text \<open>An argument as a user writes it: a plain word, or anything in double quotes.\<close>

definition arg_word :: "string \<Rightarrow> bool" where
  "arg_word w = ((w \<noteq> [] \<and> list_all plain_char w) \<or> quoted_word w)"

lemma split_args_plain:
  "list_all plain_char w \<Longrightarrow>
     split_args_loop False False False False tok (w @ s) = split_args_loop False False False False (tok @ w) s"
proof (induction w arbitrary: tok)
  case (Cons c w)
  then show ?case
    by (subst split_args_loop.simps) (simp add: plain_char_def)
qed simp

lemma split_args_in_string:
  "list_all (\<lambda>c. c \<noteq> DQUOTE \<and> c \<noteq> BACKSLASH) w \<Longrightarrow>
     split_args_loop True False False False tok (w @ s) = split_args_loop True False False False (tok @ w) s"
proof (induction w arbitrary: tok)
  case (Cons c w)
  then show ?case
    by (subst split_args_loop.simps) simp
qed simp

lemma quoted_wordE:
  assumes "quoted_word w"
  obtains b where "w = DQUOTE # b @ [DQUOTE]" "list_all (\<lambda>c. c \<noteq> DQUOTE \<and> c \<noteq> BACKSLASH) b"
proof -
  obtain x t where w: "w = x # t" "t \<noteq> []" using assms by (cases w; cases "tl w") (auto simp: quoted_word_def)
  then have "t = butlast t @ [last t]" by simp
  with w assms that show thesis by (auto simp: quoted_word_def)
qed

lemma split_args_word:
  assumes "arg_word w"
  shows "split_args_loop False False False False [] (w @ s) = split_args_loop False False False False w s"
proof (cases "quoted_word w")
  case True
  then obtain b where b: "w = DQUOTE # b @ [DQUOTE]" "list_all (\<lambda>c. c \<noteq> DQUOTE \<and> c \<noteq> BACKSLASH) b"
    by (rule quoted_wordE)
  have "split_args_loop False False False False [] (w @ s)
      = split_args_loop True False False False [DQUOTE] (b @ DQUOTE # s)"
    unfolding b by (subst split_args_loop.simps) simp
  also have "\<dots> = split_args_loop True False False False ([DQUOTE] @ b) (DQUOTE # s)"
    by (rule split_args_in_string [OF b(2)])
  also have "\<dots> = split_args_loop False False False False w s"
    unfolding b by (subst split_args_loop.simps) simp
  finally show ?thesis .
next
  case False
  then show ?thesis using assms split_args_plain [of w "[]" s] by (simp add: arg_word_def)
qed

lemma arg_word_hd: "arg_word w \<Longrightarrow> w \<noteq> [] \<and> \<not> isspace (hd w)"
  by (cases w) (auto simp: arg_word_def quoted_word_def plain_char_def isspace_def)

lemma join_args_sep: "argv \<noteq> [] \<Longrightarrow> join_args argv = Some (join_sep [SPACE] argv)"
proof -
  assume a: "argv \<noteq> []"
  have "ws \<noteq> [] \<Longrightarrow> butlast (concat (map (\<lambda>a. a @ [SPACE]) ws)) = join_sep [SPACE] ws" for ws
    by (induction "[SPACE]" ws rule: join_sep.induct) (auto simp: butlast_append)
  with a show ?thesis by (simp add: join_args_def)
qed

lemma dropWhile_join:
  "list_all arg_word ws \<Longrightarrow> dropWhile isspace (join_sep [SPACE] ws) = join_sep [SPACE] ws"
  by (induction "[SPACE]" ws rule: join_sep.induct)
     (auto dest!: arg_word_hd simp: neq_Nil_conv)

lemma split_args_join_loop:
  "list_all arg_word ws \<Longrightarrow> split_args_loop False False False False [] (join_sep [SPACE] ws) = ws"
proof (induction "[SPACE]" ws rule: join_sep.induct)
  case 1
  then show ?case by (subst split_args_loop.simps) simp
next
  case (2 t)
  then have "split_args_loop False False False False [] (t @ []) = split_args_loop False False False False t []"
    by (intro split_args_word) simp
  then show ?case using "2" arg_word_hd by (subst (asm) (2) split_args_loop.simps) (auto)
next
  case (3 t u ts)
  have t: "t \<noteq> []" using "3.prems" arg_word_hd by auto
  have "split_args_loop False False False False [] (t @ SPACE # join_sep [SPACE] (u # ts))
      = split_args_loop False False False False t (SPACE # join_sep [SPACE] (u # ts))"
    using "3.prems" by (intro split_args_word) simp
  also have "\<dots> = t # split_args_loop False False False False [] (join_sep [SPACE] (u # ts))"
    using t "3.prems" dropWhile_join [of "u # ts"]
    by (subst split_args_loop.simps) (simp add: isspace_def)
  finally show ?case using "3" by simp
qed

text \<open>C24. Joining arguments with \<open>join_args\<close> and splitting the line again gives the same
  arguments, for plain words and for words in double quotes, which may hold spaces and
  brackets.\<close>

theorem split_args_join_args:
  assumes "argv \<noteq> []" "list_all arg_word argv"
  shows "split_args (join_args argv) = argv"
  using assms by (simp add: join_args_sep split_args_def dropWhile_join split_args_join_loop)

lemma split_args_join_args_witness:
  "split_args (join_args [''workspace'', [DQUOTE, CHR ''a'', SPACE, CHR ''b'', DQUOTE]])
     = [''workspace'', [DQUOTE, CHR ''a'', SPACE, CHR ''b'', DQUOTE]]"
  by (rule split_args_join_args)
     (simp_all add: arg_word_def plain_char_def quoted_word_def isspace_def)

section \<open>\<open>unescape_string\<close>\<close>

text \<open>What the escapes mean, and the strings on which they are all one-letter escapes.\<close>

fun unescape_spec :: "string \<Rightarrow> string" where
  "unescape_spec (c # d # cs) =
     (if c = BACKSLASH
      then (case simple_escape d of Some e \<Rightarrow> e # unescape_spec cs | None \<Rightarrow> c # d # unescape_spec cs)
      else c # unescape_spec (d # cs))"
| "unescape_spec s = s"

fun simple_escapes :: "string \<Rightarrow> bool" where
  "simple_escapes (c # d # cs) =
     (if c = BACKSLASH then d \<noteq> CHR ''0'' \<and> d \<noteq> CHR ''x'' \<and> simple_escapes cs
      else simple_escapes (d # cs))"
| "simple_escapes [c] = (c \<noteq> BACKSLASH)"
| "simple_escapes [] = True"

text \<open>No escape is cut off by the end of the string.\<close>

fun escapes_closed :: "string \<Rightarrow> bool" where
  "escapes_closed (c # d # cs) = (if c = BACKSLASH then escapes_closed cs else escapes_closed (d # cs))"
| "escapes_closed [c] = (c \<noteq> BACKSLASH)"
| "escapes_closed [] = True"

lemma simple_escape_not_NUL: "simple_escape c = Some d \<Longrightarrow> d \<noteq> NUL"
  by (auto simp: simple_escape_def split: if_splits)

lemma unescape_scan_NUL: "b ! i = NUL \<Longrightarrow> i < length b \<Longrightarrow> unescape_scan b i = Some (b, None)"
  by (subst unescape_scan.simps) simp

lemma unescape_scan_skip:
  "c \<noteq> NUL \<Longrightarrow> c \<noteq> BACKSLASH \<Longrightarrow>
     unescape_scan (pre @ c # s) (length pre) = unescape_scan ((pre @ [c]) @ s) (length (pre @ [c]))"
  by (subst unescape_scan.simps) simp

lemma unescape_scan_escape:
  assumes "simple_escape d = Some e" "d \<noteq> CHR ''0''"
  shows "unescape_scan (pre @ BACKSLASH # d # s) (length pre)
    = unescape_scan ((pre @ [e, NUL]) @ s) (length (pre @ [e, NUL]))"
  using assms
  by (subst unescape_scan.simps) (simp add: nth_append list_update_append Let_def)

lemma unescape_scan_unknown:
  assumes "simple_escape d = None" "d \<noteq> CHR ''0''" "d \<noteq> CHR ''x''"
  shows "unescape_scan (pre @ BACKSLASH # d # s) (length pre)
    = unescape_scan ((pre @ [BACKSLASH, d]) @ s) (length (pre @ [BACKSLASH, d]))"
  using assms
  by (subst unescape_scan.simps) (simp add: nth_append Let_def)

lemma unescape_scan_spec:
  assumes "simple_escapes s" "NUL \<notin> set s"
  shows "\<exists>q. unescape_scan (pre @ s @ [NUL]) (length pre) = Some (pre @ q @ [NUL], None)
    \<and> length q = length s \<and> filter (\<lambda>c. c \<noteq> NUL) q = unescape_spec s"
  using assms
proof (induction s arbitrary: pre rule: unescape_spec.induct [case_names pair empty single])
  case (pair c d cs)
  show ?case
  proof (cases "c = BACKSLASH")
    case True
    note c = True
    show ?thesis
    proof (cases "simple_escape d")
      case None
      obtain q where q: "unescape_scan ((pre @ [BACKSLASH, d]) @ cs @ [NUL]) (length (pre @ [BACKSLASH, d]))
          = Some ((pre @ [BACKSLASH, d]) @ q @ [NUL], None)"
          "length q = length cs" "filter (\<lambda>c. c \<noteq> NUL) q = unescape_spec cs"
        using pair.IH(1) [OF True None, of "pre @ [BACKSLASH, d]"] pair.prems c by auto
      show ?thesis
        by (rule exI [of _ "BACKSLASH # d # q"])
           (use q None c pair.prems unescape_scan_unknown [OF None, of pre "cs @ [NUL]"] in auto)
    next
      case (Some e)
      obtain q where q: "unescape_scan ((pre @ [e, NUL]) @ cs @ [NUL]) (length (pre @ [e, NUL]))
          = Some ((pre @ [e, NUL]) @ q @ [NUL], None)"
          "length q = length cs" "filter (\<lambda>c. c \<noteq> NUL) q = unescape_spec cs"
        using pair.IH(2) [OF True Some, of "pre @ [e, NUL]"] pair.prems c by auto
      show ?thesis
        by (rule exI [of _ "e # NUL # q"])
           (use q Some c pair.prems simple_escape_not_NUL [OF Some]
              unescape_scan_escape [OF Some, of pre "cs @ [NUL]"] in auto)
    qed
  next
    case False
    obtain q where q: "unescape_scan ((pre @ [c]) @ (d # cs) @ [NUL]) (length (pre @ [c]))
        = Some ((pre @ [c]) @ q @ [NUL], None)"
        "length q = length (d # cs)" "filter (\<lambda>c. c \<noteq> NUL) q = unescape_spec (d # cs)"
      using pair.IH(3) [OF False, of "pre @ [c]"] pair.prems False by auto
    show ?thesis
      by (rule exI [of _ "c # q"])
         (use q False pair.prems unescape_scan_skip [of c pre "d # cs @ [NUL]"] in auto)
  qed
next
  case empty
  show ?case by (rule exI [of _ "[]"]) (simp add: unescape_scan_NUL)
next
  case (single c)
  then have "unescape_scan (pre @ [c, NUL]) (length pre) = Some (pre @ [c, NUL], None)"
    using unescape_scan_skip [of c pre "[NUL]"] unescape_scan_NUL [of "pre @ [c, NUL]" "length pre + 1"]
    by (simp add: nth_append)
  then show ?case using single by (intro exI [of _ "[c]"]) simp
qed

text \<open>C23. On every string whose escapes are one-letter escapes, the in-place index loops of
  \<open>unescape_string\<close> compute the recursive specification of the escapes, and the returned
  length is that of the result.\<close>

theorem unescape_string_spec:
  assumes "simple_escapes s" "NUL \<notin> set s"
  shows "unescape_string s = Some (length (unescape_spec s), unescape_spec s)"
proof -
  obtain q where q: "unescape_scan (s @ [NUL]) 0 = Some (q @ [NUL], None)"
      "length q = length s" "filter (\<lambda>c. c \<noteq> NUL) q = unescape_spec s"
    using unescape_scan_spec [OF assms, of "[]"] by auto
  have "take (length s) (q @ [NUL]) = q" using q(2) by simp
  then show ?thesis using q by (simp add: unescape_string_def Let_def)
qed

lemma unescape_string_spec_witness:
  "unescape_string [CHR ''a'', BACKSLASH, CHR ''n'', CHR ''b''] = Some (3, [CHR ''a'', CHR 0x0A, CHR ''b''])"
  using unescape_string_spec [of "[CHR ''a'', BACKSLASH, CHR ''n'', CHR ''b'']"]
  by (simp add: simple_escape_def)

lemma unescape_scan_hex:
  assumes "pre @ BACKSLASH # CHR ''x'' # s = b"
  shows "\<exists>b'. length b' = length b \<and>
     (unescape_scan b (length pre) = Some (b', None) \<or>
      b' = pre @ NUL # NUL # s \<and>
      unescape_scan b (length pre) = unescape_scan ((pre @ [NUL, NUL]) @ s) (length (pre @ [NUL, NUL])))"
proof -
  define i where "i = length pre"
  have s: "b ! (i + 2 + k) = s ! k" for k
    using assms [symmetric] by (simp add: i_def nth_append add.assoc)
  have b: "b ! i = BACKSLASH" "b ! (i + 1) = CHR ''x''" "i + 1 < length b"
    using assms [symmetric] by (simp_all add: i_def nth_append)
  have len: "length b = i + 2 + length s" using assms [symmetric] by (simp add: i_def)
  let ?c = "i + 2 < length b \<and> isdigit (b ! (i + 2))"
  let ?d = "i + 3 < length b \<and> isdigit (b ! (i + 3))"
  have unf: "unescape_scan b i =
      (if ?c then (if ?d then
          unescape_scan (b[i + 3 := NUL, i + 2 := NUL, i + 1 := NUL,
             i := char_of (digit_val (b ! (i + 2)) * 16 + digit_val (b ! (i + 3)))]) (i + 2)
        else unescape_scan (b[i + 2 := NUL, i + 1 := NUL, i := char_of (digit_val (b ! (i + 2)))]) (i + 2))
       else unescape_scan (b[i + 1 := NUL, i := NUL]) (i + 2))"
    using b by (subst unescape_scan.simps) (simp add: Let_def simple_escape_def numeral_2_eq_2 numeral_3_eq_3)
  show ?thesis
  proof (cases ?c)
    case True
    define B where "B = (if ?d
      then b[i + 3 := NUL, i + 2 := NUL, i + 1 := NUL,
             i := char_of (digit_val (b ! (i + 2)) * 16 + digit_val (b ! (i + 3)))]
      else b[i + 2 := NUL, i + 1 := NUL, i := char_of (digit_val (b ! (i + 2)))])"
    have B: "length B = length b" "B ! (i + 2) = NUL" using True by (auto simp: B_def)
    have "unescape_scan b i = unescape_scan B (i + 2)" unfolding unf B_def using True by simp
    also have "\<dots> = Some (B, None)" using True B by (intro unescape_scan_NUL) auto
    finally show ?thesis using B by (auto simp: i_def)
  next
    case False
    have "b[i + 1 := NUL, i := NUL] = (pre @ [NUL, NUL]) @ s"
      using assms [symmetric] by (simp add: i_def list_update_append)
    moreover have "unescape_scan b i = unescape_scan (b[i + 1 := NUL, i := NUL]) (i + 2)"
      unfolding unf using False by (simp only: if_False)
    ultimately show ?thesis
      by (intro exI [of _ "pre @ NUL # NUL # s"]) (simp add: i_def len)
  qed
qed

lemma unescape_scan_total:
  assumes "escapes_closed s" "NUL \<notin> set s"
  shows "\<exists>b r. unescape_scan (pre @ s @ [NUL]) (length pre) = Some (b, r)
    \<and> length b = length pre + length s + 1"
  using assms
proof (induction s arbitrary: pre rule: escapes_closed.induct)
  case (1 c d cs)
  show ?case
  proof (cases "c = BACKSLASH")
    case True
    consider (zero) "d = CHR ''0''" | (hex) "d = CHR ''x''"
      | (esc) e where "simple_escape d = Some e" "d \<noteq> CHR ''0''"
      | (other) "simple_escape d = None" "d \<noteq> CHR ''0''" "d \<noteq> CHR ''x''" by (cases "simple_escape d") auto
    then show ?thesis
    proof cases
      case zero
      then show ?thesis using True
        by (subst unescape_scan.simps) (simp add: nth_append Let_def)
    next
      case hex
      have IH: "\<exists>b r. unescape_scan ((pre @ [NUL, NUL]) @ cs @ [NUL]) (length (pre @ [NUL, NUL])) = Some (b, r)
          \<and> length b = length (pre @ [NUL, NUL]) + length cs + 1"
        by (rule "1.IH"(1) [OF True]) (use "1.prems" True in auto)
      from unescape_scan_hex [of pre "cs @ [NUL]" "pre @ (c # d # cs) @ [NUL]"] True hex IH
      show ?thesis by auto
    next
      case esc
      then show ?thesis using "1.IH"(1) [OF True, of "pre @ [e, NUL]"] "1.prems" True
        unescape_scan_escape [OF esc, of pre "cs @ [NUL]"] by auto
    next
      case other
      then show ?thesis using "1.IH"(1) [OF True, of "pre @ [BACKSLASH, d]"] "1.prems" True
        unescape_scan_unknown [OF other, of pre "cs @ [NUL]"] by auto
    qed
  next
    case False
    then show ?thesis using "1.IH"(2) [OF False, of "pre @ [c]"] "1.prems"
      unescape_scan_skip [of c pre "d # cs @ [NUL]"] by auto
  qed
next
  case (2 c)
  then show ?case
    using unescape_scan_skip [of c pre "[NUL]"] unescape_scan_NUL [of "pre @ [c, NUL]" "length pre + 1"]
    by (simp add: nth_append)
next
  case 3
  show ?case by (simp add: unescape_scan_NUL)
qed



text \<open>A string that ends in a lone backslash makes \<open>unescape_string\<close> step over its
  terminator: the loop continues behind the buffer.\<close>

theorem unescape_string_dangling:
  assumes "BACKSLASH \<notin> set s" "NUL \<notin> set s"
  shows "unescape_string (s @ [BACKSLASH]) = None"
proof -
  have "unescape_scan (pre @ s @ [BACKSLASH, NUL]) (length pre) = None" for pre
    using assms
  proof (induction s arbitrary: pre)
    case Nil
    show ?case
      by (subst unescape_scan.simps)
         (simp add: nth_append simple_escape_def Let_def unescape_scan.simps [of "pre @ [BACKSLASH, NUL]" "Suc (Suc (length pre))"])
  next
    case (Cons c s)
    then have c: "c \<noteq> NUL" "c \<noteq> BACKSLASH" by auto
    have "unescape_scan ((pre @ [c]) @ s @ [BACKSLASH, NUL]) (length (pre @ [c])) = None"
      by (rule Cons.IH) (use Cons.prems in auto)
    with unescape_scan_skip [OF c] show ?case by (metis append_Cons)
  qed
  from this [of "[]"] show ?thesis by (simp add: unescape_string_def)
qed

lemma unescape_string_dangling_witness: "unescape_string [CHR ''a'', BACKSLASH] = None"
  using unescape_string_dangling [of "''a''"] by simp

section \<open>\<open>argsep\<close>\<close>

abbreviation interesting :: "string \<Rightarrow> char set" where
  "interesting delim \<equiv> {DQUOTE, SQUOTE, BACKSLASH} \<union> set delim"

lemma next_interesting_exists:
  assumes "from \<le> k" "k < length s" "s ! k \<in> interesting delim"
  obtains i where "argsep_next_interesting s from delim = Some i" "from \<le> i" "i \<le> k"
proof -
  have some: "strpbrk_from s from (\<lambda>c. c \<in> {DQUOTE, SQUOTE, BACKSLASH}) \<noteq> None
      \<or> strpbrk_from s from (\<lambda>c. c \<in> set delim) \<noteq> None"
    using strpbrk_from_None [OF _ assms(1,2)] assms(3) by blast
  then have "argsep_next_interesting s from delim \<noteq> None"
    unfolding argsep_next_interesting_def Let_def by (auto split: option.splits)
  then obtain i where i: "argsep_next_interesting s from delim = Some i" by blast
  have "i \<le> k"
    using next_interesting_bounds(3) [OF i, of k] assms by (meson not_le)
  with i next_interesting_bounds(1) [OF i] that show thesis by blast
qed

text \<open>What \<open>argsep\<close> returns: the token, the rest and the delimiter, after the delimiters
  it skipped.\<close>

definition argsep_splits :: "string \<Rightarrow> string \<Rightarrow> nat \<Rightarrow> string \<times> string option \<times> char \<Rightarrow> bool" where
  "argsep_splits s delim start res \<longleftrightarrow>
     (case res of (tok, rest, m) \<Rightarrow>
        \<exists>lead. set lead \<subseteq> set delim \<and>
          (case rest of None \<Rightarrow> drop start s = lead @ tok \<and> m = NUL
           | Some r \<Rightarrow> drop start s = lead @ tok @ m # r \<and> tok \<noteq> [] \<and> m \<in> set delim))"

lemma argsep_splits_skip:
  assumes "start < length s" "s ! start \<in> set delim" "argsep_splits s delim (start + 1) res"
  shows "argsep_splits s delim start res"
proof -
  have d: "drop start s = s ! start # drop (start + 1) s" using assms(1) by (simp add: Cons_nth_drop_Suc)
  obtain tok rest m where r: "res = (tok, rest, m)" by (cases res)
  with assms(3) obtain lead where l: "set lead \<subseteq> set delim"
      "case rest of None \<Rightarrow> drop (start + 1) s = lead @ tok \<and> m = NUL
       | Some r \<Rightarrow> drop (start + 1) s = lead @ tok @ m # r \<and> tok \<noteq> [] \<and> m \<in> set delim"
    unfolding argsep_splits_def prod.case by blast
  show ?thesis unfolding argsep_splits_def r prod.case
    by (rule exI [of _ "s ! start # lead"]) (use l assms(2) d in \<open>auto split: option.splits\<close>)
qed

lemma argsep_loop_splits:
  assumes "start \<le> end_i" "end_i \<le> length s"
  shows "argsep_splits s delim start (argsep_loop s delim start end_i ins inc esc)"
  using assms
proof (induction s delim start end_i ins inc esc rule: argsep_loop.induct)
  case (1 s delim start end_i ins inc esc)
  show ?case
  proof (cases "argsep_next_interesting s end_i delim")
    case None
    then show ?thesis
      by (subst argsep_loop.simps) (auto simp: argsep_splits_def intro: exI [of _ "[]"])
  next
    case (Some i)
    note b = next_interesting_bounds(1,2) [OF Some]
    note IH = "1.IH" [OF Some refl]
    have e: "start \<le> i" "i + 1 \<le> length s" "end_i + 1 \<le> length s" "start \<le> end_i + 1"
      using b "1.prems" by auto
    define esc' where "esc' = (if esc \<and> i \<noteq> end_i then False else esc)"
    have unf: "argsep_loop s delim start end_i ins inc esc =
      (if s ! i = DQUOTE \<and> \<not> inc \<and> \<not> esc' then argsep_loop s delim start (i + 1) (\<not> ins) inc esc'
       else if s ! i = SQUOTE \<and> \<not> ins \<and> \<not> esc' then argsep_loop s delim start (i + 1) ins (\<not> inc) esc'
       else if s ! i = BACKSLASH then argsep_loop s delim start (i + 1) ins inc (\<not> esc')
       else if \<not> ins \<and> \<not> inc \<and> \<not> esc'
       then (if i \<noteq> start then (take (i - start) (drop start s), Some (drop (i + 1) s), s ! i)
             else argsep_loop s delim (start + 1) (start + 1) ins inc esc')
       else argsep_loop s delim start (end_i + 1) ins inc esc')"
      by (subst argsep_loop.simps) (simp add: Some Let_def esc'_def)
    show ?thesis
    proof (cases "s ! i \<noteq> BACKSLASH \<and> \<not> ins \<and> \<not> inc \<and> \<not> esc' \<and> s ! i \<noteq> DQUOTE \<and> s ! i \<noteq> SQUOTE")
      case True
      then have d: "s ! i \<in> set delim" using b by auto
      show ?thesis
      proof (cases "i = start")
        case True': True
        have "argsep_splits s delim (start + 1) (argsep_loop s delim (start + 1) (start + 1) ins inc esc')"
          using IH(4) True True' e unfolding esc'_def by simp
        then show ?thesis unfolding unf using True True' d e
          by (auto intro: argsep_splits_skip)
      next
        case False
        have "drop start s = take (i - start) (drop start s) @ s ! i # drop (i + 1) s"
          using e b(1) False by (metis Cons_nth_drop_Suc Suc_eq_plus1 append_take_drop_id drop_drop le_add_diff_inverse2)
        moreover have "take (i - start) (drop start s) \<noteq> []" using False e b(1) by auto
        ultimately show ?thesis unfolding unf using True False d
          by (auto simp: argsep_splits_def intro!: exI [of _ "[]"])
      qed
    next
      case False
      then show ?thesis unfolding unf using IH(1,2,3,5) e unfolding esc'_def [symmetric] by auto
    qed
  qed
qed

text \<open>\<open>argsep\<close> loses nothing: the string is the skipped delimiters, the token, the matched
  delimiter and the rest, in this order; with no delimiter left the token is all of it.\<close>

theorem argsep_decompose:
  "\<exists>lead. set lead \<subseteq> set delim \<and>
     (case argsep s delim of
        (tok, None, m) \<Rightarrow> s = lead @ tok \<and> m = NUL
      | (tok, Some r, m) \<Rightarrow> s = lead @ tok @ m # r \<and> tok \<noteq> [] \<and> m \<in> set delim)"
  using argsep_loop_splits [of 0 0 s delim False False False]
  by (fastforce simp: argsep_splits_def argsep_def split: prod.splits option.splits)

lemma argsep_in_string:
  assumes "end_i \<le> q" "q < length s" "s ! q = DQUOTE"
    "\<forall>j. end_i \<le> j \<and> j < q \<longrightarrow> s ! j \<noteq> DQUOTE \<and> s ! j \<noteq> BACKSLASH"
  shows "argsep_loop s delim start end_i True False False = argsep_loop s delim start (q + 1) False False False"
  using assms
proof (induction "q - end_i" arbitrary: end_i rule: less_induct)
  case less
  obtain i where i: "argsep_next_interesting s end_i delim = Some i" "end_i \<le> i" "i \<le> q"
    using next_interesting_exists [OF less.prems(1,2)] less.prems(3) by auto
  show ?case
  proof (cases "i = q")
    case True
    then show ?thesis using i less.prems by (subst argsep_loop.simps) simp
  next
    case False
    then have "s ! i \<noteq> DQUOTE" "s ! i \<noteq> BACKSLASH" using less.prems(4) i by auto
    then have "argsep_loop s delim start end_i True False False
        = argsep_loop s delim start (end_i + 1) True False False"
      using i by (subst argsep_loop.simps) simp
    also have "\<dots> = argsep_loop s delim start (q + 1) False False False"
      using False i less.prems by (intro less.hyps) auto
    finally show ?thesis .
  qed
qed

lemma argsep_loop_separator:
  assumes "end_i \<le> k" "k < length s" "start < k" "s ! k \<in> set delim"
    "s ! k \<notin> {DQUOTE, SQUOTE, BACKSLASH}"
    "\<forall>j. end_i \<le> j \<and> j < k \<longrightarrow> s ! j \<notin> interesting delim"
  shows "argsep_loop s delim start end_i False False False
    = (take (k - start) (drop start s), Some (drop (k + 1) s), s ! k)"
proof -
  obtain i where i: "argsep_next_interesting s end_i delim = Some i" "end_i \<le> i" "i \<le> k"
    using next_interesting_exists [OF assms(1,2)] assms(4) by auto
  have "i = k" using next_interesting_bounds(2) [OF i(1)] assms(6) i
    by (metis le_neq_implies_less)
  then show ?thesis using i assms by (subst argsep_loop.simps) simp
qed

text \<open>Separators inside double quotes do not separate: a quoted word followed by a
  separator is split at that separator and not before it.\<close>

theorem argsep_quoted:
  assumes "\<forall>c \<in> set b. c \<noteq> DQUOTE \<and> c \<noteq> BACKSLASH"
    "d \<in> set delim" "d \<notin> {DQUOTE, SQUOTE, BACKSLASH}" "DQUOTE \<notin> set delim"
  shows "argsep (DQUOTE # b @ DQUOTE # d # r) delim = (DQUOTE # b @ [DQUOTE], Some r, d)"
proof -
  define s where "s = DQUOTE # b @ DQUOTE # d # r"
  define q where "q = length b + 1"
  have len: "q + 1 < length s" by (simp add: s_def q_def)
  have nth: "s ! 0 = DQUOTE" "s ! q = DQUOTE" "s ! (q + 1) = d" "\<forall>j. 1 \<le> j \<and> j < q \<longrightarrow> s ! j \<in> set b"
    by (auto simp: s_def q_def nth_append nth_Cons')
  obtain i where i: "argsep_next_interesting s 0 delim = Some i" "i \<le> 0"
    by (rule next_interesting_exists [of 0 0 s delim]) (use nth(1) len in \<open>auto simp: s_def\<close>)
  have "argsep s delim = argsep_loop s delim 0 1 True False False"
    unfolding argsep_def using i nth(1) by (subst argsep_loop.simps) simp
  also have "\<dots> = argsep_loop s delim 0 (q + 1) False False False"
    using nth len assms(1) by (intro argsep_in_string) (auto simp: q_def)
  also have "\<dots> = (take (q + 1) s, Some (drop (q + 2) s), d)"
  proof -
    have none: "\<forall>j. q + 1 \<le> j \<and> j < q + 1 \<longrightarrow> s ! j \<notin> interesting delim" by auto
    show ?thesis using argsep_loop_separator [OF _ _ _ _ _ none, of 0] nth len assms(2,3) by simp
  qed
  finally show ?thesis by (simp add: s_def q_def)
qed

lemma argsep_quoted_witness:
  "argsep (DQUOTE # ''a;b'' @ DQUOTE # CHR '';'' # ''c'') '';,'' = (DQUOTE # ''a;b'' @ [DQUOTE], Some ''c'', CHR '';'')"
  by (rule argsep_quoted) simp_all

text \<open>A word without special characters is split at the first separator.\<close>

lemma argsep_plain:
  assumes "w \<noteq> []" "\<forall>c \<in> set w. c \<notin> interesting delim"
    "d \<in> set delim" "d \<notin> {DQUOTE, SQUOTE, BACKSLASH}"
  shows "argsep (w @ d # r) delim = (w, Some r, d)"
  using argsep_loop_separator [of 0 "length w" "w @ d # r" 0 delim] assms
  by (auto simp: argsep_def nth_append)

text \<open>The escape state outlives the character it escapes when interesting characters
  follow each other: after an escaped quote a separator does not separate.\<close>

theorem argsep_escaped_quote_then_separator:
  "argsep [CHR ''a'', BACKSLASH, DQUOTE, CHR '','', CHR ''b''] '';,''
     = ([CHR ''a'', BACKSLASH, DQUOTE, CHR '','', CHR ''b''], None, NUL)
   \<and> argsep [CHR ''a'', BACKSLASH, DQUOTE, CHR ''x'', CHR '','', CHR ''b''] '';,''
     = ([CHR ''a'', BACKSLASH, DQUOTE, CHR ''x''], Some ''b'', CHR '','')"
  by code_simp

section \<open>\<open>expand_path\<close>\<close>

fun double_space :: "string \<Rightarrow> bool" where
  "double_space (a # b # cs) = (a = SPACE \<and> b = SPACE \<or> double_space (b # cs))"
| "double_space s = False"

lemma hd_escape_spaces: "s \<noteq> [] \<Longrightarrow> escape_spaces s \<noteq> [] \<and> hd (escape_spaces s) = hd s"
  by (induction s rule: escape_spaces.induct) auto

lemma escape_spaces_no_double: "\<not> double_space (escape_spaces s)"
proof (induction s rule: escape_spaces.induct)
  case (1 a b cs)
  obtain t where "escape_spaces (b # cs) = b # t"
    using hd_escape_spaces [of "b # cs"] by (metis list.collapse list.distinct(1) list.sel(1))
  with 1 show ?case by (cases "a = SPACE \<and> b = SPACE") auto
qed auto

lemma escape_spaces_id: "\<not> double_space s \<Longrightarrow> escape_spaces s = s"
  by (induction s rule: escape_spaces.induct) auto

end
