(* ===== verification/Util_Ops.thy ===== *)
theory Util_Ops
  imports String_Ops
begin

text \<open>
  The parsers of \<open>common/util.c\<close>: \<open>wrap\<close>, colours, booleans, movement amounts and subpixel
  names. \<open>parse_float\<close> and \<open>sway_set_cloexec\<close> (decimal-to-binary conversion and \<open>fcntl\<close>)
  are not modelled.
\<close>

unbundle bit_operations_syntax

section \<open>\<open>wrap\<close>\<close>

definition wrap :: "int \<Rightarrow> int \<Rightarrow> int option" where
  "wrap i max_i = do {
     r \<leftarrow> c_rem i max_i;
     s \<leftarrow> c_int (r + max_i);
     c_rem s max_i }"

section \<open>Colours\<close>

text \<open>\<open>strtoul (s, &end, 16)\<close> on a 64-bit \<open>unsigned long\<close>: value and rest.\<close>

definition strtoul16 :: "string \<Rightarrow> 64 word \<times> string" where
  "strtoul16 s =
     (let s1 = dropWhile isspace s;
          (neg, s2) = (case s1 of [] \<Rightarrow> (False, s1)
                       | c # cs \<Rightarrow> if c = CHR ''-'' then (True, cs)
                                   else if c = CHR ''+'' then (False, cs) else (False, s1));
          s3 = (case s2 of
                  z # x # h # cs \<Rightarrow>
                    if z = CHR ''0'' \<and> (x = CHR ''x'' \<or> x = CHR ''X'') \<and> isxdigit h then h # cs else s2
                | _ \<Rightarrow> s2);
          ds = takeWhile isxdigit s3;
          v = digits_val 16 xdigit_val ds;
          w = (if v \<ge> 2 ^ 64 then - 1 else if neg then - of_nat v else of_nat v)
      in if ds = [] then (0, s) else (w, dropWhile isxdigit s3))"

definition parse_color :: "string \<Rightarrow> 32 word option" where
  "parse_color color =
     (let c = (case color of x # cs \<Rightarrow> if x = CHR ''#'' then cs else color | [] \<Rightarrow> color);
          len = length c
      in if (len \<noteq> 6 \<and> len \<noteq> 8) \<or> \<not> isxdigit (c ! 0) \<or> \<not> isxdigit (c ! 1) then None
         else case strtoul16 c of (v, rest) \<Rightarrow>
           let parsed = ucast v :: 32 word in
           if rest \<noteq> [] then None
           else Some (if len = 6 then push_bit 8 parsed OR 0xFF else parsed))"

definition color_to_rgba :: "32 word \<Rightarrow> rat list" where
  "color_to_rgba color =
     [of_int (uint (drop_bit 24 color AND 0xff)) / 255,
      of_int (uint (drop_bit 16 color AND 0xff)) / 255,
      of_int (uint (drop_bit 8 color AND 0xff)) / 255,
      of_int (uint (color AND 0xff)) / 255]"

section \<open>Booleans and movement amounts\<close>

definition parse_boolean :: "string \<Rightarrow> bool \<Rightarrow> bool" where
  "parse_boolean boolean current =
     (if strcasecmp_eq boolean ''1'' \<or> strcasecmp_eq boolean ''yes'' \<or> strcasecmp_eq boolean ''on''
         \<or> strcasecmp_eq boolean ''true'' \<or> strcasecmp_eq boolean ''enable''
         \<or> strcasecmp_eq boolean ''enabled'' \<or> strcasecmp_eq boolean ''active''
      then True
      else if strcasecmp_eq boolean ''toggle'' then \<not> current
      else False)"

datatype movement_unit = MOVEMENT_UNIT_PX | MOVEMENT_UNIT_PPT | MOVEMENT_UNIT_DEFAULT
  | MOVEMENT_UNIT_INVALID

record movement_amount =
  amount :: int
  amount_unit :: movement_unit

definition parse_movement_unit :: "string \<Rightarrow> movement_unit" where
  "parse_movement_unit u =
     (if strcasecmp_eq u ''px'' then MOVEMENT_UNIT_PX
      else if strcasecmp_eq u ''ppt'' then MOVEMENT_UNIT_PPT
      else if strcasecmp_eq u ''default'' then MOVEMENT_UNIT_DEFAULT
      else MOVEMENT_UNIT_INVALID)"

text \<open>The number of arguments consumed and the amount; \<open>argv\<close> are the \<open>argc\<close> arguments.\<close>

definition parse_movement_amount :: "string list \<Rightarrow> nat \<times> movement_amount" where
  "parse_movement_amount argv =
     (case argv of
        [] \<Rightarrow> (0, \<lparr>amount = 0, amount_unit = MOVEMENT_UNIT_INVALID\<rparr>)
      | a # argv1 \<Rightarrow>
          (case strtol10_int a of (n, err) \<Rightarrow>
             if err \<noteq> [] then (1, \<lparr>amount = n, amount_unit = parse_movement_unit err\<rparr>)
             else case argv1 of
                 [] \<Rightarrow> (1, \<lparr>amount = n, amount_unit = MOVEMENT_UNIT_DEFAULT\<rparr>)
               | b # _ \<Rightarrow>
                   let u = parse_movement_unit b in
                   if u = MOVEMENT_UNIT_INVALID
                   then (1, \<lparr>amount = n, amount_unit = MOVEMENT_UNIT_DEFAULT\<rparr>)
                   else (2, \<lparr>amount = n, amount_unit = u\<rparr>)))"

datatype wl_output_subpixel = SUBPIXEL_UNKNOWN | SUBPIXEL_NONE | SUBPIXEL_HORIZONTAL_RGB
  | SUBPIXEL_HORIZONTAL_BGR | SUBPIXEL_VERTICAL_RGB | SUBPIXEL_VERTICAL_BGR

fun sway_wl_output_subpixel_to_string :: "wl_output_subpixel \<Rightarrow> string" where
  "sway_wl_output_subpixel_to_string SUBPIXEL_UNKNOWN = ''unknown''"
| "sway_wl_output_subpixel_to_string SUBPIXEL_NONE = ''none''"
| "sway_wl_output_subpixel_to_string SUBPIXEL_HORIZONTAL_RGB = ''rgb''"
| "sway_wl_output_subpixel_to_string SUBPIXEL_HORIZONTAL_BGR = ''bgr''"
| "sway_wl_output_subpixel_to_string SUBPIXEL_VERTICAL_RGB = ''vrgb''"
| "sway_wl_output_subpixel_to_string SUBPIXEL_VERTICAL_BGR = ''vbgr''"

section \<open>Laws\<close>

lemma smod_add_wrap: "0 < (m::int) \<Longrightarrow> (i smod m + m) smod m = i mod m"
proof -
  assume m: "0 < m"
  have "- m < i smod m" using smod_int_range [of m i] m by auto
  then have pos: "0 \<le> i smod m + m" by simp
  have "(i smod m + m) smod m = (i smod m + m) mod m"
    using pos m by (simp add: smod_mod_positive)
  also have "\<dots> = i smod m mod m" by simp
  also have "\<dots> = i mod m"
  proof -
    have "i smod m = i - i sdiv m * m" by (simp add: minus_sdiv_mult_eq_smod [symmetric] mult.commute)
    then show ?thesis by (simp add: mod_diff_right_eq [symmetric])
  qed
  finally show ?thesis .
qed

text \<open>For every positive \<open>max\<close> small enough for the sum not to overflow, \<open>wrap\<close> is the
  mathematical remainder, also of a negative \<open>i\<close>; a zero \<open>max\<close> traps.\<close>

theorem wrap_mod:
  assumes "0 < m" "m \<le> 1073741824"
  shows "wrap i m = Some (i mod m) \<and> wrap i 0 = None"
proof -
  have r: "- m < i smod m" "i smod m < m" using smod_int_range [of m i] assms by auto
  have "c_int (i smod m + m) = Some (i smod m + m)" using r assms by (simp add: c_int_def)
  then show ?thesis using assms smod_add_wrap [of m i]
    by (simp add: wrap_def c_rem_def)
qed

lemma wrap_mod_witness: "wrap (- 1) 5 = Some 4 \<and> wrap (- 1) 0 = None"
  using wrap_mod [of 5 "- 1"] by simp

lemma xdigit_not_special:
  "isxdigit c \<Longrightarrow> \<not> isspace c \<and> c \<noteq> CHR ''-'' \<and> c \<noteq> CHR ''+'' \<and> c \<noteq> CHR ''x'' \<and> c \<noteq> CHR ''X''"
  by (auto simp: isxdigit_def isdigit_def isspace_def Let_def)

lemma digits_val_bound:
  "list_all isxdigit ds \<Longrightarrow> digits_val 16 xdigit_val ds < 16 ^ length ds"
proof (induction ds rule: rev_induct)
  case (snoc c ds)
  have c: "xdigit_val c < 16" using snoc.prems by (simp add: xdigit_val_less)
  have "digits_val 16 xdigit_val ds < 16 ^ length ds" using snoc by simp
  then have "digits_val 16 xdigit_val ds + 1 \<le> 16 ^ length ds" by simp
  then have "(digits_val 16 xdigit_val ds + 1) * 16 \<le> 16 ^ length ds * 16" by (rule mult_right_mono) simp
  with c show ?case by (simp add: digits_val_append1)
qed (simp add: digits_val_def)

lemma strtoul16_xdigits:
  assumes "isxdigit a" "isxdigit b" "length s \<le> 14"
  shows "strtoul16 (a # b # s) =
    (of_nat (digits_val 16 xdigit_val (takeWhile isxdigit (a # b # s))), dropWhile isxdigit s)"
proof -
  let ?ds = "takeWhile isxdigit (a # b # s)"
  have "length ?ds \<le> 16" using assms(3) length_takeWhile_le [of isxdigit s] assms(1,2) by simp
  then have "(16::nat) ^ length ?ds \<le> 16 ^ 16" by (rule power_increasing) simp
  moreover have "digits_val 16 xdigit_val ?ds < 16 ^ length ?ds"
    by (rule digits_val_bound) (use set_takeWhileD in \<open>fastforce simp: list_all_iff\<close>)
  ultimately have "\<not> digits_val 16 xdigit_val ?ds \<ge> 2 ^ 64" by simp
  then show ?thesis using assms(1,2) xdigit_not_special [OF assms(1)] xdigit_not_special [OF assms(2)]
    by (cases s) (simp_all add: strtoul16_def Let_def)
qed

definition color_digits :: "string \<Rightarrow> string" where
  "color_digits color = (case color of x # cs \<Rightarrow> if x = CHR ''#'' then cs else color | [] \<Rightarrow> color)"

text \<open>\<open>parse_color\<close> accepts exactly six or eight hexadecimal digits after an optional
  hash sign, and yields their value, with an opaque alpha byte when there were six.\<close>

theorem parse_color_iff:
  "parse_color color =
     (let c = color_digits color; v = digits_val 16 xdigit_val c in
      if list_all isxdigit c \<and> length c = 8 then Some (of_nat v)
      else if list_all isxdigit c \<and> length c = 6 then Some (of_nat (v * 256 + 255))
      else None)"
proof -
  define c where "c = color_digits color"
  consider (short) "length c \<noteq> 6" "length c \<noteq> 8"
    | (nodigit) a b s where "c = a # b # s" "\<not> (isxdigit a \<and> isxdigit b)"
    | (digit) a b s where "c = a # b # s" "isxdigit a" "isxdigit b" "length s = 4 \<or> length s = 6"
    by (cases c; cases "tl c") auto
  then show ?thesis
  proof cases
    case short
    then show ?thesis by (simp add: parse_color_def color_digits_def c_def Let_def)
  next
    case nodigit
    then show ?thesis by (auto simp: parse_color_def color_digits_def c_def Let_def)
  next
    case digit
    have st: "strtoul16 c = (of_nat (digits_val 16 xdigit_val (takeWhile isxdigit c)), dropWhile isxdigit s)"
      unfolding digit(1) by (rule strtoul16_xdigits) (use digit in auto)
    show ?thesis
    proof (cases "list_all isxdigit s")
      case False
      then have "dropWhile isxdigit s \<noteq> []" by (auto simp: list_all_iff dropWhile_eq_Nil_conv)
      then show ?thesis using st digit False
        by (auto simp: parse_color_def color_digits_def [symmetric] c_def [symmetric] Let_def)
    next
      case True
      then have all: "list_all isxdigit c" "takeWhile isxdigit c = c" "dropWhile isxdigit s = []"
        using digit by (auto simp: list_all_iff takeWhile_eq_all_conv dropWhile_eq_Nil_conv)
      define v where "v = digits_val 16 xdigit_val c"
      have opaque: "push_bit 8 (word_of_nat v :: 32 word) OR 0xFF = of_nat (v * 256 + 255)"
      proof -
        have mask: "(0xFF :: 32 word) = mask 8" by (simp add: mask_eq_exp_minus_1)
        have "push_bit 8 (word_of_nat v :: 32 word) OR mask 8 = push_bit 8 (word_of_nat v) + mask 8"
          by (rule disjunctive_add [symmetric]) (auto simp: bit_simps)
        then show ?thesis unfolding mask by (simp add: push_bit_eq_mult mask_eq_exp_minus_1)
      qed
      have st': "strtoul16 c = (of_nat v, [])" using st all by (simp only: v_def)
      have cast: "(ucast (word_of_nat v :: 64 word) :: 32 word) = of_nat v"
        by (rule bit_word_eqI) (auto simp: bit_simps)
      have xd: "isxdigit (c ! 0)" "isxdigit (c ! 1)" "length c = 6 \<or> length c = 8"
        using digit by auto
      show ?thesis using st' all(1) xd opaque cast
        unfolding parse_color_def color_digits_def [symmetric] c_def [symmetric] Let_def v_def [symmetric]
        by auto
    qed
  qed
qed

end
