(* ===== verification/Gesture.thy ===== *)
theory Gesture
  imports Util_Ops
begin

text \<open>
  Pointer gestures, \<open>common/gesture.c\<close>: parsing a gesture from
  \<open><type>[:<fingers>][:<directions>]\<close>, printing it, matching a performed gesture against a
  binding, and the tracker that turns the motion events of one gesture into a gesture. A
  direction set is a bit field in a 32-bit word. The sums of the tracker are exact.
\<close>

section \<open>Data\<close>

datatype gesture_type = GESTURE_TYPE_NONE | GESTURE_TYPE_HOLD | GESTURE_TYPE_PINCH
  | GESTURE_TYPE_SWIPE

definition GESTURE_FINGERS_ANY :: "8 word" where "GESTURE_FINGERS_ANY = 0"

abbreviation (input) DIR_NONE :: "32 word" where "DIR_NONE \<equiv> 0"
abbreviation (input) DIR_UP :: "32 word" where "DIR_UP \<equiv> 1"
abbreviation (input) DIR_DOWN :: "32 word" where "DIR_DOWN \<equiv> 2"
abbreviation (input) DIR_LEFT :: "32 word" where "DIR_LEFT \<equiv> 4"
abbreviation (input) DIR_RIGHT :: "32 word" where "DIR_RIGHT \<equiv> 8"
abbreviation (input) DIR_INWARD :: "32 word" where "DIR_INWARD \<equiv> 16"
abbreviation (input) DIR_OUTWARD :: "32 word" where "DIR_OUTWARD \<equiv> 32"
abbreviation (input) DIR_CLOCKWISE :: "32 word" where "DIR_CLOCKWISE \<equiv> 64"
abbreviation (input) DIR_COUNTERCLOCKWISE :: "32 word" where "DIR_COUNTERCLOCKWISE \<equiv> 128"

record gesture =
  g_type :: gesture_type
  g_fingers :: "8 word"
  g_directions :: "32 word"

section \<open>Parsing\<close>

definition gesture_type_of :: "string \<Rightarrow> gesture_type option" where
  "gesture_type_of s =
     (if s = ''hold'' then Some GESTURE_TYPE_HOLD
      else if s = ''pinch'' then Some GESTURE_TYPE_PINCH
      else if s = ''swipe'' then Some GESTURE_TYPE_SWIPE else None)"

definition direction_of :: "string \<Rightarrow> 32 word option" where
  "direction_of item =
     (if item = ''any'' then Some 0
      else if item = ''up'' then Some DIR_UP else if item = ''down'' then Some DIR_DOWN
      else if item = ''left'' then Some DIR_LEFT else if item = ''right'' then Some DIR_RIGHT
      else if item = ''inward'' then Some DIR_INWARD
      else if item = ''outward'' then Some DIR_OUTWARD
      else if item = ''clockwise'' then Some DIR_CLOCKWISE
      else if item = ''counterclockwise'' then Some DIR_COUNTERCLOCKWISE else None)"

text \<open>The loop over the directions: stops at the first bad item, keeping what it has.\<close>

fun gesture_parse_directions :: "string list \<Rightarrow> gesture \<Rightarrow> string option \<times> gesture" where
  "gesture_parse_directions [] g = (None, g)"
| "gesture_parse_directions (item # rest) g =
     (case direction_of item of
        Some d \<Rightarrow> gesture_parse_directions rest (g\<lparr>g_directions := g_directions g OR d\<rparr>)
      | None \<Rightarrow> (Some (''expected direction, got '' @ item), g))"

text \<open>The error message, \<open>None\<close> on success, and the gesture written to \<open>output\<close>.\<close>

definition gesture_parse :: "string \<Rightarrow> string option \<times> gesture" where
  "gesture_parse input =
     (let out = \<lparr>g_type = GESTURE_TYPE_NONE, g_fingers = GESTURE_FINGERS_ANY, g_directions = DIR_NONE\<rparr>;
          split = split_string input '':''
      in if length split < 1 \<or> length split > 3
         then (Some (''expected <gesture>[:<fingers>][:direction], got '' @ input), out)
         else case gesture_type_of (split ! 0) of
           None \<Rightarrow> (Some (''expected hold|pinch|swipe, got '' @ split ! 0), out)
         | Some t \<Rightarrow>
             let out = out\<lparr>g_type := t\<rparr> in
             if length split > 1 then
               let item = split ! 1 in
               if length item = 1 \<and> isdigit (item ! 0) \<and> item ! 0 \<noteq> CHR ''0''
               then let out = out\<lparr>g_fingers := of_nat (digit_val (item ! 0))\<rparr>
                    in if length split = 3
                       then gesture_parse_directions (split_string (split ! 2) ''+'') out
                       else (None, out)
               else if length split = 3 then (Some (''expected 1-9, got '' @ item), out)
               else gesture_parse_directions (split_string item ''+'') out
             else (None, out))"

section \<open>Printing\<close>

fun gesture_type_string :: "gesture_type \<Rightarrow> string" where
  "gesture_type_string GESTURE_TYPE_NONE = ''none''"
| "gesture_type_string GESTURE_TYPE_HOLD = ''hold''"
| "gesture_type_string GESTURE_TYPE_PINCH = ''pinch''"
| "gesture_type_string GESTURE_TYPE_SWIPE = ''swipe''"

definition gesture_direction_string :: "32 word \<Rightarrow> string option" where
  "gesture_direction_string d =
     (if d = DIR_NONE then Some ''none''
      else if d = DIR_UP then Some ''up'' else if d = DIR_DOWN then Some ''down''
      else if d = DIR_LEFT then Some ''left'' else if d = DIR_RIGHT then Some ''right''
      else if d = DIR_INWARD then Some ''inward'' else if d = DIR_OUTWARD then Some ''outward''
      else if d = DIR_CLOCKWISE then Some ''clockwise''
      else if d = DIR_COUNTERCLOCKWISE then Some ''counterclockwise'' else None)"

text \<open>The loop over the bits; \<open>None\<close> is the still unset result.\<close>

fun gesture_directions_loop :: "32 word \<Rightarrow> nat list \<Rightarrow> string option \<Rightarrow> string option" where
  "gesture_directions_loop directions [] result = result"
| "gesture_directions_loop directions (bit_i # bits) result =
     (let masked = directions AND push_bit bit_i 1 in
      if masked \<noteq> 0 then
        let name = (case gesture_direction_string masked of Some n \<Rightarrow> n | None \<Rightarrow> ''unknown'')
        in gesture_directions_loop directions bits
             (case result of None \<Rightarrow> Some name | Some r \<Rightarrow> Some (r @ ''+'' @ name))
      else gesture_directions_loop directions bits result)"

definition all_bits :: "nat list" where "all_bits = [0..<32]"

definition gesture_directions_to_string :: "32 word \<Rightarrow> string" where
  "gesture_directions_to_string directions =
     (case gesture_directions_loop directions all_bits None of None \<Rightarrow> ''any'' | Some r \<Rightarrow> r)"

definition gesture_to_string :: "gesture \<Rightarrow> string" where
  "gesture_to_string g =
     gesture_type_string (g_type g) @ '':'' @ show_nat (unat (g_fingers g)) @ '':''
       @ gesture_directions_to_string (g_directions g)"

section \<open>Matching\<close>

definition gesture_check :: "gesture \<Rightarrow> gesture_type \<Rightarrow> 8 word \<Rightarrow> bool" where
  "gesture_check target t fingers =
     (if g_type target \<noteq> t then False
      else if g_fingers target \<noteq> GESTURE_FINGERS_ANY \<and> g_fingers target \<noteq> fingers then False
      else True)"

definition gesture_match :: "gesture \<Rightarrow> gesture \<Rightarrow> bool \<Rightarrow> bool" where
  "gesture_match target to_match exact =
     (if \<not> gesture_check target (g_type to_match) (g_fingers to_match) then False
      else if exact \<and> g_directions target \<noteq> g_directions to_match then False
      else (g_directions target AND g_directions to_match) = g_directions target)"

definition gesture_equal :: "gesture \<Rightarrow> gesture \<Rightarrow> bool" where
  "gesture_equal a b =
     (g_type a = g_type b \<and> g_fingers a = g_fingers b \<and> g_directions a = g_directions b)"

function directions_count_loop :: "32 word \<Rightarrow> 8 word \<Rightarrow> 8 word" where
  "directions_count_loop directions count =
     (if directions \<noteq> 0
      then directions_count_loop (drop_bit 1 directions) (count + ucast (directions AND 1))
      else count)"
  by pat_completeness auto
termination
proof (relation "measure (\<lambda>(d, c). unat d)", goal_cases)
  case (2 d c)
  have "unat (drop_bit 1 d) = unat d div 2" by (simp add: drop_bit_eq_div unat_div)
  moreover have "0 < unat d" using "2" by (simp add: unat_gt_0)
  ultimately show ?case by simp
qed simp

declare directions_count_loop.simps [simp del]

definition gesture_directions_count :: "32 word \<Rightarrow> 8 word" where
  "gesture_directions_count directions = directions_count_loop directions 0"

text \<open>The difference of the counts, converted to \<open>int8_t\<close>.\<close>

definition gesture_directions_compare :: "32 word \<Rightarrow> 32 word \<Rightarrow> int" where
  "gesture_directions_compare a b =
     sint (word_of_int (uint (gesture_directions_count a) - uint (gesture_directions_count b)) :: 8 word)"

definition gesture_compare :: "gesture \<Rightarrow> gesture \<Rightarrow> int" where
  "gesture_compare a b = gesture_directions_compare (g_directions a) (g_directions b)"

section \<open>Tracking\<close>

record gesture_tracker =
  t_type :: gesture_type
  t_fingers :: "8 word"
  t_dx :: rat
  t_dy :: rat
  t_scale :: rat
  t_rotation :: rat

definition gesture_tracker_begin :: "gesture_tracker \<Rightarrow> gesture_type \<Rightarrow> 8 word \<Rightarrow> gesture_tracker" where
  "gesture_tracker_begin tracker t fingers =
     tracker\<lparr>t_type := t, t_fingers := fingers, t_dx := 0, t_dy := 0, t_scale := 1, t_rotation := 0\<rparr>"

definition gesture_tracker_check :: "gesture_tracker \<Rightarrow> gesture_type \<Rightarrow> bool" where
  "gesture_tracker_check tracker t = (t_type tracker = t)"

definition gesture_tracker_update :: "gesture_tracker \<Rightarrow> rat \<Rightarrow> rat \<Rightarrow> rat \<Rightarrow> rat \<Rightarrow> gesture_tracker" where
  "gesture_tracker_update tracker dx dy scale rotation =
     (if t_type tracker = GESTURE_TYPE_HOLD then tracker
      else
        let tr = tracker\<lparr>t_dx := t_dx tracker + dx, t_dy := t_dy tracker + dy\<rparr>
        in if t_type tr = GESTURE_TYPE_PINCH
           then tr\<lparr>t_scale := scale, t_rotation := t_rotation tr + rotation\<rparr>
           else tr)"

definition gesture_tracker_cancel :: "gesture_tracker \<Rightarrow> gesture_tracker" where
  "gesture_tracker_cancel tracker = tracker\<lparr>t_type := GESTURE_TYPE_NONE\<rparr>"

definition min_rotation :: rat where "min_rotation = 5"
definition min_scale_delta :: rat where "min_scale_delta = 1 / 10"

definition pinch_directions :: "gesture_tracker \<Rightarrow> 32 word" where
  "pinch_directions tr =
     (if t_rotation tr > min_rotation then DIR_CLOCKWISE else 0)
     OR (if t_rotation tr < - min_rotation then DIR_COUNTERCLOCKWISE else 0)
     OR (if t_scale tr > 1 + min_scale_delta then DIR_OUTWARD else 0)
     OR (if t_scale tr < 1 - min_scale_delta then DIR_INWARD else 0)"

definition swipe_directions :: "gesture_tracker \<Rightarrow> 32 word" where
  "swipe_directions tr =
     (if \<bar>t_dx tr\<bar> > \<bar>t_dy tr\<bar>
      then (if t_dx tr > 0 then DIR_RIGHT else DIR_LEFT)
      else (if t_dy tr > 0 then DIR_DOWN else DIR_UP))"

text \<open>The gesture returned and the tracker afterwards; a pinch falls through to a swipe.\<close>

definition gesture_tracker_end :: "gesture_tracker \<Rightarrow> gesture \<times> gesture_tracker" where
  "gesture_tracker_end tracker =
     (let result = \<lparr>g_type = GESTURE_TYPE_NONE, g_fingers = 0, g_directions = 0\<rparr>;
          finish = (\<lambda>d. (\<lparr>g_type = t_type tracker, g_fingers = t_fingers tracker, g_directions = d\<rparr>,
                         tracker\<lparr>t_type := GESTURE_TYPE_NONE\<rparr>))
      in case t_type tracker of
           GESTURE_TYPE_PINCH \<Rightarrow> finish (pinch_directions tracker OR swipe_directions tracker)
         | GESTURE_TYPE_SWIPE \<Rightarrow> finish (swipe_directions tracker)
         | GESTURE_TYPE_HOLD \<Rightarrow> finish 0
         | GESTURE_TYPE_NONE \<Rightarrow> (result, tracker))"

section \<open>Laws\<close>

lemma gesture_match_refl: "gesture_match g g exact"
  by (simp add: gesture_match_def gesture_check_def)

text \<open>A looser target matches whatever a tighter one does.\<close>

lemma gesture_match_subset:
  assumes "gesture_match target g False" "gesture_check looser (g_type g) (g_fingers g)"
    "g_directions looser AND g_directions target = g_directions looser"
  shows "gesture_match looser g False"
proof -
  have "g_directions target AND g_directions g = g_directions target"
    using assms(1) by (simp add: gesture_match_def split: if_splits)
  then have "g_directions looser AND g_directions g = g_directions looser"
    using assms(3) by (metis and.assoc)
  then show ?thesis using assms(2) by (simp add: gesture_match_def)
qed

lemma gesture_exact_match:
  "gesture_match target g True \<longleftrightarrow>
     g_type target = g_type g \<and> g_directions target = g_directions g
     \<and> (g_fingers target = GESTURE_FINGERS_ANY \<or> g_fingers target = g_fingers g)"
  by (auto simp: gesture_match_def gesture_check_def)

subsection \<open>Printing and parsing are inverse\<close>

text \<open>The names of the bits below 8, as the printing loop collects them.\<close>

definition bit_name :: "nat \<Rightarrow> string" where
  "bit_name i = (case gesture_direction_string (push_bit i 1) of Some n \<Rightarrow> n | None \<Rightarrow> ''unknown'')"

lemma and_push_bit_1: "(d AND push_bit i 1 :: 32 word) = (if bit d i then push_bit i 1 else 0)"
  by (rule bit_word_eqI) (auto simp: bit_simps)

lemma set_all_bits [simp]: "set all_bits = {0..<32}"
  by (simp add: all_bits_def)

lemma push_bit_1_neq_0: "i < 32 \<Longrightarrow> (push_bit i 1 :: 32 word) \<noteq> 0"
proof
  assume i: "i < 32" and z: "(push_bit i 1 :: 32 word) = 0"
  have "bit (push_bit i 1 :: 32 word) i" using i by (simp add: bit_push_bit_iff del: push_bit_of_1)
  then have "bit (0 :: 32 word) i" unfolding z .
  then show False by simp
qed

fun sep_join :: "string option \<Rightarrow> string list \<Rightarrow> string option" where
  "sep_join r [] = r"
| "sep_join r (n # ns) = sep_join (case r of None \<Rightarrow> Some n | Some s \<Rightarrow> Some (s @ ''+'' @ n)) ns"

lemma gesture_directions_loop_names:
  "list_all (\<lambda>i. i < 32) bits \<Longrightarrow>
     gesture_directions_loop d bits r = sep_join r (map bit_name (filter (bit d) bits))"
  by (induction bits arbitrary: r)
     (simp_all add: and_push_bit_1 push_bit_1_neq_0 bit_name_def Let_def
        del: push_bit_of_1 One_nat_def)

lemma join_sep_Cons: "join_sep d ((s @ d @ n) # ns) = s @ d @ join_sep d (n # ns)"
  by (cases ns) simp_all

lemma sep_join_Some: "sep_join (Some s) ns = Some (join_sep ''+'' (s # ns))"
proof (induction ns arbitrary: s)
  case (Cons n ns)
  then show ?case using join_sep_Cons [of "''+''" s n ns] by simp
qed simp

lemma sep_join_None: "sep_join None ns = (if ns = [] then None else Some (join_sep ''+'' ns))"
  by (cases ns) (simp_all add: sep_join_Some)

lemma direction_names:
  "list_all (\<lambda>i. direction_of (bit_name i) = Some (push_bit i 1) \<and> bit_name i \<noteq> []
      \<and> list_all (\<lambda>c. c \<noteq> CHR ''+'' \<and> c \<noteq> CHR '':'') (bit_name i)) [0..<8]"
  by code_simp


lemma bit_name_parses:
  assumes "i < 8"
  shows "direction_of (bit_name i) = Some (push_bit i 1)" "bit_name i \<noteq> []"
    "\<forall>c \<in> set (bit_name i). c \<noteq> CHR ''+'' \<and> c \<noteq> CHR '':''"
proof -
  have "i \<in> set [0..<8]" using assms by (auto simp only: set_upt atLeastLessThan_iff)
  from bspec [OF direction_names [unfolded list_all_iff] this]
  show "direction_of (bit_name i) = Some (push_bit i 1)" "bit_name i \<noteq> []"
    "\<forall>c \<in> set (bit_name i). c \<noteq> CHR ''+'' \<and> c \<noteq> CHR '':''" by blast+
qed

lemma all_dirs_lt8: "(d :: 32 word) < 256 \<Longrightarrow> bit d i \<Longrightarrow> i < 8"
proof -
  assume d: "d < 256" and b: "bit d i"
  have "take_bit 8 d = d" using d by (simp add: take_bit_eq_mod word_mod_less_divisor mod_word_less)
  then have "bit (take_bit 8 d) i" using b by simp
  then show "i < 8" by (simp add: bit_simps)
qed

lemma parse_direction_names:
  "list_all (\<lambda>i. i < 8) is \<Longrightarrow>
     gesture_parse_directions (map bit_name is) g
       = (None, g\<lparr>g_directions := foldl (OR) (g_directions g) (map (\<lambda>i. push_bit i 1) is)\<rparr>)"
proof (induction "is" arbitrary: g)
  case (Cons i "is")
  have "direction_of (bit_name i) = Some (push_bit i 1)"
    using Cons.prems by (intro bit_name_parses) simp
  with Cons show ?case by (simp del: push_bit_of_1)
qed simp

lemma foldl_or_bits: "bit (foldl (OR) (w :: 32 word) (map (\<lambda>i. push_bit i 1) is)) n
   \<longleftrightarrow> bit w n \<or> (n \<in> set is \<and> n < 32)"
proof (induction "is" arbitrary: w)
  case (Cons i "is")
  have "bit (w OR push_bit i 1) n \<longleftrightarrow> bit w n \<or> (n = i \<and> n < 32)"
    by (auto simp: bit_or_iff bit_push_bit_iff bit_1_iff simp del: push_bit_of_1)
  with Cons [of "w OR push_bit i 1"] show ?case by auto
qed simp

lemma foldl_or_filter:
  assumes "d < 256"
  shows "foldl (OR) (0 :: 32 word) (map (\<lambda>i. push_bit i 1) (filter (bit d) all_bits)) = d"
  by (rule bit_word_eqI) (auto simp: foldl_or_bits simp del: push_bit_of_1)

lemma split_printed:
  assumes "gesture_type_of t = Some ty" "isdigit f" "d \<noteq> []" "CHR '':'' \<notin> set d"
  shows "split_string (t @ '':'' @ [f] @ '':'' @ d) '':'' = [t, [f], d]"
proof -
  have f: "f \<noteq> CHR '':''" using assms(2) by (auto simp: isdigit_def)
  have t: "t \<noteq> []" "CHR '':'' \<notin> set t"
    using assms(1) by (auto simp: gesture_type_of_def split: if_splits)
  have "strtok_all (\<lambda>c. c = CHR '':'') (join_sep [CHR '':''] [t, [f], d]) = [t, [f], d]"
    by (rule strtok_join_sep) (use assms f t in auto)
  then show ?thesis by (simp add: split_string_def)
qed

lemma gesture_parse_printed:
  assumes "gesture_type_of t = Some ty" "isdigit f" "d \<noteq> []" "CHR '':'' \<notin> set d"
  shows "gesture_parse (t @ '':'' @ [f] @ '':'' @ d) =
    (if f = CHR ''0''
     then (Some (''expected 1-9, got '' @ [f]), \<lparr>g_type = ty, g_fingers = 0, g_directions = 0\<rparr>)
     else gesture_parse_directions (split_string d ''+'')
      \<lparr>g_type = ty, g_fingers = of_nat (digit_val f), g_directions = 0\<rparr>)"
  unfolding gesture_parse_def split_printed [OF assms]
  using assms by (simp add: Let_def GESTURE_FINGERS_ANY_def)

lemma show_nat_digit: "n < 10 \<Longrightarrow> show_nat n = [char_of (n + 48)]"
  by (subst show_nat.simps) simp

lemma gesture_type_string_parses:
  "t \<noteq> GESTURE_TYPE_NONE \<Longrightarrow> gesture_type_of (gesture_type_string t) = Some t"
  by (cases t) (auto simp: gesture_type_of_def)

text \<open>The printed directions parse back, and hold no colon.\<close>

lemma directions_string_parses:
  assumes "d < 256"
  shows "gesture_parse_directions (split_string (gesture_directions_to_string d) ''+'') (g\<lparr>g_directions := 0\<rparr>)
      = (None, g\<lparr>g_directions := d\<rparr>)"
    and "gesture_directions_to_string d \<noteq> []" and "CHR '':'' \<notin> set (gesture_directions_to_string d)"
proof -
  define dirs where "dirs = filter (bit d) all_bits"
  have d8: "list_all (\<lambda>i. i < 8) dirs"
    using all_dirs_lt8 [OF assms] by (auto simp: dirs_def list_all_iff)
  have names: "i \<in> set dirs \<Longrightarrow> bit_name i \<noteq> [] \<and> (\<forall>c \<in> set (bit_name i). c \<noteq> CHR ''+'' \<and> c \<noteq> CHR '':'')" for i
    using bit_name_parses(2,3) d8 unfolding list_all_iff by blast
  have loop: "gesture_directions_loop d all_bits None = sep_join None (map bit_name dirs)"
    unfolding dirs_def by (rule gesture_directions_loop_names) (simp add: list_all_iff)
  have or: "foldl (OR) 0 (map (\<lambda>i. push_bit i 1) dirs) = d"
    unfolding dirs_def by (rule foldl_or_filter [OF assms])
  let ?d = "gesture_directions_to_string d"
  have "gesture_parse_directions (split_string ?d ''+'') (g\<lparr>g_directions := 0\<rparr>) = (None, g\<lparr>g_directions := d\<rparr>)
    \<and> ?d \<noteq> [] \<and> CHR '':'' \<notin> set ?d"
  proof (cases "dirs = []")
    case True
    have d: "?d = ''any''" using True loop by (simp add: gesture_directions_to_string_def)
    have "split_string ''any'' ''+'' = [''any'']" by code_simp
    then show ?thesis using d or True by (simp add: direction_of_def)
  next
    case False
    then have d: "?d = join_sep ''+'' (map bit_name dirs)"
      using loop by (simp add: gesture_directions_to_string_def sep_join_None)
    have sp: "split_string ?d ''+'' = map bit_name dirs"
      unfolding d split_string_def using strtok_join_sep [of "map bit_name dirs" "CHR ''+''"] names by simp
    have "?d \<noteq> []" unfolding d using False names by (cases dirs; cases "tl dirs") auto
    moreover have "set (join_sep ''+'' ws) \<subseteq> {CHR ''+''} \<union> \<Union> (set (map set ws))" for ws
      by (induction "''+''" ws rule: join_sep.induct) auto
    then have "CHR '':'' \<notin> set ?d" unfolding d using names by fastforce
    ultimately show ?thesis unfolding sp using parse_direction_names [OF d8] or
      by (simp del: push_bit_of_1)
  qed
  then show "gesture_parse_directions (split_string ?d ''+'') (g\<lparr>g_directions := 0\<rparr>) = (None, g\<lparr>g_directions := d\<rparr>)"
    and "?d \<noteq> []" and "CHR '':'' \<notin> set ?d" by blast+
qed

text \<open>C38. Printing a gesture that a binding can name (a type, at most nine fingers, the eight
  directions) and parsing the text again gives the same gesture; with the "any" finger
  count, printed as 0, the parser rejects the text.\<close>

theorem gesture_parse_to_string:
  assumes "g_type g \<noteq> GESTURE_TYPE_NONE" "unat (g_fingers g) \<le> 9" "g_directions g < 256"
  shows "gesture_parse (gesture_to_string g) =
    (if g_fingers g = GESTURE_FINGERS_ANY
     then (Some ''expected 1-9, got 0'', \<lparr>g_type = g_type g, g_fingers = 0, g_directions = 0\<rparr>)
     else (None, g))"
proof -
  define n where "n = unat (g_fingers g)"
  have n: "n < 10" using assms(2) by (simp add: n_def)
  let ?f = "char_of (n + 48) :: char"
  have f: "isdigit ?f" "digit_val ?f = n" using n isdigit_char_of digit_val_char_of by blast+
  have zero: "?f = CHR ''0'' \<longleftrightarrow> g_fingers g = 0"
  proof
    assume "?f = CHR ''0''"
    with f(2) have "n = digit_val (CHR ''0'')" by simp
    then show "g_fingers g = 0" by (simp add: digit_val_def n_def unat_eq_zero)
  next
    assume "g_fingers g = 0"
    moreover have "char_of (48 :: nat) = CHR ''0''" by code_simp
    ultimately show "?f = CHR ''0''" by (simp add: n_def)
  qed
  have fingers: "(of_nat (digit_val ?f) :: 8 word) = g_fingers g" unfolding f(2) by (simp add: n_def)
  have "gesture_to_string g = gesture_type_string (g_type g) @ '':'' @ [?f] @ '':''
      @ gesture_directions_to_string (g_directions g)"
    using n by (simp add: gesture_to_string_def n_def [symmetric] show_nat_digit)
  then show ?thesis
    using gesture_parse_printed [OF gesture_type_string_parses [OF assms(1)] f(1)
        directions_string_parses(2,3) [OF assms(3)]]
      directions_string_parses(1) [OF assms(3),
        of "\<lparr>g_type = g_type g, g_fingers = g_fingers g, g_directions = 0\<rparr>"] zero
    unfolding fingers by (simp add: GESTURE_FINGERS_ANY_def)
qed

lemma gesture_parse_to_string_witness:
  "gesture_parse (gesture_to_string \<lparr>g_type = GESTURE_TYPE_SWIPE, g_fingers = 3, g_directions = 5\<rparr>)
    = (None, \<lparr>g_type = GESTURE_TYPE_SWIPE, g_fingers = 3, g_directions = 5\<rparr>)"
  using gesture_parse_to_string [of "\<lparr>g_type = GESTURE_TYPE_SWIPE, g_fingers = 3, g_directions = 5\<rparr>"]
  by (simp add: GESTURE_FINGERS_ANY_def)

lemma swipe_directions_cases: "swipe_directions tr \<in> {1, 2, 4, 8}"
  by (simp add: swipe_directions_def)

lemma pinch_directions_cases: "pinch_directions tr \<in> {0, 64, 128, 32, 96, 160, 16, 80, 144}"
proof -
  have "\<not> (t_rotation tr > min_rotation \<and> t_rotation tr < - min_rotation)"
    "\<not> (t_scale tr > 1 + min_scale_delta \<and> t_scale tr < 1 - min_scale_delta)"
    by (auto simp: min_rotation_def min_scale_delta_def)
  then show ?thesis unfolding pinch_directions_def
    by (cases "t_rotation tr > min_rotation"; cases "t_rotation tr < - min_rotation";
        cases "t_scale tr > 1 + min_scale_delta"; cases "t_scale tr < 1 - min_scale_delta") simp_all
qed

text \<open>A finished pinch or swipe has exactly one of the four directions of movement, and
  a pinch never both rotations nor both scalings; a hold has no direction, and the tracker
  is free again.\<close>

theorem gesture_tracker_end_directions:
  assumes "gesture_tracker_end tr = (g, tr')" "t_type tr \<noteq> GESTURE_TYPE_NONE"
  shows "g_type g = t_type tr \<and> g_fingers g = t_fingers tr \<and> t_type tr' = GESTURE_TYPE_NONE
    \<and> (t_type tr = GESTURE_TYPE_HOLD \<longrightarrow> g_directions g = 0)
    \<and> (t_type tr \<noteq> GESTURE_TYPE_HOLD \<longrightarrow>
         g_directions g AND 15 \<in> {DIR_UP, DIR_DOWN, DIR_LEFT, DIR_RIGHT})
    \<and> g_directions g AND 48 \<noteq> 48 \<and> g_directions g AND 192 \<noteq> 192"
  using assms
  using swipe_directions_cases [of tr] pinch_directions_cases [of tr]
  by (cases "t_type tr") (auto simp: gesture_tracker_end_def Let_def)

lemma gesture_tracker_end_directions_witness:
  "g_directions (fst (gesture_tracker_end \<lparr>t_type = GESTURE_TYPE_PINCH, t_fingers = 2, t_dx = 3,
      t_dy = - 4, t_scale = 2, t_rotation = 6\<rparr>)) AND 15 \<in> {DIR_UP, DIR_DOWN, DIR_LEFT, DIR_RIGHT}"
  using gesture_tracker_end_directions [of "\<lparr>t_type = GESTURE_TYPE_PINCH, t_fingers = 2, t_dx = 3,
      t_dy = - 4, t_scale = 2, t_rotation = 6\<rparr>", OF surjective_pairing]
  by simp

end
