(* ===== verification/Config_State.thy ===== *)
theory Config_State
  imports Gesture
begin

text \<open>
  The enumerations of \<open>include/sway/config.h\<close> and the parts of \<open>struct sway_config\<close> that hold
  plain settings, grouped the way the header groups them: animations, effects, borders and
  flags. \<open>Tree_State\<close> has the rest of the configuration. A \<open>float\<close> or \<open>double\<close> is a
  rational, an RGBA colour the list of its four components.
\<close>

section \<open>Enumerations\<close>

datatype focus_follows_mouse_mode = FOLLOWS_NO | FOLLOWS_YES | FOLLOWS_ALWAYS

datatype focus_wrapping_mode = WRAP_NO | WRAP_YES | WRAP_FORCE | WRAP_WORKSPACE

datatype mouse_warping_mode = WARP_NO | WARP_OUTPUT | WARP_CONTAINER

datatype alignment = ALIGN_LEFT | ALIGN_CENTER | ALIGN_RIGHT

datatype xwayland_mode = XWAYLAND_MODE_DISABLED | XWAYLAND_MODE_LAZY | XWAYLAND_MODE_IMMEDIATE

datatype sway_fowa = FOWA_SMART | FOWA_URGENT | FOWA_FOCUS | FOWA_NONE

datatype smart_gaps_mode = SMART_GAPS_OFF | SMART_GAPS_ON | SMART_GAPS_INVERSE_OUTER

datatype edge_border_types = E_NONE | E_VERTICAL | E_HORIZONTAL | E_BOTH

datatype edge_border_smart_types = ESMART_OFF | ESMART_ON | ESMART_NO_GAPS

datatype sway_popup_during_fullscreen = POPUP_SMART | POPUP_IGNORE | POPUP_LEAVE

datatype sway_container_layout = L_NONE | L_HORIZ | L_VERT | L_SCROLL_H | L_STACKED | L_TABBED

datatype sway_container_border = B_NONE | B_PIXEL | B_NORMAL | B_CSD

datatype liquid_glass_surface_type =
  LIQUID_GLASS_SURFACE_CONVEX_CIRCLE | LIQUID_GLASS_SURFACE_CONVEX_SQUIRCLE
  | LIQUID_GLASS_SURFACE_CONCAVE | LIQUID_GLASS_SURFACE_LIP

datatype wlr_switch_type = WLR_SWITCH_TYPE_LID | WLR_SWITCH_TYPE_TABLET_MODE

datatype sway_switch_trigger = SWAY_SWITCH_TRIGGER_OFF | SWAY_SWITCH_TRIGGER_ON | SWAY_SWITCH_TRIGGER_TOGGLE

datatype binding_input_type = BINDING_KEYCODE | BINDING_KEYSYM | BINDING_MOUSECODE | BINDING_MOUSESYM
  | BINDING_SWITCH | BINDING_GESTURE

section \<open>Bindings\<close>

text \<open>
  The bits of \<open>enum binding_flags\<close>. \<open>binding_syms\<close> is \<open>None\<close> for \<open>NULL\<close> and
  \<open>binding_group\<close> for \<open>XKB_LAYOUT_INVALID\<close>.
\<close>

definition BINDING_RELEASE :: "32 word" where "BINDING_RELEASE = 1"
definition BINDING_LOCKED :: "32 word" where "BINDING_LOCKED = 2"
definition BINDING_BORDER :: "32 word" where "BINDING_BORDER = 4"
definition BINDING_CONTENTS :: "32 word" where "BINDING_CONTENTS = 8"
definition BINDING_TITLEBAR :: "32 word" where "BINDING_TITLEBAR = 16"
definition BINDING_CODE :: "32 word" where "BINDING_CODE = 32"
definition BINDING_RELOAD :: "32 word" where "BINDING_RELOAD = 64"
definition BINDING_INHIBITED :: "32 word" where "BINDING_INHIBITED = 128"
definition BINDING_NOREPEAT :: "32 word" where "BINDING_NOREPEAT = 256"
definition BINDING_EXACT :: "32 word" where "BINDING_EXACT = 512"

lemmas binding_flag_defs = BINDING_RELEASE_def BINDING_LOCKED_def BINDING_BORDER_def BINDING_CONTENTS_def
  BINDING_TITLEBAR_def BINDING_CODE_def BINDING_RELOAD_def BINDING_INHIBITED_def BINDING_NOREPEAT_def
  BINDING_EXACT_def

record sway_binding =
  binding_type :: binding_input_type
  binding_order :: int
  binding_input :: string
  binding_flags :: "32 word"
  binding_keys :: "nat list"
  binding_syms :: "nat list option"
  binding_modifiers :: "32 word"
  binding_group :: "nat option"
  binding_command :: string

record sway_switch_binding =
  switch_type :: wlr_switch_type
  switch_trigger :: sway_switch_trigger
  switch_flags :: "32 word"
  switch_command :: string

record sway_gesture_binding =
  gesture_input :: string
  gesture_flags :: "32 word"
  gesture_of :: gesture
  gesture_command :: string

record sway_mode =
  mode_name :: string
  mode_keysym_bindings :: "sway_binding list"
  mode_keycode_bindings :: "sway_binding list"
  mode_mouse_bindings :: "sway_binding list"
  mode_switch_bindings :: "sway_switch_binding list"
  mode_gesture_bindings :: "sway_gesture_binding list"
  mode_pango :: bool

definition new_mode :: "string \<Rightarrow> bool \<Rightarrow> sway_mode" where
  "new_mode name pango = \<lparr>mode_name = name, mode_keysym_bindings = [], mode_keycode_bindings = [],
     mode_mouse_bindings = [], mode_switch_bindings = [], mode_gesture_bindings = [], mode_pango = pango\<rparr>"

section \<open>Settings\<close>

text \<open>The control points of a cubic Bezier curve from \<open>(0, 0)\<close> to \<open>(1, 1)\<close>.\<close>

record bezier_curve =
  curve_c1x :: rat
  curve_c1y :: rat
  curve_c2x :: rat
  curve_c2y :: rat

record animation_config =
  an_duration_ms :: rat
  an_window_open_animation_delay_ms :: rat
  an_window_open_duration_ms :: rat
  an_window_close_duration_ms :: rat
  an_window_resize_duration_ms :: rat
  an_window_fullscreen_duration_ms :: rat
  an_window_open_curve :: bezier_curve
  an_window_close_curve :: bezier_curve
  an_window_resize_curve :: bezier_curve
  an_window_fullscreen_curve :: bezier_curve
  an_workspace_switch_anim :: bool
  an_workspace_anim_duration_ms :: rat
  an_workspace_anim_step_ms :: rat
  an_workspace_switch_curve :: bezier_curve

record liquid_glass_data =
  lg_surface_type :: liquid_glass_surface_type
  lg_bezel_width :: rat
  lg_thickness :: rat
  lg_refraction_index :: rat
  lg_specular_enabled :: bool
  lg_specular_opacity :: rat
  lg_specular_angle :: rat
  lg_brightness_boost :: rat
  lg_saturation_boost :: rat
  lg_noise_intensity :: rat
  lg_chromatic_aberration :: rat

text \<open>\<open>fx_dim_unfocused\<close> and \<open>fx_dim_urgent\<close> are the \<open>dim_inactive_colors\<close>.\<close>

record effects_config =
  fx_corner_radius :: int
  fx_smart_corner_radius :: bool
  fx_default_dim_inactive :: rat
  fx_dim_unfocused :: "rat list"
  fx_dim_urgent :: "rat list"
  fx_blur_enabled :: bool
  fx_blur_xray :: bool
  fx_liquid_glass_enabled :: bool
  fx_liquid_glass_data :: liquid_glass_data
  fx_shadow_enabled :: bool
  fx_shadows_on_csd_enabled :: bool
  fx_shadow_blur_sigma :: int
  fx_shadow_color :: "rat list"
  fx_shadow_inactive_color :: "rat list"
  fx_shadow_offset_x :: rat
  fx_shadow_offset_y :: rat
  fx_titlebar_separator :: bool

record border_colors =
  bc_border :: "rat list"
  bc_background :: "rat list"
  bc_text :: "rat list"
  bc_indicator :: "rat list"
  bc_child_border :: "rat list"

record border_config =
  bd_border :: sway_container_border
  bd_floating_border :: sway_container_border
  bd_border_thickness :: int
  bd_floating_border_thickness :: int
  bd_titlebar_border_thickness :: int
  bd_titlebar_h_padding :: int
  bd_title_align :: alignment
  bd_show_marks :: bool
  bd_has_focused_tab_title :: bool
  bd_focused :: border_colors
  bd_focused_inactive :: border_colors
  bd_focused_tab_title :: border_colors
  bd_unfocused :: border_colors
  bd_urgent :: border_colors
  bd_placeholder :: border_colors
  bd_color_background :: "rat list"

record flags_config =
  fl_focus_follows_mouse :: focus_follows_mouse_mode
  fl_mouse_warping :: mouse_warping_mode
  fl_focus_wrapping :: focus_wrapping_mode
  fl_focus_on_window_activation :: sway_fowa
  fl_xwayland :: xwayland_mode
  fl_active :: bool
  fl_validating :: bool
  fl_reading :: bool
  fl_primary_selection :: bool
  fl_dwindle :: bool
  fl_tiling_drag :: bool
  fl_tiling_drag_threshold :: int
  fl_scrollable_tiling_touchpad_scroll :: bool
  fl_scrollable_tiling_touchpad_scroll_factor :: rat
  fl_scrollable_tiling_touchpad_pinch_resize :: bool
  fl_scrollable_tiling_touchpad_pinch_resize_factor :: rat
  fl_scratchpad_minimize :: bool
  fl_swaybg_command :: "string option"
  fl_swaynag_command :: "string option"
  fl_floating_mod :: "32 word"
  fl_floating_mod_inverse :: bool
  fl_dragging_key :: nat
  fl_resizing_key :: nat

text \<open>The blur parameters, which the root of the scene keeps.\<close>

record blur_data =
  blur_num_passes :: int
  blur_radius :: int
  blur_noise :: rat
  blur_brightness :: rat
  blur_contrast :: rat
  blur_saturation :: rat

section \<open>Freshly allocated settings\<close>

text \<open>What \<open>calloc\<close> returns for the configuration.\<close>

definition zero_curve :: bezier_curve where
  "zero_curve = \<lparr>curve_c1x = 0, curve_c1y = 0, curve_c2x = 0, curve_c2y = 0\<rparr>"

definition zero_animation :: animation_config where
  "zero_animation = \<lparr>an_duration_ms = 0, an_window_open_animation_delay_ms = 0,
     an_window_open_duration_ms = 0, an_window_close_duration_ms = 0, an_window_resize_duration_ms = 0,
     an_window_fullscreen_duration_ms = 0, an_window_open_curve = zero_curve,
     an_window_close_curve = zero_curve, an_window_resize_curve = zero_curve,
     an_window_fullscreen_curve = zero_curve, an_workspace_switch_anim = False,
     an_workspace_anim_duration_ms = 0, an_workspace_anim_step_ms = 0, an_workspace_switch_curve = zero_curve\<rparr>"

definition zero_liquid_glass :: liquid_glass_data where
  "zero_liquid_glass = \<lparr>lg_surface_type = LIQUID_GLASS_SURFACE_CONVEX_CIRCLE, lg_bezel_width = 0,
     lg_thickness = 0, lg_refraction_index = 0, lg_specular_enabled = False, lg_specular_opacity = 0,
     lg_specular_angle = 0, lg_brightness_boost = 0, lg_saturation_boost = 0, lg_noise_intensity = 0,
     lg_chromatic_aberration = 0\<rparr>"

definition zero_effects :: effects_config where
  "zero_effects = \<lparr>fx_corner_radius = 0, fx_smart_corner_radius = False, fx_default_dim_inactive = 0,
     fx_dim_unfocused = [], fx_dim_urgent = [], fx_blur_enabled = False, fx_blur_xray = False,
     fx_liquid_glass_enabled = False, fx_liquid_glass_data = zero_liquid_glass, fx_shadow_enabled = False,
     fx_shadows_on_csd_enabled = False, fx_shadow_blur_sigma = 0, fx_shadow_color = [],
     fx_shadow_inactive_color = [], fx_shadow_offset_x = 0, fx_shadow_offset_y = 0,
     fx_titlebar_separator = False\<rparr>"

definition zero_blur :: blur_data where
  "zero_blur = \<lparr>blur_num_passes = 0, blur_radius = 0, blur_noise = 0, blur_brightness = 0,
     blur_contrast = 0, blur_saturation = 0\<rparr>"

definition zero_colors :: border_colors where
  "zero_colors = \<lparr>bc_border = [], bc_background = [], bc_text = [], bc_indicator = [], bc_child_border = []\<rparr>"

definition zero_borders :: border_config where
  "zero_borders = \<lparr>bd_border = B_NONE, bd_floating_border = B_NONE, bd_border_thickness = 0,
     bd_floating_border_thickness = 0, bd_titlebar_border_thickness = 0, bd_titlebar_h_padding = 0,
     bd_title_align = ALIGN_LEFT, bd_show_marks = False, bd_has_focused_tab_title = False,
     bd_focused = zero_colors, bd_focused_inactive = zero_colors, bd_focused_tab_title = zero_colors,
     bd_unfocused = zero_colors, bd_urgent = zero_colors, bd_placeholder = zero_colors,
     bd_color_background = []\<rparr>"

definition zero_flags :: flags_config where
  "zero_flags = \<lparr>fl_focus_follows_mouse = FOLLOWS_NO, fl_mouse_warping = WARP_NO,
     fl_focus_wrapping = WRAP_NO, fl_focus_on_window_activation = FOWA_SMART,
     fl_xwayland = XWAYLAND_MODE_DISABLED, fl_active = False, fl_validating = False, fl_reading = False,
     fl_primary_selection = False, fl_dwindle = False, fl_tiling_drag = False, fl_tiling_drag_threshold = 0,
     fl_scrollable_tiling_touchpad_scroll = False, fl_scrollable_tiling_touchpad_scroll_factor = 0,
     fl_scrollable_tiling_touchpad_pinch_resize = False,
     fl_scrollable_tiling_touchpad_pinch_resize_factor = 0, fl_scratchpad_minimize = False,
     fl_swaybg_command = None, fl_swaynag_command = None, fl_floating_mod = 0,
     fl_floating_mod_inverse = False, fl_dragging_key = 0, fl_resizing_key = 0\<rparr>"

section \<open>The defaults\<close>

text \<open>What \<open>config_defaults\<close> sets these fields to.\<close>

definition ease_out_curve :: bezier_curve where
  "ease_out_curve = \<lparr>curve_c1x = 215/1000, curve_c1y = 61/100, curve_c2x = 355/1000, curve_c2y = 1\<rparr>"

definition default_animation :: animation_config where
  "default_animation = \<lparr>an_duration_ms = 90, an_window_open_animation_delay_ms = 90,
     an_window_open_duration_ms = - 1, an_window_close_duration_ms = - 1,
     an_window_resize_duration_ms = - 1, an_window_fullscreen_duration_ms = - 1,
     an_window_open_curve = ease_out_curve, an_window_close_curve = ease_out_curve,
     an_window_resize_curve = ease_out_curve, an_window_fullscreen_curve = ease_out_curve,
     an_workspace_switch_anim = False, an_workspace_anim_duration_ms = 200, an_workspace_anim_step_ms = 200,
     an_workspace_switch_curve = \<lparr>curve_c1x = 1/10, curve_c1y = 1, curve_c2x = 0, curve_c2y = 1\<rparr>\<rparr>"

definition default_liquid_glass :: liquid_glass_data where
  "default_liquid_glass = \<lparr>lg_surface_type = LIQUID_GLASS_SURFACE_CONCAVE, lg_bezel_width = 20,
     lg_thickness = 1, lg_refraction_index = 3/2, lg_specular_enabled = True, lg_specular_opacity = 4/10,
     lg_specular_angle = - 60, lg_brightness_boost = 105/100, lg_saturation_boost = 1,
     lg_noise_intensity = 2/100, lg_chromatic_aberration = 1/2\<rparr>"

text \<open>A colour of the defaults by its bytes, as \<open>color_to_rgba\<close> reads them.\<close>

definition bytes_rgba :: "nat \<Rightarrow> nat \<Rightarrow> nat \<Rightarrow> nat \<Rightarrow> rat list" where
  "bytes_rgba r g b a = map (\<lambda>v. of_nat v / 255) [r, g, b, a]"

definition default_effects :: effects_config where
  "default_effects = \<lparr>fx_corner_radius = 0, fx_smart_corner_radius = False, fx_default_dim_inactive = 0,
     fx_dim_unfocused = bytes_rgba 0 0 0 255, fx_dim_urgent = bytes_rgba 0x90 0 0 255,
     fx_blur_enabled = False, fx_blur_xray = False, fx_liquid_glass_enabled = False,
     fx_liquid_glass_data = default_liquid_glass, fx_shadow_enabled = False,
     fx_shadows_on_csd_enabled = False, fx_shadow_blur_sigma = 20,
     fx_shadow_color = bytes_rgba 0 0 0 0x7F, fx_shadow_inactive_color = bytes_rgba 0 0 0 0x7F,
     fx_shadow_offset_x = 0, fx_shadow_offset_y = 0, fx_titlebar_separator = True\<rparr>"

definition default_borders :: border_config where
  "default_borders = \<lparr>bd_border = B_NORMAL, bd_floating_border = B_NORMAL, bd_border_thickness = 2,
     bd_floating_border_thickness = 2, bd_titlebar_border_thickness = 1, bd_titlebar_h_padding = 5,
     bd_title_align = ALIGN_LEFT, bd_show_marks = True, bd_has_focused_tab_title = False,
     bd_focused = \<lparr>bc_border = bytes_rgba 0x4C 0x78 0x99 0xFF, bc_background = bytes_rgba 0x28 0x55 0x77 0xFF,
       bc_text = bytes_rgba 0xFF 0xFF 0xFF 0xFF, bc_indicator = bytes_rgba 0x2E 0x9E 0xF4 0xFF,
       bc_child_border = bytes_rgba 0x28 0x55 0x77 0xFF\<rparr>,
     bd_focused_inactive = \<lparr>bc_border = bytes_rgba 0x33 0x33 0x33 0xFF,
       bc_background = bytes_rgba 0x5F 0x67 0x6A 0xFF, bc_text = bytes_rgba 0xFF 0xFF 0xFF 0xFF,
       bc_indicator = bytes_rgba 0x48 0x4E 0x50 0xFF, bc_child_border = bytes_rgba 0x5F 0x67 0x6A 0xFF\<rparr>,
     bd_focused_tab_title = \<lparr>bc_border = [0, 0, 0, 0], bc_background = [0, 0, 0, 0], bc_text = [0, 0, 0, 0],
       bc_indicator = [0, 0, 0, 0], bc_child_border = [0, 0, 0, 0]\<rparr>,
     bd_unfocused = \<lparr>bc_border = bytes_rgba 0x33 0x33 0x33 0xFF, bc_background = bytes_rgba 0x22 0x22 0x22 0xFF,
       bc_text = bytes_rgba 0x88 0x88 0x88 0xFF, bc_indicator = bytes_rgba 0x29 0x2D 0x2E 0xFF,
       bc_child_border = bytes_rgba 0x22 0x22 0x22 0xFF\<rparr>,
     bd_urgent = \<lparr>bc_border = bytes_rgba 0x2F 0x34 0x3A 0xFF, bc_background = bytes_rgba 0x90 0 0 0xFF,
       bc_text = bytes_rgba 0xFF 0xFF 0xFF 0xFF, bc_indicator = bytes_rgba 0x90 0 0 0xFF,
       bc_child_border = bytes_rgba 0x90 0 0 0xFF\<rparr>,
     bd_placeholder = \<lparr>bc_border = bytes_rgba 0 0 0 0xFF, bc_background = bytes_rgba 0x0C 0x0C 0x0C 0xFF,
       bc_text = bytes_rgba 0xFF 0xFF 0xFF 0xFF, bc_indicator = bytes_rgba 0 0 0 0xFF,
       bc_child_border = bytes_rgba 0x0C 0x0C 0x0C 0xFF\<rparr>,
     bd_color_background = bytes_rgba 0xFF 0xFF 0xFF 0xFF\<rparr>"

definition default_flags :: flags_config where
  "default_flags = \<lparr>fl_focus_follows_mouse = FOLLOWS_YES, fl_mouse_warping = WARP_OUTPUT,
     fl_focus_wrapping = WRAP_YES, fl_focus_on_window_activation = FOWA_URGENT,
     fl_xwayland = XWAYLAND_MODE_IMMEDIATE, fl_active = False, fl_validating = False, fl_reading = False,
     fl_primary_selection = True, fl_dwindle = False, fl_tiling_drag = True, fl_tiling_drag_threshold = 9,
     fl_scrollable_tiling_touchpad_scroll = False, fl_scrollable_tiling_touchpad_scroll_factor = 1,
     fl_scrollable_tiling_touchpad_pinch_resize = False,
     fl_scrollable_tiling_touchpad_pinch_resize_factor = 1, fl_scratchpad_minimize = False,
     fl_swaybg_command = Some ''swaybg'', fl_swaynag_command = Some ''swaynag'',
     fl_floating_mod = 0, fl_floating_mod_inverse = False, fl_dragging_key = 0x110, fl_resizing_key = 0x111\<rparr>"

end
