(* ===== verification/Tree_State.thy ===== *)
theory Tree_State
  imports Dyn_List Config_State
begin

text \<open>
  The state of the window tree: the structs of \<open>include/sway/tree/{node,container,workspace,
  root,view}.h\<close>, \<open>include/sway/output.h\<close> and the part of \<open>struct sway_seat\<close> and of the
  configuration that the tree code reads, and the operations of \<open>sway/tree/node.c\<close>.

  The heap is explicit. Every node of the tree (output, workspace, container) is named by
  the \<open>id\<close> that \<open>node_init\<close> gave it, and the state holds one store per kind, a total
  function from ids: a pointer \<open>struct sway_container *\<close> is a \<open>nat option\<close> (\<open>NULL\<close> is
  \<open>None\<close>), the record it points to is \<open>cons s c\<close>. Mutation through a pointer is an update
  of the store, so aliasing is as in the code.

  A list of the tree (\<open>children\<close>, \<open>tiling\<close>, \<open>floating\<close>, \<open>workspaces\<close>, the scratchpad) is
  its items; \<open>insert_at\<close>, \<open>remove_at\<close> and \<open>seq_find\<close> are the effect of \<open>list_insert\<close>,
  \<open>list_del\<close> and \<open>list_find\<close> on the items.

  Not part of the state: the scene graph, IPC events, log messages, and what is sent to
  clients. An operation returns \<open>None\<close> where the code would follow a null pointer.
\<close>

section \<open>Enumerations and records\<close>

definition layout_is_horizontal :: "sway_container_layout \<Rightarrow> bool" where
  "layout_is_horizontal l = (l = L_HORIZ \<or> l = L_TABBED \<or> l = L_SCROLL_H)"

definition layout_is_vertical :: "sway_container_layout \<Rightarrow> bool" where
  "layout_is_vertical l = (l = L_VERT \<or> l = L_STACKED)"

datatype sway_fullscreen_mode = FULLSCREEN_NONE | FULLSCREEN_WORKSPACE | FULLSCREEN_GLOBAL

datatype sway_node = N_ROOT | N_OUTPUT nat | N_WORKSPACE nat | N_CONTAINER nat

record wlr_box =
  box_x :: int
  box_y :: int
  box_width :: int
  box_height :: int

record side_gaps =
  gap_top :: int
  gap_right :: int
  gap_bottom :: int
  gap_left :: int

datatype sway_view_type = SWAY_VIEW_XDG_SHELL | SWAY_VIEW_XWAYLAND

datatype sway_view_tearing_mode = TEARING_OVERRIDE_FALSE | TEARING_OVERRIDE_TRUE | TEARING_WINDOW_HINT

datatype shortcuts_inhibit_mode = SHORTCUTS_INHIBIT_DEFAULT | SHORTCUTS_INHIBIT_ENABLE | SHORTCUTS_INHIBIT_DISABLE

datatype atom_name =
  NET_WM_WINDOW_TYPE_NORMAL | NET_WM_WINDOW_TYPE_DIALOG | NET_WM_WINDOW_TYPE_UTILITY
  | NET_WM_WINDOW_TYPE_TOOLBAR | NET_WM_WINDOW_TYPE_SPLASH | NET_WM_WINDOW_TYPE_MENU
  | NET_WM_WINDOW_TYPE_DROPDOWN_MENU | NET_WM_WINDOW_TYPE_POPUP_MENU | NET_WM_WINDOW_TYPE_TOOLTIP
  | NET_WM_WINDOW_TYPE_NOTIFICATION | NET_WM_STATE_MODAL | ATOM_LAST

text \<open>
  A mapped view belongs to exactly one container (\<open>view->container\<close>), so its record sits in
  that container. The string properties are what \<open>view->impl->get_string_prop\<close> and the
  security context answer (\<open>None\<close> for \<open>NULL\<close>).
\<close>

record sway_view =
  view_type :: sway_view_type
  view_title :: "string option"
  view_app_id :: "string option"
  view_class :: "string option"
  view_instance :: "string option"
  view_sandbox_engine :: "string option"
  view_sandbox_app_id :: "string option"
  view_sandbox_instance_id :: "string option"
  view_natural_width :: int
  view_natural_height :: int
  view_using_csd :: bool
  view_urgent :: "int \<times> int"
  view_urgent_timer :: bool
  view_pid :: int
  view_window_role :: "string option"
  view_x11_window_id :: nat
  view_window_types :: "nat list"
  view_xdg_decoration :: bool
  view_max_render_time :: int
  view_tearing_mode :: sway_view_tearing_mode
  view_shortcuts_inhibit :: shortcuts_inhibit_mode
  view_allow_request_urgent :: bool
  view_executed_criteria :: "nat list"

record sway_container_state =
  st_layout :: sway_container_layout
  st_x :: rat
  st_y :: rat
  st_width :: rat
  st_height :: rat
  st_fullscreen_mode :: sway_fullscreen_mode
  st_workspace :: "nat option"
  st_parent :: "nat option"
  st_children :: "nat list option"
  st_focused_inactive_child :: "nat option"
  st_focused :: bool
  st_border :: sway_container_border
  st_border_thickness :: int
  st_border_top :: bool
  st_border_bottom :: bool
  st_border_left :: bool
  st_border_right :: bool
  st_content_x :: rat
  st_content_y :: rat
  st_content_width :: rat
  st_content_height :: rat

record maximized_state =
  mx_enabled :: bool
  mx_was_floating :: bool
  mx_x :: rat
  mx_y :: rat
  mx_width :: rat
  mx_height :: rat
  mx_workspace :: "nat option"
  mx_tiling_index :: int
  mx_width_fraction :: rat
  mx_height_fraction :: rat

record sway_container =
  con_view :: "sway_view option"
  con_current :: sway_container_state
  con_pending :: sway_container_state
  con_title :: "string option"
  con_formatted_title :: "string option"
  con_title_format :: "string option"
  con_prev_split_layout :: sway_container_layout
  con_is_sticky :: bool
  con_saved_x :: rat
  con_saved_y :: rat
  con_saved_width :: rat
  con_saved_height :: rat
  con_maximized :: maximized_state
  con_saved_border :: sway_container_border
  con_width_fraction :: rat
  con_height_fraction :: rat
  con_child_total_width :: rat
  con_child_total_height :: rat
  con_scratchpad :: bool
  con_full_output_overlay :: bool
  con_transform :: wlr_box
  con_marks :: "string list"
  con_alpha :: rat
  con_corner_radius :: int
  con_blur_enabled :: bool
  con_liquid_glass_enabled :: bool
  con_shadow_enabled :: bool
  con_dim :: rat

record sway_workspace =
  ws_fullscreen :: "nat option"
  ws_prev_fullscreen :: "nat option"
  ws_name :: string
  ws_representation :: string
  ws_x :: rat
  ws_y :: rat
  ws_width :: int
  ws_height :: int
  ws_scroll_x :: int
  ws_target_scroll_x :: int
  ws_scroll_follow_focus :: bool
  ws_interactive_resize :: bool
  ws_layout :: sway_container_layout
  ws_prev_split_layout :: sway_container_layout
  ws_current_gaps :: side_gaps
  ws_gaps_inner :: int
  ws_gaps_outer :: side_gaps
  ws_output :: "nat option"
  ws_floating :: "nat list"
  ws_tiling :: "nat list"
  ws_output_priority :: "string list"
  ws_urgent :: bool
  ws_current_focused_inactive_child :: "nat option"

record sway_output =
  out_name :: string
  out_make :: "string option"
  out_model :: "string option"
  out_serial :: "string option"
  out_enabled :: bool
  out_usable_area :: wlr_box
  out_lx :: int
  out_ly :: int
  out_width :: int
  out_height :: int
  out_workspaces :: "nat list"
  out_refresh_nsec :: nat
  out_max_render_time :: int
  out_allow_tearing :: bool

text \<open>
  \<open>focus_stack\<close> is the \<open>wl_list\<close> of seat nodes, most recently focused first;
  \<open>seat_workspace\<close> and \<open>seat_prev_workspace_name\<close> are the fields \<open>workspace\<close> and
  \<open>prev_workspace_name\<close> of the seat, \<open>seat_focused_layer\<close> its focused layer surface.
\<close>

record sway_seat =
  focus_stack :: "sway_node list"
  seat_has_focus :: bool
  seat_workspace :: "nat option"
  seat_prev_workspace_name :: "string option"
  seat_focused_layer :: "nat option"
  seat_has_exclusive_layer :: bool
  seat_deferred_bindings :: "sway_binding list"

text \<open>
  \<open>cfg_symbols\<close> are the variables of the configuration; the name is what follows its \<open>$\<close>
  (\<open>cmd_set\<close> refuses any other name).
\<close>

record workspace_config =
  wsc_workspace :: string
  wsc_outputs :: "string list"
  wsc_gaps_inner :: int
  wsc_gaps_outer :: side_gaps

text \<open>
  A pattern of a criteria: \<open>__focused__\<close>, with no regex, or a regex. \<open>crit_con_id\<close>,
  \<open>crit_id\<close> and \<open>crit_pid\<close> are 0 when not given.
\<close>

datatype pattern_type = PATTERN_PCRE2 | PATTERN_FOCUSED

record pattern =
  match_type :: pattern_type
  regex :: "string option"

datatype criteria_type = CT_NONE | CT_COMMAND | CT_ASSIGN_OUTPUT | CT_ASSIGN_WORKSPACE
  | CT_ASSIGN_WORKSPACE_NUMBER | CT_NO_FOCUS

datatype criteria_urgent = URGENT_ANY | URGENT_LATEST | URGENT_OLDEST

record sway_criteria =
  crit_type :: criteria_type
  crit_raw :: string
  crit_cmdlist :: string
  crit_target :: "string option"
  crit_title :: "pattern option"
  crit_shell :: "pattern option"
  crit_app_id :: "pattern option"
  crit_con_mark :: "pattern option"
  crit_con_id :: nat
  crit_class :: "pattern option"
  crit_id :: nat
  crit_instance :: "pattern option"
  crit_window_role :: "pattern option"
  crit_window_type :: atom_name
  crit_all :: bool
  crit_floating :: bool
  crit_tiling :: bool
  crit_urgent :: criteria_urgent
  crit_workspace :: "pattern option"
  crit_pid :: int
  crit_sandbox_engine :: "pattern option"
  crit_sandbox_app_id :: "pattern option"
  crit_sandbox_instance_id :: "pattern option"

text \<open>The current mode is one of \<open>cfg_modes\<close>, by its position.\<close>

record sway_config =
  cfg_default_orientation :: sway_container_layout
  cfg_default_workspace_layout :: sway_container_layout
  cfg_default_layout :: sway_container_layout
  cfg_font_height :: int
  cfg_titlebar_v_padding :: int
  cfg_pango_markup :: bool
  cfg_popup_during_fullscreen :: sway_popup_during_fullscreen
  cfg_smart_gaps :: smart_gaps_mode
  cfg_gaps_inner :: int
  cfg_gaps_outer :: side_gaps
  cfg_hide_edge_borders :: edge_border_types
  cfg_hide_edge_borders_smart :: edge_border_smart_types
  cfg_hide_lone_tab :: bool
  cfg_floating_maximum_width :: int
  cfg_floating_maximum_height :: int
  cfg_floating_minimum_width :: int
  cfg_floating_minimum_height :: int
  cfg_reloading :: bool
  cfg_auto_back_and_forth :: bool
  cfg_urgent_timeout :: nat
  cfg_workspace_configs :: "workspace_config list"
  cfg_modes :: "sway_mode list"
  cfg_current_mode :: nat
  cfg_criteria :: "sway_criteria list"
  cfg_cmd_queue :: "string list"
  cfg_font :: "string option"
  cfg_symbols :: "(string \<times> string) list"
  cfg_animation :: animation_config
  cfg_effects :: effects_config
  cfg_borders :: border_config
  cfg_flags :: flags_config

text \<open>
  What wlroots answers: the box of the output layout (of one output, or of all of them for
  \<open>None\<close>), the point of a box closest to a point, whether a box is empty, whether one client window is transient
  for another, markup escaping (pango), the position of a workspace's scene node, whether a
  \<open>wlr_output\<close> is enabled, and whether a layer surface is mapped and asks for exclusive
  keyboard focus on the top layers.
\<close>

record wlr_env =
  output_layout_box :: "nat option \<Rightarrow> wlr_box"
  box_closest_point :: "wlr_box \<Rightarrow> rat \<Rightarrow> rat \<Rightarrow> rat \<times> rat"
  box_is_empty :: "wlr_box \<Rightarrow> bool"
  client_is_transient_for :: "nat \<Rightarrow> nat \<Rightarrow> bool"
  escape_markup_text :: "string \<Rightarrow> string"
  tiling_layer_x :: "nat \<Rightarrow> int"
  wlr_output_enabled :: "nat \<Rightarrow> bool"
  layer_mapped :: "nat \<Rightarrow> bool"
  layer_exclusive :: "nat \<Rightarrow> bool"
  xwayland_atoms :: "atom_name \<Rightarrow> nat"

record sway =
  cons :: "nat \<Rightarrow> sway_container"
  wss :: "nat \<Rightarrow> sway_workspace"
  outs :: "nat \<Rightarrow> sway_output"
  next_id :: nat
  node_dirty :: "sway_node \<Rightarrow> bool"
  node_destroying :: "sway_node \<Rightarrow> bool"
  dirty_nodes :: "sway_node list"
  root_x :: rat
  root_y :: rat
  root_width :: rat
  root_height :: rat
  root_outputs :: "nat list"
  root_scratchpad :: "nat list"
  fallback_output :: nat
  fullscreen_global :: "nat option"
  seats :: "nat \<Rightarrow> sway_seat"
  seat_ids :: "nat list"
  current_seat :: nat
  default_seat :: nat
  monotonic_clock :: "int \<times> int"
  next_binding_order :: int
  scene_blur :: blur_data
  cfg :: sway_config
  env :: wlr_env

definition cfg_keysym_bindings :: "sway_config \<Rightarrow> sway_binding list" where
  "cfg_keysym_bindings c = mode_keysym_bindings (cfg_modes c ! cfg_current_mode c)"

definition cfg_keycode_bindings :: "sway_config \<Rightarrow> sway_binding list" where
  "cfg_keycode_bindings c = mode_keycode_bindings (cfg_modes c ! cfg_current_mode c)"

section \<open>Access through a pointer\<close>

abbreviation pending :: "sway \<Rightarrow> nat \<Rightarrow> sway_container_state" where
  "pending s c \<equiv> con_pending (cons s c)"

abbreviation parent_of :: "sway \<Rightarrow> nat \<Rightarrow> nat option" where
  "parent_of s c \<equiv> st_parent (pending s c)"

abbreviation workspace_of :: "sway \<Rightarrow> nat \<Rightarrow> nat option" where
  "workspace_of s c \<equiv> st_workspace (pending s c)"

abbreviation children_of :: "sway \<Rightarrow> nat \<Rightarrow> nat list option" where
  "children_of s c \<equiv> st_children (pending s c)"

abbreviation fullscreen_mode_of :: "sway \<Rightarrow> nat \<Rightarrow> sway_fullscreen_mode" where
  "fullscreen_mode_of s c \<equiv> st_fullscreen_mode (pending s c)"

text \<open>The children in order; none for a view, whose \<open>children\<close> is \<open>NULL\<close>.\<close>

definition kids :: "sway \<Rightarrow> nat \<Rightarrow> nat list" where
  "kids s c = (case children_of s c of None \<Rightarrow> [] | Some l \<Rightarrow> l)"

definition upd_con :: "nat \<Rightarrow> (sway_container \<Rightarrow> sway_container) \<Rightarrow> sway \<Rightarrow> sway" where
  "upd_con c f s = s\<lparr>cons := (cons s)(c := f (cons s c))\<rparr>"

definition upd_pending :: "nat \<Rightarrow> (sway_container_state \<Rightarrow> sway_container_state) \<Rightarrow> sway \<Rightarrow> sway" where
  "upd_pending c f = upd_con c (con_pending_update f)"

definition upd_ws :: "nat \<Rightarrow> (sway_workspace \<Rightarrow> sway_workspace) \<Rightarrow> sway \<Rightarrow> sway" where
  "upd_ws w f s = s\<lparr>wss := (wss s)(w := f (wss s w))\<rparr>"

definition upd_out :: "nat \<Rightarrow> (sway_output \<Rightarrow> sway_output) \<Rightarrow> sway \<Rightarrow> sway" where
  "upd_out out f s = s\<lparr>outs := (outs s)(out := f (outs s out))\<rparr>"

definition upd_seat :: "nat \<Rightarrow> (sway_seat \<Rightarrow> sway_seat) \<Rightarrow> sway \<Rightarrow> sway" where
  "upd_seat i f s = s\<lparr>seats := (seats s)(i := f (seats s i))\<rparr>"

lemmas upd_defs = upd_con_def upd_pending_def upd_ws_def upd_out_def upd_seat_def

section \<open>Freshly allocated structs\<close>

text \<open>What \<open>calloc\<close> returns: every field zero, \<open>NULL\<close> or \<open>false\<close>.\<close>

definition zero_box :: wlr_box where
  "zero_box = \<lparr>box_x = 0, box_y = 0, box_width = 0, box_height = 0\<rparr>"

definition zero_gaps :: side_gaps where
  "zero_gaps = \<lparr>gap_top = 0, gap_right = 0, gap_bottom = 0, gap_left = 0\<rparr>"

definition zero_container_state :: sway_container_state where
  "zero_container_state = \<lparr>st_layout = L_NONE, st_x = 0, st_y = 0, st_width = 0, st_height = 0,
     st_fullscreen_mode = FULLSCREEN_NONE, st_workspace = None, st_parent = None, st_children = None,
     st_focused_inactive_child = None, st_focused = False, st_border = B_NONE, st_border_thickness = 0,
     st_border_top = False, st_border_bottom = False, st_border_left = False, st_border_right = False,
     st_content_x = 0, st_content_y = 0, st_content_width = 0, st_content_height = 0\<rparr>"

definition zero_maximized :: maximized_state where
  "zero_maximized = \<lparr>mx_enabled = False, mx_was_floating = False, mx_x = 0, mx_y = 0, mx_width = 0,
     mx_height = 0, mx_workspace = None, mx_tiling_index = 0, mx_width_fraction = 0, mx_height_fraction = 0\<rparr>"

definition zero_container :: sway_container where
  "zero_container = \<lparr>con_view = None, con_current = zero_container_state, con_pending = zero_container_state,
     con_title = None, con_formatted_title = None, con_title_format = None, con_prev_split_layout = L_NONE,
     con_is_sticky = False, con_saved_x = 0, con_saved_y = 0, con_saved_width = 0, con_saved_height = 0,
     con_maximized = zero_maximized, con_saved_border = B_NONE, con_width_fraction = 0,
     con_height_fraction = 0, con_child_total_width = 0, con_child_total_height = 0, con_scratchpad = False,
     con_full_output_overlay = False, con_transform = zero_box, con_marks = [],
     con_alpha = 0, con_corner_radius = 0, con_blur_enabled = False, con_liquid_glass_enabled = False,
     con_shadow_enabled = False, con_dim = 0\<rparr>"

definition zero_workspace :: sway_workspace where
  "zero_workspace = \<lparr>ws_fullscreen = None, ws_prev_fullscreen = None, ws_name = [], ws_representation = [],
     ws_x = 0, ws_y = 0, ws_width = 0, ws_height = 0, ws_scroll_x = 0, ws_target_scroll_x = 0,
     ws_scroll_follow_focus = False, ws_interactive_resize = False, ws_layout = L_NONE,
     ws_prev_split_layout = L_NONE, ws_current_gaps = zero_gaps, ws_gaps_inner = 0, ws_gaps_outer = zero_gaps,
     ws_output = None, ws_floating = [], ws_tiling = [], ws_output_priority = [], ws_urgent = False,
     ws_current_focused_inactive_child = None\<rparr>"

definition zero_output :: sway_output where
  "zero_output = \<lparr>out_name = [], out_make = None, out_model = None, out_serial = None, out_enabled = False,
     out_usable_area = zero_box, out_lx = 0, out_ly = 0, out_width = 0, out_height = 0, out_workspaces = [],
     out_refresh_nsec = 0, out_max_render_time = 0, out_allow_tearing = False\<rparr>"

definition zero_seat :: sway_seat where
  "zero_seat = \<lparr>focus_stack = [], seat_has_focus = False, seat_workspace = None,
     seat_prev_workspace_name = None, seat_focused_layer = None, seat_has_exclusive_layer = False,
     seat_deferred_bindings = []\<rparr>"

definition zero_view :: sway_view where
  "zero_view = \<lparr>view_type = SWAY_VIEW_XDG_SHELL, view_title = None, view_app_id = None, view_class = None,
     view_instance = None, view_sandbox_engine = None, view_sandbox_app_id = None,
     view_sandbox_instance_id = None, view_natural_width = 0, view_natural_height = 0,
     view_using_csd = False, view_urgent = (0, 0), view_urgent_timer = False, view_pid = 0,
     view_window_role = None, view_x11_window_id = 0, view_window_types = [], view_xdg_decoration = False,
     view_max_render_time = 0, view_tearing_mode = TEARING_OVERRIDE_FALSE,
     view_shortcuts_inhibit = SHORTCUTS_INHIBIT_DEFAULT, view_allow_request_urgent = False,
     view_executed_criteria = []\<rparr>"

lemmas zero_defs = zero_box_def zero_gaps_def zero_container_state_def zero_maximized_def zero_container_def
  zero_workspace_def zero_output_def zero_seat_def zero_view_def

text \<open>The slot of an id that is not (yet) a container: no view and no children.\<close>

definition empty_slot :: sway_container where
  "empty_slot = zero_container\<lparr>con_pending := zero_container_state\<lparr>st_children := Some []\<rparr>\<rparr>"

section \<open>Nodes\<close>

text \<open>\<open>node_init\<close> is called on fresh memory: the new id's container slot is empty.\<close>

definition node_init :: "sway \<Rightarrow> nat \<times> sway" where
  "node_init s = (next_id s, s\<lparr>next_id := next_id s + 1, cons := (cons s)(next_id s := empty_slot)\<rparr>)"

fun node_type_to_str :: "sway_node \<Rightarrow> string" where
  "node_type_to_str N_ROOT = ''root''"
| "node_type_to_str (N_OUTPUT out) = ''output''"
| "node_type_to_str (N_WORKSPACE w) = ''workspace''"
| "node_type_to_str (N_CONTAINER c) = ''container''"

definition node_set_dirty :: "sway_node \<Rightarrow> sway \<Rightarrow> sway" where
  "node_set_dirty n s =
     (if node_dirty s n then s
      else s\<lparr>node_dirty := (node_dirty s)(n := True), dirty_nodes := dirty_nodes s @ [n]\<rparr>)"

text \<open>\<open>view->urgent\<close> is the time the view became urgent, zero when it is not.\<close>

definition view_is_urgent :: "sway_view \<Rightarrow> bool" where
  "view_is_urgent v = (fst (view_urgent v) \<noteq> 0 \<or> snd (view_urgent v) \<noteq> 0)"

fun node_is_view :: "sway \<Rightarrow> sway_node \<Rightarrow> bool" where
  "node_is_view s (N_CONTAINER c) = (con_view (cons s c) \<noteq> None)"
| "node_is_view s _ = False"

fun node_get_name :: "sway \<Rightarrow> sway_node \<Rightarrow> string option" where
  "node_get_name s N_ROOT = Some ''root''"
| "node_get_name s (N_OUTPUT out) = Some (out_name (outs s out))"
| "node_get_name s (N_WORKSPACE w) = Some (ws_name (wss s w))"
| "node_get_name s (N_CONTAINER c) = con_title (cons s c)"

text \<open>The boxes: assignment of a \<open>double\<close> to an \<open>int\<close> field truncates.\<close>

definition root_get_box :: "sway \<Rightarrow> wlr_box" where
  "root_get_box s = \<lparr>box_x = c_trunc (root_x s), box_y = c_trunc (root_y s),
     box_width = c_trunc (root_width s), box_height = c_trunc (root_height s)\<rparr>"

definition output_get_box :: "sway \<Rightarrow> nat \<Rightarrow> wlr_box" where
  "output_get_box s out = \<lparr>box_x = out_lx (outs s out), box_y = out_ly (outs s out),
     box_width = out_width (outs s out), box_height = out_height (outs s out)\<rparr>"

definition workspace_get_box :: "sway \<Rightarrow> nat \<Rightarrow> wlr_box" where
  "workspace_get_box s w = \<lparr>box_x = c_trunc (ws_x (wss s w)), box_y = c_trunc (ws_y (wss s w)),
     box_width = ws_width (wss s w), box_height = ws_height (wss s w)\<rparr>"

definition container_get_box :: "sway \<Rightarrow> nat \<Rightarrow> wlr_box" where
  "container_get_box s c = (let p = pending s c in
     \<lparr>box_x = c_trunc (st_x p), box_y = c_trunc (st_y p),
      box_width = c_trunc (st_width p), box_height = c_trunc (st_height p)\<rparr>)"

fun node_get_box :: "sway \<Rightarrow> sway_node \<Rightarrow> wlr_box" where
  "node_get_box s N_ROOT = root_get_box s"
| "node_get_box s (N_OUTPUT out) = output_get_box s out"
| "node_get_box s (N_WORKSPACE w) = workspace_get_box s w"
| "node_get_box s (N_CONTAINER c) = container_get_box s c"

fun node_get_output :: "sway \<Rightarrow> sway_node \<Rightarrow> nat option" where
  "node_get_output s (N_CONTAINER c) =
     (case workspace_of s c of None \<Rightarrow> None | Some w \<Rightarrow> ws_output (wss s w))"
| "node_get_output s (N_WORKSPACE w) = ws_output (wss s w)"
| "node_get_output s (N_OUTPUT out) = Some out"
| "node_get_output s N_ROOT = None"

fun node_get_layout :: "sway \<Rightarrow> sway_node \<Rightarrow> sway_container_layout" where
  "node_get_layout s (N_CONTAINER c) = st_layout (pending s c)"
| "node_get_layout s (N_WORKSPACE w) = ws_layout (wss s w)"
| "node_get_layout s _ = L_NONE"

fun node_get_parent :: "sway \<Rightarrow> sway_node \<Rightarrow> sway_node option" where
  "node_get_parent s (N_CONTAINER c) =
     (case parent_of s c of
        Some p \<Rightarrow> Some (N_CONTAINER p)
      | None \<Rightarrow> map_option N_WORKSPACE (workspace_of s c))"
| "node_get_parent s (N_WORKSPACE w) = map_option N_OUTPUT (ws_output (wss s w))"
| "node_get_parent s (N_OUTPUT out) = Some N_ROOT"
| "node_get_parent s N_ROOT = None"

fun node_get_children :: "sway \<Rightarrow> sway_node \<Rightarrow> nat list option" where
  "node_get_children s (N_CONTAINER c) = children_of s c"
| "node_get_children s (N_WORKSPACE w) = Some (ws_tiling (wss s w))"
| "node_get_children s _ = None"

text \<open>
  The walk to the root follows at most one \<open>parent\<close> pointer per container, then the
  workspace, the output and the root: \<open>next_id s + 3\<close> steps are enough in a well-formed tree
  (\<open>node_has_ancestor_below\<close> in \<open>Focus_Laws\<close>).
\<close>

fun is_global_fullscreen_node :: "sway \<Rightarrow> sway_node \<Rightarrow> bool" where
  "is_global_fullscreen_node s (N_CONTAINER c) = (fullscreen_mode_of s c = FULLSCREEN_GLOBAL)"
| "is_global_fullscreen_node s _ = False"

fun ancestor_walk :: "nat \<Rightarrow> sway \<Rightarrow> sway_node option \<Rightarrow> sway_node \<Rightarrow> bool" where
  "ancestor_walk 0 s parent ancestor = False"
| "ancestor_walk (Suc n) s None ancestor = False"
| "ancestor_walk (Suc n) s (Some p) ancestor =
     (if p = ancestor then True
      else if ancestor = N_ROOT \<and> is_global_fullscreen_node s p then True
      else ancestor_walk n s (node_get_parent s p) ancestor)"

definition node_has_ancestor :: "sway \<Rightarrow> sway_node \<Rightarrow> sway_node \<Rightarrow> bool" where
  "node_has_ancestor s node ancestor =
     (if ancestor = N_ROOT \<and> is_global_fullscreen_node s node then True
      else ancestor_walk (next_id s + 4) s (node_get_parent s node) ancestor)"


text \<open>
  The state after start-up with one seat: the root is node 1 and the fallback output node 2
  (\<open>root_create\<close>, \<open>server_init\<close>).
\<close>

definition initial_sway :: "sway_config \<Rightarrow> wlr_env \<Rightarrow> sway" where
  "initial_sway config e = \<lparr>cons = (\<lambda>_. empty_slot), wss = (\<lambda>_. zero_workspace), outs = (\<lambda>_. zero_output),
     next_id = 3, node_dirty = (\<lambda>_. False), node_destroying = (\<lambda>_. False), dirty_nodes = [],
     root_x = 0, root_y = 0, root_width = 0, root_height = 0, root_outputs = [], root_scratchpad = [],
     fallback_output = 2, fullscreen_global = None, seats = (\<lambda>_. zero_seat), seat_ids = [0],
     current_seat = 0, default_seat = 0, monotonic_clock = (0, 1), next_binding_order = 0,
     scene_blur = zero_blur, cfg = config, env = e\<rparr>"

text \<open>
  A configuration with the defaults of \<open>config_defaults\<close> for the tree and all other settings
  zero, and a headless environment; the witnesses start from it.
\<close>

definition default_config :: sway_config where
  "default_config = \<lparr>cfg_default_orientation = L_NONE, cfg_default_workspace_layout = L_NONE,
     cfg_default_layout = L_NONE, cfg_font_height = 17, cfg_titlebar_v_padding = 4, cfg_pango_markup = False,
     cfg_popup_during_fullscreen = POPUP_SMART, cfg_smart_gaps = SMART_GAPS_OFF, cfg_gaps_inner = 0,
     cfg_gaps_outer = zero_gaps, cfg_hide_edge_borders = E_NONE, cfg_hide_edge_borders_smart = ESMART_OFF,
     cfg_hide_lone_tab = False, cfg_floating_maximum_width = 0, cfg_floating_maximum_height = 0,
     cfg_floating_minimum_width = 75, cfg_floating_minimum_height = 50, cfg_reloading = False,
     cfg_auto_back_and_forth = False, cfg_urgent_timeout = 500, cfg_workspace_configs = [],
     cfg_modes = [new_mode ''default'' False], cfg_current_mode = 0, cfg_criteria = [], cfg_cmd_queue = [],
     cfg_font = None, cfg_symbols = [],
     cfg_animation = zero_animation, cfg_effects = zero_effects, cfg_borders = zero_borders,
     cfg_flags = zero_flags\<rparr>"

definition headless_env :: wlr_env where
  "headless_env = \<lparr>output_layout_box = (\<lambda>_. zero_box), box_closest_point = (\<lambda>b px py. (px, py)),
     box_is_empty = (\<lambda>b. box_width b \<le> 0 \<or> box_height b \<le> 0),
     client_is_transient_for = (\<lambda>_ _. False), escape_markup_text = (\<lambda>x. x), tiling_layer_x = (\<lambda>_. 0),
     wlr_output_enabled = (\<lambda>_. True), layer_mapped = (\<lambda>_. True), layer_exclusive = (\<lambda>_. False),
     xwayland_atoms = (\<lambda>_. 0)\<rparr>"

definition sway0 :: sway where
  "sway0 = initial_sway default_config headless_env"

end
