(* ===== verification/Tree_Shape.thy ===== *)
theory Tree_Shape
  imports Prelude
begin

text \<open>
  The abstract window tree: what a container's \<open>pending.parent\<close>, \<open>pending.workspace\<close> and
  \<open>pending.children\<close> and a workspace's \<open>tiling\<close> and \<open>floating\<close> lists say about each other,
  with everything else of the state forgotten. \<open>wf_tree\<close> is the invariant of the window
  tree; \<open>t_detach\<close> and \<open>t_insert\<close> are the two structural moves all operations of
  \<open>container.c\<close> and \<open>workspace.c\<close> are made of, specified on whole subtrees at once. The theory
  proves that they keep the invariant; the refinement theorems that relate the code to them
  are in \<open>Container_Ops\<close>.
\<close>

section \<open>The abstract tree and its invariant\<close>

record tree =
  t_parent :: "nat \<Rightarrow> nat option"
  t_ws :: "nat \<Rightarrow> nat option"
  t_kids :: "nat \<Rightarrow> nat list option"
  t_view :: "nat \<Rightarrow> bool"
  t_tiling :: "nat \<Rightarrow> nat list"
  t_floating :: "nat \<Rightarrow> nat list"
  t_next :: nat

definition kidl :: "tree \<Rightarrow> nat \<Rightarrow> nat list" where
  "kidl t p = (case t_kids t p of None \<Rightarrow> [] | Some l \<Rightarrow> l)"

definition edges :: "tree \<Rightarrow> (nat \<times> nat) set" where
  "edges t = {(p, c). t_parent t c = Some p}"

text \<open>Proper descendants of a container.\<close>

definition below :: "tree \<Rightarrow> nat \<Rightarrow> nat set" where
  "below t c = {x. (c, x) \<in> (edges t)\<^sup>+}"

definition top_level :: "tree \<Rightarrow> nat \<Rightarrow> nat list" where
  "top_level t w = t_tiling t w @ t_floating t w"

definition wf_lists :: "tree \<Rightarrow> bool" where
  "wf_lists t \<longleftrightarrow>
     (\<forall>p. distinct (kidl t p)) \<and> (\<forall>p c. c \<in> set (kidl t p) \<longleftrightarrow> t_parent t c = Some p) \<and>
     (\<forall>w. distinct (top_level t w)) \<and>
     (\<forall>w c. c \<in> set (top_level t w) \<longleftrightarrow> t_parent t c = None \<and> t_ws t c = Some w)"

definition wf_links :: "tree \<Rightarrow> bool" where
  "wf_links t \<longleftrightarrow>
     (\<forall>c p. t_parent t c = Some p \<longrightarrow> t_ws t c = t_ws t p \<and> c < t_next t \<and> p < t_next t) \<and>
     (\<forall>c w. t_ws t c = Some w \<longrightarrow> c < t_next t) \<and>
     (\<forall>c < t_next t. t_kids t c = None \<longrightarrow> t_view t c) \<and>
     (\<forall>c. t_view t c \<longrightarrow> t_kids t c = None)"

definition wf_tree :: "tree \<Rightarrow> bool" where
  "wf_tree t \<longleftrightarrow> wf_lists t \<and> wf_links t \<and> wf (edges t)"

lemma wf_treeD:
  assumes "wf_tree t"
  shows "distinct (kidl t p)" "c \<in> set (kidl t p) \<longleftrightarrow> t_parent t c = Some p"
    "distinct (t_tiling t w)" "distinct (t_floating t w)"
    "set (t_tiling t w) \<inter> set (t_floating t w) = {}"
    "c \<in> set (t_tiling t w) \<or> c \<in> set (t_floating t w) \<longleftrightarrow> t_parent t c = None \<and> t_ws t c = Some w"
    "t_parent t c = Some p \<Longrightarrow> t_ws t c = t_ws t p"
    "t_parent t c = Some p \<Longrightarrow> c < t_next t"
    "t_parent t c = Some p \<Longrightarrow> p < t_next t"
    "t_ws t c = Some w \<Longrightarrow> c < t_next t"
    "wf (edges t)"
    "t_view t c \<Longrightarrow> t_kids t c = None"
    "c < t_next t \<Longrightarrow> t_kids t c = None \<Longrightarrow> t_view t c"
proof -
  have L: "wf_lists t" and K: "wf_links t" and W: "wf (edges t)"
    using assms by (simp_all add: wf_tree_def)
  show "distinct (kidl t p)" "c \<in> set (kidl t p) \<longleftrightarrow> t_parent t c = Some p"
    using L by (simp_all add: wf_lists_def)
  have D: "distinct (t_tiling t w @ t_floating t w)" using L by (simp add: wf_lists_def top_level_def)
  then show "distinct (t_tiling t w)" "distinct (t_floating t w)"
    "set (t_tiling t w) \<inter> set (t_floating t w) = {}" by simp_all
  have "c \<in> set (t_tiling t w @ t_floating t w) \<longleftrightarrow> t_parent t c = None \<and> t_ws t c = Some w"
    using L by (simp add: wf_lists_def top_level_def)
  then show "c \<in> set (t_tiling t w) \<or> c \<in> set (t_floating t w) \<longleftrightarrow> t_parent t c = None \<and> t_ws t c = Some w"
    by simp
  show "t_parent t c = Some p \<Longrightarrow> t_ws t c = t_ws t p" "t_parent t c = Some p \<Longrightarrow> c < t_next t"
    "t_parent t c = Some p \<Longrightarrow> p < t_next t" "t_ws t c = Some w \<Longrightarrow> c < t_next t"
    "t_view t c \<Longrightarrow> t_kids t c = None" "c < t_next t \<Longrightarrow> t_kids t c = None \<Longrightarrow> t_view t c"
    using K by (simp_all add: wf_links_def)
  show "wf (edges t)" by (rule W)
qed

lemma wf_treeI:
  assumes "\<And>p. distinct (kidl t p)" "\<And>p c. c \<in> set (kidl t p) \<longleftrightarrow> t_parent t c = Some p"
    "\<And>w. distinct (t_tiling t w @ t_floating t w)"
    "\<And>w c. c \<in> set (t_tiling t w) \<or> c \<in> set (t_floating t w) \<longleftrightarrow> t_parent t c = None \<and> t_ws t c = Some w"
    "\<And>c p. t_parent t c = Some p \<Longrightarrow> t_ws t c = t_ws t p \<and> c < t_next t \<and> p < t_next t"
    "\<And>c w. t_ws t c = Some w \<Longrightarrow> c < t_next t"
    "wf (edges t)"
    "\<And>c. t_view t c \<Longrightarrow> t_kids t c = None"
    "\<And>c. c < t_next t \<Longrightarrow> t_kids t c = None \<Longrightarrow> t_view t c"
  shows "wf_tree t"
  using assms unfolding wf_tree_def wf_lists_def wf_links_def top_level_def by simp

lemma edges_iff [simp]: "(p, c) \<in> edges t \<longleftrightarrow> t_parent t c = Some p"
  by (simp add: edges_def)

lemma below_child: "t_parent t x = Some c \<Longrightarrow> x \<in> below t c"
  by (auto simp: below_def)

lemma below_step: "y \<in> below t c \<Longrightarrow> t_parent t x = Some y \<Longrightarrow> x \<in> below t c"
  unfolding below_def by (auto intro: trancl_into_trancl)

lemma below_cases:
  assumes "x \<in> below t c"
  obtains p where "t_parent t x = Some p" "p = c \<or> p \<in> below t c"
  using assms unfolding below_def by (auto elim: tranclE)

lemma below_parent: "x \<in> below t c \<longleftrightarrow> (\<exists>p. t_parent t x = Some p \<and> (p = c \<or> p \<in> below t c))"
  by (meson below_cases below_child below_step)

lemma below_trans: "y \<in> below t c \<Longrightarrow> x \<in> below t y \<Longrightarrow> x \<in> below t c"
  unfolding below_def by (auto intro: trancl_trans)

lemma below_irrefl: "wf_tree t \<Longrightarrow> c \<notin> below t c"
  unfolding below_def using wf_acyclic [OF wf_treeD(11)] by (simp add: acyclic_def)

lemma below_ws:
  assumes "wf_tree t" "x \<in> below t c"
  shows "t_ws t x = t_ws t c"
proof -
  have "(c, x) \<in> (edges t)\<^sup>+" using assms(2) by (simp add: below_def)
  then show ?thesis
    by induction (use wf_treeD(7) [OF assms(1)] in auto)
qed

lemma below_less: "wf_tree t \<Longrightarrow> x \<in> below t c \<Longrightarrow> x < t_next t"
  using below_cases wf_treeD(8) by metis

section \<open>The structural moves\<close>

text \<open>Take the subtree of \<open>c\<close> out of the tree.\<close>

definition t_detach :: "nat \<Rightarrow> tree \<Rightarrow> tree" where
  "t_detach c t = t\<lparr>
     t_parent := (t_parent t)(c := None),
     t_ws := (\<lambda>x. if x = c \<or> x \<in> below t c then None else t_ws t x),
     t_kids := (case t_parent t c of None \<Rightarrow> t_kids t
                | Some p \<Rightarrow> (t_kids t)(p := map_option (remove1 c) (t_kids t p))),
     t_tiling := (\<lambda>w. if t_parent t c = None \<and> t_ws t c = Some w
                      then remove1 c (t_tiling t w) else t_tiling t w),
     t_floating := (\<lambda>w. if t_parent t c = None \<and> t_ws t c = Some w
                        then remove1 c (t_floating t w) else t_floating t w)\<rparr>"

text \<open>Where a detached subtree can be put: the index is a position in the list.\<close>

datatype place = Under nat nat | Tiling nat nat | Floating nat nat

fun place_parent :: "place \<Rightarrow> nat option" where
  "place_parent (Under p i) = Some p"
| "place_parent _ = None"

fun place_ws :: "tree \<Rightarrow> place \<Rightarrow> nat option" where
  "place_ws t (Under p i) = t_ws t p"
| "place_ws t (Tiling w i) = Some w"
| "place_ws t (Floating w i) = Some w"

fun place_ok :: "tree \<Rightarrow> nat \<Rightarrow> place \<Rightarrow> bool" where
  "place_ok t c (Under p i) =
     (\<not> t_view t p \<and> p < t_next t \<and> p \<noteq> c \<and> p \<notin> below t c \<and> i \<le> length (kidl t p))"
| "place_ok t c (Tiling w i) = (i \<le> length (t_tiling t w))"
| "place_ok t c (Floating w i) = (i \<le> length (t_floating t w))"

definition t_insert :: "place \<Rightarrow> nat \<Rightarrow> tree \<Rightarrow> tree" where
  "t_insert pl c t = t\<lparr>
     t_parent := (t_parent t)(c := place_parent pl),
     t_ws := (\<lambda>x. if x = c \<or> x \<in> below t c then place_ws t pl else t_ws t x),
     t_kids := (case pl of Under p i \<Rightarrow> (t_kids t)(p := map_option (insert_at i c) (t_kids t p))
                | _ \<Rightarrow> t_kids t),
     t_tiling := (case pl of Tiling w i \<Rightarrow> (t_tiling t)(w := insert_at i c (t_tiling t w))
                  | _ \<Rightarrow> t_tiling t),
     t_floating := (case pl of Floating w i \<Rightarrow> (t_floating t)(w := insert_at i c (t_floating t w))
                    | _ \<Rightarrow> t_floating t)\<rparr>"

text \<open>A new container: no parent, no workspace; a view has no children.\<close>

definition t_create :: "bool \<Rightarrow> tree \<Rightarrow> tree" where
  "t_create is_view t = (let c = t_next t in t\<lparr>
     t_parent := (t_parent t)(c := None), t_ws := (t_ws t)(c := None),
     t_kids := (t_kids t)(c := if is_view then None else Some []),
     t_view := (t_view t)(c := is_view), t_next := c + 1\<rparr>)"

section \<open>Detaching keeps the invariant\<close>

lemma t_detach_sel [simp]:
  "t_parent (t_detach c t) = (t_parent t)(c := None)"
  "t_ws (t_detach c t) = (\<lambda>x. if x = c \<or> x \<in> below t c then None else t_ws t x)"
  "t_view (t_detach c t) = t_view t" "t_next (t_detach c t) = t_next t"
  by (simp_all add: t_detach_def)

lemma kidl_detach: "kidl (t_detach c t) p = (if t_parent t c = Some p then remove1 c (kidl t p) else kidl t p)"
  by (cases "t_parent t c") (auto simp: kidl_def t_detach_def split: option.splits)

lemma tiling_detach:
  "t_tiling (t_detach c t) w = (if t_parent t c = None \<and> t_ws t c = Some w then remove1 c (t_tiling t w) else t_tiling t w)"
  "t_floating (t_detach c t) w = (if t_parent t c = None \<and> t_ws t c = Some w then remove1 c (t_floating t w) else t_floating t w)"
  by (simp_all add: t_detach_def)

lemma t_kids_detach_None: "t_kids (t_detach c t) p = None \<longleftrightarrow> t_kids t p = None"
  by (simp add: t_detach_def split: option.splits)

lemma edges_detach: "edges (t_detach c t) \<subseteq> edges t"
  by (auto simp: edges_def split: if_splits)

theorem wf_tree_detach:
  assumes wf: "wf_tree t"
  shows "wf_tree (t_detach c t)"
proof (rule wf_treeI)
  fix p show "distinct (kidl (t_detach c t) p)"
    using wf_treeD(1) [OF wf, of p] by (simp add: kidl_detach)
next
  fix p x
  show "x \<in> set (kidl (t_detach c t) p) \<longleftrightarrow> t_parent (t_detach c t) x = Some p"
    using wf_treeD(1) [OF wf, of p] wf_treeD(2) [OF wf, of x p] by (auto simp: kidl_detach)
next
  fix w show "distinct (t_tiling (t_detach c t) w @ t_floating (t_detach c t) w)"
    using wf_treeD(3-5) [OF wf, of w] by (auto simp: tiling_detach dest: notin_set_remove1)
next
  fix w x
  have "x \<in> below t c \<Longrightarrow> t_parent t x \<noteq> None" by (metis below_cases option.distinct(1))
  then show "x \<in> set (t_tiling (t_detach c t) w) \<or> x \<in> set (t_floating (t_detach c t) w)
      \<longleftrightarrow> t_parent (t_detach c t) x = None \<and> t_ws (t_detach c t) x = Some w"
    using wf_treeD(3-4) [OF wf, of w] wf_treeD(6) [OF wf, of x w] by (auto simp: tiling_detach)
next
  fix x q assume "t_parent (t_detach c t) x = Some q"
  then have x: "x \<noteq> c" "t_parent t x = Some q" by (auto split: if_splits)
  then have "x \<in> below t c \<longleftrightarrow> q = c \<or> q \<in> below t c" by (simp add: below_parent [of x])
  with x show "t_ws (t_detach c t) x = t_ws (t_detach c t) q \<and> x < t_next (t_detach c t) \<and> q < t_next (t_detach c t)"
    using wf_treeD(7-9) [OF wf, of x q] by auto
next
  fix x w assume "t_ws (t_detach c t) x = Some w"
  then show "x < t_next (t_detach c t)" using wf_treeD(10) [OF wf] by (auto split: if_splits)
next
  show "wf (edges (t_detach c t))" by (rule wf_subset [OF wf_treeD(11) [OF wf] edges_detach])
next
  fix x assume "t_view (t_detach c t) x"
  then show "t_kids (t_detach c t) x = None" using wf_treeD(12) [OF wf] by (simp add: t_kids_detach_None)
next
  fix x assume "x < t_next (t_detach c t)" "t_kids (t_detach c t) x = None"
  then show "t_view (t_detach c t) x" using wf_treeD(13) [OF wf] by (simp add: t_kids_detach_None)
qed

text \<open>A detached subtree keeps its shape: the same containers are below it.\<close>

lemma below_detach:
  assumes "wf_tree t"
  shows "below (t_detach c t) c = below t c"
proof
  show "below (t_detach c t) c \<subseteq> below t c"
    unfolding below_def using trancl_mono [OF _ edges_detach] by blast
  show "below t c \<subseteq> below (t_detach c t) c"
  proof
    fix x assume "x \<in> below t c"
    then have "(c, x) \<in> (edges t)\<^sup>+" by (simp add: below_def)
    then show "x \<in> below (t_detach c t) c"
    proof induction
      case (base y)
      then have "y \<in> below t c" by (simp add: below_child)
      then have "y \<noteq> c" using below_irrefl [OF assms] by blast
      with base show ?case by (intro below_child) simp
    next
      case (step y z)
      then have "z \<in> below t c" by (simp add: below_def trancl_into_trancl)
      then have "z \<noteq> c" using below_irrefl [OF assms] by blast
      with step show ?case by (intro below_step [OF step.IH]) simp
    qed
  qed
qed


section \<open>Inserting keeps the invariant\<close>

lemma t_insert_sel [simp]:
  "t_parent (t_insert pl c t) = (t_parent t)(c := place_parent pl)"
  "t_ws (t_insert pl c t) = (\<lambda>x. if x = c \<or> x \<in> below t c then place_ws t pl else t_ws t x)"
  "t_view (t_insert pl c t) = t_view t" "t_next (t_insert pl c t) = t_next t"
  by (simp_all add: t_insert_def)

lemma kidl_insert:
  "kidl (t_insert (Under p i) c t) q =
     (if q = p \<and> t_kids t p \<noteq> None then insert_at i c (kidl t p) else kidl t q)"
  "kidl (t_insert (Tiling w i) c t) q = kidl t q" "kidl (t_insert (Floating w i) c t) q = kidl t q"
  by (auto simp: kidl_def t_insert_def split: option.splits)

lemma tops_insert:
  "t_tiling (t_insert (Tiling w i) c t) v = (if v = w then insert_at i c (t_tiling t w) else t_tiling t v)"
  "t_floating (t_insert (Floating w i) c t) v = (if v = w then insert_at i c (t_floating t w) else t_floating t v)"
  "t_tiling (t_insert (Under p i) c t) v = t_tiling t v"
  "t_floating (t_insert (Under p i) c t) v = t_floating t v"
  "t_tiling (t_insert (Floating w i) c t) v = t_tiling t v"
  "t_floating (t_insert (Tiling w i) c t) v = t_floating t v"
  by (simp_all add: t_insert_def)

lemma t_kids_insert_None: "t_kids (t_insert pl c t) q = None \<longleftrightarrow> t_kids t q = None"
  by (simp add: t_insert_def split: place.splits)

lemma edges_insert:
  "t_parent t c = None \<Longrightarrow>
   edges (t_insert pl c t) = (case place_parent pl of None \<Rightarrow> edges t | Some p \<Rightarrow> insert (p, c) (edges t))"
  by (cases pl) (auto simp: edges_def split: if_splits)

lemma set_kidl_insert:
  assumes "place_ok t c pl" "wf_tree t"
  shows "set (kidl (t_insert pl c t) q) = (if place_parent pl = Some q then {c} else {}) \<union> set (kidl t q)"
  using assms wf_treeD(13) [OF assms(2)] by (cases pl) (auto simp: kidl_insert)

lemma set_tops_insert:
  "set (t_tiling (t_insert pl c t) w @ t_floating (t_insert pl c t) w)
   = (if place_parent pl = None \<and> place_ws t pl = Some w then {c} else {}) \<union> set (t_tiling t w @ t_floating t w)"
  by (cases pl) (auto simp: tops_insert)

lemma wf_edges_insert:
  assumes wf: "wf_tree t" and det: "t_parent t c = None" and ok: "place_ok t c pl"
  shows "wf (edges (t_insert pl c t))"
proof (cases "place_parent pl")
  case None
  then show ?thesis using wf_treeD(11) [OF wf] by (simp add: edges_insert [OF det])
next
  case (Some p)
  then have "p \<noteq> c" "p \<notin> below t c" using ok by (cases pl; simp)+
  then have "(c, p) \<notin> (edges t)\<^sup>*" by (auto simp: below_def rtrancl_eq_or_trancl)
  then show ?thesis using wf_treeD(11) [OF wf] Some by (simp add: edges_insert [OF det])
qed

theorem wf_tree_insert:
  assumes wf: "wf_tree t" and det: "t_parent t c = None" "t_ws t c = None"
    and new: "c < t_next t" and ok: "place_ok t c pl"
  shows "wf_tree (t_insert pl c t)"
proof (rule wf_treeI)
  have fresh: "c \<notin> set (kidl t p)" "c \<notin> set (t_tiling t w)" "c \<notin> set (t_floating t w)" for p w
    using wf_treeD(2) [OF wf, of c p] wf_treeD(6) [OF wf, of c w] det by auto
  fix p show "distinct (kidl (t_insert pl c t) p)"
    using wf_treeD(1) [OF wf, of p] fresh(1)
    by (cases pl) (auto simp: kidl_insert distinct_insert_at)
  fix w show "distinct (t_tiling (t_insert pl c t) w @ t_floating (t_insert pl c t) w)"
    using wf_treeD(3-5) [OF wf, of w] fresh(2,3)
    by (cases pl) (auto simp: tops_insert distinct_insert_at)
next
  fix p x show "x \<in> set (kidl (t_insert pl c t) p) \<longleftrightarrow> t_parent (t_insert pl c t) x = Some p"
    using wf_treeD(2) [OF wf, of x p] det(1) by (auto simp: set_kidl_insert [OF ok wf])
next
  fix w x
  have nb: "x \<in> below t c \<Longrightarrow> t_parent t x \<noteq> None" by (metis below_cases option.distinct(1))
  have "x \<in> set (t_tiling (t_insert pl c t) w @ t_floating (t_insert pl c t) w)
      \<longleftrightarrow> t_parent (t_insert pl c t) x = None \<and> t_ws (t_insert pl c t) x = Some w"
    unfolding set_tops_insert using wf_treeD(6) [OF wf, of x w] det nb by auto
  then show "x \<in> set (t_tiling (t_insert pl c t) w) \<or> x \<in> set (t_floating (t_insert pl c t) w)
      \<longleftrightarrow> t_parent (t_insert pl c t) x = None \<and> t_ws (t_insert pl c t) x = Some w"
    by simp
next
  fix x q assume a: "t_parent (t_insert pl c t) x = Some q"
  show "t_ws (t_insert pl c t) x = t_ws (t_insert pl c t) q \<and> x < t_next (t_insert pl c t) \<and> q < t_next (t_insert pl c t)"
  proof (cases "x = c")
    case True
    then obtain i where "pl = Under q i" using a by (cases pl) auto
    with True ok new show ?thesis by simp
  next
    case False
    then have "t_parent t x = Some q" using a by simp
    then show ?thesis using False wf_treeD(7-9) [OF wf, of x q] by (auto simp: below_parent [of x])
  qed
next
  fix x w assume "t_ws (t_insert pl c t) x = Some w"
  then show "x < t_next (t_insert pl c t)"
    using wf_treeD(10) [OF wf, of x w] below_less [OF wf, of x c] new by (auto split: if_splits)
next
  show "wf (edges (t_insert pl c t))" by (rule wf_edges_insert [OF wf det(1) ok])
next
  fix x assume "t_view (t_insert pl c t) x"
  then show "t_kids (t_insert pl c t) x = None" using wf_treeD(12) [OF wf] by (simp add: t_kids_insert_None)
next
  fix x assume "x < t_next (t_insert pl c t)" "t_kids (t_insert pl c t) x = None"
  then show "t_view (t_insert pl c t) x" using wf_treeD(13) [OF wf] by (simp add: t_kids_insert_None)
qed


section \<open>New containers\<close>

theorem wf_tree_create:
  assumes wf: "wf_tree t"
  shows "wf_tree (t_create v t)"
proof (rule wf_treeI)
  have par: "t_parent t x \<noteq> Some (t_next t)" for x using wf_treeD(9) [OF wf, of x "t_next t"] by auto
  have ws: "t_ws t (t_next t) = None" using wf_treeD(10) [OF wf, of "t_next t"] by (cases "t_ws t (t_next t)") auto
  have par': "t_parent t (t_next t) = None"
    using wf_treeD(8) [OF wf, of "t_next t"] by (cases "t_parent t (t_next t)") auto
  have kid: "kidl t (t_next t) = []" using wf_treeD(2) [OF wf, of _ "t_next t"] par by (metis list.set_intros(1) neq_Nil_conv)
  have kidl: "kidl (t_create v t) p = kidl t p" for p
    by (cases "p = t_next t") (use kid in \<open>auto simp: kidl_def t_create_def Let_def\<close>)
  have edges: "edges (t_create v t) = edges t"
    using par' by (auto simp: edges_def t_create_def Let_def)
  fix p show "distinct (kidl (t_create v t) p)" by (simp add: kidl wf_treeD(1) [OF wf])
  fix x show "x \<in> set (kidl (t_create v t) p) \<longleftrightarrow> t_parent (t_create v t) x = Some p"
    using wf_treeD(2) [OF wf, of x p] par' unfolding kidl by (auto simp: t_create_def Let_def)
  fix w show "distinct (t_tiling (t_create v t) w @ t_floating (t_create v t) w)"
    using wf_treeD(3-5) [OF wf, of w] by (simp add: t_create_def Let_def)
  show "x \<in> set (t_tiling (t_create v t) w) \<or> x \<in> set (t_floating (t_create v t) w)
      \<longleftrightarrow> t_parent (t_create v t) x = None \<and> t_ws (t_create v t) x = Some w"
    using wf_treeD(6) [OF wf, of x w] ws by (auto simp: t_create_def Let_def)
  show "wf (edges (t_create v t))" unfolding edges by (rule wf_treeD(11) [OF wf])
  fix c q assume q: "t_parent (t_create v t) c = Some q"
  then have "t_parent t c = Some q" "c \<noteq> t_next t" using par' by (auto simp: t_create_def Let_def split: if_splits)
  then show "t_ws (t_create v t) c = t_ws (t_create v t) q \<and> c < t_next (t_create v t) \<and> q < t_next (t_create v t)"
    using wf_treeD(7-9) [OF wf, of c q] ws by (auto simp: t_create_def Let_def)
next
  fix c w assume "t_ws (t_create v t) c = Some w"
  then show "c < t_next (t_create v t)"
    using wf_treeD(10) [OF wf, of c w] by (auto simp: t_create_def Let_def split: if_splits)
next
  fix x assume "t_view (t_create v t) x"
  then show "t_kids (t_create v t) x = None"
    using wf_treeD(12) [OF wf, of x] by (auto simp: t_create_def Let_def split: if_splits)
next
  fix x assume "x < t_next (t_create v t)" "t_kids (t_create v t) x = None"
  then show "t_view (t_create v t) x"
    using wf_treeD(13) [OF wf, of x] by (auto simp: t_create_def Let_def less_Suc_eq split: if_splits)
qed

section \<open>Walks along the tree\<close>

text \<open>
  \<open>anc n f c\<close> are the values \<open>con\<close> takes in a loop that follows \<open>con = con->pending.parent\<close>,
  starting from the parent of \<open>c\<close>, for at most \<open>n\<close> steps; \<open>desc n k c\<close> is the order in
  which a recursion over children reaches the containers below \<open>c\<close>, to depth \<open>n\<close>.
\<close>

fun anc :: "nat \<Rightarrow> (nat \<Rightarrow> nat option) \<Rightarrow> nat \<Rightarrow> nat list" where
  "anc 0 f c = []"
| "anc (Suc n) f c = (case f c of None \<Rightarrow> [] | Some p \<Rightarrow> p # anc n f p)"

fun desc :: "nat \<Rightarrow> (nat \<Rightarrow> nat list) \<Rightarrow> nat \<Rightarrow> nat list" where
  "desc 0 k c = []"
| "desc (Suc n) k c = concat (map (\<lambda>x. x # desc n k x) (k c))"

lemma anc_Suc: "anc (Suc n) f c = anc n f c \<or> length (anc (Suc n) f c) = Suc n"
proof (induction n arbitrary: c)
  case (Suc n)
  show ?case
  proof (cases "f c")
    case (Some p)
    then show ?thesis using Suc.IH [of p] by auto
  qed simp
qed (simp split: option.splits)

lemma anc_below: "y \<in> set (anc n (t_parent t) c) \<Longrightarrow> c \<in> below t y"
proof (induction n arbitrary: c)
  case (Suc n)
  then obtain p where p: "t_parent t c = Some p" "y = p \<or> y \<in> set (anc n (t_parent t) p)"
    by (cases "t_parent t c") auto
  then show ?case using Suc.IH [of p] by (auto intro: below_child below_step)
qed simp

lemma anc_distinct: "wf_tree t \<Longrightarrow> distinct (anc n (t_parent t) c)"
proof (induction n arbitrary: c)
  case (Suc n)
  show ?case
  proof (cases "t_parent t c")
    case (Some p)
    have "p \<notin> set (anc n (t_parent t) p)" using anc_below below_irrefl [OF Suc.prems] by blast
    then show ?thesis using Some Suc.IH [OF Suc.prems] by simp
  qed simp
qed simp

lemma anc_less: "wf_tree t \<Longrightarrow> y \<in> set (anc n (t_parent t) c) \<Longrightarrow> y < t_next t"
proof (induction n arbitrary: c)
  case (Suc n)
  then show ?case using wf_treeD(9) by (auto split: option.splits)
qed simp

lemma anc_length:
  assumes "wf_tree t"
  shows "length (anc n (t_parent t) c) \<le> t_next t"
proof -
  have "set (anc n (t_parent t) c) \<subseteq> {..<t_next t}" using anc_less [OF assms] by auto
  then have "card (set (anc n (t_parent t) c)) \<le> t_next t" by (metis card_lessThan card_mono finite_lessThan)
  then show ?thesis by (simp add: distinct_card anc_distinct [OF assms])
qed

text \<open>\<open>t_next t\<close> steps are always enough.\<close>

lemma anc_enough:
  assumes "wf_tree t" "t_next t \<le> n"
  shows "anc n (t_parent t) c = anc (t_next t) (t_parent t) c"
  using assms(2)
proof (induction n rule: dec_induct)
  case (step n)
  then show ?case using anc_Suc [of n "t_parent t" c] anc_length [OF assms(1), of "Suc n" c] by auto
qed simp

lemma anc_unfold:
  assumes "wf_tree t"
  shows "anc (t_next t) (t_parent t) c
    = (case t_parent t c of None \<Rightarrow> [] | Some p \<Rightarrow> p # anc (t_next t) (t_parent t) p)"
  using anc_enough [OF assms, of "Suc (t_next t)" c] by simp

lemma set_anc:
  assumes wf: "wf_tree t"
  shows "y \<in> set (anc (t_next t) (t_parent t) c) \<longleftrightarrow> c \<in> below t y"
proof
  assume "c \<in> below t y"
  then have "(y, c) \<in> (edges t)\<^sup>+" by (simp add: below_def)
  then show "y \<in> set (anc (t_next t) (t_parent t) c)"
    by induction (subst anc_unfold [OF wf], simp)+
qed (rule anc_below)

lemma anc_last:
  assumes wf: "wf_tree t"
  shows "t_parent t (last (c # anc (t_next t) (t_parent t) c)) = None"
proof -
  have "t_parent t (last (c # anc n (t_parent t) c)) = None" if "length (anc n (t_parent t) c) < n" for n
    using that
  proof (induction n arbitrary: c)
    case (Suc n)
    then show ?case by (cases "t_parent t c") auto
  qed simp
  then have "t_parent t (last (c # anc (Suc (t_next t)) (t_parent t) c)) = None"
    using anc_length [OF wf, of "Suc (t_next t)" c] by (meson le_imp_less_Suc)
  then show ?thesis by (simp only: anc_enough [OF wf, of "Suc (t_next t)" c] le_SucI order_refl)
qed

lemma desc_step: "p \<in> set (desc n k c) \<Longrightarrow> x \<in> set (k p) \<Longrightarrow> x \<in> set (desc (Suc n) k c)"
proof (induction n arbitrary: c)
  case (Suc n)
  then obtain q where "q \<in> set (k c)" "p = q \<or> p \<in> set (desc n k q)" by auto
  then show ?case using Suc.IH [of q] Suc.prems(2) by auto
qed simp

lemma anc_desc:
  assumes "\<And>p x. f x = Some p \<Longrightarrow> x \<in> set (k p)"
  shows "c \<in> set (anc n f x) \<Longrightarrow> x \<in> set (desc n k c)"
proof (induction n arbitrary: x)
  case (Suc n)
  then obtain p where p: "f x = Some p" "c = p \<or> c \<in> set (anc n f p)" by (cases "f x") auto
  from assms [OF p(1)] have x: "x \<in> set (k p)" .
  from p(2) show ?case
  proof
    assume "c = p" then show ?thesis using x by auto
  next
    assume "c \<in> set (anc n f p)"
    then show ?thesis using desc_step [OF Suc.IH x] by blast
  qed
qed simp

lemma desc_below:
  assumes wf: "wf_tree t"
  shows "x \<in> set (desc n (kidl t) c) \<Longrightarrow> x \<in> below t c"
proof (induction n arbitrary: c)
  case (Suc n)
  then obtain y where y: "y \<in> set (kidl t c)" "x = y \<or> x \<in> set (desc n (kidl t) y)" by auto
  then have "y \<in> below t c" using wf_treeD(2) [OF wf] by (auto intro: below_child)
  then show ?case using y Suc.IH [of y] below_trans by blast
qed simp

lemma set_desc:
  assumes wf: "wf_tree t"
  shows "set (desc (t_next t) (kidl t) c) = below t c"
proof -
  have "t_parent t x = Some p \<Longrightarrow> x \<in> set (kidl t p)" for x p using wf_treeD(2) [OF wf] by blast
  then show ?thesis using set_anc [OF wf, of c] anc_desc [of "t_parent t" "kidl t" c "t_next t"]
      desc_below [OF wf] by blast
qed


section \<open>Every descendant is reached once\<close>

lemma below_linear:
  assumes "x \<in> below t y" "x \<in> below t z"
  shows "y = z \<or> y \<in> below t z \<or> z \<in> below t y"
proof -
  have "(y, x) \<in> (edges t)\<^sup>+" using assms(1) by (simp add: below_def)
  then show ?thesis using assms(2)
  proof induction
    case (base x)
    then show ?case using below_cases [of x t z] by auto
  next
    case (step p x)
    from step.prems obtain q where "t_parent t x = Some q" "q = z \<or> q \<in> below t z" by (rule below_cases)
    then have "p = z \<or> p \<in> below t z" using step.hyps(2) by simp
    then show ?case
    proof
      assume "p = z"
      then show ?thesis using step.hyps(1) by (simp add: below_def)
    next
      assume "p \<in> below t z"
      then show ?thesis by (rule step.IH)
    qed
  qed
qed

lemma siblings_disjoint:
  assumes wf: "wf_tree t" and yz: "t_parent t y = Some c" "t_parent t z = Some c" "y \<noteq> z"
  shows "({y} \<union> below t y) \<inter> ({z} \<union> below t z) = {}"
proof -
  have no: "a \<notin> below t b" if a: "t_parent t a = Some c" "t_parent t b = Some c" for a b
  proof
    assume "a \<in> below t b"
    then obtain p where "t_parent t a = Some p" "p = b \<or> p \<in> below t b" by (rule below_cases)
    then have "c = b \<or> c \<in> below t b" using a(1) by simp
    moreover have "b \<in> below t c" using a(2) by (rule below_child)
    ultimately show False using below_irrefl [OF wf] below_trans by blast
  qed
  show ?thesis using no [OF yz(1,2)] no [OF yz(2,1)] yz(3) below_linear [of _ t y z] by blast
qed

lemma distinct_desc:
  assumes wf: "wf_tree t"
  shows "distinct (c # desc n (kidl t) c)"
proof (induction n arbitrary: c)
  case (Suc n)
  have sub: "set (x # desc n (kidl t) x) \<subseteq> {x} \<union> below t x" for x using desc_below [OF wf] by auto
  have "distinct xs \<Longrightarrow> set xs \<subseteq> set (kidl t c) \<Longrightarrow> distinct (concat (map (\<lambda>x. x # desc n (kidl t) x) xs))" for xs
  proof (induction xs)
    case (Cons x xs)
    have "set (x # desc n (kidl t) x) \<inter> set (concat (map (\<lambda>x. x # desc n (kidl t) x) xs)) = {}"
    proof -
      have "({x} \<union> below t x) \<inter> ({y} \<union> below t y) = {}" if "y \<in> set xs" for y
        using that Cons.prems wf_treeD(2) [OF wf] by (intro siblings_disjoint [OF wf, of x c y]) auto
      then have "set (x # desc n (kidl t) x) \<inter> set (y # desc n (kidl t) y) = {}" if "y \<in> set xs" for y
        using that sub [of x] sub [of y] by blast
      then show ?thesis by auto
    qed
    moreover have "distinct (concat (map (\<lambda>x. x # desc n (kidl t) x) xs))" using Cons by simp
    ultimately show ?case using Suc.IH [of x] by simp
  qed simp
  then have "distinct (desc (Suc n) (kidl t) c)" using wf_treeD(1) [OF wf, of c] by simp
  moreover have "c \<notin> set (desc (Suc n) (kidl t) c)"
    using desc_below [OF wf, of c "Suc n" c] below_irrefl [OF wf] by blast
  ultimately show ?case by (simp only: distinct.simps) simp
qed simp

end
