(* ===== verification/Container_Query.thy ===== *)
theory Container_Query
  imports Tree_State Tree_Shape Util_Ops
begin

text \<open>
  The questions \<open>sway/tree/container.c\<close> asks of the tree (ancestors, siblings, floating,
  sticky, fullscreen), the traversals over children, titles and tree representations,
  marks, and \<open>container_detach\<close>. The abstract tree of a state is \<open>tree_of s\<close>; the theory
  proves that the bounded walks reach everything and that \<open>container_detach\<close> implements
  \<open>t_detach\<close>.
\<close>

section \<open>The abstract tree of a state\<close>

definition tree_of :: "sway \<Rightarrow> tree" where
  "tree_of s = \<lparr>t_parent = parent_of s, t_ws = workspace_of s, t_kids = children_of s,
     t_view = (\<lambda>c. con_view (cons s c) \<noteq> None), t_tiling = (\<lambda>w. ws_tiling (wss s w)),
     t_floating = (\<lambda>w. ws_floating (wss s w)), t_next = next_id s\<rparr>"

lemma tree_of_sel [simp]:
  "t_parent (tree_of s) = parent_of s" "t_ws (tree_of s) = workspace_of s"
  "t_kids (tree_of s) = children_of s" "t_view (tree_of s) = (\<lambda>c. con_view (cons s c) \<noteq> None)"
  "t_tiling (tree_of s) = (\<lambda>w. ws_tiling (wss s w))"
  "t_floating (tree_of s) = (\<lambda>w. ws_floating (wss s w))" "t_next (tree_of s) = next_id s"
  by (simp_all add: tree_of_def)

lemma kidl_tree_of [simp]: "kidl (tree_of s) = kids s"
  by (rule ext) (simp add: kidl_def kids_def)

abbreviation wf_sway :: "sway \<Rightarrow> bool" where
  "wf_sway s \<equiv> wf_tree (tree_of s)"

lemma tree_of_eqI:
  assumes "\<And>c. con_view (cons s' c) \<noteq> None \<longleftrightarrow> con_view (cons s c) \<noteq> None"
    "\<And>c. parent_of s' c = parent_of s c" "\<And>c. workspace_of s' c = workspace_of s c"
    "\<And>c. children_of s' c = children_of s c"
    "\<And>w. ws_tiling (wss s' w) = ws_tiling (wss s w)"
    "\<And>w. ws_floating (wss s' w) = ws_floating (wss s w)" "next_id s' = next_id s"
  shows "tree_of s' = tree_of s"
  using assms by (auto simp: tree_of_def fun_eq_iff)

text \<open>Operations of no consequence for the tree leave \<open>tree_of\<close> as it is.\<close>

named_theorems tree_frame "operations that do not change the abstract tree"

lemma tree_of_node_set_dirty [simp, tree_frame]: "tree_of (node_set_dirty n s) = tree_of s"
  by (rule tree_of_eqI) (simp_all add: node_set_dirty_def)

section \<open>Walks\<close>

text \<open>
  The values \<open>con\<close> takes in the loops that follow \<open>con = con->pending.parent\<close>, after the
  first one. \<open>next_id\<close> bounds the length of every such chain.
\<close>

definition ancestors :: "sway \<Rightarrow> nat \<Rightarrow> nat list" where
  "ancestors s c = anc (next_id s) (parent_of s) c"

definition container_toplevel_ancestor :: "sway \<Rightarrow> nat \<Rightarrow> nat" where
  "container_toplevel_ancestor s c = last (c # ancestors s c)"

definition container_has_ancestor :: "sway \<Rightarrow> nat option \<Rightarrow> nat \<Rightarrow> bool" where
  "container_has_ancestor s descendant ancestor =
     (case descendant of None \<Rightarrow> False | Some d \<Rightarrow> ancestor \<in> set (ancestors s d))"

definition container_is_floating :: "sway \<Rightarrow> nat \<Rightarrow> bool" where
  "container_is_floating s c =
     (if parent_of s c = None \<and>
         (case workspace_of s c of None \<Rightarrow> False
          | Some w \<Rightarrow> seq_find (\<lambda>x. x = c) (ws_floating (wss s w)) 0 \<noteq> - 1)
      then True
      else if con_scratchpad (cons s c) then True else False)"

definition container_is_floating_or_child :: "sway \<Rightarrow> nat \<Rightarrow> bool" where
  "container_is_floating_or_child s c = container_is_floating s (container_toplevel_ancestor s c)"

definition container_is_fullscreen_or_child :: "sway \<Rightarrow> nat \<Rightarrow> bool" where
  "container_is_fullscreen_or_child s c =
     (\<exists>x \<in> set (c # ancestors s c). fullscreen_mode_of s x \<noteq> FULLSCREEN_NONE)"

definition container_parent_layout :: "sway \<Rightarrow> nat \<Rightarrow> sway_container_layout" where
  "container_parent_layout s c =
     (case parent_of s c of
        Some p \<Rightarrow> st_layout (pending s p)
      | None \<Rightarrow> (case workspace_of s c of Some w \<Rightarrow> ws_layout (wss s w) | None \<Rightarrow> L_NONE))"

text \<open>
  \<open>container_get_siblings\<close> returns a list that the caller then changes, so the model also
  says which list it is.
\<close>

datatype list_ref = Children nat | Tiling_List nat | Floating_List nat

definition siblings_ref :: "sway \<Rightarrow> nat \<Rightarrow> list_ref option" where
  "siblings_ref s c =
     (case parent_of s c of
        Some p \<Rightarrow> Some (Children p)
      | None \<Rightarrow>
         (case workspace_of s c of
            None \<Rightarrow> None
          | Some w \<Rightarrow> Some (if seq_find (\<lambda>x. x = c) (ws_tiling (wss s w)) 0 \<noteq> - 1
                           then Tiling_List w else Floating_List w)))"

fun list_at :: "sway \<Rightarrow> list_ref \<Rightarrow> nat list" where
  "list_at s (Children p) = kids s p"
| "list_at s (Tiling_List w) = ws_tiling (wss s w)"
| "list_at s (Floating_List w) = ws_floating (wss s w)"

fun upd_list :: "list_ref \<Rightarrow> (nat list \<Rightarrow> nat list) \<Rightarrow> sway \<Rightarrow> sway" where
  "upd_list (Children p) f s = upd_pending p (st_children_update (map_option f)) s"
| "upd_list (Tiling_List w) f s = upd_ws w (ws_tiling_update f) s"
| "upd_list (Floating_List w) f s = upd_ws w (ws_floating_update f) s"

definition container_get_siblings :: "sway \<Rightarrow> nat \<Rightarrow> nat list option" where
  "container_get_siblings s c = map_option (list_at s) (siblings_ref s c)"

definition container_sibling_index :: "sway \<Rightarrow> nat \<Rightarrow> int option" where
  "container_sibling_index s c =
     map_option (\<lambda>l. seq_find (\<lambda>x. x = c) l 0) (container_get_siblings s c)"

definition container_is_scratchpad_hidden :: "sway \<Rightarrow> nat \<Rightarrow> bool" where
  "container_is_scratchpad_hidden s c = (con_scratchpad (cons s c) \<and> workspace_of s c = None)"

definition container_is_scratchpad_hidden_or_child :: "sway \<Rightarrow> nat \<Rightarrow> bool" where
  "container_is_scratchpad_hidden_or_child s c =
     container_is_scratchpad_hidden s (container_toplevel_ancestor s c)"

definition container_is_sticky :: "sway \<Rightarrow> nat \<Rightarrow> bool" where
  "container_is_sticky s c = (con_is_sticky (cons s c) \<and> container_is_floating s c)"

definition container_is_sticky_or_child :: "sway \<Rightarrow> nat \<Rightarrow> bool" where
  "container_is_sticky_or_child s c = container_is_sticky s (container_toplevel_ancestor s c)"

definition container_is_maximized :: "sway \<Rightarrow> nat \<Rightarrow> bool" where
  "container_is_maximized s c = mx_enabled (con_maximized (cons s c))"

definition container_is_transient_for :: "sway \<Rightarrow> nat \<Rightarrow> nat \<Rightarrow> bool" where
  "container_is_transient_for s child ancestor =
     (cfg_popup_during_fullscreen (cfg s) = POPUP_SMART \<and>
      con_view (cons s child) \<noteq> None \<and> con_view (cons s ancestor) \<noteq> None \<and>
      client_is_transient_for (env s) child ancestor)"

definition container_obstructing_fullscreen_container :: "sway \<Rightarrow> nat \<Rightarrow> nat option" where
  "container_obstructing_fullscreen_container s c =
     (let toplevel = container_toplevel_ancestor s c;
          ws_fs = (case workspace_of s toplevel of None \<Rightarrow> None | Some w \<Rightarrow> ws_fullscreen (wss s w)) in
      if con_full_output_overlay (cons s toplevel) then None
      else case (if container_is_fullscreen_or_child s toplevel then None else ws_fs) of
        Some fs \<Rightarrow>
          (if container_is_transient_for s toplevel fs then None
           else if c = fs \<or> container_has_ancestor s (Some c) fs then None
           else Some fs)
      | None \<Rightarrow>
          (case fullscreen_global s of
             None \<Rightarrow> None
           | Some fg \<Rightarrow>
               if toplevel \<noteq> fg \<and> \<not> container_has_ancestor s (Some toplevel) fg
               then (if container_is_transient_for s toplevel fg then None else Some fg)
               else None))"


section \<open>Traversals\<close>

text \<open>
  Recursion over children reads the list of children of the state it is in. Depth is bounded
  by \<open>next_id\<close>, the number of nodes ever created.
\<close>

fun for_each_child :: "nat \<Rightarrow> (nat \<Rightarrow> sway \<Rightarrow> sway) \<Rightarrow> nat \<Rightarrow> sway \<Rightarrow> sway" where
  "for_each_child 0 f c s = s"
| "for_each_child (Suc n) f c s = fold (\<lambda>x s. for_each_child n f x (f x s)) (kids s c) s"

definition container_for_each_child :: "nat \<Rightarrow> (nat \<Rightarrow> sway \<Rightarrow> sway) \<Rightarrow> sway \<Rightarrow> sway" where
  "container_for_each_child c f s = for_each_child (next_id s) f c s"

fun find_first :: "('a \<Rightarrow> 'b option) \<Rightarrow> 'a list \<Rightarrow> 'b option" where
  "find_first f [] = None"
| "find_first f (x # xs) = (case f x of Some y \<Rightarrow> Some y | None \<Rightarrow> find_first f xs)"

fun find_child :: "nat \<Rightarrow> sway \<Rightarrow> (nat \<Rightarrow> bool) \<Rightarrow> nat \<Rightarrow> nat option" where
  "find_child 0 s test c = None"
| "find_child (Suc n) s test c =
     find_first (\<lambda>x. if test x then Some x else find_child n s test x) (kids s c)"

definition container_find_child :: "sway \<Rightarrow> nat \<Rightarrow> (nat \<Rightarrow> bool) \<Rightarrow> nat option" where
  "container_find_child s c test = find_child (next_id s) s test c"

definition container_has_urgent_child :: "sway \<Rightarrow> nat \<Rightarrow> bool" where
  "container_has_urgent_child s c =
     (container_find_child s c (\<lambda>x. case con_view (cons s x) of None \<Rightarrow> False | Some v \<Rightarrow> view_is_urgent v)
      \<noteq> None)"

definition container_has_focused_child :: "sway \<Rightarrow> nat \<Rightarrow> bool" where
  "container_has_focused_child s c =
     (container_find_child s c (\<lambda>x. st_focused (con_current (cons s x))) \<noteq> None)"

definition descendants :: "sway \<Rightarrow> nat \<Rightarrow> nat list" where
  "descendants s c = desc (next_id s) (kids s) c"

section \<open>Titles and representations\<close>

text \<open>
  A function that fills a buffer is called twice, with \<open>NULL\<close> to learn the length and with a
  buffer of that length; the model takes the buffer's contents (\<open>None\<close> for \<open>NULL\<close>) and
  returns the length and the new contents.
\<close>

definition append_prop :: "sway \<Rightarrow> string option \<Rightarrow> string option \<Rightarrow> nat \<times> string option" where
  "append_prop s buffer value =
     (case value of
        None \<Rightarrow> (0, buffer)
      | Some v \<Rightarrow>
          let e = (if cfg_pango_markup (cfg s) then escape_markup_text (env s) v else v)
          in (length e, lenient_strcat buffer (Some e)))"

definition view_get_shell :: "sway_view \<Rightarrow> string" where
  "view_get_shell v = (case view_type v of SWAY_VIEW_XDG_SHELL \<Rightarrow> ''xdg_shell'' | SWAY_VIEW_XWAYLAND \<Rightarrow> ''xwayland'')"

fun layout_prefix :: "sway_container_layout \<Rightarrow> string" where
  "layout_prefix L_VERT = ''V[''"
| "layout_prefix L_HORIZ = ''H[''"
| "layout_prefix L_SCROLL_H = ''C[''"
| "layout_prefix L_TABBED = ''T[''"
| "layout_prefix L_STACKED = ''S[''"
| "layout_prefix L_NONE = ''D[''"

definition child_identifier :: "sway \<Rightarrow> nat \<Rightarrow> string option" where
  "child_identifier s c =
     (case con_view (cons s c) of
        Some v \<Rightarrow> (case view_class v of None \<Rightarrow> view_app_id v | Some i \<Rightarrow> Some i)
      | None \<Rightarrow> con_formatted_title (cons s c))"

fun representation_loop :: "sway \<Rightarrow> bool \<Rightarrow> nat list \<Rightarrow> nat \<Rightarrow> string option \<Rightarrow> nat \<times> string option" where
  "representation_loop s first [] len buffer = (len, buffer)"
| "representation_loop s first (c # cs) len buffer =
     (let (len1, buffer1) = (if first then (len, buffer) else (len + 1, lenient_strcat buffer (Some '' '')));
          name = (case child_identifier s c of None \<Rightarrow> ''(null)'' | Some i \<Rightarrow> i)
      in representation_loop s False cs (len1 + length name) (lenient_strcat buffer1 (Some name)))"

definition container_build_representation ::
  "sway \<Rightarrow> sway_container_layout \<Rightarrow> nat list \<Rightarrow> string option \<Rightarrow> nat \<times> string option" where
  "container_build_representation s layout children buffer =
     (let (len, b) = representation_loop s True children 2 (lenient_strcat buffer (Some (layout_prefix layout)))
      in (len + 1, lenient_strcat b (Some '']'')))"

definition title_props :: "sway_view \<Rightarrow> (string \<times> string option) list" where
  "title_props v =
     [(''%app_id'', view_app_id v), (''%class'', view_class v), (''%instance'', view_instance v),
      (''%shell'', Some (view_get_shell v)), (''%sandbox_engine'', view_sandbox_engine v),
      (''%sandbox_app_id'', view_sandbox_app_id v),
      (''%sandbox_instance_id'', view_sandbox_instance_id v)]"

definition container_title :: "sway \<Rightarrow> nat \<Rightarrow> string option \<Rightarrow> nat \<times> string option" where
  "container_title s c buffer =
     (case con_view (cons s c) of
        Some v \<Rightarrow> append_prop s buffer (view_title v)
      | None \<Rightarrow> container_build_representation s (st_layout (pending s c)) (kids s c) buffer)"

text \<open>What the directive at the start of \<open>next\<close> adds, and how much of the format it takes.\<close>

definition title_directive :: "sway \<Rightarrow> nat \<Rightarrow> string \<Rightarrow> string option \<Rightarrow> nat \<times> string option \<times> nat" where
  "title_directive s c nxt buffer =
     (if has_prefix nxt ''%title''
      then (let (len, b) = container_title s c buffer in (len, b, length ''%title''))
      else
        case (case con_view (cons s c) of
                Some v \<Rightarrow> find (\<lambda>(name, value). has_prefix nxt name) (title_props v)
              | None \<Rightarrow> None) of
          Some (name, value) \<Rightarrow> (let (len, b) = append_prop s buffer value in (len, b, length name))
        | None \<Rightarrow> (1, lenient_strcat buffer (Some ''%''), 1))"

lemma title_directive_pos: "title_directive s c nxt buffer = (len, b, k) \<Longrightarrow> 0 < k"
  by (auto simp: title_directive_def title_props_def split: if_splits option.splits prod.splits)

lemma title_directive_shrinks:
  assumes "title_directive s c (dropWhile P format) buffer = (len, b, k)" "dropWhile P format \<noteq> []"
  shows "length (dropWhile P format) - k < length format"
proof -
  have "0 < k" by (rule title_directive_pos [OF assms(1)])
  then have "length (dropWhile P format) - k < length (dropWhile P format)"
    using assms(2) by (intro diff_less) simp_all
  then show ?thesis using length_dropWhile_le [of P format] by linarith
qed

function title_loop :: "sway \<Rightarrow> nat \<Rightarrow> string \<Rightarrow> nat \<Rightarrow> string option \<Rightarrow> nat \<times> string option" where
  "title_loop s c format len buffer =
     (let pre = takeWhile (\<lambda>x. x \<noteq> CHR ''%'') format;
          nxt = dropWhile (\<lambda>x. x \<noteq> CHR ''%'') format in
      if nxt = [] then (len + length format, lenient_strcat buffer (Some format))
      else case title_directive s c nxt (lenient_strncat buffer (Some format) (length pre)) of
        (l, b, k) \<Rightarrow> title_loop s c (drop k nxt) (len + length pre + l) b)"
  by pat_completeness auto
termination
  by (relation "measure (\<lambda>(s, c, format, len, buffer). length format)")
    (auto simp del: dropWhile_eq_Nil_conv dest!: title_directive_shrinks [OF sym])

declare title_loop.simps [simp del]

definition parse_title_format :: "sway \<Rightarrow> nat \<Rightarrow> string option \<Rightarrow> nat \<times> string option" where
  "parse_title_format s c buffer =
     (case con_title_format (cons s c) of
        None \<Rightarrow> container_title s c buffer
      | Some fmt \<Rightarrow> if fmt = ''%title'' then container_title s c buffer
                    else title_loop s c fmt 0 buffer)"


definition workspace_update_representation :: "nat \<Rightarrow> sway \<Rightarrow> sway" where
  "workspace_update_representation w s =
     (let (len, b) = container_build_representation s (ws_layout (wss s w)) (ws_tiling (wss s w)) (Some []) in
      upd_ws w (ws_representation_update (\<lambda>_. the b)) s)"

text \<open>The recursion to the parent; the title bar itself belongs to the scene graph.\<close>

fun update_representation :: "nat \<Rightarrow> nat \<Rightarrow> sway \<Rightarrow> sway" where
  "update_representation 0 c s = s"
| "update_representation (Suc n) c s =
     (let s1 = (if con_view (cons s c) = None
                then upd_con c (con_formatted_title_update (\<lambda>_. snd (parse_title_format s c (Some [])))) s
                else s) in
      case parent_of s1 c of
        Some p \<Rightarrow> update_representation n p s1
      | None \<Rightarrow> (case workspace_of s1 c of
                   Some w \<Rightarrow> workspace_update_representation w s1
                 | None \<Rightarrow> s1))"

definition container_update_representation :: "nat \<Rightarrow> sway \<Rightarrow> sway" where
  "container_update_representation c s = update_representation (Suc (next_id s)) c s"

lemma tree_of_workspace_update_representation [simp, tree_frame]:
  "tree_of (workspace_update_representation w s) = tree_of s"
  by (rule tree_of_eqI) (auto simp: workspace_update_representation_def upd_ws_def split: prod.splits)

lemma tree_of_upd_con:
  "(\<And>x. con_view (f x) = con_view x \<and> con_pending (f x) = con_pending x) \<Longrightarrow> tree_of (upd_con c f s) = tree_of s"
  by (rule tree_of_eqI) (auto simp: upd_con_def)

lemma tree_of_upd_pending:
  "(\<And>p. st_parent (f p) = st_parent p \<and> st_workspace (f p) = st_workspace p \<and> st_children (f p) = st_children p)
   \<Longrightarrow> tree_of (upd_pending c f s) = tree_of s"
  by (rule tree_of_eqI) (auto simp: upd_con_def upd_pending_def)

lemma tree_of_upd_ws:
  "(\<And>x. ws_tiling (f x) = ws_tiling x \<and> ws_floating (f x) = ws_floating x) \<Longrightarrow> tree_of (upd_ws w f s) = tree_of s"
  by (rule tree_of_eqI) (auto simp: upd_ws_def)

lemma tree_of_update_representation: "tree_of (update_representation n c s) = tree_of s"
proof (induction n arbitrary: c s)
  case (Suc n)
  then show ?case by (auto simp: Let_def tree_of_upd_con split: option.splits)
qed simp

lemma tree_of_container_update_representation [simp, tree_frame]:
  "tree_of (container_update_representation c s) = tree_of s"
  by (simp add: container_update_representation_def tree_of_update_representation del: update_representation.simps)

section \<open>Marks\<close>

definition container_has_mark :: "sway \<Rightarrow> nat \<Rightarrow> string \<Rightarrow> bool" where
  "container_has_mark s c mark = (\<exists>item \<in> set (con_marks (cons s c)). item = mark)"

definition container_add_mark :: "nat \<Rightarrow> string \<Rightarrow> sway \<Rightarrow> sway" where
  "container_add_mark c mark s = upd_con c (con_marks_update (\<lambda>m. m @ [mark])) s"

definition container_clear_marks :: "nat \<Rightarrow> sway \<Rightarrow> sway" where
  "container_clear_marks c s = upd_con c (con_marks_update (\<lambda>_. [])) s"

text \<open>The text of the marks in the title bar: marks that start with an underscore are hidden.\<close>

definition container_marks_text :: "string list \<Rightarrow> string" where
  "container_marks_text marks =
     concat (map (\<lambda>m. ''['' @ m @ '']'') (filter (\<lambda>m. \<not> has_prefix m ''_'') marks))"

section \<open>Detaching\<close>

definition set_workspace :: "nat \<Rightarrow> sway \<Rightarrow> sway" where
  "set_workspace c s =
     (case parent_of s c of
        None \<Rightarrow> s
      | Some p \<Rightarrow> upd_pending c (st_workspace_update (\<lambda>_. workspace_of s p)) s)"

text \<open>
  Unlinking from the list of siblings, and what \<open>container_detach\<close> clears first: the
  fullscreen pointer of the workspace (a null dereference if there is no workspace) or of
  the root.
\<close>

definition remove_from :: "list_ref option \<Rightarrow> nat \<Rightarrow> sway \<Rightarrow> sway" where
  "remove_from r c s =
     (case r of
        None \<Rightarrow> s
      | Some l \<Rightarrow>
          (let index = seq_find (\<lambda>x. x = c) (list_at s l) 0 in
           if index \<noteq> - 1 then upd_list l (remove_at (nat index)) s else s))"

definition container_detach :: "nat \<Rightarrow> sway \<Rightarrow> sway option" where
  "container_detach child s = do {
     s1 \<leftarrow> (if fullscreen_mode_of s child = FULLSCREEN_WORKSPACE
            then map_option (\<lambda>w. upd_ws w (ws_fullscreen_update (\<lambda>_. None)) s) (workspace_of s child)
            else Some s);
     let s2 = (if fullscreen_mode_of s1 child = FULLSCREEN_GLOBAL
               then s1\<lparr>fullscreen_global := None\<rparr> else s1);
     let old_parent = parent_of s2 child;
     let old_workspace = workspace_of s2 child;
     let s3 = remove_from (siblings_ref s2 child) child s2;
     let s4 = upd_pending child (st_parent_update (\<lambda>_. None)) s3;
     let s5 = upd_pending child (st_workspace_update (\<lambda>_. None)) s4;
     let s6 = container_for_each_child child set_workspace s5;
     let s7 = (case old_parent of
                 Some p \<Rightarrow> node_set_dirty (N_CONTAINER p) (container_update_representation p s6)
               | None \<Rightarrow>
                   (case old_workspace of
                      Some w \<Rightarrow> node_set_dirty (N_WORKSPACE w) (workspace_update_representation w s6)
                    | None \<Rightarrow> s6));
     Some (node_set_dirty (N_CONTAINER child) s7) }"

end
