(* ===== verification/Container_Laws.thy ===== *)
theory Container_Laws
  imports Container_Query
begin

text \<open>
  What the traversals and \<open>container_detach\<close> of \<open>Container_Query\<close> do: the bounded walks of a
  well-formed state are complete, a visitor that keeps the lists of children is called on
  every descendant in order, and detaching implements \<open>t_detach\<close> on the abstract tree.
\<close>

section \<open>Finding and removing\<close>

lemma seq_find_present:
  assumes "x \<in> set xs"
  obtains k where "k < length xs" "seq_find (\<lambda>y. y = x) xs 0 = int k" "xs ! k = x"
    "\<forall>j < k. xs ! j \<noteq> x"
  using seq_find_cases [of "\<lambda>y. y = x" xs 0] assms by auto

lemma seq_find_absent: "seq_find (\<lambda>y. y = x) xs 0 = - 1 \<longleftrightarrow> x \<notin> set xs"
  using seq_find_cases [of "\<lambda>y. y = x" xs 0] nth_mem by fastforce

lemma remove1_at: "k < length xs \<Longrightarrow> \<forall>j < k. xs ! j \<noteq> xs ! k \<Longrightarrow> remove_at k xs = remove1 (xs ! k) xs"
proof (induction xs arbitrary: k)
  case (Cons a xs)
  show ?case
  proof (cases k)
    case (Suc m)
    then have "a \<noteq> xs ! m" "\<forall>j < m. xs ! j \<noteq> xs ! m" using Cons.prems(2) by (fastforce, auto)
    then show ?thesis using Suc Cons.IH [of m] Cons.prems(1) by (simp add: remove_at_def)
  qed (simp add: remove_at_def)
qed simp

lemma remove_at_seq_find:
  "x \<in> set xs \<Longrightarrow> remove_at (nat (seq_find (\<lambda>y. y = x) xs 0)) xs = remove1 x xs"
proof (erule seq_find_present)
  fix k assume k: "k < length xs" "seq_find (\<lambda>y. y = x) xs 0 = int k" "xs ! k = x" "\<forall>j < k. xs ! j \<noteq> x"
  then have "remove_at k xs = remove1 (xs ! k) xs" by (intro remove1_at) simp_all
  then show ?thesis using k by simp
qed

lemma st_children_update_cong: "f (st_children p) = g (st_children p) \<Longrightarrow> st_children_update f p = st_children_update g p"
  by (cases p) simp

lemma con_pending_update_cong: "f (con_pending c) = g (con_pending c) \<Longrightarrow> con_pending_update f c = con_pending_update g c"
  by (cases c) simp

lemma ws_lists_update_cong:
  "f (ws_tiling w) = g (ws_tiling w) \<Longrightarrow> ws_tiling_update f w = ws_tiling_update g w"
  "f (ws_floating w) = g (ws_floating w) \<Longrightarrow> ws_floating_update f w = ws_floating_update g w"
  "ws_tiling_update (\<lambda>xs. xs) w = w" "ws_floating_update (\<lambda>xs. xs) w = w"
  by (cases w, simp)+

lemma upd_list_cong:
  assumes "f (list_at s l) = g (list_at s l)"
  shows "upd_list l f s = upd_list l g s"
proof (cases l)
  case (Children p)
  have "map_option f (children_of s p) = map_option g (children_of s p)"
    using assms Children by (cases "children_of s p") (simp_all add: kids_def)
  then have "con_pending_update (st_children_update (map_option f)) (cons s p)
      = con_pending_update (st_children_update (map_option g)) (cons s p)"
    by (intro con_pending_update_cong st_children_update_cong)
  then show ?thesis using Children by (simp add: upd_defs)
next
  case (Tiling_List w)
  then have "ws_tiling_update f (wss s w) = ws_tiling_update g (wss s w)"
    using assms by (intro ws_lists_update_cong) simp
  then show ?thesis using Tiling_List by (simp add: upd_defs)
next
  case (Floating_List w)
  then have "ws_floating_update f (wss s w) = ws_floating_update g (wss s w)"
    using assms by (intro ws_lists_update_cong) simp
  then show ?thesis using Floating_List by (simp add: upd_defs)
qed

lemma upd_list_id: "upd_list l (\<lambda>xs. xs) s = s"
proof (cases l)
  case (Children p)
  have "con_pending_update (st_children_update (map_option (\<lambda>xs. xs))) (cons s p)
      = con_pending_update (st_children_update (\<lambda>y. y)) (cons s p)"
    by (intro con_pending_update_cong st_children_update_cong) (simp add: option.map_ident)
  then have "con_pending_update (st_children_update (map_option (\<lambda>xs. xs))) (cons s p) = cons s p"
    by simp
  then show ?thesis using Children by (simp add: upd_defs)
qed (simp_all add: upd_defs ws_lists_update_cong(3,4))

lemma remove_from_remove1: "remove_from (Some l) c s = upd_list l (remove1 c) s"
proof (cases "c \<in> set (list_at s l)")
  case True
  have "upd_list l (remove_at (nat (seq_find (\<lambda>x. x = c) (list_at s l) 0))) s = upd_list l (remove1 c) s"
    by (rule upd_list_cong) (rule remove_at_seq_find [OF True])
  then show ?thesis using True seq_find_absent [of c "list_at s l"] by (simp add: remove_from_def)
next
  case False
  have "upd_list l (remove1 c) s = upd_list l (\<lambda>xs. xs) s"
    by (rule upd_list_cong) (simp add: remove1_idem False)
  then show ?thesis using False seq_find_absent [of c "list_at s l"]
    by (simp add: remove_from_def upd_list_id)
qed


section \<open>Walks are complete\<close>

lemma ancestors_unfold:
  "wf_sway s \<Longrightarrow> ancestors s c = (case parent_of s c of None \<Rightarrow> [] | Some p \<Rightarrow> p # ancestors s p)"
  using anc_unfold [of "tree_of s" c] by (simp add: ancestors_def split: option.splits)

lemma set_ancestors: "wf_sway s \<Longrightarrow> a \<in> set (ancestors s c) \<longleftrightarrow> c \<in> below (tree_of s) a"
  using set_anc [of "tree_of s" a c] by (simp add: ancestors_def)

lemma set_descendants: "wf_sway s \<Longrightarrow> set (descendants s c) = below (tree_of s) c"
  using set_desc [of "tree_of s" c] by (simp add: descendants_def)

lemma toplevel_no_parent: "wf_sway s \<Longrightarrow> parent_of s (container_toplevel_ancestor s c) = None"
  using anc_last [of "tree_of s" c] by (simp add: container_toplevel_ancestor_def ancestors_def)

lemma find_first_append:
  "find_first f (xs @ ys) = (case find_first f xs of Some y \<Rightarrow> Some y | None \<Rightarrow> find_first f ys)"
  by (induction xs) (auto split: option.splits)

lemma find_child_find: "find_child n s test c = find test (desc n (kids s) c)"
proof (induction n arbitrary: c)
  case (Suc n)
  have app: "find test (xs @ ys) = (case find test xs of Some y \<Rightarrow> Some y | None \<Rightarrow> find test ys)" for xs ys
    by (induction xs) auto
  have "find_first (\<lambda>x. if test x then Some x else find_child n s test x) xs
      = find test (concat (map (\<lambda>x. x # desc n (kids s) x) xs))" for xs
  proof (induction xs)
    case (Cons x xs)
    then show ?case using Suc.IH [of x] by (auto simp: app split: option.splits)
  qed simp
  then show ?case by simp
qed simp

lemma container_find_child_find: "container_find_child s c test = find test (descendants s c)"
  by (simp add: container_find_child_def descendants_def find_child_find)

text \<open>
  The contract of a callback of \<open>container_for_each_child\<close> that does not rearrange the tree:
  then it runs once on every descendant, parents before children.
\<close>

locale child_visitor =
  fixes f :: "nat \<Rightarrow> sway \<Rightarrow> sway"
  assumes keeps_kids: "kids (f c s) = kids s" and keeps_next: "next_id (f c s) = next_id s"
begin

lemma fold_keeps: "kids (fold f xs s) = kids s \<and> next_id (fold f xs s) = next_id s"
  by (induction xs arbitrary: s) (simp_all add: keeps_kids keeps_next)

lemma for_each_child_fold: "for_each_child n f c s = fold f (desc n (kids s) c) s"
proof (induction n arbitrary: c s)
  case (Suc n)
  have "fold (\<lambda>x s. for_each_child n f x (f x s)) xs s'
      = fold f (concat (map (\<lambda>x. x # desc n (kids s') x) xs)) s'" for xs s'
  proof (induction xs arbitrary: s')
    case (Cons x xs)
    have "for_each_child n f x (f x s') = fold f (x # desc n (kids s') x) s'"
      using Suc.IH [of x "f x s'"] by (simp add: keeps_kids)
    then show ?case using Cons.IH [of "fold f (x # desc n (kids s') x) s'"]
        fold_keeps [of "x # desc n (kids s') x" s'] by simp
  qed simp
  then show ?case by simp
qed simp

lemma visits_descendants: "container_for_each_child c f s = fold f (descendants s c) s"
  by (simp add: container_for_each_child_def descendants_def for_each_child_fold)

end

interpretation set_workspace: child_visitor set_workspace
proof
  fix c :: nat and s :: sway
  show "kids (set_workspace c s) = kids s"
    by (rule ext) (simp add: kids_def set_workspace_def upd_defs split: option.splits)
  show "next_id (set_workspace c s) = next_id s"
    by (simp add: set_workspace_def upd_defs split: option.splits)
qed

section \<open>Propagating the workspace\<close>

definition set_workspaces :: "nat set \<Rightarrow> nat option \<Rightarrow> sway \<Rightarrow> sway" where
  "set_workspaces D w s = s\<lparr>cons := (\<lambda>x. if x \<in> D
     then con_pending_update (st_workspace_update (\<lambda>_. w)) (cons s x) else cons s x)\<rparr>"

lemma set_workspaces_sel [simp]:
  "parent_of (set_workspaces D w s) c = parent_of s c" "kids (set_workspaces D w s) = kids s"
  "workspace_of (set_workspaces D w s) c = (if c \<in> D then w else workspace_of s c)"
  "children_of (set_workspaces D w s) c = children_of s c"
  "con_view (cons (set_workspaces D w s) c) = con_view (cons s c)"
  "next_id (set_workspaces D w s) = next_id s" "wss (set_workspaces D w s) = wss s"
  by (auto simp: set_workspaces_def kids_def)

lemma set_workspaces_twice: "set_workspaces D w (set_workspaces E w s) = set_workspaces (D \<union> E) w s"
  by (rule sway.equality) (auto simp: set_workspaces_def fun_eq_iff comp_def)

text \<open>A list in which the parent of every container is in \<open>S\<close> or earlier in the list.\<close>

fun parents_first :: "(nat \<Rightarrow> nat option) \<Rightarrow> nat set \<Rightarrow> nat list \<Rightarrow> bool" where
  "parents_first f S [] = True"
| "parents_first f S (x # xs) = ((\<exists>p \<in> S. f x = Some p) \<and> parents_first f (insert x S) xs)"

lemma parents_first_append:
  "parents_first f S (A @ B) \<longleftrightarrow> parents_first f S A \<and> parents_first f (S \<union> set A) B"
  by (induction A arbitrary: S) (auto simp: insert_absorb2 Un_insert_left)

lemma parents_first_mono: "parents_first f S xs \<Longrightarrow> S \<subseteq> T \<Longrightarrow> parents_first f T xs"
proof (induction xs arbitrary: S T)
  case (Cons x xs)
  then show ?case using Cons.IH [of "insert x S" "insert x T"] by auto
qed simp

lemma parents_first_desc:
  assumes "\<And>p x. x \<in> set (k p) \<Longrightarrow> f x = Some p" "c \<in> S"
  shows "parents_first f S (desc n k c)"
  using assms(2)
proof (induction n arbitrary: c S)
  case (Suc n)
  have "set xs \<subseteq> set (k c) \<Longrightarrow> c \<in> T \<Longrightarrow> parents_first f T (concat (map (\<lambda>x. x # desc n k x) xs))" for xs T
  proof (induction xs arbitrary: T)
    case (Cons x xs)
    have "parents_first f T (x # desc n k x)"
      using assms(1) [of x c] Cons.prems Suc.IH [of x "insert x T"] by auto
    moreover have "parents_first f (T \<union> set (x # desc n k x)) (concat (map (\<lambda>x. x # desc n k x) xs))"
      using Cons.prems by (intro Cons.IH) auto
    ultimately show ?case
      using parents_first_append [of f T "x # desc n k x" "concat (map (\<lambda>x. x # desc n k x) xs)"] by simp
  qed simp
  then show ?case using Suc.prems by simp
qed simp

lemma fold_set_workspace:
  assumes "parents_first (parent_of s) S L" "\<And>y. y \<in> S \<Longrightarrow> workspace_of s y = w"
  shows "fold set_workspace L s = set_workspaces (set L) w s"
  using assms
proof (induction L arbitrary: S s)
  case Nil
  then show ?case by (simp add: set_workspaces_def)
next
  case (Cons x L)
  then obtain p where p: "p \<in> S" "parent_of s x = Some p" by auto
  have x: "set_workspace x s = set_workspaces {x} w s"
    using p Cons.prems(2) [OF p(1)]
    by (auto simp: set_workspace_def set_workspaces_def upd_defs fun_upd_def cong: if_cong)
  have "fold set_workspace L (set_workspaces {x} w s) = set_workspaces (set L) w (set_workspaces {x} w s)"
    using Cons.prems by (intro Cons.IH [of _ "insert x S"]) auto
  then show ?case by (simp add: x set_workspaces_twice)
qed

lemma container_set_workspaces:
  assumes "\<And>p x. x \<in> set (kids s p) \<Longrightarrow> parent_of s x = Some p"
  shows "container_for_each_child c set_workspace s = set_workspaces (set (descendants s c)) (workspace_of s c) s"
  unfolding set_workspace.visits_descendants descendants_def
  by (rule fold_set_workspace [where S = "{c}"]) (auto intro: parents_first_desc assms)


section \<open>Detaching implements the abstract move\<close>

definition detach_links :: "nat \<Rightarrow> sway \<Rightarrow> sway" where
  "detach_links c s = container_for_each_child c set_workspace
     (upd_pending c (st_workspace_update (\<lambda>_. None))
       (upd_pending c (st_parent_update (\<lambda>_. None)) (remove_from (siblings_ref s c) c s)))"

definition unlinked :: "nat \<Rightarrow> sway \<Rightarrow> sway" where
  "unlinked c s = upd_pending c (st_workspace_update (\<lambda>_. None))
       (upd_pending c (st_parent_update (\<lambda>_. None)) (remove_from (siblings_ref s c) c s))"

lemma tree_of_unlinked:
  assumes wf: "wf_sway s"
  shows "tree_of (unlinked c s) = (t_detach c (tree_of s))\<lparr>t_ws := (workspace_of s)(c := None)\<rparr>"
proof (cases "parent_of s c")
  case (Some p)
  then have "remove_from (siblings_ref s c) c s = upd_list (Children p) (remove1 c) s"
    by (simp add: siblings_ref_def remove_from_remove1)
  then show ?thesis using Some
    by (auto simp: unlinked_def tree_of_def t_detach_def upd_defs fun_eq_iff)
next
  case None
  show ?thesis
  proof (cases "workspace_of s c")
    case (Some w)
    have tf: "c \<notin> set (ws_tiling (wss s w)) \<or> c \<notin> set (ws_floating (wss s w))"
      using wf_treeD(5) [OF wf, of w] by auto
    define l where "l = (if c \<in> set (ws_tiling (wss s w)) then Tiling_List w else Floating_List w)"
    have r: "remove_from (siblings_ref s c) c s = upd_list l (remove1 c) s"
      using None Some seq_find_absent [of c "ws_tiling (wss s w)"]
      by (simp add: siblings_ref_def l_def remove_from_remove1)
    have "ws_tiling (wss (upd_list l (remove1 c) s) v) = (if v = w then remove1 c (ws_tiling (wss s v)) else ws_tiling (wss s v))"
      "ws_floating (wss (upd_list l (remove1 c) s) v) = (if v = w then remove1 c (ws_floating (wss s v)) else ws_floating (wss s v))"
      "cons (upd_list l (remove1 c) s) = cons s" "next_id (upd_list l (remove1 c) s) = next_id s" for v
      using tf by (auto simp: l_def upd_defs remove1_idem)
    then show ?thesis using None Some unfolding unlinked_def r
      by (auto simp: tree_of_def t_detach_def upd_defs fun_eq_iff)
  next
    case 2: None
    then have "remove_from (siblings_ref s c) c s = s" using None by (simp add: siblings_ref_def remove_from_def)
    then show ?thesis using None 2
      by (auto simp: unlinked_def tree_of_def t_detach_def upd_defs fun_eq_iff)
  qed
qed

lemma tree_of_set_workspaces:
  "tree_of (set_workspaces D w s) = (tree_of s)\<lparr>t_ws := (\<lambda>x. if x \<in> D then w else workspace_of s x)\<rparr>"
  by (rule tree.equality) (simp_all add: fun_eq_iff)

lemma below_t_ws [simp]: "below (t\<lparr>t_ws := f\<rparr>) c = below t c"
  by (simp add: below_def edges_def)

lemma tree_of_detach_links:
  assumes wf: "wf_sway s"
  shows "tree_of (detach_links c s) = t_detach c (tree_of s)"
proof -
  let ?t = "t_detach c (tree_of s)" and ?u = "unlinked c s"
  have wft: "wf_tree ?t" by (rule wf_tree_detach [OF wf])
  have u: "tree_of ?u = ?t\<lparr>t_ws := (workspace_of s)(c := None)\<rparr>" by (rule tree_of_unlinked [OF wf])
  have kids: "kids ?u = kidl ?t"
    using u kidl_tree_of [of ?u] by (simp add: kidl_def fun_eq_iff)
  have par: "parent_of ?u = t_parent ?t" "next_id ?u = t_next ?t"
    using u tree_of_sel(1,7) [of ?u] by simp_all
  have d: "set (descendants ?u c) = below (tree_of s) c"
    using set_desc [OF wft, of c] below_detach [OF wf, of c] kids par(2)
    by (simp add: descendants_def del: t_detach_sel)
  have pk: "\<And>p x. x \<in> set (kids ?u p) \<Longrightarrow> parent_of ?u x = Some p"
    using wf_treeD(2) [OF wft] kids par(1) by (metis (no_types))
  have wu: "workspace_of ?u = (workspace_of s)(c := None)" using u tree_of_sel(2) [of ?u] by simp
  then have "workspace_of ?u c = None" by (metis fun_upd_same)
  then have "detach_links c s = set_workspaces (below (tree_of s) c) None ?u"
    unfolding detach_links_def unlinked_def [symmetric]
    by (simp add: container_set_workspaces [OF pk] d)
  then have "tree_of (detach_links c s)
      = ?t\<lparr>t_ws := (\<lambda>x. if x \<in> below (tree_of s) c then None else ((workspace_of s)(c := None)) x)\<rparr>"
    unfolding wu [symmetric] by (simp add: tree_of_set_workspaces u)
  also have "\<dots> = ?t" by (rule tree.equality) (auto simp: fun_eq_iff)
  finally show ?thesis .
qed


lemma tree_of_fullscreen_global [simp, tree_frame]: "tree_of (s\<lparr>fullscreen_global := g\<rparr>) = tree_of s"
  by (rule tree_of_eqI) simp_all

lemma siblings_ref_tree: "tree_of s' = tree_of s \<Longrightarrow> siblings_ref s' c = siblings_ref s c"
  by (simp add: siblings_ref_def tree_of_def fun_eq_iff split: option.splits)

lemma tree_of_update_old_place:
  "tree_of (case p of Some q \<Rightarrow> node_set_dirty (N_CONTAINER q) (container_update_representation q s)
            | None \<Rightarrow> (case w of Some v \<Rightarrow> node_set_dirty (N_WORKSPACE v) (workspace_update_representation v s)
                       | None \<Rightarrow> s)) = tree_of s"
  by (simp split: option.splits)

lemma container_detach_tree:
  assumes wf: "wf_sway s" and d: "container_detach c s = Some s'"
  shows "tree_of s' = t_detach c (tree_of s)"
proof -
  from d obtain s1 where s1: "s1 = s \<or> (\<exists>w. s1 = upd_ws w (ws_fullscreen_update (\<lambda>_. None)) s)"
    and s': "\<exists>s2 op ow. (s2 = s1 \<or> s2 = s1\<lparr>fullscreen_global := None\<rparr>) \<and>
      s' = node_set_dirty (N_CONTAINER c)
        (case op of Some p \<Rightarrow> node_set_dirty (N_CONTAINER p) (container_update_representation p (detach_links c s2))
         | None \<Rightarrow> (case ow of Some w \<Rightarrow> node_set_dirty (N_WORKSPACE w) (workspace_update_representation w (detach_links c s2))
                    | None \<Rightarrow> detach_links c s2))"
    unfolding container_detach_def detach_links_def Let_def
    by (auto split: if_splits bind_splits)
  have "tree_of s1 = tree_of s" using s1 by (auto intro: tree_of_upd_ws)
  moreover obtain s2 where "s2 = s1 \<or> s2 = s1\<lparr>fullscreen_global := None\<rparr>" "tree_of s' = tree_of (detach_links c s2)"
    using s' by (metis tree_of_update_old_place tree_of_node_set_dirty)
  moreover from this(1) have "tree_of s2 = tree_of s1" by auto
  ultimately show ?thesis using tree_of_detach_links [of s2 c] wf by simp
qed

lemma container_detach_defined:
  "(fullscreen_mode_of s c = FULLSCREEN_WORKSPACE \<longrightarrow> workspace_of s c \<noteq> None) \<longleftrightarrow> container_detach c s \<noteq> None"
  by (auto simp: container_detach_def Let_def split: bind_splits)

text \<open>C2. Detaching a container from a well-formed window tree takes its whole subtree out of
  the tree and changes nothing else of the structure: the container has no parent and no
  workspace, its descendants have no workspace but keep their place below it, it has left
  its list of siblings, and the tree is well-formed again. The operation is defined unless
  the container is fullscreen on a workspace it does not have.\<close>

theorem container_detach_refines:
  assumes "wf_sway s" "fullscreen_mode_of s c = FULLSCREEN_WORKSPACE \<longrightarrow> workspace_of s c \<noteq> None"
  shows "\<exists>s'. container_detach c s = Some s' \<and> tree_of s' = t_detach c (tree_of s) \<and> wf_sway s'
           \<and> parent_of s' c = None \<and> (\<forall>x. x = c \<or> x \<in> below (tree_of s) c \<longrightarrow> workspace_of s' x = None)
           \<and> below (tree_of s') c = below (tree_of s) c"
proof -
  obtain s' where s': "container_detach c s = Some s'"
    using assms(2) container_detach_defined [of s c] by blast
  have t: "tree_of s' = t_detach c (tree_of s)" by (rule container_detach_tree [OF assms(1) s'])
  have "t_parent (tree_of s') c = None" "\<forall>x. x = c \<or> x \<in> below (tree_of s) c \<longrightarrow> t_ws (tree_of s') x = None"
    unfolding t by simp_all
  then have "parent_of s' c = None" "\<forall>x. x = c \<or> x \<in> below (tree_of s) c \<longrightarrow> workspace_of s' x = None"
    by simp_all
  then show ?thesis using s' t wf_tree_detach [OF assms(1)] below_detach [OF assms(1)] by simp
qed

end
