(* ===== verification/Focus_Query.thy ===== *)
theory Focus_Query
  imports Container_Laws
begin

text \<open>
  The focus stack of a seat and the questions the tree asks of it: the getters of
  \<open>sway/input/seat.c\<close>, \<open>output_get_active_workspace\<close> and the lookups of outputs of
  \<open>sway/desktop/output.c\<close> and \<open>sway/config/output.c\<close>, and the queries of
  \<open>sway/tree/workspace.c\<close> that depend on the focus. A seat is an index into \<open>seats s\<close>; the
  seat commands act on is \<open>current_seat s\<close>.
\<close>

section \<open>The focus stack\<close>

definition seat_get_focus :: "sway \<Rightarrow> nat \<Rightarrow> sway_node option" where
  "seat_get_focus s i =
     (if \<not> seat_has_focus (seats s i) then None
      else case focus_stack (seats s i) of [] \<Rightarrow> None | n # _ \<Rightarrow> Some n)"

definition seat_get_focused_container :: "sway \<Rightarrow> nat \<Rightarrow> nat option" where
  "seat_get_focused_container s i =
     (case seat_get_focus s i of Some (N_CONTAINER c) \<Rightarrow> Some c | _ \<Rightarrow> None)"

definition seat_get_focus_inactive :: "sway \<Rightarrow> nat \<Rightarrow> sway_node \<Rightarrow> sway_node option" where
  "seat_get_focus_inactive s i node =
     (if node_is_view s node then Some node
      else case find (\<lambda>n. node_has_ancestor s n node) (focus_stack (seats s i)) of
        Some n \<Rightarrow> Some n
      | None \<Rightarrow> (case node of N_WORKSPACE w \<Rightarrow> Some node | _ \<Rightarrow> None))"

definition seat_get_focus_inactive_view :: "sway \<Rightarrow> nat \<Rightarrow> sway_node \<Rightarrow> nat option" where
  "seat_get_focus_inactive_view s i ancestor =
     (if node_is_view s ancestor then (case ancestor of N_CONTAINER c \<Rightarrow> Some c | _ \<Rightarrow> None)
      else case find (\<lambda>n. node_is_view s n \<and> node_has_ancestor s n ancestor) (focus_stack (seats s i)) of
        Some (N_CONTAINER c) \<Rightarrow> Some c
      | _ \<Rightarrow> None)"

definition seat_get_focus_inactive_tiling :: "sway \<Rightarrow> nat \<Rightarrow> nat \<Rightarrow> nat option" where
  "seat_get_focus_inactive_tiling s i w =
     (if ws_tiling (wss s w) = [] then None
      else case find (\<lambda>n. case n of
                N_CONTAINER c \<Rightarrow> \<not> container_is_floating_or_child s c \<and> workspace_of s c = Some w
              | _ \<Rightarrow> False) (focus_stack (seats s i)) of
        Some (N_CONTAINER c) \<Rightarrow> Some c
      | _ \<Rightarrow> None)"

definition seat_get_focus_inactive_floating :: "sway \<Rightarrow> nat \<Rightarrow> nat \<Rightarrow> nat option" where
  "seat_get_focus_inactive_floating s i w =
     (if ws_floating (wss s w) = [] then None
      else case find (\<lambda>n. case n of
                N_CONTAINER c \<Rightarrow> container_is_floating_or_child s c \<and> workspace_of s c = Some w
              | _ \<Rightarrow> False) (focus_stack (seats s i)) of
        Some (N_CONTAINER c) \<Rightarrow> Some c
      | _ \<Rightarrow> None)"

definition seat_get_active_tiling_child :: "sway \<Rightarrow> nat \<Rightarrow> sway_node \<Rightarrow> sway_node option" where
  "seat_get_active_tiling_child s i parent =
     (if node_is_view s parent then Some parent
      else find (\<lambda>n. node_get_parent s n = Some parent \<and>
                (case parent of
                   N_WORKSPACE w \<Rightarrow>
                     (case n of N_CONTAINER c \<Rightarrow> seq_find (\<lambda>x. x = c) (ws_tiling (wss s w)) 0 \<noteq> - 1
                      | _ \<Rightarrow> False)
                 | _ \<Rightarrow> True)) (focus_stack (seats s i)))"

definition seat_get_focused_workspace :: "sway \<Rightarrow> nat \<Rightarrow> nat option" where
  "seat_get_focused_workspace s i =
     (case seat_get_focus_inactive s i N_ROOT of
        Some (N_CONTAINER c) \<Rightarrow> workspace_of s c
      | Some (N_WORKSPACE w) \<Rightarrow> Some w
      | _ \<Rightarrow> None)"

fun last_known_workspace :: "sway \<Rightarrow> sway_node list \<Rightarrow> nat option" where
  "last_known_workspace s [] = None"
| "last_known_workspace s (n # ns) =
     (case n of
        N_CONTAINER c \<Rightarrow> (case workspace_of s c of Some w \<Rightarrow> Some w | None \<Rightarrow> last_known_workspace s ns)
      | N_WORKSPACE w \<Rightarrow> Some w
      | _ \<Rightarrow> last_known_workspace s ns)"

definition seat_get_last_known_workspace :: "sway \<Rightarrow> nat \<Rightarrow> nat option" where
  "seat_get_last_known_workspace s i = last_known_workspace s (focus_stack (seats s i))"

section \<open>Outputs\<close>

definition output_get_active_workspace :: "sway \<Rightarrow> nat \<Rightarrow> nat option" where
  "output_get_active_workspace s out =
     (case seat_get_active_tiling_child s (current_seat s) (N_OUTPUT out) of
        None \<Rightarrow> (case out_workspaces (outs s out) of [] \<Rightarrow> None | w # _ \<Rightarrow> Some w)
      | Some (N_WORKSPACE w) \<Rightarrow> Some w
      | Some _ \<Rightarrow> None)"

text \<open>\<open>snprintf\<close> into \<open>char identifier[128]\<close> keeps 127 characters.\<close>

definition output_get_identifier :: "sway_output \<Rightarrow> string" where
  "output_get_identifier out =
     take 127 (case_option ''Unknown'' id (out_make out) @ '' '' @
               case_option ''Unknown'' id (out_model out) @ '' '' @
               case_option ''Unknown'' id (out_serial out))"

definition output_match_name_or_id :: "sway \<Rightarrow> nat \<Rightarrow> string \<Rightarrow> bool" where
  "output_match_name_or_id s out name_or_id =
     (if name_or_id = ''*'' then True
      else strcasecmp_eq (output_get_identifier (outs s out)) name_or_id \<or>
           strcasecmp_eq (out_name (outs s out)) name_or_id)"

definition output_by_name_or_id :: "sway \<Rightarrow> string \<Rightarrow> nat option" where
  "output_by_name_or_id s name_or_id =
     find (\<lambda>out. output_match_name_or_id s out name_or_id) (root_outputs s)"

definition output_get_default_layout :: "sway \<Rightarrow> nat \<Rightarrow> sway_container_layout" where
  "output_get_default_layout s out =
     (if cfg_default_workspace_layout (cfg s) \<noteq> L_NONE then cfg_default_workspace_layout (cfg s)
      else if cfg_default_orientation (cfg s) \<noteq> L_NONE then cfg_default_orientation (cfg s)
      else if out_height (outs s out) > out_width (outs s out) then L_VERT
      else L_HORIZ)"

section \<open>Workspaces\<close>

definition workspace_is_visible :: "sway \<Rightarrow> nat \<Rightarrow> bool option" where
  "workspace_is_visible s w =
     (if node_destroying s (N_WORKSPACE w) then Some False
      else case ws_output (wss s w) of
        None \<Rightarrow> None
      | Some out \<Rightarrow> Some (output_get_active_workspace s out = Some w))"

definition workspace_is_empty :: "sway \<Rightarrow> nat \<Rightarrow> bool" where
  "workspace_is_empty s w =
     (if ws_tiling (wss s w) \<noteq> [] then False
      else \<forall>floater \<in> set (ws_floating (wss s w)). container_is_sticky s floater)"

definition workspace_find_container :: "sway \<Rightarrow> nat \<Rightarrow> (nat \<Rightarrow> bool) \<Rightarrow> nat option" where
  "workspace_find_container s w test =
     find_first (\<lambda>c. if test c then Some c else container_find_child s c test)
       (ws_tiling (wss s w) @ ws_floating (wss s w))"

definition workspace_containers :: "sway \<Rightarrow> nat \<Rightarrow> nat list" where
  "workspace_containers s w =
     concat (map (\<lambda>c. c # descendants s c) (ws_tiling (wss s w) @ ws_floating (wss s w)))"

definition workspace_for_each_container :: "nat \<Rightarrow> (nat \<Rightarrow> sway \<Rightarrow> sway) \<Rightarrow> sway \<Rightarrow> sway" where
  "workspace_for_each_container w f s =
     (let s1 = fold (\<lambda>c s. container_for_each_child c f (f c s)) (ws_tiling (wss s w)) s
      in fold (\<lambda>c s. container_for_each_child c f (f c s)) (ws_floating (wss s1 w)) s1)"

definition workspace_num_tiling_views :: "sway \<Rightarrow> nat \<Rightarrow> nat" where
  "workspace_num_tiling_views s w =
     length (filter (\<lambda>c. con_view (cons s c) \<noteq> None \<and> \<not> container_is_floating_or_child s c)
       (workspace_containers s w))"

definition workspace_num_sticky_containers :: "sway \<Rightarrow> nat \<Rightarrow> nat" where
  "workspace_num_sticky_containers s w =
     length (filter (container_is_sticky s) (workspace_containers s w))"

definition is_urgent_con :: "sway \<Rightarrow> nat \<Rightarrow> bool" where
  "is_urgent_con s c = (case con_view (cons s c) of None \<Rightarrow> False | Some v \<Rightarrow> view_is_urgent v)"

definition workspace_detect_urgent :: "nat \<Rightarrow> sway \<Rightarrow> sway" where
  "workspace_detect_urgent w s =
     (let new_urgent = (workspace_find_container s w (is_urgent_con s) \<noteq> None) in
      if ws_urgent (wss s w) \<noteq> new_urgent then upd_ws w (ws_urgent_update (\<lambda>_. new_urgent)) s else s)"

definition workspace_get_focus_tiling_child :: "sway \<Rightarrow> nat \<Rightarrow> nat \<Rightarrow> nat option" where
  "workspace_get_focus_tiling_child s w i =
     (let focus = (case seat_get_focus_inactive_tiling s i w of
            None \<Rightarrow> None
          | Some f \<Rightarrow>
              let top = container_toplevel_ancestor s f in
              if workspace_of s top \<noteq> Some w \<or> seq_find (\<lambda>x. x = top) (ws_tiling (wss s w)) 0 = - 1
              then None else Some top) in
      case focus of
        Some f \<Rightarrow> Some f
      | None \<Rightarrow> (case ws_tiling (wss s w) of [] \<Rightarrow> None | c # _ \<Rightarrow> Some c))"

definition root_find_workspace :: "sway \<Rightarrow> (nat \<Rightarrow> bool) \<Rightarrow> nat option" where
  "root_find_workspace s test =
     find_first (\<lambda>out. find test (out_workspaces (outs s out))) (root_outputs s)"

definition output_find_container :: "sway \<Rightarrow> nat \<Rightarrow> (nat \<Rightarrow> bool) \<Rightarrow> nat option" where
  "output_find_container s out test =
     find_first (\<lambda>w. workspace_find_container s w test) (out_workspaces (outs s out))"

definition root_find_container :: "sway \<Rightarrow> (nat \<Rightarrow> bool) \<Rightarrow> nat option" where
  "root_find_container s test =
     (case find_first (\<lambda>out. output_find_container s out test) (root_outputs s) of
        Some c \<Rightarrow> Some c
      | None \<Rightarrow>
          (case find_first (\<lambda>c. if container_is_scratchpad_hidden s c
                   then (if test c then Some c else container_find_child s c test) else None)
                 (root_scratchpad s) of
             Some c \<Rightarrow> Some c
           | None \<Rightarrow> output_find_container s (fallback_output s) test))"

definition root_find_output :: "sway \<Rightarrow> (nat \<Rightarrow> bool) \<Rightarrow> nat option" where
  "root_find_output s test = find test (root_outputs s)"

section \<open>Marks are unique\<close>

definition container_find_mark :: "sway \<Rightarrow> string \<Rightarrow> nat option" where
  "container_find_mark s mark = root_find_container s (\<lambda>c. container_has_mark s c mark)"

definition container_find_and_unmark :: "string \<Rightarrow> sway \<Rightarrow> bool \<times> sway" where
  "container_find_and_unmark mark s =
     (case root_find_container s (\<lambda>c. container_has_mark s c mark) of
        None \<Rightarrow> (False, s)
      | Some c \<Rightarrow>
          (if mark \<in> set (con_marks (cons s c))
           then (True, upd_con c (con_marks_update (remove1 mark)) s)
           else (False, s)))"

section \<open>Views\<close>

definition view_ancestor_is_only_visible :: "sway \<Rightarrow> nat \<Rightarrow> bool" where
  "view_ancestor_is_only_visible s c =
     foldl (\<lambda>only_visible x.
        let layout = container_parent_layout s x in
        if layout \<noteq> L_TABBED \<and> layout \<noteq> L_STACKED
        then (case container_get_siblings s x of
                Some l \<Rightarrow> if length l > 1 then False else only_visible
              | None \<Rightarrow> only_visible)
        else True) True (c # ancestors s c)"

definition view_is_only_visible :: "sway \<Rightarrow> nat \<Rightarrow> bool" where
  "view_is_only_visible s c =
     (\<forall>x \<in> set (c # ancestors s c).
        let layout = container_parent_layout s x in
        layout \<noteq> L_TABBED \<and> layout \<noteq> L_STACKED \<longrightarrow>
        (case container_get_siblings s x of Some l \<Rightarrow> length l \<le> 1 | None \<Rightarrow> True))"

definition workspace_has_single_visible_container :: "sway \<Rightarrow> nat \<Rightarrow> bool" where
  "workspace_has_single_visible_container s w =
     (let focus = workspace_get_focus_tiling_child s w (default_seat s);
          focus = (case focus of
            Some f \<Rightarrow> if con_view (cons s f) = None
                      then seat_get_focus_inactive_view s (default_seat s) (N_CONTAINER f) else focus
          | None \<Rightarrow> None) in
      case focus of
        Some f \<Rightarrow> con_view (cons s f) \<noteq> None \<and> view_ancestor_is_only_visible s f
      | None \<Rightarrow> False)"

text \<open>
  Whether a view is on screen: on a visible workspace (or fullscreen on the root), on the
  active tab of every tabbed or stacked ancestor, and not behind a fullscreen container.
\<close>

definition view_is_visible :: "sway \<Rightarrow> nat \<Rightarrow> bool option" where
  "view_is_visible s c =
     (if node_destroying s (N_CONTAINER c) then Some False
      else if workspace_of s c = None \<and> fullscreen_mode_of s c \<noteq> FULLSCREEN_GLOBAL \<and>
              \<not> (\<exists>p \<in> set (ancestors s c). fullscreen_mode_of s p = FULLSCREEN_GLOBAL)
      then Some False
      else do {
        on_screen \<leftarrow> (case workspace_of s c of
            Some w \<Rightarrow> if container_is_sticky_or_child s c then Some True else workspace_is_visible s w
          | None \<Rightarrow> Some True);
        if \<not> on_screen then Some False
        else if (\<exists>x \<in> set (c # ancestors s c).
                  container_parent_layout s x \<in> {L_TABBED, L_STACKED} \<and> \<not> container_is_floating s x \<and>
                  (case node_get_parent s (N_CONTAINER x) of
                     None \<Rightarrow> False
                   | Some p \<Rightarrow> seat_get_active_tiling_child s (current_seat s) p \<noteq> Some (N_CONTAINER x)))
        then Some False
        else do {
          fs \<leftarrow> (case fullscreen_global s of
              Some f \<Rightarrow> Some (Some f)
            | None \<Rightarrow> map_option (\<lambda>w. ws_fullscreen (wss s w)) (workspace_of s c));
          Some (case fs of
              None \<Rightarrow> True
            | Some f \<Rightarrow> container_is_fullscreen_or_child s c \<or> container_is_transient_for s c f) } })"

end
