(* ===== verification/Arrange.thy ===== *)
theory Arrange
  imports Focus_Query
begin

text \<open>
  Geometry: the layouts of \<open>sway/tree/arrange.c\<close>, \<open>view_autoconfigure\<close> of \<open>view.c\<close>, gaps and
  scrolling of \<open>workspace.c\<close>, and the placement of floating containers of \<open>container.c\<close>.
  Coordinates are exact rationals; \<open>round\<close>, \<open>floor\<close> and the conversions to \<open>int\<close> are those
  of C. Nothing here touches the structure of the tree (\<open>tree_of\<close> lemmas at the end).
\<close>

abbreviation MIN_SANE_W :: int where "MIN_SANE_W \<equiv> 100"
abbreviation MIN_SANE_H :: int where "MIN_SANE_H \<equiv> 60"

definition c_round :: "rat \<Rightarrow> int" where
  "c_round x = (if 0 \<le> x then \<lfloor>x + 1 / 2\<rfloor> else \<lceil>x - 1 / 2\<rceil>)"

definition container_titlebar_height :: "sway \<Rightarrow> int" where
  "container_titlebar_height s = cfg_font_height (cfg s) + cfg_titlebar_v_padding (cfg s) * 2"

section \<open>Shares of the parent's space\<close>

text \<open>
  \<open>fill_fractions\<close> gives a share to children that have none, \<open>share_fractions\<close> then
  normalises: the first three loops of \<open>apply_horiz_layout\<close> and of \<open>apply_vert_layout\<close>.
\<close>

definition fill_fractions :: "rat list \<Rightarrow> rat list" where
  "fill_fractions fs =
     (let new_children = length (filter (\<lambda>f. f \<le> 0) fs);
          current = sum_list fs in
      map (\<lambda>f. if f \<le> 0
               then (if current \<le> 0 then 1
                     else if length fs > new_children then current / of_nat (length fs - new_children)
                     else current)
               else f) fs)"

definition share_fractions :: "rat list \<Rightarrow> rat list" where
  "share_fractions fs = (let filled = fill_fractions fs in map (\<lambda>f. f / sum_list filled) filled)"

fun set_width_fractions :: "nat list \<Rightarrow> rat list \<Rightarrow> sway \<Rightarrow> sway" where
  "set_width_fractions (c # cs) (f # fs) s =
     set_width_fractions cs fs (upd_con c (con_width_fraction_update (\<lambda>_. f)) s)"
| "set_width_fractions _ _ s = s"

fun set_height_fractions :: "nat list \<Rightarrow> rat list \<Rightarrow> sway \<Rightarrow> sway" where
  "set_height_fractions (c # cs) (f # fs) s =
     set_height_fractions cs fs (upd_con c (con_height_fraction_update (\<lambda>_. f)) s)"
| "set_height_fractions _ _ s = s"

text \<open>The gap configured for the workspace, or none below a tabbed or stacked container.\<close>

definition layout_inner_gap :: "sway \<Rightarrow> nat \<Rightarrow> rat" where
  "layout_inner_gap s child =
     (if \<exists>temp \<in> set (child # ancestors s child). container_parent_layout s temp \<in> {L_TABBED, L_STACKED}
      then 0
      else case workspace_of s child of None \<Rightarrow> 0 | Some w \<Rightarrow> of_int (ws_gaps_inner (wss s w)))"

definition total_gap :: "rat \<Rightarrow> nat \<Rightarrow> int \<Rightarrow> int \<Rightarrow> rat" where
  "total_gap inner_gap n space min_sane =
     min (inner_gap * (of_nat n - 1)) (max 0 (of_int (space - min_sane * int n)))"

text \<open>
  The last loop. \<open>sizes\<close> are the shares times the space; the last child takes what remains,
  and a child with a side under 10 is given none.
\<close>

definition set_geometry :: "nat \<Rightarrow> rat \<Rightarrow> rat \<Rightarrow> rat \<Rightarrow> rat \<Rightarrow> sway \<Rightarrow> sway" where
  "set_geometry c px py pw ph =
     upd_pending c (\<lambda>p. p\<lparr>st_x := px, st_y := py, st_width := pw, st_height := ph\<rparr>)"

text \<open>Width and height of a child at \<open>child_x\<close> (\<open>child_y\<close>).\<close>

definition sane_size :: "rat \<Rightarrow> rat \<Rightarrow> rat \<times> rat" where
  "sane_size w h = (if w < 10 \<or> h < 10 then (0, 0) else (w, h))"

definition horiz_size :: "wlr_box \<Rightarrow> rat \<Rightarrow> bool \<Rightarrow> rat \<Rightarrow> rat \<Rightarrow> rat \<times> rat" where
  "horiz_size parent space is_last f child_x =
     sane_size (if is_last then of_int (box_x parent + box_width parent) - child_x else of_int (c_round (f * space)))
       (of_int (box_height parent))"

definition vert_size :: "wlr_box \<Rightarrow> rat \<Rightarrow> bool \<Rightarrow> rat \<Rightarrow> rat \<Rightarrow> rat \<times> rat" where
  "vert_size parent space is_last f child_y =
     sane_size (of_int (box_width parent))
       (if is_last then of_int (box_y parent + box_height parent) - child_y else of_int (c_round (f * space)))"

primrec horiz_place :: "wlr_box \<Rightarrow> rat \<Rightarrow> rat \<Rightarrow> nat list \<Rightarrow> rat \<Rightarrow> sway \<Rightarrow> sway" where
  "horiz_place parent space gap [] child_x s = s"
| "horiz_place parent space gap (c # cs) child_x s =
     (case horiz_size parent space (cs = []) (con_width_fraction (cons s c)) child_x of (w, h) \<Rightarrow>
        horiz_place parent space gap cs (child_x + w + gap)
          (set_geometry c child_x (of_int (box_y parent)) w h
            (upd_con c (con_child_total_width_update (\<lambda>_. space)) s)))"

primrec vert_place :: "wlr_box \<Rightarrow> rat \<Rightarrow> rat \<Rightarrow> nat list \<Rightarrow> rat \<Rightarrow> sway \<Rightarrow> sway" where
  "vert_place parent space gap [] child_y s = s"
| "vert_place parent space gap (c # cs) child_y s =
     (case vert_size parent space (cs = []) (con_height_fraction (cons s c)) child_y of (w, h) \<Rightarrow>
        vert_place parent space gap cs (child_y + h + gap)
          (set_geometry c (of_int (box_x parent)) child_y w h
            (upd_con c (con_child_total_height_update (\<lambda>_. space)) s)))"

definition apply_horiz_layout :: "nat list \<Rightarrow> wlr_box \<Rightarrow> sway \<Rightarrow> sway" where
  "apply_horiz_layout children parent s =
     (case children of [] \<Rightarrow> s
      | child # _ \<Rightarrow>
          let s1 = set_width_fractions children
                     (share_fractions (map (\<lambda>c. con_width_fraction (cons s c)) children)) s;
              gaps = total_gap (layout_inner_gap s1 child) (length children) (box_width parent) MIN_SANE_W;
              space = of_int (box_width parent) - gaps;
              gap = of_int \<lfloor>gaps / (of_nat (length children) - 1)\<rfloor>
          in horiz_place parent space gap children (of_int (box_x parent)) s1)"

definition apply_vert_layout :: "nat list \<Rightarrow> wlr_box \<Rightarrow> sway \<Rightarrow> sway" where
  "apply_vert_layout children parent s =
     (case children of [] \<Rightarrow> s
      | child # _ \<Rightarrow>
          let s1 = set_height_fractions children
                     (share_fractions (map (\<lambda>c. con_height_fraction (cons s c)) children)) s;
              gaps = total_gap (layout_inner_gap s1 child) (length children) (box_height parent) MIN_SANE_H;
              space = of_int (box_height parent) - gaps;
              gap = of_int \<lfloor>gaps / (of_nat (length children) - 1)\<rfloor>
          in vert_place parent space gap children (of_int (box_y parent)) s1)"

abbreviation SCROLL_DEFAULT_WIDTH_FRACTION :: rat where
  "SCROLL_DEFAULT_WIDTH_FRACTION \<equiv> 55 / 100"

definition scroll_fraction :: "wlr_box \<Rightarrow> sway_container \<Rightarrow> rat" where
  "scroll_fraction parent c =
     (if con_width_fraction c \<le> 0
      then (if st_width (con_current c) > 0 \<and> box_width parent > 0
            then st_width (con_current c) / of_int (box_width parent)
            else SCROLL_DEFAULT_WIDTH_FRACTION)
      else con_width_fraction c)"

definition scroll_width :: "wlr_box \<Rightarrow> rat \<Rightarrow> int" where
  "scroll_width parent f = min (box_width parent) (max MIN_SANE_W (c_round (f * of_int (box_width parent))))"

definition scroll_child :: "wlr_box \<Rightarrow> nat \<Rightarrow> rat \<Rightarrow> sway \<Rightarrow> sway" where
  "scroll_child parent c child_x s =
     (let f = scroll_fraction parent (cons s c) in
      set_geometry c child_x (of_int (box_y parent)) (of_int (scroll_width parent f)) (of_int (box_height parent))
        (upd_con c (\<lambda>k. k\<lparr>con_width_fraction := f, con_child_total_width := of_int (box_width parent)\<rparr>) s))"

primrec scroll_place :: "wlr_box \<Rightarrow> rat \<Rightarrow> nat list \<Rightarrow> rat \<Rightarrow> sway \<Rightarrow> sway" where
  "scroll_place parent gap [] child_x s = s"
| "scroll_place parent gap (c # cs) child_x s =
     scroll_place parent gap cs
       (child_x + of_int (scroll_width parent (scroll_fraction parent (cons s c))) + gap)
       (scroll_child parent c child_x s)"

definition apply_scroll_layout :: "nat list \<Rightarrow> wlr_box \<Rightarrow> sway \<Rightarrow> sway" where
  "apply_scroll_layout children parent s =
     (case children of [] \<Rightarrow> s
      | child # _ \<Rightarrow>
          let gap = (case workspace_of s child of None \<Rightarrow> 0 | Some w \<Rightarrow> of_int (ws_gaps_inner (wss s w)))
          in scroll_place parent gap children (of_int (box_x parent)) s)"

definition apply_tabbed_layout :: "nat list \<Rightarrow> wlr_box \<Rightarrow> sway \<Rightarrow> sway" where
  "apply_tabbed_layout children parent s =
     fold (\<lambda>c s. let off = (if con_view (cons s c) \<noteq> None then 0 else container_titlebar_height s) in
        set_geometry c (of_int (box_x parent)) (of_int (box_y parent + off))
          (of_int (box_width parent)) (of_int (box_height parent - off)) s) children s"

definition apply_stacked_layout :: "nat list \<Rightarrow> wlr_box \<Rightarrow> sway \<Rightarrow> sway" where
  "apply_stacked_layout children parent s =
     fold (\<lambda>c s. let off = (if con_view (cons s c) \<noteq> None then 0
                            else container_titlebar_height s * int (length children)) in
        set_geometry c (of_int (box_x parent)) (of_int (box_y parent + off))
          (of_int (box_width parent)) (of_int (box_height parent - off)) s) children s"

fun apply_layout :: "sway_container_layout \<Rightarrow> nat list \<Rightarrow> wlr_box \<Rightarrow> sway \<Rightarrow> sway" where
  "apply_layout L_HORIZ = apply_horiz_layout"
| "apply_layout L_VERT = apply_vert_layout"
| "apply_layout L_SCROLL_H = apply_scroll_layout"
| "apply_layout L_TABBED = apply_tabbed_layout"
| "apply_layout L_STACKED = apply_stacked_layout"
| "apply_layout L_NONE = apply_horiz_layout"


section \<open>Views\<close>

definition gaps_to_edge :: "sway \<Rightarrow> nat \<Rightarrow> bool" where
  "gaps_to_edge s c =
     (case workspace_of s c of
        None \<Rightarrow> False
      | Some w \<Rightarrow> let g = ws_current_gaps (wss s w) in
          gap_top g > 0 \<or> gap_right g > 0 \<or> gap_bottom g > 0 \<or> gap_left g > 0)"

text \<open>The borders a tiled view keeps: those that \<open>hide_edge_borders\<close> does not hide.\<close>

definition edge_borders :: "sway \<Rightarrow> nat \<Rightarrow> nat \<Rightarrow> sway_container_state \<Rightarrow> sway_container_state" where
  "edge_borders s c w p =
     (let v = wss s w; hide = cfg_hide_edge_borders (cfg s);
          right_x = c_trunc (st_x p + st_width p); bottom_y = c_trunc (st_y p + st_height p);
          p1 = (if hide = E_BOTH \<or> hide = E_VERTICAL
                then p\<lparr>st_border_left := (st_x p \<noteq> ws_x v),
                       st_border_right := (of_int right_x \<noteq> ws_x v + of_int (ws_width v))\<rparr> else p);
          p2 = (if hide = E_BOTH \<or> hide = E_HORIZONTAL
                then p1\<lparr>st_border_top := (st_y p \<noteq> ws_y v),
                        st_border_bottom := (of_int bottom_y \<noteq> ws_y v + of_int (ws_height v))\<rparr> else p1);
          smart = (cfg_hide_edge_borders_smart (cfg s) = ESMART_ON \<or>
                   (cfg_hide_edge_borders_smart (cfg s) = ESMART_NO_GAPS \<and> \<not> gaps_to_edge s c))
      in if smart
         then let show_border = (\<not> view_is_only_visible s c) in
              p2\<lparr>st_border_left := (st_border_left p2 \<and> show_border),
                 st_border_right := (st_border_right p2 \<and> show_border),
                 st_border_top := (st_border_top p2 \<and> show_border),
                 st_border_bottom := (st_border_bottom p2 \<and> show_border)\<rparr>
         else p2)"

text \<open>The height of the title area above a view in a tabbed or stacked parent.\<close>

definition title_offset :: "sway \<Rightarrow> nat \<Rightarrow> int" where
  "title_offset s c =
     (if container_is_floating s c then 0
      else
        let siblings = container_get_siblings s c;
            show_titlebar = ((case siblings of Some l \<Rightarrow> length l > 1 | None \<Rightarrow> False) \<or> \<not> cfg_hide_lone_tab (cfg s))
        in if show_titlebar
           then (case container_parent_layout s c of
                   L_TABBED \<Rightarrow> container_titlebar_height s
                 | L_STACKED \<Rightarrow> container_titlebar_height s * int (length (case siblings of Some l \<Rightarrow> l | None \<Rightarrow> []))
                 | _ \<Rightarrow> 0)
           else 0)"

definition under_title_bar :: "sway \<Rightarrow> nat \<Rightarrow> bool" where
  "under_title_bar s c =
     (\<not> container_is_floating s c \<and>
      ((case container_get_siblings s c of Some l \<Rightarrow> length l > 1 | None \<Rightarrow> False) \<or> \<not> cfg_hide_lone_tab (cfg s)) \<and>
      container_parent_layout s c \<in> {L_TABBED, L_STACKED})"

abbreviation b2r :: "bool \<Rightarrow> rat" where
  "b2r b \<equiv> (if b then 1 else 0)"

definition content_box :: "sway \<Rightarrow> sway_container_state \<Rightarrow> rat \<Rightarrow> rat \<times> rat \<times> rat \<times> rat" where
  "content_box s p y_offset =
     (let t = of_int (st_border_thickness p) in
      case st_border p of
        B_PIXEL \<Rightarrow>
          (st_x p + t * b2r (st_border_left p),
           st_y p + t * b2r (st_border_top p) + y_offset,
           st_width p - t * b2r (st_border_left p) - t * b2r (st_border_right p),
           st_height p - y_offset - t * b2r (st_border_top p) - t * b2r (st_border_bottom p))
      | B_NORMAL \<Rightarrow>
          (st_x p + t * b2r (st_border_left p),
           (if y_offset \<noteq> 0 then st_y p + y_offset else st_y p + of_int (container_titlebar_height s)),
           st_width p - t * b2r (st_border_left p) - t * b2r (st_border_right p),
           (if y_offset \<noteq> 0 then st_height p - y_offset - t * b2r (st_border_bottom p)
            else st_height p - of_int (container_titlebar_height s) - t * b2r (st_border_bottom p)))
      | _ \<Rightarrow> (st_x p, st_y p + y_offset, st_width p, st_height p - y_offset))"

definition set_content :: "nat \<Rightarrow> rat \<Rightarrow> rat \<Rightarrow> rat \<Rightarrow> rat \<Rightarrow> sway \<Rightarrow> sway" where
  "set_content c px py pw ph =
     upd_pending c (\<lambda>p. p\<lparr>st_content_x := px, st_content_y := py, st_content_width := pw, st_content_height := ph\<rparr>)"

definition autoconfigure_borders :: "sway \<Rightarrow> nat \<Rightarrow> sway_container_state" where
  "autoconfigure_borders s c =
     (let p0 = (pending s c)\<lparr>st_border_top := True, st_border_bottom := True,
                 st_border_left := True, st_border_right := True\<rparr>;
          p1 = (case workspace_of s c of
                  Some w \<Rightarrow> if container_is_floating_or_child s c then p0 else edge_borders s c w p0
                | None \<Rightarrow> p0)
      in if under_title_bar s c then p1\<lparr>st_border_top := False\<rparr> else p1)"

definition workspace_output_of :: "sway \<Rightarrow> nat \<Rightarrow> nat option" where
  "workspace_output_of s c = (case workspace_of s c of None \<Rightarrow> None | Some w \<Rightarrow> ws_output (wss s w))"

definition view_autoconfigure :: "nat \<Rightarrow> sway \<Rightarrow> sway" where
  "view_autoconfigure c s =
     (if container_is_scratchpad_hidden s c \<and> fullscreen_mode_of s c \<noteq> FULLSCREEN_GLOBAL then s
      else if workspace_output_of s c \<noteq> None \<and> fullscreen_mode_of s c = FULLSCREEN_WORKSPACE
      then let out = outs s (the (workspace_output_of s c)) in
           set_content c (of_int (out_lx out)) (of_int (out_ly out))
             (of_int (out_width out)) (of_int (out_height out)) s
      else if fullscreen_mode_of s c = FULLSCREEN_GLOBAL
      then set_content c (root_x s) (root_y s) (root_width s) (root_height s) s
      else
        let p = autoconfigure_borders s c in
        case content_box s p (of_int (title_offset s c)) of (bx, by', bw, bh) \<Rightarrow>
          set_content c bx by' (max bw 1) (max bh 1) (upd_pending c (\<lambda>_. p) s))"

section \<open>Floating containers\<close>

definition floating_calculate_constraints :: "sway \<Rightarrow> int \<times> int \<times> int \<times> int" where
  "floating_calculate_constraints s =
     (let lower = (\<lambda>v auto. if v = - 1 then 0 else if v = 0 then auto else v);
          upper = (\<lambda>v auto. if v = - 1 then INT_MAX else if v = 0 then auto else v);
          box = output_layout_box (env s) None
      in (lower (cfg_floating_minimum_width (cfg s)) 75,
          upper (cfg_floating_maximum_width (cfg s)) (box_width box),
          lower (cfg_floating_minimum_height (cfg s)) 50,
          upper (cfg_floating_maximum_height (cfg s)) (box_height box)))"

definition container_set_geometry_from_content :: "nat \<Rightarrow> sway \<Rightarrow> sway" where
  "container_set_geometry_from_content c s =
     (if con_view (cons s c) = None \<or> \<not> container_is_floating s c then s
      else
        let p = pending s c;
            (border_width, top) =
              (if st_border p \<noteq> B_CSD \<and> st_fullscreen_mode p = FULLSCREEN_NONE
               then let b = (if st_border p \<noteq> B_NONE then st_border_thickness p else 0) in
                    (b, if st_border p = B_NORMAL then container_titlebar_height s else b)
               else (0, 0))
        in node_set_dirty (N_CONTAINER c)
             (set_geometry c (st_content_x p - of_int border_width) (st_content_y p - of_int top)
               (st_content_width p + of_int border_width * 2)
               (of_int top + st_content_height p + of_int border_width) s))"

definition floating_natural_resize :: "nat \<Rightarrow> sway \<Rightarrow> sway" where
  "floating_natural_resize c s =
     (case floating_calculate_constraints s of (min_w, max_w, min_h, max_h) \<Rightarrow>
      case con_view (cons s c) of
        None \<Rightarrow> upd_pending c (\<lambda>p. p\<lparr>
            st_width := max (of_int min_w) (min (st_width p) (of_int max_w)),
            st_height := max (of_int min_h) (min (st_height p) (of_int max_h))\<rparr>) s
      | Some v \<Rightarrow> container_set_geometry_from_content c
          (upd_pending c (\<lambda>p. p\<lparr>
            st_content_width := of_int (max min_w (min (view_natural_width v) max_w)),
            st_content_height := of_int (max min_h (min (view_natural_height v) max_h))\<rparr>) s))"

definition get_maximized_box :: "sway \<Rightarrow> nat \<Rightarrow> wlr_box" where
  "get_maximized_box s w =
     (case ws_output (wss s w) of
        Some out \<Rightarrow> let ua = out_usable_area (outs s out) in
          \<lparr>box_x = out_lx (outs s out) + box_x ua, box_y = out_ly (outs s out) + box_y ua,
           box_width = box_width ua, box_height = box_height ua\<rparr>
      | None \<Rightarrow> workspace_get_box s w)"

definition container_reconcile_maximized :: "nat \<Rightarrow> sway \<Rightarrow> sway" where
  "container_reconcile_maximized c s =
     (case workspace_of s c of
        None \<Rightarrow> s
      | Some w \<Rightarrow>
          if \<not> container_is_maximized s c \<or> \<not> container_is_floating s c then s
          else let box = get_maximized_box s w in
            node_set_dirty (N_CONTAINER c)
              (set_geometry c (of_int (box_x box)) (of_int (box_y box))
                (of_int (box_width box)) (of_int (box_height box)) s))"

definition container_clear_maximized :: "nat \<Rightarrow> sway \<Rightarrow> sway" where
  "container_clear_maximized c s =
     (if \<not> container_is_maximized s c then s
      else upd_con c (con_maximized_update (mx_enabled_update (\<lambda>_. False))) s)"


section \<open>Arranging a subtree\<close>

text \<open>
  \<open>arrange_container\<close> and \<open>arrange_children\<close> call each other; \<open>n\<close> bounds the depth (at most
  \<open>next_id\<close>, the number of nodes ever created).
\<close>

primrec arrange_down :: "nat \<Rightarrow> nat \<Rightarrow> sway \<Rightarrow> sway" where
  "arrange_down 0 c s = s"
| "arrange_down (Suc n) c s =
     (if cfg_reloading (cfg s) then s
      else if con_view (cons s c) \<noteq> None
      then node_set_dirty (N_CONTAINER c) (view_autoconfigure c s)
      else node_set_dirty (N_CONTAINER c)
             (fold (arrange_down n) (kids s c)
               (apply_layout (st_layout (pending s c)) (kids s c) (container_get_box s c) s)))"

definition arrange_container :: "nat \<Rightarrow> sway \<Rightarrow> sway" where
  "arrange_container c s = arrange_down (Suc (next_id s)) c s"

definition arrange_children :: "nat list \<Rightarrow> sway_container_layout \<Rightarrow> wlr_box \<Rightarrow> sway \<Rightarrow> sway" where
  "arrange_children children layout parent s =
     fold arrange_container children (apply_layout layout children parent s)"

definition arrange_floating :: "nat list \<Rightarrow> sway \<Rightarrow> sway" where
  "arrange_floating floating s =
     fold (\<lambda>c s. arrange_container c (container_reconcile_maximized c s)) floating s"

section \<open>Moving floating containers\<close>

primrec translate :: "nat \<Rightarrow> nat \<Rightarrow> rat \<Rightarrow> rat \<Rightarrow> sway \<Rightarrow> sway" where
  "translate 0 c dx dy s = s"
| "translate (Suc n) c dx dy s =
     (let s1 = (if (dx \<noteq> 0 \<or> dy \<noteq> 0) \<and> container_is_maximized s c then container_clear_maximized c s else s);
          s2 = upd_pending c (\<lambda>p. p\<lparr>st_x := st_x p + dx, st_y := st_y p + dy,
                 st_content_x := st_content_x p + dx, st_content_y := st_content_y p + dy\<rparr>) s1;
          s3 = fold (\<lambda>x s. translate n x dx dy s) (kids s2 c) s2
      in node_set_dirty (N_CONTAINER c) s3)"

definition container_floating_translate :: "nat \<Rightarrow> rat \<Rightarrow> rat \<Rightarrow> sway \<Rightarrow> sway" where
  "container_floating_translate c dx dy s = translate (Suc (next_id s)) c dx dy s"

fun closest_output :: "sway \<Rightarrow> rat \<Rightarrow> rat \<Rightarrow> nat list \<Rightarrow> (nat \<times> rat) option \<Rightarrow> nat option" where
  "closest_output s cx cy [] best = map_option fst best"
| "closest_output s cx cy (out # rest) best =
     (case box_closest_point (env s) (output_get_box s out) cx cy of (px, py) \<Rightarrow>
        if cx = px \<and> cy = py then Some out
        else let d = (px - cx) * (px - cx) + (py - cy) * (py - cy) in
          closest_output s cx cy rest
            (case best of None \<Rightarrow> Some (out, d) | Some (b, bd) \<Rightarrow> if d < bd then Some (out, d) else best))"

definition container_floating_find_output :: "sway \<Rightarrow> nat \<Rightarrow> nat option" where
  "container_floating_find_output s c =
     (let p = pending s c in
      closest_output s (st_x p + st_width p / 2) (st_y p + st_height p / 2) (root_outputs s) None)"

definition container_floating_move_to_center :: "nat \<Rightarrow> sway \<Rightarrow> sway option" where
  "container_floating_move_to_center c s =
     (if \<not> container_is_floating s c then Some s
      else case workspace_of s c of
        None \<Rightarrow> None
      | Some w \<Rightarrow>
          let p = pending s c; v = wss s w;
              new_lx = ws_x v + (of_int (ws_width v) - st_width p) / 2;
              new_ly = ws_y v + (of_int (ws_height v) - st_height p) / 2
          in Some (container_floating_translate c (new_lx - st_x p) (new_ly - st_y p) s))"

definition floating_fix_coordinates :: "nat \<Rightarrow> wlr_box \<Rightarrow> wlr_box \<Rightarrow> sway \<Rightarrow> sway option" where
  "floating_fix_coordinates c old new s =
     (if box_width old = 0 \<or> box_height old = 0 then container_floating_move_to_center c s
      else
        let p = pending s c;
            rel_x = st_x p - of_int (box_x old) + st_width p / 2;
            rel_y = st_y p - of_int (box_y old) + st_height p / 2
        in Some (upd_pending c (\<lambda>q. q\<lparr>
             st_x := of_int (box_x new) + (rel_x * of_int (box_width new)) / of_int (box_width old) - st_width p / 2,
             st_y := of_int (box_y new) + (rel_y * of_int (box_height new)) / of_int (box_height old) - st_height p / 2\<rparr>) s))"

text \<open>Centre \<open>w\<close> by \<open>h\<close> on the workspace, or on its output when it does not fit.\<close>

definition centered :: "wlr_box \<Rightarrow> sway_workspace \<Rightarrow> rat \<Rightarrow> rat \<Rightarrow> rat \<times> rat" where
  "centered ob v w h =
     (if w > of_int (ws_width v) \<or> h > of_int (ws_height v)
      then (of_int (box_x ob) + (of_int (box_width ob) - w) / 2, of_int (box_y ob) + (of_int (box_height ob) - h) / 2)
      else (ws_x v + (of_int (ws_width v) - w) / 2, ws_y v + (of_int (ws_height v) - h) / 2))"

definition container_floating_resize_and_center :: "nat \<Rightarrow> sway \<Rightarrow> sway option" where
  "container_floating_resize_and_center c s =
     (if container_is_maximized s c then Some (arrange_container c (container_reconcile_maximized c s))
      else case workspace_of s c of
        None \<Rightarrow> Some (floating_natural_resize c s)
      | Some w \<Rightarrow> do {
          out \<leftarrow> ws_output (wss s w);
          let ob = output_layout_box (env s) (Some out);
          if box_is_empty (env s) ob then Some (set_geometry c 0 0 0 0 s)
          else
            let s1 = floating_natural_resize c s; p = pending s1 c in
            if con_view (cons s c) = None
            then (case centered ob (wss s1 w) (st_width p) (st_height p) of (px, py) \<Rightarrow>
                    Some (upd_pending c (\<lambda>q. q\<lparr>st_x := px, st_y := py\<rparr>) s1))
            else (case centered ob (wss s1 w) (st_content_width p) (st_content_height p) of (px, py) \<Rightarrow>
                    Some (container_set_geometry_from_content c
                      (upd_pending c (\<lambda>q. q\<lparr>st_content_x := px, st_content_y := py,
                         st_border_top := True, st_border_bottom := True,
                         st_border_left := True, st_border_right := True\<rparr>) s1))) })"

definition container_floating_set_default_size :: "nat \<Rightarrow> sway \<Rightarrow> sway" where
  "container_floating_set_default_size c s =
     (case workspace_of s c of
        None \<Rightarrow> s
      | Some w \<Rightarrow>
          (case floating_calculate_constraints s of (min_w, max_w, min_h, max_h) \<Rightarrow>
            let box = workspace_get_box s w;
                width = max (of_int min_w) (min (of_int (box_width box) * (1 / 2)) (of_int max_w));
                height = max (of_int min_h) (min (of_int (box_height box) * (3 / 4)) (of_int max_h))
            in if con_view (cons s c) = None
               then upd_pending c (\<lambda>p. p\<lparr>st_width := width, st_height := height\<rparr>) s
               else container_set_geometry_from_content c
                      (upd_pending c (\<lambda>p. p\<lparr>st_content_width := width, st_content_height := height\<rparr>) s)))"


section \<open>Gaps and scrolling\<close>

text \<open>One pair of opposite gaps, shrunk when they leave less than the sane size.\<close>

definition clamp_gaps :: "int \<Rightarrow> int \<Rightarrow> int \<Rightarrow> int \<Rightarrow> int \<times> int" where
  "clamp_gaps space min_sane a b =
     (if space - a - b < min_sane \<and> a + b > 0
      then let total_gap = max 0 (space - min_sane);
               frac = (of_int a :: rat) / (of_int a + of_int b);
               a' = c_trunc (frac * of_int total_gap)
           in (a', total_gap - a')
      else (a, b))"

definition no_gaps :: side_gaps where
  "no_gaps = \<lparr>gap_top = 0, gap_right = 0, gap_bottom = 0, gap_left = 0\<rparr>"

definition workspace_add_gaps :: "nat \<Rightarrow> sway \<Rightarrow> sway" where
  "workspace_add_gaps w s =
     (if cfg_smart_gaps (cfg s) = SMART_GAPS_ON \<and> workspace_has_single_visible_container s w
      then upd_ws w (ws_current_gaps_update (\<lambda>_. no_gaps)) s
      else
        let v = wss s w;
            base = (if cfg_smart_gaps (cfg s) = SMART_GAPS_INVERSE_OUTER \<and>
                       \<not> workspace_has_single_visible_container s w
                    then no_gaps else ws_gaps_outer v);
            inner = ws_gaps_inner v;
            (left, right) = clamp_gaps (ws_width v) MIN_SANE_W
               (max 0 (gap_left base + inner)) (max 0 (gap_right base + inner));
            (top, bottom) = clamp_gaps (ws_height v) MIN_SANE_H
               (max 0 (gap_top base + inner)) (max 0 (gap_bottom base + inner))
        in upd_ws w (\<lambda>v. v\<lparr>
             ws_current_gaps := \<lparr>gap_top = top, gap_right = right, gap_bottom = bottom, gap_left = left\<rparr>,
             ws_x := ws_x v + of_int left, ws_y := ws_y v + of_int top,
             ws_width := ws_width v - (left + right), ws_height := ws_height v - (top + bottom)\<rparr>) s)"

text \<open>\<open>content_width += child->pending.width\<close> truncates the sum to an \<open>int\<close> each time.\<close>

fun scroll_content_width :: "sway \<Rightarrow> int \<Rightarrow> nat list \<Rightarrow> int \<Rightarrow> int" where
  "scroll_content_width s gap [] acc = acc"
| "scroll_content_width s gap (c # cs) acc =
     scroll_content_width s gap cs
       (c_trunc (of_int acc + st_width (pending s c)) + (if cs = [] then 0 else gap))"

definition workspace_scroll_content_width :: "sway \<Rightarrow> nat \<Rightarrow> int" where
  "workspace_scroll_content_width s w =
     scroll_content_width s (ws_gaps_inner (wss s w)) (ws_tiling (wss s w)) 0"

definition workspace_scroll_clamp_width :: "sway \<Rightarrow> nat \<Rightarrow> int \<Rightarrow> int \<Rightarrow> int" where
  "workspace_scroll_clamp_width s w width offset =
     (let max_offset = max 0 (workspace_scroll_content_width s w - width) in
      if offset < 0 then 0 else if offset > max_offset then max_offset else offset)"

definition workspace_scroll_max_offset :: "sway \<Rightarrow> nat \<Rightarrow> int" where
  "workspace_scroll_max_offset s w =
     workspace_scroll_clamp_width s w (box_width (workspace_get_box s w)) INT_MAX"

definition workspace_scroll_clamp :: "sway \<Rightarrow> nat \<Rightarrow> int \<Rightarrow> int" where
  "workspace_scroll_clamp s w offset =
     workspace_scroll_clamp_width s w (box_width (workspace_get_box s w)) offset"

text \<open>The \<open>x\<close> of the focused column: the widths and gaps of the columns before it.\<close>

fun scroll_focused_x :: "sway \<Rightarrow> int \<Rightarrow> nat \<Rightarrow> nat list \<Rightarrow> int \<Rightarrow> int" where
  "scroll_focused_x s gap focused [] acc = acc"
| "scroll_focused_x s gap focused (c # cs) acc =
     (if c = focused then acc
      else scroll_focused_x s gap focused cs (c_trunc (of_int acc + (st_width (pending s c) + of_int gap))))"

definition workspace_scroll_center_offset :: "sway \<Rightarrow> nat \<Rightarrow> nat \<Rightarrow> int" where
  "workspace_scroll_center_offset s w i =
     (case workspace_get_focus_tiling_child s w i of
        None \<Rightarrow> 0
      | Some f \<Rightarrow>
          let focused = container_toplevel_ancestor s f;
              box = workspace_get_box s w;
              focused_x = scroll_focused_x s (ws_gaps_inner (wss s w)) focused (ws_tiling (wss s w)) 0;
              offset = c_trunc (of_int focused_x + st_width (pending s focused) / 2
                         - of_int (box_width box sdiv 2))
          in workspace_scroll_clamp_width s w (box_width box) offset)"

definition get_pending_scroll_layout_target :: "sway \<Rightarrow> nat \<Rightarrow> int \<Rightarrow> int" where
  "get_pending_scroll_layout_target s w width =
     (if ws_layout (wss s w) \<noteq> L_SCROLL_H \<or> ws_tiling (wss s w) = [] \<or> width \<le> 0 then 0
      else case workspace_get_focus_tiling_child s w (current_seat s) of
        None \<Rightarrow> 0
      | Some focused \<Rightarrow>
          let left = scroll_focused_x s (ws_gaps_inner (wss s w)) focused (ws_tiling (wss s w)) 0;
              offset = workspace_scroll_clamp_width s w width (ws_target_scroll_x (wss s w));
              right = c_trunc (of_int left + st_width (pending s focused));
              offset' = (if left < offset then left
                         else if right > offset + width then right - width else offset)
          in workspace_scroll_clamp_width s w width offset')"

section \<open>Workspaces, outputs, the root\<close>

definition arrange_scroll :: "nat \<Rightarrow> wlr_box \<Rightarrow> sway \<Rightarrow> sway" where
  "arrange_scroll w box s =
     (let v = wss s w in
      if ws_layout v = L_SCROLL_H
      then
        let visual = max 0 (box_x box - tiling_layer_x (env s) w);
            s1 = upd_ws w (ws_scroll_x_update (\<lambda>_. visual)) s
        in if ws_interactive_resize v then upd_ws w (ws_target_scroll_x_update (\<lambda>_. visual)) s1
           else if workspace_get_focus_tiling_child s1 w (current_seat s1) \<noteq> ws_current_focused_inactive_child v
           then let s2 = upd_ws w (ws_scroll_follow_focus_update (\<lambda>_. True)) s1 in
                upd_ws w (ws_target_scroll_x_update
                  (\<lambda>_. get_pending_scroll_layout_target s2 w (box_width box))) s2
           else if ws_scroll_follow_focus v
           then upd_ws w (ws_target_scroll_x_update
                  (\<lambda>_. get_pending_scroll_layout_target s1 w (box_width box))) s1
           else upd_ws w (ws_target_scroll_x_update
                  (\<lambda>_. workspace_scroll_clamp_width s1 w (box_width box) (ws_target_scroll_x v))) s1
      else upd_ws w (\<lambda>v. v\<lparr>ws_scroll_x := 0, ws_target_scroll_x := 0, ws_scroll_follow_focus := True\<rparr>) s)"

fun fix_floaters :: "nat \<Rightarrow> nat \<Rightarrow> wlr_box \<Rightarrow> nat list \<Rightarrow> sway \<Rightarrow> sway option" where
  "fix_floaters w out prev_box [] s = Some s"
| "fix_floaters w out prev_box (c # cs) s =
     (case floating_fix_coordinates c prev_box (workspace_get_box s w) s of
        None \<Rightarrow> None
      | Some s1 \<Rightarrow>
          fix_floaters w out prev_box cs
            (if con_scratchpad (cons s1 c)
             then upd_con c (con_transform_update (\<lambda>_. output_get_box s1 out)) s1 else s1))"

definition arrange_workspace :: "nat \<Rightarrow> sway \<Rightarrow> sway option" where
  "arrange_workspace w s =
     (if cfg_reloading (cfg s) then Some s
      else case ws_output (wss s w) of
        None \<Rightarrow> Some s
      | Some out \<Rightarrow> do {
          let v = wss s w;
          let o' = outs s out;
          let area = out_usable_area o';
          let first_arrange = (ws_width v = 0 \<and> ws_height v = 0);
          let prev_box = workspace_get_box s w;
          let prev_x = ws_x v - of_int (gap_left (ws_current_gaps v));
          let prev_y = ws_y v - of_int (gap_top (ws_current_gaps v));
          let s1 = upd_ws w (\<lambda>v. v\<lparr>ws_width := box_width area, ws_height := box_height area,
                     ws_x := of_int (out_lx o' + box_x area), ws_y := of_int (out_ly o' + box_y area)\<rparr>) s;
          let moved = (ws_x (wss s1 w) - prev_x \<noteq> 0 \<or> ws_y (wss s1 w) - prev_y \<noteq> 0);
          s2 \<leftarrow> (if \<not> first_arrange \<and> moved then fix_floaters w out prev_box (ws_floating v) s1 else Some s1);
          let s3 = node_set_dirty (N_WORKSPACE w) (workspace_add_gaps w s2);
          Some (case ws_fullscreen (wss s3 w) of
              Some fs \<Rightarrow>
                arrange_container fs (set_geometry fs (of_int (out_lx o')) (of_int (out_ly o'))
                  (of_int (out_width o')) (of_int (out_height o')) s3)
            | None \<Rightarrow>
                let box = workspace_get_box s3 w;
                    s4 = arrange_children (ws_tiling (wss s3 w)) (ws_layout (wss s3 w)) box s3;
                    s5 = arrange_floating (ws_floating (wss s4 w)) s4
                in arrange_scroll w box s5) })"

fun arrange_workspaces :: "nat list \<Rightarrow> sway \<Rightarrow> sway option" where
  "arrange_workspaces [] s = Some s"
| "arrange_workspaces (w # ws) s = arrange_workspace w s \<bind> arrange_workspaces ws"

definition arrange_output :: "nat \<Rightarrow> sway \<Rightarrow> sway option" where
  "arrange_output out s =
     (if cfg_reloading (cfg s) then Some s
      else if \<not> wlr_output_enabled (env s) out then Some s
      else arrange_workspaces (out_workspaces (outs s out)) s)"

fun arrange_outputs :: "nat list \<Rightarrow> sway \<Rightarrow> sway option" where
  "arrange_outputs [] s = Some s"
| "arrange_outputs (out # os) s = arrange_output out s \<bind> arrange_outputs os"

definition arrange_root :: "sway \<Rightarrow> sway option" where
  "arrange_root s =
     (if cfg_reloading (cfg s) then Some s
      else
        let box = output_layout_box (env s) None;
            s1 = s\<lparr>root_x := of_int (box_x box), root_y := of_int (box_y box),
                   root_width := of_int (box_width box), root_height := of_int (box_height box)\<rparr>
        in case fullscreen_global s1 of
             Some fs \<Rightarrow> Some (arrange_container fs
               (set_geometry fs (root_x s1) (root_y s1) (root_width s1) (root_height s1) s1))
           | None \<Rightarrow> arrange_outputs (root_outputs s1) s1)"

fun arrange_node :: "sway_node \<Rightarrow> sway \<Rightarrow> sway option" where
  "arrange_node N_ROOT s = arrange_root s"
| "arrange_node (N_OUTPUT out) s = arrange_output out s"
| "arrange_node (N_WORKSPACE w) s = arrange_workspace w s"
| "arrange_node (N_CONTAINER c) s = Some (arrange_container c s)"


section \<open>Geometry does not touch the tree\<close>

lemma tree_of_set_geometry [simp, tree_frame]: "tree_of (set_geometry c px py pw ph s) = tree_of s"
  by (simp add: set_geometry_def tree_of_upd_pending)

lemma tree_of_set_content [simp, tree_frame]: "tree_of (set_content c px py pw ph s) = tree_of s"
  by (simp add: set_content_def tree_of_upd_pending)

lemma tree_of_fold:
  assumes "\<And>x s. tree_of (f x s) = tree_of s"
  shows "tree_of (fold f xs s) = tree_of s"
  by (induction xs arbitrary: s) (simp_all add: assms)

lemma tree_of_set_fractions [simp, tree_frame]:
  "tree_of (set_width_fractions cs fs s) = tree_of s" "tree_of (set_height_fractions cs fs s) = tree_of s"
  by (induction cs fs s rule: set_width_fractions.induct; simp add: tree_of_upd_con)
    (induction cs fs s rule: set_height_fractions.induct; simp add: tree_of_upd_con)

lemma tree_of_place [simp, tree_frame]:
  "tree_of (horiz_place b t g cs p s) = tree_of s" "tree_of (vert_place b t g cs p s) = tree_of s"
  "tree_of (scroll_place b g cs p s) = tree_of s"
  by (induction cs arbitrary: p s; simp add: tree_of_upd_con scroll_child_def Let_def split: prod.split)+

lemma tree_of_apply_layout [simp, tree_frame]: "tree_of (apply_layout l cs b s) = tree_of s"
  by (cases l; cases cs) (simp_all add: apply_horiz_layout_def apply_vert_layout_def apply_scroll_layout_def
      apply_tabbed_layout_def apply_stacked_layout_def Let_def tree_of_fold
      del: horiz_place.simps vert_place.simps scroll_place.simps set_width_fractions.simps
        set_height_fractions.simps fold_simps)

lemma autoconfigure_borders_links:
  "st_parent (autoconfigure_borders s c) = parent_of s c"
  "st_workspace (autoconfigure_borders s c) = workspace_of s c"
  "st_children (autoconfigure_borders s c) = children_of s c"
  by (simp_all add: autoconfigure_borders_def edge_borders_def Let_def split: option.split)

lemma tree_of_view_autoconfigure [simp, tree_frame]: "tree_of (view_autoconfigure c s) = tree_of s"
proof -
  have "tree_of (upd_pending c (\<lambda>_. autoconfigure_borders s c) s) = tree_of s"
    by (rule tree_of_eqI) (simp_all add: upd_defs autoconfigure_borders_links)
  then show ?thesis by (simp add: view_autoconfigure_def Let_def split: prod.split)
qed

lemma tree_of_arrange_down: "tree_of (arrange_down n c s) = tree_of s"
proof (induction n arbitrary: c s)
  case (Suc n)
  then show ?case by (simp add: tree_of_fold)
qed simp

lemma tree_of_arrange_container [simp, tree_frame]: "tree_of (arrange_container c s) = tree_of s"
  by (simp add: arrange_container_def tree_of_arrange_down del: arrange_down.simps)

lemma tree_of_arrange_children [simp, tree_frame]: "tree_of (arrange_children cs l b s) = tree_of s"
  by (simp add: arrange_children_def tree_of_fold)

lemma tree_of_set_geometry_from_content [simp, tree_frame]:
  "tree_of (container_set_geometry_from_content c s) = tree_of s"
  by (simp add: container_set_geometry_from_content_def Let_def split: prod.split)

lemma tree_of_floating_natural_resize [simp, tree_frame]: "tree_of (floating_natural_resize c s) = tree_of s"
  by (simp add: floating_natural_resize_def tree_of_upd_pending split: prod.split option.split)

lemma tree_of_reconcile_maximized [simp, tree_frame]: "tree_of (container_reconcile_maximized c s) = tree_of s"
  by (simp add: container_reconcile_maximized_def Let_def split: option.split)

lemma tree_of_clear_maximized [simp, tree_frame]: "tree_of (container_clear_maximized c s) = tree_of s"
  by (simp add: container_clear_maximized_def tree_of_upd_con)

lemma tree_of_arrange_floating [simp, tree_frame]: "tree_of (arrange_floating cs s) = tree_of s"
  by (simp add: arrange_floating_def tree_of_fold)

lemma tree_of_translate: "tree_of (translate n c dx dy s) = tree_of s"
proof (induction n arbitrary: c s)
  case (Suc n)
  then show ?case by (simp add: Let_def tree_of_fold tree_of_upd_pending)
qed simp

lemma tree_of_floating_translate [simp, tree_frame]: "tree_of (container_floating_translate c dx dy s) = tree_of s"
  by (simp add: container_floating_translate_def tree_of_translate del: translate.simps)

lemma tree_of_move_to_center [tree_frame]: "container_floating_move_to_center c s = Some s' \<Longrightarrow> tree_of s' = tree_of s"
  by (auto simp: container_floating_move_to_center_def Let_def split: if_splits option.splits)

lemma tree_of_fix_coordinates [tree_frame]: "floating_fix_coordinates c old new s = Some s' \<Longrightarrow> tree_of s' = tree_of s"
  by (auto simp: floating_fix_coordinates_def Let_def tree_of_upd_pending tree_of_move_to_center split: if_splits)

lemma tree_of_resize_and_center [tree_frame]:
  "container_floating_resize_and_center c s = Some s' \<Longrightarrow> tree_of s' = tree_of s"
  by (auto simp: container_floating_resize_and_center_def Let_def tree_of_upd_pending
      split: if_splits option.splits bind_splits prod.splits)

lemma tree_of_set_default_size [simp, tree_frame]: "tree_of (container_floating_set_default_size c s) = tree_of s"
  by (simp add: container_floating_set_default_size_def Let_def tree_of_upd_pending split: option.split prod.split)

lemma tree_of_add_gaps [simp, tree_frame]: "tree_of (workspace_add_gaps w s) = tree_of s"
  by (simp add: workspace_add_gaps_def Let_def tree_of_upd_ws split: prod.split)

lemma tree_of_arrange_scroll [simp, tree_frame]: "tree_of (arrange_scroll w b s) = tree_of s"
  by (simp add: arrange_scroll_def Let_def tree_of_upd_ws)

lemma tree_of_fix_floaters: "fix_floaters w out b cs s = Some s' \<Longrightarrow> tree_of s' = tree_of s"
proof (induction cs arbitrary: s)
  case (Cons c cs)
  then show ?case by (auto simp: tree_of_upd_con dest: tree_of_fix_coordinates split: option.splits if_splits)
qed simp

lemma tree_of_arrange_workspace [tree_frame]: "arrange_workspace w s = Some s' \<Longrightarrow> tree_of s' = tree_of s"
  by (auto simp: arrange_workspace_def Let_def tree_of_upd_ws dest!: tree_of_fix_floaters
      split: if_splits option.splits bind_splits)

end
