(* ===== verification/Container_Ops.thy ===== *)
theory Container_Ops
  imports Arrange
begin

text \<open>
  Attaching containers (\<open>container_insert_child\<close>, \<open>container_add_sibling\<close>,
  \<open>container_add_child\<close>, \<open>workspace_add_floating\<close>, ...) and what it brings with it: leaving
  fullscreen and taking over the fullscreen slot of the new workspace.

  These operations and \<open>seat_set_focus\<close> call each other: leaving fullscreen may change the
  focus, and changing the focus may move sticky containers to another workspace. The cycle is
  cut at \<open>seat_set_focus\<close>: every operation here takes the focus operation as its first
  argument \<open>sf\<close> (seat, node), and \<open>Seat_Focus\<close> closes the loop. The contract of \<open>sf\<close> is the
  locale \<open>refocus\<close>: it keeps the tree well-formed and moves nothing but floating
  containers.
\<close>

type_synonym refocus_op = "nat \<Rightarrow> sway_node option \<Rightarrow> sway \<Rightarrow> sway option"

primrec for_seats :: "(nat \<Rightarrow> sway \<Rightarrow> sway option) \<Rightarrow> nat list \<Rightarrow> sway \<Rightarrow> sway option" where
  "for_seats f [] s = Some s"
| "for_seats f (i # is) s = f i s \<bind> for_seats f is"

section \<open>Fullscreen\<close>

text \<open>
  \<open>container_end_mouse_operation\<close> (the seat operations) and the client's own fullscreen state
  (\<open>view->impl->set_fullscreen\<close>) are outside the model.
\<close>

definition restore_saved_geometry :: "nat \<Rightarrow> sway \<Rightarrow> sway" where
  "restore_saved_geometry c s =
     (if container_is_floating s c
      then set_geometry c (con_saved_x (cons s c)) (con_saved_y (cons s c))
             (con_saved_width (cons s c)) (con_saved_height (cons s c)) s
      else s)"

definition clear_fullscreen_pointer :: "nat \<Rightarrow> sway \<Rightarrow> sway option" where
  "clear_fullscreen_pointer c s =
     (if fullscreen_mode_of s c = FULLSCREEN_WORKSPACE
      then (case workspace_of s c of
              None \<Rightarrow> Some s
            | Some w \<Rightarrow>
                let s1 = upd_ws w (ws_fullscreen_update (\<lambda>_. None)) s in
                if container_is_floating s1 c \<and> ws_output (wss s1 w) \<noteq> container_floating_find_output s1 c
                then container_floating_move_to_center c s1
                else Some s1)
      else Some (s\<lparr>fullscreen_global := None\<rparr>))"

definition set_fullscreen_mode :: "nat \<Rightarrow> sway_fullscreen_mode \<Rightarrow> sway \<Rightarrow> sway" where
  "set_fullscreen_mode c m = upd_pending c (st_fullscreen_mode_update (\<lambda>_. m))"

text \<open>A seat whose focus is in a scratchpad container that leaves fullscreen is refocused.\<close>

definition refocus_inside :: "refocus_op \<Rightarrow> nat \<Rightarrow> nat \<Rightarrow> sway \<Rightarrow> sway option" where
  "refocus_inside sf c i s =
     (let focus = seat_get_focused_container s i in
      if focus = Some c \<or> container_has_ancestor s focus c
      then sf i (seat_get_focus_inactive s i N_ROOT) s
      else Some s)"

definition container_fullscreen_disable :: "refocus_op \<Rightarrow> nat \<Rightarrow> sway \<Rightarrow> sway option" where
  "container_fullscreen_disable sf c s =
     (if fullscreen_mode_of s c = FULLSCREEN_NONE then Some s
      else do {
        let s1 = restore_saved_geometry c s;
        s2 \<leftarrow> clear_fullscreen_pointer c s1;
        s3 \<leftarrow> (if container_is_floating s2 c \<and> (st_width (pending s2 c) = 0 \<or> st_height (pending s2 c) = 0)
               then container_floating_resize_and_center c s2 else Some s2);
        let s4 = set_fullscreen_mode c FULLSCREEN_NONE s3;
        if con_scratchpad (cons s4 c)
        then for_seats (refocus_inside sf c) (seat_ids s4) s4
        else Some s4 })"

definition container_handle_fullscreen_reparent :: "refocus_op \<Rightarrow> nat \<Rightarrow> sway \<Rightarrow> sway option" where
  "container_handle_fullscreen_reparent sf c s =
     (case workspace_of s c of
        None \<Rightarrow> Some s
      | Some w \<Rightarrow>
          if fullscreen_mode_of s c \<noteq> FULLSCREEN_WORKSPACE \<or> ws_fullscreen (wss s w) = Some c then Some s
          else do {
            s1 \<leftarrow> (case ws_fullscreen (wss s w) of
                     Some f \<Rightarrow> container_fullscreen_disable sf f s
                   | None \<Rightarrow> Some s);
            w1 \<leftarrow> workspace_of s1 c;
            arrange_workspace w1 (upd_ws w1 (ws_fullscreen_update (\<lambda>_. Some c)) s1) })"

section \<open>Attaching\<close>

text \<open>
  Linking \<open>c\<close> into a list: insertion at \<open>i\<close> (\<open>None\<close> when the index is outside the list, or the
  list is \<open>NULL\<close>), then parent and workspace of \<open>c\<close>, then the workspace of its descendants.
\<close>

definition list_exists :: "sway \<Rightarrow> list_ref \<Rightarrow> bool" where
  "list_exists s l = (case l of Children p \<Rightarrow> children_of s p \<noteq> None | _ \<Rightarrow> True)"

definition insert_into :: "list_ref \<Rightarrow> int \<Rightarrow> nat \<Rightarrow> sway \<Rightarrow> sway option" where
  "insert_into l i c s =
     (if list_exists s l \<and> 0 \<le> i \<and> i \<le> int (length (list_at s l))
      then Some (upd_list l (insert_at (nat i) c) s) else None)"

definition link :: "nat \<Rightarrow> nat option \<Rightarrow> nat option \<Rightarrow> sway \<Rightarrow> sway" where
  "link c p w s =
     container_for_each_child c set_workspace
       (upd_pending c (st_workspace_update (\<lambda>_. w)) (upd_pending c (st_parent_update (\<lambda>_. p)) s))"

definition detach_if_placed :: "nat \<Rightarrow> sway \<Rightarrow> sway option" where
  "detach_if_placed c s = (if workspace_of s c \<noteq> None then container_detach c s else Some s)"

definition container_insert_child :: "refocus_op \<Rightarrow> nat \<Rightarrow> nat \<Rightarrow> int \<Rightarrow> sway \<Rightarrow> sway option" where
  "container_insert_child sf parent child i s = do {
     s1 \<leftarrow> detach_if_placed child s;
     s2 \<leftarrow> insert_into (Children parent) i child s1;
     let s3 = link child (Some parent) (workspace_of s2 parent) s2;
     s4 \<leftarrow> container_handle_fullscreen_reparent sf child s3;
     Some (container_update_representation parent s4) }"

definition container_add_sibling :: "refocus_op \<Rightarrow> nat \<Rightarrow> nat \<Rightarrow> bool \<Rightarrow> sway \<Rightarrow> sway option" where
  "container_add_sibling sf fixed active after s = do {
     s1 \<leftarrow> detach_if_placed active s;
     siblings \<leftarrow> siblings_ref s1 fixed;
     let index = seq_find (\<lambda>x. x = fixed) (list_at s1 siblings) 0;
     s2 \<leftarrow> insert_into siblings (index + (if after then 1 else 0)) active s1;
     let s3 = link active (parent_of s2 fixed) (workspace_of s2 fixed) s2;
     s4 \<leftarrow> container_handle_fullscreen_reparent sf active s3;
     Some (container_update_representation active s4) }"

definition container_add_child :: "refocus_op \<Rightarrow> nat \<Rightarrow> nat \<Rightarrow> sway \<Rightarrow> sway option" where
  "container_add_child sf parent child s = do {
     s1 \<leftarrow> detach_if_placed child s;
     s2 \<leftarrow> insert_into (Children parent) (int (length (kids s1 parent))) child s1;
     let s3 = link child (Some parent) (workspace_of s2 parent) s2;
     s4 \<leftarrow> container_handle_fullscreen_reparent sf child s3;
     Some (node_set_dirty (N_CONTAINER parent) (node_set_dirty (N_CONTAINER child)
             (container_update_representation parent s4))) }"

text \<open>
  The \<open>workspace_*\<close> operations set the workspace of the container but leave its parent
  pointer as it is: it is \<open>NULL\<close> after a detach.
\<close>

definition link_ws :: "nat \<Rightarrow> nat \<Rightarrow> sway \<Rightarrow> sway" where
  "link_ws c w s =
     container_for_each_child c set_workspace (upd_pending c (st_workspace_update (\<lambda>_. Some w)) s)"

definition workspace_insert_tiling_direct :: "refocus_op \<Rightarrow> nat \<Rightarrow> nat \<Rightarrow> int \<Rightarrow> sway \<Rightarrow> sway option" where
  "workspace_insert_tiling_direct sf w c index s = do {
     s1 \<leftarrow> insert_into (Tiling_List w) index c s;
     s2 \<leftarrow> container_handle_fullscreen_reparent sf c (link_ws c w s1);
     Some (node_set_dirty (N_CONTAINER c) (node_set_dirty (N_WORKSPACE w) (workspace_update_representation w s2))) }"

definition workspace_attach_tiling :: "refocus_op \<Rightarrow> nat \<Rightarrow> nat \<Rightarrow> sway \<Rightarrow> sway option" where
  "workspace_attach_tiling sf w c s =
     workspace_insert_tiling_direct sf w c (int (length (ws_tiling (wss s w)))) s"

definition workspace_add_floating :: "refocus_op \<Rightarrow> nat \<Rightarrow> nat \<Rightarrow> sway \<Rightarrow> sway option" where
  "workspace_add_floating sf w c s = do {
     s1 \<leftarrow> detach_if_placed c s;
     s2 \<leftarrow> insert_into (Floating_List w) (int (length (ws_floating (wss s1 w)))) c s1;
     s3 \<leftarrow> container_handle_fullscreen_reparent sf c (link_ws c w s2);
     Some (node_set_dirty (N_CONTAINER c) (node_set_dirty (N_WORKSPACE w) s3)) }"

section \<open>New containers\<close>

text \<open>\<open>handle_new_node\<close> of every seat puts the node at the bottom of its focus stack.\<close>

definition seat_node_from_node :: "nat \<Rightarrow> sway_node \<Rightarrow> sway \<Rightarrow> sway" where
  "seat_node_from_node i n s =
     (case n of
        N_ROOT \<Rightarrow> s
      | N_OUTPUT out \<Rightarrow> s
      | _ \<Rightarrow> if n \<in> set (focus_stack (seats s i)) then s
            else upd_seat i (focus_stack_update (\<lambda>st. st @ [n])) s)"

definition new_node :: "sway_node \<Rightarrow> sway \<Rightarrow> sway" where
  "new_node n s = fold (\<lambda>i. seat_node_from_node i n) (seat_ids s) s"

definition container_create :: "sway_view option \<Rightarrow> sway \<Rightarrow> nat \<times> sway" where
  "container_create view s =
     (let (c, s1) = node_init s;
          p = zero_container_state\<lparr>st_children := (if view = None then Some [] else None)\<rparr>;
          fx = cfg_effects (cfg s);
          s2 = s1\<lparr>cons := (cons s1)(c := zero_container\<lparr>con_view := view, con_pending := p, con_current := p,
                 con_alpha := 1, con_corner_radius := fx_corner_radius fx, con_blur_enabled := fx_blur_enabled fx,
                 con_liquid_glass_enabled := fx_liquid_glass_enabled fx,
                 con_shadow_enabled := fx_shadow_enabled fx, con_dim := fx_default_dim_inactive fx\<rparr>)\<rparr>
      in (c, new_node (N_CONTAINER c) s2))"

end
