(* ===== verification/Attach_Laws.thy ===== *)
theory Attach_Laws
  imports Container_Ops
begin

text \<open>
  The operations of \<open>Container_Ops\<close> implement \<open>t_insert\<close> after \<open>t_detach\<close>, up to what the
  focus operation does to floating containers, and keep the window tree well-formed. The
  lemmas are proved inside the locale \<open>refocus\<close>, for every focus operation that satisfies its
  contract.
\<close>

section \<open>Inserting on the abstract tree\<close>

lemma below_insert:
  assumes det: "t_parent t c = None" and ok: "place_ok t c pl"
  shows "below (t_insert pl c t) c = below t c"
proof
  have par: "t_parent (t_insert pl c t) z = (if z = c then place_parent pl else t_parent t z)" for z by simp
  have pl: "place_parent pl = Some p \<Longrightarrow> p \<noteq> c \<and> p \<notin> below t c" for p using ok by (cases pl) auto
  show "below (t_insert pl c t) c \<subseteq> below t c"
  proof
    fix x assume "x \<in> below (t_insert pl c t) c"
    then have "(c, x) \<in> (edges (t_insert pl c t))\<^sup>+" by (simp add: below_def)
    then show "x \<in> below t c"
    proof induction
      case (base y)
      then show ?case using pl par by (cases "y = c") (auto intro: below_child)
    next
      case (step y z)
      then show ?case using pl par by (cases "z = c") (auto intro: below_step)
    qed
  qed
  have "edges t \<subseteq> edges (t_insert pl c t)" using det by (auto simp: edges_def)
  then show "below t c \<subseteq> below (t_insert pl c t) c"
    unfolding below_def using trancl_mono [of _ "edges t"] by blast
qed

lemma t_detach_id:
  assumes wf: "wf_tree t" and "t_parent t c = None" "t_ws t c = None"
  shows "t_detach c t = t"
  using assms(2,3) below_ws [OF wf, of _ c] by (auto simp: t_detach_def intro!: tree.equality)

text \<open>What a focus operation may do to the tree: move floating containers between workspaces.\<close>

definition floaters_move :: "tree \<Rightarrow> tree \<Rightarrow> bool" where
  "floaters_move t t' \<longleftrightarrow> wf_tree t' \<and> t_parent t' = t_parent t \<and> t_kids t' = t_kids t \<and>
     t_view t' = t_view t \<and> t_next t' = t_next t \<and> t_tiling t' = t_tiling t \<and>
     (\<forall>c. t_ws t' c = None \<longleftrightarrow> t_ws t c = None)"

lemma floaters_move_refl: "wf_tree t \<Longrightarrow> floaters_move t t"
  by (simp add: floaters_move_def)

lemma floaters_move_trans: "floaters_move t u \<Longrightarrow> floaters_move u v \<Longrightarrow> floaters_move t v"
  by (simp add: floaters_move_def)

lemma floaters_move_wf: "floaters_move t u \<Longrightarrow> wf_tree u"
  by (simp add: floaters_move_def)

lemma floaters_move_below: "floaters_move t u \<Longrightarrow> below u c = below t c"
  by (simp add: floaters_move_def below_def edges_def)

section \<open>Linking implements insertion\<close>

lemma tree_of_propagate:
  assumes wf: "wf_tree t'" and u: "tree_of u = t'\<lparr>t_ws := g\<rparr>"
    and g: "t_ws t' = (\<lambda>x. if x = c \<or> x \<in> below t' c then g c else g x)"
  shows "tree_of (container_for_each_child c set_workspace u) = t'"
proof -
  have kids: "kids u = kidl t'" using u kidl_tree_of [of u] by (simp add: kidl_def fun_eq_iff)
  have par: "parent_of u = t_parent t'" "next_id u = t_next t'" "workspace_of u = g"
    using u tree_of_sel(1,2,7) [of u] by simp_all
  have d: "set (descendants u c) = below t' c"
    using set_desc [OF wf, of c] kids par(2) by (simp add: descendants_def)
  have pk: "\<And>p x. x \<in> set (kids u p) \<Longrightarrow> parent_of u x = Some p"
    using wf_treeD(2) [OF wf] kids par(1) by (metis (no_types))
  have "workspace_of u c = g c" using par(3) by metis
  then have "container_for_each_child c set_workspace u = set_workspaces (below t' c) (g c) u"
    by (simp add: container_set_workspaces [OF pk] d)
  then have "tree_of (container_for_each_child c set_workspace u)
      = t'\<lparr>t_ws := (\<lambda>x. if x \<in> below t' c then g c else g x)\<rparr>"
    unfolding par(3) [symmetric] by (simp add: tree_of_set_workspaces u)
  also have "\<dots> = t'" using g by (intro tree.equality) (auto simp: fun_eq_iff)
  finally show ?thesis .
qed

fun place_of :: "list_ref \<Rightarrow> nat \<Rightarrow> place" where
  "place_of (Children p) i = Under p i"
| "place_of (Tiling_List w) i = Tiling w i"
| "place_of (Floating_List w) i = Floating w i"

fun parent_in :: "list_ref \<Rightarrow> nat option" where
  "parent_in (Children p) = Some p"
| "parent_in _ = None"

fun ws_in :: "sway \<Rightarrow> list_ref \<Rightarrow> nat option" where
  "ws_in s (Children p) = workspace_of s p"
| "ws_in s (Tiling_List w) = Some w"
| "ws_in s (Floating_List w) = Some w"

lemma place_of_sel [simp]:
  "place_parent (place_of l i) = parent_in l" "place_ws (tree_of s) (place_of l i) = ws_in s l"
  by (cases l; simp)+

lemma insert_intoD:
  assumes "insert_into l i c s = Some s1"
  shows "s1 = upd_list l (insert_at (nat i) c) s" "list_exists s l" "0 \<le> i" "nat i \<le> length (list_at s l)"
  using assms by (auto simp: insert_into_def split: if_splits)

text \<open>A place for \<open>c\<close>: not inside the subtree of \<open>c\<close> itself.\<close>

definition outside :: "sway \<Rightarrow> nat \<Rightarrow> list_ref \<Rightarrow> bool" where
  "outside s c l = (case l of Children p \<Rightarrow> p < next_id s \<and> p \<noteq> c \<and> p \<notin> below (tree_of s) c | _ \<Rightarrow> True)"

lemma insert_into_place_ok:
  assumes wf: "wf_sway s" and i: "insert_into l i c s = Some s1" and out: "outside s c l"
  shows "place_ok (tree_of s) c (place_of l (nat i))"
proof (cases l)
  case (Children p)
  have "children_of s p \<noteq> None" using insert_intoD(2) [OF i] Children by (simp add: list_exists_def)
  then have "con_view (cons s p) = None" using wf_treeD(12) [OF wf, of p]
    by (cases "con_view (cons s p)") simp_all
  then show ?thesis using Children insert_intoD [OF i] out by (simp add: outside_def)
qed (use insert_intoD [OF i] in simp_all)

lemma tree_of_insert_link:
  assumes wf: "wf_sway s" and det: "parent_of s c = None" "workspace_of s c = None" and new: "c < next_id s"
    and i: "insert_into l i c s = Some s1" and out: "outside s c l"
  shows "tree_of (link c (parent_in l) (ws_in s l) s1) = t_insert (place_of l (nat i)) c (tree_of s)"
    (is "_ = ?t'")
    and "wf_tree (t_insert (place_of l (nat i)) c (tree_of s))"
proof -
  have ok: "place_ok (tree_of s) c (place_of l (nat i))" by (rule insert_into_place_ok [OF wf i out])
  show wf': "wf_tree ?t'" using wf det new ok by (intro wf_tree_insert) simp_all
  define u where "u = upd_pending c (st_workspace_update (\<lambda>_. ws_in s l)) (upd_pending c (st_parent_update (\<lambda>_. parent_in l)) s1)"
  have s1: "s1 = upd_list l (insert_at (nat i) c) s" by (rule insert_intoD [OF i])
  have nc: "l = Children p \<Longrightarrow> p \<noteq> c" for p using out by (simp add: outside_def)
  have "tree_of u = ?t'\<lparr>t_ws := (workspace_of s)(c := ws_in s l)\<rparr>"
    using nc unfolding u_def s1
    by (cases l) (auto simp: tree_of_def t_insert_def upd_defs fun_eq_iff)
  moreover have "below ?t' c = below (tree_of s) c" using det ok by (intro below_insert) simp_all
  ultimately show "tree_of (link c (parent_in l) (ws_in s l) s1) = ?t'"
    unfolding link_def u_def [symmetric]
    by (intro tree_of_propagate [OF wf']) (auto simp: fun_eq_iff)
qed

lemma tree_of_insert_link_ws:
  assumes wf: "wf_sway s" and det: "parent_of s c = None" "workspace_of s c = None" and new: "c < next_id s"
    and i: "insert_into l i c s = Some s1" and l: "l = Tiling_List w \<or> l = Floating_List w"
  shows "tree_of (link_ws c w s1) = t_insert (place_of l (nat i)) c (tree_of s)" (is "_ = ?t'")
    and "wf_tree (t_insert (place_of l (nat i)) c (tree_of s))"
proof -
  have out: "outside s c l" using l by (auto simp: outside_def)
  have ok: "place_ok (tree_of s) c (place_of l (nat i))" by (rule insert_into_place_ok [OF wf i out])
  show wf': "wf_tree ?t'" using wf det new ok by (intro wf_tree_insert) simp_all
  define u where "u = upd_pending c (st_workspace_update (\<lambda>_. Some w)) s1"
  have s1: "s1 = upd_list l (insert_at (nat i) c) s" by (rule insert_intoD [OF i])
  have "tree_of u = ?t'\<lparr>t_ws := (workspace_of s)(c := Some w)\<rparr>"
    using l det unfolding u_def s1
    by (auto simp: tree_of_def t_insert_def upd_defs fun_eq_iff)
  moreover have "below ?t' c = below (tree_of s) c" using det ok by (intro below_insert) simp_all
  ultimately show "tree_of (link_ws c w s1) = ?t'"
    unfolding link_ws_def u_def [symmetric] using l
    by (intro tree_of_propagate [OF wf']) (auto simp: fun_eq_iff)
qed

text \<open>A container that is not on a workspace has no parent either.\<close>

definition loose_or_placed :: "sway \<Rightarrow> nat \<Rightarrow> bool" where
  "loose_or_placed s c \<longleftrightarrow> (workspace_of s c = None \<longrightarrow> parent_of s c = None)"

lemma detach_if_placed_tree:
  assumes wf: "wf_sway s" and c: "loose_or_placed s c" and d: "detach_if_placed c s = Some s1"
  shows "tree_of s1 = t_detach c (tree_of s)"
proof (cases "workspace_of s c")
  case None
  then show ?thesis using d c t_detach_id [OF wf, of c] by (simp add: detach_if_placed_def loose_or_placed_def)
next
  case (Some w)
  then show ?thesis using d container_detach_tree [OF wf] by (simp add: detach_if_placed_def)
qed

lemma detach_if_placed_defined: "\<exists>s1. detach_if_placed c s = Some s1"
  using container_detach_defined [of s c] by (auto simp: detach_if_placed_def)


section \<open>The contract of the focus operation, and its clients\<close>

lemma tree_of_set_fullscreen_mode [simp, tree_frame]: "tree_of (set_fullscreen_mode c m s) = tree_of s"
  by (simp add: set_fullscreen_mode_def tree_of_upd_pending)

lemma tree_of_clear_fullscreen_pointer: "clear_fullscreen_pointer c s = Some s' \<Longrightarrow> tree_of s' = tree_of s"
  by (auto simp: clear_fullscreen_pointer_def Let_def tree_of_upd_ws dest!: tree_of_move_to_center
      split: if_splits option.splits)

lemma tree_of_restore_saved_geometry [simp, tree_frame]: "tree_of (restore_saved_geometry c s) = tree_of s"
  by (simp add: restore_saved_geometry_def)

locale refocus =
  fixes sf :: refocus_op
  assumes moves: "wf_sway s \<Longrightarrow> sf i n s = Some s' \<Longrightarrow> floaters_move (tree_of s) (tree_of s')"
begin

lemma for_seats_moves:
  assumes "\<And>i s s'. wf_sway s \<Longrightarrow> f i s = Some s' \<Longrightarrow> floaters_move (tree_of s) (tree_of s')"
  shows "wf_sway s \<Longrightarrow> for_seats f is s = Some s' \<Longrightarrow> floaters_move (tree_of s) (tree_of s')"
proof (induction "is" arbitrary: s)
  case Nil
  then show ?case by (auto simp: floaters_move_refl)
next
  case (Cons i "is")
  then obtain s1 where s1: "f i s = Some s1" "for_seats f is s1 = Some s'" by (auto split: bind_splits)
  have "floaters_move (tree_of s) (tree_of s1)" by (rule assms [OF Cons.prems(1) s1(1)])
  moreover from this have "floaters_move (tree_of s1) (tree_of s')"
    using Cons.IH [OF _ s1(2)] floaters_move_wf by blast
  ultimately show ?case by (rule floaters_move_trans)
qed

lemma refocus_inside_moves:
  "wf_sway s \<Longrightarrow> refocus_inside sf c i s = Some s' \<Longrightarrow> floaters_move (tree_of s) (tree_of s')"
  by (auto simp: refocus_inside_def Let_def floaters_move_refl intro: moves split: if_splits)

lemma fullscreen_disable_moves:
  assumes wf: "wf_sway s" and d: "container_fullscreen_disable sf c s = Some s'"
  shows "floaters_move (tree_of s) (tree_of s')"
proof (cases "fullscreen_mode_of s c = FULLSCREEN_NONE")
  case True
  then show ?thesis using d wf by (simp add: container_fullscreen_disable_def floaters_move_refl)
next
  case False
  from d False obtain s2 s3 where s2: "clear_fullscreen_pointer c (restore_saved_geometry c s) = Some s2"
    and s3: "(if container_is_floating s2 c \<and> (st_width (pending s2 c) = 0 \<or> st_height (pending s2 c) = 0)
               then container_floating_resize_and_center c s2 else Some s2) = Some s3"
    and s': "(if con_scratchpad (cons (set_fullscreen_mode c FULLSCREEN_NONE s3) c)
        then for_seats (refocus_inside sf c)
             (seat_ids (set_fullscreen_mode c FULLSCREEN_NONE s3)) (set_fullscreen_mode c FULLSCREEN_NONE s3)
        else Some (set_fullscreen_mode c FULLSCREEN_NONE s3)) = Some s'"
    by (auto simp: container_fullscreen_disable_def Let_def split: bind_splits)
  have "tree_of s3 = tree_of s"
    using tree_of_clear_fullscreen_pointer [OF s2] s3 by (auto dest: tree_of_resize_and_center split: if_splits)
  then have t: "tree_of (set_fullscreen_mode c FULLSCREEN_NONE s3) = tree_of s" by simp
  show ?thesis
  proof (cases "con_scratchpad (cons (set_fullscreen_mode c FULLSCREEN_NONE s3) c)")
    case True
    have "floaters_move (tree_of (set_fullscreen_mode c FULLSCREEN_NONE s3)) (tree_of s')"
      using s' True wf t by (intro for_seats_moves [OF refocus_inside_moves]) simp_all
    then show ?thesis unfolding t .
  next
    case False
    then show ?thesis using s' t wf floaters_move_refl by auto
  qed
qed

lemma fullscreen_reparent_moves:
  assumes wf: "wf_sway s" and d: "container_handle_fullscreen_reparent sf c s = Some s'"
  shows "floaters_move (tree_of s) (tree_of s')"
proof (cases "\<exists>w. workspace_of s c = Some w \<and> \<not> (fullscreen_mode_of s c \<noteq> FULLSCREEN_WORKSPACE \<or> ws_fullscreen (wss s w) = Some c)")
  case True
  then obtain w where w: "workspace_of s c = Some w"
    "\<not> (fullscreen_mode_of s c \<noteq> FULLSCREEN_WORKSPACE \<or> ws_fullscreen (wss s w) = Some c)" by blast
  then obtain s1 w1 where s1: "(case ws_fullscreen (wss s w) of
         Some f \<Rightarrow> container_fullscreen_disable sf f s | None \<Rightarrow> Some s) = Some s1"
    and s': "arrange_workspace w1 (upd_ws w1 (ws_fullscreen_update (\<lambda>_. Some c)) s1) = Some s'"
    using d unfolding container_handle_fullscreen_reparent_def
    by (simp only: w option.case if_False Option.bind_eq_Some_conv) blast
  have "floaters_move (tree_of s) (tree_of s1)"
    using s1 wf by (auto intro: floaters_move_refl fullscreen_disable_moves split: option.splits)
  moreover have "tree_of s' = tree_of s1"
    using tree_of_arrange_workspace [OF s'] by (simp add: tree_of_upd_ws)
  ultimately show ?thesis by simp
next
  case False
  then show ?thesis using d wf
    by (auto simp: container_handle_fullscreen_reparent_def floaters_move_refl split: option.splits if_splits)
qed

text \<open>
  The common part of all attachments: detach, link into \<open>l\<close> at \<open>i\<close>, take over fullscreen.
\<close>

lemma attach_moves:
  assumes wf: "wf_sway s1" and det: "parent_of s1 c = None" "workspace_of s1 c = None" "c < next_id s1"
    and i: "insert_into l i c s1 = Some s2" and out: "outside s1 c l"
    and s3: "tree_of s3 = tree_of (link c (parent_in l) (ws_in s1 l) s2)"
    and h: "container_handle_fullscreen_reparent sf c s3 = Some s4"
  shows "floaters_move (t_insert (place_of l (nat i)) c (tree_of s1)) (tree_of s4)"
  using tree_of_insert_link [OF wf det i out] fullscreen_reparent_moves [OF _ h] s3 by simp

lemma detach_first:
  assumes wf: "wf_sway s" and c: "loose_or_placed s c" "c < next_id s" and d: "detach_if_placed c s = Some s1"
  shows "tree_of s1 = t_detach c (tree_of s)" "wf_sway s1" "parent_of s1 c = None" "workspace_of s1 c = None"
    "c < next_id s1" "outside s1 c l \<longleftrightarrow> outside s c l"
proof -
  show t: "tree_of s1 = t_detach c (tree_of s)" by (rule detach_if_placed_tree [OF wf c(1) d])
  then show "wf_sway s1" using wf_tree_detach [OF wf] by simp
  have "t_parent (tree_of s1) c = None" "t_ws (tree_of s1) c = None" "t_next (tree_of s1) = next_id s"
    unfolding t by simp_all
  then show "parent_of s1 c = None" "workspace_of s1 c = None" "c < next_id s1" using c(2) by simp_all
  have "below (tree_of s1) c = below (tree_of s) c" unfolding t by (rule below_detach [OF wf])
  moreover have "next_id s1 = next_id s" using t tree_of_sel(7) [of s1] by simp
  ultimately show "outside s1 c l \<longleftrightarrow> outside s c l" by (cases l) (simp_all add: outside_def)
qed

lemma ws_in_frame: "insert_into (Children p) i c s = Some s2 \<Longrightarrow> workspace_of s2 p = ws_in s (Children p)"
  using insert_intoD(1) [of "Children p" i c s s2] by (simp add: upd_defs)

lemma insert_child_moves:
  assumes wf: "wf_sway s" and c: "loose_or_placed s c" "c < next_id s"
    and p: "p < next_id s" "p \<noteq> c" "p \<notin> below (tree_of s) c"
    and op: "container_insert_child sf p c i s = Some s'"
  shows "floaters_move (t_insert (Under p (nat i)) c (t_detach c (tree_of s))) (tree_of s')"
proof -
  from op obtain s1 s2 s4 where s1: "detach_if_placed c s = Some s1"
    and s2: "insert_into (Children p) i c s1 = Some s2"
    and s4: "container_handle_fullscreen_reparent sf c (link c (Some p) (workspace_of s2 p) s2) = Some s4"
    and s': "s' = container_update_representation p s4"
    by (auto simp: container_insert_child_def Let_def split: bind_splits)
  note d = detach_first [OF wf c s1]
  have "outside s1 c (Children p)" using d(6) p by (simp add: outside_def)
  from attach_moves [OF d(2-5) s2 this _ s4] show ?thesis
    using ws_in_frame [OF s2] by (simp add: d(1) s')
qed

lemma add_child_moves:
  assumes wf: "wf_sway s" and c: "loose_or_placed s c" "c < next_id s"
    and p: "p < next_id s" "p \<noteq> c" "p \<notin> below (tree_of s) c"
    and op: "container_add_child sf p c s = Some s'"
  shows "floaters_move (t_insert (Under p (length (kidl (t_detach c (tree_of s)) p))) c (t_detach c (tree_of s))) (tree_of s')"
proof -
  from op obtain s1 s2 s4 where s1: "detach_if_placed c s = Some s1"
    and s2: "insert_into (Children p) (int (length (kids s1 p))) c s1 = Some s2"
    and s4: "container_handle_fullscreen_reparent sf c (link c (Some p) (workspace_of s2 p) s2) = Some s4"
    and s': "s' = node_set_dirty (N_CONTAINER p) (node_set_dirty (N_CONTAINER c) (container_update_representation p s4))"
    by (auto simp: container_add_child_def Let_def split: bind_splits)
  note d = detach_first [OF wf c s1]
  have "outside s1 c (Children p)" using d(6) p by (simp add: outside_def)
  from attach_moves [OF d(2-5) s2 this _ s4] show ?thesis
    using ws_in_frame [OF s2] kidl_tree_of [of s1] by (simp add: d(1) s')
qed

lemma insert_tiling_direct_moves:
  assumes wf: "wf_sway s" and c: "parent_of s c = None" "workspace_of s c = None" "c < next_id s"
    and op: "workspace_insert_tiling_direct sf w c i s = Some s'"
  shows "floaters_move (t_insert (Tiling w (nat i)) c (tree_of s)) (tree_of s')"
proof -
  from op obtain s1 s2 where s1: "insert_into (Tiling_List w) i c s = Some s1"
    and s2: "container_handle_fullscreen_reparent sf c (link_ws c w s1) = Some s2"
    and s': "s' = node_set_dirty (N_CONTAINER c) (node_set_dirty (N_WORKSPACE w) (workspace_update_representation w s2))"
    by (auto simp: workspace_insert_tiling_direct_def split: bind_splits)
  have "tree_of (link_ws c w s1) = t_insert (Tiling w (nat i)) c (tree_of s)"
    "wf_tree (t_insert (Tiling w (nat i)) c (tree_of s))"
    using tree_of_insert_link_ws [OF wf c s1] by simp_all
  then show ?thesis using fullscreen_reparent_moves [OF _ s2] by (simp add: s')
qed

lemma add_floating_moves:
  assumes wf: "wf_sway s" and c: "loose_or_placed s c" "c < next_id s"
    and op: "workspace_add_floating sf w c s = Some s'"
  shows "floaters_move (t_insert (Floating w (length (t_floating (t_detach c (tree_of s)) w))) c (t_detach c (tree_of s))) (tree_of s')"
proof -
  from op obtain s1 s2 s3 where s1: "detach_if_placed c s = Some s1"
    and s2: "insert_into (Floating_List w) (int (length (ws_floating (wss s1 w)))) c s1 = Some s2"
    and s3: "container_handle_fullscreen_reparent sf c (link_ws c w s2) = Some s3"
    and s': "s' = node_set_dirty (N_CONTAINER c) (node_set_dirty (N_WORKSPACE w) s3)"
    by (auto simp: workspace_add_floating_def split: bind_splits)
  note d = detach_first [OF wf c s1]
  have "tree_of (link_ws c w s2) = t_insert (Floating w (length (ws_floating (wss s1 w)))) c (tree_of s1)"
    "wf_tree (t_insert (Floating w (length (ws_floating (wss s1 w)))) c (tree_of s1))"
    using tree_of_insert_link_ws [OF d(2-5) s2] by simp_all
  moreover have "ws_floating (wss s1 w) = t_floating (t_detach c (tree_of s)) w"
    using d(1) tree_of_sel(6) [of s1] by metis
  ultimately show ?thesis using fullscreen_reparent_moves [OF _ s3] by (simp add: d(1) s')
qed

end

end
