(* ===== verification/Seat_Focus.thy ===== *)
theory Seat_Focus
  imports Attach_Laws
begin

text \<open>
  Changing the focus: the setters of \<open>sway/input/seat.c\<close>, the reaction of a seat to the
  destruction of a node, the destruction of empty workspaces (\<open>workspace.c\<close>), urgency of
  views (\<open>view.c\<close>). \<open>focus_step\<close> is the body of \<open>seat_set_focus\<close> with its recursive calls as a
  parameter, \<open>seat_set_focus n\<close> allows \<open>n\<close> nested calls and answers \<open>None\<close> when they do not
  suffice. Not modelled: what is sent to clients (activation, keyboard enter, popups), the
  workspace switch animation, the urgency timer.
\<close>

section \<open>The focus stack\<close>

definition seat_set_raw_focus :: "nat \<Rightarrow> sway_node option \<Rightarrow> sway \<Rightarrow> sway" where
  "seat_set_raw_focus i node s =
     (case node of
        None \<Rightarrow> s
      | Some N_ROOT \<Rightarrow> s
      | Some (N_OUTPUT _) \<Rightarrow> s
      | Some n \<Rightarrow>
          let s1 = seat_node_from_node i n s;
              s2 = upd_seat i (focus_stack_update (\<lambda>st. n # remove1 n st)) s1;
              s3 = node_set_dirty n s2
          in (case node_get_parent s3 n of Some p \<Rightarrow> node_set_dirty p s3 | None \<Rightarrow> s3))"

definition seat_node_destroy :: "nat \<Rightarrow> sway_node \<Rightarrow> sway \<Rightarrow> sway" where
  "seat_node_destroy i n s =
     (let s1 = upd_seat i (focus_stack_update (remove1 n)) s in
      if focus_stack (seats s1 i) = [] then upd_seat i (seat_has_focus_update (\<lambda>_. False)) s1 else s1)"

text \<open>\<open>static set_workspace (seat, new_ws)\<close> of \<open>seat.c\<close>\<close>

definition seat_switch_workspace :: "nat \<Rightarrow> nat option \<Rightarrow> sway \<Rightarrow> sway" where
  "seat_switch_workspace i new_ws s =
     (if seat_workspace (seats s i) = new_ws then s
      else
        let s1 = (case seat_workspace (seats s i) of
                    Some w \<Rightarrow> upd_seat i (seat_prev_workspace_name_update (\<lambda>_. Some (ws_name (wss s w)))) s
                  | None \<Rightarrow> s)
        in upd_seat i (seat_workspace_update (\<lambda>_. new_ws)) s1)"

section \<open>Destroyed nodes\<close>

text \<open>The search for a new focus up the tree; \<open>n\<close> bounds the walk to the root.\<close>

primrec next_focus :: "nat \<Rightarrow> sway \<Rightarrow> nat \<Rightarrow> sway_node option \<Rightarrow> sway_node option" where
  "next_focus 0 s i parent = None"
| "next_focus (Suc n) s i parent =
     (case parent of
        None \<Rightarrow> None
      | Some p \<Rightarrow>
          (case seat_get_focus_inactive_view s i p of
             Some c \<Rightarrow> Some (N_CONTAINER c)
           | None \<Rightarrow> (case p of N_WORKSPACE w \<Rightarrow> Some p | _ \<Rightarrow> next_focus n s i (node_get_parent s p))))"

definition find_next_focus :: "sway \<Rightarrow> nat \<Rightarrow> sway_node option \<Rightarrow> sway_node option" where
  "find_next_focus s i parent =
     (case next_focus (next_id s + 4) s i parent of
        Some n \<Rightarrow> Some n
      | None \<Rightarrow>
          (case seat_get_last_known_workspace s i of
             None \<Rightarrow> None
           | Some w \<Rightarrow> (case seat_get_focus_inactive_view s i (N_WORKSPACE w) of
                Some c \<Rightarrow> Some (N_CONTAINER c) | None \<Rightarrow> Some (N_WORKSPACE w))))"

definition is_hidden_workspace :: "sway \<Rightarrow> sway_node \<Rightarrow> bool option" where
  "is_hidden_workspace s n =
     (case n of N_WORKSPACE w \<Rightarrow> map_option Not (workspace_is_visible s w) | _ \<Rightarrow> Some False)"

definition workspace_seat_node_destroyed :: "refocus_op \<Rightarrow> nat \<Rightarrow> nat \<Rightarrow> sway \<Rightarrow> sway option" where
  "workspace_seat_node_destroyed sf w i s =
     (let s1 = seat_node_destroy i (N_WORKSPACE w) s in
      if seat_workspace (seats s1 i) = Some w
      then let n = seat_get_focus_inactive s1 i N_ROOT in do {
        s2 \<leftarrow> sf i None s1;
        (case n of
           Some _ \<Rightarrow> sf i n s2
         | None \<Rightarrow> Some (upd_seat i (seat_workspace_update (\<lambda>_. None)) s2)) }
      else Some s1)"

definition set_focus_inactive :: "nat \<Rightarrow> sway_node \<Rightarrow> sway \<Rightarrow> sway" where
  "set_focus_inactive i nxt s =
     (let focus = seat_get_focus_inactive s i N_ROOT;
          s1 = seat_set_raw_focus i (Some nxt) s;
          s2 = (case focus of
                  Some (N_CONTAINER c) \<Rightarrow>
                    (case workspace_of s1 c of Some w \<Rightarrow> seat_set_raw_focus i (Some (N_WORKSPACE w)) s1 | None \<Rightarrow> s1)
                | _ \<Rightarrow> s1)
      in seat_set_raw_focus i focus s2)"

definition container_seat_node_destroyed :: "refocus_op \<Rightarrow> nat \<Rightarrow> nat \<Rightarrow> sway \<Rightarrow> sway option" where
  "container_seat_node_destroyed sf c i s =
     (let node = N_CONTAINER c;
          parent = node_get_parent s node;
          focus = seat_get_focus s i;
          needs_new_focus = (case focus of None \<Rightarrow> False | Some f \<Rightarrow> f = node \<or> node_has_ancestor s f node);
          s1 = seat_node_destroy i node s
      in if parent = None \<and> \<not> needs_new_focus then Some s1
         else case find_next_focus s1 i parent of
           None \<Rightarrow> Some s1
         | Some nxt \<Rightarrow> do {
             hidden \<leftarrow> is_hidden_workspace s1 nxt;
             if hidden then Some s1
             else if needs_new_focus
             then do {
               s2 \<leftarrow> (if con_scratchpad (cons s1 c) then sf i None s1 else Some s1);
               if seat_get_focus s2 i = Some nxt then Some s2 else sf i (Some nxt) s2 }
             else Some (set_focus_inactive i nxt s1) })"

definition seat_node_destroyed :: "refocus_op \<Rightarrow> sway_node \<Rightarrow> nat \<Rightarrow> sway \<Rightarrow> sway option" where
  "seat_node_destroyed sf node i s =
     (if node \<notin> set (focus_stack (seats s i)) then Some s
      else case node of
        N_WORKSPACE w \<Rightarrow> workspace_seat_node_destroyed sf w i s
      | N_CONTAINER c \<Rightarrow> container_seat_node_destroyed sf c i s
      | _ \<Rightarrow> Some s)"

text \<open>The destroy signal of a node reaches every seat that has it on its stack.\<close>

definition emit_node_destroy :: "refocus_op \<Rightarrow> sway_node \<Rightarrow> sway \<Rightarrow> sway option" where
  "emit_node_destroy sf node s = for_seats (seat_node_destroyed sf node) (seat_ids s) s"

section \<open>Destroying workspaces\<close>

definition workspace_detach :: "nat \<Rightarrow> sway \<Rightarrow> sway option" where
  "workspace_detach w s =
     map_option (\<lambda>out.
        node_set_dirty (N_OUTPUT out) (node_set_dirty (N_WORKSPACE w)
          (upd_ws w (ws_output_update (\<lambda>_. None))
            (upd_out out (out_workspaces_update (remove1 w)) s)))) (ws_output (wss s w))"

definition workspace_begin_destroy :: "refocus_op \<Rightarrow> nat \<Rightarrow> sway \<Rightarrow> sway option" where
  "workspace_begin_destroy sf w s = do {
     s1 \<leftarrow> emit_node_destroy sf (N_WORKSPACE w) s;
     s2 \<leftarrow> (if ws_output (wss s1 w) \<noteq> None then workspace_detach w s1 else Some s1);
     Some (node_set_dirty (N_WORKSPACE w)
       (s2\<lparr>node_destroying := (node_destroying s2)(N_WORKSPACE w := True)\<rparr>)) }"

definition workspace_consider_destroy :: "refocus_op \<Rightarrow> nat \<Rightarrow> sway \<Rightarrow> sway option" where
  "workspace_consider_destroy sf w s =
     (if ws_tiling (wss s w) \<noteq> [] \<or> ws_floating (wss s w) \<noteq> [] then Some s
      else if (case ws_output (wss s w) of None \<Rightarrow> False | Some out \<Rightarrow> output_get_active_workspace s out = Some w)
      then Some s
      else if \<exists>i \<in> set (seat_ids s). seat_get_focus_inactive s i N_ROOT = Some (N_WORKSPACE w) then Some s
      else workspace_begin_destroy sf w s)"

section \<open>Urgency\<close>

definition upd_view :: "nat \<Rightarrow> (sway_view \<Rightarrow> sway_view) \<Rightarrow> sway \<Rightarrow> sway" where
  "upd_view c f = upd_con c (con_view_update (map_option f))"

definition view_set_urgent :: "nat \<Rightarrow> bool \<Rightarrow> sway \<Rightarrow> sway option" where
  "view_set_urgent c enable s =
     (if is_urgent_con s c = enable then Some s
      else if enable \<and> seat_get_focused_container s (current_seat s) = Some c then Some s
      else
        let s1 = (if enable then upd_view c (view_urgent_update (\<lambda>_. monotonic_clock s)) s
                  else upd_view c (\<lambda>v. v\<lparr>view_urgent := (0, 0), view_urgent_timer := False\<rparr>) s)
        in if container_is_scratchpad_hidden_or_child s1 c then Some s1
           else map_option (\<lambda>w. workspace_detect_urgent w s1) (workspace_of s1 c))"

section \<open>Setting the focus\<close>

text \<open>Sticky containers follow from \<open>old_ws\<close> to \<open>new_ws\<close>; the list shrinks as they leave.\<close>

primrec move_sticky :: "nat \<Rightarrow> refocus_op \<Rightarrow> nat \<Rightarrow> nat \<Rightarrow> nat \<Rightarrow> sway \<Rightarrow> sway option" where
  "move_sticky 0 sf old_ws new_ws i s =
     (if i < length (ws_floating (wss s old_ws)) then None else Some s)"
| "move_sticky (Suc n) sf old_ws new_ws i s =
     (if i < length (ws_floating (wss s old_ws))
      then let floater = ws_floating (wss s old_ws) ! i in
        if container_is_sticky s floater
        then do {
          s1 \<leftarrow> container_detach floater s;
          s2 \<leftarrow> workspace_add_floating sf new_ws floater s1;
          move_sticky n sf old_ws new_ws i s2 }
        else move_sticky n sf old_ws new_ws (i + 1) s
      else Some s)"

definition raw_focus_chain :: "nat \<Rightarrow> nat option \<Rightarrow> nat option \<Rightarrow> sway \<Rightarrow> sway" where
  "raw_focus_chain i container new_workspace s =
     (let s1 = (case container of
                  Some c \<Rightarrow> fold (\<lambda>p. seat_set_raw_focus i (Some (N_CONTAINER p))) (ancestors s c) s
                | None \<Rightarrow> s);
          s2 = seat_set_raw_focus i (map_option N_WORKSPACE new_workspace) s1
      in seat_set_raw_focus i (map_option N_CONTAINER container) s2)"

definition dirty_last_focus :: "sway_node option \<Rightarrow> sway \<Rightarrow> sway" where
  "dirty_last_focus last_focus s =
     (case last_focus of
        None \<Rightarrow> s
      | Some f \<Rightarrow>
          let s1 = node_set_dirty f s in
          (case node_get_parent s1 f of Some p \<Rightarrow> node_set_dirty p s1 | None \<Rightarrow> s1))"

definition clear_urgency :: "nat option \<Rightarrow> nat option \<Rightarrow> nat option \<Rightarrow> sway \<Rightarrow> sway option" where
  "clear_urgency container last_workspace new_workspace s =
     (case container of
        None \<Rightarrow> Some s
      | Some c \<Rightarrow>
          (case con_view (cons s c) of
             None \<Rightarrow> Some s
           | Some v \<Rightarrow>
               if view_is_urgent v \<and> \<not> view_urgent_timer v
               then (if last_workspace \<noteq> None \<and> last_workspace \<noteq> new_workspace \<and> cfg_urgent_timeout (cfg s) > 0
                     then Some (upd_view c (view_urgent_timer_update (\<lambda>_. True)) s)
                     else view_set_urgent c False s)
               else Some s))"

text \<open>
  The first half, up to the IPC events: the output and the old focus become dirty, the new
  focus and its parents go to the top of the stack, the seat switches workspace. The second
  half, which moves sticky containers, clears urgency and destroys workspaces left empty.
\<close>

definition focus_new_output :: "sway \<Rightarrow> nat option \<Rightarrow> nat option" where
  "focus_new_output s new_workspace =
     (case new_workspace of None \<Rightarrow> None | Some w \<Rightarrow> ws_output (wss s w))"

definition focus_begin :: "nat \<Rightarrow> nat option \<Rightarrow> sway \<Rightarrow> sway" where
  "focus_begin i new_workspace s =
     (case focus_new_output s new_workspace of
        Some out \<Rightarrow> if seat_get_focused_workspace s i \<noteq> new_workspace
                    then node_set_dirty (N_OUTPUT out) s else s
      | None \<Rightarrow> s)"

definition new_output_last_ws :: "sway \<Rightarrow> nat option \<Rightarrow> nat option" where
  "new_output_last_ws s new_workspace =
     (case focus_new_output s new_workspace of None \<Rightarrow> None | Some out \<Rightarrow> output_get_active_workspace s out)"

definition focus_stack_change :: "nat \<Rightarrow> nat option \<Rightarrow> nat option \<Rightarrow> sway \<Rightarrow> sway" where
  "focus_stack_change i container new_workspace s =
     seat_switch_workspace i new_workspace
       (raw_focus_chain i container new_workspace (dirty_last_focus (seat_get_focus s i) s))"

definition take_sticky :: "refocus_op \<Rightarrow> nat option \<Rightarrow> nat option \<Rightarrow> sway \<Rightarrow> sway option" where
  "take_sticky sf new_workspace last_ws s =
     (case (new_workspace, last_ws) of
        (Some nw, Some lw) \<Rightarrow>
          if nw \<noteq> lw then move_sticky (length (ws_floating (wss s lw))) sf lw nw 0 s else Some s
      | _ \<Rightarrow> Some s)"

definition destroy_left :: "refocus_op \<Rightarrow> nat option \<Rightarrow> sway \<Rightarrow> sway option" where
  "destroy_left sf w s = (case w of Some lw \<Rightarrow> workspace_consider_destroy sf lw s | None \<Rightarrow> Some s)"

definition focus_end :: "nat \<Rightarrow> nat option \<Rightarrow> sway \<Rightarrow> sway option" where
  "focus_end i new_workspace s =
     (let s1 = upd_seat i (seat_has_focus_update (\<lambda>_. True)) s in
      case new_workspace of
        Some nw \<Rightarrow> if cfg_smart_gaps (cfg s1) \<noteq> SMART_GAPS_OFF \<or> ws_layout (wss s1 nw) = L_SCROLL_H
                   then arrange_workspace nw s1 else Some s1
      | None \<Rightarrow> Some s1)"

definition set_focus_on :: "refocus_op \<Rightarrow> nat \<Rightarrow> nat option \<Rightarrow> nat option \<Rightarrow> sway \<Rightarrow> sway option" where
  "set_focus_on sf i container new_workspace s =
     (let last_workspace = seat_get_focused_workspace s i;
          s1 = focus_begin i new_workspace s;
          last_ws = new_output_last_ws s1 new_workspace
      in do {
        s2 \<leftarrow> take_sticky sf new_workspace last_ws (focus_stack_change i container new_workspace s1);
        s3 \<leftarrow> clear_urgency container last_workspace new_workspace s2;
        s4 \<leftarrow> destroy_left sf last_ws s3;
        s5 \<leftarrow> destroy_left sf (if last_workspace \<noteq> last_ws then last_workspace else None) s4;
        focus_end i new_workspace s5 })"

definition seat_set_workspace_focus :: "refocus_op \<Rightarrow> nat \<Rightarrow> sway_node option \<Rightarrow> sway \<Rightarrow> sway option" where
  "seat_set_workspace_focus sf i node s =
     (if seat_get_focus s i = node then Some s
      else case node of
        None \<Rightarrow> Some (upd_seat i (seat_has_focus_update (\<lambda>_. False)) s)
      | Some (N_CONTAINER c) \<Rightarrow>
          if container_obstructing_fullscreen_container s c \<noteq> None then Some s
          else set_focus_on sf i (Some c) (workspace_of s c) s
      | Some (N_WORKSPACE w) \<Rightarrow>
          if fullscreen_global s \<noteq> None then Some s
          else set_focus_on sf i None (Some w) s
      | Some _ \<Rightarrow> None)"

definition seat_set_focus_surface :: "nat \<Rightarrow> bool \<Rightarrow> sway \<Rightarrow> sway" where
  "seat_set_focus_surface i unfocus s =
     (if seat_has_focus (seats s i) \<and> unfocus then upd_seat i (seat_has_focus_update (\<lambda>_. False)) s else s)"

definition seat_set_focus_layer :: "refocus_op \<Rightarrow> nat \<Rightarrow> nat option \<Rightarrow> sway \<Rightarrow> sway option" where
  "seat_set_focus_layer sf i layer s =
     (let no_excl = upd_seat i (seat_has_exclusive_layer_update (\<lambda>_. False)) in
      case layer of
        None \<Rightarrow>
          (if seat_focused_layer (seats s i) \<noteq> None
           then let s1 = no_excl (upd_seat i (seat_focused_layer_update (\<lambda>_. None)) s);
                    previous = seat_get_focus_inactive s1 i N_ROOT
                in (case previous of
                      Some _ \<Rightarrow> do { s2 \<leftarrow> sf i None s1; sf i previous s2 }
                    | None \<Rightarrow> Some (seat_set_focus_surface i False s1))
           else Some (no_excl s))
      | Some l \<Rightarrow>
          (if \<not> layer_mapped (env s) l
           then Some (no_excl (if seat_focused_layer (seats s i) = Some l
                  then seat_set_focus_surface i False (upd_seat i (seat_focused_layer_update (\<lambda>_. None)) s)
                  else s))
           else
             let s1 = (if layer_exclusive (env s) l
                       then upd_seat i (seat_has_exclusive_layer_update (\<lambda>_. True)) s else s)
             in if seat_focused_layer (seats s1 i) = Some l then Some s1
                else Some (upd_seat i (seat_focused_layer_update (\<lambda>_. Some l))
                       (seat_set_focus_surface i True s1))))"

definition focus_step :: "refocus_op \<Rightarrow> refocus_op" where
  "focus_step sf i node s =
     (if seat_has_exclusive_layer (seats s i)
      then do {
        let layer = seat_focused_layer (seats s i);
        s1 \<leftarrow> seat_set_focus_layer sf i None s;
        s2 \<leftarrow> seat_set_workspace_focus sf i node s1;
        seat_set_focus_layer sf i layer s2 }
      else if seat_focused_layer (seats s i) \<noteq> None
      then do {
        s1 \<leftarrow> seat_set_focus_layer sf i None s;
        seat_set_workspace_focus sf i node s1 }
      else seat_set_workspace_focus sf i node s)"

primrec seat_set_focus :: "nat \<Rightarrow> refocus_op" where
  "seat_set_focus 0 = (\<lambda>i node s. None)"
| "seat_set_focus (Suc n) = focus_step (seat_set_focus n)"

definition seat_set_focus_container :: "nat \<Rightarrow> nat \<Rightarrow> nat option \<Rightarrow> sway \<Rightarrow> sway option" where
  "seat_set_focus_container n i c = seat_set_focus n i (map_option N_CONTAINER c)"

definition seat_set_focus_workspace :: "nat \<Rightarrow> nat \<Rightarrow> nat option \<Rightarrow> sway \<Rightarrow> sway option" where
  "seat_set_focus_workspace n i w = seat_set_focus n i (map_option N_WORKSPACE w)"

end
