(* ===== verification/Seat_Laws.thy ===== *)
theory Seat_Laws
  imports Seat_Focus
begin

text \<open>
  \<open>seat_set_focus\<close> satisfies the contract \<open>refocus\<close> that the container operations rely on: the
  interpretation at the end discharges it for every bound on nested calls. So attaching,
  detaching and focusing keep the window tree well-formed, and the theorems here state that
  for the operations as the compositor runs them.
\<close>

section \<open>The focus stack does not touch the tree\<close>

lemma tree_of_upd_seat [simp, tree_frame]: "tree_of (upd_seat i f s) = tree_of s"
  by (rule tree_of_eqI) (simp_all add: upd_seat_def)

lemma tree_of_upd_out [simp, tree_frame]: "tree_of (upd_out out f s) = tree_of s"
  by (rule tree_of_eqI) (simp_all add: upd_out_def)

lemma tree_of_seat_node_from_node [simp, tree_frame]: "tree_of (seat_node_from_node i n s) = tree_of s"
  by (simp add: seat_node_from_node_def split: sway_node.split)

lemma tree_of_raw_focus [simp, tree_frame]: "tree_of (seat_set_raw_focus i n s) = tree_of s"
  by (simp add: seat_set_raw_focus_def Let_def split: option.split sway_node.split)

lemma tree_of_seat_node_destroy [simp, tree_frame]: "tree_of (seat_node_destroy i n s) = tree_of s"
  by (simp add: seat_node_destroy_def Let_def)

lemma tree_of_seat_switch_workspace [simp, tree_frame]: "tree_of (seat_switch_workspace i w s) = tree_of s"
  by (simp add: seat_switch_workspace_def Let_def split: option.split)

lemma tree_of_set_focus_inactive [simp, tree_frame]: "tree_of (set_focus_inactive i n s) = tree_of s"
  by (simp add: set_focus_inactive_def Let_def split: option.split sway_node.split)

lemma tree_of_raw_focus_chain [simp, tree_frame]: "tree_of (raw_focus_chain i c w s) = tree_of s"
  by (simp add: raw_focus_chain_def Let_def tree_of_fold split: option.split)

lemma tree_of_dirty_last_focus [simp, tree_frame]: "tree_of (dirty_last_focus f s) = tree_of s"
  by (simp add: dirty_last_focus_def Let_def split: option.split)

lemma tree_of_workspace_detach [tree_frame]: "workspace_detach w s = Some s' \<Longrightarrow> tree_of s' = tree_of s"
  by (auto simp: workspace_detach_def tree_of_upd_ws)

lemma tree_of_upd_view [simp, tree_frame]: "tree_of (upd_view c f s) = tree_of s"
  by (rule tree_of_eqI) (auto simp: upd_view_def upd_con_def)

lemma tree_of_detect_urgent [simp, tree_frame]: "tree_of (workspace_detect_urgent w s) = tree_of s"
  by (simp add: workspace_detect_urgent_def Let_def tree_of_upd_ws)

lemma tree_of_view_set_urgent [tree_frame]: "view_set_urgent c b s = Some s' \<Longrightarrow> tree_of s' = tree_of s"
  by (auto simp: view_set_urgent_def Let_def split: if_splits)

lemma tree_of_clear_urgency [tree_frame]: "clear_urgency c lw nw s = Some s' \<Longrightarrow> tree_of s' = tree_of s"
  by (auto simp: clear_urgency_def dest: tree_of_view_set_urgent split: option.splits if_splits)

lemma tree_of_focus_surface [simp, tree_frame]: "tree_of (seat_set_focus_surface i b s) = tree_of s"
  by (simp add: seat_set_focus_surface_def)

lemma tree_of_destroying [simp, tree_frame]: "tree_of (s\<lparr>node_destroying := f\<rparr>) = tree_of s"
  by (rule tree_of_eqI) simp_all

section \<open>Moving a floating container to another workspace\<close>

lemma floaters_move_float:
  assumes wf: "wf_tree t" and c: "c \<in> set (t_floating t v)" and i: "i \<le> length (t_floating (t_detach c t) w)"
  shows "floaters_move t (t_insert (Floating w i) c (t_detach c t))"
proof -
  have c': "t_parent t c = None" "t_ws t c = Some v" using c wf_treeD(6) [OF wf, of c v] by auto
  have nt: "c \<notin> set (t_tiling t x)" for x
    using c wf_treeD(5) [OF wf, of v] wf_treeD(6) [OF wf, of c x] c'(2) by auto
  have less: "c < t_next t" by (rule wf_treeD(10) [OF wf c'(2)])
  have "wf_tree (t_insert (Floating w i) c (t_detach c t))"
    using wf_tree_detach [OF wf] less i by (intro wf_tree_insert) simp_all
  moreover have "t_tiling (t_insert (Floating w i) c (t_detach c t)) = t_tiling t"
    using nt by (simp add: fun_eq_iff tops_insert tiling_detach remove1_idem)
  moreover have "t_kids (t_insert (Floating w i) c (t_detach c t)) = t_kids t"
    using c'(1) by (simp add: t_insert_def t_detach_def)
  moreover have "below (t_detach c t) c = below t c" by (rule below_detach [OF wf])
  ultimately show ?thesis using c' below_ws [OF wf, of _ c] by (auto simp: floaters_move_def)
qed

section \<open>The focus operations keep the contract\<close>

context refocus begin

lemma move_sticky_moves:
  "wf_sway s \<Longrightarrow> move_sticky n sf ow nw i s = Some s' \<Longrightarrow> floaters_move (tree_of s) (tree_of s')"
proof (induction n arbitrary: i s)
  case 0
  then show ?case by (auto simp: floaters_move_refl split: if_splits)
next
  case (Suc n)
  show ?case
  proof (cases "i < length (ws_floating (wss s ow)) \<and> container_is_sticky s (ws_floating (wss s ow) ! i)")
    case False
    then show ?thesis using Suc by (auto simp: floaters_move_refl Let_def split: if_splits)
  next
    case True
    define f where "f = ws_floating (wss s ow) ! i"
    have f: "f \<in> set (t_floating (tree_of s) ow)" using True by (simp add: f_def)
    obtain s1 s2 where s1: "container_detach f s = Some s1" and s2: "workspace_add_floating sf nw f s1 = Some s2"
      and s': "move_sticky n sf ow nw i s2 = Some s'"
      using Suc.prems(2) True by (auto simp: Let_def f_def split: bind_splits)
    have t1: "tree_of s1 = t_detach f (tree_of s)" by (rule container_detach_tree [OF Suc.prems(1) s1])
    have wf1: "wf_sway s1" using wf_tree_detach [OF Suc.prems(1)] by (simp add: t1)
    have "t_ws (tree_of s) f = Some ow" using f wf_treeD(6) [OF Suc.prems(1), of f ow] by simp
    then have less: "f < next_id s" using wf_treeD(10) [OF Suc.prems(1)] by simp
    have "t_parent (tree_of s1) f = None" "t_ws (tree_of s1) f = None" "t_next (tree_of s1) = next_id s"
      unfolding t1 by simp_all
    then have p: "parent_of s1 f = None" "workspace_of s1 f = None" "next_id s1 = next_id s" by simp_all
    have "t_detach f (tree_of s1) = tree_of s1" using p by (intro t_detach_id [OF wf1]) simp_all
    then have "floaters_move (t_insert (Floating nw (length (t_floating (tree_of s1) nw))) f (tree_of s1)) (tree_of s2)"
      using add_floating_moves [OF wf1 _ _ s2] p less by (simp add: loose_or_placed_def)
    moreover have "floaters_move (tree_of s) (t_insert (Floating nw (length (t_floating (tree_of s1) nw))) f (tree_of s1))"
      unfolding t1 by (rule floaters_move_float [OF Suc.prems(1) f]) simp
    ultimately have "floaters_move (tree_of s) (tree_of s2)" by (rule floaters_move_trans [rotated])
    moreover from this have "floaters_move (tree_of s2) (tree_of s')" using Suc.IH [OF _ s'] floaters_move_wf by blast
    ultimately show ?thesis by (rule floaters_move_trans)
  qed
qed

end


context refocus begin

lemma moves_chain:
  "floaters_move (tree_of s) (tree_of s1) \<Longrightarrow> (wf_sway s1 \<Longrightarrow> floaters_move (tree_of s1) (tree_of s2))
   \<Longrightarrow> floaters_move (tree_of s) (tree_of s2)"
  using floaters_move_wf floaters_move_trans by blast

lemma moves_eq: "wf_sway s \<Longrightarrow> tree_of s' = tree_of s \<Longrightarrow> floaters_move (tree_of s) (tree_of s')"
  by (simp add: floaters_move_refl)

lemma workspace_seat_node_moves:
  assumes wf: "wf_sway s" and op: "workspace_seat_node_destroyed sf w i s = Some s'"
  shows "floaters_move (tree_of s) (tree_of s')"
proof -
  define s1 where "s1 = seat_node_destroy i (N_WORKSPACE w) s"
  have t1: "tree_of s1 = tree_of s" by (simp add: s1_def)
  show ?thesis
  proof (cases "seat_workspace (seats s1 i) = Some w")
    case True
    then obtain s2 where s2: "sf i None s1 = Some s2"
      and s': "(case seat_get_focus_inactive s1 i N_ROOT of Some _ \<Rightarrow> sf i (seat_get_focus_inactive s1 i N_ROOT) s2
        | None \<Rightarrow> Some (upd_seat i (seat_workspace_update (\<lambda>_. None)) s2)) = Some s'"
      using op True unfolding workspace_seat_node_destroyed_def Let_def s1_def [symmetric]
      by (simp only: if_True Option.bind_eq_Some_conv) blast
    have "floaters_move (tree_of s1) (tree_of s2)" using moves [OF _ s2] wf t1 by simp
    moreover have "wf_sway s2 \<Longrightarrow> floaters_move (tree_of s2) (tree_of s')"
      using s' by (auto intro: moves moves_eq split: option.splits)
    ultimately show ?thesis unfolding t1 by (rule moves_chain [of s1, unfolded t1])
  next
    case False
    then show ?thesis using op wf t1
      by (auto simp: workspace_seat_node_destroyed_def Let_def s1_def [symmetric] intro: moves_eq)
  qed
qed

lemma container_seat_node_moves:
  assumes wf: "wf_sway s" and op: "container_seat_node_destroyed sf c i s = Some s'"
  shows "floaters_move (tree_of s) (tree_of s')"
proof -
  define s1 where "s1 = seat_node_destroy i (N_CONTAINER c) s"
  have t1: "tree_of s1 = tree_of s" by (simp add: s1_def)
  have wf1: "wf_sway s1" using wf t1 by simp
  have focus: "floaters_move (tree_of s1) (tree_of s')"
    if b: "(if con_scratchpad (cons s1 c) then sf i None s1 else Some s1) \<bind> (\<lambda>s2.
         if seat_get_focus s2 i = Some nxt then Some s2 else sf i (Some nxt) s2) = Some s'" for nxt
  proof -
    obtain s2 where s2: "(if con_scratchpad (cons s1 c) then sf i None s1 else Some s1) = Some s2"
      and s': "(if seat_get_focus s2 i = Some nxt then Some s2 else sf i (Some nxt) s2) = Some s'"
      using b unfolding Option.bind_eq_Some_conv by blast
    have "floaters_move (tree_of s1) (tree_of s2)"
      using s2 wf1 by (auto intro: moves moves_eq split: if_splits)
    moreover have "wf_sway s2 \<Longrightarrow> floaters_move (tree_of s2) (tree_of s')"
      using s' by (auto intro: moves moves_eq split: if_splits)
    ultimately show ?thesis by (rule moves_chain)
  qed
  have "floaters_move (tree_of s1) (tree_of s')"
    using op focus moves_eq [OF wf1]
    unfolding container_seat_node_destroyed_def Let_def s1_def [symmetric]
    by (auto split: if_splits option.splits bind_splits)
  then show ?thesis by (simp add: t1)
qed

lemma emit_node_destroy_moves:
  assumes "wf_sway s" "emit_node_destroy sf n s = Some s'"
  shows "floaters_move (tree_of s) (tree_of s')"
proof (rule for_seats_moves [OF _ assms(1) assms(2) [unfolded emit_node_destroy_def]])
  fix i t t' assume "wf_sway t" "seat_node_destroyed sf n i t = Some t'"
  then show "floaters_move (tree_of t) (tree_of t')"
    by (auto simp: seat_node_destroyed_def intro: moves_eq workspace_seat_node_moves container_seat_node_moves
        split: if_splits sway_node.splits)
qed

lemma workspace_begin_destroy_moves:
  assumes wf: "wf_sway s" and op: "workspace_begin_destroy sf w s = Some s'"
  shows "floaters_move (tree_of s) (tree_of s')"
proof -
  obtain s1 s2 where s1: "emit_node_destroy sf (N_WORKSPACE w) s = Some s1"
    and s2: "(if ws_output (wss s1 w) \<noteq> None then workspace_detach w s1 else Some s1) = Some s2"
    and s': "tree_of s' = tree_of s2"
    using op by (auto simp: workspace_begin_destroy_def split: bind_splits)
  have "tree_of s2 = tree_of s1" using s2 by (auto dest: tree_of_workspace_detach split: if_splits)
  then show ?thesis using emit_node_destroy_moves [OF wf s1] s' by simp
qed

lemma workspace_consider_destroy_moves:
  "wf_sway s \<Longrightarrow> workspace_consider_destroy sf w s = Some s' \<Longrightarrow> floaters_move (tree_of s) (tree_of s')"
  unfolding workspace_consider_destroy_def
  by (auto intro: moves_eq workspace_begin_destroy_moves split: if_splits)

lemma take_sticky_moves:
  "wf_sway s \<Longrightarrow> take_sticky sf nw lw s = Some s' \<Longrightarrow> floaters_move (tree_of s) (tree_of s')"
  by (auto simp: take_sticky_def intro: moves_eq move_sticky_moves split: option.splits if_splits)

lemma destroy_left_moves:
  "wf_sway s \<Longrightarrow> destroy_left sf w s = Some s' \<Longrightarrow> floaters_move (tree_of s) (tree_of s')"
  by (auto simp: destroy_left_def intro: moves_eq workspace_consider_destroy_moves split: option.splits)

lemma set_focus_on_moves:
  assumes wf: "wf_sway s" and op: "set_focus_on sf i c nw s = Some s'"
  shows "floaters_move (tree_of s) (tree_of s')"
proof -
  let ?s0 = "focus_stack_change i c nw (focus_begin i nw s)"
  obtain s2 s3 s4 s5 lw lw' lws where s2: "take_sticky sf nw lw ?s0 = Some s2"
    and s3: "clear_urgency c lws nw s2 = Some s3" and s4: "destroy_left sf lw s3 = Some s4"
    and s5: "destroy_left sf lw' s4 = Some s5" and s': "focus_end i nw s5 = Some s'"
    using op unfolding set_focus_on_def Let_def Option.bind_eq_Some_conv by blast
  have t0: "tree_of ?s0 = tree_of s"
    by (simp add: focus_stack_change_def focus_begin_def split: option.split)
  have "floaters_move (tree_of ?s0) (tree_of s2)" using take_sticky_moves [OF _ s2] wf t0 by simp
  then have "floaters_move (tree_of ?s0) (tree_of s3)" using tree_of_clear_urgency [OF s3] by simp
  then have "floaters_move (tree_of ?s0) (tree_of s4)" by (rule moves_chain) (rule destroy_left_moves [OF _ s4])
  then have "floaters_move (tree_of ?s0) (tree_of s5)" by (rule moves_chain) (rule destroy_left_moves [OF _ s5])
  moreover have "tree_of s' = tree_of s5"
    using s' by (auto simp: focus_end_def Let_def dest!: tree_of_arrange_workspace split: option.splits if_splits)
  ultimately show ?thesis by (simp add: t0)
qed

lemma workspace_focus_moves:
  assumes wf: "wf_sway s" and op: "seat_set_workspace_focus sf i node s = Some s'"
  shows "floaters_move (tree_of s) (tree_of s')"
  using op set_focus_on_moves [OF wf] moves_eq [OF wf]
  unfolding seat_set_workspace_focus_def
  by (auto split: if_splits option.splits sway_node.splits)

lemma focus_layer_moves:
  assumes wf: "wf_sway s" and op: "seat_set_focus_layer sf i layer s = Some s'"
  shows "floaters_move (tree_of s) (tree_of s')"
proof -
  define s1 where "s1 = upd_seat i (seat_has_exclusive_layer_update (\<lambda>_. False)) (upd_seat i (seat_focused_layer_update (\<lambda>_. None)) s)"
  have t1: "tree_of s1 = tree_of s" by (simp add: s1_def)
  have two: "floaters_move (tree_of s) (tree_of s')" if b: "sf i None s1 \<bind> sf i n = Some s'" for n
  proof -
    obtain s2 where s2: "sf i None s1 = Some s2" "sf i n s2 = Some s'"
      using b unfolding Option.bind_eq_Some_conv by blast
    have "floaters_move (tree_of s1) (tree_of s2)" using moves [OF _ s2(1)] wf t1 by simp
    then have "floaters_move (tree_of s1) (tree_of s')" by (rule moves_chain) (rule moves [OF _ s2(2)])
    then show ?thesis by (simp add: t1)
  qed
  then show ?thesis using op moves_eq [OF wf] t1
    unfolding seat_set_focus_layer_def Let_def s1_def [symmetric]
    by (auto split: if_splits option.splits)
qed

lemma focus_step_moves:
  assumes wf: "wf_sway s" and op: "focus_step sf i node s = Some s'"
  shows "floaters_move (tree_of s) (tree_of s')"
proof -
  have layers: "floaters_move (tree_of s) (tree_of s2)"
    if "seat_set_focus_layer sf i l s = Some s1" "seat_set_workspace_focus sf i node s1 = Some s2" for l s1 s2
    using moves_chain [OF focus_layer_moves [OF wf that(1)]] workspace_focus_moves [OF _ that(2)] .
  have "floaters_move (tree_of s) (tree_of s3)"
    if "seat_set_focus_layer sf i l s = Some s1" "seat_set_workspace_focus sf i node s1 = Some s2"
      "seat_set_focus_layer sf i l' s2 = Some s3" for l l' s1 s2 s3
    using moves_chain [OF layers [OF that(1,2)]] focus_layer_moves [OF _ that(3)] .
  then show ?thesis using op layers workspace_focus_moves [OF wf]
    unfolding focus_step_def Let_def by (auto split: if_splits bind_splits)
qed

end

section \<open>The contract holds\<close>

lemma refocus_seat_set_focus: "refocus (seat_set_focus n)"
proof (induction n)
  case 0
  show ?case by (rule refocus.intro) simp
next
  case (Suc n)
  show ?case by (rule refocus.intro) (simp add: refocus.focus_step_moves [OF Suc.IH])
qed

interpretation focus: refocus "seat_set_focus n" for n
  by (rule refocus_seat_set_focus)

end
