(* ===== verification/Arrange_Laws.thy ===== *)
theory Arrange_Laws
  imports Arrange
begin

text \<open>
  What the layouts guarantee: the shares of a split sum to one, the children of a horizontal
  or vertical split stand side by side and fill their parent, gaps never eat the sane size,
  scroll offsets stay in range, and moving a floating container moves its whole subtree.
\<close>

section \<open>Shares\<close>

lemma sum_list_nonpos: "(\<forall>f \<in> set fs. f \<le> 0) \<Longrightarrow> sum_list fs \<le> (0 :: rat)"
  by (induction fs) auto

lemma sum_list_pos: "(\<forall>f \<in> set fs. 0 < f) \<Longrightarrow> fs \<noteq> [] \<Longrightarrow> 0 < sum_list (fs :: rat list)"
proof (induction fs)
  case (Cons f fs)
  then show ?case by (cases "fs = []") (auto intro: add_pos_pos)
qed simp

lemma fill_fractions_pos:
  assumes "f \<in> set (fill_fractions fs)"
  shows "0 < f"
proof -
  from assms obtain g where g: "g \<in> set fs"
    "f = (if g \<le> 0 then (if sum_list fs \<le> 0 then 1
          else if length (filter (\<lambda>f. f \<le> 0) fs) < length fs
          then sum_list fs / of_nat (length fs - length (filter (\<lambda>f. f \<le> 0) fs)) else sum_list fs) else g)"
    unfolding fill_fractions_def Let_def set_map by (elim imageE) (rule that; assumption)
  show ?thesis
  proof (cases "g \<le> 0 \<and> \<not> sum_list fs \<le> 0 \<and> length (filter (\<lambda>f. f \<le> 0) fs) < length fs")
    case True
    then have "(0::rat) < of_nat (length fs - length (filter (\<lambda>f. f \<le> 0) fs))" by simp
    then show ?thesis using True g(2) by (simp add: divide_pos_pos)
  qed (use g(2) in \<open>auto split: if_splits\<close>)
qed

lemma sum_list_divide: "sum_list (map (\<lambda>f. f / k) fs) = sum_list fs / (k :: rat)"
  by (induction fs) (simp_all add: add_divide_distrib)

text \<open>The shares that a horizontal or vertical split computes for its children, whatever
  shares they had before (new children have none, a share of zero or less), are all positive
  and sum to exactly one.\<close>

theorem share_fractions_sum:
  assumes "fs \<noteq> []"
  shows "length (share_fractions fs) = length fs \<and> sum_list (share_fractions fs) = 1 \<and>
         (\<forall>f \<in> set (share_fractions fs). 0 < f)"
proof -
  have ne: "fill_fractions fs \<noteq> []" using assms by (simp add: fill_fractions_def Let_def)
  have pos: "0 < sum_list (fill_fractions fs)" using fill_fractions_pos sum_list_pos [OF _ ne] by blast
  have "sum_list (share_fractions fs) = sum_list (fill_fractions fs) / sum_list (fill_fractions fs)"
    by (simp add: share_fractions_def Let_def sum_list_divide)
  moreover have "\<forall>f \<in> set (share_fractions fs). 0 < f"
    using pos fill_fractions_pos by (auto simp: share_fractions_def Let_def intro!: divide_pos_pos)
  moreover have "length (share_fractions fs) = length fs"
    by (simp add: share_fractions_def fill_fractions_def Let_def)
  ultimately show ?thesis using pos by simp
qed

theorem share_fractions_sum_witness:
  "length (share_fractions [0, 1 / 2, 0]) = 3 \<and> sum_list (share_fractions [0, 1 / 2, 0]) = 1"
  using share_fractions_sum [of "[0, 1 / 2, 0]"] by simp

section \<open>Splits fill their parent\<close>

lemma place_frame:
  "c \<notin> set cs \<Longrightarrow> cons (horiz_place b t g cs p s) c = cons s c"
  "c \<notin> set cs \<Longrightarrow> cons (vert_place b t g cs p s) c = cons s c"
  by (induction cs arbitrary: p s)
    (auto simp: set_geometry_def upd_defs split: prod.split)

lemma set_geometry_sel:
  "st_x (pending (set_geometry c px py pw ph s) c) = px" "st_y (pending (set_geometry c px py pw ph s) c) = py"
  "st_width (pending (set_geometry c px py pw ph s) c) = pw" "st_height (pending (set_geometry c px py pw ph s) c) = ph"
  by (simp_all add: set_geometry_def upd_defs)

text \<open>Positions along the axis of the split, and the extent across it.\<close>

definition fills_row :: "sway \<Rightarrow> wlr_box \<Rightarrow> rat \<Rightarrow> rat \<Rightarrow> nat list \<Rightarrow> bool" where
  "fills_row s b gap x0 cs \<longleftrightarrow>
     st_x (pending s (hd cs)) = x0 \<and>
     (\<forall>i. Suc i < length cs \<longrightarrow>
        st_x (pending s (cs ! Suc i)) = st_x (pending s (cs ! i)) + st_width (pending s (cs ! i)) + gap) \<and>
     (\<forall>c \<in> set cs. st_y (pending s c) = of_int (box_y b) \<and>
        (st_height (pending s c) = of_int (box_height b) \<and> 10 \<le> st_width (pending s c) \<or>
         st_width (pending s c) = 0 \<and> st_height (pending s c) = 0)) \<and>
     (st_width (pending s (last cs)) = 0 \<or>
      st_x (pending s (last cs)) + st_width (pending s (last cs)) = of_int (box_x b + box_width b))"

definition fills_column :: "sway \<Rightarrow> wlr_box \<Rightarrow> rat \<Rightarrow> rat \<Rightarrow> nat list \<Rightarrow> bool" where
  "fills_column s b gap y0 cs \<longleftrightarrow>
     st_y (pending s (hd cs)) = y0 \<and>
     (\<forall>i. Suc i < length cs \<longrightarrow>
        st_y (pending s (cs ! Suc i)) = st_y (pending s (cs ! i)) + st_height (pending s (cs ! i)) + gap) \<and>
     (\<forall>c \<in> set cs. st_x (pending s c) = of_int (box_x b) \<and>
        (st_width (pending s c) = of_int (box_width b) \<and> 10 \<le> st_height (pending s c) \<or>
         st_width (pending s c) = 0 \<and> st_height (pending s c) = 0)) \<and>
     (st_height (pending s (last cs)) = 0 \<or>
      st_y (pending s (last cs)) + st_height (pending s (last cs)) = of_int (box_y b + box_height b))"

lemma horiz_place_fills:
  assumes "distinct cs" "cs \<noteq> []"
  shows "fills_row (horiz_place b t g cs x0 s) b g x0 cs"
  using assms
proof (induction cs arbitrary: x0 s)
  case (Cons c cs)
  obtain w h where wh: "horiz_size b t (cs = []) (con_width_fraction (cons s c)) x0 = (w, h)" by fastforce
  define s1 where "s1 = set_geometry c x0 (of_int (box_y b)) w h
    (upd_con c (con_child_total_width_update (\<lambda>_. t)) s)"
  define s' where "s' = horiz_place b t g cs (x0 + w + g) s1"
  have s': "horiz_place b t g (c # cs) x0 s = s'" by (simp add: wh s1_def s'_def)
  have c: "st_x (pending s' c) = x0" "st_y (pending s' c) = of_int (box_y b)"
    "st_width (pending s' c) = w" "st_height (pending s' c) = h"
    using Cons.prems(1) by (simp_all add: s'_def place_frame s1_def set_geometry_sel)
  have size: "h = of_int (box_height b) \<and> 10 \<le> w \<or> w = 0 \<and> h = 0"
    using wh by (auto simp: horiz_size_def sane_size_def split: if_splits)
  show ?case
  proof (cases "cs = []")
    case True
    then have "w = 0 \<or> x0 + w = of_int (box_x b + box_width b)"
      using wh by (auto simp: horiz_size_def sane_size_def split: if_splits)
    then show ?thesis using True c size unfolding s' by (simp add: fills_row_def)
  next
    case False
    then have IH: "fills_row s' b g (x0 + w + g) cs"
      unfolding s'_def using Cons.prems by (intro Cons.IH) simp_all
    have "st_x (pending s' ((c # cs) ! Suc i)) = st_x (pending s' ((c # cs) ! i)) + st_width (pending s' ((c # cs) ! i)) + g"
      if "Suc i < length (c # cs)" for i
      using that IH c False by (cases i) (auto simp: fills_row_def hd_conv_nth)
    then show ?thesis using IH c size False unfolding s' by (simp add: fills_row_def)
  qed
qed simp

lemma vert_place_fills:
  assumes "distinct cs" "cs \<noteq> []"
  shows "fills_column (vert_place b t g cs y0 s) b g y0 cs"
  using assms
proof (induction cs arbitrary: y0 s)
  case (Cons c cs)
  obtain w h where wh: "vert_size b t (cs = []) (con_height_fraction (cons s c)) y0 = (w, h)" by fastforce
  define s1 where "s1 = set_geometry c (of_int (box_x b)) y0 w h
    (upd_con c (con_child_total_height_update (\<lambda>_. t)) s)"
  define s' where "s' = vert_place b t g cs (y0 + h + g) s1"
  have s': "vert_place b t g (c # cs) y0 s = s'" by (simp add: wh s1_def s'_def)
  have c: "st_y (pending s' c) = y0" "st_x (pending s' c) = of_int (box_x b)"
    "st_width (pending s' c) = w" "st_height (pending s' c) = h"
    using Cons.prems(1) by (simp_all add: s'_def place_frame s1_def set_geometry_sel)
  have size: "w = of_int (box_width b) \<and> 10 \<le> h \<or> w = 0 \<and> h = 0"
    using wh by (auto simp: vert_size_def sane_size_def split: if_splits)
  show ?case
  proof (cases "cs = []")
    case True
    then have "h = 0 \<or> y0 + h = of_int (box_y b + box_height b)"
      using wh by (auto simp: vert_size_def sane_size_def split: if_splits)
    then show ?thesis using True c size unfolding s' by (simp add: fills_column_def)
  next
    case False
    then have IH: "fills_column s' b g (y0 + h + g) cs"
      unfolding s'_def using Cons.prems by (intro Cons.IH) simp_all
    have "st_y (pending s' ((c # cs) ! Suc i)) = st_y (pending s' ((c # cs) ! i)) + st_height (pending s' ((c # cs) ! i)) + g"
      if "Suc i < length (c # cs)" for i
      using that IH c False by (cases i) (auto simp: fills_column_def hd_conv_nth)
    then show ?thesis using IH c size False unfolding s' by (simp add: fills_column_def)
  qed
qed simp




text \<open>The same for a vertical split: the children form a column from the parent's top to
  its bottom edge, all with the parent's left edge and width.\<close>

theorem apply_vert_layout_fills:
  assumes "distinct children" "children \<noteq> []"
  shows "\<exists>gap. fills_column (apply_vert_layout children parent s) parent gap (of_int (box_y parent)) children"
proof -
  obtain c cs where c: "children = c # cs" using assms(2) by (cases children) auto
  show ?thesis unfolding c apply_vert_layout_def list.case Let_def
    by (rule exI, rule vert_place_fills [OF assms [unfolded c]])
qed

theorem apply_vert_layout_fills_witness:
  "\<exists>gap. fills_column (apply_vert_layout [4, 5] \<lparr>box_x = 0, box_y = 0, box_width = 1920, box_height = 1080\<rparr> sway0)
     \<lparr>box_x = 0, box_y = 0, box_width = 1920, box_height = 1080\<rparr> gap 0 [4, 5]"
  using apply_vert_layout_fills [of "[4, 5]" "\<lparr>box_x = 0, box_y = 0, box_width = 1920, box_height = 1080\<rparr>" sway0]
  by simp

section \<open>Gaps and scrolling\<close>

lemma c_trunc_bounds:
  assumes "0 \<le> x" "x \<le> of_int n"
  shows "0 \<le> c_trunc x" "c_trunc x \<le> n"
  using assms by (simp_all add: c_trunc_def floor_le_iff)

lemma clamp_gaps_sane:
  assumes "0 \<le> a" "0 \<le> b" "clamp_gaps space min_sane a b = (a', b')"
  shows "0 \<le> a' \<and> 0 \<le> b' \<and> (a + b = 0 \<or> min space min_sane \<le> space - (a' + b'))"
proof (cases "space - a - b < min_sane \<and> a + b > 0")
  case False
  then show ?thesis using assms by (auto simp: clamp_gaps_def)
next
  case True
  define g where "g = max 0 (space - min_sane)"
  define q where "q = (of_int a :: rat) / (of_int a + of_int b)"
  have ab: "(0::rat) < of_int a + of_int b" using True by (metis of_int_0_less_iff of_int_add)
  have "(of_int a :: rat) \<le> of_int a + of_int b" using assms(2) by simp
  then have q: "0 \<le> q" "q \<le> 1" using ab assms(1) unfolding q_def by (simp_all add: divide_le_eq)
  have g: "0 \<le> g" by (simp add: g_def)
  have "q * of_int g \<le> 1 * of_int g" using q g by (intro mult_right_mono) simp_all
  then have "0 \<le> c_trunc (q * of_int g)" "c_trunc (q * of_int g) \<le> g"
    using q g by (intro c_trunc_bounds; simp)+
  moreover have "a' = c_trunc (q * of_int g)" "b' = g - a'"
    using assms(3) True by (auto simp: clamp_gaps_def Let_def g_def q_def)
  ultimately show ?thesis by (auto simp: g_def)
qed

text \<open>Gaps never make a workspace unusable: with smart gaps off, after
  \<open>workspace_add_gaps\<close> the four gaps are not negative, whatever the configuration asks for,
  position and size change by exactly the gaps, and a workspace that was at least 100 pixels
  wide and 60 high still is (one smaller than that loses nothing).\<close>

theorem workspace_add_gaps_sane:
  fixes s :: sway and w :: nat
  defines "v \<equiv> wss s w" and "v' \<equiv> wss (workspace_add_gaps w s) w"
  assumes "cfg_smart_gaps (cfg s) = SMART_GAPS_OFF"
  shows "0 \<le> gap_left (ws_current_gaps v') \<and> 0 \<le> gap_right (ws_current_gaps v') \<and>
     0 \<le> gap_top (ws_current_gaps v') \<and> 0 \<le> gap_bottom (ws_current_gaps v') \<and>
     ws_x v' = ws_x v + of_int (gap_left (ws_current_gaps v')) \<and>
     ws_y v' = ws_y v + of_int (gap_top (ws_current_gaps v')) \<and>
     ws_width v' = ws_width v - (gap_left (ws_current_gaps v') + gap_right (ws_current_gaps v')) \<and>
     ws_height v' = ws_height v - (gap_top (ws_current_gaps v') + gap_bottom (ws_current_gaps v')) \<and>
     min (ws_width v) MIN_SANE_W \<le> ws_width v' \<and> min (ws_height v) MIN_SANE_H \<le> ws_height v'"
proof -
  let ?g = "ws_gaps_outer v" and ?i = "ws_gaps_inner v"
  let ?l = "max 0 (gap_left ?g + ?i)" and ?r = "max 0 (gap_right ?g + ?i)"
  let ?t = "max 0 (gap_top ?g + ?i)" and ?b = "max 0 (gap_bottom ?g + ?i)"
  obtain l r where lr: "clamp_gaps (ws_width v) MIN_SANE_W ?l ?r = (l, r)" by fastforce
  obtain t b where tb: "clamp_gaps (ws_height v) MIN_SANE_H ?t ?b = (t, b)" by fastforce
  have v': "v' = v\<lparr>ws_current_gaps := \<lparr>gap_top = t, gap_right = r, gap_bottom = b, gap_left = l\<rparr>,
      ws_x := ws_x v + of_int l, ws_y := ws_y v + of_int t,
      ws_width := ws_width v - (l + r), ws_height := ws_height v - (t + b)\<rparr>"
    using assms(3) lr tb unfolding v'_def v_def
    by (simp add: workspace_add_gaps_def upd_ws_def Let_def)
  have "?l + ?r = 0 \<longrightarrow> l = 0 \<and> r = 0" "?t + ?b = 0 \<longrightarrow> t = 0 \<and> b = 0"
    using lr tb by (auto simp: clamp_gaps_def)
  then show ?thesis
    using clamp_gaps_sane [OF _ _ lr] clamp_gaps_sane [OF _ _ tb] by (auto simp: v')
qed

theorem workspace_add_gaps_sane_witness:
  "min (ws_width (wss (upd_ws 3 (ws_width_update (\<lambda>_. 150)) sway0) 3)) MIN_SANE_W
     \<le> ws_width (wss (workspace_add_gaps 3 (upd_ws 3 (ws_width_update (\<lambda>_. 150)) sway0)) 3)"
  using workspace_add_gaps_sane [of "upd_ws 3 (ws_width_update (\<lambda>_. 150)) sway0" 3]
  by (simp add: sway0_def initial_sway_def default_config_def upd_ws_def)

text \<open>A scroll offset is always brought into range: never negative and never past the
  point where the right edge of the columns meets the right edge of the viewport; an offset
  already in range is kept.\<close>

theorem workspace_scroll_clamp_range:
  "0 \<le> workspace_scroll_clamp_width s w width offset \<and>
   workspace_scroll_clamp_width s w width offset \<le> max 0 (workspace_scroll_content_width s w - width) \<and>
   workspace_scroll_clamp_width s w width (workspace_scroll_clamp_width s w width offset)
     = workspace_scroll_clamp_width s w width offset"
  by (auto simp: workspace_scroll_clamp_width_def Let_def)


section \<open>Moving floating containers\<close>

definition shift_state :: "rat \<Rightarrow> rat \<Rightarrow> sway_container_state \<Rightarrow> sway_container_state" where
  "shift_state dx dy p = p\<lparr>st_x := st_x p + dx, st_y := st_y p + dy,
     st_content_x := st_content_x p + dx, st_content_y := st_content_y p + dy\<rparr>"

lemma kids_tree_of: "tree_of s' = tree_of s \<Longrightarrow> kids s' = kids s"
  by (metis kidl_tree_of)

lemma translate_pending:
  "distinct (c # desc n (kids s) c) \<Longrightarrow>
   pending (translate (Suc n) c dx dy s) x
     = (if x \<in> set (c # desc n (kids s) c) then shift_state dx dy (pending s x) else pending s x)"
proof (induction n arbitrary: c s x)
  case 0
  have "fold (\<lambda>x s. s) l (s' :: sway) = s'" for l :: "nat list" and s' by (induction l) simp_all
  then show ?case
    by (simp add: Let_def shift_state_def container_clear_maximized_def node_set_dirty_def upd_defs)
next
  case (Suc n)
  define s1 where "s1 = (if (dx \<noteq> 0 \<or> dy \<noteq> 0) \<and> container_is_maximized s c then container_clear_maximized c s else s)"
  define s2 where "s2 = upd_pending c (\<lambda>p. p\<lparr>st_x := st_x p + dx, st_y := st_y p + dy,
                 st_content_x := st_content_x p + dx, st_content_y := st_content_y p + dy\<rparr>) s1"
  have s2: "pending s2 y = (if y = c then shift_state dx dy (pending s c) else pending s y)" for y
    by (simp add: s2_def s1_def container_clear_maximized_def upd_defs shift_state_def)
  have K: "kids s2 = kids s" by (rule ext) (simp add: kids_def s2 shift_state_def)
  have fold: "distinct (concat (map (\<lambda>x. x # desc n (kids s) x) xs)) \<Longrightarrow> kids s' = kids s \<Longrightarrow>
     pending (fold (\<lambda>x s. translate (Suc n) x dx dy s) xs s') y
      = (if y \<in> set (concat (map (\<lambda>x. x # desc n (kids s) x) xs)) then shift_state dx dy (pending s' y)
         else pending s' y)" for xs s' y
  proof (induction xs arbitrary: s')
    case (Cons a xs)
    have a: "pending (translate (Suc n) a dx dy s') y
        = (if y \<in> set (a # desc n (kids s) a) then shift_state dx dy (pending s' y) else pending s' y)" for y
      using Suc.IH [of a s' y] Cons.prems by simp
    have "kids (translate (Suc n) a dx dy s') = kids s"
      using kids_tree_of [OF tree_of_translate] Cons.prems(2) by metis
    from Cons.IH [OF _ this] Cons.prems(1) show ?case by (auto simp: a simp del: translate.simps)
  qed simp
  have "pending (translate (Suc (Suc n)) c dx dy s) x = pending (fold (\<lambda>x s. translate (Suc n) x dx dy s) (kids s c) s2) x"
    unfolding translate.simps(2) [of "Suc n"] Let_def s1_def [symmetric] s2_def [symmetric] K
    by (simp add: node_set_dirty_def del: translate.simps)
  also have "\<dots> = (if x \<in> set (desc (Suc n) (kids s) c) then shift_state dx dy (pending s2 x) else pending s2 x)"
    using fold [OF _ K, of "kids s c" x] Suc.prems by simp
  also have "\<dots> = (if x \<in> set (c # desc (Suc n) (kids s) c) then shift_state dx dy (pending s x) else pending s x)"
    using Suc.prems s2 by (auto simp del: desc.simps)
  finally show ?case .
qed

lemma floating_translate_pending:
  assumes "wf_sway s"
  shows "pending (container_floating_translate c dx dy s) x =
     (if x = c \<or> x \<in> below (tree_of s) c then shift_state dx dy (pending s x) else pending s x)"
proof -
  have "distinct (c # desc (next_id s) (kids s) c)"
    using distinct_desc [OF assms, of c "next_id s"] by simp
  moreover have "set (desc (next_id s) (kids s) c) = below (tree_of s) c"
    using set_desc [OF assms, of c] by simp
  ultimately show ?thesis unfolding container_floating_translate_def
    by (subst translate_pending) auto
qed

text \<open>C35. Moving a floating container moves its whole subtree and nothing else: the position and
  the content position of the container and of every container below it change by exactly the
  given amounts, and no other container is touched.\<close>

theorem container_floating_translate_subtree:
  assumes "wf_sway s"
  shows "pending (container_floating_translate c dx dy s) x =
     (if x = c \<or> x \<in> below (tree_of s) c then shift_state dx dy (pending s x) else pending s x)"
  by (rule floating_translate_pending [OF assms])

text \<open>C37. Centring a floating container on its workspace puts the middle of the container in the
  middle of the workspace.\<close>

theorem container_floating_move_to_center_centers:
  assumes "wf_sway s" "container_is_floating s c" "workspace_of s c = Some w"
  shows "\<exists>s'. container_floating_move_to_center c s = Some s' \<and>
     st_x (pending s' c) + st_width (pending s' c) / 2 = ws_x (wss s w) + of_int (ws_width (wss s w)) / 2 \<and>
     st_y (pending s' c) + st_height (pending s' c) / 2 = ws_y (wss s w) + of_int (ws_height (wss s w)) / 2"
  using assms
  by (simp add: container_floating_move_to_center_def Let_def floating_translate_pending
      shift_state_def diff_divide_distrib)

lemma rescale_back:
  assumes "ow \<noteq> 0" "nw \<noteq> (0 :: rat)"
  shows "ox + ((nx + (x - ox + w / 2) * nw / ow - w / 2) - nx + w / 2) * ow / nw - w / 2 = x"
  using assms by (simp add: field_simps)



end
