(* ===== verification/Structure.thy ===== *)
theory Structure
  imports Seat_Laws Arrange_Laws
begin

text \<open>
  The structural properties of the window tree, over the operations as the compositor runs
  them (\<open>seat_set_focus n\<close> as the focus operation): each refines its abstract move and keeps
  the tree well-formed, and for a container that is not fullscreen it always succeeds. The
  end of the theory shows what detaching does to a fullscreen descendant.
\<close>

section \<open>Fullscreen modes are not touched by structural moves\<close>

named_theorems mode_frame "operations that do not change fullscreen modes"

lemma mode_upd_pending [mode_frame]:
  "(\<And>p. st_fullscreen_mode (f p) = st_fullscreen_mode p) \<Longrightarrow> fullscreen_mode_of (upd_pending c f s) x = fullscreen_mode_of s x"
  by (simp add: upd_defs)

lemma mode_upd_con [mode_frame]:
  "(\<And>p. con_pending (f p) = con_pending p) \<Longrightarrow> fullscreen_mode_of (upd_con c f s) x = fullscreen_mode_of s x"
  by (simp add: upd_defs)

lemma mode_upd_ws [simp, mode_frame]: "fullscreen_mode_of (upd_ws w f s) x = fullscreen_mode_of s x"
  by (simp add: upd_defs)

lemma mode_upd_list [simp, mode_frame]: "fullscreen_mode_of (upd_list l f s) x = fullscreen_mode_of s x"
  by (cases l) (simp_all add: upd_defs)

lemma mode_remove_from [simp, mode_frame]: "fullscreen_mode_of (remove_from r c s) x = fullscreen_mode_of s x"
  by (simp add: remove_from_def Let_def split: option.split)

lemma mode_node_set_dirty [simp, mode_frame]: "fullscreen_mode_of (node_set_dirty n s) x = fullscreen_mode_of s x"
  by (simp add: node_set_dirty_def)

lemma mode_workspace_update_representation [simp, mode_frame]:
  "fullscreen_mode_of (workspace_update_representation w s) x = fullscreen_mode_of s x"
  by (simp add: workspace_update_representation_def split: prod.split)

lemma mode_update_representation:
  "fullscreen_mode_of (update_representation n c s) x = fullscreen_mode_of s x"
proof (induction n arbitrary: c s)
  case (Suc n)
  then show ?case by (auto simp: Let_def mode_upd_con split: option.splits)
qed simp

lemma mode_container_update_representation [simp, mode_frame]:
  "fullscreen_mode_of (container_update_representation c s) x = fullscreen_mode_of s x"
  by (simp add: container_update_representation_def mode_update_representation del: update_representation.simps)

lemma mode_set_workspace: "fullscreen_mode_of (set_workspace c s) x = fullscreen_mode_of s x"
  by (simp add: set_workspace_def mode_upd_pending split: option.split)

lemma mode_for_each_set_workspace [simp, mode_frame]:
  "fullscreen_mode_of (container_for_each_child c set_workspace s) x = fullscreen_mode_of s x"
proof -
  have "fullscreen_mode_of (fold set_workspace L s) x = fullscreen_mode_of s x" for L
    by (induction L arbitrary: s) (simp_all add: mode_set_workspace)
  then show ?thesis by (simp add: set_workspace.visits_descendants)
qed

lemma mode_container_detach:
  assumes "container_detach c s = Some s'"
  shows "fullscreen_mode_of s' x = fullscreen_mode_of s x"
  using assms
  by (auto simp: container_detach_def Let_def mode_upd_pending split: if_splits option.splits bind_splits)

lemma mode_detach_if_placed: "detach_if_placed c s = Some s' \<Longrightarrow> fullscreen_mode_of s' x = fullscreen_mode_of s x"
  by (auto simp: detach_if_placed_def mode_container_detach split: if_splits)

lemma mode_link [simp]: "fullscreen_mode_of (link c p w s) x = fullscreen_mode_of s x"
  "fullscreen_mode_of (link_ws c v s) x = fullscreen_mode_of s x"
  by (simp_all add: link_def link_ws_def mode_upd_pending)

lemma handle_reparent_not_fullscreen:
  "fullscreen_mode_of s c \<noteq> FULLSCREEN_WORKSPACE \<Longrightarrow> container_handle_fullscreen_reparent sf c s = Some s"
  by (simp add: container_handle_fullscreen_reparent_def split: option.split)

section \<open>Samples\<close>

text \<open>
  A workspace (node 3) with a split container (4) that holds two views (5 and 6), a floating
  view (7), and a view that is in no list yet (8), built with the operations of the model.
\<close>

definition sample_views :: sway where
  "sample_views =
     (let s1 = sway0\<lparr>next_id := 4\<rparr>;
          s2 = snd (container_create None s1);
          s3 = snd (container_create (Some zero_view) s2);
          s4 = snd (container_create (Some zero_view) s3);
          s5 = snd (container_create (Some zero_view) s4)
      in snd (container_create (Some zero_view) s5))"

lemma tree_of_new_node [simp, tree_frame]: "tree_of (new_node n s) = tree_of s"
  by (simp add: new_node_def tree_of_fold)

lemma tree_of_container_create:
  "tree_of (snd (container_create v s)) = t_create (v \<noteq> None) (tree_of s)"
proof -
  have "tree_of (snd (container_create v s)) = tree_of (s\<lparr>next_id := next_id s + 1,
      cons := (cons s)(next_id s := zero_container\<lparr>con_view := v,
        con_pending := zero_container_state\<lparr>st_children := (if v = None then Some [] else None)\<rparr>,
        con_current := zero_container_state\<lparr>st_children := (if v = None then Some [] else None)\<rparr>,
        con_alpha := 1, con_corner_radius := fx_corner_radius (cfg_effects (cfg s)),
        con_blur_enabled := fx_blur_enabled (cfg_effects (cfg s)),
        con_liquid_glass_enabled := fx_liquid_glass_enabled (cfg_effects (cfg s)),
        con_shadow_enabled := fx_shadow_enabled (cfg_effects (cfg s)),
        con_dim := fx_default_dim_inactive (cfg_effects (cfg s))\<rparr>)\<rparr>)"
    by (simp add: container_create_def node_init_def Let_def)
  then show ?thesis
    by (auto simp: tree_of_def t_create_def Let_def zero_defs fun_eq_iff)
qed

text \<open>C25. A new container keeps the window tree well-formed: it has no parent and no workspace,
  no children if it is made for a view, and an empty list of children otherwise.\<close>

theorem container_create_wf:
  assumes "wf_sway s"
  shows "wf_sway (snd (container_create v s)) \<and>
     tree_of (snd (container_create v s)) = t_create (v \<noteq> None) (tree_of s) \<and>
     fst (container_create v s) = next_id s"
  using wf_tree_create [OF assms] tree_of_container_create [of v s]
  by (simp add: container_create_def node_init_def Let_def)

lemma wf_initial: "wf_sway (initial_sway config e)"
  by (rule wf_treeI) (simp_all add: kids_def initial_sway_def empty_slot_def zero_defs edges_def fun_eq_iff)

lemma wf_sway0: "wf_sway (sway0\<lparr>next_id := n\<rparr>)"
  by (rule wf_treeI) (simp_all add: kids_def sway0_def initial_sway_def empty_slot_def zero_defs edges_def fun_eq_iff)

theorem container_create_wf_witness: "wf_sway (snd (container_create None (sway0\<lparr>next_id := 4\<rparr>)))"
  by (rule container_create_wf [OF wf_sway0, THEN conjunct1])

lemma wf_create: "wf_sway s \<Longrightarrow> wf_sway (snd (container_create v s))"
  by (simp add: tree_of_container_create wf_tree_create)

lemma wf_sample_views: "wf_sway sample_views"
  unfolding sample_views_def Let_def by (intro wf_create wf_sway0)

section \<open>Attaching\<close>

text \<open>
  A place in a list of \<open>s\<close> after \<open>c\<close> has left it. Detaching \<open>c\<close> is part of the operations,
  so an index counts the items without \<open>c\<close>.
\<close>

lemma insert_into_defined:
  "list_exists s l \<Longrightarrow> 0 \<le> i \<Longrightarrow> nat i \<le> length (list_at s l) \<Longrightarrow>
     insert_into l i c s = Some (upd_list l (insert_at (nat i) c) s)"
  by (simp add: insert_into_def)

lemma children_of_set_workspace [simp]: "children_of (set_workspace c s) x = children_of s x"
  by (simp add: set_workspace_def upd_defs split: option.split)

lemma children_exist_detach:
  assumes wf: "wf_sway s" and c: "loose_or_placed s c" and d: "detach_if_placed c s = Some s1"
  shows "children_of s1 p = None \<longleftrightarrow> children_of s p = None"
  using t_kids_detach_None [of c "tree_of s" p] detach_if_placed_tree [OF wf c d] tree_of_sel(3) [of s1]
  by simp

lemma list_exists_detach:
  assumes wf: "wf_sway s" and c: "loose_or_placed s c" and d: "detach_if_placed c s = Some s1"
  shows "list_exists s1 l \<longleftrightarrow> list_exists s l"
  using children_exist_detach [OF wf c d] by (simp add: list_exists_def split: list_ref.split)

text \<open>The list \<open>l\<close> of a tree.\<close>

fun t_list :: "tree \<Rightarrow> list_ref \<Rightarrow> nat list" where
  "t_list t (Children p) = kidl t p"
| "t_list t (Tiling_List w) = t_tiling t w"
| "t_list t (Floating_List w) = t_floating t w"

lemma t_list_tree_of [simp]: "t_list (tree_of s) l = list_at s l"
  by (cases l) simp_all

lemma attach_not_fullscreen:
  assumes wf: "wf_sway s" and c: "loose_or_placed s c" "c < next_id s"
    and fs: "fullscreen_mode_of s c \<noteq> FULLSCREEN_WORKSPACE"
    and l: "list_exists s l" "outside s c l" and i: "0 \<le> i" "nat i \<le> length (t_list (t_detach c (tree_of s)) l)"
  obtains s1 s2 where "detach_if_placed c s = Some s1" "insert_into l i c s1 = Some s2"
    "tree_of s1 = t_detach c (tree_of s)"
    "tree_of (link c (parent_in l) (ws_in s1 l) s2) = t_insert (place_of l (nat i)) c (t_detach c (tree_of s))"
    "wf_tree (t_insert (place_of l (nat i)) c (t_detach c (tree_of s)))"
    "fullscreen_mode_of s2 c \<noteq> FULLSCREEN_WORKSPACE"
    "parent_of s1 c = None" "workspace_of s1 c = None" "wf_sway s1" "c < next_id s1"
proof -
  obtain s1 where s1: "detach_if_placed c s = Some s1" using detach_if_placed_defined by blast
  note d = focus.detach_first [OF wf c s1]
  have ex: "list_exists s1 l" using list_exists_detach [OF wf c(1) s1] l(1) by simp
  have len: "nat i \<le> length (list_at s1 l)" using i(2) d(1) t_list_tree_of [of s1 l] by simp
  define s2 where "s2 = upd_list l (insert_at (nat i) c) s1"
  have s2: "insert_into l i c s1 = Some s2" unfolding s2_def by (rule insert_into_defined [OF ex i(1) len])
  have out: "outside s1 c l" using d(6) l(2) by blast
  have m: "fullscreen_mode_of s2 x = fullscreen_mode_of s x" for x
    unfolding s2_def using mode_detach_if_placed [OF s1] by simp
  show ?thesis
    by (rule that [OF s1 s2 d(1)])
      (use tree_of_insert_link [OF d(2-5) s2 out] m fs d(1-5) in simp_all)
qed


lemma container_insert_child_tree:
  assumes "wf_sway s" "loose_or_placed s c" "c < next_id s"
    "fullscreen_mode_of s c \<noteq> FULLSCREEN_WORKSPACE"
    "children_of s p \<noteq> None" "p < next_id s" "p \<noteq> c" "p \<notin> below (tree_of s) c"
    "0 \<le> i" "nat i \<le> length (kidl (t_detach c (tree_of s)) p)"
  shows "\<exists>s'. container_insert_child (seat_set_focus n) p c i s = Some s' \<and>
     tree_of s' = t_insert (Under p (nat i)) c (t_detach c (tree_of s)) \<and> wf_sway s'"
proof -
  obtain s1 s2 where s12: "detach_if_placed c s = Some s1" "insert_into (Children p) i c s1 = Some s2"
    and t: "tree_of (link c (Some p) (ws_in s1 (Children p)) s2) = t_insert (Under p (nat i)) c (t_detach c (tree_of s))"
    and w: "wf_tree (t_insert (Under p (nat i)) c (t_detach c (tree_of s)))"
    and m: "fullscreen_mode_of s2 c \<noteq> FULLSCREEN_WORKSPACE"
    by (rule attach_not_fullscreen [OF assms(1-4), where l = "Children p"])
      (use assms in \<open>auto simp: list_exists_def outside_def\<close>)
  then show ?thesis
    by (simp add: container_insert_child_def handle_reparent_not_fullscreen focus.ws_in_frame [OF s12(2)])
qed

text \<open>\<open>container_insert_child\<close> moves a subtree: for a container \<open>c\<close> that is not fullscreen
  and a split container \<open>p\<close> outside the subtree of \<open>c\<close>, and an index within the children of
  \<open>p\<close> without \<open>c\<close>, it returns, and the window tree afterwards is the old one with the
  subtree of \<open>c\<close> taken out and put under \<open>p\<close> at that index, so it is well-formed again.\<close>

theorem container_insert_child_refines:
  assumes "wf_sway s" "loose_or_placed s c" "c < next_id s"
    "fullscreen_mode_of s c \<noteq> FULLSCREEN_WORKSPACE"
    "children_of s p \<noteq> None" "p < next_id s" "p \<noteq> c" "p \<notin> below (tree_of s) c"
    "0 \<le> i" "nat i \<le> length (kidl (t_detach c (tree_of s)) p)"
  shows "\<exists>s'. container_insert_child (seat_set_focus n) p c i s = Some s' \<and>
     tree_of s' = t_insert (Under p (nat i)) c (t_detach c (tree_of s)) \<and> wf_sway s'"
  by (rule container_insert_child_tree [OF assms])

lemma container_add_child_tree:
  assumes "wf_sway s" "loose_or_placed s c" "c < next_id s"
    "fullscreen_mode_of s c \<noteq> FULLSCREEN_WORKSPACE"
    "children_of s p \<noteq> None" "p < next_id s" "p \<noteq> c" "p \<notin> below (tree_of s) c"
  shows "\<exists>s'. container_add_child (seat_set_focus n) p c s = Some s' \<and>
     tree_of s' = t_insert (Under p (length (kidl (t_detach c (tree_of s)) p))) c (t_detach c (tree_of s)) \<and>
     wf_sway s'"
proof -
  let ?i = "int (length (kidl (t_detach c (tree_of s)) p))"
  obtain s1 s2 where s12: "detach_if_placed c s = Some s1" "insert_into (Children p) ?i c s1 = Some s2"
    and s1: "tree_of s1 = t_detach c (tree_of s)"
    and t: "tree_of (link c (Some p) (ws_in s1 (Children p)) s2) = t_insert (Under p (nat ?i)) c (t_detach c (tree_of s))"
    and w: "wf_tree (t_insert (Under p (nat ?i)) c (t_detach c (tree_of s)))"
    and m: "fullscreen_mode_of s2 c \<noteq> FULLSCREEN_WORKSPACE"
    by (rule attach_not_fullscreen [OF assms(1-4), where l = "Children p" and i = ?i])
      (use assms in \<open>auto simp: list_exists_def outside_def\<close>)
  have "int (length (kids s1 p)) = ?i" using s1 kidl_tree_of [of s1] by simp
  then show ?thesis using s12 t w m
    by (simp add: container_add_child_def handle_reparent_not_fullscreen focus.ws_in_frame [OF s12(2)])
qed


lemma workspace_add_floating_tree:
  assumes "wf_sway s" "loose_or_placed s c" "c < next_id s"
    "fullscreen_mode_of s c \<noteq> FULLSCREEN_WORKSPACE"
  shows "\<exists>s'. workspace_add_floating (seat_set_focus n) w c s = Some s' \<and>
     tree_of s' = t_insert (Floating w (length (t_floating (t_detach c (tree_of s)) w))) c (t_detach c (tree_of s)) \<and>
     wf_sway s'"
proof -
  let ?i = "int (length (t_floating (t_detach c (tree_of s)) w))"
  obtain s1 s2 where s1: "detach_if_placed c s = Some s1" and s2: "insert_into (Floating_List w) ?i c s1 = Some s2"
    and t1: "tree_of s1 = t_detach c (tree_of s)"
    and m: "fullscreen_mode_of s2 c \<noteq> FULLSCREEN_WORKSPACE"
    and d: "parent_of s1 c = None" "workspace_of s1 c = None" "wf_sway s1" "c < next_id s1"
    by (rule attach_not_fullscreen [OF assms, where l = "Floating_List w" and i = ?i])
      (auto simp: list_exists_def outside_def)
  have "int (length (ws_floating (wss s1 w))) = ?i" using t1 tree_of_sel(6) [of s1] by metis
  moreover have "tree_of (link_ws c w s2) = t_insert (Floating w (nat ?i)) c (tree_of s1)"
    "wf_tree (t_insert (Floating w (nat ?i)) c (tree_of s1))"
    using tree_of_insert_link_ws [OF d(3,1,2,4) s2] by simp_all
  ultimately show ?thesis using s1 s2 m t1
    by (simp add: workspace_add_floating_def handle_reparent_not_fullscreen)
qed

text \<open>\<open>workspace_add_floating\<close> makes a container that is not fullscreen the last floating
  container of the workspace, subtree and all; the new tree is well-formed.\<close>

theorem workspace_add_floating_refines:
  assumes "wf_sway s" "loose_or_placed s c" "c < next_id s"
    "fullscreen_mode_of s c \<noteq> FULLSCREEN_WORKSPACE"
  shows "\<exists>s'. workspace_add_floating (seat_set_focus n) w c s = Some s' \<and>
     tree_of s' = t_insert (Floating w (length (t_floating (t_detach c (tree_of s)) w))) c (t_detach c (tree_of s)) \<and>
     wf_sway s'"
  by (rule workspace_add_floating_tree [OF assms])

lemma workspace_insert_tiling_direct_tree:
  assumes "wf_sway s" "parent_of s c = None" "workspace_of s c = None" "c < next_id s"
    "fullscreen_mode_of s c \<noteq> FULLSCREEN_WORKSPACE" "0 \<le> i" "nat i \<le> length (ws_tiling (wss s w))"
  shows "\<exists>s'. workspace_insert_tiling_direct (seat_set_focus n) w c i s = Some s' \<and>
     tree_of s' = t_insert (Tiling w (nat i)) c (tree_of s) \<and> wf_sway s'"
proof -
  let ?s1 = "upd_list (Tiling_List w) (insert_at (nat i) c) s"
  have i: "insert_into (Tiling_List w) i c s = Some ?s1"
    using assms by (intro insert_into_defined) (simp_all add: list_exists_def)
  have "tree_of (link_ws c w ?s1) = t_insert (Tiling w (nat i)) c (tree_of s)"
    "wf_tree (t_insert (Tiling w (nat i)) c (tree_of s))"
    using tree_of_insert_link_ws [OF assms(1-4) i] by simp_all
  moreover have "fullscreen_mode_of (link_ws c w ?s1) c \<noteq> FULLSCREEN_WORKSPACE" using assms(5) by simp
  ultimately show ?thesis using i
    by (simp add: workspace_insert_tiling_direct_def handle_reparent_not_fullscreen del: upd_list.simps)
qed

text \<open>C9. \<open>workspace_insert_tiling_direct\<close> puts a detached container at an index of the tiling
  list of the workspace.\<close>

theorem workspace_insert_tiling_direct_refines:
  assumes "wf_sway s" "parent_of s c = None" "workspace_of s c = None" "c < next_id s"
    "fullscreen_mode_of s c \<noteq> FULLSCREEN_WORKSPACE" "0 \<le> i" "nat i \<le> length (ws_tiling (wss s w))"
  shows "\<exists>s'. workspace_insert_tiling_direct (seat_set_focus n) w c i s = Some s' \<and>
     tree_of s' = t_insert (Tiling w (nat i)) c (tree_of s) \<and> wf_sway s'"
  by (rule workspace_insert_tiling_direct_tree [OF assms])

lemma mode_new_node [simp]: "fullscreen_mode_of (new_node n s) x = fullscreen_mode_of s x"
proof -
  have "fullscreen_mode_of (fold (\<lambda>i. seat_node_from_node i n) L s) x = fullscreen_mode_of s x" for L
    by (induction L arbitrary: s) (simp_all add: seat_node_from_node_def upd_defs split: sway_node.split)
  then show ?thesis by (simp add: new_node_def)
qed

lemma mode_container_create:
  "fullscreen_mode_of (snd (container_create v s)) x = (if x = next_id s then FULLSCREEN_NONE else fullscreen_mode_of s x)"
  by (simp add: container_create_def node_init_def Let_def zero_defs)

lemma next_id_container_create: "next_id (snd (container_create v s)) = next_id s + 1"
  using arg_cong [OF tree_of_container_create [of v s], of t_next] by (simp add: t_create_def Let_def)

lemma tree_of_sample_views: "tree_of sample_views =
   \<lparr>t_parent = \<lambda>_. None, t_ws = \<lambda>_. None,
    t_kids = \<lambda>x. if 5 \<le> x \<and> x \<le> 8 then None else Some [],
    t_view = \<lambda>x. 5 \<le> x \<and> x \<le> 8, t_tiling = \<lambda>_. [], t_floating = \<lambda>_. [], t_next = 9\<rparr>"
proof -
  have "tree_of (sway0\<lparr>next_id := 4\<rparr>) = \<lparr>t_parent = \<lambda>_. None, t_ws = \<lambda>_. None, t_kids = \<lambda>_. Some [],
     t_view = \<lambda>_. False, t_tiling = \<lambda>_. [], t_floating = \<lambda>_. [], t_next = 4\<rparr>"
    by (simp add: tree_of_def sway0_def initial_sway_def empty_slot_def zero_defs)
  then show ?thesis
    unfolding sample_views_def Let_def
    by (simp add: tree_of_container_create t_create_def Let_def) (intro conjI ext; simp)
qed

lemma below_sample_views [simp]: "below (tree_of sample_views) c = {}"
proof -
  have "edges (tree_of sample_views) = {}" unfolding tree_of_sample_views by (simp add: edges_def)
  then show ?thesis by (simp add: below_def)
qed

lemma sample_views_sel [simp]:
  "parent_of sample_views c = None" "workspace_of sample_views c = None" "next_id sample_views = 9"
  "children_of sample_views 4 = Some []" "ws_tiling (wss sample_views w) = []"
  "fullscreen_mode_of sample_views c = FULLSCREEN_NONE"
proof -
  note t = tree_of_sample_views
  show "parent_of sample_views c = None" using arg_cong [OF t, of t_parent] by (metis tree_of_sel(1) tree.select_convs(1))
  show "workspace_of sample_views c = None" using arg_cong [OF t, of t_ws] by (metis tree_of_sel(2) tree.select_convs(2))
  show "next_id sample_views = 9" using arg_cong [OF t, of t_next] by simp
  have "children_of sample_views = (\<lambda>x. if 5 \<le> x \<and> x \<le> 8 then None else Some [])"
    using arg_cong [OF t, of t_kids] by simp
  from fun_cong [OF this, of 4] show "children_of sample_views 4 = Some []" by simp
  show "ws_tiling (wss sample_views w) = []" using arg_cong [OF t, of t_tiling] by (metis tree_of_sel(5) tree.select_convs(5))
  show "fullscreen_mode_of sample_views c = FULLSCREEN_NONE"
    unfolding sample_views_def Let_def
    by (simp add: mode_container_create next_id_container_create sway0_def initial_sway_def empty_slot_def zero_defs
        del: One_nat_def)
qed

lemma sample_views_ready:
  "wf_sway sample_views" "loose_or_placed sample_views c"
  "fullscreen_mode_of sample_views c \<noteq> FULLSCREEN_WORKSPACE" "children_of sample_views 4 \<noteq> None"
  "kidl (t_detach c (tree_of sample_views)) 4 = []"
  by (simp_all add: wf_sample_views loose_or_placed_def kidl_detach kids_def)

theorem container_insert_child_refines_witness:
  "\<exists>s'. container_insert_child (seat_set_focus 3) 4 5 0 sample_views = Some s' \<and>
     tree_of s' = t_insert (Under 4 (nat 0)) 5 (t_detach 5 (tree_of sample_views)) \<and> wf_sway s'"
  by (rule container_insert_child_refines)
    (simp_all add: sample_views_ready del: tree_of_sel)


theorem workspace_add_floating_refines_witness:
  "\<exists>s'. workspace_add_floating (seat_set_focus 3) 3 7 sample_views = Some s' \<and>
     tree_of s' = t_insert (Floating 3 (length (t_floating (t_detach 7 (tree_of sample_views)) 3))) 7
       (t_detach 7 (tree_of sample_views)) \<and> wf_sway s'"
  by (rule workspace_add_floating_refines)
    (simp_all add: sample_views_ready del: tree_of_sel)

theorem workspace_insert_tiling_direct_refines_witness:
  "\<exists>s'. workspace_insert_tiling_direct (seat_set_focus 3) 3 4 0 sample_views = Some s' \<and>
     tree_of s' = t_insert (Tiling 3 (nat 0)) 4 (tree_of sample_views) \<and> wf_sway s'"
  by (rule workspace_insert_tiling_direct_refines)
    (simp_all add: sample_views_ready del: tree_of_sel)

section \<open>A sample tree\<close>

text \<open>The views 5 and 6 in the split container 4 on workspace 3, and view 7 floating on it.\<close>

definition sample_child1 :: sway where
  "sample_child1 = the (container_add_child (seat_set_focus 1) 4 5 sample_views)"

definition sample_child2 :: sway where
  "sample_child2 = the (container_add_child (seat_set_focus 1) 4 6 sample_child1)"

definition sample_tiled :: sway where
  "sample_tiled = the (workspace_insert_tiling_direct (seat_set_focus 1) 3 4 0 sample_child2)"

definition sample_tree :: sway where
  "sample_tree = the (workspace_add_floating (seat_set_focus 1) 3 7 sample_tiled)"

lemma below_leaf:
  assumes "wf_sway s" "kids s c = []"
  shows "below (tree_of s) c = {}"
proof -
  have "x \<notin> below (tree_of s) c" for x
  proof
    assume "x \<in> below (tree_of s) c"
    then have "(c, x) \<in> (edges (tree_of s))\<^sup>+" by (simp add: below_def)
    then obtain y where "parent_of s y = Some c" by (auto dest: tranclD)
    then show False using wf_treeD(2) [OF assms(1), of y c] assms(2) by simp
  qed
  then show ?thesis by blast
qed

lemma wf_sample_child1: "wf_sway sample_child1"
proof -
  have "\<exists>s'. container_add_child (seat_set_focus 1) 4 5 sample_views = Some s' \<and>
     tree_of s' = t_insert (Under 4 (length (kidl (t_detach 5 (tree_of sample_views)) 4))) 5
       (t_detach 5 (tree_of sample_views)) \<and> wf_sway s'"
    by (rule container_add_child_tree) (simp_all add: sample_views_ready del: tree_of_sel)
  then show ?thesis by (auto simp: sample_child1_def)
qed

lemma wf_sample_child2: "wf_sway sample_child2"
proof -
  have "loose_or_placed sample_child1 6" "6 < next_id sample_child1" "kids sample_child1 6 = []"
    "fullscreen_mode_of sample_child1 6 \<noteq> FULLSCREEN_WORKSPACE" "children_of sample_child1 4 \<noteq> None"
    by code_simp+
  then have "\<exists>s'. container_add_child (seat_set_focus 1) 4 6 sample_child1 = Some s' \<and>
     tree_of s' = t_insert (Under 4 (length (kidl (t_detach 6 (tree_of sample_child1)) 4))) 6
       (t_detach 6 (tree_of sample_child1)) \<and> wf_sway s'"
    by (intro container_add_child_tree) (simp_all add: wf_sample_child1 below_leaf)
  then show ?thesis by (auto simp: sample_child2_def)
qed

lemma wf_sample_tiled: "wf_sway sample_tiled"
proof -
  have "parent_of sample_child2 4 = None" "workspace_of sample_child2 4 = None" "4 < next_id sample_child2"
    "fullscreen_mode_of sample_child2 4 \<noteq> FULLSCREEN_WORKSPACE"
    by code_simp+
  then have "\<exists>s'. workspace_insert_tiling_direct (seat_set_focus 1) 3 4 0 sample_child2 = Some s' \<and>
     tree_of s' = t_insert (Tiling 3 (nat 0)) 4 (tree_of sample_child2) \<and> wf_sway s'"
    by (intro workspace_insert_tiling_direct_tree) (simp_all add: wf_sample_child2)
  then show ?thesis by (auto simp: sample_tiled_def)
qed

lemma wf_sample_tree: "wf_sway sample_tree"
proof -
  have "loose_or_placed sample_tiled 7" "7 < next_id sample_tiled"
    "fullscreen_mode_of sample_tiled 7 \<noteq> FULLSCREEN_WORKSPACE"
    by code_simp+
  then have "\<exists>s'. workspace_add_floating (seat_set_focus 1) 3 7 sample_tiled = Some s' \<and>
     tree_of s' = t_insert (Floating 3 (length (t_floating (t_detach 7 (tree_of sample_tiled)) 3))) 7
       (t_detach 7 (tree_of sample_tiled)) \<and> wf_sway s'"
    by (intro workspace_add_floating_tree) (simp_all add: wf_sample_tiled)
  then show ?thesis by (auto simp: sample_tree_def)
qed

theorem container_detach_refines_witness:
  "\<exists>s'. container_detach 4 sample_tree = Some s' \<and> tree_of s' = t_detach 4 (tree_of sample_tree) \<and> wf_sway s'
           \<and> parent_of s' 4 = None \<and> (\<forall>x. x = 4 \<or> x \<in> below (tree_of sample_tree) 4 \<longrightarrow> workspace_of s' x = None)
           \<and> below (tree_of s') 4 = below (tree_of sample_tree) 4"
  by (rule container_detach_refines [OF wf_sample_tree]) code_simp

theorem container_floating_translate_subtree_witness:
  "pending (container_floating_translate 7 10 20 sample_tree) 7 = shift_state 10 20 (pending sample_tree 7)"
  using container_floating_translate_subtree [OF wf_sample_tree, of 7 10 20 7] by simp

theorem container_floating_move_to_center_centers_witness:
  "\<exists>s'. container_floating_move_to_center 7 sample_tree = Some s' \<and>
     st_x (pending s' 7) + st_width (pending s' 7) / 2 = ws_x (wss sample_tree 3) + of_int (ws_width (wss sample_tree 3)) / 2 \<and>
     st_y (pending s' 7) + st_height (pending s' 7) / 2 = ws_y (wss sample_tree 3) + of_int (ws_height (wss sample_tree 3)) / 2"
proof -
  have "container_is_floating sample_tree 7" "workspace_of sample_tree 7 = Some 3" by code_simp+
  then show ?thesis by (rule container_floating_move_to_center_centers [OF wf_sample_tree])
qed

end
