(* ===== verification/Focus_Laws.thy ===== *)
theory Focus_Laws
  imports Structure
begin

text \<open>
  What focusing a container does: \<open>seat_set_focus\<close> returns after one call, the container and
  its parents are on top of the focus stack in order, its workspace is the visible one of its
  output, and nothing of the tree changes. The two ancestor tests of the code,
  \<open>node_has_ancestor\<close> and \<open>container_has_ancestor\<close>, agree.
\<close>

section \<open>Walking up the nodes\<close>

lemma ancestor_walk_anc:
  "length (anc n (parent_of s) c) < n \<Longrightarrow>
   ancestor_walk n s (node_get_parent s (N_CONTAINER c)) (N_CONTAINER a) \<longleftrightarrow> a \<in> set (anc n (parent_of s) c)"
proof (induction n arbitrary: c)
  case (Suc n)
  have top: "\<not> ancestor_walk m s (Some (N_WORKSPACE w)) (N_CONTAINER a)" for m w
  proof (cases m)
    case (Suc k)
    have "\<not> ancestor_walk k s (map_option N_OUTPUT out) (N_CONTAINER a)" for out
    proof (cases k)
      case (Suc l)
      have "\<not> ancestor_walk l s (Some N_ROOT) (N_CONTAINER a)"
        by (cases l; simp; cases "l - 1"; simp)
      then show ?thesis by (cases out) (simp_all add: Suc)
    qed simp
    then show ?thesis by (simp add: Suc)
  qed simp
  have none: "\<not> ancestor_walk m s (map_option N_WORKSPACE w) (N_CONTAINER a)" for m w
    using top by (cases w; cases m) auto
  show ?case
  proof (cases "parent_of s c")
    case None
    then show ?thesis using none [of "Suc n"] by simp
  next
    case (Some p)
    then have "length (anc n (parent_of s) p) < n" using Suc.prems by simp
    from Suc.IH [OF this] show ?thesis using Some by auto
  qed
qed simp

lemma node_has_ancestor_below:
  assumes wf: "wf_sway s"
  shows "node_has_ancestor s (N_CONTAINER c) (N_CONTAINER a) \<longleftrightarrow> c \<in> below (tree_of s) a"
proof -
  have enough: "anc (next_id s + k) (parent_of s) c = anc (next_id s) (parent_of s) c" for k
    using anc_enough [OF wf, of "next_id s + k" c] anc_enough [OF wf, of "next_id s" c] by simp
  have len: "length (anc (next_id s) (parent_of s) c) \<le> next_id s"
    using anc_length [OF wf, of "next_id s" c] by simp
  have "node_has_ancestor s (N_CONTAINER c) (N_CONTAINER a) \<longleftrightarrow> a \<in> set (anc (next_id s + 4) (parent_of s) c)"
    unfolding node_has_ancestor_def using ancestor_walk_anc [of "next_id s + 4" s c a] enough [of 4] len
    by (simp del: ancestor_walk.simps anc.simps node_get_parent.simps)
  also have "\<dots> \<longleftrightarrow> c \<in> below (tree_of s) a"
    using enough [of 4] set_anc [OF wf, of a c] by simp
  finally show ?thesis .
qed

text \<open>The two ancestor tests agree on containers: walking the nodes with a bound
  (\<open>node_has_ancestor\<close>) and walking the parent pointers (\<open>container_has_ancestor\<close>) both decide
  whether the container is below the other in the tree.\<close>

theorem node_has_ancestor_container:
  assumes "wf_sway s"
  shows "(node_has_ancestor s (N_CONTAINER c) (N_CONTAINER a) \<longleftrightarrow> container_has_ancestor s (Some c) a) \<and>
    (container_has_ancestor s (Some c) a \<longleftrightarrow> c \<in> below (tree_of s) a)"
  using node_has_ancestor_below [OF assms] set_ancestors [OF assms, of a c]
  by (simp_all add: container_has_ancestor_def)

theorem node_has_ancestor_container_witness:
  "(node_has_ancestor sample_tree (N_CONTAINER 5) (N_CONTAINER 4) \<longleftrightarrow> container_has_ancestor sample_tree (Some 5) 4) \<and>
    (container_has_ancestor sample_tree (Some 5) 4 \<longleftrightarrow> 5 \<in> below (tree_of sample_tree) 4) \<and>
    container_has_ancestor sample_tree (Some 5) 4"
proof -
  have "container_has_ancestor sample_tree (Some 5) 4" by code_simp
  then show ?thesis using node_has_ancestor_container [OF wf_sample_tree, of 5 4] by simp
qed

section \<open>The focus stack\<close>

text \<open>Only the focus stack of the seat and the dirty flags change.\<close>

definition only_seat :: "nat \<Rightarrow> sway \<Rightarrow> sway \<Rightarrow> bool" where
  "only_seat i s s' \<longleftrightarrow> (\<exists>f d l. s' = (upd_seat i f s)\<lparr>node_dirty := d, dirty_nodes := l\<rparr>)"

lemma only_seat_refl: "only_seat i s s"
  unfolding only_seat_def by (rule exI [of _ id]) (cases s, simp add: upd_seat_def)

lemma only_seat_trans: "only_seat i s u \<Longrightarrow> only_seat i u v \<Longrightarrow> only_seat i s v"
proof -
  assume "only_seat i s u" "only_seat i u v"
  then obtain f d l f' d' l' where "u = (upd_seat i f s)\<lparr>node_dirty := d, dirty_nodes := l\<rparr>"
    "v = (upd_seat i f' u)\<lparr>node_dirty := d', dirty_nodes := l'\<rparr>" by (auto simp: only_seat_def)
  then have "v = (upd_seat i (f' \<circ> f) s)\<lparr>node_dirty := d', dirty_nodes := l'\<rparr>"
    by (cases s) (simp add: upd_seat_def)
  then show ?thesis unfolding only_seat_def by blast
qed

lemma only_seat_upd: "only_seat i s (upd_seat i f s)"
  unfolding only_seat_def
  by (rule exI [of _ f], rule exI [of _ "node_dirty s"], rule exI [of _ "dirty_nodes s"])
    (cases s, simp add: upd_seat_def)

lemma only_seat_dirty: "only_seat i s (node_set_dirty n s)"
proof -
  have "node_set_dirty n s = (upd_seat i id s)\<lparr>node_dirty := (node_dirty s)(n := True),
      dirty_nodes := (if node_dirty s n then dirty_nodes s else dirty_nodes s @ [n])\<rparr>"
    by (cases s) (auto simp: node_set_dirty_def upd_seat_def fun_eq_iff)
  then show ?thesis unfolding only_seat_def by blast
qed

lemma only_seat_sel:
  assumes "only_seat i s s'"
  shows "cons s' = cons s" "wss s' = wss s" "outs s' = outs s" "next_id s' = next_id s" "cfg s' = cfg s"
    "env s' = env s" "root_outputs s' = root_outputs s" "root_scratchpad s' = root_scratchpad s"
    "fullscreen_global s' = fullscreen_global s" "seat_ids s' = seat_ids s" "current_seat s' = current_seat s"
    "node_destroying s' = node_destroying s" "j \<noteq> i \<Longrightarrow> seats s' j = seats s j"
    "fallback_output s' = fallback_output s" "tree_of s' = tree_of s"
  using assms by (auto simp: only_seat_def upd_seat_def tree_of_def)

lemma only_seat_node_from_node: "only_seat i s (seat_node_from_node i n s)"
  by (auto simp: seat_node_from_node_def intro: only_seat_refl only_seat_upd split: sway_node.split)

lemmas only_seat_steps = only_seat_trans [OF _ only_seat_dirty] only_seat_trans [OF _ only_seat_upd]
  only_seat_trans [OF _ only_seat_node_from_node]

lemma only_seat_raw_focus: "only_seat i s (seat_set_raw_focus i n s)"
  unfolding seat_set_raw_focus_def Let_def
  by (auto intro!: only_seat_steps only_seat_refl split: option.split sway_node.split
      simp del: node_get_parent.simps)

lemma seats_node_set_dirty [simp]: "seats (node_set_dirty n s) = seats s"
  by (simp add: node_set_dirty_def)

text \<open>Raising a container or workspace puts it first and keeps the order of the others.\<close>

fun focusable :: "sway_node \<Rightarrow> bool" where
  "focusable (N_CONTAINER c) = True"
| "focusable (N_WORKSPACE w) = True"
| "focusable _ = False"

lemma seat_raw_focus:
  assumes "focusable n"
  shows "seats (seat_set_raw_focus i (Some n) s) i =
    focus_stack_update (\<lambda>st. n # remove1 n st) (seats s i)"
proof -
  have d: "seats (case node_get_parent u k of Some p \<Rightarrow> node_set_dirty p u | None \<Rightarrow> u) = seats u" for u k
    by (simp split: option.split)
  have "n # remove1 n (focus_stack (seats (seat_node_from_node i n s) i))
      = n # remove1 n (focus_stack (seats s i))"
    using assms by (cases n) (simp_all add: seat_node_from_node_def upd_seat_def remove1_append remove1_idem)
  then have "seats (upd_seat i (focus_stack_update (\<lambda>st. n # remove1 n st)) (seat_node_from_node i n s)) i
      = focus_stack_update (\<lambda>st. n # remove1 n st) (seats s i)"
    using assms by (cases n) (auto simp: seat_node_from_node_def upd_seat_def intro!: sway_seat.equality)
  then show ?thesis
    using assms by (cases n) (simp_all add: seat_set_raw_focus_def Let_def d del: node_get_parent.simps)
qed

definition raise_nodes :: "sway_node list \<Rightarrow> sway_node list \<Rightarrow> sway_node list" where
  "raise_nodes xs st = fold (\<lambda>n st. n # remove1 n st) xs st"

lemma raise_nodes_filter:
  "distinct xs \<Longrightarrow> distinct st \<Longrightarrow> raise_nodes xs st = rev xs @ filter (\<lambda>n. n \<notin> set xs) st"
proof (induction xs arbitrary: st)
  case Nil
  then show ?case by (simp add: raise_nodes_def)
next
  case (Cons x xs)
  have "raise_nodes (x # xs) st = raise_nodes xs (x # filter (\<lambda>n. n \<noteq> x) st)"
    using Cons.prems(2) by (simp add: raise_nodes_def distinct_remove1_removeAll removeAll_filter_not_eq eq_commute)
  also have "\<dots> = rev xs @ filter (\<lambda>n. n \<notin> set xs) (x # filter (\<lambda>n. n \<noteq> x) st)"
    using Cons.prems by (intro Cons.IH) auto
  finally show ?case using Cons.prems(1) by (simp add: conj_commute)
qed

lemma distinct_raise: "distinct st \<Longrightarrow> distinct (raise_nodes xs st)"
  by (induction xs arbitrary: st) (simp_all add: raise_nodes_def)

lemma seat_raw_focus_nodes:
  "\<forall>n \<in> set xs. focusable n \<Longrightarrow>
     seats (fold (\<lambda>n. seat_set_raw_focus i (Some n)) xs s) i = focus_stack_update (raise_nodes xs) (seats s i)"
  by (induction xs arbitrary: s) (auto simp: seat_raw_focus raise_nodes_def comp_def intro!: sway_seat.equality)

definition focus_chain :: "sway \<Rightarrow> nat \<Rightarrow> nat \<Rightarrow> sway_node list" where
  "focus_chain s c w = map N_CONTAINER (ancestors s c) @ [N_WORKSPACE w, N_CONTAINER c]"

lemma raw_focus_chain_fold:
  "raw_focus_chain i (Some c) (Some w) s = fold (\<lambda>n. seat_set_raw_focus i (Some n)) (focus_chain s c w) s"
  by (simp add: raw_focus_chain_def focus_chain_def fold_map comp_def Let_def)

lemma distinct_focus_chain: "wf_sway s \<Longrightarrow> distinct (focus_chain s c w)"
proof -
  assume wf: "wf_sway s"
  have "distinct (ancestors s c)" using anc_distinct [OF wf, of "next_id s" c] by (simp add: ancestors_def)
  moreover have "c \<notin> set (ancestors s c)" using set_ancestors [OF wf] below_irrefl [OF wf] by simp
  ultimately show ?thesis by (auto simp: focus_chain_def distinct_map inj_on_def)
qed

lemma only_seat_chain: "only_seat i s (raw_focus_chain i (Some c) (Some w) s)"
proof -
  have "only_seat i u (fold (\<lambda>n. seat_set_raw_focus i (Some n)) xs u)" for xs u
    by (induction xs arbitrary: u) (auto intro: only_seat_refl only_seat_trans only_seat_raw_focus)
  then show ?thesis by (simp add: raw_focus_chain_fold)
qed

lemma dirty_last_focus_only_seat: "only_seat i s (dirty_last_focus f s)"
  unfolding dirty_last_focus_def Let_def
  by (auto intro!: only_seat_steps only_seat_refl split: option.split simp del: node_get_parent.simps)

lemma seats_dirty_last_focus [simp]: "seats (dirty_last_focus f s) = seats s"
  by (simp add: dirty_last_focus_def Let_def split: option.split)

lemma only_seat_switch: "only_seat i s (seat_switch_workspace i w s)"
  unfolding seat_switch_workspace_def Let_def
  by (auto intro!: only_seat_steps only_seat_refl split: option.split)

lemma focus_begin_only_seat: "only_seat i s (focus_begin i w s)"
  unfolding focus_begin_def by (auto intro!: only_seat_steps only_seat_refl split: option.split)

lemma seats_focus_begin [simp]: "seats (focus_begin i w s) = seats s"
  by (simp add: focus_begin_def split: option.split)

lemma seat_switch_stack: "focus_stack (seats (seat_switch_workspace i w s) i) = focus_stack (seats s i)"
  "seat_workspace (seats (seat_switch_workspace i w s) i) = w"
  by (simp_all add: seat_switch_workspace_def upd_seat_def Let_def split: option.split)

text \<open>The state right after the focus stack has changed.\<close>

lemma focus_stack_change_only_seat: "only_seat i s (focus_stack_change i (Some c) (Some w) s)"
  unfolding focus_stack_change_def
  by (intro only_seat_trans [OF _ only_seat_switch] only_seat_trans [OF _ only_seat_chain] dirty_last_focus_only_seat)

lemma focus_chain_only_seat: "only_seat i s s' \<Longrightarrow> focus_chain s' c w = focus_chain s c w"
  by (simp add: focus_chain_def ancestors_def only_seat_sel)

lemma focus_stack_change_stack:
  assumes "wf_sway s" "distinct (focus_stack (seats s i))"
  shows "focus_stack (seats (focus_stack_change i (Some c) (Some w) s) i) =
    rev (focus_chain s c w) @ filter (\<lambda>n. n \<notin> set (focus_chain s c w)) (focus_stack (seats s i))"
    "seat_workspace (seats (focus_stack_change i (Some c) (Some w) s) i) = Some w"
proof -
  let ?u = "dirty_last_focus (seat_get_focus s i) s"
  have chain: "focus_chain ?u c w = focus_chain s c w"
    by (rule focus_chain_only_seat [OF dirty_last_focus_only_seat])
  have "\<forall>n \<in> set (focus_chain s c w). focusable n" by (auto simp: focus_chain_def)
  then have "focus_stack (seats (raw_focus_chain i (Some c) (Some w) ?u) i) = raise_nodes (focus_chain s c w) (focus_stack (seats s i))"
    by (simp add: raw_focus_chain_fold chain seat_raw_focus_nodes)
  then show "focus_stack (seats (focus_stack_change i (Some c) (Some w) s) i) =
    rev (focus_chain s c w) @ filter (\<lambda>n. n \<notin> set (focus_chain s c w)) (focus_stack (seats s i))"
    using raise_nodes_filter [OF distinct_focus_chain [OF assms(1)] assms(2)]
    by (simp add: focus_stack_change_def seat_switch_stack)
  show "seat_workspace (seats (focus_stack_change i (Some c) (Some w) s) i) = Some w"
    by (simp add: focus_stack_change_def seat_switch_stack)
qed

section \<open>Focusing a container\<close>

definition occupied :: "sway \<Rightarrow> nat \<Rightarrow> bool" where
  "occupied s w \<longleftrightarrow> ws_tiling (wss s w) \<noteq> [] \<or> ws_floating (wss s w) \<noteq> []"

text \<open>
  The situation in which a focus change has no side effects: no layer surface has the focus,
  no fullscreen container is in the way, the view is not urgent, the workspaces left behind
  are not empty and have no sticky containers, and the layout does not depend on the focus.
\<close>

definition quiet_focus :: "sway \<Rightarrow> nat \<Rightarrow> nat \<Rightarrow> nat \<Rightarrow> bool" where
  "quiet_focus s i c w \<longleftrightarrow>
     \<not> seat_has_exclusive_layer (seats s i) \<and> seat_focused_layer (seats s i) = None \<and>
     workspace_of s c = Some w \<and> container_obstructing_fullscreen_container s c = None \<and>
     \<not> is_urgent_con s c \<and> cfg_smart_gaps (cfg s) = SMART_GAPS_OFF \<and> ws_layout (wss s w) \<noteq> L_SCROLL_H \<and>
     (case seat_get_focused_workspace s i of None \<Rightarrow> True | Some lw \<Rightarrow> occupied s lw) \<and>
     (case new_output_last_ws s (Some w) of None \<Rightarrow> True
      | Some lw \<Rightarrow> occupied s lw \<and> (\<forall>f \<in> set (ws_floating (wss s lw)). \<not> container_is_sticky s f))"

lemma container_is_sticky_cong:
  "cons s' = cons s \<Longrightarrow> wss s' = wss s \<Longrightarrow> container_is_sticky s' f = container_is_sticky s f"
  by (simp add: container_is_sticky_def container_is_floating_def split: option.split)

lemma node_get_parent_cong:
  "cons s' = cons s \<Longrightarrow> wss s' = wss s \<Longrightarrow> node_get_parent s' n = node_get_parent s n"
  by (cases n) (simp_all split: option.split)

lemma active_workspace_cong:
  assumes "cons s' = cons s" "wss s' = wss s" "outs s' = outs s" "seats s' = seats s" "current_seat s' = current_seat s"
  shows "output_get_active_workspace s' out = output_get_active_workspace s out"
  by (simp add: output_get_active_workspace_def seat_get_active_tiling_child_def node_get_parent_cong [OF assms(1,2)]
      assms split: option.split list.split sway_node.split del: node_get_parent.simps)

lemma move_sticky_none:
  "\<forall>f \<in> set (ws_floating (wss s lw)). \<not> container_is_sticky s f \<Longrightarrow>
     length (ws_floating (wss s lw)) \<le> n + i \<Longrightarrow> move_sticky n sf lw w i s = Some s"
  by (induction n arbitrary: i) (auto simp: Let_def)

lemma take_sticky_none:
  assumes "case lw of None \<Rightarrow> True | Some l \<Rightarrow> \<forall>f \<in> set (ws_floating (wss s l)). \<not> container_is_sticky s f"
  shows "take_sticky sf (Some w) lw s = Some s"
  using assms by (auto simp: take_sticky_def move_sticky_none split: option.splits)

lemma destroy_left_occupied: "case w of None \<Rightarrow> True | Some l \<Rightarrow> occupied s l \<Longrightarrow> destroy_left sf w s = Some s"
  by (auto simp: destroy_left_def workspace_consider_destroy_def occupied_def split: option.splits)

lemma clear_urgency_calm: "\<not> is_urgent_con s c \<Longrightarrow> clear_urgency (Some c) lw nw s = Some s"
  by (auto simp: clear_urgency_def is_urgent_con_def split: option.splits)

lemma quiet_focus_result:
  assumes q: "quiet_focus s i c w" and new: "seat_get_focus s i \<noteq> Some (N_CONTAINER c)"
  shows "seat_set_focus (Suc n) i (Some (N_CONTAINER c)) s =
    Some (upd_seat i (seat_has_focus_update (\<lambda>_. True)) (focus_stack_change i (Some c) (Some w) (focus_begin i (Some w) s)))"
proof -
  let ?b = "focus_begin i (Some w) s"
  let ?u = "focus_stack_change i (Some c) (Some w) ?b"
  have o: "only_seat i s ?u"
    by (rule only_seat_trans [OF focus_begin_only_seat focus_stack_change_only_seat])
  note u = only_seat_sel [OF o]
  note b = only_seat_sel [OF focus_begin_only_seat [of i s "Some w"]]
  have lw: "new_output_last_ws ?b (Some w) = new_output_last_ws s (Some w)"
    by (simp add: new_output_last_ws_def focus_new_output_def b active_workspace_cong [OF b(1-3) seats_focus_begin b(11)]
        split: option.split)
  have "take_sticky (seat_set_focus n) (Some w) (new_output_last_ws s (Some w)) ?u = Some ?u"
    using q container_is_sticky_cong [OF u(1,2)]
    by (intro take_sticky_none) (simp add: quiet_focus_def u split: option.splits)
  moreover have "clear_urgency (Some c) (seat_get_focused_workspace s i) (Some w) ?u = Some ?u"
    using q by (intro clear_urgency_calm) (simp add: quiet_focus_def is_urgent_con_def u)
  moreover have "destroy_left (seat_set_focus n) (new_output_last_ws s (Some w)) ?u = Some ?u"
    using q by (intro destroy_left_occupied) (auto simp: quiet_focus_def occupied_def u split: option.splits)
  moreover have "destroy_left (seat_set_focus n) (if l then seat_get_focused_workspace s i else None) ?u = Some ?u" for l
    using q by (intro destroy_left_occupied) (auto simp: quiet_focus_def occupied_def u split: option.splits)
  moreover have "focus_end i (Some w) ?u = Some (upd_seat i (seat_has_focus_update (\<lambda>_. True)) ?u)"
    using q by (simp add: focus_end_def quiet_focus_def upd_seat_def u Let_def)
  ultimately have "set_focus_on (seat_set_focus n) i (Some c) (Some w) s
      = Some (upd_seat i (seat_has_focus_update (\<lambda>_. True)) ?u)"
    by (simp add: set_focus_on_def lw Let_def)
  then show ?thesis
    using q new by (simp add: focus_step_def seat_set_workspace_focus_def quiet_focus_def)
qed

text \<open>C7. Focusing a container that is not focused yet returns without further focus changes when
  nothing stands in the way (\<open>quiet_focus\<close>): the container has the focus, the focus stack is
  the container, its workspace, its ancestors from the outermost inwards and then the old
  stack without them in its old order, the seat is on the container's workspace, that
  workspace is the visible one of its output, and the tree and all containers are unchanged.\<close>

theorem seat_set_focus_shows:
  assumes "wf_sway s" "distinct (focus_stack (seats s i))" "quiet_focus s i c w"
    "seat_get_focus s i \<noteq> Some (N_CONTAINER c)"
  shows "\<exists>s'. seat_set_focus (Suc n) i (Some (N_CONTAINER c)) s = Some s' \<and>
     seat_get_focus s' i = Some (N_CONTAINER c) \<and>
     focus_stack (seats s' i) = N_CONTAINER c # N_WORKSPACE w # map N_CONTAINER (rev (ancestors s c)) @
       filter (\<lambda>n. n \<notin> set (focus_chain s c w)) (focus_stack (seats s i)) \<and>
     seat_workspace (seats s' i) = Some w \<and> tree_of s' = tree_of s \<and> cons s' = cons s \<and>
     (i = current_seat s \<longrightarrow> ws_output (wss s w) = Some out \<longrightarrow> output_get_active_workspace s' out = Some w)"
proof -
  let ?b = "focus_begin i (Some w) s"
  let ?u = "focus_stack_change i (Some c) (Some w) ?b"
  let ?s = "upd_seat i (seat_has_focus_update (\<lambda>_. True)) ?u"
  note b = only_seat_sel [OF focus_begin_only_seat [of i s "Some w"]]
  define s' where "s' = ?s"
  have "only_seat i s s'" unfolding s'_def
    by (intro only_seat_trans [OF _ only_seat_upd] only_seat_trans [OF focus_begin_only_seat focus_stack_change_only_seat])
  note u = only_seat_sel [OF this]
  have chain: "focus_chain ?b c w = focus_chain s c w" by (rule focus_chain_only_seat [OF focus_begin_only_seat])
  have "focus_stack (seats ?u i) = rev (focus_chain s c w) @ filter (\<lambda>n. n \<notin> set (focus_chain s c w)) (focus_stack (seats s i))"
    "seat_workspace (seats ?u i) = Some w"
    using focus_stack_change_stack [of ?b i c w] assms(1,2) b chain by simp_all
  then have st: "focus_stack (seats s' i) = N_CONTAINER c # N_WORKSPACE w # map N_CONTAINER (rev (ancestors s c)) @
       filter (\<lambda>n. n \<notin> set (focus_chain s c w)) (focus_stack (seats s i))"
    and ws: "seat_workspace (seats s' i) = Some w" "seat_has_focus (seats s' i)"
    by (simp_all add: s'_def upd_seat_def focus_chain_def rev_map)
  have c: "node_get_parent s' (N_CONTAINER c) \<noteq> Some (N_OUTPUT out)"
    by (simp split: option.split)
  have "output_get_active_workspace s' out = Some w" if o: "i = current_seat s" "ws_output (wss s w) = Some out"
  proof -
    have "focus_stack (seats s' (current_seat s')) = N_CONTAINER c # N_WORKSPACE w # map N_CONTAINER (rev (ancestors s c)) @
       filter (\<lambda>n. n \<notin> set (focus_chain s c w)) (focus_stack (seats s i))" using st u(11) o by simp
    moreover have "node_get_parent s' (N_WORKSPACE w) = Some (N_OUTPUT out)" using o u(2) by simp
    ultimately show ?thesis using c
      by (simp add: output_get_active_workspace_def seat_get_active_tiling_child_def del: node_get_parent.simps)
  qed
  then show ?thesis
    using quiet_focus_result [OF assms(3,4), of n, folded s'_def] st ws u by (simp add: seat_get_focus_def)
qed

definition sample_desk :: sway where
  "sample_desk = upd_ws 3 (ws_output_update (\<lambda>_. Some 20)) (upd_out 20 (out_workspaces_update (\<lambda>_. [3])) sample_tree)"

lemma wf_sample_desk: "wf_sway sample_desk"
  by (simp add: sample_desk_def tree_of_upd_ws wf_sample_tree)

theorem seat_set_focus_shows_witness:
  "\<exists>s'. seat_set_focus 1 0 (Some (N_CONTAINER 6)) sample_desk = Some s' \<and>
     seat_get_focus s' 0 = Some (N_CONTAINER 6) \<and>
     focus_stack (seats s' 0) = [N_CONTAINER 6, N_WORKSPACE 3, N_CONTAINER 4, N_CONTAINER 5, N_CONTAINER 7, N_CONTAINER 8] \<and>
     output_get_active_workspace s' 20 = Some 3"
proof -
  have h: "distinct (focus_stack (seats sample_desk 0))" "quiet_focus sample_desk 0 6 3"
    "seat_get_focus sample_desk 0 \<noteq> Some (N_CONTAINER 6)" "current_seat sample_desk = 0"
    "ws_output (wss sample_desk 3) = Some 20"
    "N_CONTAINER 6 # N_WORKSPACE 3 # map N_CONTAINER (rev (ancestors sample_desk 6)) @
       filter (\<lambda>n. n \<notin> set (focus_chain sample_desk 6 3)) (focus_stack (seats sample_desk 0)) =
     [N_CONTAINER 6, N_WORKSPACE 3, N_CONTAINER 4, N_CONTAINER 5, N_CONTAINER 7, N_CONTAINER 8]"
    by code_simp+
  show ?thesis
    using seat_set_focus_shows [OF wf_sample_desk h(1-3), of 0 20] h(4-6) by auto
qed

end
