(* ===== verification/Fullscreen.thy ===== *)
theory Fullscreen
  imports Seat_Focus
begin

text \<open>
  Entering and leaving fullscreen, the scratchpad and the destruction of containers:
  \<open>container_set_fullscreen\<close>, \<open>container_begin_destroy\<close>, \<open>container_reap_empty\<close>,
  \<open>container_raise_floating\<close> of \<open>sway/tree/container.c\<close> and \<open>root_scratchpad_remove_container\<close>
  of \<open>root.c\<close>. The focus operation is a parameter as in \<open>Container_Ops\<close>; what is sent to
  the client and the end of mouse operations is not modelled.
\<close>

section \<open>Entering fullscreen\<close>

definition save_geometry :: "nat \<Rightarrow> sway \<Rightarrow> sway" where
  "save_geometry c s = (let p = pending s c in
     upd_con c (\<lambda>k. k\<lparr>con_saved_x := st_x p, con_saved_y := st_y p,
       con_saved_width := st_width p, con_saved_height := st_height p\<rparr>) s)"

text \<open>A seat that looks at the workspace focuses the container, any other one only raises it.\<close>

definition focus_fullscreen :: "refocus_op \<Rightarrow> nat \<Rightarrow> nat \<Rightarrow> nat \<Rightarrow> sway \<Rightarrow> sway option" where
  "focus_fullscreen sf c w i s =
     (if seat_get_focused_workspace s i = Some w then sf i (Some (N_CONTAINER c)) s
      else let focus = seat_get_focus_inactive s i N_ROOT in
        Some (seat_set_raw_focus i focus (seat_set_raw_focus i (Some (N_CONTAINER c)) s)))"

definition container_fullscreen_workspace :: "refocus_op \<Rightarrow> nat \<Rightarrow> sway \<Rightarrow> sway option" where
  "container_fullscreen_workspace sf c s =
     (if fullscreen_mode_of s c \<noteq> FULLSCREEN_NONE then Some s
      else let s1 = save_geometry c (set_fullscreen_mode c FULLSCREEN_WORKSPACE s) in
        case workspace_of s1 c of
          None \<Rightarrow> Some s1
        | Some w \<Rightarrow> let s2 = upd_ws w (ws_fullscreen_update (\<lambda>_. Some c)) s1 in
            for_seats (focus_fullscreen sf c w) (seat_ids s2) s2)"

definition focus_global :: "refocus_op \<Rightarrow> nat \<Rightarrow> nat \<Rightarrow> sway \<Rightarrow> sway option" where
  "focus_global sf c i s =
     (case seat_get_focused_container s i of
        Some f \<Rightarrow> if f \<noteq> c then sf i (Some (N_CONTAINER c)) s else Some s
      | None \<Rightarrow> Some s)"

definition container_fullscreen_global :: "refocus_op \<Rightarrow> nat \<Rightarrow> sway \<Rightarrow> sway option" where
  "container_fullscreen_global sf c s =
     (if fullscreen_mode_of s c \<noteq> FULLSCREEN_NONE then Some s
      else do {
        let s1 = save_geometry c (s\<lparr>fullscreen_global := Some c\<rparr>);
        s2 \<leftarrow> for_seats (focus_global sf c) (seat_ids s1) s1;
        Some (set_fullscreen_mode c FULLSCREEN_GLOBAL s2) })"

text \<open>The case \<open>FULLSCREEN_WORKSPACE\<close> of \<open>container_set_fullscreen\<close>.\<close>

definition leave_global :: "refocus_op \<Rightarrow> sway \<Rightarrow> sway option" where
  "leave_global sf s =
     (case fullscreen_global s of Some f \<Rightarrow> container_fullscreen_disable sf f s | None \<Rightarrow> Some s)"

definition displace_fullscreen :: "refocus_op \<Rightarrow> nat \<Rightarrow> sway \<Rightarrow> sway option" where
  "displace_fullscreen sf c s =
     (case workspace_of s c of
        None \<Rightarrow> Some s
      | Some w \<Rightarrow>
          (case ws_fullscreen (wss s w) of
             None \<Rightarrow> Some s
           | Some old_fs \<Rightarrow>
               container_fullscreen_disable sf old_fs (upd_ws w (ws_prev_fullscreen_update (\<lambda>_. Some old_fs)) s)))"

definition set_fullscreen_workspace :: "refocus_op \<Rightarrow> nat \<Rightarrow> sway \<Rightarrow> sway option" where
  "set_fullscreen_workspace sf c s =
     (if fullscreen_mode_of s c = FULLSCREEN_WORKSPACE then Some s
      else leave_global sf s \<bind> displace_fullscreen sf c \<bind> container_fullscreen_workspace sf c)"

definition set_fullscreen_global :: "refocus_op \<Rightarrow> nat \<Rightarrow> sway \<Rightarrow> sway option" where
  "set_fullscreen_global sf c s = do {
     s1 \<leftarrow> leave_global sf s;
     s2 \<leftarrow> (if fullscreen_mode_of s1 c = FULLSCREEN_WORKSPACE then container_fullscreen_disable sf c s1 else Some s1);
     container_fullscreen_global sf c s2 }"

text \<open>A container displaced by the one that leaves fullscreen is made fullscreen again.\<close>

definition restore_prev_fullscreen :: "refocus_op \<Rightarrow> nat \<Rightarrow> sway \<Rightarrow> sway option" where
  "restore_prev_fullscreen sf w s =
     (case ws_prev_fullscreen (wss s w) of
        Some prev \<Rightarrow>
          if \<not> node_destroying s (N_CONTAINER prev)
          then set_fullscreen_workspace sf prev (upd_ws w (ws_prev_fullscreen_update (\<lambda>_. None)) s)
          else Some s
      | None \<Rightarrow> Some s)"

definition set_fullscreen_none :: "refocus_op \<Rightarrow> nat \<Rightarrow> sway \<Rightarrow> sway option" where
  "set_fullscreen_none sf c s = do {
     s1 \<leftarrow> container_fullscreen_disable sf c s;
     (case workspace_of s1 c of Some w \<Rightarrow> restore_prev_fullscreen sf w s1 | None \<Rightarrow> Some s1) }"

definition container_set_fullscreen :: "refocus_op \<Rightarrow> nat \<Rightarrow> sway_fullscreen_mode \<Rightarrow> sway \<Rightarrow> sway option" where
  "container_set_fullscreen sf c mode s =
     (if fullscreen_mode_of s c = mode then Some s
      else case mode of
        FULLSCREEN_NONE \<Rightarrow> set_fullscreen_none sf c s
      | FULLSCREEN_WORKSPACE \<Rightarrow> set_fullscreen_workspace sf c s
      | FULLSCREEN_GLOBAL \<Rightarrow> set_fullscreen_global sf c s)"

section \<open>Scratchpad membership\<close>

definition root_scratchpad_remove_container :: "nat \<Rightarrow> sway \<Rightarrow> sway" where
  "root_scratchpad_remove_container c s =
     (if \<not> con_scratchpad (cons s c) then s
      else let s1 = upd_con c (con_scratchpad_update (\<lambda>_. False)) s in
        s1\<lparr>root_scratchpad := (let k = seq_find (\<lambda>x. x = c) (root_scratchpad s1) 0 in
             if k \<noteq> - 1 then remove_at (nat k) (root_scratchpad s1) else root_scratchpad s1)\<rparr>)"

section \<open>Destroying containers\<close>

text \<open>
  The workspace forgets the container: it is no longer the one to return to, and if it is the
  fullscreen one, the one it displaced takes over.
\<close>

definition forget_fullscreen :: "refocus_op \<Rightarrow> nat \<Rightarrow> nat \<Rightarrow> sway \<Rightarrow> sway option" where
  "forget_fullscreen sf c w s =
     (let s1 = (if ws_prev_fullscreen (wss s w) = Some c
                then upd_ws w (ws_prev_fullscreen_update (\<lambda>_. None)) s else s)
      in if fullscreen_mode_of s1 c = FULLSCREEN_WORKSPACE
         then map_option (set_fullscreen_mode c FULLSCREEN_NONE)
                (restore_prev_fullscreen sf w (upd_ws w (ws_fullscreen_update (\<lambda>_. None)) s1))
         else Some s1)"

definition container_begin_destroy :: "refocus_op \<Rightarrow> nat \<Rightarrow> sway \<Rightarrow> sway option" where
  "container_begin_destroy sf c s = do {
     s1 \<leftarrow> (case workspace_of s c of Some w \<Rightarrow> forget_fullscreen sf c w s | None \<Rightarrow> Some s);
     s2 \<leftarrow> (if con_scratchpad (cons s1 c) \<and> fullscreen_mode_of s1 c = FULLSCREEN_GLOBAL
            then container_fullscreen_disable sf c s1 else Some s1);
     s3 \<leftarrow> emit_node_destroy sf (N_CONTAINER c) s2;
     let s4 = node_set_dirty (N_CONTAINER c)
                (s3\<lparr>node_destroying := (node_destroying s3)(N_CONTAINER c := True)\<rparr>);
     let s5 = (if con_scratchpad (cons s4 c) then root_scratchpad_remove_container c s4 else s4);
     s6 \<leftarrow> (if fullscreen_mode_of s5 c = FULLSCREEN_GLOBAL then container_fullscreen_disable sf c s5 else Some s5);
     (if parent_of s6 c \<noteq> None \<or> workspace_of s6 c \<noteq> None then container_detach c s6 else Some s6) }"

text \<open>
  Empty containers are destroyed upwards; \<open>n\<close> bounds the way to the root, and \<open>None\<close> also
  stands for the dereference of a view's \<open>NULL\<close> list of children.
\<close>

primrec reap_up :: "nat \<Rightarrow> refocus_op \<Rightarrow> nat option \<Rightarrow> nat option \<Rightarrow> sway \<Rightarrow> sway option" where
  "reap_up 0 sf ws con s = None"
| "reap_up (Suc n) sf ws con s =
     (case con of
        None \<Rightarrow> (case ws of Some w \<Rightarrow> workspace_consider_destroy sf w s | None \<Rightarrow> Some s)
      | Some c \<Rightarrow>
          (case children_of s c of
             None \<Rightarrow> None
           | Some [] \<Rightarrow> container_begin_destroy sf c s \<bind> reap_up n sf ws (parent_of s c)
           | Some _ \<Rightarrow> Some s))"

definition container_reap_empty :: "refocus_op \<Rightarrow> nat \<Rightarrow> sway \<Rightarrow> sway option" where
  "container_reap_empty sf c s =
     (if con_view (cons s c) \<noteq> None then Some s
      else reap_up (next_id s + 2) sf (workspace_of s c) (Some c) s)"

section \<open>Raising\<close>

definition move_to_end :: "nat \<Rightarrow> nat list \<Rightarrow> nat list" where
  "move_to_end x l = (if x \<in> set l then remove1 x l @ [x] else l)"

definition container_raise_floating :: "nat \<Rightarrow> sway \<Rightarrow> sway" where
  "container_raise_floating c s =
     (let floater = container_toplevel_ancestor s c in
      case workspace_of s floater of
        Some w \<Rightarrow> if container_is_floating s floater
                  then node_set_dirty (N_WORKSPACE w) (upd_ws w (ws_floating_update (move_to_end floater)) s)
                  else s
      | None \<Rightarrow> s)"

end
