(* ===== verification/Floating_Ops.thy ===== *)
theory Floating_Ops
  imports Fullscreen
begin

text \<open>
  Floating and tiling, splitting and replacing, the scratchpad and maximizing:
  \<open>container_set_floating\<close>, \<open>container_replace\<close>, \<open>container_split\<close>,
  \<open>container_set_maximized\<close> of \<open>sway/tree/container.c\<close>, \<open>workspace_add_tiling\<close> and
  \<open>workspace_insert_tiling\<close> of \<open>workspace.c\<close>, \<open>root_scratchpad_*\<close> of \<open>root.c\<close>. In the code
  \<open>container_set_floating\<close> and \<open>workspace_add_tiling\<close> reach each other through the
  scratchpad; only its first half (\<open>float_on\<close>) is called back, so the definitions here follow
  the order of the calls. What is sent to clients and to IPC is not modelled.
\<close>

section \<open>Floating\<close>

definition use_csd_border :: "nat \<Rightarrow> sway \<Rightarrow> sway" where
  "use_csd_border c s =
     (case con_view (cons s c) of
        None \<Rightarrow> s
      | Some v \<Rightarrow>
          if view_using_csd v
          then upd_pending c (st_border_update (\<lambda>_. B_CSD))
                 (upd_con c (con_saved_border_update (\<lambda>_. st_border (pending s c))) s)
          else s)"

definition use_saved_border :: "nat \<Rightarrow> sway \<Rightarrow> sway" where
  "use_saved_border c s =
     (case con_view (cons s c) of
        None \<Rightarrow> s
      | Some v \<Rightarrow>
          if view_using_csd v
          then upd_pending c (st_border_update (\<lambda>_. con_saved_border (cons s c))) s else s)"

definition float_on :: "refocus_op \<Rightarrow> nat \<Rightarrow> sway \<Rightarrow> sway option" where
  "float_on sf c s =
     (if container_is_floating s c then Some s
      else do {
        let s0 = container_clear_maximized c s;
        let seat = current_seat s0;
        let set_focus = (seat_get_focused_container s0 seat = Some c);
        let old_parent = parent_of s0 c;
        workspace \<leftarrow> workspace_of s0 c;
        s1 \<leftarrow> container_detach c s0;
        s2 \<leftarrow> workspace_add_floating sf workspace c s1;
        s3 \<leftarrow> container_floating_resize_and_center c (container_floating_set_default_size c (use_csd_border c s2));
        (case old_parent of
           None \<Rightarrow> Some s3
         | Some p \<Rightarrow>
             container_reap_empty sf p
               (if set_focus
                then seat_set_raw_focus seat (Some (N_CONTAINER c))
                       (seat_set_raw_focus seat (Some (N_CONTAINER p)) s3)
                else s3)) })"

section \<open>The scratchpad\<close>

definition set_container_transform :: "nat option \<Rightarrow> nat \<Rightarrow> sway \<Rightarrow> sway option" where
  "set_container_transform ws c s =
     map_option (\<lambda>w. upd_con c (con_transform_update (\<lambda>_.
        case ws_output (wss s w) of Some out \<Rightarrow> output_get_box s out | None \<Rightarrow> zero_box)) s) ws"

definition send_to_floating :: "refocus_op \<Rightarrow> nat \<Rightarrow> sway \<Rightarrow> sway option" where
  "send_to_floating sf c s =
     (if container_is_floating s c then Some s
      else do {
        s1 \<leftarrow> float_on sf c s;
        container_floating_move_to_center c (container_floating_set_default_size c s1) })"

text \<open>The focus moves on to the old parent or workspace.\<close>

definition focus_after_leaving :: "refocus_op \<Rightarrow> nat option \<Rightarrow> nat option \<Rightarrow> sway \<Rightarrow> sway option" where
  "focus_after_leaving sf parent workspace s =
     (let seat = current_seat s;
          s1 = (case parent of Some p \<Rightarrow> arrange_container p s | None \<Rightarrow> s);
          f = (case parent of Some p \<Rightarrow> seat_get_focus_inactive s1 seat (N_CONTAINER p) | None \<Rightarrow> None)
      in case f of
           Some _ \<Rightarrow> sf seat f s1
         | None \<Rightarrow> do {
             w \<leftarrow> workspace;
             s2 \<leftarrow> arrange_workspace w s1;
             sf seat (seat_get_focus_inactive s2 seat (N_WORKSPACE w)) s2 })"

definition root_scratchpad_add_container :: "refocus_op \<Rightarrow> nat \<Rightarrow> nat option \<Rightarrow> sway \<Rightarrow> sway option" where
  "root_scratchpad_add_container sf c ws s =
     (if con_scratchpad (cons s c) then Some s
      else do {
        let parent = parent_of s c;
        let workspace = workspace_of s c;
        s1 \<leftarrow> set_container_transform workspace c s;
        s2 \<leftarrow> container_fullscreen_disable sf c s1;
        s3 \<leftarrow> send_to_floating sf c s2;
        s4 \<leftarrow> container_detach c s3;
        let s5 = upd_con c (con_scratchpad_update (\<lambda>_. True)) s4;
        let s6 = s5\<lparr>root_scratchpad := root_scratchpad s5 @ [c]\<rparr>;
        (case ws of
           Some w \<Rightarrow> workspace_add_floating sf w c s6
         | None \<Rightarrow> focus_after_leaving sf parent workspace s6) })"

text \<open>The container to show: a hidden one is shown as a whole, from its outermost ancestor.\<close>

definition leave_old_workspace :: "nat \<Rightarrow> nat option \<Rightarrow> sway \<Rightarrow> (nat \<times> sway) option" where
  "leave_old_workspace c old_ws s =
     (case old_ws of
        Some w \<Rightarrow> map_option (\<lambda>s1.
            (c, seat_set_raw_focus (current_seat s) (seat_get_focus_inactive s1 (current_seat s) (N_WORKSPACE w)) s1))
            (container_detach c s)
      | None \<Rightarrow> Some (container_toplevel_ancestor s c, s))"

definition root_scratchpad_show :: "refocus_op \<Rightarrow> nat \<Rightarrow> sway \<Rightarrow> sway option" where
  "root_scratchpad_show sf c s =
     (let seat = current_seat s in
      case seat_get_focused_workspace s seat of
        None \<Rightarrow> Some s
      | Some new_ws \<Rightarrow> do {
          let old_ws = workspace_of s c;
          s1 \<leftarrow> (case ws_fullscreen (wss s new_ws) of
                  Some f \<Rightarrow> container_fullscreen_disable sf f s | None \<Rightarrow> Some s);
          s2 \<leftarrow> leave_global sf s1;
          (k, s3) \<leftarrow> leave_old_workspace c old_ws s2;
          s4 \<leftarrow> workspace_add_floating sf new_ws k s3;
          s5 \<leftarrow> (case ws_output (wss s4 new_ws) of
                  Some out \<Rightarrow> floating_fix_coordinates k (con_transform (cons s4 k)) (output_get_box s4 out) s4
                | None \<Rightarrow> Some s4);
          s6 \<leftarrow> set_container_transform (Some new_ws) k s5;
          s7 \<leftarrow> arrange_workspace new_ws s6;
          s8 \<leftarrow> sf seat (seat_get_focus_inactive s7 seat (N_CONTAINER k)) s7;
          s9 \<leftarrow> (case old_ws of Some w \<Rightarrow> workspace_consider_destroy sf w s8 | None \<Rightarrow> Some s8);
          Some (container_raise_floating k s9) })"

primrec disable_each :: "refocus_op \<Rightarrow> nat list \<Rightarrow> sway \<Rightarrow> sway option" where
  "disable_each sf [] s = Some s"
| "disable_each sf (c # cs) s = container_fullscreen_disable sf c s \<bind> disable_each sf cs"

definition root_scratchpad_hide :: "refocus_op \<Rightarrow> nat \<Rightarrow> sway \<Rightarrow> sway option" where
  "root_scratchpad_hide sf c s =
     (let seat = current_seat s;
          focus = seat_get_focus_inactive s seat N_ROOT;
          ws = workspace_of s c
      in if fullscreen_mode_of s c = FULLSCREEN_GLOBAL \<and> ws = None then Some s
      else do {
        s1 \<leftarrow> set_container_transform ws c s;
        s2 \<leftarrow> disable_each sf (c # descendants s1 c) s1;
        s3 \<leftarrow> container_detach c s2;
        w \<leftarrow> ws;
        s4 \<leftarrow> arrange_workspace w s3;
        f \<leftarrow> focus;
        s5 \<leftarrow> (if f = N_CONTAINER c \<or> node_has_ancestor s4 f (N_CONTAINER c)
               then sf seat (seat_get_focus_inactive s4 seat (N_WORKSPACE w)) s4 else Some s4);
        Some (s5\<lparr>root_scratchpad := move_to_end c (root_scratchpad s5)\<rparr>) })"

section \<open>Replacing and splitting\<close>

definition fullscreen_again :: "refocus_op \<Rightarrow> sway_fullscreen_mode \<Rightarrow> nat \<Rightarrow> sway \<Rightarrow> sway option" where
  "fullscreen_again sf mode c s =
     (case mode of
        FULLSCREEN_WORKSPACE \<Rightarrow> container_fullscreen_workspace sf c s
      | FULLSCREEN_GLOBAL \<Rightarrow> container_fullscreen_global sf c s
      | FULLSCREEN_NONE \<Rightarrow> Some s)"

definition set_fractions :: "nat \<Rightarrow> rat \<Rightarrow> rat \<Rightarrow> sway \<Rightarrow> sway" where
  "set_fractions c width height = upd_con c (\<lambda>k. k\<lparr>con_width_fraction := width, con_height_fraction := height\<rparr>)"

definition put_in_place :: "refocus_op \<Rightarrow> nat \<Rightarrow> nat \<Rightarrow> sway \<Rightarrow> sway option" where
  "put_in_place sf c replacement s =
     (if parent_of s c \<noteq> None \<or> workspace_of s c \<noteq> None
      then do {
        let width = con_width_fraction (cons s c);
        let height = con_height_fraction (cons s c);
        s1 \<leftarrow> container_add_sibling sf c replacement True s;
        s2 \<leftarrow> container_detach c s1;
        Some (set_fractions replacement width height s2) }
      else Some s)"

definition container_replace :: "refocus_op \<Rightarrow> nat \<Rightarrow> nat \<Rightarrow> sway \<Rightarrow> sway option" where
  "container_replace sf c replacement s = do {
     let fullscreen = fullscreen_mode_of s c;
     let scratchpad = con_scratchpad (cons s c);
     s1 \<leftarrow> container_fullscreen_disable sf c s;
     let ws = (if scratchpad then workspace_of s1 c else None);
     s2 \<leftarrow> (if scratchpad
            then map_option (root_scratchpad_remove_container c) (root_scratchpad_show sf c s1)
            else Some s1);
     s3 \<leftarrow> put_in_place sf c replacement s2;
     s4 \<leftarrow> (if scratchpad then root_scratchpad_add_container sf replacement ws s3 else Some s3);
     fullscreen_again sf fullscreen replacement s4 }"

text \<open>A child that is alone in a horizontal or vertical container is not split.\<close>

definition singleton_split :: "nat \<Rightarrow> sway_container_layout \<Rightarrow> sway \<Rightarrow> sway option" where
  "singleton_split child layout s =
     (if parent_of s child = None \<and> workspace_of s child = None then None
      else
        let siblings = (case container_get_siblings s child of Some l \<Rightarrow> l | None \<Rightarrow> []);
            current = (if container_is_floating s child then L_NONE else container_parent_layout s child)
        in if length siblings = 1 \<and> (current = L_HORIZ \<or> current = L_VERT)
           then Some (case parent_of s child of
                  Some p \<Rightarrow> container_update_representation p (upd_pending p (st_layout_update (\<lambda>_. layout)) s)
                | None \<Rightarrow> (case workspace_of s child of
                    Some w \<Rightarrow> workspace_update_representation w (upd_ws w (ws_layout_update (\<lambda>_. layout)) s)
                  | None \<Rightarrow> s))
           else None)"

definition copy_geometry :: "nat \<Rightarrow> nat \<Rightarrow> sway_container_layout \<Rightarrow> sway \<Rightarrow> sway" where
  "copy_geometry child cont layout s =
     (let p = pending s child in
      set_fractions cont (con_width_fraction (cons s child)) (con_height_fraction (cons s child))
        (upd_pending cont (\<lambda>q. q\<lparr>st_x := st_x p, st_y := st_y p, st_width := st_width p,
           st_height := st_height p, st_layout := layout\<rparr>) s))"

definition focus_split :: "refocus_op \<Rightarrow> nat \<Rightarrow> nat \<Rightarrow> sway \<Rightarrow> sway option" where
  "focus_split sf child cont s =
     (let seat = default_seat s; s1 = seat_set_raw_focus seat (Some (N_CONTAINER cont)) s in
      if fullscreen_mode_of s1 cont = FULLSCREEN_GLOBAL then sf seat (Some (N_CONTAINER child)) s1
      else Some (seat_set_raw_focus seat (Some (N_CONTAINER child)) s1))"

definition container_split :: "refocus_op \<Rightarrow> nat \<Rightarrow> sway_container_layout \<Rightarrow> sway \<Rightarrow> (nat \<times> sway) option" where
  "container_split sf child layout s =
     (case singleton_split child layout s of
        Some s1 \<Rightarrow> Some (child, s1)
      | None \<Rightarrow> do {
          let set_focus = (seat_get_focus s (default_seat s) = Some (N_CONTAINER child));
          let s1 = (if container_is_floating s child then use_saved_border child s else s);
          let (cont, s2) = container_create None s1;
          s4 \<leftarrow> container_replace sf child cont (copy_geometry child cont layout s2);
          s5 \<leftarrow> container_add_child sf cont child s4;
          s6 \<leftarrow> (if set_focus then focus_split sf child cont s5 else Some s5);
          Some (cont, s6) })"

section \<open>Tiling\<close>

definition split_by_default :: "refocus_op \<Rightarrow> nat \<Rightarrow> sway \<Rightarrow> (nat \<times> sway) option" where
  "split_by_default sf c s =
     (if cfg_default_layout (cfg s) \<noteq> L_NONE then container_split sf c (cfg_default_layout (cfg s)) s
      else Some (c, s))"

definition leave_place :: "refocus_op \<Rightarrow> nat \<Rightarrow> sway \<Rightarrow> sway option" where
  "leave_place sf c s =
     (if workspace_of s c \<noteq> None
      then (case parent_of s c of
              Some p \<Rightarrow> container_detach c s \<bind> container_reap_empty sf p
            | None \<Rightarrow> container_detach c s)
      else Some s)"

definition workspace_add_tiling :: "refocus_op \<Rightarrow> nat \<Rightarrow> nat \<Rightarrow> sway \<Rightarrow> (nat \<times> sway) option" where
  "workspace_add_tiling sf w c s = do {
     s1 \<leftarrow> leave_place sf c s;
     (k, s2) \<leftarrow> split_by_default sf c s1;
     s3 \<leftarrow> workspace_attach_tiling sf w k s2;
     Some (k, s3) }"

definition workspace_insert_tiling :: "refocus_op \<Rightarrow> nat \<Rightarrow> nat \<Rightarrow> int \<Rightarrow> sway \<Rightarrow> (nat \<times> sway) option" where
  "workspace_insert_tiling sf w c index s = do {
     s1 \<leftarrow> detach_if_placed c s;
     (k, s2) \<leftarrow> split_by_default sf c s1;
     s3 \<leftarrow> workspace_insert_tiling_direct sf w k index s2;
     Some (k, s3) }"

end
