(* ===== verification/Layout_Ops.thy ===== *)
theory Layout_Ops
  imports Floating_Ops
begin

text \<open>
  The rest of the container operations: \<open>container_set_floating\<close>, \<open>container_set_maximized\<close>,
  \<open>container_flatten\<close>, \<open>container_squash\<close>, \<open>container_swap\<close> of \<open>sway/tree/container.c\<close>,
  \<open>workspace_wrap_children\<close>, \<open>workspace_unwrap_children\<close>, \<open>workspace_split\<close>,
  \<open>workspace_squash\<close> of \<open>workspace.c\<close>. Loops over a list that shrinks while it is worked on
  take the length of the list as their bound.
\<close>

section \<open>Floating and maximized\<close>

definition tile_beside :: "refocus_op \<Rightarrow> nat \<Rightarrow> nat \<Rightarrow> sway \<Rightarrow> sway option" where
  "tile_beside sf reference c s = do {
     s1 \<leftarrow> (if con_view (cons s reference) \<noteq> None then container_add_sibling sf reference c True s
            else container_add_child sf reference c s);
     Some (upd_pending c (\<lambda>p. p\<lparr>st_width := st_width (pending s1 reference),
             st_height := st_height (pending s1 reference)\<rparr>) s1) }"

definition tile_alone :: "refocus_op \<Rightarrow> nat \<Rightarrow> nat \<Rightarrow> sway \<Rightarrow> sway option" where
  "tile_alone sf w c s = do {
     (other, s1) \<leftarrow> workspace_add_tiling sf w c s;
     Some (upd_pending other (\<lambda>p. p\<lparr>st_width := of_int (ws_width (wss s1 w)),
             st_height := of_int (ws_height (wss s1 w))\<rparr>) s1) }"

definition float_off :: "refocus_op \<Rightarrow> nat \<Rightarrow> sway \<Rightarrow> sway option" where
  "float_off sf c s =
     (if \<not> container_is_floating s c then Some s
      else do {
        let s0 = container_clear_maximized c s;
        let workspace = workspace_of s0 c;
        let s1 = (if con_scratchpad (cons s0 c) then root_scratchpad_remove_container c s0 else s0);
        s2 \<leftarrow> container_detach c s1;
        w \<leftarrow> workspace;
        s3 \<leftarrow> (case seat_get_focus_inactive_tiling s2 (current_seat s2) w of
                Some reference \<Rightarrow> tile_beside sf reference c s2
              | None \<Rightarrow> tile_alone sf w c s2);
        Some (set_fractions c 0 0 (use_saved_border c s3)) })"

definition container_set_floating :: "refocus_op \<Rightarrow> nat \<Rightarrow> bool \<Rightarrow> sway \<Rightarrow> sway option" where
  "container_set_floating sf c enable s = (if enable then float_on sf c s else float_off sf c s)"

definition restore_maximized_tiled_scrollable ::
  "refocus_op \<Rightarrow> nat \<Rightarrow> nat \<Rightarrow> int \<Rightarrow> rat \<Rightarrow> rat \<Rightarrow> sway \<Rightarrow> sway option" where
  "restore_maximized_tiled_scrollable sf c w index width height s = do {
     let s1 = (if con_scratchpad (cons s c) then root_scratchpad_remove_container c s else s);
     s2 \<leftarrow> container_detach c s1;
     let i = max 0 (min index (int (length (ws_tiling (wss s2 w)))));
     s3 \<leftarrow> workspace_insert_tiling_direct sf w c i s2;
     Some (set_fractions c width height (use_saved_border c s3)) }"

definition maximize :: "refocus_op \<Rightarrow> nat \<Rightarrow> nat \<Rightarrow> sway \<Rightarrow> sway option" where
  "maximize sf c w s = do {
     s1 \<leftarrow> (if fullscreen_mode_of s c \<noteq> FULLSCREEN_NONE then container_set_fullscreen sf c FULLSCREEN_NONE s else Some s);
     let p = pending s1 c;
     let mx = \<lparr>mx_enabled = mx_enabled (con_maximized (cons s1 c)), mx_was_floating = container_is_floating s1 c,
                mx_x = st_x p, mx_y = st_y p, mx_width = st_width p, mx_height = st_height p,
                mx_workspace = workspace_of s1 c,
                mx_tiling_index = (case workspace_of s1 c of
                    Some v \<Rightarrow> seq_find (\<lambda>x. x = c) (ws_tiling (wss s1 v)) 0 | None \<Rightarrow> - 1),
                mx_width_fraction = con_width_fraction (cons s1 c),
                mx_height_fraction = con_height_fraction (cons s1 c)\<rparr>;
     let s2 = upd_con c (con_maximized_update (\<lambda>_. mx)) s1;
     s3 \<leftarrow> (if mx_was_floating mx then Some s2 else container_set_floating sf c True s2);
     let s4 = container_reconcile_maximized c (upd_con c (con_maximized_update (mx_enabled_update (\<lambda>_. True))) s3);
     Some (if container_is_floating s4 c then container_raise_floating c s4 else s4) }"

definition unmaximize :: "refocus_op \<Rightarrow> nat \<Rightarrow> sway \<Rightarrow> sway option" where
  "unmaximize sf c s =
     (let mx = con_maximized (cons s c); s1 = container_clear_maximized c s in
      if mx_was_floating mx
      then Some (arrange_container c (set_geometry c (mx_x mx) (mx_y mx) (mx_width mx) (mx_height mx) s1))
      else case mx_workspace mx of
        Some w \<Rightarrow>
          if ws_layout (wss s1 w) = L_SCROLL_H
          then restore_maximized_tiled_scrollable sf c w (mx_tiling_index mx) (mx_width_fraction mx) (mx_height_fraction mx) s1
          else container_set_floating sf c False s1
      | None \<Rightarrow> container_set_floating sf c False s1)"

definition maximize_target :: "nat \<Rightarrow> sway \<Rightarrow> nat" where
  "maximize_target c s =
     (if container_is_floating_or_child s c \<or>
         (case workspace_of s c of Some w \<Rightarrow> ws_layout (wss s w) = L_SCROLL_H | None \<Rightarrow> False)
      then container_toplevel_ancestor s c else c)"

definition container_set_maximized :: "refocus_op \<Rightarrow> nat \<Rightarrow> bool \<Rightarrow> sway \<Rightarrow> sway option" where
  "container_set_maximized sf c0 enable s =
     (let c = maximize_target c0 s in
      if container_is_maximized s c = enable then Some s
      else if enable
      then (case workspace_of s c of None \<Rightarrow> Some s | Some w \<Rightarrow> maximize sf c w s)
      else unmaximize sf c s)"

section \<open>Flattening\<close>

primrec flatten_up :: "nat \<Rightarrow> refocus_op \<Rightarrow> nat option \<Rightarrow> sway \<Rightarrow> (nat option \<times> sway) option" where
  "flatten_up 0 sf con s = None"
| "flatten_up (Suc n) sf con s =
     (case con of
        None \<Rightarrow> Some (None, s)
      | Some c \<Rightarrow>
          (case children_of s c of
             Some [child] \<Rightarrow>
               container_replace sf c child s \<bind> container_begin_destroy sf c \<bind> flatten_up n sf (parent_of s c)
           | Some _ \<Rightarrow> Some (con, s)
           | None \<Rightarrow> None))"

definition container_flatten :: "refocus_op \<Rightarrow> nat \<Rightarrow> sway \<Rightarrow> (nat option \<times> sway) option" where
  "container_flatten sf c s =
     (if con_view (cons s c) \<noteq> None then Some (None, s) else flatten_up (next_id s + 2) sf (Some c) s)"

section \<open>Wrapping and splitting a workspace\<close>

primrec wrap_loop :: "nat \<Rightarrow> refocus_op \<Rightarrow> nat \<Rightarrow> nat \<Rightarrow> sway \<Rightarrow> sway option" where
  "wrap_loop 0 sf w middle s = (if ws_tiling (wss s w) = [] then Some s else None)"
| "wrap_loop (Suc n) sf w middle s =
     (case ws_tiling (wss s w) of
        [] \<Rightarrow> Some s
      | child # _ \<Rightarrow> container_detach child s \<bind> container_add_child sf middle child \<bind> wrap_loop n sf w middle)"

definition workspace_wrap_children :: "refocus_op \<Rightarrow> nat \<Rightarrow> sway \<Rightarrow> (nat \<times> sway) option" where
  "workspace_wrap_children sf w s = do {
     let fs = ws_fullscreen (wss s w);
     let (middle, s1) = container_create None s;
     let s2 = upd_pending middle (st_layout_update (\<lambda>_. ws_layout (wss s1 w))) s1;
     s3 \<leftarrow> wrap_loop (length (ws_tiling (wss s2 w))) sf w middle s2;
     s4 \<leftarrow> workspace_attach_tiling sf w middle s3;
     Some (middle, upd_ws w (ws_fullscreen_update (\<lambda>_. fs)) s4) }"

primrec unwrap_loop :: "nat \<Rightarrow> refocus_op \<Rightarrow> nat \<Rightarrow> nat \<Rightarrow> sway \<Rightarrow> sway option" where
  "unwrap_loop 0 sf w wrapper s = (if kids s wrapper = [] then Some s else None)"
| "unwrap_loop (Suc n) sf w wrapper s =
     (case kids s wrapper of
        [] \<Rightarrow> Some s
      | child # _ \<Rightarrow> do {
          s1 \<leftarrow> container_detach child s;
          (k, s2) \<leftarrow> workspace_add_tiling sf w child s1;
          unwrap_loop n sf w wrapper s2 })"

definition workspace_unwrap_children :: "refocus_op \<Rightarrow> nat \<Rightarrow> nat \<Rightarrow> sway \<Rightarrow> sway option" where
  "workspace_unwrap_children sf w wrapper s =
     (if \<not> workspace_is_empty s w then Some s
      else unwrap_loop (length (kids s wrapper)) sf w wrapper
             (upd_ws w (ws_layout_update (\<lambda>_. st_layout (pending s wrapper))) s))"

definition refocus_middle :: "refocus_op \<Rightarrow> nat \<Rightarrow> nat \<Rightarrow> nat \<Rightarrow> sway \<Rightarrow> sway option" where
  "refocus_middle sf w middle i s =
     (if seat_get_focus s i = Some (N_WORKSPACE w) then sf i (Some (N_CONTAINER middle)) s else Some s)"

definition workspace_split :: "refocus_op \<Rightarrow> nat \<Rightarrow> sway_container_layout \<Rightarrow> sway \<Rightarrow> (nat option \<times> sway) option" where
  "workspace_split sf w layout s =
     (if ws_tiling (wss s w) = []
      then Some (None, upd_ws w (\<lambda>v. v\<lparr>ws_prev_split_layout := ws_layout v, ws_layout := layout\<rparr>) s)
      else do {
        let old_layout = ws_layout (wss s w);
        (middle, s1) \<leftarrow> workspace_wrap_children sf w s;
        let s2 = upd_pending middle (st_layout_update (\<lambda>_. old_layout)) (upd_ws w (ws_layout_update (\<lambda>_. layout)) s1);
        s3 \<leftarrow> for_seats (refocus_middle sf w middle) (seat_ids s2) s2;
        Some (Some middle, s3) })"

section \<open>Squashing\<close>

fun is_parallel :: "sway_container_layout \<Rightarrow> sway_container_layout \<Rightarrow> bool" where
  "is_parallel L_NONE second = False"
| "is_parallel L_STACKED second = (second = L_STACKED \<or> second = L_VERT)"
| "is_parallel L_VERT second = (second = L_STACKED \<or> second = L_VERT)"
| "is_parallel first second = (second = L_TABBED \<or> second = L_HORIZ \<or> second = L_SCROLL_H)"

definition container_is_squashable :: "sway \<Rightarrow> nat \<Rightarrow> nat \<Rightarrow> bool" where
  "container_is_squashable s con child =
     (let l = st_layout (pending s con); k = st_layout (pending s child) in
      (l = L_HORIZ \<or> l = L_VERT \<or> l = L_SCROLL_H) \<and> (k = L_HORIZ \<or> k = L_VERT \<or> k = L_SCROLL_H) \<and>
      \<not> is_parallel l k \<and> is_parallel (container_parent_layout s con) k)"

text \<open>The children of \<open>child\<close> go to the place of \<open>con\<close>, each to the same index.\<close>

definition hoist :: "refocus_op \<Rightarrow> nat \<Rightarrow> nat \<Rightarrow> int \<Rightarrow> sway \<Rightarrow> sway option" where
  "hoist sf con current idx s =
     (case parent_of s con of
        Some p \<Rightarrow> container_insert_child sf p current idx s
      | None \<Rightarrow> workspace_of s con \<bind> (\<lambda>w. workspace_insert_tiling_direct sf w current idx s))"

primrec hoist_all :: "nat \<Rightarrow> refocus_op \<Rightarrow> nat \<Rightarrow> nat \<Rightarrow> int \<Rightarrow> int \<Rightarrow> sway \<Rightarrow> (int \<times> sway) option" where
  "hoist_all 0 sf con child idx change s = (if kids s child = [] then Some (change, s) else None)"
| "hoist_all (Suc n) sf con child idx change s =
     (case kids s child of
        [] \<Rightarrow> Some (change, s)
      | current # _ \<Rightarrow> do {
          s1 \<leftarrow> container_detach current s;
          s2 \<leftarrow> hoist sf con current idx s1;
          hoist_all n sf con child idx (change + 1) s2 })"

definition squash_pair :: "refocus_op \<Rightarrow> nat \<Rightarrow> nat \<Rightarrow> sway \<Rightarrow> (int \<times> sway) option" where
  "squash_pair sf con child s = do {
     idx \<leftarrow> container_sibling_index s con;
     (change, s1) \<leftarrow> hoist_all (length (kids s child)) sf con child idx 0 s;
     s2 \<leftarrow> container_reap_empty sf child s1;
     Some (change - 1, s2) }"

text \<open>
  \<open>container_squash\<close> and \<open>container_squash_children\<close>, whose loop variable skips what the call
  has inserted; \<open>n\<close> bounds the depth of the tree plus the lengths of its lists.
\<close>

fun container_squash :: "nat \<Rightarrow> refocus_op \<Rightarrow> nat \<Rightarrow> sway \<Rightarrow> (int \<times> sway) option"
  and squash_children :: "nat \<Rightarrow> refocus_op \<Rightarrow> nat \<Rightarrow> int \<Rightarrow> sway \<Rightarrow> sway option" where
  "container_squash 0 sf con s = None"
| "container_squash (Suc n) sf con s =
     (case children_of s con of
        None \<Rightarrow> Some (0, s)
      | Some [child] \<Rightarrow>
          if container_is_squashable s con child then squash_pair sf con child s
          else map_option (Pair 0) (squash_children n sf con 0 s)
      | Some _ \<Rightarrow> map_option (Pair 0) (squash_children n sf con 0 s))"
| "squash_children 0 sf con i s = None"
| "squash_children (Suc n) sf con i s =
     (if i < int (length (kids s con))
      then do {
        (change, s1) \<leftarrow> container_squash n sf (kids s con ! nat i) s;
        squash_children n sf con (i + change + 1) s1 }
      else Some s)"

primrec squash_tiling :: "nat \<Rightarrow> refocus_op \<Rightarrow> nat \<Rightarrow> int \<Rightarrow> sway \<Rightarrow> sway option" where
  "squash_tiling 0 sf w i s = None"
| "squash_tiling (Suc n) sf w i s =
     (if i < int (length (ws_tiling (wss s w)))
      then do {
        (change, s1) \<leftarrow> container_squash n sf (ws_tiling (wss s w) ! nat i) s;
        squash_tiling n sf w (i + change + 1) s1 }
      else Some s)"

definition workspace_squash :: "nat \<Rightarrow> refocus_op \<Rightarrow> nat \<Rightarrow> sway \<Rightarrow> sway option" where
  "workspace_squash n sf w s = squash_tiling n sf w 0 s"

section \<open>Swapping\<close>

text \<open>Insert \<open>c\<close> where \<open>other\<close> is: \<open>(parent, floating, workspace, index)\<close> describe the place.\<close>

definition put_at :: "refocus_op \<Rightarrow> nat option \<Rightarrow> bool \<Rightarrow> nat option \<Rightarrow> int option \<Rightarrow> nat \<Rightarrow> sway \<Rightarrow> sway option" where
  "put_at sf parent floating ws index c s =
     (case parent of
        Some p \<Rightarrow> index \<bind> (\<lambda>i. container_insert_child sf p c i s)
      | None \<Rightarrow>
          if floating then ws \<bind> (\<lambda>w. workspace_add_floating sf w c s)
          else ws \<bind> (\<lambda>w. index \<bind> (\<lambda>i. map_option snd (workspace_insert_tiling sf w c i s))))"

definition take_geometry :: "sway \<Rightarrow> nat \<Rightarrow> nat \<Rightarrow> sway \<Rightarrow> sway" where
  "take_geometry s0 from to s =
     (let p = pending s0 from in
      set_fractions to (con_width_fraction (cons s0 from)) (con_height_fraction (cons s0 from))
        (set_geometry to (st_x p) (st_y p) (st_width p) (st_height p) s))"

definition swap_places :: "refocus_op \<Rightarrow> nat \<Rightarrow> nat \<Rightarrow> sway \<Rightarrow> sway option" where
  "swap_places sf con1 con2 s = do {
     let temp_floating = container_is_floating s con1;
     let temp_parent = parent_of s con1;
     let temp_workspace = workspace_of s con1;
     let s1 = take_geometry s con1 con2 (take_geometry s con2 con1 s);
     let temp_index = container_sibling_index s1 con1;
     s2 \<leftarrow> put_at sf (parent_of s1 con2) (container_is_floating s1 con2) (workspace_of s1 con2)
            (container_sibling_index s1 con2) con1 s1;
     put_at sf temp_parent temp_floating temp_workspace temp_index con2 s2 }"

definition visible_then_focus :: "refocus_op \<Rightarrow> nat \<Rightarrow> nat option \<Rightarrow> nat \<Rightarrow> sway \<Rightarrow> sway option" where
  "visible_then_focus sf seat ws c s = do {
     w \<leftarrow> ws;
     v \<leftarrow> workspace_is_visible s w;
     (if v then sf seat (Some (N_CONTAINER c)) s else Some s) }"

definition swap_focus_to :: "refocus_op \<Rightarrow> nat \<Rightarrow> nat \<Rightarrow> nat \<Rightarrow> nat option \<Rightarrow> sway \<Rightarrow> sway option" where
  "swap_focus_to sf con1 con2 seat focus s =
     (let ws1 = workspace_of s con1; ws2 = workspace_of s con2;
          tabs = (\<lambda>c. container_parent_layout s c = L_TABBED \<or> container_parent_layout s c = L_STACKED);
          to = (\<lambda>c s. sf seat (Some (N_CONTAINER c)) s)
      in if focus = Some con1 \<or> focus = Some con2
         then (if focus = Some con1 \<and> tabs con2
               then visible_then_focus sf seat ws2 con2 s \<bind> to (if ws1 \<noteq> ws2 then con2 else con1)
               else if focus = Some con2 \<and> tabs con1
               then visible_then_focus sf seat ws1 con1 s \<bind> to (if ws1 \<noteq> ws2 then con1 else con2)
               else if ws1 \<noteq> ws2 then to (if focus = Some con1 then con2 else con1) s
               else sf seat (map_option N_CONTAINER focus) s)
         else sf seat (map_option N_CONTAINER focus) s)"

definition swap_focus :: "refocus_op \<Rightarrow> nat \<Rightarrow> nat \<Rightarrow> nat \<Rightarrow> nat option \<Rightarrow> sway \<Rightarrow> sway option" where
  "swap_focus sf con1 con2 seat focus s = do {
     s1 \<leftarrow> swap_focus_to sf con1 con2 seat focus s;
     (case fullscreen_global s1 of
        Some fg \<Rightarrow> sf seat (seat_get_focus_inactive s1 seat (N_CONTAINER fg)) s1
      | None \<Rightarrow> Some s1) }"

definition leave_scratchpad :: "refocus_op \<Rightarrow> nat \<Rightarrow> bool \<Rightarrow> bool \<Rightarrow> sway \<Rightarrow> sway option" where
  "leave_scratchpad sf c scratch hidden s =
     (if scratch
      then map_option (root_scratchpad_remove_container c)
             (if hidden then root_scratchpad_show sf c s else Some s)
      else Some s)"

definition enter_scratchpad :: "refocus_op \<Rightarrow> nat \<Rightarrow> bool \<Rightarrow> bool \<Rightarrow> sway \<Rightarrow> sway option" where
  "enter_scratchpad sf c scratch hidden s =
     (if scratch
      then root_scratchpad_add_container sf c None s \<bind>
             (\<lambda>s. if \<not> hidden then root_scratchpad_show sf c s else Some s)
      else Some s)"

definition show_again :: "refocus_op \<Rightarrow> nat \<Rightarrow> nat \<Rightarrow> sway \<Rightarrow> sway option" where
  "show_again sf seat vis s = do {
     v \<leftarrow> workspace_is_visible s vis;
     (if \<not> v then sf seat (seat_get_focus_inactive s seat (N_WORKSPACE vis)) s else Some s) }"

definition active_beside :: "sway \<Rightarrow> nat \<Rightarrow> nat option option" where
  "active_beside s c =
     workspace_of s c \<bind> (\<lambda>w. map_option (output_get_active_workspace s) (ws_output (wss s w)))"

definition set_fullscreen_if :: "refocus_op \<Rightarrow> nat \<Rightarrow> sway_fullscreen_mode \<Rightarrow> sway \<Rightarrow> sway option" where
  "set_fullscreen_if sf c mode s =
     (if mode \<noteq> FULLSCREEN_NONE then container_set_fullscreen sf c mode s else Some s)"

definition swap_shown :: "refocus_op \<Rightarrow> nat \<Rightarrow> nat \<Rightarrow> nat \<Rightarrow> nat \<Rightarrow> sway \<Rightarrow> sway option" where
  "swap_shown sf con1 con2 vis1 vis2 s = do {
     let seat = current_seat s;
     let focus = seat_get_focused_container s seat;
     let stored_prev_name = seat_prev_workspace_name (seats s seat);
     s1 \<leftarrow> swap_places sf con1 con2 s;
     s2 \<leftarrow> show_again sf seat vis1 s1;
     s3 \<leftarrow> show_again sf seat vis2 s2;
     s4 \<leftarrow> swap_focus sf con1 con2 seat focus s3;
     Some (if stored_prev_name \<noteq> None
           then upd_seat seat (seat_prev_workspace_name_update (\<lambda>_. stored_prev_name)) s4 else s4) }"

definition container_swap :: "refocus_op \<Rightarrow> nat \<Rightarrow> nat \<Rightarrow> sway \<Rightarrow> sway option" where
  "container_swap sf con1 con2 s =
     (if container_has_ancestor s (Some con1) con2 \<or> container_has_ancestor s (Some con2) con1 then Some s
      else do {
        let scratch1 = con_scratchpad (cons s con1);
        let hidden1 = container_is_scratchpad_hidden s con1;
        let scratch2 = con_scratchpad (cons s con2);
        let hidden2 = container_is_scratchpad_hidden s con2;
        s1 \<leftarrow> leave_scratchpad sf con1 scratch1 hidden1 s;
        s2 \<leftarrow> leave_scratchpad sf con2 scratch2 hidden2 s1;
        let fs1 = fullscreen_mode_of s2 con1;
        s3 \<leftarrow> container_fullscreen_disable sf con1 s2;
        let fs2 = fullscreen_mode_of s3 con2;
        s4 \<leftarrow> container_fullscreen_disable sf con2 s3;
        vis1 \<leftarrow> active_beside s4 con1;
        vis2 \<leftarrow> active_beside s4 con2;
        (case (vis1, vis2) of
           (Some v1, Some v2) \<Rightarrow> do {
             s5 \<leftarrow> swap_shown sf con1 con2 v1 v2 s4;
             s6 \<leftarrow> enter_scratchpad sf con2 scratch1 hidden1 s5;
             s7 \<leftarrow> enter_scratchpad sf con1 scratch2 hidden2 s6;
             s8 \<leftarrow> set_fullscreen_if sf con2 fs1 s7;
             set_fullscreen_if sf con1 fs2 s8 }
         | _ \<Rightarrow> Some s4) })"

end
