(* ===== verification/Workspace_Nav.thy ===== *)
theory Workspace_Nav
  imports Layout_Ops String_Ops Util_Ops
begin

text \<open>
  Finding and naming workspaces: the configuration lookups, \<open>workspace_by_number\<close>,
  \<open>workspace_by_name\<close>, \<open>workspace_prev\<close>, \<open>workspace_next\<close>, \<open>workspace_next_name\<close> of
  \<open>sway/tree/workspace.c\<close> and \<open>do_var_replacement\<close> of \<open>sway/config.c\<close>. A function that
  returns a pointer returns an option; where the code would also follow a null pointer the
  result has an outer option for that.
\<close>

section \<open>Variables of the configuration\<close>

text \<open>
  The text before the cursor \<open>find\<close> and the text from there on. A dollar is skipped behind a
  backslash that is not itself escaped, a double dollar becomes a single one, and the first
  variable (in the order of the list) that is a prefix of the text is replaced by its value,
  which is not scanned again.
\<close>

definition dollar_escaped :: "string \<Rightarrow> bool" where
  "dollar_escaped before =
     (before \<noteq> [] \<and> last before = BACKSLASH \<and>
      (length before = 1 \<or> \<not> (length before > 1 \<and> before ! (length before - 2) = BACKSLASH)))"

function var_loop :: "(string \<times> string) list \<Rightarrow> string \<Rightarrow> string \<Rightarrow> string" where
  "var_loop symbols before [] = before"
| "var_loop symbols before (c # cs) =
     (if c \<noteq> CHR ''$'' then var_loop symbols (before @ [c]) cs
      else if dollar_escaped before then var_loop symbols (before @ [c]) cs
      else if cs \<noteq> [] \<and> hd cs = CHR ''$'' then var_loop symbols (before @ [c]) (tl cs)
      else case find (\<lambda>v. has_prefix cs (fst v)) symbols of
        Some v \<Rightarrow> var_loop symbols (before @ snd v) (drop (length (fst v)) cs)
      | None \<Rightarrow> var_loop symbols (before @ [c]) cs)"
  by pat_completeness auto
termination
  by (relation "measure (\<lambda>(y, b, s). length s)") auto

definition do_var_replacement :: "sway \<Rightarrow> string \<Rightarrow> string" where
  "do_var_replacement s str = var_loop (cfg_symbols (cfg s)) [] str"

section \<open>Workspace configurations\<close>

definition workspace_find_config :: "sway \<Rightarrow> string \<Rightarrow> workspace_config option" where
  "workspace_find_config s name = find (\<lambda>wsc. strcmp (wsc_workspace wsc) name = 0) (cfg_workspace_configs (cfg s))"

text \<open>\<open>None\<close> also stands for a null output of the focused workspace, which the caller follows.\<close>

definition workspace_get_initial_output :: "sway \<Rightarrow> string \<Rightarrow> nat option" where
  "workspace_get_initial_output s name =
     (let configured = (case workspace_find_config s name of
            Some wsc \<Rightarrow> find_first (output_by_name_or_id s) (wsc_outputs wsc) | None \<Rightarrow> None)
      in case configured of
        Some out \<Rightarrow> Some out
      | None \<Rightarrow>
          (case seat_get_focus_inactive s (current_seat s) N_ROOT of
             Some (N_WORKSPACE w) \<Rightarrow> ws_output (wss s w)
           | Some (N_CONTAINER c) \<Rightarrow> workspace_of s c \<bind> (\<lambda>w. ws_output (wss s w))
           | _ \<Rightarrow> Some (case root_outputs s of out # _ \<Rightarrow> out | [] \<Rightarrow> fallback_output s)))"

definition workspace_valid_on_output :: "sway \<Rightarrow> string \<Rightarrow> string \<Rightarrow> bool" where
  "workspace_valid_on_output s output_name name =
     (case output_by_name_or_id s output_name of
        None \<Rightarrow> False
      | Some out \<Rightarrow>
          (case workspace_find_config s name of
             None \<Rightarrow> True
           | Some wsc \<Rightarrow> \<exists>target \<in> set (wsc_outputs wsc). output_match_name_or_id s out target))"

section \<open>Workspaces by number and name\<close>

text \<open>\<open>_workspace_by_number\<close>: the leading digits of both names agree.\<close>

fun number_match :: "string \<Rightarrow> string \<Rightarrow> bool" where
  "number_match [] w = (w = [] \<or> \<not> isdigit (hd w))"
| "number_match (c # cs) w =
     (if isdigit c then (case w of [] \<Rightarrow> False | d # ds \<Rightarrow> c = d \<and> number_match cs ds)
      else w = [] \<or> \<not> isdigit (hd w))"

definition workspace_by_number :: "sway \<Rightarrow> string \<Rightarrow> nat option" where
  "workspace_by_number s name = root_find_workspace s (\<lambda>w. number_match name (ws_name (wss s w)))"

definition workspace_named :: "sway \<Rightarrow> string \<Rightarrow> nat option" where
  "workspace_named s name = root_find_workspace s (\<lambda>w. strcasecmp_eq (ws_name (wss s w)) name)"

definition workspace_get_number :: "sway \<Rightarrow> nat \<Rightarrow> int" where
  "workspace_get_number s w =
     (case strtoll10 (ws_name (wss s w)) of
        (n, erange, rest) \<Rightarrow> if erange \<or> n > INT_MAX \<or> n < 0 \<or> rest = ws_name (wss s w) then - 1 else n)"

section \<open>The previous and the next workspace\<close>

text \<open>
  The loops over the outputs and their workspaces, from the end for \<open>workspace_prev\<close>. In the
  loop over numbered workspaces \<open>workspace_next\<close> leaves an output at its first named one
  (\<open>break\<close>), after it has looked at it.
\<close>

definition or_else :: "'a option \<Rightarrow> 'a option \<Rightarrow> 'a option" where
  "or_else a b = (case a of Some x \<Rightarrow> Some x | None \<Rightarrow> b)"

fun prev_named :: "sway \<Rightarrow> nat \<Rightarrow> nat list \<Rightarrow> nat option \<Rightarrow> nat option \<Rightarrow> int \<Rightarrow> bool \<Rightarrow> nat option" where
  "prev_named s current [] last_ws other othern found = or_else other last_ws"
| "prev_named s current (w # ws) last_ws other othern found =
     (let wsn = workspace_get_number s w;
          last_ws = or_else last_ws (Some w);
          better = (other = None \<or> (wsn \<ge> 0 \<and> wsn > othern));
          other = (if better then Some w else other);
          othern = (if better then wsn else othern)
      in if w = current then prev_named s current ws last_ws other othern True
         else if wsn < 0 \<and> found then Some w
         else prev_named s current ws last_ws other othern found)"

fun prev_numbered :: "sway \<Rightarrow> int \<Rightarrow> nat list \<Rightarrow> nat option \<Rightarrow> int \<Rightarrow> nat option \<Rightarrow> nat option \<Rightarrow> int \<Rightarrow> nat option" where
  "prev_numbered s n [] last_ws lastn other prev prevn = or_else prev (or_else other last_ws)"
| "prev_numbered s n (w # ws) last_ws lastn other prev prevn =
     (let wsn = workspace_get_number s w;
          later = (last_ws = None \<or> (wsn \<ge> 0 \<and> wsn > lastn));
          last_ws = (if later then Some w else last_ws);
          lastn = (if later then wsn else lastn);
          other = (if other = None \<and> wsn < 0 then Some w else other);
          closer = (wsn \<ge> 0 \<and> wsn < n \<and> (prev = None \<or> wsn > prevn))
      in prev_numbered s n ws last_ws lastn other (if closer then Some w else prev) (if closer then wsn else prevn))"

definition all_workspaces :: "sway \<Rightarrow> nat list" where
  "all_workspaces s = concat (map (\<lambda>out. out_workspaces (outs s out)) (root_outputs s))"

definition workspace_prev :: "sway \<Rightarrow> nat \<Rightarrow> nat option" where
  "workspace_prev s w =
     (let n = workspace_get_number s w; ws = rev (all_workspaces s) in
      if n < 0 then prev_named s w ws None None (- 1) False
      else prev_numbered s n ws None (- 1) None None (- 1))"

fun next_named :: "sway \<Rightarrow> nat \<Rightarrow> nat list \<Rightarrow> nat option \<Rightarrow> nat option \<Rightarrow> int \<Rightarrow> bool \<Rightarrow> nat option" where
  "next_named s current [] first other othern found = or_else other first"
| "next_named s current (w # ws) first other othern found =
     (let wsn = workspace_get_number s w;
          first = or_else first (Some w);
          better = (other = None \<or> (wsn \<ge> 0 \<and> wsn < othern));
          other = (if better then Some w else other);
          othern = (if better then wsn else othern)
      in if w = current then next_named s current ws first other othern True
         else if wsn < 0 \<and> found then Some w
         else next_named s current ws first other othern found)"

fun upto_named :: "sway \<Rightarrow> nat list \<Rightarrow> nat list" where
  "upto_named s [] = []"
| "upto_named s (w # ws) = w # (if workspace_get_number s w < 0 then [] else upto_named s ws)"

fun next_numbered :: "sway \<Rightarrow> int \<Rightarrow> nat list \<Rightarrow> nat option \<Rightarrow> int \<Rightarrow> nat option \<Rightarrow> nat option \<Rightarrow> int \<Rightarrow> nat option" where
  "next_numbered s n [] first firstn other nxt nextn = or_else nxt (or_else other first)"
| "next_numbered s n (w # ws) first firstn other nxt nextn =
     (let wsn = workspace_get_number s w;
          sooner = (first = None \<or> (wsn \<ge> 0 \<and> wsn < firstn));
          first = (if sooner then Some w else first);
          firstn = (if sooner then wsn else firstn);
          other = (if other = None \<and> wsn < 0 then Some w else other);
          closer = (wsn \<ge> 0 \<and> n < wsn \<and> (nxt = None \<or> wsn < nextn))
      in next_numbered s n ws first firstn other (if closer then Some w else nxt) (if closer then wsn else nextn))"

definition workspace_next :: "sway \<Rightarrow> nat \<Rightarrow> nat option" where
  "workspace_next s w =
     (let n = workspace_get_number s w in
      if n < 0 then next_named s w (all_workspaces s) None None (- 1) False
      else next_numbered s n (concat (map (\<lambda>out. upto_named s (out_workspaces (outs s out))) (root_outputs s)))
             None (- 1) None None (- 1))"

text \<open>
  On one output: the outer \<open>None\<close> is an output without workspaces (a division by zero in
  \<open>wrap\<close>) or an index outside the list.
\<close>

definition workspace_output_prev_next_impl :: "sway \<Rightarrow> nat \<Rightarrow> int \<Rightarrow> nat option option" where
  "workspace_output_prev_next_impl s out dir =
     (case seat_get_focused_workspace s (current_seat s) of
        None \<Rightarrow> Some None
      | Some w \<Rightarrow>
          let l = out_workspaces (outs s out); index = seq_find (\<lambda>x. x = w) l 0 in do {
            i \<leftarrow> wrap (index + dir) (int (length l));
            (if 0 \<le> i \<and> i < int (length l) then Some (Some (l ! nat i)) else None) })"

definition workspace_output_next :: "sway \<Rightarrow> nat \<Rightarrow> nat option option" where
  "workspace_output_next s w = ws_output (wss s w) \<bind> (\<lambda>out. workspace_output_prev_next_impl s out 1)"

definition workspace_output_prev :: "sway \<Rightarrow> nat \<Rightarrow> nat option option" where
  "workspace_output_prev s w = ws_output (wss s w) \<bind> (\<lambda>out. workspace_output_prev_next_impl s out (- 1))"

definition workspace_by_name :: "sway \<Rightarrow> string \<Rightarrow> nat option option" where
  "workspace_by_name s name =
     (case (seat_get_focused_workspace s (current_seat s), name) of
        (current, _) \<Rightarrow>
          if current \<noteq> None \<and> name = ''prev'' then Some (workspace_prev s (the current))
          else if current \<noteq> None \<and> name = ''prev_on_output'' then workspace_output_prev s (the current)
          else if current \<noteq> None \<and> name = ''next'' then Some (workspace_next s (the current))
          else if current \<noteq> None \<and> name = ''next_on_output'' then workspace_output_next s (the current)
          else if name = ''current'' then Some current
          else if strcasecmp_eq name ''back_and_forth''
          then Some (seat_prev_workspace_name (seats s (current_seat s)) \<bind> workspace_named s)
          else Some (workspace_named s name))"

section \<open>A name for a new workspace\<close>

definition reserved_targets :: "string list" where
  "reserved_targets = [''next'', ''prev'', ''next_on_output'', ''prev_on_output'', ''number'',
     ''back_and_forth'', ''current'']"

text \<open>
  The command \<open>workspace n\<close> of a binding. The result is the smallest order so far and its
  name; the outer \<open>None\<close> is a crash in \<open>workspace_by_name\<close>.
\<close>

definition binding_target :: "sway \<Rightarrow> string \<Rightarrow> string option" where
  "binding_target s command =
     (case argsep command '' '' of
        (first, rest, _) \<Rightarrow>
          if first = ''workspace''
          then map_option (\<lambda>r. strip_quotes (do_var_replacement s (fst (argsep r '',;'')))) rest
          else None)"

definition name_is_free :: "sway \<Rightarrow> string \<Rightarrow> string \<Rightarrow> string option option" where
  "name_is_free s output_name target =
     (let number = has_prefix target ''number ''; name = (if number then drop 7 target else target) in
      if target \<in> set reserved_targets then Some None
      else if number \<and> name \<noteq> [] \<and> isdigit (hd name) \<and> workspace_by_number s name \<noteq> None then Some None
      else do {
        w \<leftarrow> workspace_by_name s name;
        Some (if w \<noteq> None then None
              else if \<not> workspace_valid_on_output s output_name name then None
              else Some name) })"

definition workspace_name_from_binding ::
  "sway \<Rightarrow> sway_binding \<Rightarrow> string \<Rightarrow> int \<times> string option \<Rightarrow> (int \<times> string option) option" where
  "workspace_name_from_binding s binding output_name best =
     (case binding_target s (binding_command binding) of
        None \<Rightarrow> Some best
      | Some target \<Rightarrow> map_option (\<lambda>free.
          case free of
            Some name \<Rightarrow> if binding_order binding < fst best then (binding_order binding, Some name) else best
          | None \<Rightarrow> best) (name_is_free s output_name target))"

fun names_from_bindings :: "sway \<Rightarrow> string \<Rightarrow> sway_binding list \<Rightarrow> int \<times> string option \<Rightarrow> (int \<times> string option) option" where
  "names_from_bindings s output_name [] best = Some best"
| "names_from_bindings s output_name (b # bs) best =
     workspace_name_from_binding s b output_name best \<bind> names_from_bindings s output_name bs"

fun name_from_configs :: "sway \<Rightarrow> nat \<Rightarrow> workspace_config list \<Rightarrow> string option option" where
  "name_from_configs s out [] = Some None"
| "name_from_configs s out (wsc # wscs) = do {
     w \<leftarrow> workspace_by_name s (wsc_workspace wsc);
     (if w \<noteq> None then name_from_configs s out wscs
      else if \<exists>name \<in> set (wsc_outputs wsc). output_match_name_or_id s out name
      then Some (Some (wsc_workspace wsc))
      else name_from_configs s out wscs) }"

text \<open>The next number that no workspace has; \<open>n\<close> bounds the attempts.\<close>

primrec next_free_number :: "nat \<Rightarrow> sway \<Rightarrow> nat \<Rightarrow> string option" where
  "next_free_number 0 s k = None"
| "next_free_number (Suc n) s k =
     (if workspace_by_number s (show_nat k) = None then Some (show_nat k) else next_free_number n s (k + 1))"

text \<open>\<open>None\<close>: a crash or too few attempts. The inner \<open>None\<close>: no such output.\<close>

definition workspace_next_name :: "sway \<Rightarrow> string \<Rightarrow> string option option" where
  "workspace_next_name s output_name =
     (case output_by_name_or_id s output_name of
        None \<Rightarrow> Some None
      | Some out \<Rightarrow> do {
          b1 \<leftarrow> names_from_bindings s output_name (cfg_keysym_bindings (cfg s)) (INT_MAX, None);
          b2 \<leftarrow> names_from_bindings s output_name (cfg_keycode_bindings (cfg s)) b1;
          c \<leftarrow> name_from_configs s out (cfg_workspace_configs (cfg s));
          (case or_else c (snd b2) of
             Some target \<Rightarrow> Some (Some target)
           | None \<Rightarrow> map_option Some (next_free_number (length (all_workspaces s) + 1) s 1)) })"

end
