(* ===== verification/Output_Ops.thy ===== *)
theory Output_Ops
  imports Workspace_Nav Dyn_List_Sort
begin

text \<open>
  Workspaces and outputs: the output priorities, the creation and the switch of workspaces of
  \<open>sway/tree/workspace.c\<close>, and \<open>sway/tree/output.c\<close> (enabling and disabling outputs, the
  evacuation of their workspaces, sorting). The focus operation is a parameter as in
  \<open>Container_Ops\<close>. Not modelled: allocation failures, the scene graph, IPC events.
\<close>

section \<open>Directions\<close>

datatype wlr_direction = WLR_DIRECTION_UP | WLR_DIRECTION_DOWN | WLR_DIRECTION_LEFT | WLR_DIRECTION_RIGHT

fun opposite_direction :: "wlr_direction \<Rightarrow> wlr_direction" where
  "opposite_direction WLR_DIRECTION_UP = WLR_DIRECTION_DOWN"
| "opposite_direction WLR_DIRECTION_DOWN = WLR_DIRECTION_UP"
| "opposite_direction WLR_DIRECTION_RIGHT = WLR_DIRECTION_LEFT"
| "opposite_direction WLR_DIRECTION_LEFT = WLR_DIRECTION_RIGHT"

text \<open>
  \<open>adjacent out d x y\<close> is wlroots' answer to which output lies in direction \<open>d\<close> of the
  point. \<open>C\<close> division truncates.
\<close>

definition output_get_in_direction ::
  "(wlr_direction \<Rightarrow> nat \<Rightarrow> int \<Rightarrow> int \<Rightarrow> nat option) \<Rightarrow> sway \<Rightarrow> nat \<Rightarrow> wlr_direction \<Rightarrow> nat option" where
  "output_get_in_direction adjacent s reference direction =
     (let b = output_layout_box (env s) (Some reference) in
      adjacent direction reference (box_x b + c_trunc (of_int (box_width b) / 2)) (box_y b + c_trunc (of_int (box_height b) / 2)))"

section \<open>The order of the workspaces of an output\<close>

definition name_digit :: "sway \<Rightarrow> nat \<Rightarrow> bool" where
  "name_digit s w = (case ws_name (wss s w) of [] \<Rightarrow> False | c # cs \<Rightarrow> isdigit c)"

definition sort_workspace_cmp_qsort :: "sway \<Rightarrow> nat \<Rightarrow> nat \<Rightarrow> int" where
  "sort_workspace_cmp_qsort s a b =
     (if name_digit s a \<and> name_digit s b
      then let a_num = fst (strtol10_int (ws_name (wss s a))); b_num = fst (strtol10_int (ws_name (wss s b))) in
        if a_num < b_num then - 1 else if a_num > b_num then 1 else 0
      else if name_digit s a then - 1
      else if name_digit s b then 1
      else 0)"

definition output_sort_workspaces :: "nat \<Rightarrow> sway \<Rightarrow> sway" where
  "output_sort_workspaces out s =
     upd_out out (out_workspaces_update (\<lambda>l.
       items (list_stable_sort \<lparr>capacity = length l, items = l\<rparr> (sort_workspace_cmp_qsort s)))) s"

definition output_add_workspace :: "nat \<Rightarrow> nat \<Rightarrow> sway \<Rightarrow> sway option" where
  "output_add_workspace out w s = do {
     s1 \<leftarrow> (if ws_output (wss s w) \<noteq> None then workspace_detach w s else Some s);
     let s2 = upd_out out (out_workspaces_update (\<lambda>l. l @ [w])) s1;
     let s3 = upd_ws w (ws_output_update (\<lambda>_. Some out)) s2;
     Some (node_set_dirty (N_WORKSPACE w) (node_set_dirty (N_OUTPUT out) s3)) }"

section \<open>Output priorities\<close>

definition workspace_output_get_priority :: "sway \<Rightarrow> nat \<Rightarrow> nat \<Rightarrow> int" where
  "workspace_output_get_priority s w out =
     (let l = ws_output_priority (wss s w);
          index_id = seq_find (\<lambda>x. strcmp x (output_get_identifier (outs s out)) = 0) l 0;
          index_name = seq_find (\<lambda>x. strcmp x (out_name (outs s out)) = 0) l 0
      in if index_name < 0 \<or> index_id < index_name then index_id else index_name)"

definition workspace_output_raise_priority :: "nat \<Rightarrow> nat \<Rightarrow> nat \<Rightarrow> sway \<Rightarrow> sway" where
  "workspace_output_raise_priority w old_output out s =
     (let old_index = workspace_output_get_priority s w old_output;
          new_index = workspace_output_get_priority s w out;
          l = ws_output_priority (wss s w)
      in if old_index < 0 then s
         else if new_index < 0
         then upd_ws w (ws_output_priority_update (insert_at (nat old_index) (output_get_identifier (outs s out)))) s
         else if new_index > old_index
         then upd_ws w (ws_output_priority_update (\<lambda>l. insert_at (nat old_index) (l ! nat new_index) (remove_at (nat new_index) l))) s
         else s)"

definition workspace_output_add_priority :: "nat \<Rightarrow> nat \<Rightarrow> sway \<Rightarrow> sway" where
  "workspace_output_add_priority w out s =
     (if workspace_output_get_priority s w out < 0
      then upd_ws w (ws_output_priority_update (\<lambda>l. l @ [output_get_identifier (outs s out)])) s
      else s)"

definition workspace_output_get_highest_available :: "sway \<Rightarrow> nat \<Rightarrow> nat option" where
  "workspace_output_get_highest_available s w = find_first (output_by_name_or_id s) (ws_output_priority (wss s w))"

section \<open>Creating and switching workspaces\<close>

text \<open>A configured gap overrides the global one; \<open>INT_MIN\<close> stands for not configured.\<close>

definition or_gap :: "int \<Rightarrow> int \<Rightarrow> int" where
  "or_gap configured global = (if configured \<noteq> INT_MIN then configured else global)"

definition configured_gaps :: "sway_config \<Rightarrow> workspace_config option \<Rightarrow> sway_workspace \<Rightarrow> sway_workspace" where
  "configured_gaps config wsc ws =
     (let g = cfg_gaps_outer config in
      case wsc of
        None \<Rightarrow> ws\<lparr>ws_gaps_outer := g, ws_gaps_inner := cfg_gaps_inner config\<rparr>
      | Some c \<Rightarrow>
          ws\<lparr>ws_gaps_outer := \<lparr>gap_top = or_gap (gap_top (wsc_gaps_outer c)) (gap_top g),
               gap_right = or_gap (gap_right (wsc_gaps_outer c)) (gap_right g),
               gap_bottom = or_gap (gap_bottom (wsc_gaps_outer c)) (gap_bottom g),
               gap_left = or_gap (gap_left (wsc_gaps_outer c)) (gap_left g)\<rparr>,
             ws_gaps_inner := or_gap (wsc_gaps_inner c) (cfg_gaps_inner config),
             ws_output_priority := filter (\<lambda>name. name \<noteq> ''*'') (wsc_outputs c)\<rparr>)"

definition workspace_create :: "nat option \<Rightarrow> string \<Rightarrow> sway \<Rightarrow> (nat \<times> sway) option" where
  "workspace_create output name s = do {
     out \<leftarrow> (case output of Some out \<Rightarrow> Some out | None \<Rightarrow> workspace_get_initial_output s name);
     let (w, s1) = node_init s;
     let ws = configured_gaps (cfg s1) (workspace_find_config s1 name)
                (zero_workspace\<lparr>ws_name := name, ws_prev_split_layout := L_NONE,
                   ws_layout := output_get_default_layout s1 out, ws_scroll_follow_focus := True\<rparr>);
     let s2 = workspace_output_add_priority w out (upd_ws w (\<lambda>_. ws) s1);
     s3 \<leftarrow> output_add_workspace out w s2;
     Some (w, new_node (N_WORKSPACE w) (output_sort_workspaces out s3)) }"

definition workspace_auto_back_and_forth :: "nat \<Rightarrow> sway \<Rightarrow> (nat \<times> sway) option" where
  "workspace_auto_back_and_forth w s =
     (let seat = seats s (current_seat s) in
      case (seat_get_focused_workspace s (current_seat s), seat_prev_workspace_name seat) of
        (Some active_ws, Some name) \<Rightarrow>
          if cfg_auto_back_and_forth (cfg s) \<and> active_ws = w
          then (case workspace_by_name s name of
                  None \<Rightarrow> None
                | Some (Some new_ws) \<Rightarrow> Some (new_ws, s)
                | Some None \<Rightarrow> workspace_create None name s)
          else Some (w, s)
      | _ \<Rightarrow> Some (w, s))"

definition workspace_switch :: "refocus_op \<Rightarrow> nat \<Rightarrow> sway \<Rightarrow> sway option" where
  "workspace_switch sf w s =
     (let seat = current_seat s;
          nxt = (case seat_get_focus_inactive s seat (N_WORKSPACE w) of Some n \<Rightarrow> n | None \<Rightarrow> N_WORKSPACE w)
      in sf seat (Some nxt) s \<bind> arrange_workspace w)"

section \<open>Enabling an output\<close>

text \<open>
  Workspaces that prefer the new output move to it; the loop variable stays where a workspace
  was taken out, and \<open>n\<close> bounds the iterations (the length of the list).
\<close>

primrec take_preferring :: "nat \<Rightarrow> nat \<Rightarrow> nat \<Rightarrow> nat \<Rightarrow> sway \<Rightarrow> sway option" where
  "take_preferring 0 out other j s = (if j < length (out_workspaces (outs s other)) then None else Some s)"
| "take_preferring (Suc n) out other j s =
     (if j < length (out_workspaces (outs s other))
      then let w = out_workspaces (outs s other) ! j in
        if workspace_output_get_highest_available s w = Some out
        then workspace_detach w s \<bind> output_add_workspace out w \<bind> take_preferring n out other j
        else take_preferring n out other (j + 1) s
      else Some s)"

definition refill_output :: "nat \<Rightarrow> sway \<Rightarrow> sway option" where
  "refill_output other s =
     (if out_workspaces (outs s other) = []
      then do {
        next_name \<leftarrow> workspace_next_name s (out_name (outs s other));
        name \<leftarrow> next_name;
        map_option snd (workspace_create (Some other) name s) }
      else Some s)"

primrec restore_from :: "nat \<Rightarrow> nat list \<Rightarrow> sway \<Rightarrow> sway option" where
  "restore_from out [] s = Some s"
| "restore_from out (other # others) s =
     (if other = out then restore_from out others s
      else take_preferring (length (out_workspaces (outs s other))) out other 0 s
             \<bind> refill_output other \<bind> restore_from out others)"

definition must_refit :: "sway \<Rightarrow> nat \<Rightarrow> nat \<Rightarrow> bool" where
  "must_refit s out floater =
     (let p = pending s floater; b = outs s out in
      st_width p = 0 \<or> st_height p = 0 \<or>
      st_width p > of_int (out_width b) \<or> st_height p > of_int (out_height b) \<or>
      st_x p > of_int (out_lx b + out_width b) \<or> st_y p > of_int (out_ly b + out_height b) \<or>
      st_x p + st_width p < of_int (out_lx b) \<or> st_y p + st_height p < of_int (out_ly b))"

primrec refit_floaters :: "nat \<Rightarrow> nat list \<Rightarrow> sway \<Rightarrow> sway option" where
  "refit_floaters out [] s = Some s"
| "refit_floaters out (f # fs) s =
     (if must_refit s out f then container_floating_resize_and_center f s else Some s) \<bind> refit_floaters out fs"

primrec take_saved :: "nat \<Rightarrow> nat \<Rightarrow> sway \<Rightarrow> sway option" where
  "take_saved 0 out s = (if out_workspaces (outs s (fallback_output s)) = [] then Some s else None)"
| "take_saved (Suc n) out s =
     (case out_workspaces (outs s (fallback_output s)) of
        [] \<Rightarrow> Some s
      | w # ws \<Rightarrow> do {
          s1 \<leftarrow> workspace_detach w s;
          s2 \<leftarrow> output_add_workspace out w s1;
          s3 \<leftarrow> refit_floaters out (ws_floating (wss s2 w)) s2;
          take_saved n out s3 })"

definition restore_workspaces :: "nat \<Rightarrow> sway \<Rightarrow> sway option" where
  "restore_workspaces out s = do {
     s1 \<leftarrow> restore_from out (root_outputs s) s;
     s2 \<leftarrow> take_saved (length (out_workspaces (outs s1 (fallback_output s1)))) out s1;
     Some (output_sort_workspaces out s2) }"

definition focus_if_unfocused :: "refocus_op \<Rightarrow> nat \<Rightarrow> nat \<Rightarrow> sway \<Rightarrow> sway option" where
  "focus_if_unfocused sf w i s = (if \<not> seat_has_focus (seats s i) then sf i (Some (N_WORKSPACE w)) s else Some s)"

definition create_default_workspace :: "refocus_op \<Rightarrow> nat \<Rightarrow> sway \<Rightarrow> sway option" where
  "create_default_workspace sf out s = do {
     next_name \<leftarrow> workspace_next_name s (out_name (outs s out));
     name \<leftarrow> next_name;
     (w, s1) \<leftarrow> workspace_create (Some out) name s;
     s2 \<leftarrow> for_seats (focus_if_unfocused sf w) (seat_ids s1) s1;
     Some (if cfg_default_orientation (cfg s2) = L_NONE
           then upd_ws w (ws_layout_update (\<lambda>_. output_get_default_layout s2 out)) s2 else s2) }"

definition output_enable :: "refocus_op \<Rightarrow> nat \<Rightarrow> sway \<Rightarrow> sway option" where
  "output_enable sf out s =
     (if out_enabled (outs s out) then Some s
      else do {
        let s1 = upd_out out (out_enabled_update (\<lambda>_. True)) s;
        let s2 = s1\<lparr>root_outputs := root_outputs s1 @ [out]\<rparr>;
        s3 \<leftarrow> restore_workspaces out s2;
        s4 \<leftarrow> (if out_workspaces (outs s3 out) = [] then create_default_workspace sf out s3 else Some s3);
        Some (new_node (N_OUTPUT out) s4) })"

section \<open>Disabling an output\<close>

text \<open>The floating containers move to the active workspace of the new output.\<close>

primrec evacuate_floaters :: "nat \<Rightarrow> refocus_op \<Rightarrow> nat \<Rightarrow> nat \<Rightarrow> sway \<Rightarrow> sway option" where
  "evacuate_floaters 0 sf old_ws new_ws s = (if ws_floating (wss s old_ws) = [] then Some s else None)"
| "evacuate_floaters (Suc n) sf old_ws new_ws s =
     (case ws_floating (wss s old_ws) of
        [] \<Rightarrow> Some s
      | sticky # _ \<Rightarrow>
          container_detach sticky s \<bind> workspace_add_floating sf new_ws sticky
            \<bind> container_handle_fullscreen_reparent sf sticky \<bind> container_floating_move_to_center sticky
            \<bind> evacuate_floaters n sf old_ws new_ws)"

definition evacuate_sticky :: "refocus_op \<Rightarrow> nat \<Rightarrow> nat \<Rightarrow> sway \<Rightarrow> sway option" where
  "evacuate_sticky sf old_ws new_output s =
     (case output_get_active_workspace s new_output of
        None \<Rightarrow> Some s
      | Some new_ws \<Rightarrow> map_option (workspace_detect_urgent new_ws)
          (evacuate_floaters (length (ws_floating (wss s old_ws))) sf old_ws new_ws s))"

text \<open>
  One workspace of the output, already detached: an empty one is destroyed after its sticky
  containers have moved, any other one goes to the new output.
\<close>

definition move_workspace :: "refocus_op \<Rightarrow> nat \<Rightarrow> nat \<Rightarrow> nat option \<Rightarrow> sway \<Rightarrow> sway option" where
  "move_workspace sf w new_output new_output_ws s = do {
     s1 \<leftarrow> output_add_workspace new_output w (workspace_output_add_priority w new_output s);
     let s2 = output_sort_workspaces new_output s1;
     (case new_output_ws of Some v \<Rightarrow> workspace_consider_destroy sf v s2 | None \<Rightarrow> Some s2) }"

definition evacuate_workspace :: "refocus_op \<Rightarrow> nat \<Rightarrow> nat option \<Rightarrow> sway \<Rightarrow> sway option" where
  "evacuate_workspace sf w fallback s =
     (let new_output = (case workspace_output_get_highest_available s w of
            Some out \<Rightarrow> out | None \<Rightarrow> (case fallback of Some out \<Rightarrow> out | None \<Rightarrow> fallback_output s));
          new_output_ws = output_get_active_workspace s new_output
      in if workspace_is_empty s w
         then do {
           s1 \<leftarrow> (if new_output_ws \<noteq> None \<and> workspace_num_sticky_containers s w > 0
                  then evacuate_sticky sf w new_output s else Some s);
           (if workspace_num_sticky_containers s1 w = 0 then workspace_begin_destroy sf w s1
            else move_workspace sf w new_output new_output_ws s1) }
         else move_workspace sf w new_output new_output_ws s)"

primrec evacuate_loop :: "nat \<Rightarrow> refocus_op \<Rightarrow> nat \<Rightarrow> nat option \<Rightarrow> sway \<Rightarrow> sway option" where
  "evacuate_loop 0 sf out fallback s = (if out_workspaces (outs s out) = [] then Some s else None)"
| "evacuate_loop (Suc n) sf out fallback s =
     (case out_workspaces (outs s out) of
        [] \<Rightarrow> Some s
      | w # _ \<Rightarrow> workspace_detach w s \<bind> evacuate_workspace sf w fallback \<bind> evacuate_loop n sf out fallback)"

definition output_evacuate :: "refocus_op \<Rightarrow> nat \<Rightarrow> sway \<Rightarrow> sway option" where
  "output_evacuate sf out s =
     evacuate_loop (length (out_workspaces (outs s out))) sf out
       (case root_outputs s of [] \<Rightarrow> None | o1 # _ \<Rightarrow> Some o1) s"

definition output_disable :: "refocus_op \<Rightarrow> nat \<Rightarrow> sway \<Rightarrow> sway option" where
  "output_disable sf out s =
     (let index = seq_find (\<lambda>x. x = out) (root_outputs s) 0 in
      if \<not> out_enabled (outs s out) \<or> index < 0 then Some s
      else output_evacuate sf out
             (upd_out out (out_enabled_update (\<lambda>_. False)) (s\<lparr>root_outputs := remove_at (nat index) (root_outputs s)\<rparr>)))"

definition output_begin_destroy :: "refocus_op \<Rightarrow> nat \<Rightarrow> sway \<Rightarrow> sway option" where
  "output_begin_destroy sf out s =
     (if out_enabled (outs s out) then Some s
      else map_option (\<lambda>s1. node_set_dirty (N_OUTPUT out)
             (s1\<lparr>node_destroying := (node_destroying s1)(N_OUTPUT out := True)\<rparr>))
             (emit_node_destroy sf (N_OUTPUT out) s))"

text \<open>\<open>output_create\<close>: a new output is not enabled and has no workspaces.\<close>

definition output_create :: "sway_output \<Rightarrow> sway \<Rightarrow> nat \<times> sway" where
  "output_create hardware s =
     (let (out, s1) = node_init s in
      (out, upd_out out (\<lambda>_. zero_output\<lparr>out_name := out_name hardware, out_make := out_make hardware,
         out_model := out_model hardware, out_serial := out_serial hardware\<rparr>) s1))"

end
