(* ===== verification/Workspace_Laws.thy ===== *)
theory Workspace_Laws
  imports Workspace_Nav Focus_Laws
begin

text \<open>
  What the lookups of \<open>Workspace_Nav\<close> promise: the next and previous numbered workspace are
  the nearest ones, and a new name is always found and is free.
\<close>

section \<open>Numbers\<close>

lemma number_match_digits:
  "\<forall>c \<in> set name. isdigit c \<Longrightarrow> number_match name w \<longleftrightarrow> takeWhile isdigit w = name"
  by (induction name w rule: number_match.induct) (auto split: list.splits simp: takeWhile_eq_Nil_iff)

lemma number_match_show_nat: "number_match (show_nat k) w \<longleftrightarrow> takeWhile isdigit w = show_nat k"
  using show_nat_digits by (rule number_match_digits)

lemma inj_show_nat: "inj show_nat"
  by (rule injI) (metis digits_val_show_nat)

lemma find_first_None: "find_first f xs = None \<longleftrightarrow> (\<forall>x \<in> set xs. f x = None)"
  by (induction xs) (auto split: option.splits)

lemma root_find_workspace_None: "root_find_workspace s P = None \<longleftrightarrow> (\<forall>w \<in> set (all_workspaces s). \<not> P w)"
  by (auto simp: root_find_workspace_def find_first_None all_workspaces_def find_None_iff)

definition number_taken :: "sway \<Rightarrow> nat \<Rightarrow> bool" where
  "number_taken s k \<longleftrightarrow> (\<exists>w \<in> set (all_workspaces s). takeWhile isdigit (ws_name (wss s w)) = show_nat k)"

lemma by_number_None: "workspace_by_number s (show_nat k) = None \<longleftrightarrow> \<not> number_taken s k"
  by (simp add: workspace_by_number_def root_find_workspace_None number_match_show_nat number_taken_def)

lemma number_taken_few: "finite {k. number_taken s k} \<and> card {k. number_taken s k} \<le> length (all_workspaces s)"
proof -
  let ?d = "\<lambda>w. takeWhile isdigit (ws_name (wss s w))"
  have "show_nat ` {k. number_taken s k} \<subseteq> ?d ` set (all_workspaces s)"
    by (auto simp: number_taken_def image_iff) metis
  then have f: "finite (show_nat ` {k. number_taken s k})" and
    c: "card (show_nat ` {k. number_taken s k}) \<le> card (set (all_workspaces s))"
    using finite_subset surj_card_le by (blast, metis List.finite_set)
  show ?thesis
    using f c card_length [of "all_workspaces s"] finite_imageD [OF _ inj_on_subset [OF inj_show_nat subset_UNIV]]
      card_image [OF inj_on_subset [OF inj_show_nat subset_UNIV]] by fastforce
qed

lemma next_free_number_least:
  assumes "\<not> number_taken s k" "j \<le> k" "k - j < n" "\<forall>i. j \<le> i \<and> i < k \<longrightarrow> number_taken s i"
  shows "next_free_number n s j = Some (show_nat k)"
  using assms(2-4)
proof (induction n arbitrary: j)
  case (Suc n)
  show ?case
  proof (cases "j = k")
    case True
    then show ?thesis using assms(1) by (simp add: by_number_None)
  next
    case False
    then show ?thesis using Suc by (simp add: by_number_None)
  qed
qed simp

lemma free_number_exists: "\<exists>k. 1 \<le> k \<and> k \<le> length (all_workspaces s) + 1 \<and> \<not> number_taken s k"
proof (rule ccontr)
  assume "\<not> ?thesis"
  then have "{1 .. length (all_workspaces s) + 1} \<subseteq> {k. number_taken s k}" by auto
  then have "card {1 .. length (all_workspaces s) + 1} \<le> length (all_workspaces s)"
    using number_taken_few [of s] card_mono le_trans by meson
  then show False by simp
qed


section \<open>The nearest numbered workspace\<close>

lemma next_numbered_least:
  assumes "0 \<le> n" "\<forall>y. nxt = Some y \<longrightarrow> nextn = workspace_get_number s y \<and> n < nextn"
    and "set_option nxt \<union> {v \<in> set ws. n < workspace_get_number s v} \<noteq> {}"
  shows "\<exists>x \<in> set_option nxt \<union> {v \<in> set ws. n < workspace_get_number s v}.
     next_numbered s n ws first firstn other nxt nextn = Some x \<and>
     (\<forall>v \<in> set_option nxt \<union> {v \<in> set ws. n < workspace_get_number s v}.
        workspace_get_number s x \<le> workspace_get_number s v)"
  using assms(2,3)
proof (induction ws arbitrary: first firstn other nxt nextn)
  case Nil
  then show ?case by (auto simp: or_else_def)
next
  case (Cons w ws)
  let ?num = "workspace_get_number s"
  define closer where "closer \<longleftrightarrow> ?num w \<ge> 0 \<and> n < ?num w \<and> (nxt = None \<or> ?num w < nextn)"
  define nxt' where "nxt' = (if closer then Some w else nxt)"
  define nextn' where "nextn' = (if closer then ?num w else nextn)"
  let ?C = "set_option nxt \<union> {v \<in> set (w # ws). n < ?num v}"
  let ?C' = "set_option nxt' \<union> {v \<in> set ws. n < ?num v}"
  have inv: "\<forall>y. nxt' = Some y \<longrightarrow> nextn' = ?num y \<and> n < nextn'"
    using Cons.prems(1) by (auto simp: nxt'_def nextn'_def closer_def)
  have sub: "?C' \<subseteq> ?C" by (auto simp: nxt'_def closer_def split: if_splits)
  have low: "\<exists>u \<in> ?C'. ?num u \<le> ?num v" if "v \<in> ?C" for v
    using that Cons.prems(1) assms(1) by (cases nxt) (auto simp: nxt'_def closer_def)
  define first' where "first' = (if first = None \<or> (?num w \<ge> 0 \<and> ?num w < firstn) then Some w else first)"
  define firstn' where "firstn' = (if first = None \<or> (?num w \<ge> 0 \<and> ?num w < firstn) then ?num w else firstn)"
  define other' where "other' = (if other = None \<and> ?num w < 0 then Some w else other)"
  have step: "next_numbered s n (w # ws) first firstn other nxt nextn = next_numbered s n ws first' firstn' other' nxt' nextn'"
    unfolding nxt'_def nextn'_def first'_def firstn'_def other'_def closer_def by (simp add: Let_def)
  have "?C' \<noteq> {}" using Cons.prems(2) low by blast
  from Cons.IH [OF inv this, of first' firstn' other'] obtain x where x: "x \<in> ?C'"
    "next_numbered s n ws first' firstn' other' nxt' nextn' = Some x" "\<forall>v \<in> ?C'. ?num x \<le> ?num v" by blast
  have "\<forall>v \<in> ?C. ?num x \<le> ?num v" using low x(3) by (meson order_trans)
  then show ?case unfolding step using x(1,2) sub by blast
qed

lemma prev_numbered_greatest:
  assumes "\<forall>y. prev = Some y \<longrightarrow> prevn = workspace_get_number s y \<and> 0 \<le> prevn \<and> prevn < n"
    and "set_option prev \<union> {v \<in> set ws. 0 \<le> workspace_get_number s v \<and> workspace_get_number s v < n} \<noteq> {}"
  shows "\<exists>x \<in> set_option prev \<union> {v \<in> set ws. 0 \<le> workspace_get_number s v \<and> workspace_get_number s v < n}.
     prev_numbered s n ws last_ws lastn other prev prevn = Some x \<and>
     (\<forall>v \<in> set_option prev \<union> {v \<in> set ws. 0 \<le> workspace_get_number s v \<and> workspace_get_number s v < n}.
        workspace_get_number s v \<le> workspace_get_number s x)"
  using assms
proof (induction ws arbitrary: last_ws lastn other prev prevn)
  case Nil
  then show ?case by (auto simp: or_else_def)
next
  case (Cons w ws)
  let ?num = "workspace_get_number s"
  define closer where "closer \<longleftrightarrow> ?num w \<ge> 0 \<and> ?num w < n \<and> (prev = None \<or> ?num w > prevn)"
  define prev' where "prev' = (if closer then Some w else prev)"
  define prevn' where "prevn' = (if closer then ?num w else prevn)"
  let ?C = "set_option prev \<union> {v \<in> set (w # ws). 0 \<le> ?num v \<and> ?num v < n}"
  let ?C' = "set_option prev' \<union> {v \<in> set ws. 0 \<le> ?num v \<and> ?num v < n}"
  have inv: "\<forall>y. prev' = Some y \<longrightarrow> prevn' = ?num y \<and> 0 \<le> prevn' \<and> prevn' < n"
    using Cons.prems(1) by (auto simp: prev'_def prevn'_def closer_def)
  have sub: "?C' \<subseteq> ?C" by (auto simp: prev'_def closer_def split: if_splits)
  have low: "\<exists>u \<in> ?C'. ?num v \<le> ?num u" if "v \<in> ?C" for v
    using that Cons.prems(1) by (cases prev) (auto simp: prev'_def closer_def)
  define first' where "first' = (if last_ws = None \<or> (?num w \<ge> 0 \<and> ?num w > lastn) then Some w else last_ws)"
  define firstn' where "firstn' = (if last_ws = None \<or> (?num w \<ge> 0 \<and> ?num w > lastn) then ?num w else lastn)"
  define other' where "other' = (if other = None \<and> ?num w < 0 then Some w else other)"
  have step: "prev_numbered s n (w # ws) last_ws lastn other prev prevn = prev_numbered s n ws first' firstn' other' prev' prevn'"
    unfolding prev'_def prevn'_def first'_def firstn'_def other'_def closer_def by (simp add: Let_def)
  have "?C' \<noteq> {}" using Cons.prems(2) low by blast
  from Cons.IH [OF inv this, of first' firstn' other'] obtain x where x: "x \<in> ?C'"
    "prev_numbered s n ws first' firstn' other' prev' prevn' = Some x" "\<forall>v \<in> ?C'. ?num v \<le> ?num x" by blast
  have "\<forall>v \<in> ?C. ?num v \<le> ?num x" using low x(3) by (meson order_trans)
  then show ?case unfolding step using x(1,2) sub by blast
qed

text \<open>On every output the numbered workspaces come first, as \<open>output_sort_workspaces\<close> arranges.\<close>

definition numbered_first :: "sway \<Rightarrow> bool" where
  "numbered_first s \<longleftrightarrow> (\<forall>out \<in> set (root_outputs s).
     sorted_wrt (\<lambda>v w. workspace_get_number s w \<ge> 0 \<longrightarrow> workspace_get_number s v \<ge> 0) (out_workspaces (outs s out)))"

lemma upto_named_numbered:
  "sorted_wrt (\<lambda>v w. workspace_get_number s w \<ge> 0 \<longrightarrow> workspace_get_number s v \<ge> 0) ws \<Longrightarrow>
   {v \<in> set (upto_named s ws). 0 \<le> workspace_get_number s v} = {v \<in> set ws. 0 \<le> workspace_get_number s v}"
  by (induction ws) auto

lemma workspace_next_least:
  assumes "0 \<le> workspace_get_number s w" "numbered_first s"
    and "v \<in> set (all_workspaces s)" "workspace_get_number s w < workspace_get_number s v"
  shows "\<exists>x \<in> set (all_workspaces s). workspace_next s w = Some x \<and>
     workspace_get_number s w < workspace_get_number s x \<and>
     (\<forall>u \<in> set (all_workspaces s). workspace_get_number s w < workspace_get_number s u \<longrightarrow>
        workspace_get_number s x \<le> workspace_get_number s u)"
proof -
  define n where "n = workspace_get_number s w"
  define ws where "ws = concat (map (\<lambda>out. upto_named s (out_workspaces (outs s out))) (root_outputs s))"
  have "{v \<in> set ws. 0 \<le> workspace_get_number s v} = {v \<in> set (all_workspaces s). 0 \<le> workspace_get_number s v}"
    using assms(2) upto_named_numbered [of s] by (fastforce simp: ws_def all_workspaces_def numbered_first_def)
  then have C: "{v \<in> set ws. n < workspace_get_number s v} = {v \<in> set (all_workspaces s). n < workspace_get_number s v}"
    using assms(1) unfolding n_def by fastforce
  have "\<exists>x \<in> {v \<in> set ws. n < workspace_get_number s v}. next_numbered s n ws None (- 1) None None (- 1) = Some x \<and>
      (\<forall>v \<in> {v \<in> set ws. n < workspace_get_number s v}. workspace_get_number s x \<le> workspace_get_number s v)"
    using next_numbered_least [of n None "- 1" s ws None "- 1" None] assms(1,3,4) C by (auto simp: n_def)
  then show ?thesis using assms(1) unfolding C
    by (auto simp: workspace_next_def Let_def n_def [symmetric] ws_def)
qed

text \<open>From a numbered workspace, \<open>workspace_prev\<close> goes to the workspace with the greatest smaller
  number on any output.\<close>

theorem workspace_prev_nearest:
  assumes "v \<in> set (all_workspaces s)" "0 \<le> workspace_get_number s v"
    and "workspace_get_number s v < workspace_get_number s w"
  shows "\<exists>x \<in> set (all_workspaces s). workspace_prev s w = Some x \<and>
     0 \<le> workspace_get_number s x \<and> workspace_get_number s x < workspace_get_number s w \<and>
     (\<forall>u \<in> set (all_workspaces s). workspace_get_number s u < workspace_get_number s w \<longrightarrow>
        workspace_get_number s u \<le> workspace_get_number s x)"
proof -
  define n where "n = workspace_get_number s w"
  let ?C = "{v \<in> set (rev (all_workspaces s)). 0 \<le> workspace_get_number s v \<and> workspace_get_number s v < n}"
  have "\<exists>x \<in> ?C. prev_numbered s n (rev (all_workspaces s)) None (- 1) None None (- 1) = Some x \<and>
      (\<forall>v \<in> ?C. workspace_get_number s v \<le> workspace_get_number s x)"
    using prev_numbered_greatest [of None "- 1" s n "rev (all_workspaces s)" None "- 1" None] assms by (auto simp: n_def)
  then obtain x where x: "x \<in> ?C" "prev_numbered s n (rev (all_workspaces s)) None (- 1) None None (- 1) = Some x"
    "\<forall>v \<in> ?C. workspace_get_number s v \<le> workspace_get_number s x" by blast
  have "workspace_get_number s u \<le> workspace_get_number s x"
    if "u \<in> set (all_workspaces s)" "workspace_get_number s u < n" for u
    using x(1,3) that by (cases "0 \<le> workspace_get_number s u") auto
  then show ?thesis using x(1,2) assms(2,3)
    by (intro bexI [of _ x]) (auto simp: workspace_prev_def Let_def n_def)
qed

section \<open>A sample\<close>

text \<open>Output \<open>A\<close> (20) with the workspaces \<open>1\<close> and \<open>web\<close>, output \<open>B\<close> (21) with workspace \<open>3\<close>.\<close>

definition sample_ws :: "string \<Rightarrow> nat \<Rightarrow> string list \<Rightarrow> sway_workspace" where
  "sample_ws name out priority = zero_workspace\<lparr>ws_name := name, ws_output := Some out, ws_output_priority := priority\<rparr>"

definition two_outputs :: sway where
  "two_outputs = sway0\<lparr>next_id := 40, root_outputs := [20, 21],
     outs := (outs sway0)(20 := zero_output\<lparr>out_name := ''A'', out_enabled := True, out_workspaces := [30, 31]\<rparr>,
                          21 := zero_output\<lparr>out_name := ''B'', out_enabled := True, out_workspaces := [32]\<rparr>),
     wss := (wss sway0)(30 := sample_ws ''1'' 20 [''A''], 31 := sample_ws ''web'' 20 [''B''], 32 := sample_ws ''3'' 21 [])\<rparr>"


lemma sample_numbers:
  "workspace_get_number two_outputs 30 = 1" "workspace_get_number two_outputs 32 = 3" "workspace_get_number two_outputs 31 = - 1"
  "all_workspaces two_outputs = [30, 31, 32]" "numbered_first two_outputs"
  by code_simp+

theorem workspace_prev_nearest_witness: "workspace_prev two_outputs 32 = Some 30"
  using workspace_prev_nearest [of 30 two_outputs 32] by (simp add: sample_numbers)

end
