(* ===== verification/Tree_Invariant.thy ===== *)
theory Tree_Invariant
  imports Layout_Ops Structure
begin

text \<open>
  Every operation of the window tree keeps it well-formed. \<open>okop X s r\<close> says so for the
  result \<open>r\<close> of an operation on \<open>s\<close> (\<open>None\<close>: the code would crash, or a bound was too small),
  and that containers outside \<open>X\<close> that are in no list (\<open>t_loose\<close>) stay so, without children if
  they had none (\<open>lonely\<close>). The rules of the collection \<open>okop\<close> compose operations the way the code does. At the end
  all operations are the steps of a transition relation, and every reachable state has a
  well-formed tree.
\<close>

section \<open>Composing operations\<close>

definition t_loose :: "tree \<Rightarrow> nat \<Rightarrow> bool" where
  "t_loose t r \<longleftrightarrow> t_parent t r = None \<and> t_ws t r = None \<and> r < t_next t"

definition lonely :: "tree \<Rightarrow> nat \<Rightarrow> bool" where
  "lonely t r \<longleftrightarrow> t_loose t r \<and> t_kids t r = Some []"

definition tends :: "nat set \<Rightarrow> tree \<Rightarrow> tree \<Rightarrow> bool" where
  "tends X t t' \<longleftrightarrow> wf_tree t' \<and> t_next t \<le> t_next t' \<and>
     (\<forall>r. r \<notin> X \<longrightarrow> (t_loose t r \<longrightarrow> t_loose t' r) \<and> (lonely t r \<longrightarrow> lonely t' r))"

lemma tends_refl: "wf_tree t \<Longrightarrow> tends X t t"
  by (simp add: tends_def)

lemma tends_trans: "tends X t u \<Longrightarrow> tends X u v \<Longrightarrow> tends X t v"
  by (auto simp: tends_def)

lemma tends_mono: "tends X t u \<Longrightarrow> X \<subseteq> Y \<Longrightarrow> tends Y t u"
  by (auto simp: tends_def)

lemma tends_floaters_move: "floaters_move t t' \<Longrightarrow> tends X t t'"
  by (auto simp: tends_def floaters_move_def lonely_def t_loose_def)

lemma loose_t_detach: "t_loose t r \<Longrightarrow> t_loose (t_detach c t) r"
  by (simp add: t_loose_def)

lemma lonely_detach:
  assumes wf: "wf_tree t" and r: "lonely t r"
  shows "lonely (t_detach c t) r"
proof -
  have "kidl t r = []" using r by (simp add: lonely_def kidl_def)
  then have "t_parent t c \<noteq> Some r" using wf_treeD(2) [OF wf, of c r] by auto
  then show ?thesis using r by (auto simp: lonely_def t_loose_def t_detach_def split: option.split)
qed

lemma loose_insert: "t_loose t r \<Longrightarrow> r \<noteq> c \<Longrightarrow> t_loose (t_insert pl c t) r"
  by (auto simp: t_loose_def elim: below_cases)

lemma lonely_insert:
  assumes "lonely t r" "r \<noteq> c" "place_parent pl \<noteq> Some r"
  shows "lonely (t_insert pl c t) r"
proof -
  have "r \<notin> below t c" using assms(1) by (auto simp: lonely_def t_loose_def elim: below_cases)
  then show ?thesis using assms by (cases pl) (auto simp: lonely_def t_loose_def t_insert_def)
qed

lemma tends_detach: "wf_tree t \<Longrightarrow> tends X t (t_detach c t)"
  by (simp add: tends_def lonely_detach wf_tree_detach loose_t_detach)

text \<open>A subtree moves to another place, then floating containers may move.\<close>

lemma tends_move:
  assumes "wf_tree t" "floaters_move (t_insert pl c (t_detach c t)) t'"
    and "t_loose t c \<Longrightarrow> c \<in> X" "\<And>p. place_parent pl = Some p \<Longrightarrow> lonely t p \<Longrightarrow> p \<in> X"
  shows "tends X t t'"
proof -
  have "lonely (t_insert pl c (t_detach c t)) r" if "r \<notin> X" "lonely t r" for r
    using that assms by (intro lonely_insert lonely_detach) (auto simp: lonely_def)
  moreover have "t_loose (t_insert pl c (t_detach c t)) r" if "r \<notin> X" "t_loose t r" for r
    using that assms by (intro loose_insert loose_t_detach) auto
  ultimately show ?thesis using assms(2) by (auto simp: tends_def floaters_move_def lonely_def t_loose_def)
qed

definition okop :: "nat set \<Rightarrow> sway \<Rightarrow> sway option \<Rightarrow> bool" where
  "okop X s r \<longleftrightarrow> (wf_sway s \<longrightarrow> (\<forall>s'. r = Some s' \<longrightarrow> tends X (tree_of s) (tree_of s')))"

named_theorems okop "operations keep the window tree well-formed"

lemma okop_None [okop]: "okop X s None"
  by (simp add: okop_def)

lemma okop_same: "tree_of s' = tree_of s \<Longrightarrow> okop X s (Some s')"
  by (simp add: okop_def tends_refl)

lemma okop_self [okop]: "okop X s (Some s)"
  by (rule okop_same) simp

lemma okop_moves: "(\<And>s'. wf_sway s \<Longrightarrow> r = Some s' \<Longrightarrow> floaters_move (tree_of s) (tree_of s')) \<Longrightarrow> okop X s r"
  by (simp add: okop_def tends_floaters_move)

lemma okop_frame: "(\<And>s'. r = Some s' \<Longrightarrow> tree_of s' = tree_of s) \<Longrightarrow> okop X s r"
  by (auto simp: okop_def tends_refl)

lemma okop_bind_in:
  assumes "okop Y s m" "Y \<subseteq> X"
    and "\<And>u. wf_sway s \<Longrightarrow> m = Some u \<Longrightarrow> wf_sway u \<Longrightarrow> tends Y (tree_of s) (tree_of u) \<Longrightarrow> okop X u (f u)"
  shows "okop X s (m \<bind> f)"
  unfolding okop_def
proof (intro impI allI)
  fix s' assume wf: "wf_sway s" and "m \<bind> f = Some s'"
  then obtain u where u: "m = Some u" "f u = Some s'" by (auto split: bind_splits)
  have t: "tends Y (tree_of s) (tree_of u)" using assms(1) wf u(1) by (simp add: okop_def)
  then have w: "wf_sway u" by (simp add: tends_def)
  have "tends X (tree_of u) (tree_of s')" using assms(3) [OF wf u(1) w t] w u(2) by (simp add: okop_def)
  with tends_mono [OF t assms(2)] show "tends X (tree_of s) (tree_of s')" by (rule tends_trans)
qed

lemmas okop_bind [okop] = okop_bind_in [OF _ subset_refl]

lemma okop_wfI: "(wf_sway s \<Longrightarrow> okop X s r) \<Longrightarrow> okop X s r"
  by (auto simp: okop_def)

lemma okop_bind_value: "(\<And>a. m = Some a \<Longrightarrow> okop X s (f a)) \<Longrightarrow> okop X s ((m :: 'a option) \<bind> f)"
  by (cases m) (simp_all add: okop_None)

lemma okop_shift: "tree_of u = tree_of s \<Longrightarrow> okop X u r \<Longrightarrow> okop X s r"
  by (simp add: okop_def)

lemma okop_if [okop]: "(b \<Longrightarrow> okop X s p) \<Longrightarrow> (\<not> b \<Longrightarrow> okop X s q) \<Longrightarrow> okop X s (if b then p else q)"
  by simp

lemma okop_option [okop]:
  "(v = None \<Longrightarrow> okop X s p) \<Longrightarrow> (\<And>a. v = Some a \<Longrightarrow> okop X s (q a)) \<Longrightarrow> okop X s (case v of None \<Rightarrow> p | Some a \<Rightarrow> q a)"
  by (cases v) simp_all

lemma okop_map:
  "okop X s m \<Longrightarrow> (\<And>u. tree_of (f u) = tree_of u) \<Longrightarrow> okop X s (map_option f m)"
  by (auto simp: okop_def)

lemma okop_mono: "okop X s r \<Longrightarrow> X \<subseteq> Y \<Longrightarrow> okop Y s r"
  by (auto simp: okop_def intro: tends_mono)

lemma okop_wf: "okop X s (Some s') \<Longrightarrow> wf_sway s \<Longrightarrow> wf_sway s'"
  by (simp add: okop_def tends_def)

lemma okop_detach: "okop X s (container_detach c s)"
  by (auto simp: okop_def container_detach_tree tends_detach)

section \<open>Attaching\<close>

abbreviation loose :: "sway \<Rightarrow> nat \<Rightarrow> bool" where
  "loose s c \<equiv> t_loose (tree_of s) c"

lemma loose_def: "loose s c \<longleftrightarrow> parent_of s c = None \<and> workspace_of s c = None \<and> c < next_id s"
  by (simp add: t_loose_def)

lemma loose_or_placed_loose: "loose s c \<Longrightarrow> loose_or_placed s c"
  by (simp add: loose_def loose_or_placed_def)

lemma loose_detach:
  assumes "wf_sway s" "container_detach c s = Some s'" "c < next_id s"
  shows "loose s' c"
  using assms(3) unfolding t_loose_def container_detach_tree [OF assms(1,2)] by simp

lemma placed_less: "wf_sway s \<Longrightarrow> workspace_of s c = Some w \<Longrightarrow> c < next_id s"
  using wf_treeD(10) [of "tree_of s" c w] by simp

lemma loose_below: "loose s c \<Longrightarrow> c \<notin> below (tree_of s) d"
  by (auto simp: loose_def elim: below_cases)

lemma okop_move:
  assumes "\<And>s'. wf_sway s \<Longrightarrow> r = Some s' \<Longrightarrow>
       \<exists>pl. floaters_move (t_insert pl c (t_detach c (tree_of s))) (tree_of s') \<and>
         (\<forall>p. place_parent pl = Some p \<longrightarrow> lonely (tree_of s) p \<longrightarrow> p \<in> X)"
    and "t_loose (tree_of s) c \<Longrightarrow> c \<in> X"
  shows "okop X s r"
  unfolding okop_def using assms by (blast intro: tends_move)

context refocus begin

lemma okop_insert_child:
  assumes "loose_or_placed s c" "c < next_id s" "p < next_id s" "p \<noteq> c" "p \<notin> below (tree_of s) c"
  shows "okop {c, p} s (container_insert_child sf p c i s)"
  using insert_child_moves [OF _ assms] by (intro okop_move [where c = c]) fastforce+

lemma okop_add_child:
  assumes "loose_or_placed s c" "c < next_id s" "p < next_id s" "p \<noteq> c" "p \<notin> below (tree_of s) c"
  shows "okop {c, p} s (container_add_child sf p c s)"
  using add_child_moves [OF _ assms] by (intro okop_move [where c = c]) fastforce+

lemma okop_add_floating:
  assumes "loose_or_placed s c" "c < next_id s"
  shows "okop {c} s (workspace_add_floating sf w c s)"
  using add_floating_moves [OF _ assms] by (intro okop_move [where c = c]) fastforce+

lemma okop_insert_tiling_direct:
  assumes "loose s c"
  shows "okop {c} s (workspace_insert_tiling_direct sf w c i s)"
proof (rule okop_move [where c = c])
  fix s' assume wf: "wf_sway s" and op: "workspace_insert_tiling_direct sf w c i s = Some s'"
  have "t_detach c (tree_of s) = tree_of s" using assms by (intro t_detach_id [OF wf]) (simp_all add: loose_def)
  then show "\<exists>pl. floaters_move (t_insert pl c (t_detach c (tree_of s))) (tree_of s') \<and>
         (\<forall>p. place_parent pl = Some p \<longrightarrow> lonely (tree_of s) p \<longrightarrow> p \<in> {c})"
    using insert_tiling_direct_moves [OF wf _ _ _ op] assms
    by (intro exI [of _ "Tiling w (nat i)"]) (simp add: loose_def)
qed simp

lemma okop_attach_tiling: "loose s c \<Longrightarrow> okop {c} s (workspace_attach_tiling sf w c s)"
  by (simp add: workspace_attach_tiling_def okop_insert_tiling_direct)

text \<open>A sibling: the place is found through the list that holds \<open>fixed\<close>.\<close>

lemma add_sibling_moves:
  assumes wf: "wf_sway s" and c: "loose_or_placed s c" "c < next_id s"
    and f: "f \<noteq> c" "f \<notin> below (tree_of s) c"
    and op: "container_add_sibling sf f c after s = Some s'"
  shows "\<exists>l i. floaters_move (t_insert (place_of l i) c (t_detach c (tree_of s))) (tree_of s') \<and>
    (\<forall>p. l = Children p \<longrightarrow> parent_of s f = Some p)"
proof -
  obtain s1 l s2 s4 i where s1: "detach_if_placed c s = Some s1" and l: "siblings_ref s1 f = Some l"
    and s2: "insert_into l i c s1 = Some s2"
    and s4: "container_handle_fullscreen_reparent sf c (link c (parent_of s2 f) (workspace_of s2 f) s2) = Some s4"
    and s': "s' = container_update_representation c s4"
    using op by (auto simp: container_add_sibling_def Let_def split: bind_splits)
  note d = detach_first [OF wf c s1]
  have t1: "tree_of s1 = t_detach c (tree_of s)" by (rule d(1))
  have par: "parent_of s1 f = parent_of s f" "workspace_of s1 f = workspace_of s f"
    using f arg_cong [OF t1, of "\<lambda>t. t_parent t f"] arg_cong [OF t1, of "\<lambda>t. t_ws t f"] by simp_all
  have s2': "s2 = upd_list l (insert_at (nat i) c) s1" by (rule insert_intoD(1) [OF s2])
  have keep: "parent_of s2 f = parent_of s1 f" "workspace_of s2 f = workspace_of s1 f"
    unfolding s2' by (cases l; simp add: upd_defs)+
  have out: "outside s1 c l"
  proof (cases l)
    case (Children p)
    then have p: "parent_of s1 f = Some p" using l by (auto simp: siblings_ref_def split: option.splits if_splits)
    then have "p < next_id s1" using wf_treeD(9) [OF d(2), of f p] by simp
    moreover have "p \<noteq> c \<and> p \<notin> below (tree_of s) c"
      using p par f(2) below_parent [of f "tree_of s" c] by auto
    ultimately show ?thesis using Children d(6) [of l] arg_cong [OF t1, of t_next] by (simp add: outside_def)
  qed (simp_all add: outside_def)
  have "parent_of s2 f = parent_in l \<and> workspace_of s2 f = ws_in s1 l"
    using l keep wf_treeD(7) [OF d(2), of f] by (auto simp: siblings_ref_def split: option.splits if_splits)
  then have "floaters_move (t_insert (place_of l (nat i)) c (tree_of s1)) (tree_of s4)"
    using attach_moves [OF d(2-5) s2 out _ s4] by simp
  moreover have "\<forall>p. l = Children p \<longrightarrow> parent_of s f = Some p"
    using l par by (auto simp: siblings_ref_def split: option.splits if_splits)
  ultimately show ?thesis unfolding s' t1 by (intro exI [of _ l] exI [of _ "nat i"]) simp
qed

lemma okop_add_sibling:
  assumes "loose_or_placed s c" "c < next_id s" "f \<noteq> c" "f \<notin> below (tree_of s) c"
  shows "okop {c} s (container_add_sibling sf f c after s)"
proof (rule okop_move [where c = c])
  fix s' assume wf: "wf_sway s" and op: "container_add_sibling sf f c after s = Some s'"
  obtain l i where m: "floaters_move (t_insert (place_of l i) c (t_detach c (tree_of s))) (tree_of s')"
    "\<forall>p. l = Children p \<longrightarrow> parent_of s f = Some p"
    using add_sibling_moves [OF wf assms op] by blast
  have "\<not> lonely (tree_of s) p" if "parent_of s f = Some p" for p
    using that wf_treeD(2) [OF wf, of f p] by (auto simp: lonely_def kids_def)
  then show "\<exists>pl. floaters_move (t_insert pl c (t_detach c (tree_of s))) (tree_of s') \<and>
         (\<forall>p. place_parent pl = Some p \<longrightarrow> lonely (tree_of s) p \<longrightarrow> p \<in> {c})"
    using m by (intro exI [of _ "place_of l i"]) (cases l; simp)
qed simp

end

end
