(* ===== verification/Tree_Steps.thy ===== *)
theory Tree_Steps
  imports Tree_Invariant
begin

text \<open>
  The rest of the operations of the window tree and the transition system they form: no
  reachable state has an ill-formed tree.
\<close>

section \<open>Fullscreen and destruction\<close>

text \<open>
  From here on the rules speak of an operation on a state \<open>u\<close> with the same tree as \<open>s\<close>, so
  that updates of fields outside the tree are passed over.
\<close>

lemma okop_shape: "okop X u r \<Longrightarrow> tree_of u = tree_of s \<Longrightarrow> okop X s r"
  by (simp add: okop_def)

lemma tree_of_save_geometry [simp, tree_frame]: "tree_of (save_geometry c s) = tree_of s"
  by (simp add: save_geometry_def Let_def tree_of_upd_con)

lemma tree_of_seat_fields [simp, tree_frame]:
  "tree_of (s\<lparr>root_scratchpad := l\<rparr>) = tree_of s" "tree_of (s\<lparr>node_destroying := f\<rparr>) = tree_of s"
  "tree_of (upd_con c (con_scratchpad_update g) s) = tree_of s"
  by (simp_all add: tree_of_upd_con)

lemma tree_of_scratchpad_remove [simp, tree_frame]: "tree_of (root_scratchpad_remove_container c s) = tree_of s"
  by (simp add: root_scratchpad_remove_container_def Let_def)

context refocus begin

lemma okop_moves_from:
  assumes "\<And>s'. wf_sway u \<Longrightarrow> r = Some s' \<Longrightarrow> floaters_move (tree_of u) (tree_of s')" "tree_of u = tree_of s"
  shows "okop X s r"
  using assms okop_moves okop_shape by blast

lemma okop_sf [okop]: "tree_of u = tree_of s \<Longrightarrow> okop X s (sf i n u)"
  by (rule okop_moves_from [OF moves])

lemma okop_disable [okop]: "tree_of u = tree_of s \<Longrightarrow> okop X s (container_fullscreen_disable sf c u)"
  by (rule okop_moves_from [OF fullscreen_disable_moves])

lemma okop_consider_destroy [okop]: "tree_of u = tree_of s \<Longrightarrow> okop X s (workspace_consider_destroy sf w u)"
  by (rule okop_moves_from [OF workspace_consider_destroy_moves])

lemma okop_emit_destroy [okop]: "tree_of u = tree_of s \<Longrightarrow> okop X s (emit_node_destroy sf n u)"
  by (rule okop_moves_from [OF emit_node_destroy_moves])

lemma okop_for_seats [okop]:
  assumes "\<And>i u. okop X u (f i u)" "tree_of u = tree_of s"
  shows "okop X s (for_seats f is u)"
proof -
  have "okop X u (for_seats f is u)"
    by (induction "is" arbitrary: u) (simp_all add: okop_self, rule okop_bind, auto simp: assms(1))
  then show ?thesis using assms(2) by (rule okop_shape)
qed

lemma okop_Some [okop]: "tree_of u = tree_of s \<Longrightarrow> okop X s (Some u)"
  by (rule okop_same)

lemma okop_focus_fullscreen: "okop X s (focus_fullscreen sf c w i s)"
  by (simp add: focus_fullscreen_def Let_def okop)

lemma okop_fullscreen_workspace [okop]:
  assumes "tree_of u = tree_of s" shows "okop X s (container_fullscreen_workspace sf c u)"
  unfolding container_fullscreen_workspace_def Let_def
  by (intro okop okop_focus_fullscreen) (simp_all add: assms tree_of_upd_ws)

lemma okop_focus_global: "okop X s (focus_global sf c i s)"
  unfolding focus_global_def by (intro okop) simp_all

lemma okop_map_same [okop]:
  "okop X s m \<Longrightarrow> (\<And>u. tree_of (f u) = tree_of u) \<Longrightarrow> okop X s (map_option f m)"
  by (rule okop_map)

lemma okop_fullscreen_global [okop]:
  assumes "tree_of u = tree_of s" shows "okop X s (container_fullscreen_global sf c u)"
  unfolding container_fullscreen_global_def Let_def
  by (intro okop okop_focus_global) (simp_all add: assms tree_of_upd_ws)

lemma okop_leave_global [okop]: "tree_of u = tree_of s \<Longrightarrow> okop X s (leave_global sf u)"
  unfolding leave_global_def by (intro okop)

lemma okop_set_fullscreen_workspace [okop]:
  assumes "tree_of u = tree_of s" shows "okop X s (set_fullscreen_workspace sf c u)"
  unfolding set_fullscreen_workspace_def displace_fullscreen_def by (intro okop) (simp_all add: assms tree_of_upd_ws)

lemma okop_restore_prev [okop]:
  assumes "tree_of u = tree_of s" shows "okop X s (restore_prev_fullscreen sf w u)"
  unfolding restore_prev_fullscreen_def by (intro okop) (simp_all add: assms tree_of_upd_ws)

lemma okop_set_fullscreen_global [okop]:
  assumes "tree_of u = tree_of s" shows "okop X s (set_fullscreen_global sf c u)"
  unfolding set_fullscreen_global_def by (intro okop) (simp_all add: assms)

lemma okop_set_fullscreen_none [okop]:
  assumes "tree_of u = tree_of s" shows "okop X s (set_fullscreen_none sf c u)"
  unfolding set_fullscreen_none_def by (intro okop) (simp_all add: assms)

lemma okop_set_fullscreen [okop]:
  assumes "tree_of u = tree_of s" shows "okop X s (container_set_fullscreen sf c mode u)"
  using assms by (cases mode) (simp_all add: container_set_fullscreen_def okop)

lemma okop_forget_fullscreen [okop]:
  assumes "tree_of u = tree_of s" shows "okop X s (forget_fullscreen sf c w u)"
  unfolding forget_fullscreen_def Let_def by (intro okop) (simp_all add: assms tree_of_upd_ws)

lemma okop_detach_from [okop]: "tree_of u = tree_of s \<Longrightarrow> okop X s (container_detach c u)"
  by (rule okop_shape [OF okop_detach])

lemma okop_begin_destroy [okop]:
  assumes "tree_of u = tree_of s" shows "okop X s (container_begin_destroy sf c u)"
  unfolding container_begin_destroy_def Let_def by (intro okop) (simp_all add: assms tree_of_upd_ws)

lemma okop_reap_up: "okop X s (reap_up n sf ws con s)"
  by (induction n arbitrary: con s) (auto intro!: okop split: list.split)

lemma okop_reap_empty [okop]:
  assumes "tree_of u = tree_of s" shows "okop X s (container_reap_empty sf c u)"
  unfolding container_reap_empty_def by (intro okop okop_shape [OF okop_reap_up]) (simp_all add: assms tree_of_upd_ws)

lemma okop_reparent [okop]: "tree_of u = tree_of s \<Longrightarrow> okop X s (container_handle_fullscreen_reparent sf c u)"
  by (rule okop_moves_from [OF fullscreen_reparent_moves])

end

section \<open>Operations that do not touch the tree\<close>

lemma okop_frame_from:
  assumes "\<And>s'. r = Some s' \<Longrightarrow> tree_of s' = tree_of u" "tree_of u = tree_of s"
  shows "okop X s r"
  using assms okop_frame okop_shape by blast

lemma okop_frames [okop]:
  assumes "tree_of u = tree_of s"
  shows "okop X s (arrange_workspace w u)" "okop X s (container_floating_resize_and_center c u)"
    "okop X s (container_floating_move_to_center c u)" "okop X s (floating_fix_coordinates c old new u)"
  using assms by (auto intro!: okop_frame_from simp: tree_frame)

lemma tree_of_use_border [simp, tree_frame]:
  "tree_of (use_csd_border c s) = tree_of s" "tree_of (use_saved_border c s) = tree_of s"
  "tree_of (set_fractions c fw fh s) = tree_of s"
  by (simp_all add: use_csd_border_def use_saved_border_def set_fractions_def tree_of_upd_con tree_of_upd_pending
      split: option.split)

lemma okop_set_container_transform [okop]:
  assumes "tree_of u = tree_of s" shows "okop X s (set_container_transform ws c u)"
  using assms by (auto simp: set_container_transform_def tree_of_upd_con intro: okop_frame)

text \<open>Raising only permutes the floating containers of a workspace.\<close>

lemma set_remove1_insert: "x \<in> set l \<Longrightarrow> insert x (set (remove1 x l)) = set l"
  by (induction l) auto

lemma set_move_to_end [simp]: "set (move_to_end x l) = set l"
  by (cases "x \<in> set l") (simp_all add: move_to_end_def set_remove1_insert)

lemma distinct_move_to_end: "distinct l \<Longrightarrow> distinct (move_to_end x l)"
  by (auto simp: move_to_end_def)

lemma wf_tree_permute_floating:
  assumes "wf_tree t" "\<And>w. set (f w) = set (t_floating t w) \<and> distinct (f w)"
  shows "wf_tree (t\<lparr>t_floating := f\<rparr>)"
proof -
  have *: "kidl (t\<lparr>t_floating := f\<rparr>) = kidl t" "edges (t\<lparr>t_floating := f\<rparr>) = edges t"
    by (simp_all add: fun_eq_iff kidl_def edges_def)
  show ?thesis using assms(1,2) unfolding wf_tree_def wf_lists_def wf_links_def top_level_def * by simp
qed

lemma raise_floating_moves:
  assumes wf: "wf_sway s"
  shows "floaters_move (tree_of s) (tree_of (container_raise_floating c s))"
proof -
  define k where "k = container_toplevel_ancestor s c"
  have *: "floaters_move (tree_of s) (tree_of (upd_ws w (ws_floating_update (move_to_end k)) s))" for w
  proof -
    let ?t = "tree_of (upd_ws w (ws_floating_update (move_to_end k)) s)"
    have t: "?t = (tree_of s)\<lparr>t_floating := \<lambda>v. if v = w then move_to_end k (t_floating (tree_of s) v) else t_floating (tree_of s) v\<rparr>"
      by (simp add: tree_of_def upd_ws_def kids_def fun_eq_iff)
    have "wf_tree ?t" unfolding t using wf_treeD(4) [OF wf]
      by (intro wf_tree_permute_floating [OF wf]) (simp add: distinct_move_to_end)
    then show ?thesis unfolding t floaters_move_def by simp
  qed
  show ?thesis
    unfolding container_raise_floating_def Let_def k_def [symmetric]
    using * floaters_move_refl [OF wf] by (auto split: option.split)
qed

lemma okop_raise_floating [okop]:
  assumes "tree_of u = tree_of s" shows "okop X s (Some (container_raise_floating c u))"
  by (rule okop_shape [OF okop_moves assms]) (auto simp: raise_floating_moves)

section \<open>Attaching, floating and the scratchpad\<close>

lemma loose_below_empty: "loose s r \<Longrightarrow> r \<notin> below (tree_of s) c"
  by (rule loose_below)

lemma okop_bind_pair:
  assumes "okop Y s (map_option snd m)" "Y \<subseteq> X"
    and "\<And>a u. wf_sway s \<Longrightarrow> m = Some (a, u) \<Longrightarrow> wf_sway u \<Longrightarrow> tends Y (tree_of s) (tree_of u) \<Longrightarrow> okop X u (f (a, u))"
  shows "okop X s (m \<bind> f)"
  unfolding okop_def
proof (intro impI allI)
  fix s' assume wf: "wf_sway s" and "m \<bind> f = Some s'"
  then obtain a u where u: "m = Some (a, u)" "f (a, u) = Some s'" by (auto split: bind_splits)
  have t: "tends Y (tree_of s) (tree_of u)" using assms(1) wf u(1) by (simp add: okop_def)
  then have w: "wf_sway u" by (simp add: tends_def)
  have "tends X (tree_of u) (tree_of s')" using assms(3) [OF wf u(1) w t] w u(2) by (simp add: okop_def)
  with tends_mono [OF t assms(2)] show "tends X (tree_of s) (tree_of s')" by (rule tends_trans)
qed

lemma tends_next: "tends X (tree_of s) (tree_of u) \<Longrightarrow> c < next_id s \<Longrightarrow> c < next_id u"
  by (simp add: tends_def)

lemma tends_loose: "tends X (tree_of s) (tree_of u) \<Longrightarrow> loose s c \<Longrightarrow> c \<notin> X \<Longrightarrow> loose u c"
  by (simp add: tends_def)

lemma tree_eqD:
  assumes "tree_of u = tree_of s"
  shows "parent_of u c = parent_of s c" "workspace_of u c = workspace_of s c"
    "children_of u c = children_of s c" "next_id u = next_id s" "ws_tiling (wss u w) = ws_tiling (wss s w)"
    "ws_floating (wss u w) = ws_floating (wss s w)"
  using arg_cong [OF assms, of "\<lambda>t. t_parent t c"] arg_cong [OF assms, of "\<lambda>t. t_ws t c"]
    arg_cong [OF assms, of "\<lambda>t. t_kids t c"] arg_cong [OF assms, of t_next]
    arg_cong [OF assms, of "\<lambda>t. t_tiling t w"] arg_cong [OF assms, of "\<lambda>t. t_floating t w"] by simp_all

lemma loose_ready: "loose s c \<Longrightarrow> loose_or_placed s c" "loose s c \<Longrightarrow> c < next_id s"
  by (simp_all add: loose_def loose_or_placed_def)

context refocus begin

lemma okop_add_floating_to [okop]:
  assumes "tree_of u = tree_of s" "loose_or_placed u c" "c < next_id u" "loose s c \<Longrightarrow> c \<in> X"
  shows "okop X s (workspace_add_floating sf w c u)"
proof (rule okop_shape [OF okop_move assms(1)])
  fix s' assume "wf_sway u" "workspace_add_floating sf w c u = Some s'"
  then have "floaters_move (t_insert (Floating w (length (t_floating (t_detach c (tree_of u)) w))) c (t_detach c (tree_of u))) (tree_of s')"
    by (rule add_floating_moves [OF _ assms(2,3)])
  then show "\<exists>pl. floaters_move (t_insert pl c (t_detach c (tree_of u))) (tree_of s') \<and>
         (\<forall>p. place_parent pl = Some p \<longrightarrow> lonely (tree_of u) p \<longrightarrow> p \<in> X)"
    by fastforce
qed (use assms in simp)

lemma okop_float_on [okop]:
  assumes "tree_of u = tree_of s" "c \<in> X" shows "okop X s (float_on sf c u)"
proof (rule okop_shape [OF okop_wfI assms(1)])
  assume wf: "wf_sway u"
  show "okop X u (float_on sf c u)"
    unfolding float_on_def Let_def
  proof (intro okop okop_bind_value)
    fix w s1
    assume w: "workspace_of (container_clear_maximized c u) c = Some w"
      and s1: "container_detach c (container_clear_maximized c u) = Some s1" "wf_sway s1"
    have "c < next_id (container_clear_maximized c u)" using placed_less [OF _ w] wf by simp
    then have l: "loose s1 c" using loose_detach [OF _ s1(1)] wf by simp
    show "c < next_id s1" "loose_or_placed s1 c" using l by (simp_all add: loose_def loose_or_placed_def)
  qed (simp_all add: tree_frame assms(2))
qed

lemma okop_send_to_floating [okop]:
  assumes "tree_of u = tree_of s" "c \<in> X" shows "okop X s (send_to_floating sf c u)"
  unfolding send_to_floating_def by (intro okop) (simp_all add: tree_frame assms)

lemma okop_focus_after_leaving [okop]:
  assumes "tree_of u = tree_of s" shows "okop X s (focus_after_leaving sf p w u)"
  unfolding focus_after_leaving_def Let_def
  by (intro okop okop_bind_value) (simp_all add: assms split: option.split)

lemma okop_scratchpad_add [okop]:
  assumes "tree_of u = tree_of s" "c \<in> X" shows "okop X s (root_scratchpad_add_container sf c ws u)"
proof (rule okop_shape [OF okop_wfI assms(1)])
  assume wf: "wf_sway u"
  show "okop X u (root_scratchpad_add_container sf c ws u)"
    unfolding root_scratchpad_add_container_def Let_def
  proof (intro okop)
    fix s1 s2 s3 s4 w
    assume s1: "set_container_transform (workspace_of u c) c u = Some s1"
      and t: "tends X (tree_of u) (tree_of s1)" "tends X (tree_of s1) (tree_of s2)" "tends X (tree_of s2) (tree_of s3)"
      and s4: "wf_sway s3" "container_detach c s3 = Some s4"
    obtain v where "workspace_of u c = Some v" using s1 by (auto simp: set_container_transform_def)
    then have "c < next_id s3" using placed_less [OF wf] tends_next [OF t(1)] tends_next [OF t(2)] tends_next [OF t(3)] by blast
    then have "loose s4 c" by (rule loose_detach [OF s4])
    moreover define s6 where "s6 = (upd_con c (con_scratchpad_update (\<lambda>_. True)) s4)
       \<lparr>root_scratchpad := root_scratchpad (upd_con c (con_scratchpad_update (\<lambda>_. True)) s4) @ [c]\<rparr>"
    moreover have "tree_of s6 = tree_of s4" by (simp add: s6_def)
    ultimately have "loose s6 c" by simp
    then show "c < next_id (upd_con c (con_scratchpad_update (\<lambda>_. True)) s4
       \<lparr>root_scratchpad := root_scratchpad (upd_con c (con_scratchpad_update (\<lambda>_. True)) s4) @ [c]\<rparr>)"
      "loose_or_placed (upd_con c (con_scratchpad_update (\<lambda>_. True)) s4
       \<lparr>root_scratchpad := root_scratchpad (upd_con c (con_scratchpad_update (\<lambda>_. True)) s4) @ [c]\<rparr>) c"
      unfolding s6_def by (rule loose_ready)+
  qed (simp_all add: assms(2))
qed

lemma toplevel_above:
  assumes "wf_sway s"
  shows "container_toplevel_ancestor s c = c \<or> c \<in> below (tree_of s) (container_toplevel_ancestor s c)"
  using set_ancestors [OF assms, of _ c] last_in_set [of "ancestors s c"]
  by (cases "ancestors s c = []") (simp_all add: container_toplevel_ancestor_def)

lemma above_less: "wf_tree t \<Longrightarrow> x \<in> below t c \<Longrightarrow> c < t_next t"
  using set_anc anc_less by blast

lemma okop_leave_old_workspace:
  assumes "wf_sway u" "c < next_id u" "leave_old_workspace c w u = Some (k, u')"
  shows "wf_sway u' \<and> tends {} (tree_of u) (tree_of u') \<and> loose_or_placed u' k \<and> k < next_id u' \<and>
     (k = c \<or> c \<in> below (tree_of u) k)"
proof (cases w)
  case None
  then have k: "container_toplevel_ancestor u c = k" "u' = u" using assms(3) by (auto simp: leave_old_workspace_def)
  have "k < next_id u"
    using toplevel_above [OF assms(1), of c] assms(2) above_less [OF assms(1), of c k] k(1) by auto
  then show ?thesis using k assms toplevel_above [OF assms(1), of c] toplevel_no_parent [OF assms(1), of c]
    by (auto simp: tends_refl loose_or_placed_def)
next
  case (Some v)
  then obtain u1 where u1: "container_detach c u = Some u1" "k = c" "tree_of u' = tree_of u1"
    using assms(3) by (auto simp: leave_old_workspace_def)
  have "tends {} (tree_of u) (tree_of u1)" using okop_detach [of "{}" u c] assms(1) u1(1) by (simp add: okop_def)
  moreover have "loose u1 c" by (rule loose_detach [OF assms(1) u1(1) assms(2)])
  ultimately show ?thesis using u1 loose_ready [of u' c] by (simp add: tends_def)
qed

lemma lonely_no_below: "wf_sway s \<Longrightarrow> lonely (tree_of s) r \<Longrightarrow> c \<notin> below (tree_of s) r"
  using below_leaf [of s r] by (auto simp: lonely_def kids_def)

lemma okop_scratchpad_show [okop]:
  assumes "tree_of u = tree_of s" "c \<in> X" "c < next_id u" "\<And>r. r \<notin> X \<Longrightarrow> lonely (tree_of u) r"
  shows "okop X s (root_scratchpad_show sf c u)"
proof (rule okop_shape [OF okop_wfI assms(1)])
  assume wf: "wf_sway u"
  have kX: "k \<in> X \<and> k < next_id u3 \<and> loose_or_placed u3 k \<and> wf_sway u3 \<and> tends X (tree_of u2) (tree_of u3)"
    if "tends X (tree_of u) (tree_of u2)" "leave_old_workspace c w u2 = Some (k, u3)" "wf_sway u2" for u2 u3 k w
  proof -
    have "c < next_id u2" by (rule tends_next [OF that(1) assms(3)])
    from okop_leave_old_workspace [OF that(3) this that(2)]
    have k: "wf_sway u3" "tends {} (tree_of u2) (tree_of u3)" "loose_or_placed u3 k" "k < next_id u3"
      "k = c \<or> c \<in> below (tree_of u2) k" by blast+
    have "k \<in> X"
    proof (rule ccontr)
      assume "k \<notin> X"
      then have "lonely (tree_of u2) k" using assms(4) that(1) by (simp add: tends_def)
      then show False using k(5) \<open>k \<notin> X\<close> assms(2) lonely_no_below [OF that(3)] by auto
    qed
    then show ?thesis using k tends_mono [OF k(2)] by blast
  qed
  have leave: "okop X v (map_option snd (leave_old_workspace c w v))"
    if "tends X (tree_of u) (tree_of v)" for v w
    using kX [OF that] by (auto simp: okop_def)
  show "okop X u (root_scratchpad_show sf c u)"
    unfolding root_scratchpad_show_def Let_def
    apply (intro okop; simp?)
    subgoal for w u1 u2
      apply (rule okop_bind_pair [OF leave subset_refl])
       apply (blast intro: tends_trans)
      subgoal premises p for k u3
      proof -
        have "k \<in> X \<and> k < next_id u3 \<and> loose_or_placed u3 k \<and> wf_sway u3 \<and> tends X (tree_of u2) (tree_of u3)"
          using kX p by (meson tends_trans)
        then show ?thesis by (simp, intro okop) simp_all
      qed
      done
    done
qed

lemma okop_disable_each: "okop X s (disable_each sf cs s)"
  by (induction cs arbitrary: s) (auto intro!: okop)

lemma okop_scratchpad_hide [okop]:
  assumes "tree_of u = tree_of s" shows "okop X s (root_scratchpad_hide sf c u)"
  unfolding root_scratchpad_hide_def Let_def
  by (intro okop okop_bind_value okop_shape [OF okop_disable_each]) (simp_all add: assms)

text \<open>The replacement takes the place of a container, which is then in no list.\<close>

lemma put_in_place_result:
  assumes wf: "wf_sway u" and c: "c < next_id u" and r: "loose u r" "r \<noteq> c" "c \<notin> below (tree_of u) r"
    and op: "put_in_place sf c r u = Some u'" and "r \<in> X"
  shows "tends X (tree_of u) (tree_of u') \<and> loose u' c \<and> r \<notin> below (tree_of u') c"
proof (cases "parent_of u c \<noteq> None \<or> workspace_of u c \<noteq> None")
  case False
  then show ?thesis using op c wf tends_refl loose_below [OF r(1)] by (auto simp: put_in_place_def loose_def)
next
  case True
  then obtain u1 u2 where u1: "container_add_sibling sf c r True u = Some u1" and u2: "container_detach c u1 = Some u2"
    and t': "tree_of u' = tree_of u2"
    using op by (auto simp: put_in_place_def Let_def split: bind_splits)
  have "tends X (tree_of u) (tree_of u1)"
    using okop_mono [OF okop_add_sibling [OF loose_ready [OF r(1)] r(2) [symmetric] r(3)]] assms(7) wf u1
    by (simp add: okop_def)
  then have wf1: "wf_sway u1" and c1: "c < next_id u1" using c by (simp_all add: tends_def)
  have "tends X (tree_of u1) (tree_of u2)" using okop_detach [of X u1 c] wf1 u2 by (simp add: okop_def)
  moreover have "loose u2 c" by (rule loose_detach [OF wf1 u2 c1])
  moreover have "r \<notin> below (tree_of u1) c"
  proof
    assume b: "r \<in> below (tree_of u1) c"
    obtain l i where m: "floaters_move (t_insert (place_of l i) r (t_detach r (tree_of u))) (tree_of u1)"
      "\<forall>p. l = Children p \<longrightarrow> parent_of u c = Some p"
      using add_sibling_moves [OF wf loose_ready [OF r(1)] r(2) [symmetric] r(3) u1] by blast
    have eq: "t_parent (tree_of u1) = (t_parent (tree_of u))(r := parent_in l)"
      using m(1) by (simp add: floaters_move_def)
    have "parent_of u1 r = parent_in l" "parent_of u1 c = parent_of u c"
      using r(2) fun_cong [OF eq, of r] fun_cong [OF eq, of c] by simp_all
    then have "parent_of u1 r = None \<or> parent_of u1 r = parent_of u1 c" using m(2) by (cases l) simp_all
    then have "c \<in> below (tree_of u1) c" using b by (metis below_parent option.distinct(1) tree_of_sel(1))
    then show False using below_irrefl [OF wf1] by simp
  qed
  ultimately show ?thesis
    using \<open>tends X (tree_of u) (tree_of u1)\<close> t' container_detach_tree [OF wf1 u2] below_detach [OF wf1, of c]
    by (auto intro: tends_trans)
qed

lemma okop_put_in_place:
  assumes "c < next_id u" "loose u r" "r \<noteq> c" "c \<notin> below (tree_of u) r" "r \<in> X"
  shows "okop X u (put_in_place sf c r u)"
  using put_in_place_result [OF _ assms(1-4) _ assms(5)] by (auto simp: okop_def)

lemma okop_fullscreen_again [okop]:
  assumes "tree_of u = tree_of s" shows "okop X s (fullscreen_again sf m c u)"
  using assms by (cases m) (simp_all add: fullscreen_again_def okop)

lemma scratchpad_add_parent:
  assumes wf: "wf_sway u" and op: "root_scratchpad_add_container sf r w u = Some u'"
  shows "u' = u \<or> parent_of u' r = None"
proof (cases "con_scratchpad (cons u r)")
  case False
  obtain s1 s2 s3 s4 where s: "set_container_transform (workspace_of u r) r u = Some s1"
    "container_fullscreen_disable sf r s1 = Some s2" "send_to_floating sf r s2 = Some s3" "container_detach r s3 = Some s4"
    and u': "(case w of Some w \<Rightarrow> workspace_add_floating sf w r (upd_con r (con_scratchpad_update (\<lambda>_. True)) s4
          \<lparr>root_scratchpad := root_scratchpad (upd_con r (con_scratchpad_update (\<lambda>_. True)) s4) @ [r]\<rparr>)
       | None \<Rightarrow> focus_after_leaving sf (parent_of u r) (workspace_of u r) (upd_con r (con_scratchpad_update (\<lambda>_. True)) s4
          \<lparr>root_scratchpad := root_scratchpad (upd_con r (con_scratchpad_update (\<lambda>_. True)) s4) @ [r]\<rparr>)) = Some u'"
    using op False by (auto simp: root_scratchpad_add_container_def Let_def split: bind_splits)
  define s6 where "s6 = upd_con r (con_scratchpad_update (\<lambda>_. True)) s4
          \<lparr>root_scratchpad := root_scratchpad (upd_con r (con_scratchpad_update (\<lambda>_. True)) s4) @ [r]\<rparr>"
  obtain v where v: "workspace_of u r = Some v" using s(1) by (auto simp: set_container_transform_def)
  have t: "tends {r} (tree_of u) (tree_of s1)" "tends {r} (tree_of s1) (tree_of s2)" "tends {r} (tree_of s2) (tree_of s3)"
    using okop_set_container_transform [of u u "{r}"] okop_disable [of s1 s1 "{r}"] okop_send_to_floating [of s2 s2 r "{r}"] wf s
    by (auto simp: okop_def tends_def)
  have wf3: "wf_sway s3" using t(3) by (simp add: tends_def)
  have "r < next_id s3" using placed_less [OF wf v] tends_next [OF t(1)] tends_next [OF t(2)] tends_next [OF t(3)] by blast
  then have "loose s4 r" by (rule loose_detach [OF wf3 s(4)])
  moreover have 6: "tree_of s6 = tree_of s4" by (simp add: s6_def)
  ultimately have l6: "loose s6 r" by simp
  have wf6: "wf_sway s6" using 6 container_detach_tree [OF wf3 s(4)] wf_tree_detach [OF wf3] by simp
  show ?thesis
  proof (cases w)
    case None
    then have "tends {} (tree_of s6) (tree_of u')"
      using u' okop_focus_after_leaving [of s6 s6 "{}"] wf6 by (auto simp: okop_def s6_def [symmetric])
    then have "loose u' r" by (rule tends_loose [OF _ l6]) simp
    then show ?thesis by (simp add: loose_def)
  next
    case (Some v)
    then have "floaters_move (t_insert (Floating v (length (t_floating (t_detach r (tree_of s6)) v))) r (t_detach r (tree_of s6))) (tree_of u')"
      using u' by (intro add_floating_moves [OF wf6 loose_ready [OF l6]]) (simp add: s6_def)
    then have eq: "t_parent (tree_of u') = (t_parent (tree_of s6))(r := None)" by (simp add: floaters_move_def)
    show ?thesis using fun_cong [OF eq, of r] by simp
  qed
qed (use op in \<open>simp add: root_scratchpad_add_container_def\<close>)

lemma tends_op: "okop X s r \<Longrightarrow> wf_sway s \<Longrightarrow> r = Some s' \<Longrightarrow> tends X (tree_of s) (tree_of s')"
  by (simp add: okop_def)

lemma for_seats_moves_from:
  assumes "wf_sway s" "tree_of u = tree_of s" "for_seats f is u = Some s'"
    and "\<And>i v v'. wf_sway v \<Longrightarrow> f i v = Some v' \<Longrightarrow> floaters_move (tree_of v) (tree_of v')"
  shows "floaters_move (tree_of s) (tree_of s')"
  using for_seats_moves [of f u "is" s'] assms by auto

lemma focus_fullscreen_moves:
  "wf_sway v \<Longrightarrow> focus_fullscreen sf c w i v = Some v' \<Longrightarrow> floaters_move (tree_of v) (tree_of v')"
  by (auto simp: focus_fullscreen_def Let_def floaters_move_refl moves split: if_splits)

lemma fullscreen_workspace_moves:
  assumes wf: "wf_sway s" and op: "container_fullscreen_workspace sf c s = Some s'"
  shows "floaters_move (tree_of s) (tree_of s')"
  using op wf unfolding container_fullscreen_workspace_def Let_def
  by (auto simp: tree_of_upd_ws floaters_move_refl split: if_splits option.splits
      elim!: for_seats_moves_from [OF wf, rotated] intro: focus_fullscreen_moves)

lemma fullscreen_global_moves:
  assumes wf: "wf_sway s" and op: "container_fullscreen_global sf c s = Some s'"
  shows "floaters_move (tree_of s) (tree_of s')"
proof -
  have *: "focus_global sf c i v = Some v' \<Longrightarrow> wf_sway v \<Longrightarrow> floaters_move (tree_of v) (tree_of v')" for i v v'
    by (auto simp: focus_global_def floaters_move_refl moves split: option.splits if_splits)
  show ?thesis using op wf unfolding container_fullscreen_global_def Let_def
    by (auto simp: floaters_move_refl split: if_splits bind_splits
        elim!: for_seats_moves_from [OF wf, rotated] intro: *)
qed

lemma container_replace_result:
  assumes wf: "wf_sway s" and c: "c < next_id s" and r: "lonely (tree_of s) r" "r \<noteq> c"
    and op: "container_replace sf c r s = Some s'"
  shows "tends UNIV (tree_of s) (tree_of s') \<and> loose s' c \<and> r \<notin> below (tree_of s') c"
proof -
  define sp where "sp = con_scratchpad (cons s c)"
  obtain s1 s2 s3 s4 where s1: "container_fullscreen_disable sf c s = Some s1"
    and s2: "(if sp then map_option (root_scratchpad_remove_container c) (root_scratchpad_show sf c s1) else Some s1) = Some s2"
    and s3: "put_in_place sf c r s2 = Some s3"
    and s4: "(if sp then root_scratchpad_add_container sf r (if sp then workspace_of s1 c else None) s3 else Some s3) = Some s4"
    and s': "fullscreen_again sf (fullscreen_mode_of s c) r s4 = Some s'"
    using op unfolding container_replace_def Let_def sp_def [symmetric] by (auto split: bind_splits)
  have t1: "tends {} (tree_of s) (tree_of s1)" by (rule tends_op [OF okop_disable wf s1]) simp
  have l1: "lonely (tree_of s1) r" "c < next_id s1" "wf_sway s1" using t1 r(1) c by (simp_all add: tends_def)
  have "okop (- {r}) s1 (if sp then map_option (root_scratchpad_remove_container c) (root_scratchpad_show sf c s1) else Some s1)"
    using r(2) l1 by (intro okop) auto
  then have t2: "tends (- {r}) (tree_of s1) (tree_of s2)" by (rule tends_op [OF _ l1(3) s2])
  have l2: "lonely (tree_of s2) r" "c < next_id s2" "wf_sway s2" using t2 l1 by (simp_all add: tends_def)
  have r3: "tends {r} (tree_of s2) (tree_of s3) \<and> loose s3 c \<and> r \<notin> below (tree_of s3) c"
    using l2(1) lonely_no_below [OF l2(3,1)] by (intro put_in_place_result [OF l2(3,2) _ r(2) _ s3]) (simp_all add: lonely_def)
  then have wf3: "wf_sway s3" by (simp add: tends_def)
  have t4: "tends {r} (tree_of s3) (tree_of s4)"
    by (rule tends_op [OF _ wf3 s4]) (intro okop; simp)
  have "r \<notin> below (tree_of s4) c"
    using r3 s4 scratchpad_add_parent [OF wf3, of r "workspace_of s1 c" s4] below_parent [of r "tree_of s4" c]
    by (auto split: if_splits)
  moreover have wf4: "wf_sway s4" using t4 by (simp add: tends_def)
  moreover have "floaters_move (tree_of s4) (tree_of s')"
    using s' wf4 by (cases "fullscreen_mode_of s c")
      (auto simp: fullscreen_again_def floaters_move_refl intro: fullscreen_workspace_moves fullscreen_global_moves)
  moreover have "loose s4 c" by (rule tends_loose [OF t4]) (use r3 r(2) in auto)
  ultimately have "loose s' c \<and> r \<notin> below (tree_of s') c \<and> tends UNIV (tree_of s4) (tree_of s')"
    using floaters_move_below tends_floaters_move tends_loose [of "{}" s4 s' c] by force
  moreover have "tends UNIV (tree_of s) (tree_of s4)"
    using tends_mono [OF t1] tends_mono [OF t2] tends_mono [OF conjunct1 [OF r3]] tends_mono [OF t4]
    by (meson subset_UNIV tends_trans)
  ultimately show ?thesis using tends_trans by blast
qed

lemma okop_focus_split [okop]:
  assumes "tree_of u = tree_of s" shows "okop X s (focus_split sf c k u)"
  unfolding focus_split_def Let_def by (intro okop) (simp_all add: assms)

lemma container_split_result:
  assumes wf: "wf_sway s" and c: "c < next_id s" and op: "container_split sf c l s = Some (k, s')"
  shows "tends UNIV (tree_of s) (tree_of s')"
proof (cases "singleton_split c l s")
  case (Some s1)
  then have "tree_of s1 = tree_of s"
    by (auto simp: singleton_split_def Let_def tree_of_upd_pending tree_of_upd_ws split: if_splits option.split)
  then show ?thesis using op Some wf by (auto simp: container_split_def tends_refl)
next
  case None
  define s0 where "s0 = (if container_is_floating s c then use_saved_border c s else s)"
  define k' where "k' = fst (container_create None s0)"
  define s2 where "s2 = snd (container_create None s0)"
  have cc: "container_create None s0 = (k', s2)" by (simp add: k'_def s2_def)
  have "container_replace sf c k' (copy_geometry c k' l s2) \<bind> (\<lambda>s4. container_add_child sf k' c s4 \<bind>
      (\<lambda>s5. (if seat_get_focus s (default_seat s) = Some (N_CONTAINER c) then focus_split sf c k' s5 else Some s5) \<bind>
      (\<lambda>s6. Some (k', s6)))) = Some (k, s')"
    using op None by (simp add: container_split_def Let_def s0_def [symmetric] cc)
  then obtain s4 s5 where s4: "container_replace sf c k' (copy_geometry c k' l s2) = Some s4"
    and s5: "container_add_child sf k' c s4 = Some s5"
    and s': "(if seat_get_focus s (default_seat s) = Some (N_CONTAINER c) then focus_split sf c k' s5 else Some s5) = Some s'"
    unfolding bind_eq_Some_conv by (metis option.inject prod.inject)
  have t0: "tree_of s0 = tree_of s" by (simp add: s0_def)
  have k': "k' = next_id s" using container_create_wf [of s0] wf t0 tree_eqD(4) [OF t0] by (simp add: k'_def)
  have t2: "tree_of (copy_geometry c k' l s2) = t_create False (tree_of s)"
    by (simp add: copy_geometry_def Let_def tree_of_upd_pending tree_of_container_create t0 s2_def)
  have "wf_sway (copy_geometry c k' l s2)" unfolding t2 by (rule wf_tree_create [OF wf])
  moreover have "lonely (tree_of (copy_geometry c k' l s2)) k'"
    unfolding t2 by (simp add: k' lonely_def t_loose_def t_create_def Let_def)
  moreover have "c < next_id (copy_geometry c k' l s2)" "k' \<noteq> c"
    using c arg_cong [OF t2, of t_next] k' by (simp_all add: t_create_def Let_def)
  ultimately have r: "tends UNIV (tree_of (copy_geometry c k' l s2)) (tree_of s4)" "loose s4 c" "k' \<notin> below (tree_of s4) c"
    and k: "k' < next_id (copy_geometry c k' l s2)" "k' \<noteq> c"
    using container_replace_result [OF _ _ _ _ s4] loose_ready(2) [of _ k'] unfolding lonely_def by blast+
  have wf4: "wf_sway s4" "k' < next_id s4" using r(1) k(1) by (simp_all add: tends_def)
  have t5: "tends UNIV (tree_of s4) (tree_of s5)"
    using tends_op [OF okop_add_child [OF loose_ready [OF r(2)] wf4(2) k(2) r(3)] wf4(1) s5] tends_mono by blast
  then have wf5: "wf_sway s5" by (simp add: tends_def)
  have "okop UNIV s5 (if seat_get_focus s (default_seat s) = Some (N_CONTAINER c) then focus_split sf c k' s5 else Some s5)"
    by (intro okop; simp)
  then have "tends UNIV (tree_of s5) (tree_of s')" by (rule tends_op [OF _ wf5 s'])
  with t5 r(1) have "tends UNIV (t_create False (tree_of s)) (tree_of s')" unfolding t2 by (blast intro: tends_trans)
  then show ?thesis by (simp add: tends_def t_create_def Let_def)
qed

lemma singleton_split_loose: "loose s c \<Longrightarrow> singleton_split c l s = None"
  by (simp add: singleton_split_def loose_def)

text \<open>
  A container that is in no list is split in place: the new container is in no list either.
  A scratchpad container would be shown first.
\<close>

lemma container_replace_loose:
  assumes wf: "wf_sway s" and c: "loose s c" "\<not> con_scratchpad (cons s c)" and r: "loose s r"
    and op: "container_replace sf c r s = Some s'"
  shows "tends {} (tree_of s) (tree_of s') \<and> loose s' c \<and> loose s' r"
proof -
  obtain s1 s3 where s1: "container_fullscreen_disable sf c s = Some s1" and s3: "put_in_place sf c r s1 = Some s3"
    and s': "fullscreen_again sf (fullscreen_mode_of s c) r s3 = Some s'"
    using op c(2) by (auto simp: container_replace_def Let_def split: bind_splits)
  have t1: "tends {} (tree_of s) (tree_of s1)" by (rule tends_op [OF okop_disable wf s1]) simp
  then have "loose s1 c" by (rule tends_loose [OF _ c(1)]) simp
  then have "s3 = s1" using s3 by (simp add: put_in_place_def loose_def)
  then have "tends {} (tree_of s1) (tree_of s')"
    using t1 by (intro tends_op [OF okop_fullscreen_again _ s']) (simp_all add: tends_def)
  with t1 have "tends {} (tree_of s) (tree_of s')" by (rule tends_trans)
  then show ?thesis using c(1) r by (simp add: tends_def)
qed

lemma add_child_keeps_loose:
  assumes wf: "wf_sway s" and c: "loose s c" and p: "loose s p" "p \<noteq> c" "p \<notin> below (tree_of s) c"
    and op: "container_add_child sf p c s = Some s'"
  shows "wf_sway s' \<and> loose s' p"
proof -
  have m: "floaters_move (t_insert (Under p (length (kidl (t_detach c (tree_of s)) p))) c (t_detach c (tree_of s))) (tree_of s')"
    by (rule add_child_moves [OF wf loose_ready [OF c] loose_ready(2) [OF p(1)] p(2,3) op])
  have "t_loose (t_insert (Under p (length (kidl (t_detach c (tree_of s)) p))) c (t_detach c (tree_of s))) p"
    by (intro loose_insert loose_t_detach p(1,2))
  then show ?thesis using m by (auto simp: floaters_move_def t_loose_def)
qed

lemma scratchpad_copy_create:
  "c \<noteq> next_id s \<Longrightarrow> con_scratchpad (cons (copy_geometry x y l (snd (container_create v s))) c) = con_scratchpad (cons s c)"
proof -
  have "cons (fold (\<lambda>i. seat_node_from_node i n) L u) = cons u" for n L u
    by (induction L arbitrary: u) (simp_all add: seat_node_from_node_def upd_seat_def split: sway_node.split)
  then show "c \<noteq> next_id s \<Longrightarrow> ?thesis"
    by (simp add: container_create_def new_node_def node_init_def Let_def copy_geometry_def set_fractions_def upd_defs)
qed

lemma container_split_loose:
  assumes wf: "wf_sway s" and c: "loose s c" "\<not> con_scratchpad (cons s c)"
    and op: "container_split sf c l s = Some (k, s')"
  shows "loose s' k"
proof -
  define s0 where "s0 = (if container_is_floating s c then use_saved_border c s else s)"
  define s2 where "s2 = copy_geometry c (next_id s) l (snd (container_create None s0))"
  have t0: "tree_of s0 = tree_of s" by (simp add: s0_def)
  have "fst (container_create None s0) = next_id s" by (simp add: container_create_def node_init_def Let_def tree_eqD(4) [OF t0])
  then have cc: "container_create None s0 = (next_id s, snd (container_create None s0))" by (metis prod.collapse)
  have "container_replace sf c (next_id s) s2 \<bind> (\<lambda>s4. container_add_child sf (next_id s) c s4 \<bind>
      (\<lambda>s5. (if seat_get_focus s (default_seat s) = Some (N_CONTAINER c) then focus_split sf c (next_id s) s5 else Some s5) \<bind>
      (\<lambda>s6. Some (next_id s, s6)))) = Some (k, s')"
    using op singleton_split_loose [OF c(1)] unfolding container_split_def Let_def s0_def [symmetric] s2_def
    by (subst (asm) cc) simp
  then obtain s4 s5 where s4: "container_replace sf c (next_id s) s2 = Some s4"
    and s5: "container_add_child sf (next_id s) c s4 = Some s5"
    and s': "(if seat_get_focus s (default_seat s) = Some (N_CONTAINER c) then focus_split sf c (next_id s) s5 else Some s5) = Some s'"
    and k: "k = next_id s"
    unfolding bind_eq_Some_conv by (metis option.inject prod.inject)
  have t2: "tree_of s2 = t_create False (tree_of s)"
    by (simp add: copy_geometry_def Let_def tree_of_upd_pending tree_of_container_create t0 s2_def)
  have cn: "c < next_id s" by (rule loose_ready(2) [OF c(1)])
  have wf2: "wf_sway s2" unfolding t2 by (rule wf_tree_create [OF wf])
  have 2: "loose s2 c" "loose s2 k" unfolding t2 using c(1) cn by (simp_all add: t_loose_def t_create_def Let_def k)
  have "con_scratchpad (cons s0 c) = con_scratchpad (cons s c)"
    by (simp add: s0_def use_saved_border_def upd_defs split: option.split)
  then have sp: "\<not> con_scratchpad (cons s2 c)"
    using scratchpad_copy_create [of c s0] cn c(2) tree_eqD(4) [OF t0] by (simp add: s2_def)
  have 4: "tends {} (tree_of s2) (tree_of s4)" "loose s4 c" "loose s4 k"
    using container_replace_loose [OF wf2 2(1) sp 2(2) s4 [folded k]] by blast+
  have wf5: "wf_sway s5 \<and> loose s5 k"
    using s5 cn loose_below [OF 4(3)] 4 by (intro add_child_keeps_loose [of s4 c k]) (simp_all add: k tends_def)
  have "okop {} s5 (if seat_get_focus s (default_seat s) = Some (N_CONTAINER c) then focus_split sf c (next_id s) s5 else Some s5)"
    by (intro okop; simp)
  then have "tends {} (tree_of s5) (tree_of s')" by (rule tends_op [OF _ conjunct1 [OF wf5] s'])
  then show ?thesis by (rule tends_loose [OF _ conjunct2 [OF wf5]]) simp
qed

end

end
