(* ===== verification/Tree_Tiling.thy ===== *)
theory Tree_Tiling
  imports Tree_Steps
begin

text \<open>
  Tiling, floating, maximizing and wrapping keep the tree well-formed (rules \<open>okop_*\<close>).
\<close>

section \<open>Tiling\<close>

text \<open>
  With a default layout the container is split before it is tiled, and a scratchpad container
  would then be shown: the callers take it out of the scratchpad first.
\<close>

definition tiling_ready :: "sway \<Rightarrow> nat \<Rightarrow> bool" where
  "tiling_ready s c \<longleftrightarrow> cfg_default_layout (cfg s) = L_NONE \<or> \<not> con_scratchpad (cons s c)"

context refocus begin

lemma split_by_default_result:
  assumes wf: "wf_sway s" and c: "loose s c" "tiling_ready s c" and op: "split_by_default sf c s = Some (k, s')"
  shows "tends UNIV (tree_of s) (tree_of s') \<and> loose s' k"
proof (cases "cfg_default_layout (cfg s) = L_NONE")
  case True
  then show ?thesis using op c wf by (auto simp: split_by_default_def tends_refl)
next
  case False
  then have "container_split sf c (cfg_default_layout (cfg s)) s = Some (k, s')" "\<not> con_scratchpad (cons s c)"
    using op c(2) by (simp_all add: split_by_default_def tiling_ready_def)
  then show ?thesis using container_split_result [OF wf] container_split_loose [OF wf c(1)] loose_ready(2) [OF c(1)] by blast
qed

lemma leave_place_result:
  assumes wf: "wf_sway s" and c: "loose_or_placed s c" "c < next_id s" and op: "leave_place sf c s = Some s'"
  shows "tends UNIV (tree_of s) (tree_of s') \<and> loose s' c"
proof (cases "workspace_of s c")
  case None
  then show ?thesis using op c wf by (auto simp: leave_place_def loose_def loose_or_placed_def tends_refl)
next
  case (Some w)
  then obtain s1 where s1: "container_detach c s = Some s1"
    and s': "(case parent_of s c of Some p \<Rightarrow> container_reap_empty sf p s1 | None \<Rightarrow> Some s1) = Some s'"
    using op by (auto simp: leave_place_def split: option.splits bind_splits)
  have l: "loose s1 c" by (rule loose_detach [OF wf s1 c(2)])
  have t: "tends UNIV (tree_of s) (tree_of s1)" by (rule tends_op [OF okop_detach wf s1])
  have "okop {} s1 (case parent_of s c of Some p \<Rightarrow> container_reap_empty sf p s1 | None \<Rightarrow> Some s1)"
    by (intro okop; simp)
  then have t': "tends {} (tree_of s1) (tree_of s')" using t by (intro tends_op [OF _ _ s']) (simp_all add: tends_def)
  show ?thesis using tends_trans [OF t tends_mono [OF t']] tends_loose [OF t' l] by simp
qed

lemma okop_split_attach:
  assumes "tree_of u = tree_of s" "loose u c" "tiling_ready u c"
    and "\<And>k v. loose v k \<Longrightarrow> okop UNIV v (map_option snd (f k v))"
  shows "okop UNIV s (map_option snd (split_by_default sf c u \<bind> (\<lambda>(k, v). f k v)))"
proof (rule okop_shape [OF _ assms(1)], unfold okop_def, intro impI allI)
  fix s' assume wf: "wf_sway u" and op: "map_option snd (split_by_default sf c u \<bind> (\<lambda>(k, v). f k v)) = Some s'"
  then obtain k v where v: "split_by_default sf c u = Some (k, v)" "map_option snd (f k v) = Some s'"
    by (auto split: bind_splits)
  have t: "tends UNIV (tree_of u) (tree_of v) \<and> loose v k" by (rule split_by_default_result [OF wf assms(2,3) v(1)])
  then have "tends UNIV (tree_of v) (tree_of s')" by (intro tends_op [OF assms(4) _ v(2)]) (simp_all add: tends_def)
  with t show "tends UNIV (tree_of u) (tree_of s')" using tends_trans by blast
qed

lemma okop_attach_pair:
  "loose v k \<Longrightarrow> okop UNIV v (map_option snd (workspace_attach_tiling sf w k v \<bind> (\<lambda>u. Some (k, u))))"
  using okop_mono [OF okop_attach_tiling] by (auto simp: okop_def split: bind_splits)

lemma okop_insert_pair:
  "loose v k \<Longrightarrow> okop UNIV v (map_option snd (workspace_insert_tiling_direct sf w k i v \<bind> (\<lambda>u. Some (k, u))))"
  using okop_mono [OF okop_insert_tiling_direct] by (auto simp: okop_def split: bind_splits)

lemma okop_add_tiling:
  assumes "loose_or_placed s c" "c < next_id s" "\<And>s1. leave_place sf c s = Some s1 \<Longrightarrow> tiling_ready s1 c"
  shows "okop UNIV s (map_option snd (workspace_add_tiling sf w c s))"
  unfolding okop_def
proof (intro impI allI)
  fix s' assume wf: "wf_sway s" and op: "map_option snd (workspace_add_tiling sf w c s) = Some s'"
  then obtain s1 where s1: "leave_place sf c s = Some s1"
    and s': "map_option snd (split_by_default sf c s1 \<bind> (\<lambda>(k, v). workspace_attach_tiling sf w k v \<bind> (\<lambda>u. Some (k, u)))) = Some s'"
    by (auto simp: workspace_add_tiling_def split: bind_splits)
  have t: "tends UNIV (tree_of s) (tree_of s1) \<and> loose s1 c" by (rule leave_place_result [OF wf assms(1,2) s1])
  then have "tends UNIV (tree_of s1) (tree_of s')"
    by (intro tends_op [OF okop_split_attach [OF refl _ assms(3) [OF s1] okop_attach_pair] _ s']) (simp_all add: tends_def)
  with t show "tends UNIV (tree_of s) (tree_of s')" using tends_trans by blast
qed

lemma okop_insert_tiling:
  assumes "loose_or_placed s c" "c < next_id s" "\<And>s1. detach_if_placed c s = Some s1 \<Longrightarrow> tiling_ready s1 c"
  shows "okop UNIV s (map_option snd (workspace_insert_tiling sf w c i s))"
  unfolding okop_def
proof (intro impI allI)
  fix s' assume wf: "wf_sway s" and op: "map_option snd (workspace_insert_tiling sf w c i s) = Some s'"
  then obtain s1 where s1: "detach_if_placed c s = Some s1"
    and s': "map_option snd (split_by_default sf c s1 \<bind> (\<lambda>(k, v). workspace_insert_tiling_direct sf w k i v \<bind> (\<lambda>u. Some (k, u)))) = Some s'"
    by (auto simp: workspace_insert_tiling_def split: bind_splits)
  note d = detach_first [OF wf assms(1,2) s1]
  have l: "loose s1 c" unfolding loose_def using d(3-5) by simp
  have t: "tends UNIV (tree_of s) (tree_of s1)" unfolding d(1) by (rule tends_detach [OF wf])
  have "tends UNIV (tree_of s1) (tree_of s')"
    by (rule tends_op [OF okop_split_attach [OF refl l assms(3) [OF s1] okop_insert_pair] d(2) s'])
  with t show "tends UNIV (tree_of s) (tree_of s')" by (rule tends_trans)
qed

end

section \<open>Leaving the floating list\<close>

lemma scratchpad_upd [simp]:
  "con_scratchpad (cons (upd_pending d f s) c) = con_scratchpad (cons s c)"
  "con_scratchpad (cons (upd_list l g s) c) = con_scratchpad (cons s c)"
  "con_scratchpad (cons (node_set_dirty n s) c) = con_scratchpad (cons s c)"
  "con_scratchpad (cons (upd_ws w h s) c) = con_scratchpad (cons s c)"
  by (simp_all add: upd_defs node_set_dirty_def split: list_ref.split)
    (cases l; simp add: upd_defs)

lemma scratchpad_workspace_representation [simp]:
  "con_scratchpad (cons (workspace_update_representation w s) c) = con_scratchpad (cons s c)"
  by (simp add: workspace_update_representation_def split: prod.split)

lemma scratchpad_update_representation:
  "con_scratchpad (cons (update_representation n d s) c) = con_scratchpad (cons s c)"
proof (induction n arbitrary: d s)
  case (Suc n)
  then show ?case by (auto simp: Let_def upd_con_def split: option.splits)
qed simp

lemma scratchpad_for_each_set_workspace [simp]:
  "con_scratchpad (cons (container_for_each_child d set_workspace s) c) = con_scratchpad (cons s c)"
proof -
  have "con_scratchpad (cons (fold set_workspace L u) c) = con_scratchpad (cons u c)" for L u
    by (induction L arbitrary: u) (simp_all add: set_workspace_def split: option.split)
  then show ?thesis by (simp add: set_workspace.visits_descendants)
qed

lemma scratchpad_detach:
  assumes "container_detach d s = Some s'"
  shows "con_scratchpad (cons s' c) = con_scratchpad (cons s c)"
proof -
  have "con_scratchpad (cons (container_update_representation x u) c) = con_scratchpad (cons u c)"
    "con_scratchpad (cons (remove_from r x u) c) = con_scratchpad (cons u c)" for x u r
    by (simp_all add: container_update_representation_def scratchpad_update_representation
        remove_from_def Let_def split: option.split
        del: update_representation.simps)
  then show ?thesis using assms
    by (auto simp: container_detach_def Let_def split: if_splits option.splits bind_splits)
qed

lemma not_scratchpad_after_remove: "\<not> con_scratchpad (cons (root_scratchpad_remove_container c s) c)"
  by (simp add: root_scratchpad_remove_container_def Let_def upd_con_def)

lemma find_holds: "find P xs = Some x \<Longrightarrow> P x"
  by (auto simp: find_Some_iff)

lemma tiling_reference:
  "seat_get_focus_inactive_tiling s i w = Some r \<Longrightarrow> workspace_of s r = Some w"
  by (auto simp: seat_get_focus_inactive_tiling_def split: if_splits option.splits sway_node.splits dest: find_holds)

context refocus begin

lemma okop_tile_beside:
  assumes wf: "wf_sway s" and c: "loose s c" and r: "workspace_of s r = Some w"
  shows "okop UNIV s (tile_beside sf r c s)"
proof -
  have ne: "r \<noteq> c" "r \<notin> below (tree_of s) c"
    using r c below_ws [OF wf, of r c] by (auto simp: loose_def)
  have rn: "r < next_id s" by (rule placed_less [OF wf r])
  have "okop UNIV s (container_add_sibling sf r c True s)" "okop UNIV s (container_add_child sf r c s)"
    using okop_mono [OF okop_add_sibling [OF loose_ready [OF c] ne]]
      okop_mono [OF okop_add_child [OF loose_ready [OF c] rn ne]] by simp_all
  then show ?thesis unfolding tile_beside_def
    by (intro okop) (simp_all add: tree_of_upd_pending)
qed

lemma okop_tile_alone:
  assumes c: "loose s c" "tiling_ready s c"
  shows "okop UNIV s (tile_alone sf w c s)"
proof -
  have "leave_place sf c s = Some s" using c(1) by (simp add: leave_place_def loose_def)
  then have "okop UNIV s (map_option snd (workspace_add_tiling sf w c s))"
    using okop_add_tiling [OF loose_ready [OF c(1)]] c(2) by simp
  then show ?thesis unfolding tile_alone_def
    by (rule okop_bind_pair [OF _ subset_refl]) (simp add: okop_Some tree_of_upd_pending)
qed

lemma okop_float_off: "okop UNIV s (float_off sf c s)"
proof (cases "container_is_floating s c")
  case True
  define s1 where "s1 = (if con_scratchpad (cons (container_clear_maximized c s) c)
      then root_scratchpad_remove_container c (container_clear_maximized c s) else container_clear_maximized c s)"
  have t1: "tree_of s1 = tree_of s" by (simp add: s1_def)
  have ns: "\<not> con_scratchpad (cons s1 c)" by (simp add: s1_def not_scratchpad_after_remove)
  have "okop UNIV s1 (container_detach c s1 \<bind> (\<lambda>s2. workspace_of s c \<bind> (\<lambda>w.
      (case seat_get_focus_inactive_tiling s2 (current_seat s2) w of
         Some r \<Rightarrow> tile_beside sf r c s2 | None \<Rightarrow> tile_alone sf w c s2) \<bind>
      (\<lambda>s3. Some (set_fractions c 0 0 (use_saved_border c s3))))))"
  proof (intro okop_bind okop_bind_value okop_detach)
    fix s2 w
    assume a: "wf_sway s1" "container_detach c s1 = Some s2" "wf_sway s2" "workspace_of s c = Some w"
    have "c < next_id s1" using placed_less [OF a(1)] a(4) tree_eqD(2) [OF t1, of c] by simp
    then have l: "loose s2 c" by (rule loose_detach [OF a(1,2)])
    have "tiling_ready s2 c" using ns scratchpad_detach [OF a(2)] by (simp add: tiling_ready_def)
    then show "okop UNIV s2 (case seat_get_focus_inactive_tiling s2 (current_seat s2) w of
         Some r \<Rightarrow> tile_beside sf r c s2 | None \<Rightarrow> tile_alone sf w c s2)"
      using okop_tile_beside [OF a(3) l] okop_tile_alone [OF l] tiling_reference by (auto split: option.split)
  qed (simp add: okop_Some)
  then have "okop UNIV s1 (float_off sf c s)"
    using True tree_eqD(2) [of "container_clear_maximized c s" s c]
    by (simp add: float_off_def Let_def s1_def [symmetric])
  then show ?thesis by (rule okop_shape [OF _ t1])
qed (simp add: float_off_def okop_Some)

lemma okop_set_floating [okop]: "okop UNIV s (container_set_floating sf c b s)"
  by (simp add: container_set_floating_def okop_float_off okop_float_on)

end

section \<open>Maximizing\<close>

context refocus begin

lemma okop_set_floating_from [okop]: "tree_of u = tree_of s \<Longrightarrow> okop UNIV s (container_set_floating sf c b u)"
  by (rule okop_shape [OF okop_set_floating])

lemma okop_restore_maximized:
  assumes "tree_of u = tree_of s" "c < next_id u"
  shows "okop UNIV s (restore_maximized_tiled_scrollable sf c w i fw fh u)"
proof (rule okop_shape [OF _ assms(1)])
  show "okop UNIV u (restore_maximized_tiled_scrollable sf c w i fw fh u)"
    unfolding restore_maximized_tiled_scrollable_def Let_def
  proof (intro okop_bind okop_detach_from)
    fix s2
    let ?s1 = "if con_scratchpad (cons u c) then root_scratchpad_remove_container c u else u"
    assume "wf_sway u" "container_detach c ?s1 = Some s2"
    then have "loose s2 c" using assms(2) tree_eqD(4) [of ?s1 u] by (intro loose_detach [of ?s1]) auto
    then show "okop UNIV s2 (workspace_insert_tiling_direct sf w c (max 0 (min i (int (length (ws_tiling (wss s2 w)))))) s2)"
      using okop_mono [OF okop_insert_tiling_direct] by blast
  qed (simp_all add: okop_Some)
qed

lemma okop_raise_if:
  "tree_of u = tree_of s \<Longrightarrow> okop X s (Some (if b then container_raise_floating c u else u))"
  by (simp add: okop_Some okop_raise_floating)

lemma okop_maximize: "okop UNIV s (maximize sf c w s)"
  unfolding maximize_def Let_def
  by (intro okop_bind okop_raise_if okop_if okop_set_fullscreen okop_set_floating_from okop_self okop_Some)
    (simp_all add: tree_of_upd_con)

lemma okop_unmaximize:
  assumes "c < next_id s" shows "okop UNIV s (unmaximize sf c s)"
proof -
  have "c < next_id (container_clear_maximized c s)" using assms tree_eqD(4) [of "container_clear_maximized c s" s] by simp
  then show ?thesis unfolding unmaximize_def Let_def
    by (intro okop okop_restore_maximized) (simp_all add: okop_Some)
qed

lemma okop_set_maximized:
  assumes "maximize_target c s < next_id s" shows "okop UNIV s (container_set_maximized sf c b s)"
  unfolding container_set_maximized_def Let_def
  by (intro okop okop_maximize okop_unmaximize assms) simp_all

end

section \<open>Wrapping the children of a workspace\<close>

context refocus begin

lemma wrap_loop_result:
  "wf_sway s \<Longrightarrow> loose s m \<Longrightarrow> wrap_loop n sf w m s = Some s' \<Longrightarrow> tends UNIV (tree_of s) (tree_of s') \<and> loose s' m"
proof (induction n arbitrary: s)
  case 0
  then show ?case by (auto simp: tends_refl split: if_splits)
next
  case (Suc n)
  show ?case
  proof (cases "ws_tiling (wss s w)")
    case Nil
    then show ?thesis using Suc.prems by (auto simp: tends_refl)
  next
    case (Cons c cs)
    then obtain s1 s2 where s1: "container_detach c s = Some s1" and s2: "container_add_child sf m c s1 = Some s2"
      and s': "wrap_loop n sf w m s2 = Some s'"
      using Suc.prems(3) by (auto split: bind_splits)
    have cw: "workspace_of s c = Some w" using Cons wf_treeD(6) [OF Suc.prems(1), of c w] by simp
    then have ne: "m \<noteq> c" using Suc.prems(2) by (auto simp: loose_def)
    have t1: "tends {} (tree_of s) (tree_of s1)" by (rule tends_op [OF okop_detach Suc.prems(1) s1])
    then have wf1: "wf_sway s1" by (simp add: tends_def)
    have l: "loose s1 c" by (rule loose_detach [OF Suc.prems(1) s1 placed_less [OF Suc.prems(1) cw]])
    have m1: "loose s1 m" by (rule tends_loose [OF t1 Suc.prems(2)]) simp
    have 2: "wf_sway s2 \<and> loose s2 m" by (rule add_child_keeps_loose [OF wf1 l m1 ne loose_below [OF m1] s2])
    have t2: "tends UNIV (tree_of s1) (tree_of s2)"
      using tends_op [OF okop_add_child [OF loose_ready [OF l] loose_ready(2) [OF m1] ne loose_below [OF m1]] wf1 s2]
        tends_mono by blast
    have "tends UNIV (tree_of s2) (tree_of s') \<and> loose s' m" using 2 Suc.IH [OF _ _ s'] by blast
    then show ?thesis using tends_mono [OF t1, of UNIV] t2 by (meson subset_UNIV tends_trans)
  qed
qed

lemma wrap_children_result:
  assumes wf: "wf_sway s" and op: "workspace_wrap_children sf w s = Some (m, s')"
  shows "tends UNIV (tree_of s) (tree_of s')"
proof -
  define s2 where "s2 = upd_pending (next_id s) (st_layout_update (\<lambda>_. ws_layout (wss (snd (container_create None s)) w)))
    (snd (container_create None s))"
  have cc: "container_create None s = (next_id s, snd (container_create None s))"
    by (simp add: container_create_def node_init_def Let_def)
  obtain s3 s4 where s3: "wrap_loop (length (ws_tiling (wss s2 w))) sf w (next_id s) s2 = Some s3"
    and s4: "workspace_attach_tiling sf w (next_id s) s3 = Some s4" and s': "tree_of s' = tree_of s4"
    using op unfolding workspace_wrap_children_def Let_def s2_def
    by (subst (asm) cc) (auto simp: tree_of_upd_ws split: bind_splits)
  have t2: "tree_of s2 = t_create False (tree_of s)"
    by (simp add: s2_def tree_of_upd_pending tree_of_container_create)
  have wf2: "wf_sway s2" unfolding t2 by (rule wf_tree_create [OF wf])
  have "loose s2 (next_id s)" unfolding t2 by (simp add: t_loose_def t_create_def Let_def)
  from wrap_loop_result [OF wf2 this s3]
  have t3: "tends UNIV (tree_of s2) (tree_of s3)" "loose s3 (next_id s)" by blast+
  have "tends UNIV (tree_of s3) (tree_of s4)"
    using t3 by (intro tends_mono [OF tends_op [OF okop_attach_tiling _ s4]]) (simp_all add: tends_def)
  with t3 have "tends UNIV (t_create False (tree_of s)) (tree_of s')" unfolding t2 s' by (blast intro: tends_trans)
  then show ?thesis by (simp add: tends_def t_create_def Let_def)
qed

lemma okop_workspace_split: "okop UNIV s (map_option snd (workspace_split sf w l s))"
proof (cases "ws_tiling (wss s w) = []")
  case False
  have "okop UNIV s (workspace_wrap_children sf w s \<bind> (\<lambda>(m, s1).
     for_seats (refocus_middle sf w m) (seat_ids (upd_pending m (st_layout_update (\<lambda>_. ws_layout (wss s w)))
         (upd_ws w (ws_layout_update (\<lambda>_. l)) s1)))
       (upd_pending m (st_layout_update (\<lambda>_. ws_layout (wss s w))) (upd_ws w (ws_layout_update (\<lambda>_. l)) s1))))"
  proof (rule okop_bind_pair [OF _ subset_refl])
    show "okop UNIV s (map_option snd (workspace_wrap_children sf w s))"
      using wrap_children_result by (auto simp: okop_def)
    have "okop UNIV v (refocus_middle sf w m i v)" for m i v
      unfolding refocus_middle_def by (intro okop) simp_all
    then show "okop UNIV u (case (m, u) of (m, s1) \<Rightarrow> for_seats (refocus_middle sf w m)
        (seat_ids (upd_pending m (st_layout_update (\<lambda>_. ws_layout (wss s w))) (upd_ws w (ws_layout_update (\<lambda>_. l)) s1)))
       (upd_pending m (st_layout_update (\<lambda>_. ws_layout (wss s w))) (upd_ws w (ws_layout_update (\<lambda>_. l)) s1)))" for m u
      by (auto intro!: okop_for_seats simp: tree_of_upd_pending tree_of_upd_ws)
  qed
  then show ?thesis using False by (auto simp: workspace_split_def Let_def okop_def split: bind_splits)
qed (simp add: workspace_split_def okop_Some tree_of_upd_ws)

end

end
