(* ===== verification/Output_Laws.thy ===== *)
theory Output_Laws
  imports Output_Ops Workspace_Laws Tree_Tiling
begin

text \<open>
  Workspaces and outputs: the comparator of \<open>output_sort_workspaces\<close> is a total preorder (an
  interpretation of \<open>list_comparator\<close>), every workspace is listed by exactly the output it
  points to (\<open>wf_desk\<close>), a new output takes over the workspaces that prefer it, and the
  operations keep the window tree well-formed.
\<close>

section \<open>Sorting\<close>

interpretation ws_order: list_comparator "sort_workspace_cmp_qsort s" for s
  by unfold_locales (auto simp: sort_workspace_cmp_qsort_def Let_def split: if_splits)

lemma output_sort_workspaces_mset:
  "mset (out_workspaces (outs (output_sort_workspaces out s) out)) = mset (out_workspaces (outs s out))"
  using ws_order.list_stable_sort_stable [of s "\<lparr>capacity = length (out_workspaces (outs s out)), items = out_workspaces (outs s out)\<rparr>"]
  by (simp add: output_sort_workspaces_def upd_out_def ws_order.stable_sorting_def)

text \<open>C16. \<open>output_sort_workspaces\<close> sorts stably: the same workspaces, in the order of the
  comparator, those it cannot tell apart in the order they had. Other outputs are untouched.\<close>

theorem output_sort_workspaces_stable:
  "mset (out_workspaces (outs (output_sort_workspaces out s) out)) = mset (out_workspaces (outs s out)) \<and>
   sorted_wrt (\<lambda>v w. sort_workspace_cmp_qsort s v w \<le> 0) (out_workspaces (outs (output_sort_workspaces out s) out)) \<and>
   (\<forall>w. let same = (\<lambda>v. sort_workspace_cmp_qsort s w v \<le> 0 \<and> sort_workspace_cmp_qsort s v w \<le> 0) in
      filter same (out_workspaces (outs (output_sort_workspaces out s) out)) = filter same (out_workspaces (outs s out))) \<and>
   outs (output_sort_workspaces out s) = (outs s)(out := outs (output_sort_workspaces out s) out)"
proof -
  have eq: "ws_order.equiv s = (\<lambda>w v. sort_workspace_cmp_qsort s w v \<le> 0 \<and> sort_workspace_cmp_qsort s v w \<le> 0)"
    by (intro ext) (simp add: ws_order.equiv_def)
  show ?thesis
    using ws_order.list_stable_sort_stable [of s "\<lparr>capacity = length (out_workspaces (outs s out)), items = out_workspaces (outs s out)\<rparr>"]
    by (simp add: output_sort_workspaces_def upd_out_def ws_order.stable_sorting_def ws_order.sorted_by_def eq Let_def)
qed

lemma output_sort_sel [simp]:
  "set (out_workspaces (outs (output_sort_workspaces out s) out2)) = set (out_workspaces (outs s out2))"
  "distinct (out_workspaces (outs (output_sort_workspaces out s) out2)) = distinct (out_workspaces (outs s out2))"
  "wss (output_sort_workspaces out s) = wss s" "next_id (output_sort_workspaces out s) = next_id s"
  "cons (output_sort_workspaces out s) = cons s"
proof -
  have "mset (out_workspaces (outs (output_sort_workspaces out s) out2)) = mset (out_workspaces (outs s out2))"
    using output_sort_workspaces_mset [of out s] by (cases "out2 = out") (simp_all add: output_sort_workspaces_def upd_out_def)
  then show "set (out_workspaces (outs (output_sort_workspaces out s) out2)) = set (out_workspaces (outs s out2))"
    "distinct (out_workspaces (outs (output_sort_workspaces out s) out2)) = distinct (out_workspaces (outs s out2))"
    by (metis mset_eq_setD, metis mset_eq_imp_distinct_iff)
qed (simp_all add: output_sort_workspaces_def upd_out_def)

text \<open>
  Names as the code means them: a name that starts with a digit is a number in range, any
  other name has no number (no leading blank or sign). Then a sorted output has its numbered
  workspaces first.
\<close>

definition plain_names :: "sway \<Rightarrow> bool" where
  "plain_names s \<longleftrightarrow> (\<forall>w \<in> set (all_workspaces s). name_digit s w \<longleftrightarrow> 0 \<le> workspace_get_number s w)"

definition all_sorted :: "sway \<Rightarrow> bool" where
  "all_sorted s \<longleftrightarrow> (\<forall>out \<in> set (root_outputs s). sorted_wrt (\<lambda>v w. sort_workspace_cmp_qsort s v w \<le> 0) (out_workspaces (outs s out)))"

lemma sorted_numbered_first:
  assumes "all_sorted s" "plain_names s"
  shows "numbered_first s"
  unfolding numbered_first_def
proof
  fix out assume out: "out \<in> set (root_outputs s)"
  then have "sorted_wrt (\<lambda>v w. sort_workspace_cmp_qsort s v w \<le> 0) (out_workspaces (outs s out))"
    "\<forall>w \<in> set (out_workspaces (outs s out)). name_digit s w \<longleftrightarrow> 0 \<le> workspace_get_number s w"
    using assms by (auto simp: all_sorted_def plain_names_def all_workspaces_def)
  then show "sorted_wrt (\<lambda>v w. 0 \<le> workspace_get_number s w \<longrightarrow> 0 \<le> workspace_get_number s v) (out_workspaces (outs s out))"
    by (elim sorted_wrt_mono_rel [rotated]) (auto simp: sort_workspace_cmp_qsort_def split: if_splits)
qed

text \<open>C18. From a numbered workspace, \<open>workspace_next\<close> goes to the workspace with the least greater
  number on any output, when the outputs are sorted and the names are plain numbers or words.\<close>

theorem workspace_next_nearest:
  assumes "all_sorted s" "plain_names s" "0 \<le> workspace_get_number s w"
    and "v \<in> set (all_workspaces s)" "workspace_get_number s w < workspace_get_number s v"
  shows "\<exists>x \<in> set (all_workspaces s). workspace_next s w = Some x \<and>
     workspace_get_number s w < workspace_get_number s x \<and>
     (\<forall>u \<in> set (all_workspaces s). workspace_get_number s w < workspace_get_number s u \<longrightarrow>
        workspace_get_number s x \<le> workspace_get_number s u)"
  using workspace_next_least [OF assms(3) sorted_numbered_first [OF assms(1,2)] assms(4,5)] .

theorem workspace_next_nearest_witness: "workspace_next two_outputs 30 = Some 32"
proof -
  have "all_sorted two_outputs" "plain_names two_outputs" by code_simp+
  then show ?thesis using workspace_next_nearest [of two_outputs 30 32] by (simp add: sample_numbers)
qed

section \<open>Every workspace is listed by its output\<close>

text \<open>Moreover the slots of ids not yet given to a node hold no workspace.\<close>

definition wf_desk :: "sway \<Rightarrow> bool" where
  "wf_desk s \<longleftrightarrow> (\<forall>out. distinct (out_workspaces (outs s out))) \<and>
     (\<forall>w out. w \<in> set (out_workspaces (outs s out)) \<longleftrightarrow> ws_output (wss s w) = Some out) \<and>
     (\<forall>w. next_id s \<le> w \<longrightarrow> ws_output (wss s w) = None \<and> ws_tiling (wss s w) = [] \<and> ws_floating (wss s w) = [])"

lemma wf_deskD:
  assumes "wf_desk s"
  shows "distinct (out_workspaces (outs s out))" "w \<in> set (out_workspaces (outs s out)) \<longleftrightarrow> ws_output (wss s w) = Some out"
    "next_id s \<le> w \<Longrightarrow> ws_output (wss s w) = None \<and> ws_tiling (wss s w) = [] \<and> ws_floating (wss s w) = []"
    "ws_output (wss s w) = Some out \<Longrightarrow> w < next_id s"
  using assms unfolding wf_desk_def by (blast, blast, blast, metis not_less option.distinct(1))

lemma dirty_sel [simp]:
  "outs (node_set_dirty n s) = outs s" "wss (node_set_dirty n s) = wss s" "next_id (node_set_dirty n s) = next_id s"
  "root_outputs (node_set_dirty n s) = root_outputs s" "cons (node_set_dirty n s) = cons s"
  "fallback_output (node_set_dirty n s) = fallback_output s" "cfg (node_set_dirty n s) = cfg s"
  by (simp_all add: node_set_dirty_def)

lemma workspace_detach_result:
  assumes "wf_desk s" "ws_output (wss s w) = Some out"
  obtains s' where "workspace_detach w s = Some s'" "wf_desk s'" "ws_output (wss s' w) = None"
    "\<And>v. v \<noteq> w \<Longrightarrow> wss s' v = wss s v" "\<And>v. ws_output_priority (wss s' v) = ws_output_priority (wss s v)"
    "outs s' = (outs s)(out := (outs s out)\<lparr>out_workspaces := remove1 w (out_workspaces (outs s out))\<rparr>)"
    "root_outputs s' = root_outputs s" "tree_of s' = tree_of s"
proof -
  obtain s' where s': "workspace_detach w s = Some s'" using assms(2) by (simp add: workspace_detach_def)
  then have eq: "outs s' = (outs s)(out := (outs s out)\<lparr>out_workspaces := remove1 w (out_workspaces (outs s out))\<rparr>)"
    "wss s' = (wss s)(w := (wss s w)\<lparr>ws_output := None\<rparr>)" "next_id s' = next_id s" "root_outputs s' = root_outputs s"
    using assms(2) by (auto simp: workspace_detach_def upd_defs)
  have "wf_desk s'" using assms wf_deskD [OF assms(1)] unfolding wf_desk_def eq
    by (auto simp: set_remove1_eq)
  then show ?thesis using that s' eq tree_of_workspace_detach [OF s'] by simp
qed

lemma out_workspaces_update_eq: "out_workspaces_update f x = x\<lparr>out_workspaces := f (out_workspaces x)\<rparr>"
  by (cases x) simp

lemma attach_workspace:
  assumes "wf_desk s" "ws_output (wss s w) = None" "w < next_id s"
    and "s' = node_set_dirty (N_WORKSPACE w) (node_set_dirty (N_OUTPUT out)
       (upd_ws w (ws_output_update (\<lambda>_. Some out)) (upd_out out (out_workspaces_update (\<lambda>l. l @ [w])) s)))"
  shows "wf_desk s'" "ws_output (wss s' w) = Some out" "tree_of s' = tree_of s"
    "outs s' = (outs s)(out := (outs s out)\<lparr>out_workspaces := out_workspaces (outs s out) @ [w]\<rparr>)"
    "wss s' = (wss s)(w := (wss s w)\<lparr>ws_output := Some out\<rparr>)" "root_outputs s' = root_outputs s"
proof -
  show eq: "outs s' = (outs s)(out := (outs s out)\<lparr>out_workspaces := out_workspaces (outs s out) @ [w]\<rparr>)"
    "wss s' = (wss s)(w := (wss s w)\<lparr>ws_output := Some out\<rparr>)" "root_outputs s' = root_outputs s"
    using assms(4) out_workspaces_update_eq [of "\<lambda>l. l @ [w]" "outs s out"] by (simp_all add: upd_defs)
  have n: "next_id s' = next_id s" using assms(4) by (simp add: upd_defs)
  show "tree_of s' = tree_of s" using assms(4) by (simp add: tree_of_upd_ws)
  show "ws_output (wss s' w) = Some out" by (simp add: eq)
  have "w \<notin> set (out_workspaces (outs s o2))" for o2 using assms(2) wf_deskD(2) [OF assms(1)] by simp
  then show "wf_desk s'" using assms(2,3) wf_deskD [OF assms(1)] unfolding wf_desk_def eq n by auto
qed

text \<open>C20. \<open>output_add_workspace\<close> moves a workspace to the end of an output's list: it leaves the
  list of its old output, points to the new one, and every workspace is still listed by
  exactly the output it points to. The window tree is untouched.\<close>

theorem output_add_workspace_moves:
  assumes "wf_desk s" "w < next_id s"
  shows "\<exists>s'. output_add_workspace out w s = Some s' \<and> wf_desk s' \<and> tree_of s' = tree_of s \<and>
     ws_output (wss s' w) = Some out \<and>
     (\<forall>o2. out_workspaces (outs s' o2) = remove1 w (out_workspaces (outs s o2)) @ (if o2 = out then [w] else []))"
proof (cases "ws_output (wss s w)")
  case None
  then have ni: "remove1 w (out_workspaces (outs s o2)) = out_workspaces (outs s o2)" for o2
    using wf_deskD(2) [OF assms(1), of w o2] by (simp add: remove1_idem)
  have "output_add_workspace out w s = Some (node_set_dirty (N_WORKSPACE w) (node_set_dirty (N_OUTPUT out)
       (upd_ws w (ws_output_update (\<lambda>_. Some out)) (upd_out out (out_workspaces_update (\<lambda>l. l @ [w])) s))))"
    using None by (simp add: output_add_workspace_def Let_def)
  then show ?thesis using attach_workspace [OF assms(1) None assms(2) refl, of out] by (auto simp: ni)
next
  case (Some old)
  obtain s1 where s1: "workspace_detach w s = Some s1" "wf_desk s1" "ws_output (wss s1 w) = None"
      "\<And>v. v \<noteq> w \<Longrightarrow> wss s1 v = wss s v" "\<And>v. ws_output_priority (wss s1 v) = ws_output_priority (wss s v)"
      "outs s1 = (outs s)(old := (outs s old)\<lparr>out_workspaces := remove1 w (out_workspaces (outs s old))\<rparr>)"
      "root_outputs s1 = root_outputs s" "tree_of s1 = tree_of s"
    by (rule workspace_detach_result [OF assms(1) Some]) (rule that; assumption)
  have ni: "remove1 w (out_workspaces (outs s o2)) = out_workspaces (outs s o2)" if "o2 \<noteq> old" for o2
    using that Some wf_deskD(2) [OF assms(1), of w o2] by (simp add: remove1_idem)
  have n: "w < next_id s1" using assms(2) tree_eqD(4) [OF s1(8)] by simp
  have "output_add_workspace out w s = Some (node_set_dirty (N_WORKSPACE w) (node_set_dirty (N_OUTPUT out)
       (upd_ws w (ws_output_update (\<lambda>_. Some out)) (upd_out out (out_workspaces_update (\<lambda>l. l @ [w])) s1))))"
    using Some s1(1) by (simp add: output_add_workspace_def Let_def)
  then show ?thesis using attach_workspace [OF s1(2,3) n refl, of out] s1(6,8) by (auto simp: ni)
qed

lemma tree_of_output_sort [simp, tree_frame]: "tree_of (output_sort_workspaces out s) = tree_of s"
  by (simp add: output_sort_workspaces_def)

lemma wf_desk_sort [simp]: "wf_desk (output_sort_workspaces out s) = wf_desk s"
  by (simp add: wf_desk_def)

lemma wf_desk_cong:
  assumes "outs s' = outs s" "wss s' = wss s" "next_id s' = next_id s"
  shows "wf_desk s' = wf_desk s"
  by (simp add: wf_desk_def assms)

lemma new_node_sel [simp]:
  "outs (new_node n s) = outs s" "wss (new_node n s) = wss s" "next_id (new_node n s) = next_id s"
  "root_outputs (new_node n s) = root_outputs s"
proof -
  have "outs (fold (\<lambda>i. seat_node_from_node i n) L s) = outs s \<and> wss (fold (\<lambda>i. seat_node_from_node i n) L s) = wss s \<and>
     next_id (fold (\<lambda>i. seat_node_from_node i n) L s) = next_id s \<and>
     root_outputs (fold (\<lambda>i. seat_node_from_node i n) L s) = root_outputs s" for L
    by (induction L arbitrary: s) (simp_all add: seat_node_from_node_def upd_seat_def split: sway_node.split)
  then show "outs (new_node n s) = outs s" "wss (new_node n s) = wss s" "next_id (new_node n s) = next_id s"
    "root_outputs (new_node n s) = root_outputs s" by (simp_all add: new_node_def)
qed

lemma wf_desk_new_node [simp]: "wf_desk (new_node n s) = wf_desk s"
  by (intro wf_desk_cong) simp_all

text \<open>C17. A new workspace gets a fresh id and is listed by the output it was made for; every other
  workspace keeps its output, and the window tree stays well-formed.\<close>

theorem workspace_create_listed:
  assumes "wf_desk s" "wf_sway s"
  shows "\<exists>s'. workspace_create (Some out) name s = Some (next_id s, s') \<and> wf_desk s' \<and> wf_sway s' \<and>
     ws_name (wss s' (next_id s)) = name \<and> ws_output (wss s' (next_id s)) = Some out \<and>
     (\<forall>w. w \<noteq> next_id s \<longrightarrow> ws_output (wss s' w) = ws_output (wss s w))"
proof -
  define w where "w = next_id s"
  define s1 where "s1 = snd (node_init s)"
  define ws where "ws = configured_gaps (cfg s1) (workspace_find_config s1 name)
     (zero_workspace\<lparr>ws_name := name, ws_prev_split_layout := L_NONE,
        ws_layout := output_get_default_layout s1 out, ws_scroll_follow_focus := True\<rparr>)"
  define s2 where "s2 = workspace_output_add_priority w out (upd_ws w (\<lambda>_. ws) s1)"
  have ws: "ws_name ws = name" "ws_output ws = None" "ws_tiling ws = []" "ws_floating ws = []"
    by (simp_all add: ws_def configured_gaps_def Let_def zero_workspace_def split: option.split)
  have no: "ws_output (wss s w) = None" "ws_tiling (wss s w) = []" "ws_floating (wss s w) = []"
    using wf_deskD(3) [OF assms(1), of w] by (simp_all add: w_def)
  have wss2: "ws_name (wss s2 w) = name" "ws_output (wss s2 v) = ws_output (wss s v)" "outs s2 = outs s"
    "next_id s2 = next_id s + 1" "ws_tiling (wss s2 v) = ws_tiling (wss s v)" "ws_floating (wss s2 v) = ws_floating (wss s v)" for v
    using ws no by (simp_all add: s2_def s1_def workspace_output_add_priority_def upd_defs node_init_def)
  have d2: "wf_desk s2" using assms(1) unfolding wf_desk_def wss2 by auto
  have "cons s2 = (cons s)(w := empty_slot)"
    by (simp add: s2_def s1_def workspace_output_add_priority_def upd_defs node_init_def w_def)
  then have t2: "tree_of s2 = t_create False (tree_of s)"
    by (auto simp: tree_of_def t_create_def Let_def wss2 w_def empty_slot_def zero_defs fun_eq_iff)
  obtain s3 where s3: "output_add_workspace out w s2 = Some s3" "wf_desk s3" "tree_of s3 = tree_of s2"
    "ws_output (wss s3 w) = Some out"
    "\<And>o2. out_workspaces (outs s3 o2) = remove1 w (out_workspaces (outs s2 o2)) @ (if o2 = out then [w] else [])"
    using output_add_workspace_moves [OF d2, of w out] wss2(4) by (auto simp: w_def)
  have wf3: "wf_sway s3" unfolding s3(3) t2 by (rule wf_tree_create [OF assms(2)])
  have op: "workspace_create (Some out) name s = Some (w, new_node (N_WORKSPACE w) (output_sort_workspaces out s3))"
    using s3(1) by (simp add: workspace_create_def Let_def s1_def s2_def ws_def w_def node_init_def)
  have nm: "ws_name (wss s3 w) = name"
    using s3(1) wss2(1) no(1) wss2(2) [of w] by (auto simp: output_add_workspace_def Let_def upd_defs)
  have old: "ws_output (wss s3 v) = ws_output (wss s v)" if "v \<noteq> w" for v
    using s3(1) that no(1) wss2(2) [of v] wss2(2) [of w] by (auto simp: output_add_workspace_def Let_def upd_defs)
  show ?thesis unfolding w_def [symmetric]
    using op s3(2,4) wf3 nm old by simp
qed

section \<open>A new output takes over workspaces\<close>

lemma highest_available_cong:
  assumes "\<And>v. ws_output_priority (wss s' v) = ws_output_priority (wss s v)" "root_outputs s' = root_outputs s"
    and "\<And>out. output_get_identifier (outs s' out) = output_get_identifier (outs s out)" "\<And>out. out_name (outs s' out) = out_name (outs s out)"
  shows "workspace_output_get_highest_available s' w = workspace_output_get_highest_available s w"
proof -
  have "output_by_name_or_id s' = output_by_name_or_id s"
    using assms by (intro ext) (simp add: output_by_name_or_id_def output_match_name_or_id_def)
  then show ?thesis using assms by (simp add: workspace_output_get_highest_available_def)
qed

lemma take_preferring_partition:
  assumes "wf_desk s" "out \<noteq> other" "out_workspaces (outs s other) = pre @ rest" "j = length pre" "n = length rest"
  shows "\<exists>s'. take_preferring n out other j s = Some s' \<and> wf_desk s' \<and> tree_of s' = tree_of s \<and>
     out_workspaces (outs s' other) = pre @ filter (\<lambda>w. workspace_output_get_highest_available s w \<noteq> Some out) rest \<and>
     out_workspaces (outs s' out) = out_workspaces (outs s out) @ filter (\<lambda>w. workspace_output_get_highest_available s w = Some out) rest"
  using assms
proof (induction rest arbitrary: s pre j n)
  case Nil
  then show ?case by simp
next
  case (Cons w rest)
  show ?case
  proof (cases "workspace_output_get_highest_available s w = Some out")
    case False
    have "\<exists>s'. take_preferring (length rest) out other (length (pre @ [w])) s = Some s' \<and> wf_desk s' \<and> tree_of s' = tree_of s \<and>
       out_workspaces (outs s' other) = (pre @ [w]) @ filter (\<lambda>w. workspace_output_get_highest_available s w \<noteq> Some out) rest \<and>
       out_workspaces (outs s' out) = out_workspaces (outs s out) @ filter (\<lambda>w. workspace_output_get_highest_available s w = Some out) rest"
      using Cons.prems by (intro Cons.IH) auto
    then show ?thesis using Cons.prems False by (simp add: nth_append)
  next
    case True
    have o: "ws_output (wss s w) = Some other" using wf_deskD(2) [OF Cons.prems(1), of w other] Cons.prems(3) by simp
    obtain s1 where s1: "workspace_detach w s = Some s1" "wf_desk s1" "ws_output (wss s1 w) = None"
      "\<And>v. v \<noteq> w \<Longrightarrow> wss s1 v = wss s v" "\<And>v. ws_output_priority (wss s1 v) = ws_output_priority (wss s v)"
      "outs s1 = (outs s)(other := (outs s other)\<lparr>out_workspaces := remove1 w (out_workspaces (outs s other))\<rparr>)"
      "root_outputs s1 = root_outputs s" "tree_of s1 = tree_of s"
      by (rule workspace_detach_result [OF Cons.prems(1) o]) (rule that; assumption)
    define s2 where "s2 = node_set_dirty (N_WORKSPACE w) (node_set_dirty (N_OUTPUT out)
       (upd_ws w (ws_output_update (\<lambda>_. Some out)) (upd_out out (out_workspaces_update (\<lambda>l. l @ [w])) s1)))"
    have op2: "output_add_workspace out w s1 = Some s2" using s1(3) by (simp add: output_add_workspace_def Let_def s2_def)
    have n1: "w < next_id s1" using wf_deskD(4) [OF Cons.prems(1) o] tree_eqD(4) [OF s1(8)] by simp
    note a = attach_workspace [OF s1(2,3) n1 s2_def]
    have "distinct (pre @ w # rest)" using wf_deskD(1) [OF Cons.prems(1), of other] Cons.prems(3) by simp
    then have l2: "out_workspaces (outs s2 other) = pre @ rest" "out_workspaces (outs s2 out) = out_workspaces (outs s out) @ [w]"
      using a(4) s1(6) Cons.prems(2,3) by (simp_all add: remove1_append)
    have h: "workspace_output_get_highest_available s2 v = workspace_output_get_highest_available s v" for v
      using a(4,5,6) s1(5-7) by (intro highest_available_cong) (simp_all add: output_get_identifier_def)
    have "\<exists>s'. take_preferring (length rest) out other (length pre) s2 = Some s' \<and> wf_desk s' \<and> tree_of s' = tree_of s2 \<and>
       out_workspaces (outs s' other) = pre @ filter (\<lambda>w. workspace_output_get_highest_available s2 w \<noteq> Some out) rest \<and>
       out_workspaces (outs s' out) = out_workspaces (outs s2 out) @ filter (\<lambda>w. workspace_output_get_highest_available s2 w = Some out) rest"
      using Cons.prems(2) l2(1) a(1) by (intro Cons.IH) auto
    then show ?thesis using True Cons.prems(3-5) s1(1,8) op2 a(3) l2 h by (simp add: nth_append)
  qed
qed

text \<open>C19. When an output is enabled, every other output hands over exactly the workspaces whose
  highest available output is the new one, in their order; the loop, which takes workspaces out
  of the list it walks over, terminates and skips none.\<close>

theorem take_preferring_hands_over:
  assumes "wf_desk s" "out \<noteq> other"
  shows "\<exists>s'. take_preferring (length (out_workspaces (outs s other))) out other 0 s = Some s' \<and>
     wf_desk s' \<and> tree_of s' = tree_of s \<and>
     out_workspaces (outs s' other) =
       filter (\<lambda>w. workspace_output_get_highest_available s w \<noteq> Some out) (out_workspaces (outs s other)) \<and>
     out_workspaces (outs s' out) = out_workspaces (outs s out) @
       filter (\<lambda>w. workspace_output_get_highest_available s w = Some out) (out_workspaces (outs s other))"
  using take_preferring_partition [OF assms, of "[]" "out_workspaces (outs s other)" 0] by simp

section \<open>Output priorities\<close>

lemma seq_find_nonneg: "(0 \<le> seq_find P xs k) = (\<exists>x \<in> set xs. P x)" if "0 \<le> k"
  using that by (induction xs arbitrary: k) auto

lemma seq_find_neg: "seq_find P xs k < 0 \<Longrightarrow> 0 \<le> k \<Longrightarrow> seq_find P xs k = - 1"
  by (induction xs arbitrary: k) (auto split: if_splits)

text \<open>C21. An output has a priority on a workspace only if its identifier is in the list: an entry
  that is the output's name (as \<open>workspace \<dots> output \<dots>\<close> of the configuration gives it) is not
  found on its own, since the comparison with the absent identifier's -1 wins.\<close>

theorem workspace_output_get_priority_by_identifier:
  "0 \<le> workspace_output_get_priority s w out \<longleftrightarrow> output_get_identifier (outs s out) \<in> set (ws_output_priority (wss s w))"
proof -
  have "0 \<le> seq_find (\<lambda>x. strcmp x (output_get_identifier (outs s out)) = 0) (ws_output_priority (wss s w)) 0 \<longleftrightarrow>
     output_get_identifier (outs s out) \<in> set (ws_output_priority (wss s w))"
    by (simp add: seq_find_nonneg)
  then show ?thesis by (auto simp: workspace_output_get_priority_def Let_def)
qed

section \<open>The window tree\<close>

context refocus begin

lemma okop_workspace_switch: "okop X s (workspace_switch sf w s)"
  unfolding workspace_switch_def Let_def by (intro okop) simp_all

lemma okop_detect_urgent: "okop X s m \<Longrightarrow> okop X s (map_option (workspace_detect_urgent w) m)"
  by (rule okop_map) simp_all

lemma okop_evacuate_floaters: "okop UNIV s (evacuate_floaters n sf old_ws new_ws s)"
proof (induction n arbitrary: s)
  case (Suc n)
  show ?case
  proof (cases "ws_floating (wss s old_ws)")
    case (Cons f fs)
    have "okop UNIV s (container_detach f s \<bind> (\<lambda>u. workspace_add_floating sf new_ws f u
            \<bind> container_handle_fullscreen_reparent sf f \<bind> container_floating_move_to_center f
            \<bind> evacuate_floaters n sf old_ws new_ws))"
    proof (rule okop_bind [OF okop_detach])
      fix u assume u: "wf_sway s" "container_detach f s = Some u"
      have "workspace_of s f = Some old_ws" using wf_treeD(6) [OF u(1), of f old_ws] Cons by simp
      then have l: "loose u f" using loose_detach [OF u placed_less [OF u(1)]] by simp
      show "okop UNIV u (workspace_add_floating sf new_ws f u
            \<bind> container_handle_fullscreen_reparent sf f \<bind> container_floating_move_to_center f
            \<bind> evacuate_floaters n sf old_ws new_ws)"
        by (intro okop_bind okop_add_floating_to okop_reparent okop_frames Suc.IH) (simp_all add: loose_ready l)
    qed
    then show ?thesis using Cons by (simp add: bind_assoc)
  qed (simp add: okop_self)
qed (simp add: okop_None okop_self)

end

lemma tree_of_output_add_workspace [tree_frame]:
  "output_add_workspace out w s = Some s' \<Longrightarrow> tree_of s' = tree_of s"
  by (auto simp: output_add_workspace_def Let_def tree_of_upd_ws tree_of_workspace_detach split: if_splits bind_splits)

lemma tree_of_root_outputs [simp, tree_frame]: "tree_of (s\<lparr>root_outputs := l\<rparr>) = tree_of s"
  by (simp add: tree_of_def kids_def)

lemma tree_of_add_priority [simp, tree_frame]: "tree_of (workspace_output_add_priority w out s) = tree_of s"
  by (simp add: workspace_output_add_priority_def tree_of_upd_ws)

context refocus begin

lemma okop_begin_destroy_workspace [okop]:
  assumes "tree_of u = tree_of s" shows "okop X s (workspace_begin_destroy sf w u)"
  by (rule okop_moves_from [OF workspace_begin_destroy_moves assms])

lemma okop_output_add [okop]:
  assumes "tree_of u = tree_of s" shows "okop X s (output_add_workspace out w u)"
  using assms by (auto intro!: okop_frame_from simp: tree_of_output_add_workspace)

lemma okop_workspace_detach [okop]:
  assumes "tree_of u = tree_of s" shows "okop X s (workspace_detach w u)"
  using assms by (auto intro!: okop_frame_from simp: tree_of_workspace_detach)

lemma okop_move_workspace [okop]: "okop X s (move_workspace sf w out v s)"
  unfolding move_workspace_def Let_def by (intro okop) simp_all

lemma okop_evacuate_sticky [okop]: "okop UNIV s (evacuate_sticky sf w out s)"
  unfolding evacuate_sticky_def by (intro okop okop_detect_urgent okop_evacuate_floaters) simp_all

lemma okop_evacuate_workspace: "okop UNIV s (evacuate_workspace sf w fallback s)"
  unfolding evacuate_workspace_def Let_def by (intro okop) simp_all

lemma okop_evacuate_loop: "okop UNIV s (evacuate_loop n sf out fallback s)"
proof (induction n arbitrary: s)
  case (Suc n)
  then show ?case
    by (auto simp: bind_assoc split: list.split intro!: okop_bind okop_workspace_detach okop_evacuate_workspace okop_self)
qed (simp add: okop)

text \<open>Disabling an output moves floating containers between workspaces and destroys workspaces.\<close>

lemma okop_output_disable: "okop UNIV s (output_disable sf out s)"
  unfolding output_disable_def output_evacuate_def Let_def
  by (intro okop okop_shape [OF okop_evacuate_loop]) simp_all

lemma okop_output_begin_destroy: "okop X s (output_begin_destroy sf out s)"
  unfolding output_begin_destroy_def by (intro okop) simp_all

end

text \<open>Enabling an output creates workspaces, whose fresh slots must be empty.\<close>

definition free_slots :: "tree \<Rightarrow> bool" where
  "free_slots t \<longleftrightarrow> wf_tree t \<and> (\<forall>w. t_next t \<le> w \<longrightarrow> t_tiling t w = [] \<and> t_floating t w = [])"

lemma free_slots_create: "free_slots t \<Longrightarrow> free_slots (t_create False t)"
  unfolding free_slots_def by (simp add: wf_tree_create) (simp add: t_create_def Let_def)

lemma configured_gaps_lists [simp]:
  "ws_tiling (configured_gaps c wsc v) = ws_tiling v" "ws_floating (configured_gaps c wsc v) = ws_floating v"
  by (simp_all add: configured_gaps_def Let_def split: option.split)

lemma tree_of_workspace_create:
  assumes "free_slots (tree_of s)" "workspace_create out name s = Some (w, s')"
  shows "tree_of s' = t_create False (tree_of s) \<and> w = next_id s"
proof -
  have e: "ws_tiling (wss s (next_id s)) = []" "ws_floating (wss s (next_id s)) = []"
    using assms(1) by (simp_all add: free_slots_def)
  define ws where "ws o1 = configured_gaps (cfg (snd (node_init s))) (workspace_find_config (snd (node_init s)) name)
     (zero_workspace\<lparr>ws_name := name, ws_prev_split_layout := L_NONE,
        ws_layout := output_get_default_layout (snd (node_init s)) o1, ws_scroll_follow_focus := True\<rparr>)" for o1
  have ws: "ws_tiling (ws o1) = []" "ws_floating (ws o1) = []" for o1 by (simp_all add: ws_def zero_workspace_def)
  have ni: "node_init s = (next_id s, snd (node_init s))" by (simp add: node_init_def)
  have "(case out of Some o1 \<Rightarrow> Some o1 | None \<Rightarrow> workspace_get_initial_output s name) \<bind> (\<lambda>o1.
      output_add_workspace o1 (next_id s) (workspace_output_add_priority (next_id s) o1
        (upd_ws (next_id s) (\<lambda>_. ws o1) (snd (node_init s)))) \<bind> (\<lambda>s3.
      Some (next_id s, new_node (N_WORKSPACE (next_id s)) (output_sort_workspaces o1 s3)))) = Some (w, s')"
    using assms(2) unfolding workspace_create_def Let_def ws_def by (subst (asm) ni) simp
  then obtain o1 s3 where s3: "output_add_workspace o1 (next_id s) (workspace_output_add_priority (next_id s) o1
        (upd_ws (next_id s) (\<lambda>_. ws o1) (snd (node_init s)))) = Some s3"
    and s': "w = next_id s" "s' = new_node (N_WORKSPACE w) (output_sort_workspaces o1 s3)"
    unfolding bind_eq_Some_conv by (metis option.inject prod.inject)
  have "tree_of s3 = tree_of (upd_ws (next_id s) (\<lambda>_. ws o1) (snd (node_init s)))"
    using tree_of_output_add_workspace [OF s3] by simp
  also have "\<dots> = t_create False (tree_of s)"
    using e ws by (auto simp: tree_of_def t_create_def Let_def node_init_def upd_defs empty_slot_def zero_defs fun_eq_iff)
  finally show ?thesis using s' by simp
qed

lemma take_preferring_tree: "take_preferring n out other j s = Some s' \<Longrightarrow> tree_of s' = tree_of s"
  by (induction n arbitrary: j s)
    (auto simp: Let_def tree_of_workspace_detach tree_of_output_add_workspace split: if_splits bind_splits)

lemma restore_from_free:
  "free_slots (tree_of s) \<Longrightarrow> restore_from out others s = Some s' \<Longrightarrow> free_slots (tree_of s')"
proof (induction others arbitrary: s)
  case (Cons other others)
  have refill: "free_slots (tree_of u')" if "free_slots (tree_of u)" "refill_output other u = Some u'" for u u'
    using that tree_of_workspace_create [OF that(1)] free_slots_create
    by (auto simp: refill_output_def split: if_splits bind_splits)
  show ?case
  proof (cases "other = out")
    case False
    then obtain u v where u: "take_preferring (length (out_workspaces (outs s other))) out other 0 s = Some u"
      and v: "refill_output other u = Some v" and s': "restore_from out others v = Some s'"
      using Cons.prems(2) by (auto split: bind_splits)
    have "free_slots (tree_of u)" using Cons.prems(1) take_preferring_tree [OF u] by simp
    then show ?thesis by (rule Cons.IH [OF refill [OF _ v] s'])
  qed (use Cons in simp)
qed simp

lemma refit_floaters_tree: "refit_floaters out fs s = Some s' \<Longrightarrow> tree_of s' = tree_of s"
  by (induction fs arbitrary: s) (auto simp: tree_frame split: if_splits bind_splits)

lemma take_saved_tree: "take_saved n out s = Some s' \<Longrightarrow> tree_of s' = tree_of s"
  by (induction n arbitrary: s)
    (auto simp: tree_of_workspace_detach tree_of_output_add_workspace refit_floaters_tree split: if_splits list.splits bind_splits)

context refocus begin

lemma output_enable_wf:
  assumes "free_slots (tree_of s)" "output_enable sf out s = Some s'"
  shows "wf_sway s'"
proof (cases "out_enabled (outs s out)")
  case True
  then show ?thesis using assms by (auto simp: output_enable_def free_slots_def)
next
  case False
  define s2 where "s2 = (upd_out out (out_enabled_update (\<lambda>_. True)) s)
     \<lparr>root_outputs := root_outputs (upd_out out (out_enabled_update (\<lambda>_. True)) s) @ [out]\<rparr>"
  have t2: "tree_of s2 = tree_of s" by (simp add: s2_def)
  obtain s3 s4 where s3: "restore_workspaces out s2 = Some s3" and s': "s' = new_node (N_OUTPUT out) s4"
    and s4: "(if out_workspaces (outs s3 out) = [] then create_default_workspace sf out s3 else Some s3) = Some s4"
    using assms(2) False unfolding output_enable_def Let_def s2_def [symmetric] by (auto simp del: if_split split: bind_splits)
  have f3: "free_slots (tree_of s3)"
    using s3 restore_from_free [of s2 out "root_outputs s2"] assms(1)
    by (auto simp: restore_workspaces_def t2 take_saved_tree split: bind_splits)
  have "wf_sway s4"
  proof (cases "out_workspaces (outs s3 out) = []")
    case False
    then show ?thesis using s4 f3 by (simp add: free_slots_def)
  next
    case True
    then obtain name w u v where u: "workspace_create (Some out) name s3 = Some (w, u)"
      and v: "for_seats (focus_if_unfocused sf w) (seat_ids u) u = Some v" and t4: "tree_of s4 = tree_of v"
      using s4 by (auto simp: create_default_workspace_def tree_of_upd_ws split: bind_splits)
    have "wf_sway u" using tree_of_workspace_create [OF f3 u] free_slots_create [OF f3] by (simp add: free_slots_def)
    moreover have "okop UNIV u (for_seats (focus_if_unfocused sf w) (seat_ids u) u)"
      unfolding focus_if_unfocused_def by (intro okop) simp_all
    ultimately show ?thesis unfolding t4 using okop_wf v by simp
  qed
  then show ?thesis by (simp add: s')
qed

end

section \<open>Witnesses\<close>

lemma wf_two_outputs: "wf_desk two_outputs" "wf_sway two_outputs"
proof -
  show "wf_desk two_outputs"
    by (auto simp: wf_desk_def two_outputs_def sample_ws_def sway0_def initial_sway_def zero_workspace_def zero_output_def)
  have "tree_of two_outputs = tree_of (sway0\<lparr>next_id := 40\<rparr>)"
    by (auto simp: tree_of_def two_outputs_def sample_ws_def sway0_def initial_sway_def zero_workspace_def fun_eq_iff)
  then show "wf_sway two_outputs" using wf_sway0 [of 40] by simp
qed

theorem output_add_workspace_moves_witness:
  "\<exists>s'. output_add_workspace 21 30 two_outputs = Some s' \<and> out_workspaces (outs s' 21) = [32, 30] \<and>
     out_workspaces (outs s' 20) = [31]"
proof -
  have h: "30 < next_id two_outputs" "out_workspaces (outs two_outputs 20) = [30, 31]" "out_workspaces (outs two_outputs 21) = [32]"
    by code_simp+
  show ?thesis using output_add_workspace_moves [OF wf_two_outputs(1) h(1), of 21] h(2,3) by auto
qed

theorem workspace_create_listed_witness:
  "\<exists>s'. workspace_create (Some 21) ''mail'' two_outputs = Some (40, s') \<and> wf_desk s' \<and> ws_output (wss s' 40) = Some 21"
proof -
  have "next_id two_outputs = 40" by code_simp
  then show ?thesis using workspace_create_listed [OF wf_two_outputs, of 21 "''mail''"] by auto
qed

theorem take_preferring_hands_over_witness:
  "\<exists>s'. take_preferring 2 21 20 0 two_outputs = Some s' \<and> out_workspaces (outs s' 20) = [30] \<and>
     out_workspaces (outs s' 21) = [32, 31]"
proof -
  have h: "out_workspaces (outs two_outputs 20) = [30, 31]" "out_workspaces (outs two_outputs 21) = [32]"
    "workspace_output_get_highest_available two_outputs 30 = Some 20"
    "workspace_output_get_highest_available two_outputs 31 = Some 21" by code_simp+
  show ?thesis using take_preferring_hands_over [OF wf_two_outputs(1), of 21 20] h by (auto simp: eval_nat_numeral simp del: take_preferring.simps)
qed

end
