(* ===== verification/Tree_System.thy ===== *)
theory Tree_System
  imports Output_Laws
begin

text \<open>
  The operations of the window tree as a transition system: \<open>tree_step n\<close> is one call of an
  operation with the preconditions of its callers, \<open>n\<close> the number of nested focus changes
  allowed to it, \<open>reachable n\<close> the states that calls lead to from the start. Every reachable
  state has a well-formed tree.
\<close>

section \<open>The steps\<close>

text \<open>
  One call of an operation. A container may be attached when it has left its old list
  (\<open>loose_or_placed\<close>), and not to itself or one of its descendants.
\<close>

definition may_attach :: "sway \<Rightarrow> nat \<Rightarrow> nat \<Rightarrow> bool" where
  "may_attach s c q \<longleftrightarrow> loose_or_placed s c \<and> c < next_id s \<and> q \<noteq> c \<and> \<not> container_has_ancestor s (Some q) c"

text \<open>Slots of workspaces that do not exist yet hold no containers (the memory is fresh).\<close>

definition slots_unused :: "sway \<Rightarrow> bool" where
  "slots_unused s \<longleftrightarrow> (\<forall>w. next_id s \<le> w \<longrightarrow> ws_tiling (wss s w) = [] \<and> ws_floating (wss s w) = [])"

inductive tree_step :: "nat \<Rightarrow> sway \<Rightarrow> sway \<Rightarrow> bool" for n where
  step_create: "tree_step n s (snd (container_create v s))"
| step_focus: "seat_set_focus n i node s = Some s' \<Longrightarrow> tree_step n s s'"
| step_urgent: "view_set_urgent c b s = Some s' \<Longrightarrow> tree_step n s s'"
| step_arrange: "arrange_workspace w s = Some s' \<Longrightarrow> tree_step n s s'"
| step_fullscreen: "container_set_fullscreen (seat_set_focus n) c mode s = Some s' \<Longrightarrow> tree_step n s s'"
| step_destroy: "container_begin_destroy (seat_set_focus n) c s = Some s' \<Longrightarrow> tree_step n s s'"
| step_reap: "container_reap_empty (seat_set_focus n) c s = Some s' \<Longrightarrow> tree_step n s s'"
| step_consider: "workspace_consider_destroy (seat_set_focus n) w s = Some s' \<Longrightarrow> tree_step n s s'"
| step_detach: "container_detach c s = Some s' \<Longrightarrow> tree_step n s s'"
| step_insert_child: "may_attach s c p \<Longrightarrow> p < next_id s \<Longrightarrow>
    container_insert_child (seat_set_focus n) p c i s = Some s' \<Longrightarrow> tree_step n s s'"
| step_add_child: "may_attach s c p \<Longrightarrow> p < next_id s \<Longrightarrow>
    container_add_child (seat_set_focus n) p c s = Some s' \<Longrightarrow> tree_step n s s'"
| step_add_sibling: "may_attach s c f \<Longrightarrow>
    container_add_sibling (seat_set_focus n) f c after s = Some s' \<Longrightarrow> tree_step n s s'"
| step_add_tiling: "loose_or_placed s c \<Longrightarrow> c < next_id s \<Longrightarrow>
    (\<And>s1. leave_place (seat_set_focus n) c s = Some s1 \<Longrightarrow> tiling_ready s1 c) \<Longrightarrow>
    workspace_add_tiling (seat_set_focus n) w c s = Some (k, s') \<Longrightarrow> tree_step n s s'"
| step_insert_tiling: "loose_or_placed s c \<Longrightarrow> c < next_id s \<Longrightarrow>
    (\<And>s1. detach_if_placed c s = Some s1 \<Longrightarrow> tiling_ready s1 c) \<Longrightarrow>
    workspace_insert_tiling (seat_set_focus n) w c i s = Some (k, s') \<Longrightarrow> tree_step n s s'"
| step_add_floating: "loose_or_placed s c \<Longrightarrow> c < next_id s \<Longrightarrow>
    workspace_add_floating (seat_set_focus n) w c s = Some s' \<Longrightarrow> tree_step n s s'"
| step_floating: "container_set_floating (seat_set_focus n) c b s = Some s' \<Longrightarrow> tree_step n s s'"
| step_maximized: "maximize_target c s < next_id s \<Longrightarrow>
    container_set_maximized (seat_set_focus n) c b s = Some s' \<Longrightarrow> tree_step n s s'"
| step_raise: "tree_step n s (container_raise_floating c s)"
| step_split: "c < next_id s \<Longrightarrow> container_split (seat_set_focus n) c l s = Some (k, s') \<Longrightarrow> tree_step n s s'"
| step_workspace_split: "workspace_split (seat_set_focus n) w l s = Some (k', s') \<Longrightarrow> tree_step n s s'"
| step_scratchpad_add: "root_scratchpad_add_container (seat_set_focus n) c ws s = Some s' \<Longrightarrow> tree_step n s s'"
| step_scratchpad_remove: "tree_step n s (root_scratchpad_remove_container c s)"
| step_scratchpad_show: "c < next_id s \<Longrightarrow> root_scratchpad_show (seat_set_focus n) c s = Some s' \<Longrightarrow> tree_step n s s'"
| step_scratchpad_hide: "root_scratchpad_hide (seat_set_focus n) c s = Some s' \<Longrightarrow> tree_step n s s'"
| step_workspace_create: "slots_unused s \<Longrightarrow> workspace_create out name s = Some (w, s') \<Longrightarrow> tree_step n s s'"
| step_workspace_switch: "workspace_switch (seat_set_focus n) w s = Some s' \<Longrightarrow> tree_step n s s'"
| step_output_create: "slots_unused s \<Longrightarrow> tree_step n s (snd (output_create hardware s))"
| step_output_enable: "slots_unused s \<Longrightarrow> output_enable (seat_set_focus n) out s = Some s' \<Longrightarrow> tree_step n s s'"
| step_output_disable: "output_disable (seat_set_focus n) out s = Some s' \<Longrightarrow> tree_step n s s'"
| step_output_destroy: "output_begin_destroy (seat_set_focus n) out s = Some s' \<Longrightarrow> tree_step n s s'"

inductive reachable :: "nat \<Rightarrow> sway \<Rightarrow> bool" for n where
  reach_start: "reachable n (initial_sway config e)"
| reach_step: "reachable n s \<Longrightarrow> tree_step n s s' \<Longrightarrow> reachable n s'"

inductive_cases tree_stepE: "tree_step n s s'"

lemma may_attachD:
  assumes "wf_sway s" "may_attach s c q"
  shows "loose_or_placed s c" "c < next_id s" "q \<noteq> c" "q \<notin> below (tree_of s) c"
  using assms set_ancestors [OF assms(1), of c q] by (auto simp: may_attach_def container_has_ancestor_def)

lemma okop_result: "r = Some s' \<Longrightarrow> okop UNIV s r \<Longrightarrow> wf_sway s \<Longrightarrow> wf_sway s'"
  by (simp add: okop_def tends_def)

lemma tree_step_wf:
  assumes "tree_step n s s'" "wf_sway s"
  shows "wf_sway s'"
  using assms
proof cases
  case (step_create v)
  then show ?thesis using wf_create [OF assms(2)] by simp
next
  case (step_urgent c b)
  then show ?thesis using assms(2) by (simp add: tree_of_view_set_urgent)
next
  case (step_insert_child c p i)
  note a = may_attachD [OF assms(2) step_insert_child(1)]
  show ?thesis
    by (rule okop_result [OF step_insert_child(3) okop_mono [OF focus.okop_insert_child] assms(2)])
      (use a step_insert_child(2) in auto)
next
  case (step_add_child c p)
  note a = may_attachD [OF assms(2) step_add_child(1)]
  show ?thesis
    by (rule okop_result [OF step_add_child(3) okop_mono [OF focus.okop_add_child] assms(2)])
      (use a step_add_child(2) in auto)
next
  case (step_add_sibling c f after)
  note a = may_attachD [OF assms(2) step_add_sibling(1)]
  show ?thesis
    by (rule okop_result [OF step_add_sibling(2) okop_mono [OF focus.okop_add_sibling] assms(2)]) (use a in auto)
next
  case (step_add_tiling c w k)
  show ?thesis
    by (rule okop_result [OF _ focus.okop_add_tiling [OF step_add_tiling(1-3)] assms(2)])
      (use step_add_tiling(4) in auto)
next
  case (step_insert_tiling c w i k)
  show ?thesis
    by (rule okop_result [OF _ focus.okop_insert_tiling [OF step_insert_tiling(1-3)] assms(2)])
      (use step_insert_tiling(4) in auto)
next
  case (step_maximized c b)
  show ?thesis by (rule okop_result [OF step_maximized(2) focus.okop_set_maximized [OF step_maximized(1)] assms(2)])
next
  case (step_split c l k)
  then show ?thesis using focus.container_split_result [OF assms(2) step_split] by (simp add: tends_def)
next
  case (step_workspace_split w l k)
  show ?thesis
    by (rule okop_result [OF _ focus.okop_workspace_split assms(2)]) (use step_workspace_split in auto)
next
  case (step_raise c)
  then show ?thesis using floaters_move_wf [OF raise_floating_moves [OF assms(2), of c]] by simp
next
  case (step_scratchpad_remove c)
  then show ?thesis using assms(2) by simp
next
  case step_floating
  then show ?thesis by (rule okop_result [OF _ focus.okop_set_floating assms(2)])
next
  case (step_workspace_create out name w)
  then have "free_slots (tree_of s)" using assms(2) by (simp add: free_slots_def slots_unused_def)
  from tree_of_workspace_create [OF this step_workspace_create(2)] wf_tree_create [OF assms(2)] show ?thesis by simp
next
  case (step_output_create hardware)
  have "tree_of (snd (output_create hardware s)) = t_create False (tree_of s)"
    by (auto simp: output_create_def node_init_def upd_out_def tree_of_def t_create_def Let_def empty_slot_def zero_defs fun_eq_iff)
  then show ?thesis using wf_tree_create [OF assms(2)] step_output_create by simp
next
  case (step_output_enable out)
  then have "free_slots (tree_of s)" using assms(2) by (simp add: free_slots_def slots_unused_def)
  then show ?thesis using focus.output_enable_wf step_output_enable(2) by blast
next
  case (step_workspace_switch w)
  then show ?thesis by (rule okop_result [OF _ focus.okop_workspace_switch assms(2)])
next
  case (step_output_disable out)
  then show ?thesis by (rule okop_result [OF _ focus.okop_output_disable assms(2)])
next
  case (step_output_destroy out)
  then show ?thesis by (rule okop_result [OF _ focus.okop_output_begin_destroy assms(2)])
qed (rule okop_result [OF _ _ assms(2)], assumption, intro okop; simp)+


text \<open>A run: an output (node 3), a workspace (4), a window (5) tiled on it and made fullscreen.\<close>

definition run_output :: sway where
  "run_output = snd (output_create (zero_output\<lparr>out_name := ''eDP-1''\<rparr>) sway0)"

definition run_workspace :: sway where
  "run_workspace = snd (the (workspace_create (Some 3) ''1'' run_output))"

definition run_window :: sway where
  "run_window = snd (container_create (Some zero_view) run_workspace)"

definition run_tiled :: sway where
  "run_tiled = snd (the (workspace_add_tiling (seat_set_focus 2) 4 5 run_window))"

lemma run_reachable: "reachable 2 run_tiled"
proof -
  have "reachable 2 sway0" unfolding sway0_def by (rule reach_start)
  moreover have "slots_unused sway0" by (simp add: slots_unused_def sway0_def initial_sway_def zero_defs)
  ultimately have 1: "reachable 2 run_output" unfolding run_output_def by (intro reach_step [OF _ step_output_create])
  have u: "slots_unused run_output"
    by (simp add: slots_unused_def run_output_def output_create_def node_init_def upd_out_def sway0_def initial_sway_def zero_defs)
  have "workspace_create (Some 3) ''1'' run_output \<noteq> None" by code_simp
  then have "workspace_create (Some 3) ''1'' run_output = Some (fst (the (workspace_create (Some 3) ''1'' run_output)), run_workspace)"
    by (auto simp: run_workspace_def)
  then have "reachable 2 run_workspace" by (intro reach_step [OF 1 step_workspace_create [OF u]])
  then have 3: "reachable 2 run_window" unfolding run_window_def by (intro reach_step [OF _ step_create])
  have r: "workspace_of run_window 5 = None" "parent_of run_window 5 = None" "5 < next_id run_window"
    "\<not> con_scratchpad (cons run_window 5)" by code_simp+
  have "workspace_add_tiling (seat_set_focus 2) 4 5 run_window \<noteq> None" by code_simp
  then have "workspace_add_tiling (seat_set_focus 2) 4 5 run_window =
      Some (fst (the (workspace_add_tiling (seat_set_focus 2) 4 5 run_window)), run_tiled)"
    by (auto simp: run_tiled_def)
  then show ?thesis using r
    by (intro reach_step [OF 3 step_add_tiling]) (auto simp: loose_or_placed_def leave_place_def tiling_ready_def)
qed


end
