(* ===== verification/Animation.thy ===== *)
theory Animation
  imports Tree_State
begin

text \<open>
  The animations of \<open>sway/animation_manager.c\<close>. An animation is named by its address; the
  manager has the \<open>wl_list\<close> of running ones (the one at the head first) and \<open>am_anims\<close>, the
  structs themselves. The timer is \<open>am_tick\<close>, the milliseconds it was last armed with (zero:
  not armed). The \<open>update\<close> callback, which redraws, is not modelled. Floats are rationals.
\<close>

section \<open>State\<close>

datatype animation_kind =
  ANIMATION_KIND_RESIZE | ANIMATION_KIND_OPEN | ANIMATION_KIND_CLOSE | ANIMATION_KIND_FULLSCREEN

record animation =
  ani_progress :: rat
  ani_multiplier :: rat
  ani_duration_scale :: rat
  ani_delay :: rat
  ani_kind :: animation_kind
  ani_initialized :: bool

record animation_manager =
  am_tick_time :: rat
  am_progress_delta :: rat
  am_tick :: int
  am_animations :: "nat list"
  am_anims :: "nat \<Rightarrow> animation"

definition init_animation :: animation where
  "init_animation = \<lparr>ani_progress = 0, ani_multiplier = 0, ani_duration_scale = 1, ani_delay = 0,
     ani_kind = ANIMATION_KIND_RESIZE, ani_initialized = False\<rparr>"

section \<open>Easing\<close>

definition ease_out_cubic :: "rat \<Rightarrow> rat" where
  "ease_out_cubic t = (let p = t - 1 in p ^ 3 + 1)"

definition window_bezier_x :: "rat \<Rightarrow> rat \<Rightarrow> rat \<Rightarrow> rat" where
  "window_bezier_x t c1x c2x =
     (let one_minus_t = 1 - t in
      3 * one_minus_t * one_minus_t * t * c1x + 3 * one_minus_t * t * t * c2x + t * t * t)"

text \<open>The binary search for the time whose x coordinate is the progress, \<open>n\<close> iterations.\<close>

primrec bezier_search :: "nat \<Rightarrow> rat \<Rightarrow> rat \<Rightarrow> rat \<Rightarrow> rat \<Rightarrow> rat \<Rightarrow> rat \<times> rat" where
  "bezier_search 0 progress c1x c2x t_low t_high = (t_low, t_high)"
| "bezier_search (Suc n) progress c1x c2x t_low t_high =
     (let t_mid = (t_low + t_high) * (1/2) in
      if window_bezier_x t_mid c1x c2x < progress
      then bezier_search n progress c1x c2x t_mid t_high
      else bezier_search n progress c1x c2x t_low t_mid)"

definition window_bezier_ease :: "rat \<Rightarrow> bezier_curve \<Rightarrow> rat" where
  "window_bezier_ease progress c =
     (if progress \<le> 0 then 0
      else if progress \<ge> 1 then 1
      else let (t_low, t_high) = bezier_search 32 progress (curve_c1x c) (curve_c2x c) 0 1;
               t = (t_low + t_high) * (1/2);
               one_minus_t = 1 - t
           in 3 * one_minus_t * one_minus_t * t * curve_c1y c + 3 * one_minus_t * t * t * curve_c2y c
              + t * t * t)"

definition ease_animation :: "animation_config \<Rightarrow> rat \<Rightarrow> animation_kind \<Rightarrow> rat" where
  "ease_animation config progress kind =
     (case kind of
        ANIMATION_KIND_OPEN \<Rightarrow> window_bezier_ease progress (an_window_open_curve config)
      | ANIMATION_KIND_CLOSE \<Rightarrow> window_bezier_ease progress (an_window_close_curve config)
      | ANIMATION_KIND_RESIZE \<Rightarrow> window_bezier_ease progress (an_window_resize_curve config)
      | ANIMATION_KIND_FULLSCREEN \<Rightarrow> window_bezier_ease progress (an_window_fullscreen_curve config))"

section \<open>The timer\<close>

definition upd_anim :: "nat \<Rightarrow> (animation \<Rightarrow> animation) \<Rightarrow> animation_manager \<Rightarrow> animation_manager" where
  "upd_anim a f m = m\<lparr>am_anims := (am_anims m)(a := f (am_anims m a))\<rparr>"

text \<open>One iteration of the loop of \<open>animation_timer\<close>.\<close>

definition tick_animation :: "animation_config \<Rightarrow> nat \<Rightarrow> animation_manager \<Rightarrow> animation_manager" where
  "tick_animation config a m =
     (let x = am_anims m a;
          duration_scale = (if ani_duration_scale x > 0 then ani_duration_scale x else 1);
          step = am_progress_delta m / duration_scale
      in if ani_delay x > 0
         then upd_anim a (\<lambda>x. x\<lparr>ani_delay := max (ani_delay x - step) 0,
                ani_progress := 0, ani_multiplier := 0\<rparr>) m
         else
           let p = min (ani_progress x + step) 1;
               m1 = upd_anim a (\<lambda>x. x\<lparr>ani_progress := p,
                      ani_multiplier := ease_animation config p (ani_kind x)\<rparr>) m
           in if p = 1
              then upd_anim a (ani_initialized_update (\<lambda>_. False))
                     (m1\<lparr>am_animations := remove1 a (am_animations m1)\<rparr>)
              else m1)"

text \<open>The loop visits the list from its tail.\<close>

definition animation_timer :: "animation_config \<Rightarrow> animation_manager \<Rightarrow> animation_manager" where
  "animation_timer config m =
     (let m1 = fold (tick_animation config) (rev (am_animations m)) m in
      if am_animations m1 \<noteq> [] then m1\<lparr>am_tick := c_trunc (am_tick_time m1)\<rparr> else m1\<lparr>am_tick := 0\<rparr>)"

definition add_animation :: "nat \<Rightarrow> animation_manager \<Rightarrow> animation_manager" where
  "add_animation a m =
     (let m1 = (if ani_initialized (am_anims m a)
                then m\<lparr>am_animations := remove1 a (am_animations m)\<rparr> else m);
          m2 = upd_anim a (\<lambda>x. x\<lparr>ani_progress := 0, ani_multiplier := 0, ani_initialized := True\<rparr>) m1
      in m2\<lparr>am_animations := a # am_animations m2\<rparr>)"

definition start_animations :: "animation_config \<Rightarrow> animation_manager \<Rightarrow> animation_manager" where
  "start_animations config m = (if an_duration_ms config = 0 then m else m\<lparr>am_tick := 1\<rparr>)"

section \<open>Durations\<close>

definition get_fastest_output_refresh_ms :: "sway \<Rightarrow> rat" where
  "get_fastest_output_refresh_ms s =
     fold (\<lambda>out fastest_output_refresh_ms.
        if out_refresh_nsec (outs s out) > 0
        then min fastest_output_refresh_ms (of_nat (out_refresh_nsec (outs s out)) / 1000000)
        else fastest_output_refresh_ms) (root_outputs s) (166667/10000)"

definition refresh_animation_manager_timing :: "sway \<Rightarrow> animation_manager \<Rightarrow> animation_manager" where
  "refresh_animation_manager_timing s m =
     (let tick_time = get_fastest_output_refresh_ms s;
          duration_ms = an_duration_ms (cfg_animation (cfg s))
      in m\<lparr>am_tick_time := tick_time,
           am_progress_delta := (if duration_ms > 0 then tick_time / duration_ms else 1)\<rparr>)"

definition animation_kind_duration_ms :: "animation_config \<Rightarrow> animation_kind \<Rightarrow> rat" where
  "animation_kind_duration_ms config kind =
     (if an_duration_ms config \<le> 0 then 0
      else let base = an_duration_ms config in
        case kind of
          ANIMATION_KIND_OPEN \<Rightarrow>
            (if an_window_open_duration_ms config \<ge> 0 then an_window_open_duration_ms config else base)
        | ANIMATION_KIND_CLOSE \<Rightarrow>
            (if an_window_close_duration_ms config \<ge> 0 then an_window_close_duration_ms config else base * (8/10))
        | ANIMATION_KIND_RESIZE \<Rightarrow>
            (if an_window_resize_duration_ms config \<ge> 0 then an_window_resize_duration_ms config else base)
        | ANIMATION_KIND_FULLSCREEN \<Rightarrow>
            (if an_window_fullscreen_duration_ms config \<ge> 0 then an_window_fullscreen_duration_ms config
             else base))"

definition animation_scale_for_kind :: "animation_config \<Rightarrow> animation_kind \<Rightarrow> rat" where
  "animation_scale_for_kind config kind =
     (if an_duration_ms config \<le> 0 then 1
      else let dur = animation_kind_duration_ms config kind in
        if dur \<le> 0 then 1 else dur / an_duration_ms config)"

definition animation_manager_init :: "sway \<Rightarrow> animation_manager \<Rightarrow> animation_manager" where
  "animation_manager_init s m = refresh_animation_manager_timing s (m\<lparr>am_tick := 0, am_animations := []\<rparr>)"

definition lerp :: "rat \<Rightarrow> rat \<Rightarrow> rat \<Rightarrow> rat" where
  "lerp a b t = a * (1 - t) + b * t"

definition get_animated_value :: "animation_config \<Rightarrow> rat \<Rightarrow> rat \<Rightarrow> animation \<Rightarrow> rat" where
  "get_animated_value config from_value to_value x =
     (if an_duration_ms config = 0 then to_value else lerp from_value to_value (ani_multiplier x))"

end
