(* ===== verification/Transaction.thy ===== *)
theory Transaction
  imports Focus_Query Animation
begin

text \<open>
  The transactions of \<open>sway/desktop/transaction.c\<close>. A change of the tree marks nodes dirty; a
  commit copies the pending state of the dirty nodes into the instructions of the pending
  transaction, which becomes the queued one, configures the views whose size changes and
  waits until each has answered or the timer fires; then all instructions are applied to the
  current state at once. Destroyed nodes are freed when no transaction refers to them.

  There is at most one queued transaction, and \<open>node->instruction\<close> points into it, so the
  pointer is an index into its instructions. A view's \<open>saved_surface_tree\<close> is the flag
  \<open>tx_saved\<close>. The scene graph is not modelled; where the code reads a position from it,
  \<open>tx_scene_coords\<close> answers.
\<close>

section \<open>State\<close>

record sway_output_state =
  os_workspaces :: "nat list"
  os_active_workspace :: "nat option"

record sway_workspace_state =
  wst_fullscreen :: "nat option"
  wst_x :: rat
  wst_y :: rat
  wst_width :: int
  wst_height :: int
  wst_scroll_x :: int
  wst_target_scroll_x :: int
  wst_layout :: sway_container_layout
  wst_output :: "nat option"
  wst_floating :: "nat list"
  wst_tiling :: "nat list"
  wst_focused_inactive_child :: "nat option"
  wst_focused :: bool

datatype instruction_state =
  OUTPUT_STATE sway_output_state
  | WORKSPACE_STATE sway_workspace_state
  | CONTAINER_STATE sway_container_state
  | NO_STATE

record sway_transaction_instruction =
  ins_node :: sway_node
  ins_state :: instruction_state
  ins_serial :: nat
  ins_server_request :: bool
  ins_waiting :: bool

record sway_transaction =
  txn_timer :: bool
  txn_instructions :: "sway_transaction_instruction list"
  txn_num_waiting :: nat
  txn_num_configures :: nat

text \<open>
  The \<open>animation_state\<close> of a container; its two animations are \<open>con_anim c\<close> and
  \<open>con_open_anim c\<close>. Those of a workspace are \<open>ws_scroll_anim w\<close> and \<open>ws_switch_anim w\<close>;
  \<open>was_active\<close> is used by the latter only.
\<close>

record con_animation_state =
  cas_delta_x :: int
  cas_delta_y :: int
  cas_delta_width :: int
  cas_delta_height :: int
  cas_current_width :: int
  cas_current_height :: int
  cas_close_running :: bool
  cas_close_timer :: int

record workspace_animation_state =
  was_from_x :: int
  was_target_x :: int
  was_target_x_initialized :: bool
  was_active :: bool

definition con_anim :: "nat \<Rightarrow> nat" where "con_anim c = 4 * c"

definition con_open_anim :: "nat \<Rightarrow> nat" where "con_open_anim c = 4 * c + 1"

definition ws_scroll_anim :: "nat \<Rightarrow> nat" where "ws_scroll_anim w = 4 * w + 2"

definition ws_switch_anim :: "nat \<Rightarrow> nat" where "ws_switch_anim w = 4 * w + 3"

record txn_state =
  tx_sway :: sway
  tx_anim :: animation_manager
  tx_out_current :: "nat \<Rightarrow> sway_output_state"
  tx_ws_current :: "nat \<Rightarrow> sway_workspace_state"
  tx_refs :: "sway_node \<Rightarrow> nat"
  tx_instruction :: "sway_node \<Rightarrow> nat option"
  tx_queued :: "sway_transaction option"
  tx_pending :: "sway_transaction option"
  tx_saved :: "nat \<Rightarrow> bool"
  tx_con_anim :: "nat \<Rightarrow> con_animation_state"
  tx_closing :: "nat list"
  tx_scroll :: "nat \<Rightarrow> workspace_animation_state"
  tx_switch :: "nat \<Rightarrow> workspace_animation_state"
  tx_switch_direction :: int
  tx_freed :: "sway_node \<Rightarrow> bool"
  tx_scene_coords :: "nat \<Rightarrow> int \<times> int"
  tx_noatomic :: bool
  tx_txn_wait :: bool

definition transaction_create :: sway_transaction where
  "transaction_create = \<lparr>txn_timer = False, txn_instructions = [], txn_num_waiting = 0, txn_num_configures = 0\<rparr>"

section \<open>Copying the pending state\<close>

definition copy_output_state :: "sway \<Rightarrow> nat \<Rightarrow> sway_output_state" where
  "copy_output_state s out = \<lparr>os_workspaces = out_workspaces (outs s out),
     os_active_workspace = output_get_active_workspace s out\<rparr>"

definition copy_workspace_state :: "sway \<Rightarrow> nat \<Rightarrow> sway_workspace_state" where
  "copy_workspace_state s w = (let ws = wss s w in
     \<lparr>wst_fullscreen = ws_fullscreen ws, wst_x = ws_x ws, wst_y = ws_y ws, wst_width = ws_width ws,
      wst_height = ws_height ws, wst_scroll_x = ws_scroll_x ws, wst_target_scroll_x = ws_target_scroll_x ws,
      wst_layout = ws_layout ws, wst_output = ws_output ws, wst_floating = ws_floating ws,
      wst_tiling = ws_tiling ws,
      wst_focused_inactive_child = workspace_get_focus_tiling_child s w (current_seat s),
      wst_focused = (seat_get_focus s (current_seat s) = Some (N_WORKSPACE w))\<rparr>)"

definition copy_container_state :: "sway \<Rightarrow> nat \<Rightarrow> sway_container_state" where
  "copy_container_state s c =
     (let p = pending s c;
          focused = (seat_get_focus s (current_seat s) = Some (N_CONTAINER c))
      in if con_view (cons s c) \<noteq> None then p\<lparr>st_children := None, st_focused := focused\<rparr>
         else p\<lparr>st_focused := focused,
                st_focused_inactive_child :=
                  (case seat_get_active_tiling_child s (current_seat s) (N_CONTAINER c) of
                     Some (N_CONTAINER f) \<Rightarrow> Some f
                   | _ \<Rightarrow> None)\<rparr>)"

fun copy_state :: "sway \<Rightarrow> sway_node \<Rightarrow> instruction_state" where
  "copy_state s N_ROOT = NO_STATE"
| "copy_state s (N_OUTPUT out) = OUTPUT_STATE (copy_output_state s out)"
| "copy_state s (N_WORKSPACE w) = WORKSPACE_STATE (copy_workspace_state s w)"
| "copy_state s (N_CONTAINER c) = CONTAINER_STATE (copy_container_state s c)"

text \<open>The index of the node's instruction, looked for only when some transaction refers to it.\<close>

definition find_instruction :: "txn_state \<Rightarrow> sway_node \<Rightarrow> sway_transaction_instruction list \<Rightarrow> nat option" where
  "find_instruction x node l =
     (if tx_refs x node > 0
      then (case seq_find (\<lambda>i. ins_node i = node) l 0 of k \<Rightarrow> if k < 0 then None else Some (nat k))
      else None)"

definition transaction_add_node :: "sway_transaction \<Rightarrow> sway_node \<Rightarrow> bool \<Rightarrow> txn_state \<Rightarrow> sway_transaction \<times> txn_state" where
  "transaction_add_node t node server_request x =
     (let st = copy_state (tx_sway x) node in
      case find_instruction x node (txn_instructions t) of
        None \<Rightarrow>
          (t\<lparr>txn_instructions := txn_instructions t @
               [\<lparr>ins_node = node, ins_state = st, ins_serial = 0, ins_server_request = server_request,
                 ins_waiting = False\<rparr>]\<rparr>,
           x\<lparr>tx_refs := (tx_refs x)(node := tx_refs x node + 1)\<rparr>)
      | Some k \<Rightarrow>
          (t\<lparr>txn_instructions := (txn_instructions t)[k :=
               (txn_instructions t ! k)\<lparr>ins_state := st,
                  ins_server_request := (ins_server_request (txn_instructions t ! k) \<or> server_request)\<rparr>]\<rparr>, x))"

section \<open>Closing animations\<close>

definition upd_cas :: "nat \<Rightarrow> (con_animation_state \<Rightarrow> con_animation_state) \<Rightarrow> txn_state \<Rightarrow> txn_state" where
  "upd_cas c f x = x\<lparr>tx_con_anim := (tx_con_anim x)(c := f (tx_con_anim x c))\<rparr>"

definition stop_animation :: "nat \<Rightarrow> txn_state \<Rightarrow> txn_state" where
  "stop_animation a x =
     (if ani_initialized (am_anims (tx_anim x) a)
      then x\<lparr>tx_anim := upd_anim a (ani_initialized_update (\<lambda>_. False))
              ((tx_anim x)\<lparr>am_animations := remove1 a (am_animations (tx_anim x))\<rparr>)\<rparr>
      else x)"

definition transaction_close_animation_cancel :: "nat \<Rightarrow> txn_state \<Rightarrow> txn_state" where
  "transaction_close_animation_cancel c x =
     (let k = seq_find (\<lambda>y. y = c) (tx_closing x) 0;
          x1 = (if k \<noteq> - 1 then x\<lparr>tx_closing := remove_at (nat k) (tx_closing x)\<rparr> else x)
      in upd_cas c (\<lambda>a. a\<lparr>cas_close_timer := 0, cas_close_running := False\<rparr>) x1)"

definition free_node :: "sway_node \<Rightarrow> txn_state \<Rightarrow> txn_state" where
  "free_node n x = x\<lparr>tx_freed := (tx_freed x)(n := True)\<rparr>"

text \<open>
  The destructors return without freeing when their assertions fail. \<open>output_destroy\<close> also
  asserts that the \<open>wlr_output\<close> is gone.
\<close>

definition container_destroy :: "nat \<Rightarrow> txn_state \<Rightarrow> txn_state" where
  "container_destroy c x =
     (if \<not> node_destroying (tx_sway x) (N_CONTAINER c) \<or> tx_refs x (N_CONTAINER c) \<noteq> 0 then x
      else free_node (N_CONTAINER c)
             (upd_cas c (cas_close_running_update (\<lambda>_. False))
               (stop_animation (con_open_anim c) (stop_animation (con_anim c)
                 (transaction_close_animation_cancel c x)))))"

definition workspace_destroy :: "nat \<Rightarrow> txn_state \<Rightarrow> txn_state" where
  "workspace_destroy w x =
     (if \<not> node_destroying (tx_sway x) (N_WORKSPACE w) \<or> tx_refs x (N_WORKSPACE w) \<noteq> 0 then x
      else free_node (N_WORKSPACE w)
             (stop_animation (ws_switch_anim w) (stop_animation (ws_scroll_anim w) x)))"

definition output_destroy :: "nat \<Rightarrow> txn_state \<Rightarrow> txn_state" where
  "output_destroy out x =
     (if \<not> node_destroying (tx_sway x) (N_OUTPUT out) \<or> tx_refs x (N_OUTPUT out) \<noteq> 0 then x
      else free_node (N_OUTPUT out) x)"

definition container_start_close_animation :: "nat \<Rightarrow> txn_state \<Rightarrow> bool \<times> txn_state" where
  "container_start_close_animation c x =
     (let config = cfg_animation (cfg (tx_sway x)) in
      if an_duration_ms config = 0 \<or> animation_kind_duration_ms config ANIMATION_KIND_CLOSE \<le> 0 \<or>
         con_view (cons (tx_sway x) c) = None \<or> \<not> tx_saved x c \<or> cas_close_running (tx_con_anim x c)
      then (False, x)
      else
        let x1 = stop_animation (con_anim c) x;
            close_duration_ms = animation_kind_duration_ms config ANIMATION_KIND_CLOSE;
            delay_ms = (if close_duration_ms > 1 then c_trunc close_duration_ms else 1);
            x2 = upd_cas c (\<lambda>a. a\<lparr>cas_delta_x := 0, cas_delta_y := 0, cas_delta_width := 0,
                   cas_delta_height := 0, cas_close_running := True, cas_close_timer := delay_ms\<rparr>) x1;
            m = upd_anim (con_open_anim c) (\<lambda>a. a\<lparr>ani_kind := ANIMATION_KIND_CLOSE,
                  ani_duration_scale := animation_scale_for_kind config ANIMATION_KIND_CLOSE,
                  ani_delay := 0\<rparr>) (tx_anim x2)
        in (True, x2\<lparr>tx_closing := tx_closing x2 @ [c],
                   tx_anim := start_animations config (add_animation (con_open_anim c) m)\<rparr>))"

text \<open>The timer of the closing animation fires (\<open>handle_close_animation_timeout\<close>).\<close>

definition handle_close_animation_timeout :: "nat \<Rightarrow> txn_state \<Rightarrow> txn_state" where
  "handle_close_animation_timeout c x =
     container_destroy c (transaction_close_animation_cancel c
       (upd_cas c (cas_close_timer_update (\<lambda>_. 0)) x))"

section \<open>Destroying a transaction\<close>

text \<open>
  The loop of \<open>transaction_destroy\<close>; \<open>k\<close> is the index of the instruction, which is what the
  node's \<open>instruction\<close> is compared with. \<open>None\<close>: the assertion that the root is never
  destroyed.
\<close>

definition destroy_node :: "sway_node \<Rightarrow> txn_state \<Rightarrow> txn_state" where
  "destroy_node n x =
     (case n of
        N_ROOT \<Rightarrow> x
      | N_OUTPUT out \<Rightarrow> output_destroy out x
      | N_WORKSPACE w \<Rightarrow> workspace_destroy w x
      | N_CONTAINER c \<Rightarrow>
          (case container_start_close_animation c x of
             (True, x1) \<Rightarrow> x1
           | (False, x1) \<Rightarrow> container_destroy c x1))"

definition release_instruction :: "nat \<Rightarrow> sway_transaction_instruction \<Rightarrow> txn_state \<Rightarrow> txn_state" where
  "release_instruction k i x =
     (let n = ins_node i;
          x1 = x\<lparr>tx_refs := (tx_refs x)(n := tx_refs x n - 1)\<rparr>;
          x2 = (if tx_instruction x1 n = Some k then x1\<lparr>tx_instruction := (tx_instruction x1)(n := None)\<rparr> else x1)
      in if node_destroying (tx_sway x2) n \<and> tx_refs x2 n = 0 then destroy_node n x2 else x2)"

fun release_instructions :: "nat \<Rightarrow> sway_transaction_instruction list \<Rightarrow> txn_state \<Rightarrow> txn_state" where
  "release_instructions k [] x = x"
| "release_instructions k (i # is) x = release_instructions (Suc k) is (release_instruction k i x)"

definition transaction_destroy :: "sway_transaction \<Rightarrow> txn_state \<Rightarrow> txn_state" where
  "transaction_destroy t x = release_instructions 0 (txn_instructions t) x"

section \<open>Applying a transaction\<close>

definition get_container_scroll_x_adjustment :: "txn_state \<Rightarrow> nat \<Rightarrow> int" where
  "get_container_scroll_x_adjustment x c =
     (let s = tx_sway x in
      if container_is_floating_or_child s c then 0
      else case st_workspace (con_current (cons s c)) of
        None \<Rightarrow> 0
      | Some w \<Rightarrow>
          if wst_layout (tx_ws_current x w) \<noteq> L_SCROLL_H then 0
          else c_trunc (of_int (tiling_layer_x (env s) w) - wst_x (tx_ws_current x w)))"

definition should_con_new_animation :: "sway_container_state \<Rightarrow> sway_container_state \<Rightarrow> bool" where
  "should_con_new_animation cur new_state =
     (st_width cur \<noteq> st_width new_state \<or> st_height cur \<noteq> st_height new_state \<or>
      st_x cur \<noteq> st_x new_state \<or> st_y cur \<noteq> st_y new_state)"

text \<open>The deltas of a moving container: from where it is drawn to where it is going.\<close>

definition start_move_animation :: "nat \<Rightarrow> animation_kind \<Rightarrow> txn_state \<Rightarrow> txn_state" where
  "start_move_animation c kind x =
     (let s = tx_sway x; p = pending s c; a = tx_con_anim x c;
          (lx, ly) = tx_scene_coords x c;
          x1 = upd_cas c (\<lambda>a. a\<lparr>
                 cas_delta_x := c_trunc (of_int lx - (st_x p + of_int (get_container_scroll_x_adjustment x c))),
                 cas_delta_y := c_trunc (of_int ly - st_y p),
                 cas_delta_width := c_trunc (of_int (cas_current_width a) - st_width p),
                 cas_delta_height := c_trunc (of_int (cas_current_height a) - st_height p)\<rparr>) x;
          m = upd_anim (con_anim c) (\<lambda>y. y\<lparr>ani_kind := kind,
                ani_duration_scale := animation_scale_for_kind (cfg_animation (cfg s)) kind\<rparr>) (tx_anim x1)
      in x1\<lparr>tx_anim := add_animation (con_anim c) m\<rparr>)"

text \<open>The animation a container starts when its state changes, and whether the timer must run.\<close>

definition animate_change :: "nat \<Rightarrow> sway_container_state \<Rightarrow> txn_state \<Rightarrow> bool \<times> txn_state" where
  "animate_change c st x =
     (let s = tx_sway x; cur = con_current (cons s c);
          geom_changed = should_con_new_animation cur st;
          fs_changed = (st_fullscreen_mode cur \<noteq> st_fullscreen_mode st);
          fs_active = (st_fullscreen_mode cur \<noteq> FULLSCREEN_NONE \<or> st_fullscreen_mode st \<noteq> FULLSCREEN_NONE)
      in if node_destroying s (N_CONTAINER c) \<or> \<not> (geom_changed \<or> fs_changed) then (False, x)
         else if con_view (cons s c) \<noteq> None \<and> st_workspace cur \<noteq> None
         then let kind = (if fs_active then ANIMATION_KIND_FULLSCREEN else ANIMATION_KIND_RESIZE) in
           if an_duration_ms (cfg_animation (cfg s)) > 0 \<and> animation_kind_duration_ms (cfg_animation (cfg s)) kind > 0
           then (True, start_move_animation c kind x)
           else (False, x)
         else (True, x))"

definition apply_output_state :: "nat \<Rightarrow> sway_output_state \<Rightarrow> txn_state \<Rightarrow> txn_state" where
  "apply_output_state out st x = x\<lparr>tx_out_current := (tx_out_current x)(out := st)\<rparr>"

text \<open>
  \<open>ws_current_focused_inactive_child\<close> is the one field of \<open>ws->current\<close> that the tree code
  reads back (\<open>Tree_State\<close> keeps it in the workspace).
\<close>

definition apply_workspace_state :: "nat \<Rightarrow> sway_workspace_state \<Rightarrow> txn_state \<Rightarrow> txn_state" where
  "apply_workspace_state w st x =
     x\<lparr>tx_ws_current := (tx_ws_current x)(w := st),
       tx_sway := upd_ws w (ws_current_focused_inactive_child_update (\<lambda>_. wst_focused_inactive_child st)) (tx_sway x)\<rparr>"

definition apply_container_state :: "nat \<Rightarrow> sway_container_state \<Rightarrow> txn_state \<Rightarrow> txn_state" where
  "apply_container_state c st x =
     (let x1 = x\<lparr>tx_sway := upd_con c (con_current_update (\<lambda>_. st)) (tx_sway x)\<rparr> in
      if con_view (cons (tx_sway x) c) \<noteq> None \<and> tx_saved x c \<and> \<not> node_destroying (tx_sway x) (N_CONTAINER c)
      then x1\<lparr>tx_saved := (tx_saved x1)(c := False)\<rparr> else x1)"

definition apply_instruction :: "sway_transaction_instruction \<Rightarrow> bool \<times> txn_state \<Rightarrow> bool \<times> txn_state" where
  "apply_instruction i = (\<lambda>(should_start, x).
     let (start, x1) =
       (case (ins_node i, ins_state i) of
          (N_OUTPUT out, OUTPUT_STATE st) \<Rightarrow> (should_start, apply_output_state out st x)
        | (N_WORKSPACE w, WORKSPACE_STATE st) \<Rightarrow> (should_start, apply_workspace_state w st x)
        | (N_CONTAINER c, CONTAINER_STATE st) \<Rightarrow>
            (case animate_change c st x of
               (b, x1) \<Rightarrow> (should_start \<or> b, apply_container_state c st x1))
        | _ \<Rightarrow> (should_start, x))
     in (start, x1\<lparr>tx_instruction := (tx_instruction x1)(ins_node i := None)\<rparr>))"

definition transaction_apply :: "sway_transaction \<Rightarrow> txn_state \<Rightarrow> txn_state" where
  "transaction_apply t x =
     (let (should_start, x1) = fold apply_instruction (txn_instructions t) (False, x) in
      if should_start
      then x1\<lparr>tx_anim := start_animations (cfg_animation (cfg (tx_sway x1))) (tx_anim x1)\<rparr>
      else x1)"

section \<open>Committing a transaction\<close>

definition should_configure :: "txn_state \<Rightarrow> sway_transaction_instruction \<Rightarrow> bool" where
  "should_configure x i =
     (case (ins_node i, ins_state i) of
        (N_CONTAINER c, CONTAINER_STATE istate) \<Rightarrow>
          (case con_view (cons (tx_sway x) c) of
             None \<Rightarrow> False
           | Some v \<Rightarrow>
               let cstate = con_current (cons (tx_sway x) c) in
               if node_destroying (tx_sway x) (N_CONTAINER c) \<or> \<not> ins_server_request i then False
               else if view_type v = SWAY_VIEW_XWAYLAND \<and>
                  (c_trunc (st_content_x cstate) \<noteq> c_trunc (st_content_x istate) \<or>
                   c_trunc (st_content_y cstate) \<noteq> c_trunc (st_content_y istate)) then True
               else \<not> (st_content_width cstate = st_content_width istate \<and>
                       st_content_height cstate = st_content_height istate))
      | _ \<Rightarrow> False)"

text \<open>A view that is not destroyed and not on screen; \<open>None\<close> as in \<open>view_is_visible\<close>.\<close>

definition instruction_hidden :: "txn_state \<Rightarrow> sway_node \<Rightarrow> bool option" where
  "instruction_hidden x n =
     (case n of
        N_CONTAINER c \<Rightarrow>
          (if con_view (cons (tx_sway x) c) \<noteq> None \<and> \<not> node_destroying (tx_sway x) n
           then map_option Not (view_is_visible (tx_sway x) c) else Some False)
      | _ \<Rightarrow> Some False)"

text \<open>
  One iteration of the loop of \<open>transaction_commit\<close>: the instruction at index \<open>k\<close>, with
  \<open>serials\<close> the serial that configuring the view of a container returns.
\<close>

definition commit_instruction :: "(nat \<Rightarrow> nat) \<Rightarrow> nat \<Rightarrow> sway_transaction_instruction \<Rightarrow> txn_state \<Rightarrow>
    (sway_transaction_instruction \<times> txn_state) option" where
  "commit_instruction serials k i x = do {
     hidden \<leftarrow> instruction_hidden x (ins_node i);
     let i1 = (if should_configure x i
               then i\<lparr>ins_serial := (case ins_node i of N_CONTAINER c \<Rightarrow> serials c | _ \<Rightarrow> 0),
                      ins_waiting := (ins_waiting i \<or> \<not> hidden)\<rparr>
               else i);
     let x1 = (case ins_node i of
                 N_CONTAINER c \<Rightarrow>
                   if \<not> hidden \<and> con_view (cons (tx_sway x) c) \<noteq> None \<and> \<not> tx_saved x c
                   then x\<lparr>tx_saved := (tx_saved x)(c := True)\<rparr> else x
               | _ \<Rightarrow> x);
     Some (i1, x1\<lparr>tx_instruction := (tx_instruction x1)(ins_node i := Some k)\<rparr>) }"

fun commit_instructions :: "(nat \<Rightarrow> nat) \<Rightarrow> nat \<Rightarrow> sway_transaction_instruction list \<Rightarrow> txn_state \<Rightarrow>
    (sway_transaction_instruction list \<times> txn_state) option" where
  "commit_instructions serials k [] x = Some ([], x)"
| "commit_instructions serials k (i # is) x = do {
     (i1, x1) \<leftarrow> commit_instruction serials k i x;
     (is1, x2) \<leftarrow> commit_instructions serials (Suc k) is x1;
     Some (i1 # is1, x2) }"

text \<open>
  The counter is incremented where \<open>waiting\<close> is set, so it is the number of waiting
  instructions; the debug flags then overrule it. The timer is assumed to be available.
\<close>

definition transaction_commit :: "(nat \<Rightarrow> nat) \<Rightarrow> sway_transaction \<Rightarrow> txn_state \<Rightarrow>
    (sway_transaction \<times> txn_state) option" where
  "transaction_commit serials t x = do {
     (is, x1) \<leftarrow> commit_instructions serials 0 (txn_instructions t) x;
     let n = length (filter ins_waiting is);
     let num_waiting = (if tx_noatomic x then 0 else if tx_txn_wait x then n + 1000000 else n);
     Some (t\<lparr>txn_instructions := is, txn_num_configures := n, txn_num_waiting := num_waiting,
             txn_timer := (num_waiting > 0)\<rparr>, x1) }"

section \<open>Progress\<close>

text \<open>
  \<open>transaction_progress\<close> applies the queued transaction when nobody is waited for, and then
  commits the pending one, which may be ready at once: two rounds are enough
  (\<open>transaction_progress_returns\<close> in \<open>Transaction_Laws\<close>).
\<close>

definition commit_pending_then :: "((nat \<Rightarrow> nat) \<Rightarrow> txn_state \<Rightarrow> txn_state option) \<Rightarrow> (nat \<Rightarrow> nat) \<Rightarrow>
    txn_state \<Rightarrow> txn_state option" where
  "commit_pending_then progress serials x =
     (if tx_queued x \<noteq> None then Some x
      else case tx_pending x of
        None \<Rightarrow> None
      | Some t \<Rightarrow> do {
          (t1, x1) \<leftarrow> transaction_commit serials t (x\<lparr>tx_pending := None\<rparr>);
          progress serials (x1\<lparr>tx_queued := Some t1\<rparr>) })"

primrec transaction_progress :: "nat \<Rightarrow> (nat \<Rightarrow> nat) \<Rightarrow> txn_state \<Rightarrow> txn_state option" where
  "transaction_progress 0 serials x = None"
| "transaction_progress (Suc n) serials x =
     (case tx_queued x of
        None \<Rightarrow> Some x
      | Some t \<Rightarrow>
          if txn_num_waiting t > 0 then Some x
          else
            let x1 = (transaction_destroy t (transaction_apply t x))\<lparr>tx_queued := None\<rparr> in
            if tx_pending x1 = None then Some x1
            else commit_pending_then (transaction_progress n) serials x1)"

definition transaction_commit_pending :: "(nat \<Rightarrow> nat) \<Rightarrow> txn_state \<Rightarrow> txn_state option" where
  "transaction_commit_pending serials x = commit_pending_then (transaction_progress 2) serials x"

text \<open>The timer of the queued transaction fires.\<close>

definition handle_timeout :: "(nat \<Rightarrow> nat) \<Rightarrow> txn_state \<Rightarrow> txn_state option" where
  "handle_timeout serials x =
     (case tx_queued x of
        None \<Rightarrow> None
      | Some t \<Rightarrow> transaction_progress 2 serials (x\<lparr>tx_queued := Some (t\<lparr>txn_num_waiting := 0\<rparr>)\<rparr>))"

definition set_instruction_ready :: "nat \<Rightarrow> (nat \<Rightarrow> nat) \<Rightarrow> txn_state \<Rightarrow> txn_state option" where
  "set_instruction_ready k serials x =
     (case tx_queued x of
        None \<Rightarrow> None
      | Some t \<Rightarrow>
          let i = txn_instructions t ! k;
              t1 = (if ins_waiting i \<and> txn_num_waiting t > 0
                    then t\<lparr>txn_num_waiting := txn_num_waiting t - 1,
                           txn_timer := (txn_timer t \<and> txn_num_waiting t - 1 \<noteq> 0)\<rparr>
                    else t)
          in transaction_progress 2 serials (x\<lparr>tx_queued := Some t1,
               tx_instruction := (tx_instruction x)(ins_node i := None)\<rparr>))"

definition transaction_notify_view_ready_by_serial :: "nat \<Rightarrow> nat \<Rightarrow> (nat \<Rightarrow> nat) \<Rightarrow> txn_state \<Rightarrow>
    (bool \<times> txn_state) option" where
  "transaction_notify_view_ready_by_serial c serial serials x =
     (case (tx_instruction x (N_CONTAINER c), tx_queued x) of
        (Some k, Some t) \<Rightarrow>
          if ins_serial (txn_instructions t ! k) = serial
          then map_option (Pair True) (set_instruction_ready k serials x)
          else Some (False, x)
      | (Some k, None) \<Rightarrow> None
      | (None, _) \<Rightarrow> Some (False, x))"

definition transaction_notify_view_ready_by_geometry :: "nat \<Rightarrow> rat \<Rightarrow> rat \<Rightarrow> int \<Rightarrow> int \<Rightarrow> (nat \<Rightarrow> nat) \<Rightarrow>
    txn_state \<Rightarrow> (bool \<times> txn_state) option" where
  "transaction_notify_view_ready_by_geometry c vx vy width height serials x =
     (case (tx_instruction x (N_CONTAINER c), tx_queued x) of
        (Some k, Some t) \<Rightarrow>
          (case ins_state (txn_instructions t ! k) of
             CONTAINER_STATE st \<Rightarrow>
               if c_trunc (st_content_x st) = c_trunc vx \<and> c_trunc (st_content_y st) = c_trunc vy \<and>
                  st_content_width st = of_int width \<and> st_content_height st = of_int height
               then map_option (Pair True) (set_instruction_ready k serials x)
               else Some (False, x)
           | _ \<Rightarrow> None)
      | (Some k, None) \<Rightarrow> None
      | (None, _) \<Rightarrow> Some (False, x))"

text \<open>The dirty nodes go to the pending transaction; copying does not read the dirty marks.\<close>

definition add_dirty_nodes :: "bool \<Rightarrow> sway_transaction \<Rightarrow> txn_state \<Rightarrow> sway_transaction \<times> txn_state" where
  "add_dirty_nodes server_request t x =
     fold (\<lambda>n (t, x). transaction_add_node t n server_request x) (dirty_nodes (tx_sway x)) (t, x)"

definition clear_dirty :: "sway \<Rightarrow> sway" where
  "clear_dirty s = s\<lparr>node_dirty := fold (\<lambda>n d. d(n := False)) (dirty_nodes s) (node_dirty s), dirty_nodes := []\<rparr>"

definition transaction_commit_dirty_with :: "bool \<Rightarrow> (nat \<Rightarrow> nat) \<Rightarrow> txn_state \<Rightarrow> txn_state option" where
  "transaction_commit_dirty_with server_request serials x =
     (if dirty_nodes (tx_sway x) = [] then Some x
      else
        let t = (case tx_pending x of None \<Rightarrow> transaction_create | Some t \<Rightarrow> t);
            (t1, x1) = add_dirty_nodes server_request t x
        in transaction_commit_pending serials
             (x1\<lparr>tx_pending := Some t1, tx_sway := clear_dirty (tx_sway x1)\<rparr>))"

definition transaction_commit_dirty :: "(nat \<Rightarrow> nat) \<Rightarrow> txn_state \<Rightarrow> txn_state option" where
  "transaction_commit_dirty serials = transaction_commit_dirty_with True serials"

definition transaction_commit_dirty_client :: "(nat \<Rightarrow> nat) \<Rightarrow> txn_state \<Rightarrow> txn_state option" where
  "transaction_commit_dirty_client serials = transaction_commit_dirty_with False serials"

end
