(* ===== verification/Switch_Animation.thy ===== *)
theory Switch_Animation
  imports Transaction Output_Ops
begin

text \<open>
  The animations of workspaces of \<open>sway/desktop/transaction.c\<close>: the scrolling of a scrolled
  workspace and the slide from one workspace to another. A slide over several workspaces
  moves all of them as a filmstrip. A function that may stop an animation while it computes a
  position returns the position and the state. Positions are truncated as in the code.
\<close>

section \<open>Scrolling\<close>

definition upd_scroll :: "nat \<Rightarrow> (workspace_animation_state \<Rightarrow> workspace_animation_state) \<Rightarrow> txn_state \<Rightarrow> txn_state" where
  "upd_scroll w f x = x\<lparr>tx_scroll := (tx_scroll x)(w := f (tx_scroll x w))\<rparr>"

definition upd_switch :: "nat \<Rightarrow> (workspace_animation_state \<Rightarrow> workspace_animation_state) \<Rightarrow> txn_state \<Rightarrow> txn_state" where
  "upd_switch w f x = x\<lparr>tx_switch := (tx_switch x)(w := f (tx_switch x w))\<rparr>"

definition run_animation :: "nat \<Rightarrow> txn_state \<Rightarrow> txn_state" where
  "run_animation a x = x\<lparr>tx_anim := start_animations (cfg_animation (cfg (tx_sway x))) (add_animation a (tx_anim x))\<rparr>"

definition stop_workspace_scroll_animation :: "nat \<Rightarrow> txn_state \<Rightarrow> txn_state" where
  "stop_workspace_scroll_animation w x =
     upd_scroll w (was_target_x_initialized_update (\<lambda>_. False)) (stop_animation (ws_scroll_anim w) x)"

definition get_animated_scroll_workspace_x :: "nat \<Rightarrow> int \<Rightarrow> txn_state \<Rightarrow> int \<times> txn_state" where
  "get_animated_scroll_workspace_x w workspace_x x =
     (let config = cfg_animation (cfg (tx_sway x)); a = ws_scroll_anim w;
          layer_x = tiling_layer_x (env (tx_sway x)) w;
          current_x = workspace_x - wst_scroll_x (tx_ws_current x w);
          target_x = workspace_x - wst_target_scroll_x (tx_ws_current x w);
          value = (\<lambda>from_x to_x x. c_trunc (get_animated_value config (of_int from_x) (of_int to_x) (am_anims (tx_anim x) a)))
      in if ws_interactive_resize (wss (tx_sway x) w) then (layer_x, stop_workspace_scroll_animation w x)
         else if an_duration_ms config = 0
         then (target_x, upd_scroll w (\<lambda>s. s\<lparr>was_from_x := current_x, was_target_x := target_x,
                 was_target_x_initialized := True\<rparr>) (stop_animation a x))
         else if \<not> was_target_x_initialized (tx_scroll x w)
         then let x1 = upd_scroll w (\<lambda>s. s\<lparr>was_from_x := current_x, was_target_x := target_x,
                         was_target_x_initialized := True\<rparr>) x
           in if current_x \<noteq> target_x
              then let x2 = run_animation a x1 in (value current_x target_x x2, x2)
              else (target_x, x1)
         else
           let x1 = (if was_target_x (tx_scroll x w) \<noteq> target_x
               then let x2 = upd_scroll w (\<lambda>s. s\<lparr>was_from_x := layer_x, was_target_x := target_x\<rparr>) x
                 in if layer_x \<noteq> target_x then run_animation a x2 else x2
               else x)
           in if ani_initialized (am_anims (tx_anim x1) a)
              then (value (was_from_x (tx_scroll x1 w)) (was_target_x (tx_scroll x1 w)) x1, x1)
              else (was_target_x (tx_scroll x1 w), x1))"

section \<open>The position of a sliding workspace\<close>

definition stop_workspace_switch_animation :: "nat \<Rightarrow> txn_state \<Rightarrow> txn_state" where
  "stop_workspace_switch_animation w x =
     upd_switch w (\<lambda>s. s\<lparr>was_target_x_initialized := False, was_active := False\<rparr>) (stop_animation (ws_switch_anim w) x)"

definition cubic_bezier_x :: "rat \<Rightarrow> rat \<Rightarrow> rat \<Rightarrow> rat" where
  "cubic_bezier_x t c1x c2x = (let one_minus_t = 1 - t in
     3 * one_minus_t * one_minus_t * t * c1x + 3 * one_minus_t * t * t * c2x + t * t * t)"

primrec cubic_bezier_search :: "nat \<Rightarrow> rat \<Rightarrow> rat \<Rightarrow> rat \<Rightarrow> rat \<Rightarrow> rat \<Rightarrow> rat \<times> rat" where
  "cubic_bezier_search 0 progress c1x c2x t_low t_high = (t_low, t_high)"
| "cubic_bezier_search (Suc n) progress c1x c2x t_low t_high =
     (let t_mid = (t_low + t_high) * (1/2) in
      if cubic_bezier_x t_mid c1x c2x < progress
      then cubic_bezier_search n progress c1x c2x t_mid t_high
      else cubic_bezier_search n progress c1x c2x t_low t_mid)"

definition cubic_bezier_ease :: "rat \<Rightarrow> bezier_curve \<Rightarrow> rat" where
  "cubic_bezier_ease progress c =
     (if progress \<le> 0 then 0
      else if progress \<ge> 1 then 1
      else let (t_low, t_high) = cubic_bezier_search 32 progress (curve_c1x c) (curve_c2x c) 0 1;
               t = (t_low + t_high) * (1/2);
               one_minus_t = 1 - t
           in 3 * one_minus_t * one_minus_t * t * curve_c1y c + 3 * one_minus_t * t * t * curve_c2y c
              + t * t * t)"

definition get_switch_animation_offset :: "nat \<Rightarrow> txn_state \<Rightarrow> int \<times> txn_state" where
  "get_switch_animation_offset w x =
     (let config = cfg_animation (cfg (tx_sway x)); st = tx_switch x w; an = am_anims (tx_anim x) (ws_switch_anim w) in
      if \<not> was_active st then (0, x)
      else if \<not> an_workspace_switch_anim config \<or> an_duration_ms config = 0 \<or>
              an_workspace_anim_duration_ms config = 0 \<and> an_workspace_anim_step_ms config = 0
      then (was_target_x st, stop_workspace_switch_animation w x)
      else if \<not> ani_initialized an then (was_target_x st, stop_workspace_switch_animation w x)
      else (c_trunc (of_int (was_from_x st) + of_int (was_target_x st - was_from_x st) *
               cubic_bezier_ease (ani_progress an) (an_workspace_switch_curve config)), x))"

definition workspace_switch_current_offset :: "nat \<Rightarrow> txn_state \<Rightarrow> int \<times> txn_state" where
  "workspace_switch_current_offset w x =
     (if \<not> was_active (tx_switch x w) then (0, x)
      else if \<not> ani_initialized (am_anims (tx_anim x) (ws_switch_anim w)) \<or>
              \<not> an_workspace_switch_anim (cfg_animation (cfg (tx_sway x)))
      then (if was_active (tx_switch x w) then was_from_x (tx_switch x w) else 0, x)
      else get_switch_animation_offset w x)"

section \<open>The direction of a slide\<close>

definition workspace_switch_num :: "string \<Rightarrow> int" where
  "workspace_switch_num name =
     (case strtol10_int name of (num, endptr) \<Rightarrow> if endptr = name \<or> endptr \<noteq> [] then - 1 else num)"

definition workspace_switch_animation_hint :: "int \<Rightarrow> txn_state \<Rightarrow> txn_state" where
  "workspace_switch_animation_hint direction x =
     x\<lparr>tx_switch_direction := (if direction > 0 then 1 else if direction < 0 then - 1 else 0)\<rparr>"

definition workspace_switch_slide_right :: "sway \<Rightarrow> nat \<Rightarrow> nat \<Rightarrow> bool" where
  "workspace_switch_slide_right s from to =
     (let from_n = workspace_switch_num (ws_name (wss s from)); to_n = workspace_switch_num (ws_name (wss s to)) in
      if from_n \<ge> 0 \<and> to_n \<ge> 0 \<and> to_n \<noteq> from_n then to_n > from_n
      else if from_n \<ge> 0 \<and> to_n < 0 then True
      else if from_n < 0 \<and> to_n \<ge> 0 then False
      else
        let by_name = (strcmp (ws_name (wss s to)) (ws_name (wss s from)) > 0) in
        case ws_output (wss s from) of
          None \<Rightarrow> by_name
        | Some out \<Rightarrow>
            if ws_output (wss s to) = Some out
            then let from_idx = seq_find (\<lambda>w. w = from) (out_workspaces (outs s out)) 0;
                     to_idx = seq_find (\<lambda>w. w = to) (out_workspaces (outs s out)) 0
                 in if from_idx \<ge> 0 \<and> to_idx \<ge> 0 \<and> from_idx \<noteq> to_idx then to_idx > from_idx else by_name
            else by_name)"

section \<open>The filmstrip\<close>

definition WORKSPACE_STRIP_MAX :: nat where "WORKSPACE_STRIP_MAX = 32"

definition workspace_strip_total_ms :: "animation_config \<Rightarrow> int \<Rightarrow> rat" where
  "workspace_strip_total_ms config steps0 =
     (let steps = (if steps0 < 1 then 1 else steps0) in
      if an_workspace_anim_step_ms config > 0
      then let total = an_workspace_anim_step_ms config * of_int steps in if total > 5000 then 5000 else total
      else an_workspace_anim_duration_ms config)"

fun strip_loop :: "sway \<Rightarrow> nat \<Rightarrow> nat \<Rightarrow> nat \<Rightarrow> nat list \<Rightarrow> nat list \<Rightarrow> nat list" where
  "strip_loop s from to cap out [] = out"
| "strip_loop s from to cap out (ws # wss') =
     (if ws_fullscreen (wss s ws) \<noteq> None then []
      else if ws \<noteq> from \<and> ws \<noteq> to \<and> workspace_is_empty s ws then strip_loop s from to cap out wss'
      else if length out \<ge> cap then []
      else strip_loop s from to cap (out @ [ws]) wss')"

text \<open>The collected workspaces; the count 0 of the code is the empty list.\<close>

definition collect_strip_workspaces :: "sway \<Rightarrow> nat \<Rightarrow> nat \<Rightarrow> nat \<Rightarrow> nat list" where
  "collect_strip_workspaces s from to cap =
     (case ws_output (wss s from) of
        None \<Rightarrow> []
      | Some out \<Rightarrow>
          let l = out_workspaces (outs s out);
              from_idx = seq_find (\<lambda>w. w = from) l 0; to_idx = seq_find (\<lambda>w. w = to) l 0
          in if from_idx < 0 \<or> to_idx < 0 \<or> from_idx = to_idx then []
             else if \<bar>to_idx - from_idx\<bar> + 1 > int cap then []
             else let lo = min from_idx to_idx; hi = max from_idx to_idx;
                      strip = strip_loop s from to cap [] (take (nat (hi - lo + 1)) (drop (nat lo) l))
                  in if length strip < 2 then [] else strip)"

definition animate_set_one :: "rat \<Rightarrow> nat \<times> int \<times> int \<Rightarrow> txn_state \<Rightarrow> txn_state" where
  "animate_set_one duration_scale = (\<lambda>(w, start_x, end_x) x.
     let a = ws_switch_anim w;
         x1 = upd_switch w (\<lambda>_. \<lparr>was_from_x = start_x, was_target_x = end_x, was_target_x_initialized = True,
                was_active = True\<rparr>) (stop_animation a x)
     in x1\<lparr>tx_anim := add_animation a (upd_anim a (ani_duration_scale_update (\<lambda>_. duration_scale)) (tx_anim x1))\<rparr>)"

definition workspace_switch_animate_set :: "(nat \<times> int \<times> int) list \<Rightarrow> rat \<Rightarrow> txn_state \<Rightarrow> txn_state" where
  "workspace_switch_animate_set l duration_scale x =
     (let x1 = fold (animate_set_one duration_scale) l x
      in x1\<lparr>tx_anim := start_animations (cfg_animation (cfg (tx_sway x1))) (tx_anim x1)\<rparr>)"

text \<open>The position of the last workspace in the strip that is \<open>w\<close>.\<close>

definition strip_pos :: "nat list \<Rightarrow> nat \<Rightarrow> int" where
  "strip_pos strip w = fold (\<lambda>(i, ws) pos. if ws = w then int i else pos) (enumerate 0 strip) (- 1)"

fun strip_starts :: "int \<Rightarrow> int \<Rightarrow> int \<Rightarrow> int \<Rightarrow> nat list \<Rightarrow> txn_state \<Rightarrow> (nat \<times> int \<times> int) list \<times> txn_state" where
  "strip_starts i from_pos to_pos width [] x = ([], x)"
| "strip_starts i from_pos to_pos width (ws # strip) x =
     (let (start, x1) = (if was_active (tx_switch x ws) \<and> ani_initialized (am_anims (tx_anim x) (ws_switch_anim ws))
                         then workspace_switch_current_offset ws x
                         else ((i - from_pos) * width, x));
          (rest, x2) = strip_starts (i + 1) from_pos to_pos width strip x1
      in ((ws, start, (i - to_pos) * width) # rest, x2))"

definition duration_scale_for :: "animation_config \<Rightarrow> int \<Rightarrow> rat" where
  "duration_scale_for config steps =
     (if an_duration_ms config > 0 then workspace_strip_total_ms config steps / an_duration_ms config else 1)"

definition animate_strip :: "nat list \<Rightarrow> nat \<Rightarrow> nat \<Rightarrow> nat \<Rightarrow> int \<Rightarrow> txn_state \<Rightarrow> txn_state" where
  "animate_strip strip out from to width x =
     (let x1 = fold (\<lambda>ws x. if was_active (tx_switch x ws) \<and> ws \<notin> set strip then stop_workspace_switch_animation ws x else x)
                 (out_workspaces (outs (tx_sway x) out)) x;
          (l, x2) = strip_starts 0 (strip_pos strip from) (strip_pos strip to) width strip x1
      in workspace_switch_animate_set l
           (duration_scale_for (cfg_animation (cfg (tx_sway x2))) (int (length strip) - 1)) x2)"

definition animate_pair :: "nat \<Rightarrow> nat \<Rightarrow> bool \<Rightarrow> int \<Rightarrow> txn_state \<Rightarrow> txn_state" where
  "animate_pair from to slide_right width x =
     (let (from_start, x1) = workspace_switch_current_offset from x;
          (to_start, x2) =
            (if was_active (tx_switch x1 to) \<and> ani_initialized (am_anims (tx_anim x1) (ws_switch_anim to))
             then workspace_switch_current_offset to x1
             else (if slide_right then width else - width, x1));
          from_end = (if slide_right then - width else width)
      in workspace_switch_animate_set [(from, from_start, from_end), (to, to_start, 0)]
           (duration_scale_for (cfg_animation (cfg (tx_sway x2))) 1) x2)"

text \<open>
  An output loses its \<open>wlr_output\<close> in the handler that destroys it, so the test of
  \<open>from->output->wlr_output\<close> is one for an output that is not destroyed.
\<close>

definition workspace_switch_animation_begin_dir :: "nat option \<Rightarrow> nat option \<Rightarrow> int \<Rightarrow> txn_state \<Rightarrow> txn_state" where
  "workspace_switch_animation_begin_dir from_o to_o direction x0 =
     (let s = tx_sway x0; x = x0\<lparr>tx_switch_direction := 0\<rparr> in
      case (from_o, to_o) of
        (Some from, Some to) \<Rightarrow>
          if from = to \<or> \<not> an_workspace_switch_anim (cfg_animation (cfg s)) then x
          else (case ws_output (wss s from) of
            None \<Rightarrow> x
          | Some out \<Rightarrow>
            if ws_output (wss s to) \<noteq> Some out \<or> node_destroying s (N_OUTPUT out) then x
            else if ws_fullscreen (wss s from) \<noteq> None \<or> ws_fullscreen (wss s to) \<noteq> None then x
            else
              let explicit_dir = (if direction > 0 then 1 else if direction < 0 then - 1 else tx_switch_direction x0);
                  slide_right = (if explicit_dir > 0 then True else if explicit_dir < 0 then False
                                 else workspace_switch_slide_right s from to);
                  width = box_width (out_usable_area (outs s out));
                  from_idx = seq_find (\<lambda>w. w = from) (out_workspaces (outs s out)) 0;
                  to_idx = seq_find (\<lambda>w. w = to) (out_workspaces (outs s out)) 0;
                  try_strip = \<not> (explicit_dir \<noteq> 0 \<and> from_idx \<ge> 0 \<and> to_idx \<ge> 0 \<and>
                                 (if to_idx > from_idx then 1 else - 1) \<noteq> explicit_dir);
                  strip = (if try_strip then collect_strip_workspaces s from to WORKSPACE_STRIP_MAX else [])
              in if length strip \<ge> 2 \<and> strip_pos strip from \<ge> 0 \<and> strip_pos strip to \<ge> 0
                 then animate_strip strip out from to width x
                 else animate_pair from to slide_right width x)
      | _ \<Rightarrow> x)"

definition workspace_switch_animation_begin :: "nat option \<Rightarrow> nat option \<Rightarrow> txn_state \<Rightarrow> txn_state" where
  "workspace_switch_animation_begin from to x = workspace_switch_animation_begin_dir from to 0 x"

end
