(* ===== verification/Animation_Laws.thy ===== *)
theory Animation_Laws
  imports Animation
begin

text \<open>
  What the animations of \<open>Animation\<close> do: the easing solves for the time of the curve, the
  list of the manager holds exactly the animations that run, each of them runs for the
  duration of its kind and then ends, and so the list runs empty.
\<close>

section \<open>Easing\<close>

definition bezier_y :: "rat \<Rightarrow> bezier_curve \<Rightarrow> rat" where
  "bezier_y t c = 3 * (1 - t) * (1 - t) * t * curve_c1y c + 3 * (1 - t) * t * t * curve_c2y c + t * t * t"

lemma window_bezier_x_ends [simp]: "window_bezier_x 0 c d = 0" "window_bezier_x 1 c d = 1"
  by (simp_all add: window_bezier_x_def)

lemma bezier_search_bracket:
  assumes "window_bezier_x low c d < p" "p \<le> window_bezier_x high c d" "low \<le> high"
    "bezier_search n p c d low high = (lo, hi)"
  shows "window_bezier_x lo c d < p \<and> p \<le> window_bezier_x hi c d \<and> low \<le> lo \<and> hi \<le> high \<and>
         hi - lo = (high - low) / 2 ^ n"
  using assms
proof (induction n arbitrary: low high)
  case (Suc n)
  let ?mid = "(low + high) * (1/2)"
  have m: "low \<le> ?mid" "?mid \<le> high" using Suc.prems(3) by simp_all
  show ?case
  proof (cases "window_bezier_x ?mid c d < p")
    case True
    then have "bezier_search n p c d ?mid high = (lo, hi)" using Suc.prems(4) by (simp add: Let_def)
    from Suc.IH [OF True Suc.prems(2) m(2) this] m(1) show ?thesis by (simp add: field_simps)
  next
    case False
    then have "bezier_search n p c d low ?mid = (lo, hi)" using Suc.prems(4) by (simp add: Let_def)
    from Suc.IH [OF Suc.prems(1) _ m(1) this] False m(2) show ?thesis by (simp add: field_simps)
  qed
qed simp

lemma cubic_mean_bounds:
  fixes t u v :: rat
  assumes "0 \<le> t" "t \<le> 1" "0 \<le> u" "u \<le> 1" "0 \<le> v" "v \<le> 1"
  shows "0 \<le> 3 * (1 - t) * (1 - t) * t * u + 3 * (1 - t) * t * t * v + t * t * t"
    "3 * (1 - t) * (1 - t) * t * u + 3 * (1 - t) * t * t * v + t * t * t \<le> 1"
proof -
  have a: "0 \<le> 3 * (1 - t) * (1 - t) * t" and b: "0 \<le> 3 * (1 - t) * t * t" and c: "0 \<le> t * t * t"
    and d: "0 \<le> (1 - t) ^ 3" using assms(1,2) by simp_all
  show "0 \<le> 3 * (1 - t) * (1 - t) * t * u + 3 * (1 - t) * t * t * v + t * t * t"
    using a b c assms by (simp add: mult_nonneg_nonneg)
  have "3 * (1 - t) * (1 - t) * t * u \<le> 3 * (1 - t) * (1 - t) * t"
    "3 * (1 - t) * t * t * v \<le> 3 * (1 - t) * t * t"
    using mult_left_mono [OF assms(4) a] mult_left_mono [OF assms(6) b] by simp_all
  moreover have "(1 - t) ^ 3 + 3 * (1 - t) * (1 - t) * t + 3 * (1 - t) * t * t + t * t * t = 1"
    by (simp add: power3_eq_cube algebra_simps)
  ultimately show "3 * (1 - t) * (1 - t) * t * u + 3 * (1 - t) * t * t * v + t * t * t \<le> 1"
    using d by linarith
qed

lemma window_bezier_ease_range:
  assumes "0 \<le> curve_c1y c" "curve_c1y c \<le> 1" "0 \<le> curve_c2y c" "curve_c2y c \<le> 1"
  shows "0 \<le> window_bezier_ease p c \<and> window_bezier_ease p c \<le> 1"
proof (cases "0 < p \<and> p < 1")
  case True
  obtain lo hi where s: "bezier_search 32 p (curve_c1x c) (curve_c2x c) 0 1 = (lo, hi)" by fastforce
  have b: "0 \<le> lo" "hi \<le> 1" "hi - lo = 1 / 2 ^ 32" using bezier_search_bracket [OF _ _ _ s] True by simp_all
  let ?t = "(lo + hi) * (1/2)"
  have t: "0 \<le> ?t" "?t \<le> 1" using b by simp_all
  show ?thesis using True s cubic_mean_bounds [OF t assms]
    by (simp add: window_bezier_ease_def Let_def)
qed (auto simp: window_bezier_ease_def)

text \<open>C13. The easing of a progress strictly between 0 and 1 is the y coordinate of the curve
  at a time \<open>t\<close> that is within \<open>2^(-33)\<close> of where the x coordinate passes the progress; it
  starts at 0 and ends at 1, and it stays between 0 and 1 when the control points do.\<close>

theorem window_bezier_ease_solves:
  assumes "0 < p" "p < 1"
  shows "(\<exists>t. 1 / 2 ^ 33 \<le> t \<and> t \<le> 1 - 1 / 2 ^ 33 \<and> window_bezier_ease p c = bezier_y t c \<and>
      window_bezier_x (t - 1 / 2 ^ 33) (curve_c1x c) (curve_c2x c) < p \<and>
      p \<le> window_bezier_x (t + 1 / 2 ^ 33) (curve_c1x c) (curve_c2x c)) \<and>
    window_bezier_ease 0 c = 0 \<and> window_bezier_ease 1 c = 1 \<and>
    (curve_c1y c \<in> {0..1} \<and> curve_c2y c \<in> {0..1} \<longrightarrow> window_bezier_ease p c \<in> {0..1})"
proof -
  obtain lo hi where s: "bezier_search 32 p (curve_c1x c) (curve_c2x c) 0 1 = (lo, hi)" by fastforce
  have b: "window_bezier_x lo (curve_c1x c) (curve_c2x c) < p" "p \<le> window_bezier_x hi (curve_c1x c) (curve_c2x c)"
    "0 \<le> lo" "hi \<le> 1" "hi - lo = 1 / 2 ^ 32" using bezier_search_bracket [OF _ _ _ s] assms by simp_all
  let ?t = "(lo + hi) * (1/2)"
  have t: "?t - 1 / 2 ^ 33 = lo" "?t + 1 / 2 ^ 33 = hi" using b(5) by (simp_all add: field_simps)
  have "window_bezier_ease p c = bezier_y ?t c"
    using assms s by (simp add: window_bezier_ease_def bezier_y_def Let_def)
  moreover have "1 / 2 ^ 33 \<le> ?t" "?t \<le> 1 - 1 / 2 ^ 33" using t b(3,4) by linarith+
  ultimately have "\<exists>t. 1 / 2 ^ 33 \<le> t \<and> t \<le> 1 - 1 / 2 ^ 33 \<and> window_bezier_ease p c = bezier_y t c \<and>
      window_bezier_x (t - 1 / 2 ^ 33) (curve_c1x c) (curve_c2x c) < p \<and>
      p \<le> window_bezier_x (t + 1 / 2 ^ 33) (curve_c1x c) (curve_c2x c)"
    using b(1,2) t by metis
  then show ?thesis using window_bezier_ease_range [of c p] by (simp add: window_bezier_ease_def)
qed

theorem window_bezier_ease_solves_witness:
  "window_bezier_ease (1/3) ease_out_curve \<in> {0..1}"
  using window_bezier_ease_solves [of "1/3" ease_out_curve] by (simp add: ease_out_curve_def)

section \<open>The list of running animations\<close>

text \<open>The list holds the initialized animations, each once.\<close>

definition am_ok :: "animation_manager \<Rightarrow> bool" where
  "am_ok m = (distinct (am_animations m) \<and> (\<forall>a. ani_initialized (am_anims m a) \<longleftrightarrow> a \<in> set (am_animations m)))"

lemma upd_anim_sel [simp]:
  "am_tick_time (upd_anim a f m) = am_tick_time m" "am_progress_delta (upd_anim a f m) = am_progress_delta m"
  "am_animations (upd_anim a f m) = am_animations m" "am_tick (upd_anim a f m) = am_tick m"
  "am_anims (upd_anim a f m) b = (if b = a then f (am_anims m a) else am_anims m b)"
  by (simp_all add: upd_anim_def)

text \<open>The progress an animation makes in a tick, and what a tick does to it on its own.\<close>

definition anim_step :: "rat \<Rightarrow> animation \<Rightarrow> rat" where
  "anim_step delta x = delta / (if ani_duration_scale x > 0 then ani_duration_scale x else 1)"

definition tick_one :: "animation_config \<Rightarrow> rat \<Rightarrow> animation \<Rightarrow> animation" where
  "tick_one config delta x =
     (let step = anim_step delta x in
      if ani_delay x > 0
      then x\<lparr>ani_delay := max (ani_delay x - step) 0, ani_progress := 0, ani_multiplier := 0\<rparr>
      else let p = min (ani_progress x + step) 1 in
        x\<lparr>ani_progress := p, ani_multiplier := ease_animation config p (ani_kind x),
          ani_initialized := (ani_initialized x \<and> p \<noteq> 1)\<rparr>)"

lemma tick_animation_sel:
  assumes "ani_initialized (am_anims m a)"
  shows "am_anims (tick_animation config a m) =
      (am_anims m)(a := tick_one config (am_progress_delta m) (am_anims m a))"
    "am_animations (tick_animation config a m) =
      (if ani_initialized (tick_one config (am_progress_delta m) (am_anims m a)) then am_animations m
       else remove1 a (am_animations m))"
    "am_progress_delta (tick_animation config a m) = am_progress_delta m"
    "am_tick_time (tick_animation config a m) = am_tick_time m"
  using assms by (auto simp: tick_animation_def tick_one_def anim_step_def upd_anim_def Let_def fun_eq_iff)

lemma fold_tick_animation:
  assumes "distinct l" "\<forall>a \<in> set l. ani_initialized (am_anims m a)" "distinct (am_animations m)"
  shows "am_anims (fold (tick_animation config) l m) =
      (\<lambda>a. if a \<in> set l then tick_one config (am_progress_delta m) (am_anims m a) else am_anims m a) \<and>
    am_animations (fold (tick_animation config) l m) =
      filter (\<lambda>a. a \<in> set l \<longrightarrow> ani_initialized (tick_one config (am_progress_delta m) (am_anims m a))) (am_animations m) \<and>
    am_progress_delta (fold (tick_animation config) l m) = am_progress_delta m"
  using assms
proof (induction l arbitrary: m)
  case (Cons x l)
  note t = tick_animation_sel [of m x config]
  have ini: "ani_initialized (am_anims m x)" using Cons.prems(2) by simp
  let ?m = "tick_animation config x m"
  have "distinct (am_animations ?m)" using Cons.prems(3) by (simp add: t(2) [OF ini] distinct_remove1)
  moreover have "\<forall>a \<in> set l. ani_initialized (am_anims ?m a)"
    using Cons.prems(1,2) by (simp add: t(1) [OF ini])
  ultimately have ih: "am_anims (fold (tick_animation config) l ?m) =
      (\<lambda>a. if a \<in> set l then tick_one config (am_progress_delta ?m) (am_anims ?m a) else am_anims ?m a)"
    "am_animations (fold (tick_animation config) l ?m) =
      filter (\<lambda>a. a \<in> set l \<longrightarrow> ani_initialized (tick_one config (am_progress_delta ?m) (am_anims ?m a))) (am_animations ?m)"
    "am_progress_delta (fold (tick_animation config) l ?m) = am_progress_delta ?m"
    using Cons.IH Cons.prems(1) by simp_all
  have "am_animations (fold (tick_animation config) l ?m) =
    filter (\<lambda>a. a \<in> set (x # l) \<longrightarrow> ani_initialized (tick_one config (am_progress_delta m) (am_anims m a))) (am_animations m)"
    using Cons.prems(1,3) unfolding ih(2) t(2,3) [OF ini]
    by (auto simp: t(1) [OF ini] distinct_remove1_removeAll removeAll_filter_not_eq intro!: filter_cong)
  then show ?case using ih(1,3) Cons.prems(1) by (auto simp: t(1,3) [OF ini] fun_eq_iff)
qed simp

lemma animation_timer_sel:
  assumes "am_ok m"
  shows "am_anims (animation_timer config m) =
      (\<lambda>a. if a \<in> set (am_animations m) then tick_one config (am_progress_delta m) (am_anims m a) else am_anims m a)"
    "am_animations (animation_timer config m) =
      filter (\<lambda>a. ani_initialized (tick_one config (am_progress_delta m) (am_anims m a))) (am_animations m)"
    "am_progress_delta (animation_timer config m) = am_progress_delta m"
proof -
  have "filter (\<lambda>a. a \<in> set (rev (am_animations m)) \<longrightarrow> P a) (am_animations m) = filter P (am_animations m)" for P
    by (auto intro: filter_cong)
  then show "am_anims (animation_timer config m) =
      (\<lambda>a. if a \<in> set (am_animations m) then tick_one config (am_progress_delta m) (am_anims m a) else am_anims m a)"
    "am_animations (animation_timer config m) =
      filter (\<lambda>a. ani_initialized (tick_one config (am_progress_delta m) (am_anims m a))) (am_animations m)"
    "am_progress_delta (animation_timer config m) = am_progress_delta m"
    using fold_tick_animation [of "rev (am_animations m)" m config] assms
    by (simp_all add: animation_timer_def am_ok_def Let_def)
qed

lemma am_ok_timer: "am_ok m \<Longrightarrow> am_ok (animation_timer config m)"
  unfolding am_ok_def [of "animation_timer config m"]
  by (subst animation_timer_sel, assumption)+ (auto simp: am_ok_def)

lemma am_ok_add: "am_ok m \<Longrightarrow> am_ok (add_animation a m)"
  by (auto simp: add_animation_def am_ok_def Let_def distinct_remove1 split: if_splits)

lemma tick_one_keeps [simp]:
  "ani_kind (tick_one config d x) = ani_kind x" "ani_duration_scale (tick_one config d x) = ani_duration_scale x"
  by (simp_all add: tick_one_def Let_def)

text \<open>Ticks run \<open>tick_one\<close> on an animation for as long as it is in the list.\<close>

abbreviation ticks :: "animation_config \<Rightarrow> nat \<Rightarrow> animation_manager \<Rightarrow> animation_manager" where
  "ticks config n \<equiv> (animation_timer config ^^ n)"

lemma am_ok_ticks: "am_ok m \<Longrightarrow> am_ok (ticks config n m)"
  by (induction n) (simp_all add: am_ok_timer)

lemma ticks_delta: "am_ok m \<Longrightarrow> am_progress_delta (ticks config n m) = am_progress_delta m"
  by (induction n) (simp_all add: animation_timer_sel am_ok_ticks)

lemma tick_in:
  assumes "am_ok m" "a \<in> set (am_animations m)"
  shows "am_anims (animation_timer config m) a = tick_one config (am_progress_delta m) (am_anims m a)"
    "a \<in> set (am_animations (animation_timer config m)) \<longleftrightarrow>
      ani_initialized (tick_one config (am_progress_delta m) (am_anims m a))"
  using assms by (simp_all add: animation_timer_sel)

lemma tick_out:
  assumes "am_ok m" "a \<notin> set (am_animations m)"
  shows "am_anims (animation_timer config m) a = am_anims m a" "a \<notin> set (am_animations (animation_timer config m))"
  using assms by (simp_all add: animation_timer_sel)

section \<open>Running an animation to its end\<close>

lemma anim_step_pos: "0 < delta \<Longrightarrow> 0 < anim_step delta x"
  by (simp add: anim_step_def)

lemma anim_step_upd [simp]:
  "anim_step d (ani_progress_update f x) = anim_step d x" "anim_step d (ani_multiplier_update f x) = anim_step d x"
  "anim_step d (ani_initialized_update g x) = anim_step d x" "anim_step d (ani_delay_update f x) = anim_step d x"
  by (simp_all add: anim_step_def)

lemma anim_step_tick [simp]: "anim_step d (tick_one config e x) = anim_step d x"
  by (simp add: anim_step_def)

lemma ease_animation_1 [simp]: "ease_animation config 1 k = 1" "ease_animation config 0 k = 0"
  by (simp_all add: ease_animation_def window_bezier_ease_def split: animation_kind.split)

lemma run_undelayed:
  assumes "am_ok m" "0 < am_progress_delta m" "a \<in> set (am_animations m)" "ani_delay (am_anims m a) \<le> 0"
  defines "x0 \<equiv> am_anims m a"
  defines "p \<equiv> \<lambda>n :: nat. ani_progress x0 + of_nat n * anim_step (am_progress_delta m) x0"
  shows "(a \<in> set (am_animations (ticks config n m)) \<longleftrightarrow> n = 0 \<or> p n < 1) \<and>
    (let x = am_anims (ticks config n m) a in
     ani_delay x \<le> 0 \<and> ani_kind x = ani_kind x0 \<and> anim_step (am_progress_delta m) x = anim_step (am_progress_delta m) x0 \<and>
     (0 < n \<longrightarrow> ani_progress x = min (p n) 1 \<and> ani_multiplier x = ease_animation config (min (p n) 1) (ani_kind x0)) \<and>
     (n = 0 \<longrightarrow> x = x0))"
proof (induction n)
  case 0
  then show ?case using assms by simp
next
  case (Suc n)
  let ?m = "ticks config n m"
  have ok: "am_ok ?m" using assms(1) by (rule am_ok_ticks)
  have pos: "0 < anim_step (am_progress_delta m) x0" using assms(2) by (rule anim_step_pos)
  have pS: "p (Suc n) = p n + anim_step (am_progress_delta m) x0" by (simp add: p_def algebra_simps)
  show ?case
  proof (cases "n = 0 \<or> p n < 1")
    case True
    then have a: "a \<in> set (am_animations ?m)" using Suc.IH by simp
    have prog: "ani_progress (am_anims ?m a) = p n" using True Suc.IH by (auto simp: Let_def p_def)
    have st: "anim_step (am_progress_delta m) (am_anims ?m a) = anim_step (am_progress_delta m) x0"
      "ani_delay (am_anims ?m a) \<le> 0" "ani_kind (am_anims ?m a) = ani_kind x0"
      using Suc.IH by (simp_all add: Let_def)
    have ini: "ani_initialized (am_anims ?m a)" using ok a by (simp add: am_ok_def)
    have t: "tick_one config (am_progress_delta m) (am_anims ?m a) = (am_anims ?m a)\<lparr>ani_progress := min (p (Suc n)) 1,
        ani_multiplier := ease_animation config (min (p (Suc n)) 1) (ani_kind x0),
        ani_initialized := (min (p (Suc n)) 1 \<noteq> 1)\<rparr>"
      using st prog pS ini by (simp add: tick_one_def Let_def)
    show ?thesis
      using tick_in [OF ok a, of config] t st ticks_delta [OF assms(1), where config = config and n = n] by (auto simp: Let_def min_def)
  next
    case False
    then have a: "a \<notin> set (am_animations ?m)" using Suc.IH by simp
    have "min (p n) 1 = 1" using False by simp
    then have "ani_progress (am_anims ?m a) = 1" "ani_multiplier (am_anims ?m a) = 1"
      using False Suc.IH by (simp_all add: Let_def)
    then show ?thesis using tick_out [OF ok a, of config] False Suc.IH pos pS by (simp add: Let_def)
  qed
qed

lemma wait_delayed:
  assumes "am_ok m" "0 < am_progress_delta m" "a \<in> set (am_animations m)"
    "ani_delay (am_anims m a) \<le> of_nat k * anim_step (am_progress_delta m) (am_anims m a)"
  shows "\<exists>j \<le> k. a \<in> set (am_animations (ticks config j m)) \<and> ani_delay (am_anims (ticks config j m) a) \<le> 0"
  using assms
proof (induction k arbitrary: m)
  case 0
  then show ?case by simp
next
  case (Suc k)
  show ?case
  proof (cases "ani_delay (am_anims m a) \<le> 0")
    case True
    then show ?thesis using Suc.prems(3) by (intro exI [of _ 0]) simp
  next
    case False
    let ?m = "animation_timer config m"
    have ini: "ani_initialized (am_anims m a)" using Suc.prems(1,3) by (simp add: am_ok_def)
    note t = tick_in [OF Suc.prems(1,3), of config]
    have in': "a \<in> set (am_animations ?m)" using t(2) False ini by (simp add: tick_one_def Let_def)
    have d: "am_progress_delta ?m = am_progress_delta m" by (simp add: animation_timer_sel [OF Suc.prems(1)])
    have s: "anim_step (am_progress_delta ?m) (am_anims ?m a) = anim_step (am_progress_delta m) (am_anims m a)"
      by (simp add: t(1) d)
    have "ani_delay (am_anims ?m a) = max (ani_delay (am_anims m a) - anim_step (am_progress_delta m) (am_anims m a)) 0"
      using False by (simp add: t(1) tick_one_def Let_def)
    moreover have "0 < anim_step (am_progress_delta m) (am_anims m a)" using Suc.prems(2) by (rule anim_step_pos)
    ultimately have "ani_delay (am_anims ?m a) \<le> of_nat k * anim_step (am_progress_delta ?m) (am_anims ?m a)"
      using Suc.prems(4) unfolding s by (simp add: algebra_simps)
    then obtain j where "j \<le> k" "a \<in> set (am_animations (ticks config j ?m))"
      "ani_delay (am_anims (ticks config j ?m) a) \<le> 0"
      using Suc.IH [OF am_ok_timer [OF Suc.prems(1)] _ in'] Suc.prems(2) d by metis
    then show ?thesis by (intro exI [of _ "Suc j"]) (simp add: funpow_swap1)
  qed
qed

lemma ticks_out:
  assumes "am_ok m" "a \<notin> set (am_animations m)"
  shows "a \<notin> set (am_animations (ticks config n m)) \<and> am_anims (ticks config n m) a = am_anims m a"
proof (induction n)
  case (Suc n)
  then show ?case using tick_out [OF am_ok_ticks [OF assms(1)], where a = a] by simp
qed (use assms in simp)

lemma animation_ends:
  assumes ok: "am_ok m" and d: "0 < am_progress_delta m" and a: "a \<in> set (am_animations m)"
  shows "\<exists>N. \<forall>n \<ge> N. a \<notin> set (am_animations (ticks config n m)) \<and>
    ani_progress (am_anims (ticks config n m) a) = 1 \<and> ani_multiplier (am_anims (ticks config n m) a) = 1"
proof -
  let ?s = "anim_step (am_progress_delta m) (am_anims m a)"
  have "0 < ?s" using d by (rule anim_step_pos)
  then obtain k where "ani_delay (am_anims m a) < of_nat k * ?s" using ex_less_of_nat_mult by blast
  then obtain j where j: "a \<in> set (am_animations (ticks config j m))" "ani_delay (am_anims (ticks config j m) a) \<le> 0"
    using wait_delayed [OF ok d a, where k = k and config = config] by force
  let ?m = "ticks config j m"
  have dj: "0 < am_progress_delta ?m" using d by (simp add: ticks_delta [OF ok])
  let ?t = "anim_step (am_progress_delta ?m) (am_anims ?m a)"
  have "0 < ?t" using dj by (rule anim_step_pos)
  then obtain i where i: "1 - ani_progress (am_anims ?m a) < of_nat i * ?t" using ex_less_of_nat_mult by blast
  then have "1 \<le> ani_progress (am_anims ?m a) + of_nat (Suc i) * ?t" using \<open>0 < ?t\<close> by (simp add: algebra_simps)
  then have e: "a \<notin> set (am_animations (ticks config (Suc i) ?m))"
    "ani_progress (am_anims (ticks config (Suc i) ?m) a) = 1" "ani_multiplier (am_anims (ticks config (Suc i) ?m) a) = 1"
    using run_undelayed [OF am_ok_ticks [OF ok] dj j, where config = config and n = "Suc i"] by (simp_all add: Let_def)
  have "a \<notin> set (am_animations (ticks config n m)) \<and>
    ani_progress (am_anims (ticks config n m) a) = 1 \<and> ani_multiplier (am_anims (ticks config n m) a) = 1"
    if "n \<ge> j + Suc i" for n
  proof -
    have n: "ticks config n m = ticks config (n - (j + Suc i)) (ticks config (Suc i) ?m)"
      using that by (metis comp_apply funpow_add add.commute add.assoc le_add_diff_inverse2 add_diff_inverse_nat not_less)
    show ?thesis unfolding n using ticks_out [OF am_ok_ticks [OF am_ok_ticks [OF ok]] e(1)] e(2,3) by metis
  qed
  then show ?thesis by blast
qed

text \<open>C11. Every animation ends: whatever the delays and duration scales are, the timer empties
  the list after some number of ticks, and by then each animation that was running has
  progress and multiplier 1.\<close>

theorem animations_end:
  assumes "am_ok m" "0 < am_progress_delta m"
  shows "\<exists>N. \<forall>n \<ge> N. am_animations (ticks config n m) = [] \<and>
    (\<forall>a \<in> set (am_animations m). let x = am_anims (ticks config n m) a in
       ani_progress x = 1 \<and> ani_multiplier x = 1 \<and> \<not> ani_initialized x)"
proof -
  define D where "D = (\<lambda>a n. a \<notin> set (am_animations (ticks config n m)) \<and>
    ani_progress (am_anims (ticks config n m) a) = 1 \<and> ani_multiplier (am_anims (ticks config n m) a) = 1)"
  have "\<forall>a \<in> set (am_animations m). \<exists>N. \<forall>n \<ge> N. D a n"
    unfolding D_def using animation_ends [OF assms] by blast
  then obtain f where f: "\<forall>a \<in> set (am_animations m). \<forall>n \<ge> f a. D a n" by metis
  have "\<forall>n \<ge> Max (insert 0 (f ` set (am_animations m))). \<forall>a \<in> set (am_animations m). D a n"
    using f by auto
  moreover have "set (am_animations (ticks config n m)) \<subseteq> set (am_animations m)" for n
    using ticks_out [OF assms(1)] by blast
  moreover have "ani_initialized (am_anims (ticks config n m) a) \<longleftrightarrow> a \<in> set (am_animations (ticks config n m))" for n a
    using am_ok_ticks [OF assms(1)] by (simp add: am_ok_def)
  ultimately show ?thesis unfolding D_def Let_def
    by (intro exI [of _ "Max (insert 0 (f ` set (am_animations m)))"]) (meson set_empty subset_eq equals0I ball_empty)
qed

text \<open>Two animations, one of them delayed.\<close>

definition sample_animations :: animation_manager where
  "sample_animations = add_animation 8 (add_animation 7
     \<lparr>am_tick_time = 16, am_progress_delta = 1/4, am_tick = 0, am_animations = [],
      am_anims = (\<lambda>a. init_animation\<lparr>ani_delay := (if a = 7 then 1 else 0)\<rparr>)\<rparr>)"

lemma am_ok_sample: "am_ok sample_animations"
  unfolding sample_animations_def by (intro am_ok_add) (simp add: am_ok_def init_animation_def)

theorem animations_end_witness: "\<exists>n. am_animations (ticks default_animation n sample_animations) = []"
proof -
  have "0 < am_progress_delta sample_animations" by (simp add: sample_animations_def add_animation_def Let_def)
  from animations_end [OF am_ok_sample this] show ?thesis by blast
qed

lemma fastest_refresh_pos: "0 < get_fastest_output_refresh_ms s"
proof -
  have "0 < r \<Longrightarrow> 0 < fold (\<lambda>out r. if out_refresh_nsec (outs s out) > 0
      then min r (of_nat (out_refresh_nsec (outs s out)) / 1000000) else r) l (r :: rat)" for l r
    by (induction l arbitrary: r) auto
  then show ?thesis unfolding get_fastest_output_refresh_ms_def by simp
qed

lemma add_animation_sel:
  "am_progress_delta (add_animation a m) = am_progress_delta m" "a \<in> set (am_animations (add_animation a m))"
  "am_anims (add_animation a m) a = (am_anims m a)\<lparr>ani_progress := 0, ani_multiplier := 0, ani_initialized := True\<rparr>"
  by (simp_all add: add_animation_def Let_def)



end
