(* ===== verification/Transaction_Laws.thy ===== *)
theory Transaction_Laws
  imports Transaction Animation_Laws
begin

text \<open>
  The protocol of \<open>Transaction\<close> as a transition system: events change the tree and commit, a
  view answers, a timer fires. In every reachable state the reference counts are those of the
  two transactions, the counter of the queued one is the number of views still to answer,
  nothing freed is referred to, and nothing destroyed is lost; a commit reaches the current
  state as a whole.
\<close>

section \<open>The invariant\<close>

definition nodes_of :: "sway_transaction option \<Rightarrow> sway_node list" where
  "nodes_of t = (case t of None \<Rightarrow> [] | Some t \<Rightarrow> map ins_node (txn_instructions t))"

lemma nodes_of_simps [simp]: "nodes_of None = []" "nodes_of (Some t) = map ins_node (txn_instructions t)"
  by (simp_all add: nodes_of_def)

text \<open>Reference counts, with the nodes \<open>L\<close> of the queued transaction that still count.\<close>

definition refs_ok :: "sway_node list \<Rightarrow> txn_state \<Rightarrow> bool" where
  "refs_ok L x = ((\<forall>n. tx_refs x n = count_list L n + count_list (nodes_of (tx_pending x)) n) \<and>
     distinct L \<and> distinct (nodes_of (tx_pending x)))"

text \<open>Memory: what is freed is unreachable, what is destroyed is freed or on its way.\<close>

definition closing :: "txn_state \<Rightarrow> sway_node \<Rightarrow> bool" where
  "closing x n = (\<exists>c. n = N_CONTAINER c \<and> cas_close_running (tx_con_anim x c) \<and> 0 < cas_close_timer (tx_con_anim x c))"

definition mem_but :: "sway_node set \<Rightarrow> txn_state \<Rightarrow> bool" where
  "mem_but N x = ((\<forall>n. tx_freed x n \<longrightarrow> node_destroying (tx_sway x) n \<and> tx_refs x n = 0 \<and> \<not> closing x n) \<and>
     (\<forall>n. n \<notin> N \<longrightarrow> node_destroying (tx_sway x) n \<longrightarrow>
        tx_freed x n \<or> n \<in> set (dirty_nodes (tx_sway x)) \<or> 0 < tx_refs x n \<or> closing x n) \<and>
     (\<forall>c. 0 < cas_close_timer (tx_con_anim x c) \<longrightarrow> node_destroying (tx_sway x) (N_CONTAINER c) \<and> \<not> tx_freed x (N_CONTAINER c)) \<and>
     \<not> node_destroying (tx_sway x) N_ROOT)"

abbreviation mem_ok :: "txn_state \<Rightarrow> bool" where
  "mem_ok \<equiv> mem_but {}"

text \<open>The animations of a freed container or workspace do not run.\<close>

definition anim_ok :: "txn_state \<Rightarrow> bool" where
  "anim_ok x = (am_ok (tx_anim x) \<and>
     (\<forall>c. tx_freed x (N_CONTAINER c) \<longrightarrow>
        con_anim c \<notin> set (am_animations (tx_anim x)) \<and> con_open_anim c \<notin> set (am_animations (tx_anim x))) \<and>
     (\<forall>w. tx_freed x (N_WORKSPACE w) \<longrightarrow>
        ws_scroll_anim w \<notin> set (am_animations (tx_anim x)) \<and> ws_switch_anim w \<notin> set (am_animations (tx_anim x))))"

definition core_ok :: "sway_node list \<Rightarrow> txn_state \<Rightarrow> bool" where
  "core_ok L x = (refs_ok L x \<and> mem_ok x \<and> anim_ok x \<and>
     (\<forall>n \<in> set (dirty_nodes (tx_sway x)). \<not> node_destroying (tx_sway x) n))"

lemma core_ok_cong:
  assumes "tx_refs y = tx_refs x" "tx_pending y = tx_pending x" "tx_sway y = tx_sway x" "tx_freed y = tx_freed x"
    "tx_con_anim y = tx_con_anim x" "tx_anim y = tx_anim x"
  shows "core_ok L y = core_ok L x"
  unfolding core_ok_def refs_ok_def mem_but_def closing_def anim_ok_def assms ..

lemma con_anim_inj [simp]: "con_anim c = con_anim d \<longleftrightarrow> c = d" "con_open_anim c = con_open_anim d \<longleftrightarrow> c = d"
    "ws_scroll_anim c = ws_scroll_anim d \<longleftrightarrow> c = d" "ws_switch_anim c = ws_switch_anim d \<longleftrightarrow> c = d"
    "con_anim c \<noteq> con_open_anim d" "con_open_anim d \<noteq> con_anim c" "ws_scroll_anim c \<noteq> ws_switch_anim d"
    "ws_switch_anim d \<noteq> ws_scroll_anim c" "con_anim c \<noteq> ws_scroll_anim d" "ws_scroll_anim d \<noteq> con_anim c"
    "con_anim c \<noteq> ws_switch_anim d" "ws_switch_anim d \<noteq> con_anim c" "con_open_anim c \<noteq> ws_scroll_anim d"
    "ws_scroll_anim d \<noteq> con_open_anim c" "con_open_anim c \<noteq> ws_switch_anim d" "ws_switch_anim d \<noteq> con_open_anim c"
  by (simp_all add: con_anim_def con_open_anim_def ws_scroll_anim_def ws_switch_anim_def) presburger+

section \<open>Freeing\<close>

lemma upd_cas_sel [simp]:
  "tx_sway (upd_cas c f x) = tx_sway x" "tx_anim (upd_cas c f x) = tx_anim x" "tx_refs (upd_cas c f x) = tx_refs x"
  "tx_instruction (upd_cas c f x) = tx_instruction x" "tx_queued (upd_cas c f x) = tx_queued x"
  "tx_pending (upd_cas c f x) = tx_pending x" "tx_saved (upd_cas c f x) = tx_saved x"
  "tx_freed (upd_cas c f x) = tx_freed x" "tx_closing (upd_cas c f x) = tx_closing x"
  "tx_con_anim (upd_cas c f x) = (tx_con_anim x)(c := f (tx_con_anim x c))"
  "tx_noatomic (upd_cas c f x) = tx_noatomic x" "tx_txn_wait (upd_cas c f x) = tx_txn_wait x"
  "tx_ws_current (upd_cas c f x) = tx_ws_current x" "tx_out_current (upd_cas c f x) = tx_out_current x"
  by (simp_all add: upd_cas_def)

lemma stop_animation_sel [simp]:
  "tx_sway (stop_animation a x) = tx_sway x" "tx_refs (stop_animation a x) = tx_refs x"
  "tx_instruction (stop_animation a x) = tx_instruction x" "tx_queued (stop_animation a x) = tx_queued x"
  "tx_pending (stop_animation a x) = tx_pending x" "tx_saved (stop_animation a x) = tx_saved x"
  "tx_freed (stop_animation a x) = tx_freed x" "tx_closing (stop_animation a x) = tx_closing x"
  "tx_con_anim (stop_animation a x) = tx_con_anim x"
  "tx_noatomic (stop_animation a x) = tx_noatomic x" "tx_txn_wait (stop_animation a x) = tx_txn_wait x"
  "tx_ws_current (stop_animation a x) = tx_ws_current x" "tx_out_current (stop_animation a x) = tx_out_current x"
  by (simp_all add: stop_animation_def)

lemma cancel_sel [simp]:
  "tx_sway (transaction_close_animation_cancel c x) = tx_sway x" "tx_refs (transaction_close_animation_cancel c x) = tx_refs x"
  "tx_instruction (transaction_close_animation_cancel c x) = tx_instruction x"
  "tx_queued (transaction_close_animation_cancel c x) = tx_queued x"
  "tx_pending (transaction_close_animation_cancel c x) = tx_pending x"
  "tx_freed (transaction_close_animation_cancel c x) = tx_freed x" "tx_anim (transaction_close_animation_cancel c x) = tx_anim x"
  "tx_con_anim (transaction_close_animation_cancel c x) =
     (tx_con_anim x)(c := (tx_con_anim x c)\<lparr>cas_close_timer := 0, cas_close_running := False\<rparr>)"
  "tx_noatomic (transaction_close_animation_cancel c x) = tx_noatomic x"
  "tx_txn_wait (transaction_close_animation_cancel c x) = tx_txn_wait x"
  "tx_ws_current (transaction_close_animation_cancel c x) = tx_ws_current x"
  "tx_out_current (transaction_close_animation_cancel c x) = tx_out_current x"
  by (simp_all add: transaction_close_animation_cancel_def Let_def)

lemma stop_animation_list:
  assumes "am_ok (tx_anim x)"
  shows "am_ok (tx_anim (stop_animation a x))"
    "set (am_animations (tx_anim (stop_animation a x))) = set (am_animations (tx_anim x)) - {a}"
  using assms by (auto simp: stop_animation_def am_ok_def distinct_remove1)

text \<open>Everything but the memory and the animations stays.\<close>

definition same_txn :: "txn_state \<Rightarrow> txn_state \<Rightarrow> bool" where
  "same_txn x y = (tx_sway y = tx_sway x \<and> tx_refs y = tx_refs x \<and> tx_instruction y = tx_instruction x \<and>
     tx_queued y = tx_queued x \<and> tx_pending y = tx_pending x \<and> tx_noatomic y = tx_noatomic x \<and>
     tx_txn_wait y = tx_txn_wait x \<and> tx_ws_current y = tx_ws_current x \<and> tx_out_current y = tx_out_current x)"

lemma same_txn_free [simp]: "same_txn x (free_node n y) = same_txn x y"
  by (simp add: same_txn_def free_node_def)

lemma same_container_destroy: "same_txn x (container_destroy c x)"
  by (simp add: container_destroy_def) (simp add: same_txn_def)

lemma same_destroy_node: "same_txn x (destroy_node n x)"
proof (cases n)
  case (N_CONTAINER c)
  have "same_txn x (snd (container_start_close_animation c x))"
    by (simp add: container_start_close_animation_def same_txn_def Let_def)
  moreover have "container_start_close_animation c x = (False, y) \<Longrightarrow> y = x" for y
    by (simp add: container_start_close_animation_def Let_def split: if_splits)
  ultimately show ?thesis using N_CONTAINER same_container_destroy [of x c]
    by (auto simp: destroy_node_def split: prod.split bool.split)
qed (simp_all add: destroy_node_def output_destroy_def workspace_destroy_def, simp_all add: same_txn_def)

lemma freed_free_node [simp]: "tx_freed (free_node n x) = (tx_freed x)(n := True)"
  "tx_con_anim (free_node n x) = tx_con_anim x" "tx_anim (free_node n x) = tx_anim x"
  "tx_sway (free_node n x) = tx_sway x" "tx_refs (free_node n x) = tx_refs x"
  by (simp_all add: free_node_def)

lemma mem_free_other:
  assumes "mem_but {n} x" "node_destroying (tx_sway x) n" "tx_refs x n = 0" "\<forall>c. n \<noteq> N_CONTAINER c"
  shows "mem_ok (free_node n x)"
  using assms by (auto simp: mem_but_def closing_def)

lemma container_destroy_mem:
  assumes "mem_but {N_CONTAINER c} x" "node_destroying (tx_sway x) (N_CONTAINER c)" "tx_refs x (N_CONTAINER c) = 0"
  shows "mem_ok (container_destroy c x)"
  using assms by (auto simp: mem_but_def closing_def container_destroy_def)

lemma container_destroy_anim: "anim_ok x \<Longrightarrow> anim_ok (container_destroy c x)"
  unfolding anim_ok_def container_destroy_def
  by (auto simp: stop_animation_list)

lemma start_close_mem:
  assumes "mem_but {N_CONTAINER c} x" "node_destroying (tx_sway x) (N_CONTAINER c)" "\<not> tx_freed x (N_CONTAINER c)"
    "container_start_close_animation c x = (True, y)"
  shows "mem_ok y"
proof -
  have d: "0 < c_trunc d" if "1 < d" for d :: rat using that by (simp add: c_trunc_def)
  obtain a where y: "tx_con_anim y = (tx_con_anim x)(c := a)" "cas_close_running a" "0 < cas_close_timer a"
    "tx_sway y = tx_sway x" "tx_refs y = tx_refs x" "tx_freed y = tx_freed x"
    using assms(4) d by (auto simp: container_start_close_animation_def Let_def split: if_splits)
  have cl: "closing y n \<longleftrightarrow> n = N_CONTAINER c \<or> closing x n" for n
    using y(2,3) by (cases n) (auto simp: closing_def y(1))
  show ?thesis using assms(1-3) unfolding mem_but_def cl y(4-6)
    by (auto simp: y(1))
qed

lemma add_animation_list:
  assumes "am_ok m"
  shows "set (am_animations (add_animation a m)) = insert a (set (am_animations m))"
  using assms by (auto simp: add_animation_def am_ok_def Let_def)

lemma am_ok_upd_anim: "am_ok m \<Longrightarrow> ani_initialized (f (am_anims m a)) = ani_initialized (am_anims m a) \<Longrightarrow> am_ok (upd_anim a f m)"
  by (auto simp: am_ok_def)

lemma start_animations_sel [simp]:
  "am_animations (start_animations config m) = am_animations m" "am_anims (start_animations config m) = am_anims m"
  "am_ok (start_animations config m) = am_ok m"
  by (simp_all add: start_animations_def am_ok_def)

lemma start_close_anim:
  assumes "anim_ok x" "\<not> tx_freed x (N_CONTAINER c)" "container_start_close_animation c x = (True, y)"
  shows "anim_ok y"
proof -
  let ?m = "upd_anim (con_open_anim c) (\<lambda>a. a\<lparr>ani_kind := ANIMATION_KIND_CLOSE,
      ani_duration_scale := animation_scale_for_kind (cfg_animation (cfg (tx_sway x))) ANIMATION_KIND_CLOSE,
      ani_delay := 0\<rparr>) (tx_anim (stop_animation (con_anim c) x))"
  have ok: "am_ok ?m" using assms(1) by (intro am_ok_upd_anim stop_animation_list(1)) (simp_all add: anim_ok_def)
  have "tx_anim y = start_animations (cfg_animation (cfg (tx_sway x))) (add_animation (con_open_anim c) ?m)"
    "tx_freed y = tx_freed x"
    using assms(3) by (auto simp: container_start_close_animation_def Let_def split: if_splits)
  then show ?thesis using assms(1,2) ok
    by (auto simp: anim_ok_def am_ok_add add_animation_list stop_animation_list)
qed

lemma destroy_node_ok:
  assumes "mem_but {n} x" "anim_ok x" "node_destroying (tx_sway x) n" "tx_refs x n = 0" "\<not> tx_freed x n"
  shows "mem_ok (destroy_node n x) \<and> anim_ok (destroy_node n x)"
proof (cases n)
  case N_ROOT
  then show ?thesis using assms(1,3) by (simp add: mem_but_def)
next
  case (N_CONTAINER c)
  obtain b y where s: "container_start_close_animation c x = (b, y)" by fastforce
  show ?thesis
  proof (cases b)
    case True
    then show ?thesis using start_close_mem [of c x y] start_close_anim [of x c y] assms s N_CONTAINER
      by (simp add: destroy_node_def)
  next
    case False
    then have "y = x" using s by (simp add: container_start_close_animation_def Let_def split: if_splits)
    then show ?thesis using False s assms N_CONTAINER container_destroy_mem [of c x] container_destroy_anim [of x c]
      by (simp add: destroy_node_def)
  qed
next
  case (N_WORKSPACE w)
  let ?y = "stop_animation (ws_switch_anim w) (stop_animation (ws_scroll_anim w) x)"
  have "mem_ok (free_node n x)" using assms mem_free_other [of n x] N_WORKSPACE by simp
  then have "mem_ok (free_node n ?y)" by (simp add: mem_but_def closing_def)
  moreover have "anim_ok (free_node n ?y)"
    using assms(2) N_WORKSPACE by (auto simp: anim_ok_def stop_animation_list)
  ultimately show ?thesis using assms N_WORKSPACE by (simp add: destroy_node_def workspace_destroy_def)
qed (use assms mem_free_other [of n x] in \<open>simp_all add: destroy_node_def output_destroy_def anim_ok_def\<close>)

text \<open>What a transaction touches besides the reference counts and the memory.\<close>

definition same_view :: "txn_state \<Rightarrow> txn_state \<Rightarrow> bool" where
  "same_view x y = (tx_sway y = tx_sway x \<and> tx_queued y = tx_queued x \<and> tx_pending y = tx_pending x \<and>
     tx_noatomic y = tx_noatomic x \<and> tx_txn_wait y = tx_txn_wait x \<and>
     tx_ws_current y = tx_ws_current x \<and> tx_out_current y = tx_out_current x \<and>
     (\<forall>n. tx_instruction y n = tx_instruction x n \<or> tx_instruction y n = None))"

lemma same_view_refl: "same_view x x"
  by (simp add: same_view_def)

lemma same_view_trans: "same_view x y \<Longrightarrow> same_view y z \<Longrightarrow> same_view x z"
  unfolding same_view_def by metis

lemma release_instruction_ok:
  assumes "core_ok (ins_node i # L) x"
  shows "core_ok L (release_instruction k i x) \<and> same_view x (release_instruction k i x)"
proof -
  let ?n = "ins_node i"
  define x2 where "x2 = (let x1 = x\<lparr>tx_refs := (tx_refs x)(?n := tx_refs x ?n - 1)\<rparr> in
    if tx_instruction x1 ?n = Some k then x1\<lparr>tx_instruction := (tx_instruction x1)(?n := None)\<rparr> else x1)"
  have sel: "tx_sway x2 = tx_sway x" "tx_pending x2 = tx_pending x" "tx_freed x2 = tx_freed x"
    "tx_con_anim x2 = tx_con_anim x" "tx_anim x2 = tx_anim x" "tx_refs x2 = (tx_refs x)(?n := tx_refs x ?n - 1)"
    by (simp_all add: x2_def Let_def)
  have sv: "same_view x x2" by (simp add: x2_def same_view_def Let_def)
  have r: "release_instruction k i x =
      (if node_destroying (tx_sway x2) ?n \<and> tx_refs x2 ?n = 0 then destroy_node ?n x2 else x2)"
    by (simp add: release_instruction_def x2_def Let_def)
  have refs: "refs_ok L x2" and pos: "0 < tx_refs x ?n" using assms by (auto simp: core_ok_def refs_ok_def sel)
  then have nf: "\<not> tx_freed x ?n" using assms by (auto simp: core_ok_def mem_but_def)
  have mem: "mem_but {?n} x2" and memok: "0 < tx_refs x2 ?n \<or> \<not> node_destroying (tx_sway x2) ?n \<Longrightarrow> mem_ok x2"
    using assms nf by (auto simp: core_ok_def mem_but_def closing_def sel)
  have an: "anim_ok x2" using assms by (auto simp: core_ok_def anim_ok_def sel)
  have dirty: "\<forall>n \<in> set (dirty_nodes (tx_sway x)). \<not> node_destroying (tx_sway x) n" using assms by (simp add: core_ok_def)
  show ?thesis
  proof (cases "node_destroying (tx_sway x2) ?n \<and> tx_refs x2 ?n = 0")
    case True
    note s = same_destroy_node [of x2 ?n, unfolded same_txn_def]
    have "mem_ok (destroy_node ?n x2) \<and> anim_ok (destroy_node ?n x2)"
      using destroy_node_ok [OF mem an] True nf sel by simp
    then show ?thesis using True s refs dirty sv unfolding r
      by (simp add: core_ok_def refs_ok_def sel same_view_def)
  next
    case False
    then have "mem_ok x2" by (intro memok) auto
    moreover have "release_instruction k i x = x2" using False r by auto
    ultimately show ?thesis using an refs dirty sv by (simp add: core_ok_def sel)
  qed
qed

lemma release_instructions_ok:
  "core_ok (map ins_node is) x \<Longrightarrow>
   core_ok [] (release_instructions k is x) \<and> same_view x (release_instructions k is x)"
proof (induction k "is" x rule: release_instructions.induct)
  case (2 k i "is" x)
  have r: "core_ok (map ins_node is) (release_instruction k i x)" "same_view x (release_instruction k i x)"
    using release_instruction_ok [of i "map ins_node is" x k] "2.prems" by simp_all
  show ?case using "2.IH" [OF r(1)] r(2) by (auto intro: same_view_trans)
qed (simp add: same_view_refl)

section \<open>Applying\<close>

text \<open>
  Applying changes the current states and the animations. The rest of the tree stays, in
  particular what \<open>view_is_visible\<close> reads.
\<close>

definition same_tree :: "sway \<Rightarrow> sway \<Rightarrow> bool" where
  "same_tree s s' = (node_dirty s' = node_dirty s \<and> dirty_nodes s' = dirty_nodes s \<and> node_destroying s' = node_destroying s \<and>
     next_id s' = next_id s \<and> fullscreen_global s' = fullscreen_global s \<and> cfg s' = cfg s \<and>
     (\<forall>w. ws_output (wss s' w) = ws_output (wss s w)) \<and>
     (\<forall>c. con_view (cons s' c) = con_view (cons s c) \<and> con_pending (cons s' c) = con_pending (cons s c)))"

lemma same_tree_refl: "same_tree s s" and same_tree_trans: "same_tree s t \<Longrightarrow> same_tree t u \<Longrightarrow> same_tree s u"
  by (simp_all add: same_tree_def)

definition applied :: "txn_state \<Rightarrow> txn_state \<Rightarrow> bool" where
  "applied x y = (same_tree (tx_sway x) (tx_sway y) \<and> tx_refs y = tx_refs x \<and> tx_queued y = tx_queued x \<and>
     tx_pending y = tx_pending x \<and> tx_freed y = tx_freed x \<and> tx_noatomic y = tx_noatomic x \<and>
     tx_txn_wait y = tx_txn_wait x \<and>
     (\<forall>c. cas_close_running (tx_con_anim y c) = cas_close_running (tx_con_anim x c) \<and>
          cas_close_timer (tx_con_anim y c) = cas_close_timer (tx_con_anim x c)))"

lemma applied_refl: "applied x x" and applied_trans: "applied x y \<Longrightarrow> applied y z \<Longrightarrow> applied x z"
  by (auto simp: applied_def intro: same_tree_refl same_tree_trans)

lemma start_move_applied: "applied x (start_move_animation c kind x)"
  by (simp add: start_move_animation_def applied_def same_tree_refl Let_def split: prod.split)

lemma start_move_anim_ok:
  assumes "anim_ok x" "\<not> tx_freed x (N_CONTAINER c)"
  shows "anim_ok (start_move_animation c kind x)"
proof -
  let ?m = "upd_anim (con_anim c) (\<lambda>y. y\<lparr>ani_kind := kind,
      ani_duration_scale := animation_scale_for_kind (cfg_animation (cfg (tx_sway x))) kind\<rparr>) (tx_anim x)"
  have "am_ok ?m" using assms(1) by (intro am_ok_upd_anim) (simp_all add: anim_ok_def)
  moreover have "tx_anim (start_move_animation c kind x) = add_animation (con_anim c) ?m"
    "tx_freed (start_move_animation c kind x) = tx_freed x"
    by (simp_all add: start_move_animation_def Let_def split: prod.split)
  ultimately show ?thesis using assms by (auto simp: anim_ok_def am_ok_add add_animation_list)
qed

lemma animate_change_ok:
  assumes "animate_change c st x = (b, y)"
  shows "applied x y" "anim_ok x \<Longrightarrow> mem_ok x \<Longrightarrow> anim_ok y" "tx_sway y = tx_sway x" "tx_saved y = tx_saved x"
    "tx_ws_current y = tx_ws_current x" "tx_out_current y = tx_out_current x" "tx_instruction y = tx_instruction x"
proof -
  have "y = x \<or> (\<not> node_destroying (tx_sway x) (N_CONTAINER c) \<and> (\<exists>kind. y = start_move_animation c kind x))"
    using assms by (auto simp: animate_change_def Let_def split: if_splits)
  moreover have "mem_ok x \<Longrightarrow> \<not> node_destroying (tx_sway x) (N_CONTAINER c) \<Longrightarrow> \<not> tx_freed x (N_CONTAINER c)"
    by (auto simp: mem_but_def)
  ultimately show "applied x y" "anim_ok x \<Longrightarrow> mem_ok x \<Longrightarrow> anim_ok y" "tx_sway y = tx_sway x" "tx_saved y = tx_saved x"
    "tx_ws_current y = tx_ws_current x" "tx_out_current y = tx_out_current x" "tx_instruction y = tx_instruction x"
    by (auto simp: applied_refl start_move_applied start_move_anim_ok)
      (simp_all add: start_move_animation_def Let_def split: prod.splits)
qed

text \<open>The current state of a node as one value, and instructions whose state is of their node's kind.\<close>

fun current_state :: "txn_state \<Rightarrow> sway_node \<Rightarrow> instruction_state" where
  "current_state x N_ROOT = NO_STATE"
| "current_state x (N_OUTPUT out) = OUTPUT_STATE (tx_out_current x out)"
| "current_state x (N_WORKSPACE w) = WORKSPACE_STATE (tx_ws_current x w)"
| "current_state x (N_CONTAINER c) = CONTAINER_STATE (con_current (cons (tx_sway x) c))"

fun state_fits :: "sway_node \<Rightarrow> instruction_state \<Rightarrow> bool" where
  "state_fits N_ROOT NO_STATE = True"
| "state_fits (N_OUTPUT out) (OUTPUT_STATE st) = True"
| "state_fits (N_WORKSPACE w) (WORKSPACE_STATE st) = True"
| "state_fits (N_CONTAINER c) (CONTAINER_STATE st) = True"
| "state_fits _ _ = False"

definition typed :: "sway_transaction_instruction list \<Rightarrow> bool" where
  "typed is = (\<forall>i \<in> set is. state_fits (ins_node i) (ins_state i))"

lemma copy_state_fits [simp]: "state_fits n (copy_state s n)"
  by (cases n) simp_all

lemma apply_container_state_sel:
  "applied x (apply_container_state c st x)" "tx_anim (apply_container_state c st x) = tx_anim x"
  "tx_con_anim (apply_container_state c st x) = tx_con_anim x"
  "tx_instruction (apply_container_state c st x) = tx_instruction x"
  "tx_ws_current (apply_container_state c st x) = tx_ws_current x"
  "tx_out_current (apply_container_state c st x) = tx_out_current x"
  "con_current (cons (tx_sway (apply_container_state c st x)) d) = (if d = c then st else con_current (cons (tx_sway x) d))"
  by (auto simp: apply_container_state_def applied_def same_tree_def upd_con_def Let_def)

lemma mem_ok_applied:
  assumes "applied x y" "mem_but N x"
  shows "mem_but N y"
proof -
  have "closing y = closing x" using assms(1) by (auto simp: applied_def closing_def fun_eq_iff)
  then show ?thesis using assms by (auto simp: applied_def mem_but_def same_tree_def)
qed

lemma apply_instruction_ok:
  assumes "apply_instruction i (b, x) = (b', y)" "mem_ok x" "anim_ok x" "state_fits (ins_node i) (ins_state i)"
  shows "applied x y \<and> mem_ok y \<and> anim_ok y \<and> tx_instruction y = (tx_instruction x)(ins_node i := None) \<and>
    current_state y = (current_state x)(ins_node i := ins_state i)"
proof -
  obtain b1 x1 where x1: "y = x1\<lparr>tx_instruction := (tx_instruction x1)(ins_node i := None)\<rparr>"
    "applied x x1" "anim_ok x1" "tx_instruction x1 = tx_instruction x"
    "current_state x1 = (current_state x)(ins_node i := ins_state i)"
  proof (cases "ins_node i")
    case N_ROOT
    then have "ins_state i = NO_STATE" using assms(4) by (cases "ins_state i") simp_all
    then have "y = x\<lparr>tx_instruction := (tx_instruction x)(ins_node i := None)\<rparr>"
      "current_state x = (current_state x)(ins_node i := ins_state i)"
      using assms(1) N_ROOT by (auto simp: apply_instruction_def fun_eq_iff)
    then show ?thesis using that [of x] assms(3) applied_refl by blast
  next
    case (N_OUTPUT out)
    then obtain st where st: "ins_state i = OUTPUT_STATE st" using assms(4) by (cases "ins_state i") simp_all
    let ?x = "apply_output_state out st x"
    have "\<forall>n. current_state ?x n = ((current_state x)(ins_node i := ins_state i)) n"
      using st N_OUTPUT by (intro allI, case_tac n) (simp_all add: apply_output_state_def)
    moreover have "applied x ?x" "anim_ok ?x" using assms(3)
      by (simp_all add: apply_output_state_def applied_def same_tree_refl anim_ok_def)
    moreover have "y = ?x\<lparr>tx_instruction := (tx_instruction ?x)(ins_node i := None)\<rparr>"
      using assms(1) st N_OUTPUT by (simp add: apply_instruction_def)
    ultimately show ?thesis by (intro that [of ?x] ext) (simp_all add: apply_output_state_def)
  next
    case (N_WORKSPACE w)
    then obtain st where st: "ins_state i = WORKSPACE_STATE st" using assms(4) by (cases "ins_state i") simp_all
    let ?x = "apply_workspace_state w st x"
    have "\<forall>n. current_state ?x n = ((current_state x)(ins_node i := ins_state i)) n"
      using st N_WORKSPACE by (intro allI, case_tac n) (simp_all add: apply_workspace_state_def upd_ws_def)
    moreover have "applied x ?x" "anim_ok ?x" using assms(3)
      by (simp_all add: apply_workspace_state_def applied_def same_tree_def upd_ws_def anim_ok_def)
    moreover have "y = ?x\<lparr>tx_instruction := (tx_instruction ?x)(ins_node i := None)\<rparr>"
      using assms(1) st N_WORKSPACE by (simp add: apply_instruction_def)
    ultimately show ?thesis by (intro that [of ?x] ext) (simp_all add: apply_workspace_state_def)
  next
    case (N_CONTAINER c)
    then obtain st where st: "ins_state i = CONTAINER_STATE st" using assms(4) by (cases "ins_state i") simp_all
    obtain b2 x2 where a: "animate_change c st x = (b2, x2)" by fastforce
    note ac = animate_change_ok [OF a]
    let ?x = "apply_container_state c st x2"
    have "\<forall>n. current_state ?x n = ((current_state x)(ins_node i := ins_state i)) n"
      using st N_CONTAINER ac by (intro allI, case_tac n) (simp_all add: apply_container_state_sel)
    moreover have "applied x ?x" using ac(1) apply_container_state_sel(1) by (rule applied_trans)
    moreover have "anim_ok ?x" using ac(2) [OF assms(3,2)] apply_container_state_sel(1) [of x2 c st]
      by (simp add: anim_ok_def apply_container_state_sel applied_def)
    moreover have "y = ?x\<lparr>tx_instruction := (tx_instruction ?x)(ins_node i := None)\<rparr>"
      using assms(1) st N_CONTAINER a by (simp add: apply_instruction_def)
    ultimately show ?thesis by (intro that [of ?x] ext) (simp_all add: apply_container_state_sel ac)
  qed
  have ap: "applied x y" using x1(2) by (simp add: x1(1) applied_def)
  moreover have "mem_ok y" using mem_ok_applied [OF ap assms(2)] .
  moreover have "current_state y = current_state x1" by (rule ext, case_tac x) (simp_all add: x1(1))
  moreover have "anim_ok y" "tx_instruction y = (tx_instruction x)(ins_node i := None)"
    using x1(3,4) by (simp_all add: x1(1) anim_ok_def)
  ultimately show ?thesis using x1(5) by simp
qed

lemma fold_apply_ok:
  assumes "fold apply_instruction is (b, x) = (b', y)" "mem_ok x" "anim_ok x" "typed is" "distinct (map ins_node is)"
  shows "applied x y \<and> mem_ok y \<and> anim_ok y \<and>
    (\<forall>n. tx_instruction y n = (if n \<in> set (map ins_node is) then None else tx_instruction x n)) \<and>
    (\<forall>n. n \<notin> set (map ins_node is) \<longrightarrow> current_state y n = current_state x n) \<and>
    (\<forall>i \<in> set is. current_state y (ins_node i) = ins_state i)"
  using assms
proof (induction "is" arbitrary: b x)
  case (Cons i "is")
  obtain b1 x1 where a: "apply_instruction i (b, x) = (b1, x1)" by fastforce
  have i: "applied x x1 \<and> mem_ok x1 \<and> anim_ok x1 \<and> tx_instruction x1 = (tx_instruction x)(ins_node i := None) \<and>
    current_state x1 = (current_state x)(ins_node i := ins_state i)"
    using apply_instruction_ok [OF a Cons.prems(2,3)] Cons.prems(4) by (simp add: typed_def)
  have "applied x1 y \<and> mem_ok y \<and> anim_ok y \<and>
    (\<forall>n. tx_instruction y n = (if n \<in> set (map ins_node is) then None else tx_instruction x1 n)) \<and>
    (\<forall>n. n \<notin> set (map ins_node is) \<longrightarrow> current_state y n = current_state x1 n) \<and>
    (\<forall>i \<in> set is. current_state y (ins_node i) = ins_state i)"
    using Cons.IH [of b1 x1] Cons.prems a i by (simp add: typed_def)
  then show ?case using i Cons.prems(5) by (auto intro: applied_trans)
qed (simp add: applied_refl)

lemma transaction_apply_ok:
  assumes "mem_ok x" "anim_ok x" "typed (txn_instructions t)" "distinct (nodes_of (Some t))"
  shows "applied x (transaction_apply t x) \<and> mem_ok (transaction_apply t x) \<and> anim_ok (transaction_apply t x) \<and>
    (\<forall>n. tx_instruction (transaction_apply t x) n = (if n \<in> set (nodes_of (Some t)) then None else tx_instruction x n)) \<and>
    (\<forall>n. n \<notin> set (nodes_of (Some t)) \<longrightarrow> current_state (transaction_apply t x) n = current_state x n) \<and>
    (\<forall>i \<in> set (txn_instructions t). current_state (transaction_apply t x) (ins_node i) = ins_state i)"
proof -
  obtain b y where f: "fold apply_instruction (txn_instructions t) (False, x) = (b, y)" by fastforce
  define z where "z = transaction_apply t x"
  have z: "tx_anim z = (if b then start_animations (cfg_animation (cfg (tx_sway y))) (tx_anim y) else tx_anim y)"
    "applied y z" "tx_instruction z = tx_instruction y" "tx_freed z = tx_freed y" "\<And>n. current_state z n = current_state y n"
    subgoal by (simp add: z_def transaction_apply_def f)
    subgoal by (simp add: z_def transaction_apply_def f applied_def same_tree_refl)
    subgoal by (simp add: z_def transaction_apply_def f)
    subgoal by (simp add: z_def transaction_apply_def f)
    subgoal for n by (cases n) (simp_all add: z_def transaction_apply_def f)
    done
  have "anim_ok z \<longleftrightarrow> anim_ok y" using z(1,4) by (simp add: anim_ok_def)
  moreover have "mem_ok y \<Longrightarrow> mem_ok z" using z(2) mem_ok_applied by blast
  ultimately show ?thesis using fold_apply_ok [OF f] assms z(2,3,5) unfolding z_def [symmetric]
    by (auto intro: applied_trans)
qed

section \<open>Committing\<close>

text \<open>\<open>view_is_visible\<close> follows no null pointer when the workspaces of containers have outputs.\<close>

definition vis_ok :: "sway \<Rightarrow> bool" where
  "vis_ok s = ((\<forall>c w. workspace_of s c = Some w \<longrightarrow> ws_output (wss s w) \<noteq> None) \<and>
     (fullscreen_global s = None \<longrightarrow> (\<forall>c. fullscreen_mode_of s c \<noteq> FULLSCREEN_GLOBAL)))"

lemma view_is_visible_total: "vis_ok s \<Longrightarrow> view_is_visible s c \<noteq> None"
proof -
  assume v: "vis_ok s"
  have w: "\<exists>b. workspace_is_visible s w = Some b" if "workspace_of s c = Some w" for w
  proof -
    have "ws_output (wss s w) \<noteq> None" using v that unfolding vis_ok_def by blast
    then obtain out where "ws_output (wss s w) = Some out" by blast
    then show ?thesis by (auto simp: workspace_is_visible_def)
  qed
  have 1: "\<exists>b. (case workspace_of s c of
      Some w \<Rightarrow> if container_is_sticky_or_child s c then Some True else workspace_is_visible s w
    | None \<Rightarrow> Some True) = Some b"
    using w by (auto split: option.split)
  have 2: "\<exists>f. (case fullscreen_global s of Some f \<Rightarrow> Some (Some f)
      | None \<Rightarrow> map_option (\<lambda>w. ws_fullscreen (wss s w)) (workspace_of s c)) = Some f"
    if "\<not> (workspace_of s c = None \<and> fullscreen_mode_of s c \<noteq> FULLSCREEN_GLOBAL \<and>
              \<not> (\<exists>p \<in> set (ancestors s c). fullscreen_mode_of s p = FULLSCREEN_GLOBAL))"
    using v that unfolding vis_ok_def by (cases "fullscreen_global s"; cases "workspace_of s c") simp_all
  show ?thesis unfolding view_is_visible_def using 1 2 by (force simp del: not_None_eq)
qed

lemma vis_ok_same: "same_tree s s' \<Longrightarrow> vis_ok s' = vis_ok s"
  by (simp add: same_tree_def vis_ok_def)

definition committed :: "txn_state \<Rightarrow> txn_state \<Rightarrow> bool" where
  "committed x y = (tx_sway y = tx_sway x \<and> tx_refs y = tx_refs x \<and> tx_freed y = tx_freed x \<and> tx_anim y = tx_anim x \<and>
     tx_con_anim y = tx_con_anim x \<and> tx_pending y = tx_pending x \<and> tx_queued y = tx_queued x \<and>
     tx_noatomic y = tx_noatomic x \<and> tx_txn_wait y = tx_txn_wait x \<and>
     tx_ws_current y = tx_ws_current x \<and> tx_out_current y = tx_out_current x)"

lemma committed_refl: "committed x x" and committed_trans: "committed x y \<Longrightarrow> committed y z \<Longrightarrow> committed x z"
  by (simp_all add: committed_def)

lemma commit_instruction_ok:
  assumes "commit_instruction serials k i x = Some (i1, x1)"
  shows "ins_node i1 = ins_node i" "ins_state i1 = ins_state i" "committed x x1"
    "tx_instruction x1 = (tx_instruction x)(ins_node i := Some k)"
proof -
  obtain h where h: "instruction_hidden x (ins_node i) = Some h" using assms
    by (auto simp: commit_instruction_def bind_eq_Some_conv)
  have i1: "i1 = (if should_configure x i
               then i\<lparr>ins_serial := (case ins_node i of N_CONTAINER c \<Rightarrow> serials c | _ \<Rightarrow> 0),
                      ins_waiting := (ins_waiting i \<or> \<not> h)\<rparr>
               else i)"
    and x1: "x1 = (let x1 = (case ins_node i of
                 N_CONTAINER c \<Rightarrow>
                   if \<not> h \<and> con_view (cons (tx_sway x) c) \<noteq> None \<and> \<not> tx_saved x c
                   then x\<lparr>tx_saved := (tx_saved x)(c := True)\<rparr> else x
               | _ \<Rightarrow> x) in x1\<lparr>tx_instruction := (tx_instruction x1)(ins_node i := Some k)\<rparr>)"
    using assms h by (simp_all add: commit_instruction_def Let_def)
  show "ins_node i1 = ins_node i" "ins_state i1 = ins_state i" by (simp_all add: i1)
  show "committed x x1" "tx_instruction x1 = (tx_instruction x)(ins_node i := Some k)"
    unfolding x1 by (auto simp: committed_def Let_def split: sway_node.split)
qed

lemma commit_instruction_total: "vis_ok (tx_sway x) \<Longrightarrow> \<exists>i1 x1. commit_instruction serials k i x = Some (i1, x1)"
proof -
  assume v: "vis_ok (tx_sway x)"
  have "\<exists>h. instruction_hidden x (ins_node i) = Some h"
    using view_is_visible_total [OF v] by (cases "ins_node i") (auto simp: instruction_hidden_def)
  then show ?thesis unfolding commit_instruction_def Let_def by (metis bind.bind_lunit)
qed

lemma commit_instructions_ok:
  assumes "commit_instructions serials k is x = Some (is1, y)"
  shows "map ins_node is1 = map ins_node is \<and> map ins_state is1 = map ins_state is \<and> committed x y \<and>
    (\<forall>n. n \<notin> set (map ins_node is) \<longrightarrow> tx_instruction y n = tx_instruction x n) \<and>
    (distinct (map ins_node is) \<longrightarrow> (\<forall>j < length is. tx_instruction y (ins_node (is ! j)) = Some (k + j)))"
  using assms
proof (induction serials k "is" x arbitrary: is1 y rule: commit_instructions.induct)
  case (1 serials k x)
  then show ?case by (simp add: committed_refl)
next
  case (2 serials k i "is" x)
  obtain i1 x1 is2 where c: "commit_instruction serials k i x = Some (i1, x1)"
    "commit_instructions serials (Suc k) is x1 = Some (is2, y)" "is1 = i1 # is2"
    using "2.prems" by (auto simp: bind_eq_Some_conv)
  note h = commit_instruction_ok [OF c(1)]
  note t = "2.IH" [OF c(1) refl c(2)]
  have "tx_instruction y (ins_node ((i # is) ! j)) = Some (k + j)"
    if "distinct (map ins_node (i # is))" "j < length (i # is)" for j
    using that t h by (cases j) auto
  then show ?case using h t c(3) by (auto intro: committed_trans)
qed

lemma commit_instructions_total:
  "vis_ok (tx_sway x) \<Longrightarrow> \<exists>is1 y. commit_instructions serials k is x = Some (is1, y)"
proof (induction "is" arbitrary: k x)
  case (Cons i "is")
  obtain i1 x1 where c: "commit_instruction serials k i x = Some (i1, x1)" using commit_instruction_total Cons.prems by blast
  then have "tx_sway x1 = tx_sway x" using commit_instruction_ok(3) [OF c] by (simp add: committed_def)
  then obtain is1 y where "commit_instructions serials (Suc k) is x1 = Some (is1, y)" using Cons.IH Cons.prems by metis
  then show ?case using c by simp
qed simp

text \<open>The views that have not answered yet.\<close>

definition outstanding :: "txn_state \<Rightarrow> sway_transaction \<Rightarrow> nat set" where
  "outstanding x t = {k. k < length (txn_instructions t) \<and> ins_waiting (txn_instructions t ! k) \<and>
     tx_instruction x (ins_node (txn_instructions t ! k)) = Some k}"

definition queue_ok :: "txn_state \<Rightarrow> sway_transaction \<Rightarrow> bool" where
  "queue_ok x t = (typed (txn_instructions t) \<and> (0 < txn_num_waiting t \<longleftrightarrow> txn_timer t) \<and>
     (\<not> tx_noatomic x \<and> \<not> tx_txn_wait x \<longrightarrow> txn_num_waiting t = card (outstanding x t)) \<and>
     (\<forall>n k. tx_instruction x n = Some k \<longrightarrow> k < length (txn_instructions t) \<and> ins_node (txn_instructions t ! k) = n))"

lemma typed_list_all2: "typed xs = list_all2 state_fits (map ins_node xs) (map ins_state xs)"
  unfolding typed_def by (induction xs) simp_all

lemma typed_map: "map ins_node xs = map ins_node ys \<Longrightarrow> map ins_state xs = map ins_state ys \<Longrightarrow> typed xs = typed ys"
  by (simp add: typed_list_all2)

lemma transaction_commit_ok:
  assumes "transaction_commit serials t x = Some (t1, y)" "typed (txn_instructions t)" "distinct (nodes_of (Some t))"
    "\<forall>n. tx_instruction x n = None"
  shows "nodes_of (Some t1) = nodes_of (Some t)" "map ins_state (txn_instructions t1) = map ins_state (txn_instructions t)"
    "committed x y" "queue_ok y t1"
proof -
  obtain is1 where c: "commit_instructions serials 0 (txn_instructions t) x = Some (is1, y)"
    and t1: "t1 = (let n = length (filter ins_waiting is1);
        num_waiting = (if tx_noatomic x then 0 else if tx_txn_wait x then n + 1000000 else n) in
        t\<lparr>txn_instructions := is1, txn_num_configures := n, txn_num_waiting := num_waiting, txn_timer := (num_waiting > 0)\<rparr>)"
    using assms(1) by (auto simp: transaction_commit_def bind_eq_Some_conv Let_def)
  note ok = commit_instructions_ok [OF c]
  have is1: "txn_instructions t1 = is1" by (simp add: t1 Let_def)
  show "nodes_of (Some t1) = nodes_of (Some t)" "map ins_state (txn_instructions t1) = map ins_state (txn_instructions t)"
    "committed x y" using ok is1 by simp_all
  have len: "length is1 = length (txn_instructions t)" using ok by (metis length_map)
  have nth: "j < length is1 \<Longrightarrow> ins_node (is1 ! j) = ins_node (txn_instructions t ! j)" for j
    using ok len by (metis nth_map)
  have ptr: "j < length is1 \<Longrightarrow> tx_instruction y (ins_node (is1 ! j)) = Some j" for j
    using ok len nth assms(3) by simp
  then have "outstanding y t1 = {k. k < length is1 \<and> ins_waiting (is1 ! k)}" by (auto simp: outstanding_def is1)
  then have "card (outstanding y t1) = length (filter ins_waiting is1)"
    by (simp add: length_filter_conv_card)
  moreover have "k < length is1 \<and> ins_node (is1 ! k) = n" if "tx_instruction y n = Some k" for n k
  proof -
    have "n \<in> set (map ins_node (txn_instructions t))" using that ok assms(4) by (metis option.distinct(1))
    then obtain j where "j < length is1" "n = ins_node (is1 ! j)"
      using len nth by (auto simp: in_set_conv_nth)
    then show ?thesis using ptr that by auto
  qed
  moreover have "typed is1" using assms(2) typed_map [of is1 "txn_instructions t"] ok by simp
  moreover have "tx_noatomic y = tx_noatomic x" "tx_txn_wait y = tx_txn_wait x" using ok by (simp_all add: committed_def)
  moreover have "txn_num_waiting t1 = (if tx_noatomic x then 0 else if tx_txn_wait x
      then length (filter ins_waiting is1) + 1000000 else length (filter ins_waiting is1))"
    "txn_timer t1 = (0 < txn_num_waiting t1)" by (simp_all add: t1 Let_def)
  ultimately show "queue_ok y t1" unfolding queue_ok_def is1 by simp
qed

lemma transaction_commit_total: "vis_ok (tx_sway x) \<Longrightarrow> \<exists>t1 y. transaction_commit serials t x = Some (t1, y)"
proof -
  assume "vis_ok (tx_sway x)"
  then obtain is1 y where "commit_instructions serials 0 (txn_instructions t) x = Some (is1, y)"
    using commit_instructions_total by blast
  then show ?thesis by (simp add: transaction_commit_def Let_def)
qed

section \<open>Progress\<close>

definition pointers_ok :: "txn_state \<Rightarrow> sway_transaction \<Rightarrow> bool" where
  "pointers_ok x t = (\<forall>n k. tx_instruction x n = Some k \<longrightarrow>
     k < length (txn_instructions t) \<and> ins_node (txn_instructions t ! k) = n)"

text \<open>
  Before \<open>transaction_progress\<close> the queued transaction may be finished; after it (\<open>stable\<close>) it
  waits for somebody, or there is none.
\<close>

definition ready :: "txn_state \<Rightarrow> bool" where
  "ready x = (core_ok (nodes_of (tx_queued x)) x \<and> (\<forall>t. tx_pending x = Some t \<longrightarrow> typed (txn_instructions t)) \<and>
     (case tx_queued x of
        None \<Rightarrow> tx_pending x = None \<and> (\<forall>n. tx_instruction x n = None)
      | Some t \<Rightarrow> typed (txn_instructions t) \<and> pointers_ok x t \<and> (0 < txn_num_waiting t \<longrightarrow> queue_ok x t)))"

definition stable :: "txn_state \<Rightarrow> bool" where
  "stable x = (ready x \<and> (\<forall>t. tx_queued x = Some t \<longrightarrow> 0 < txn_num_waiting t))"

lemma core_ok_applied:
  assumes "core_ok L x" "applied x y" "anim_ok y"
  shows "core_ok L y"
  using assms mem_ok_applied [of x y "{}"] by (auto simp: core_ok_def refs_ok_def applied_def same_tree_def)

text \<open>The finished transaction is applied and destroyed.\<close>

definition retire :: "sway_transaction \<Rightarrow> txn_state \<Rightarrow> txn_state" where
  "retire t x = (transaction_destroy t (transaction_apply t x))\<lparr>tx_queued := None\<rparr>"

lemma retire_ok:
  assumes "ready x" "tx_queued x = Some t"
  shows "core_ok [] (retire t x)" "tx_pending (retire t x) = tx_pending x" "\<forall>n. tx_instruction (retire t x) n = None"
    "same_tree (tx_sway x) (tx_sway (retire t x))" "tx_noatomic (retire t x) = tx_noatomic x"
    "tx_txn_wait (retire t x) = tx_txn_wait x" "tx_queued (retire t x) = None"
    "\<forall>n. n \<notin> set (nodes_of (Some t)) \<longrightarrow> current_state (retire t x) n = current_state x n"
    "\<forall>i \<in> set (txn_instructions t). current_state (retire t x) (ins_node i) = ins_state i"
proof -
  have c: "core_ok (nodes_of (Some t)) x" "typed (txn_instructions t)" "pointers_ok x t"
    using assms by (simp_all add: ready_def)
  let ?a = "transaction_apply t x"
  have a: "applied x ?a \<and> mem_ok ?a \<and> anim_ok ?a \<and>
    (\<forall>n. tx_instruction ?a n = (if n \<in> set (nodes_of (Some t)) then None else tx_instruction x n)) \<and>
    (\<forall>n. n \<notin> set (nodes_of (Some t)) \<longrightarrow> current_state ?a n = current_state x n) \<and>
    (\<forall>i \<in> set (txn_instructions t). current_state ?a (ins_node i) = ins_state i)"
    using c by (intro transaction_apply_ok) (simp_all add: core_ok_def refs_ok_def)
  then have ca: "core_ok (map ins_node (txn_instructions t)) ?a" using core_ok_applied [OF c(1)] by simp
  note d = release_instructions_ok [OF ca, of 0, folded transaction_destroy_def]
  have p: "tx_instruction ?a n = None" for n
  proof (cases "tx_instruction x n")
    case (Some k)
    then have "k < length (txn_instructions t)" "ins_node (txn_instructions t ! k) = n"
      using c(3) by (simp_all add: pointers_ok_def)
    then have "n \<in> set (nodes_of (Some t))" by (metis length_map nodes_of_simps(2) nth_map nth_mem)
    then show ?thesis using a by simp
  qed (use a in simp)
  define y where "y = transaction_destroy t ?a"
  have y: "core_ok [] y" "same_view ?a y" "retire t x = y\<lparr>tx_queued := None\<rparr>" using d by (simp_all add: y_def retire_def)
  have cs: "current_state (retire t x) n = current_state ?a n" for n
    using y(2) by (cases n) (simp_all add: y(3) same_view_def)
  show "core_ok [] (retire t x)" using core_ok_cong [of "y\<lparr>tx_queued := None\<rparr>" y] y(1,3) by simp
  show "\<forall>n. tx_instruction (retire t x) n = None" using y(2) p by (simp add: y(3) same_view_def)
  show "tx_pending (retire t x) = tx_pending x" "same_tree (tx_sway x) (tx_sway (retire t x))"
    "tx_noatomic (retire t x) = tx_noatomic x" "tx_txn_wait (retire t x) = tx_txn_wait x" "tx_queued (retire t x) = None"
    using y(2) a by (simp_all add: y(3) same_view_def applied_def)
  show "\<forall>n. n \<notin> set (nodes_of (Some t)) \<longrightarrow> current_state (retire t x) n = current_state x n"
    "\<forall>i \<in> set (txn_instructions t). current_state (retire t x) (ins_node i) = ins_state i"
    using a cs by simp_all
qed

lemma transaction_progress_Suc:
  "transaction_progress (Suc n) serials x =
     (case tx_queued x of
        None \<Rightarrow> Some x
      | Some t \<Rightarrow>
          if txn_num_waiting t > 0 then Some x
          else if tx_pending (retire t x) = None then Some (retire t x)
          else commit_pending_then (transaction_progress n) serials (retire t x))"
  by (simp add: retire_def Let_def split: option.split)

text \<open>Committing the pending transaction when none is queued makes it the queued one.\<close>

lemma commit_pending_ready:
  assumes "core_ok [] x" "\<forall>n. tx_instruction x n = None" "tx_pending x = Some p" "typed (txn_instructions p)"
    "transaction_commit serials p (x\<lparr>tx_pending := None\<rparr>) = Some (t1, y)"
  shows "ready (y\<lparr>tx_queued := Some t1\<rparr>)" "tx_pending (y\<lparr>tx_queued := Some t1\<rparr>) = None" "tx_sway y = tx_sway x"
    "nodes_of (Some t1) = nodes_of (Some p)" "map ins_state (txn_instructions t1) = map ins_state (txn_instructions p)"
    "\<forall>n. current_state y n = current_state x n"
proof -
  have "distinct (nodes_of (Some p))" using assms(1,3) by (simp add: core_ok_def refs_ok_def)
  note c = transaction_commit_ok [OF assms(5,4) this] 
  have ptr: "\<forall>n. tx_instruction (x\<lparr>tx_pending := None\<rparr>) n = None" using assms(2) by simp
  note c = c [OF ptr]
  have cm: "committed (x\<lparr>tx_pending := None\<rparr>) y" by (rule c(3))
  let ?y = "y\<lparr>tx_queued := Some t1\<rparr>"
  have "refs_ok (nodes_of (Some t1)) ?y" using assms(1,3) cm c(1) by (simp add: core_ok_def refs_ok_def committed_def)
  moreover have "mem_ok ?y" "anim_ok ?y" "\<forall>n \<in> set (dirty_nodes (tx_sway ?y)). \<not> node_destroying (tx_sway ?y) n"
    using assms(1) cm unfolding core_ok_def mem_but_def closing_def anim_ok_def committed_def by simp_all
  ultimately have "core_ok (nodes_of (Some t1)) ?y" by (simp add: core_ok_def)
  moreover have "queue_ok (y\<lparr>tx_queued := Some t1\<rparr>) t1" using c(4) by (simp add: queue_ok_def outstanding_def)
  ultimately show "ready (y\<lparr>tx_queued := Some t1\<rparr>)"
    using cm unfolding ready_def by (simp add: committed_def queue_ok_def pointers_ok_def)
  show "tx_pending (y\<lparr>tx_queued := Some t1\<rparr>) = None" "tx_sway y = tx_sway x"
    "nodes_of (Some t1) = nodes_of (Some p)" "map ins_state (txn_instructions t1) = map ins_state (txn_instructions p)"
    using cm c(1,2) by (simp_all add: committed_def)
  show "\<forall>n. current_state y n = current_state x n"
    using cm by (intro allI, case_tac n) (simp_all add: committed_def)
qed

lemma transaction_progress_stable:
  "ready x \<Longrightarrow> transaction_progress n serials x = Some y \<Longrightarrow> stable y \<and> same_tree (tx_sway x) (tx_sway y)"
proof (induction n arbitrary: x)
  case (Suc n)
  show ?case
  proof (cases "tx_queued x")
    case None
    then show ?thesis using Suc.prems by (simp add: stable_def same_tree_refl)
  next
    case (Some t)
    note r = retire_ok [OF Suc.prems(1) Some]
    consider "0 < txn_num_waiting t" | "txn_num_waiting t = 0" "tx_pending x = None" | p where "txn_num_waiting t = 0" "tx_pending x = Some p"
      by (cases "txn_num_waiting t"; cases "tx_pending x") auto
    then show ?thesis
    proof cases
      case 1
      then show ?thesis using Suc.prems Some by (auto simp: stable_def same_tree_refl)
    next
      case 2
      then have "y = retire t x" using Suc.prems(2) Some r(2) by (simp only: transaction_progress_Suc) simp
      then show ?thesis using r 2 by (simp add: stable_def ready_def)
    next
      case 3
      then obtain t1 z where z: "transaction_commit serials p ((retire t x)\<lparr>tx_pending := None\<rparr>) = Some (t1, z)"
        "transaction_progress n serials (z\<lparr>tx_queued := Some t1\<rparr>) = Some y"
        using Suc.prems(2) Some r(2,7) unfolding transaction_progress_Suc
        by (auto simp: commit_pending_then_def bind_eq_Some_conv)
      have ty: "typed (txn_instructions p)" using Suc.prems(1) 3 by (simp add: ready_def)
      have pr: "tx_pending (retire t x) = Some p" using r(2) 3 by simp
      note c = commit_pending_ready [OF r(1,3) pr ty z(1)]
      show ?thesis using Suc.IH [OF c(1) z(2)] r(4) c(3) by (auto intro: same_tree_trans)
    qed
  qed
qed simp

lemma transaction_progress_returns:
  assumes "ready x" "vis_ok (tx_sway x)"
  shows "\<exists>y. transaction_progress 2 serials x = Some y"
    "tx_pending x = None \<Longrightarrow> \<exists>y. transaction_progress (Suc n) serials x = Some y"
proof -
  have 1: "\<exists>y. transaction_progress (Suc n) serials x = Some y" if "tx_pending x = None" "ready x" for x n
    using that retire_ok(2) [OF that(2)] unfolding transaction_progress_Suc by (auto split: option.split)
  show "tx_pending x = None \<Longrightarrow> \<exists>y. transaction_progress (Suc n) serials x = Some y" using 1 assms(1) by blast
  show "\<exists>y. transaction_progress 2 serials x = Some y"
  proof (cases "tx_queued x")
    case None
    then show ?thesis by (simp add: numeral_2_eq_2)
  next
    case (Some t)
    note r = retire_ok [OF assms(1) Some]
    show ?thesis
    proof (cases "txn_num_waiting t = 0 \<and> tx_pending x \<noteq> None")
      case True
      then obtain p where p: "tx_pending x = Some p" by blast
      have "vis_ok (tx_sway ((retire t x)\<lparr>tx_pending := None\<rparr>))" using vis_ok_same [OF r(4)] assms(2) by simp
      then obtain t1 z where z: "transaction_commit serials p ((retire t x)\<lparr>tx_pending := None\<rparr>) = Some (t1, z)"
        using transaction_commit_total by blast
      have ty: "typed (txn_instructions p)" using assms(1) p by (simp add: ready_def)
      have pr: "tx_pending (retire t x) = Some p" using r(2) p by simp
      note c = commit_pending_ready [OF r(1,3) pr ty z]
      obtain y where "transaction_progress (Suc 0) serials (z\<lparr>tx_queued := Some t1\<rparr>) = Some y" using 1 [OF c(2,1)] by blast
      then have "commit_pending_then (transaction_progress (Suc 0)) serials (retire t x) = Some y"
        using r(7) pr z by (simp add: commit_pending_then_def)
      then show ?thesis using True Some pr unfolding numeral_2_eq_2 by (simp only: transaction_progress_Suc) simp
    next
      case False
      then show ?thesis using Some r(2) unfolding numeral_2_eq_2 by (simp only: transaction_progress_Suc) auto
    qed
  qed
qed

section \<open>Collecting the dirty nodes\<close>

lemma find_instruction_correct:
  assumes "n \<in> set (map ins_node l) \<longrightarrow> 0 < tx_refs x n"
  shows "case find_instruction x n l of
      None \<Rightarrow> n \<notin> set (map ins_node l)
    | Some k \<Rightarrow> k < length l \<and> ins_node (l ! k) = n"
  using seq_find_cases [of "\<lambda>i. ins_node i = n" l 0] assms by (auto simp: find_instruction_def)

lemma transaction_add_node_ok:
  assumes "transaction_add_node t n b x = (t1, x1)" "\<forall>m. tx_refs x m = count_list L m + count_list (nodes_of (Some t)) m"
    "distinct (nodes_of (Some t))" "typed (txn_instructions t)"
  shows "\<forall>m. tx_refs x1 m = count_list L m + count_list (nodes_of (Some t1)) m" "distinct (nodes_of (Some t1))"
    "typed (txn_instructions t1)" "set (nodes_of (Some t1)) = insert n (set (nodes_of (Some t)))"
    "x1 = x\<lparr>tx_refs := tx_refs x1\<rparr>"
    "\<forall>i \<in> set (txn_instructions t1). ins_node i = n \<longrightarrow> ins_state i = copy_state (tx_sway x) n"
    "\<forall>i \<in> set (txn_instructions t1). ins_node i \<noteq> n \<longrightarrow> i \<in> set (txn_instructions t)"
proof -
  let ?l = "txn_instructions t"
  have "n \<in> set (map ins_node ?l) \<longrightarrow> 0 < tx_refs x n" using assms(2) count_list_0_iff [of "map ins_node ?l" n] by (metis add_gr_0 gr0I nodes_of_simps(2))
  note f = find_instruction_correct [OF this]
  have goal: "(\<forall>m. tx_refs x1 m = count_list L m + count_list (nodes_of (Some t1)) m) \<and> distinct (nodes_of (Some t1)) \<and>
    typed (txn_instructions t1) \<and> set (nodes_of (Some t1)) = insert n (set (nodes_of (Some t))) \<and>
    x1 = x\<lparr>tx_refs := tx_refs x1\<rparr> \<and>
    (\<forall>i \<in> set (txn_instructions t1). ins_node i = n \<longrightarrow> ins_state i = copy_state (tx_sway x) n) \<and>
    (\<forall>i \<in> set (txn_instructions t1). ins_node i \<noteq> n \<longrightarrow> i \<in> set (txn_instructions t))"
  proof (cases "find_instruction x n ?l")
    case None
    then have n: "n \<notin> set (map ins_node ?l)" using f by simp
    let ?i = "\<lparr>ins_node = n, ins_state = copy_state (tx_sway x) n, ins_serial = 0, ins_server_request = b, ins_waiting = False\<rparr>"
    have "txn_instructions t1 = ?l @ [?i]" "x1 = x\<lparr>tx_refs := (tx_refs x)(n := tx_refs x n + 1)\<rparr>"
      using assms(1) None by (auto simp: transaction_add_node_def Let_def)
    then show ?thesis using assms(2-4) n by (auto simp: typed_def)
  next
    case (Some k)
    then have k: "k < length ?l" "ins_node (?l ! k) = n" using f by simp_all
    let ?i = "(?l ! k)\<lparr>ins_state := copy_state (tx_sway x) n, ins_server_request := (ins_server_request (?l ! k) \<or> b)\<rparr>"
    have t1: "txn_instructions t1 = ?l[k := ?i]" "x1 = x" using assms(1) Some by (auto simp: transaction_add_node_def Let_def)
    have nodes: "map ins_node (?l[k := ?i]) = map ins_node ?l" using k by (simp add: map_update list_update_same_conv)
    have other: "\<forall>i \<in> set (?l[k := ?i]). i = ?i \<or> i \<in> set ?l" using set_update_subset_insert [of ?l k ?i] by blast
    have eq: "i = ?i" if "i \<in> set (?l[k := ?i])" "ins_node i = n" for i
    proof -
      note h = that
      obtain j where j: "j < length ?l" "i = ?l[k := ?i] ! j" using h(1) by (metis in_set_conv_nth length_list_update)
      have "map ins_node ?l ! j = map ins_node ?l ! k" using j that(2) k by (cases "j = k") auto
      then have "j = k" using nth_eq_iff_index_eq [of "map ins_node ?l" j k] j(1) k(1) assms(3) by simp
      then show ?thesis using j k by simp
    qed
    have i: "ins_node ?i = n" "ins_state ?i = copy_state (tx_sway x) n" using k by simp_all
    have "\<forall>j \<in> set (?l[k := ?i]). ins_node j = n \<longrightarrow> ins_state j = copy_state (tx_sway x) n" using eq i(2) by metis
    moreover have "\<forall>j \<in> set (?l[k := ?i]). ins_node j \<noteq> n \<longrightarrow> j \<in> set ?l" using other i(1) by metis
    moreover have "typed (?l[k := ?i])" using assms(4) other i unfolding typed_def by (metis copy_state_fits)
    moreover have "n \<in> set (map ins_node ?l)" using k by (metis length_map nth_map nth_mem)
    then have "set (map ins_node ?l) = insert n (set (map ins_node ?l))" by (rule insert_absorb [symmetric])
    ultimately show ?thesis using assms(2,3) unfolding nodes_of_simps t1 nodes by simp
  qed
  then show "\<forall>m. tx_refs x1 m = count_list L m + count_list (nodes_of (Some t1)) m" "distinct (nodes_of (Some t1))"
    "typed (txn_instructions t1)" "set (nodes_of (Some t1)) = insert n (set (nodes_of (Some t)))"
    "x1 = x\<lparr>tx_refs := tx_refs x1\<rparr>"
    "\<forall>i \<in> set (txn_instructions t1). ins_node i = n \<longrightarrow> ins_state i = copy_state (tx_sway x) n"
    "\<forall>i \<in> set (txn_instructions t1). ins_node i \<noteq> n \<longrightarrow> i \<in> set (txn_instructions t)" by blast+
qed

lemma fold_add_node_ok:
  assumes "fold (\<lambda>n (t, x). transaction_add_node t n b x) l (t, x) = (t1, x1)"
    "\<forall>m. tx_refs x m = count_list L m + count_list (nodes_of (Some t)) m"
    "distinct (nodes_of (Some t))" "typed (txn_instructions t)"
  shows "(\<forall>m. tx_refs x1 m = count_list L m + count_list (nodes_of (Some t1)) m) \<and> distinct (nodes_of (Some t1)) \<and>
    typed (txn_instructions t1) \<and> set (nodes_of (Some t1)) = set l \<union> set (nodes_of (Some t)) \<and>
    x1 = x\<lparr>tx_refs := tx_refs x1\<rparr> \<and>
    (\<forall>i \<in> set (txn_instructions t1). ins_node i \<in> set l \<longrightarrow> ins_state i = copy_state (tx_sway x) (ins_node i)) \<and>
    (\<forall>i \<in> set (txn_instructions t1). ins_node i \<notin> set l \<longrightarrow> i \<in> set (txn_instructions t))"
  using assms
proof (induction l arbitrary: t x)
  case (Cons n l)
  obtain t2 x2 where s: "transaction_add_node t n b x = (t2, x2)" by fastforce
  note a = transaction_add_node_ok [OF s Cons.prems(2-4)]
  have sw: "tx_sway x2 = tx_sway x" by (subst a(5)) simp
  have "fold (\<lambda>n (t, x). transaction_add_node t n b x) l (t2, x2) = (t1, x1)" using Cons.prems(1) s by simp
  note ih = Cons.IH [OF this a(1-3), unfolded sw]
  have "x1 = x\<lparr>tx_refs := tx_refs x1\<rparr>"
  proof -
    have "x1 = x2\<lparr>tx_refs := tx_refs x1\<rparr>" using ih by blast
    also have "\<dots> = (x\<lparr>tx_refs := tx_refs x2\<rparr>)\<lparr>tx_refs := tx_refs x1\<rparr>" using a(5) by metis
    finally show ?thesis by simp
  qed
  moreover have "set (nodes_of (Some t1)) = set (n # l) \<union> set (nodes_of (Some t))" using ih a(4) by auto
  moreover have "\<forall>i \<in> set (txn_instructions t1). ins_node i \<in> set (n # l) \<longrightarrow> ins_state i = copy_state (tx_sway x) (ins_node i)"
    using ih a(6) by (metis set_ConsD)
  moreover have "\<forall>i \<in> set (txn_instructions t1). ins_node i \<notin> set (n # l) \<longrightarrow> i \<in> set (txn_instructions t)"
    using ih a(7) by (metis list.set_intros(1,2))
  ultimately show ?case using ih by blast
qed simp

section \<open>Committing the dirty nodes\<close>

text \<open>
  What the tree code does to the nodes between two commits: it dirties nodes it can reach,
  which are not freed, and a node it begins to destroy becomes dirty.
\<close>

definition edit_ok :: "txn_state \<Rightarrow> sway \<Rightarrow> bool" where
  "edit_ok x s = (set (dirty_nodes (tx_sway x)) \<subseteq> set (dirty_nodes s) \<and>
     (\<forall>n \<in> set (dirty_nodes s). \<not> tx_freed x n) \<and>
     (\<forall>n. node_destroying (tx_sway x) n \<longrightarrow> node_destroying s n) \<and>
     (\<forall>n. node_destroying s n \<longrightarrow> node_destroying (tx_sway x) n \<or> n \<in> set (dirty_nodes s)) \<and>
     \<not> node_destroying s N_ROOT)"

text \<open>The pending transaction with the dirty nodes added, before anything is queued.\<close>

definition collect :: "bool \<Rightarrow> txn_state \<Rightarrow> sway_transaction \<times> txn_state" where
  "collect b x = (let t = (case tx_pending x of None \<Rightarrow> transaction_create | Some t \<Rightarrow> t);
     (t1, x1) = add_dirty_nodes b t x in (t1, x1\<lparr>tx_pending := Some t1, tx_sway := clear_dirty (tx_sway x1)\<rparr>))"

lemma commit_dirty_collect:
  "transaction_commit_dirty_with b serials x =
     (if dirty_nodes (tx_sway x) = [] then Some x else transaction_commit_pending serials (snd (collect b x)))"
  by (simp add: transaction_commit_dirty_with_def collect_def Let_def split: prod.split)

lemma collect_ok:
  assumes "ready x" "edit_ok x s" "collect b (x\<lparr>tx_sway := s\<rparr>) = (t1, y)"
  shows "core_ok (nodes_of (tx_queued y)) y" "tx_pending y = Some t1" "typed (txn_instructions t1)"
    "tx_queued y = tx_queued x" "tx_instruction y = tx_instruction x" "tx_sway y = clear_dirty s"
    "set (nodes_of (Some t1)) = set (dirty_nodes s) \<union> set (nodes_of (tx_pending x))"
    "\<forall>i \<in> set (txn_instructions t1). ins_node i \<in> set (dirty_nodes s) \<longrightarrow> ins_state i = copy_state s (ins_node i)"
    "\<forall>i \<in> set (txn_instructions t1). ins_node i \<notin> set (dirty_nodes s) \<longrightarrow>
       (\<exists>t. tx_pending x = Some t \<and> i \<in> set (txn_instructions t))"
    "\<forall>n. current_state y n = current_state (x\<lparr>tx_sway := s\<rparr>) n"
    "tx_noatomic y = tx_noatomic x" "tx_txn_wait y = tx_txn_wait x"
proof -
  define t where "t = (case tx_pending x of None \<Rightarrow> transaction_create | Some t \<Rightarrow> t)"
  have nt: "nodes_of (Some t) = nodes_of (tx_pending x)" by (simp add: t_def transaction_create_def split: option.split)
  have nt2: "ins_node ` set (txn_instructions t) = set (nodes_of (tx_pending x))"
    using arg_cong [OF nt, of set] by simp
  obtain t2 x1 where a: "add_dirty_nodes b t (x\<lparr>tx_sway := s\<rparr>) = (t2, x1)" by fastforce
  have y: "t2 = t1" "y = x1\<lparr>tx_pending := Some t1, tx_sway := clear_dirty (tx_sway x1)\<rparr>"
    using assms(3) a by (auto simp: collect_def t_def Let_def)
  have c: "core_ok (nodes_of (tx_queued x)) x" using assms(1) by (simp add: ready_def)
  have p: "\<forall>m. tx_refs (x\<lparr>tx_sway := s\<rparr>) m = count_list (nodes_of (tx_queued x)) m + count_list (nodes_of (Some t)) m"
    "distinct (nodes_of (Some t))" "typed (txn_instructions t)"
    using c assms(1) unfolding nt core_ok_def refs_ok_def ready_def
    by (auto simp: t_def typed_def transaction_create_def split: option.split)
  note f = fold_add_node_ok [OF a [unfolded add_dirty_nodes_def] p, simplified, unfolded y(1)]
  have x1: "x1 = x\<lparr>tx_sway := s, tx_refs := tx_refs x1\<rparr>" using f by simp
  have sel: "tx_queued x1 = tx_queued x" "tx_instruction x1 = tx_instruction x" "tx_sway x1 = s" "tx_freed x1 = tx_freed x"
    "tx_con_anim x1 = tx_con_anim x" "tx_anim x1 = tx_anim x" "tx_noatomic x1 = tx_noatomic x" "tx_txn_wait x1 = tx_txn_wait x"
    "tx_ws_current x1 = tx_ws_current x" "tx_out_current x1 = tx_out_current x"
    by (subst x1, simp)+
  show "tx_pending y = Some t1" "typed (txn_instructions t1)" "tx_queued y = tx_queued x"
    "tx_instruction y = tx_instruction x" "tx_sway y = clear_dirty s" "tx_noatomic y = tx_noatomic x" "tx_txn_wait y = tx_txn_wait x"
    using f by (simp_all add: y(2) sel)
  show "set (nodes_of (Some t1)) = set (dirty_nodes s) \<union> set (nodes_of (tx_pending x))"
    using f nt2 by simp
  show "\<forall>i \<in> set (txn_instructions t1). ins_node i \<in> set (dirty_nodes s) \<longrightarrow> ins_state i = copy_state s (ins_node i)"
    using f by blast
  show "\<forall>i \<in> set (txn_instructions t1). ins_node i \<notin> set (dirty_nodes s) \<longrightarrow>
       (\<exists>t. tx_pending x = Some t \<and> i \<in> set (txn_instructions t))"
    using f by (auto simp: t_def transaction_create_def split: option.splits)
  show "\<forall>n. current_state y n = current_state (x\<lparr>tx_sway := s\<rparr>) n"
    by (intro allI, case_tac n) (simp_all add: y(2) sel clear_dirty_def)
  have refs: "tx_refs y n = count_list (nodes_of (tx_queued x)) n + count_list (nodes_of (Some t1)) n" for n
    using f by (simp add: y(2))
  have refs_old: "tx_refs x n = count_list (nodes_of (tx_queued x)) n + count_list (nodes_of (tx_pending x)) n" for n
    using c by (simp add: core_ok_def refs_ok_def)
  have inx: "0 < count_list l n \<longleftrightarrow> n \<in> set l" for l n using count_list_0_iff [of l n] by auto
  have pos: "0 < tx_refs y n \<longleftrightarrow> n \<in> set (nodes_of (tx_queued x)) \<union> set (dirty_nodes s) \<union> set (nodes_of (tx_pending x))" for n
    using f unfolding refs add_gr_0 inx by (simp add: nt2)
  have pos_old: "0 < tx_refs x n \<longleftrightarrow> n \<in> set (nodes_of (tx_queued x)) \<union> set (nodes_of (tx_pending x))" for n
    unfolding refs_old add_gr_0 inx by auto
  have dy: "dirty_nodes (tx_sway y) = []" "node_destroying (tx_sway y) = node_destroying s"
    by (simp_all add: y(2) sel clear_dirty_def)
  have ysel: "tx_freed y = tx_freed x" "tx_con_anim y = tx_con_anim x" "tx_anim y = tx_anim x" by (simp_all add: y(2) sel)
  have cl: "closing y = closing x" by (simp add: closing_def fun_eq_iff ysel)
  have m: "mem_ok x" using c by (simp add: core_ok_def)
  have "mem_ok y" unfolding mem_but_def cl dy ysel
  proof (intro conjI allI impI)
    fix n
    show "tx_freed x n \<Longrightarrow> node_destroying s n" using m assms(2) by (auto simp: mem_but_def edit_ok_def)
    show "tx_freed x n \<Longrightarrow> tx_refs y n = 0" using pos [of n] pos_old [of n] m assms(2) by (auto simp: mem_but_def edit_ok_def)
    show "tx_freed x n \<Longrightarrow> \<not> closing x n" using m by (simp add: mem_but_def)
    show "node_destroying s n \<Longrightarrow> tx_freed x n \<or> n \<in> set [] \<or> 0 < tx_refs y n \<or> closing x n"
      using m assms(2) unfolding pos mem_but_def pos_old edit_ok_def by blast
    fix k
    show "0 < cas_close_timer (tx_con_anim x k) \<Longrightarrow> node_destroying s (N_CONTAINER k)"
      "0 < cas_close_timer (tx_con_anim x k) \<Longrightarrow> \<not> tx_freed x (N_CONTAINER k)"
      using m assms(2) by (simp_all add: mem_but_def edit_ok_def)
  next
    show "\<not> node_destroying s N_ROOT" using assms(2) by (simp add: edit_ok_def)
  qed
  moreover have "refs_ok (nodes_of (tx_queued x)) y"
    using refs f c by (simp add: refs_ok_def y(2) core_ok_def)
  moreover have "anim_ok y" using c by (simp add: core_ok_def anim_ok_def ysel)
  ultimately show "core_ok (nodes_of (tx_queued y)) y" using \<open>tx_queued y = tx_queued x\<close> by (simp add: core_ok_def dy)
qed

lemma queue_ok_cong:
  "tx_instruction y = tx_instruction x \<Longrightarrow> tx_noatomic y = tx_noatomic x \<Longrightarrow> tx_txn_wait y = tx_txn_wait x \<Longrightarrow>
   queue_ok y t = queue_ok x t"
  by (simp add: queue_ok_def outstanding_def)

lemma collect_ready:
  assumes "stable x" "edit_ok x s" "collect b (x\<lparr>tx_sway := s\<rparr>) = (t1, y)" "tx_queued x = Some q"
  shows "stable y"
proof -
  have r: "ready x" using assms(1) by (simp add: stable_def)
  note c = collect_ok [OF r assms(2,3)]
  show ?thesis using assms(1,4) c queue_ok_cong [of y x q]
    by (simp add: stable_def ready_def pointers_ok_def)
qed

lemma commit_dirty_stable:
  assumes "stable x" "edit_ok x s" "dirty_nodes s \<noteq> []"
    "transaction_commit_dirty_with b serials (x\<lparr>tx_sway := s\<rparr>) = Some y"
  shows "stable y \<and> same_tree (clear_dirty s) (tx_sway y)"
proof -
  obtain t1 z where z: "collect b (x\<lparr>tx_sway := s\<rparr>) = (t1, z)" by fastforce
  have r: "ready x" using assms(1) by (simp add: stable_def)
  note c = collect_ok [OF r assms(2) z]
  have y: "transaction_commit_pending serials z = Some y" using assms(3,4) z by (simp add: commit_dirty_collect)
  show ?thesis
  proof (cases "tx_queued x")
    case (Some q)
    then have "y = z" using y c(4) by (simp add: transaction_commit_pending_def commit_pending_then_def)
    then show ?thesis using collect_ready [OF assms(1,2) z Some] c(6) by (simp add: same_tree_refl)
  next
    case None
    then obtain t2 u where u: "transaction_commit serials t1 (z\<lparr>tx_pending := None\<rparr>) = Some (t2, u)"
      "transaction_progress 2 serials (u\<lparr>tx_queued := Some t2\<rparr>) = Some y"
      using y c(2,4) by (auto simp: transaction_commit_pending_def commit_pending_then_def bind_eq_Some_conv)
    have "\<forall>n. tx_instruction z n = None" using r None c(5) by (simp add: ready_def)
    moreover have "core_ok [] z" using c(1,4) None by simp
    ultimately have "ready (u\<lparr>tx_queued := Some t2\<rparr>)" "tx_sway u = tx_sway z"
      using commit_pending_ready [OF _ _ c(2,3) u(1)] by blast+
    then show ?thesis using transaction_progress_stable [OF _ u(2)] c(6) by simp
  qed
qed

end
