(* ===== verification/Switch_Laws.thy ===== *)
theory Switch_Laws
  imports Switch_Animation Transaction_Laws
begin

text \<open>
  The animations of workspaces touch nothing else (\<open>slid\<close>), and a filmstrip moves as one.
\<close>

section \<open>What the animations touch\<close>

definition slid :: "nat set \<Rightarrow> txn_state \<Rightarrow> txn_state \<Rightarrow> bool" where
  "slid W x y = ((\<exists>m sc sw d. y = x\<lparr>tx_anim := m, tx_scroll := sc, tx_switch := sw, tx_switch_direction := d\<rparr>) \<and>
     (am_ok (tx_anim x) \<longrightarrow> am_ok (tx_anim y) \<and> set (am_animations (tx_anim y)) \<subseteq>
        set (am_animations (tx_anim x)) \<union> ws_scroll_anim ` W \<union> ws_switch_anim ` W))"

lemma slid_refl [intro]: "slid W x x"
proof -
  have "x = x\<lparr>tx_anim := tx_anim x, tx_scroll := tx_scroll x, tx_switch := tx_switch x,
    tx_switch_direction := tx_switch_direction x\<rparr>" by simp
  then show ?thesis unfolding slid_def by blast
qed

lemma slid_trans [trans]:
  assumes "slid W x y" "slid W y z"
  shows "slid W x z"
proof -
  obtain m sc sw d where y: "y = x\<lparr>tx_anim := m, tx_scroll := sc, tx_switch := sw, tx_switch_direction := d\<rparr>"
    using assms(1) by (auto simp: slid_def)
  obtain m' sc' sw' d' where "z = y\<lparr>tx_anim := m', tx_scroll := sc', tx_switch := sw', tx_switch_direction := d'\<rparr>"
    using assms(2) by (auto simp: slid_def)
  then have "z = x\<lparr>tx_anim := m', tx_scroll := sc', tx_switch := sw', tx_switch_direction := d'\<rparr>" by (simp add: y)
  then show ?thesis using assms unfolding slid_def by blast
qed

lemma slid_sel:
  assumes "slid W x y"
  shows "tx_sway y = tx_sway x" "tx_refs y = tx_refs x" "tx_freed y = tx_freed x" "tx_con_anim y = tx_con_anim x"
    "tx_queued y = tx_queued x" "tx_pending y = tx_pending x" "tx_instruction y = tx_instruction x"
    "tx_noatomic y = tx_noatomic x" "tx_txn_wait y = tx_txn_wait x"
  using assms by (auto simp: slid_def)

lemma slid_mono: "slid V x y \<Longrightarrow> V \<subseteq> W \<Longrightarrow> slid W x y"
  unfolding slid_def by blast

lemma slid_upd [intro]: "slid W x (upd_scroll w f x)" "slid W x (upd_switch w f x)"
  "slid W x (x\<lparr>tx_switch_direction := d\<rparr>)"
proof -
  have "upd_scroll w f x = x\<lparr>tx_anim := tx_anim x, tx_scroll := (tx_scroll x)(w := f (tx_scroll x w)), tx_switch := tx_switch x,
    tx_switch_direction := tx_switch_direction x\<rparr>" by (simp add: upd_scroll_def)
  then show "slid W x (upd_scroll w f x)" unfolding slid_def by (intro conjI exI) (assumption, auto simp: upd_scroll_def)
  have "upd_switch w f x = x\<lparr>tx_anim := tx_anim x, tx_scroll := tx_scroll x, tx_switch := (tx_switch x)(w := f (tx_switch x w)),
    tx_switch_direction := tx_switch_direction x\<rparr>" by (simp add: upd_switch_def)
  then show "slid W x (upd_switch w f x)" unfolding slid_def by (intro conjI exI) (assumption, auto simp: upd_switch_def)
  have "x\<lparr>tx_switch_direction := d\<rparr> = x\<lparr>tx_anim := tx_anim x, tx_scroll := tx_scroll x, tx_switch := tx_switch x,
    tx_switch_direction := d\<rparr>" by simp
  then show "slid W x (x\<lparr>tx_switch_direction := d\<rparr>)" unfolding slid_def by (intro conjI exI) (assumption, auto)
qed

lemma slid_anim:
  assumes "am_ok (tx_anim x) \<Longrightarrow> am_ok m \<and> set (am_animations m) \<subseteq>
        set (am_animations (tx_anim x)) \<union> ws_scroll_anim ` W \<union> ws_switch_anim ` W"
  shows "slid W x (x\<lparr>tx_anim := m\<rparr>)"
proof -
  have "x\<lparr>tx_anim := m\<rparr> = x\<lparr>tx_anim := m, tx_scroll := tx_scroll x, tx_switch := tx_switch x,
    tx_switch_direction := tx_switch_direction x\<rparr>" by simp
  then show ?thesis using assms unfolding slid_def by (intro conjI exI) (assumption, simp)
qed

lemma slid_stop [intro]: "slid W x (stop_animation a x)"
proof -
  have "stop_animation a x = x\<lparr>tx_anim := tx_anim (stop_animation a x)\<rparr>" by (simp add: stop_animation_def)
  moreover have "slid W x (x\<lparr>tx_anim := tx_anim (stop_animation a x)\<rparr>)"
    by (rule slid_anim) (auto simp: stop_animation_list)
  ultimately show ?thesis by metis
qed

lemma slid_run: "a \<in> ws_scroll_anim ` W \<union> ws_switch_anim ` W \<Longrightarrow> slid W x (run_animation a x)"
  unfolding run_animation_def by (rule slid_anim) (auto simp: am_ok_add add_animation_list)

lemma slid_stop_switch [intro]: "slid W x (stop_workspace_switch_animation w x)"
  unfolding stop_workspace_switch_animation_def by (rule slid_trans [OF slid_stop slid_upd(2)])

lemma slid_offset [intro]: "slid W x (snd (get_switch_animation_offset w x))"
  "slid W x (snd (workspace_switch_current_offset w x))"
  by (auto simp: get_switch_animation_offset_def workspace_switch_current_offset_def Let_def)

lemma slid_scroll: "slid {w} x (snd (get_animated_scroll_workspace_x w wx x))"
proof -
  have u: "slid {w} x (upd_scroll w f x)" for f by (rule slid_upd)
  have r: "slid {w} x (run_animation (ws_scroll_anim w) (upd_scroll w f x))" for f
    by (rule slid_trans [OF u slid_run]) simp
  have s: "slid {w} x (upd_scroll w f (stop_animation (ws_scroll_anim w) x))" for f
    by (rule slid_trans [OF slid_stop slid_upd(1)])
  show ?thesis
    using u r s slid_refl [of "{w}" x]
    by (simp add: get_animated_scroll_workspace_x_def stop_workspace_scroll_animation_def Let_def)
qed

lemma slid_fold: "(\<And>a x. a \<in> set l \<Longrightarrow> slid W x (f a x)) \<Longrightarrow> slid W x (fold f l x)"
  by (induction l arbitrary: x) (auto intro: slid_trans)

lemma slid_starts: "strip_starts i fp tp width l x = (r, y) \<Longrightarrow> slid W x y \<and> map fst r = l"
proof (induction l arbitrary: i x r)
  case (Cons ws l)
  obtain st x1 where a: "(if was_active (tx_switch x ws) \<and> ani_initialized (am_anims (tx_anim x) (ws_switch_anim ws))
      then workspace_switch_current_offset ws x else ((i - fp) * width, x)) = (st, x1)" by fastforce
  have 1: "slid W x x1" using slid_offset(2) [of W x ws] slid_refl [of W x] a by (auto split: if_splits)
  obtain r2 where "strip_starts (i + 1) fp tp width l x1 = (r2, y)" "r = (ws, st, (i - tp) * width) # r2"
    using Cons.prems a by (auto split: prod.splits)
  then show ?case using Cons.IH 1 by (auto intro: slid_trans)
qed auto

lemma slid_animate_set: "fst ` set l \<subseteq> W \<Longrightarrow> slid W x (workspace_switch_animate_set l d x)"
proof -
  assume l: "fst ` set l \<subseteq> W"
  have one: "slid W x (animate_set_one d p x)" if "p \<in> set l" for p x
  proof -
    obtain w a b where p: "p = (w, a, b)" by (cases p)
    then have w: "w \<in> W" using that l by force
    let ?y = "upd_switch w (\<lambda>_. \<lparr>was_from_x = a, was_target_x = b, was_target_x_initialized = True, was_active = True\<rparr>)
      (stop_animation (ws_switch_anim w) x)"
    have "slid W x ?y" by (rule slid_trans [OF slid_stop slid_upd(2)])
    also have "slid W ?y (?y\<lparr>tx_anim := add_animation (ws_switch_anim w)
        (upd_anim (ws_switch_anim w) (ani_duration_scale_update (\<lambda>_. d)) (tx_anim ?y))\<rparr>)"
      by (rule slid_anim) (use w in \<open>auto simp: am_ok_add am_ok_upd_anim add_animation_list\<close>)
    finally show ?thesis by (simp add: animate_set_one_def p Let_def)
  qed
  have "slid W x (fold (animate_set_one d) l x)" by (rule slid_fold [OF one])
  also have "slid W (fold (animate_set_one d) l x) (workspace_switch_animate_set l d x)"
    unfolding workspace_switch_animate_set_def Let_def by (rule slid_anim) auto
  finally show ?thesis .
qed

lemma strip_loop_subset: "set (strip_loop s from to cap out l) \<subseteq> set out \<union> set l"
  by (induction s "from" to cap out l rule: strip_loop.induct) auto

lemma collect_strip_subset:
  "ws_output (wss s from) = Some out \<Longrightarrow> set (collect_strip_workspaces s from to cap) \<subseteq> set (out_workspaces (outs s out))"
proof -
  assume o: "ws_output (wss s from) = Some out"
  have "set (strip_loop s from to cap [] (take n (drop k l))) \<subseteq> set l" for n k l
    using strip_loop_subset [of s "from" to cap "[]" "take n (drop k l)"] set_take_subset [of n "drop k l"] set_drop_subset [of k l]
    by auto
  then show ?thesis unfolding collect_strip_workspaces_def Let_def o by (simp split: if_split)
qed

lemma slid_pair: "slid {from, to} x (animate_pair from to r width x)"
proof -
  obtain a y where 1: "workspace_switch_current_offset from x = (a, y)" by fastforce
  obtain b z where 2: "(if was_active (tx_switch y to) \<and> ani_initialized (am_anims (tx_anim y) (ws_switch_anim to))
      then workspace_switch_current_offset to y else (if r then width else - width, y)) = (b, z)" by fastforce
  have "slid {from, to} x y" using slid_offset(2) [of _ x "from"] 1 by (metis snd_conv)
  also have "slid {from, to} y z" using slid_offset(2) [of _ y to] slid_refl 2 by (metis snd_conv)
  also have "slid {from, to} z (animate_pair from to r width x)"
    using 1 2 by (simp add: animate_pair_def slid_animate_set)
  finally show ?thesis .
qed

lemma slid_strip: "slid (set strip) x (animate_strip strip out from to width x)"
proof -
  define y where "y = fold (\<lambda>ws x. if was_active (tx_switch x ws) \<and> ws \<notin> set strip then stop_workspace_switch_animation ws x else x)
      (out_workspaces (outs (tx_sway x) out)) x"
  obtain l z where z: "strip_starts 0 (strip_pos strip from) (strip_pos strip to) width strip y = (l, z)" by fastforce
  note s = slid_starts [OF z, of "set strip"]
  have "slid (set strip) x y" unfolding y_def by (rule slid_fold) auto
  also have "slid (set strip) y z" using s by simp
  also have "slid (set strip) z (animate_strip strip out from to width x)"
    unfolding animate_strip_def Let_def y_def [symmetric] z prod.case
    by (rule slid_animate_set) (use arg_cong [OF conjunct2 [OF s], of set] in simp)
  finally show ?thesis .
qed

lemma slid_switch:
  "slid ({from, to} \<union> (case ws_output (wss (tx_sway x) from) of None \<Rightarrow> {} | Some out \<Rightarrow> set (out_workspaces (outs (tx_sway x) out))))
     x (workspace_switch_animation_begin_dir (Some from) (Some to) d x)" (is "slid ?W x _")
proof -
  let ?x = "x\<lparr>tx_switch_direction := 0\<rparr>"
  have x: "slid ?W x ?x" by (rule slid_upd)
  have "slid ?W ?x (animate_pair from to r width ?x)" for r width by (rule slid_mono [OF slid_pair]) simp
  then have p: "slid ?W x (animate_pair from to r width ?x)" for r width using x slid_trans by blast
  have s: "slid ?W x (animate_strip strip out from to width ?x)"
    if "ws_output (wss (tx_sway x) from) = Some out" "strip = collect_strip_workspaces (tx_sway x) from to n" for strip out width n
  proof -
    have "set strip \<subseteq> ?W" using collect_strip_subset [OF that(1)] that by auto
    then show ?thesis using slid_trans [OF x slid_mono [OF slid_strip]] by blast
  qed
  show ?thesis
    using x p s unfolding workspace_switch_animation_begin_dir_def
    by (cases "ws_output (wss (tx_sway x) from)") (simp_all add: Let_def)
qed

section \<open>The filmstrip moves as one\<close>

lemma animate_set_one_sel:
  assumes "am_ok (tx_anim x)"
  shows "am_ok (tx_anim (animate_set_one d (w, a, b) x))"
    "am_progress_delta (tx_anim (animate_set_one d (w, a, b) x)) = am_progress_delta (tx_anim x)"
    "tx_switch (animate_set_one d (w, a, b) x) = (tx_switch x)(w := \<lparr>was_from_x = a, was_target_x = b,
       was_target_x_initialized = True, was_active = True\<rparr>)"
    "am_anims (tx_anim (animate_set_one d (w, a, b) x)) = (am_anims (tx_anim x))(ws_switch_anim w :=
       (am_anims (tx_anim x) (ws_switch_anim w))\<lparr>ani_duration_scale := d, ani_progress := 0, ani_multiplier := 0,
          ani_initialized := True\<rparr>)"
  subgoal using slid_animate_set [of "[(w, a, b)]" "{w}" x d] assms
    by (simp add: slid_def workspace_switch_animate_set_def Let_def)
  by (auto simp: animate_set_one_def Let_def add_animation_def stop_animation_def upd_switch_def upd_anim_def fun_eq_iff)

lemma fold_animate_set:
  assumes "am_ok (tx_anim x)" "distinct (map fst l)"
  shows "am_ok (tx_anim (fold (animate_set_one d) l x)) \<and>
    am_progress_delta (tx_anim (fold (animate_set_one d) l x)) = am_progress_delta (tx_anim x) \<and>
    (\<forall>w. w \<notin> fst ` set l \<longrightarrow> tx_switch (fold (animate_set_one d) l x) w = tx_switch x w \<and>
       am_anims (tx_anim (fold (animate_set_one d) l x)) (ws_switch_anim w) = am_anims (tx_anim x) (ws_switch_anim w)) \<and>
    (\<forall>(w, a, b) \<in> set l. tx_switch (fold (animate_set_one d) l x) w = \<lparr>was_from_x = a, was_target_x = b,
         was_target_x_initialized = True, was_active = True\<rparr> \<and>
       am_anims (tx_anim (fold (animate_set_one d) l x)) (ws_switch_anim w) =
         (am_anims (tx_anim x) (ws_switch_anim w))\<lparr>ani_duration_scale := d, ani_progress := 0, ani_multiplier := 0,
            ani_initialized := True\<rparr>)"
  using assms
proof (induction l arbitrary: x)
  case (Cons p l)
  obtain w a b where p: "p = (w, a, b)" by (cases p)
  note s = animate_set_one_sel [OF Cons.prems(1), where w = w and a = a and b = b and d = d]
  have w: "w \<notin> fst ` set l" "distinct (map fst l)" using Cons.prems(2) p by simp_all
  note ih = Cons.IH [OF s(1) w(2)]
  let ?z = "fold (animate_set_one d) l (animate_set_one d (w, a, b) x)"
  have "tx_switch ?z w = tx_switch (animate_set_one d (w, a, b) x) w"
    "am_anims (tx_anim ?z) (ws_switch_anim w) = am_anims (tx_anim (animate_set_one d (w, a, b) x)) (ws_switch_anim w)"
    using ih w(1) by blast+
  moreover have "u \<noteq> w" if "(u, a', b') \<in> set l" for u a' b' using w(1) that by force
  ultimately show ?case using ih unfolding p fold_simps by (auto simp: s)
qed simp

lemma strip_starts_idle:
  "\<forall>w \<in> set l. \<not> was_active (tx_switch x w) \<Longrightarrow>
   strip_starts i fp tp width l x = (map (\<lambda>(j, w). (w, (i + int j - fp) * width, (i + int j - tp) * width)) (enumerate 0 l), x)"
proof (induction l arbitrary: i)
  case (Cons w l)
  have "enumerate 0 (w # l) = (0, w) # map (\<lambda>(j, v). (Suc j, v)) (enumerate 0 l)"
    by (auto simp: enumerate_Suc_eq)
  then show ?case using Cons by (simp add: algebra_simps split_def comp_def)
qed simp

lemma strip_pos_nth:
  assumes "distinct strip" "k < length strip"
  shows "strip_pos strip (strip ! k) = int k"
proof -
  have 1: "fold (\<lambda>(i, ws) pos. if ws = w then int i else pos) (enumerate n l) p = p" if "w \<notin> set l" for w n l p
    using that by (induction l arbitrary: n p) auto
  have "fold (\<lambda>(i, ws) pos. if ws = l ! k then int i else pos) (enumerate n l) p = int (n + k)"
    if "distinct l" "k < length l" for l n k p
    using that
  proof (induction l arbitrary: n k p)
    case (Cons w l)
    then show ?case using 1 [of w l] by (cases k) auto
  qed simp
  from this [OF assms, of 0 "- 1"] show ?thesis by (simp add: strip_pos_def)
qed

lemma stop_leftovers:
  fixes l :: "nat list"
  assumes "am_ok (tx_anim x)" "w \<in> A"
  defines "y \<equiv> fold (\<lambda>ws x. if was_active (tx_switch x ws) \<and> ws \<notin> A then stop_workspace_switch_animation ws x else x) l x"
  shows "am_ok (tx_anim y) \<and> am_progress_delta (tx_anim y) = am_progress_delta (tx_anim x) \<and> tx_sway y = tx_sway x \<and>
    tx_switch y w = tx_switch x w \<and> am_anims (tx_anim y) (ws_switch_anim w) = am_anims (tx_anim x) (ws_switch_anim w)"
  unfolding y_def using assms(1)
proof (induction l arbitrary: x)
  case (Cons v l)
  let ?x = "if was_active (tx_switch x v) \<and> v \<notin> A then stop_workspace_switch_animation v x else x"
  have 1: "am_ok (tx_anim ?x)" using slid_stop_switch [of A x v] Cons.prems by (auto simp: slid_def)
  have 2: "am_progress_delta (tx_anim ?x) = am_progress_delta (tx_anim x)" "tx_sway ?x = tx_sway x"
    "tx_switch ?x w = tx_switch x w" "am_anims (tx_anim ?x) (ws_switch_anim w) = am_anims (tx_anim x) (ws_switch_anim w)"
    using assms(2) by (auto simp: stop_workspace_switch_animation_def upd_switch_def stop_animation_def)
  show ?case using Cons.IH [OF 1] unfolding 2 fold_simps by simp
qed simp

lemma animate_strip_state:
  fixes width :: int and out :: nat
  assumes "am_ok (tx_anim x)" "distinct strip" "\<forall>w \<in> set strip. \<not> was_active (tx_switch x w)" "strip ! fp = from"
    "strip ! tp = to" "fp < length strip" "tp < length strip"
  defines "y \<equiv> animate_strip strip out from to width x"
  shows "am_ok (tx_anim y)" "am_progress_delta (tx_anim y) = am_progress_delta (tx_anim x)" "tx_sway y = tx_sway x"
    "i < length strip \<Longrightarrow> tx_switch y (strip ! i) = \<lparr>was_from_x = (int i - int fp) * width,
        was_target_x = (int i - int tp) * width, was_target_x_initialized = True, was_active = True\<rparr> \<and>
       am_anims (tx_anim y) (ws_switch_anim (strip ! i)) = (am_anims (tx_anim x) (ws_switch_anim (strip ! i)))
         \<lparr>ani_duration_scale := duration_scale_for (cfg_animation (cfg (tx_sway x))) (int (length strip) - 1),
          ani_progress := 0, ani_multiplier := 0, ani_initialized := True\<rparr>"
proof -
  define z where "z = fold (\<lambda>ws x. if was_active (tx_switch x ws) \<and> ws \<notin> set strip then stop_workspace_switch_animation ws x else x)
      (out_workspaces (outs (tx_sway x) out)) x"
  let ?l = "map (\<lambda>(j, w). (w, (int j - int fp) * width, (int j - int tp) * width)) (enumerate 0 strip)"
  let ?d = "duration_scale_for (cfg_animation (cfg (tx_sway x))) (int (length strip) - 1)"
  have fp: "strip ! fp \<in> set strip" using assms(6) by simp
  note s = stop_leftovers [OF assms(1), where A = "set strip" and l = "out_workspaces (outs (tx_sway x) out)", folded z_def]
  have "strip_pos strip from = int fp" "strip_pos strip to = int tp"
    using strip_pos_nth [OF assms(2)] assms(4-7) by auto
  moreover have "strip_starts 0 (int fp) (int tp) width strip z = (?l, z)"
    using strip_starts_idle [of strip z 0 "int fp" "int tp" width] assms(3) s by auto
  ultimately have y: "y = workspace_switch_animate_set ?l ?d z"
    using s [OF fp] by (simp add: y_def animate_strip_def z_def [symmetric])
  have d: "map fst ?l = strip" by (simp add: comp_def split_def)
  have dd: "distinct (map fst ?l)" unfolding d by (rule assms(2))
  have zok: "am_ok (tx_anim z)" using s [OF fp] by blast
  note f = fold_animate_set [OF zok dd, of ?d]
  have yf: "tx_switch y = tx_switch (fold (animate_set_one ?d) ?l z)"
    "am_anims (tx_anim y) = am_anims (tx_anim (fold (animate_set_one ?d) ?l z))"
    "am_progress_delta (tx_anim y) = am_progress_delta (tx_anim (fold (animate_set_one ?d) ?l z))"
    "am_ok (tx_anim y) = am_ok (tx_anim (fold (animate_set_one ?d) ?l z))"
    unfolding y workspace_switch_animate_set_def Let_def by simp_all (simp add: start_animations_def)
  show "am_ok (tx_anim y)" "am_progress_delta (tx_anim y) = am_progress_delta (tx_anim x)"
    using f s [OF fp] unfolding yf by simp_all
  show "tx_sway y = tx_sway x" unfolding y_def by (rule slid_sel(1) [OF slid_strip])
  assume i: "i < length strip"
  have "(strip ! i, (int i - int fp) * width, (int i - int tp) * width) \<in> set ?l"
    using i by (auto simp: image_iff in_set_enumerate_eq intro!: bexI [of _ "(i, strip ! i)"])
  moreover have "am_anims (tx_anim z) (ws_switch_anim (strip ! i)) = am_anims (tx_anim x) (ws_switch_anim (strip ! i))"
    using s [of "strip ! i"] i by simp
  ultimately show "tx_switch y (strip ! i) = \<lparr>was_from_x = (int i - int fp) * width,
        was_target_x = (int i - int tp) * width, was_target_x_initialized = True, was_active = True\<rparr> \<and>
       am_anims (tx_anim y) (ws_switch_anim (strip ! i)) = (am_anims (tx_anim x) (ws_switch_anim (strip ! i)))
         \<lparr>ani_duration_scale := ?d, ani_progress := 0, ani_multiplier := 0, ani_initialized := True\<rparr>"
    using f unfolding yf by force
qed

lemma strip_loop_filter:
  "strip_loop s from to cap out l = [] \<or>
   strip_loop s from to cap out l = out @ filter (\<lambda>w. w = from \<or> w = to \<or> \<not> workspace_is_empty s w) l"
  by (induction s "from" to cap out l rule: strip_loop.induct) auto

lemma in_slice: "lo \<le> k \<Longrightarrow> k \<le> hi \<Longrightarrow> k < length l \<Longrightarrow> l ! k \<in> set (take (Suc hi - lo) (drop lo l))"
  by (auto simp: in_set_conv_nth intro!: exI [of _ "k - lo"])

lemma collect_strip_correct:
  assumes "ws_output (wss s from) = Some out" "collect_strip_workspaces s from to cap = strip" "strip \<noteq> []"
    "distinct (out_workspaces (outs s out))"
  shows "distinct strip" "from \<in> set strip" "to \<in> set strip" "2 \<le> length strip" "from \<in> set (out_workspaces (outs s out))"
    "to \<in> set (out_workspaces (outs s out))"
proof -
  define l where "l = out_workspaces (outs s out)"
  define f where "f = seq_find (\<lambda>w. w = from) l 0"
  define t where "t = seq_find (\<lambda>w. w = to) l 0"
  define slice where "slice = take (nat (max f t - min f t + 1)) (drop (nat (min f t)) l)"
  have c: "0 \<le> f" "0 \<le> t" "strip = strip_loop s from to cap [] slice" "2 \<le> length strip"
    using assms(2,3) unfolding collect_strip_workspaces_def assms(1) by (simp_all add: f_def t_def l_def slice_def Let_def split: if_splits)
  have in': "from \<in> set l" "to \<in> set l"
    using c(1,2) seq_find_absent [of "from" l] seq_find_absent [of to l] by (auto simp: f_def t_def)
  then show "from \<in> set (out_workspaces (outs s out))" "to \<in> set (out_workspaces (outs s out))" by (simp_all add: l_def)
  obtain i where i: "i < length l" "f = int i" "l ! i = from" using seq_find_present [OF in'(1)] f_def by metis
  obtain j where j: "j < length l" "t = int j" "l ! j = to" using seq_find_present [OF in'(2)] t_def by metis
  have "nat (max f t - min f t + 1) = Suc (max i j) - min i j" "nat (min f t) = min i j" using i j by auto
  then have sl: "slice = take (Suc (max i j) - min i j) (drop (min i j) l)" by (simp add: slice_def)
  have "from \<in> set slice" "to \<in> set slice"
    using in_slice [of "min i j" i "max i j" l] in_slice [of "min i j" j "max i j" l] i j by (simp_all add: sl)
  moreover have st: "strip = filter (\<lambda>w. w = from \<or> w = to \<or> \<not> workspace_is_empty s w) slice"
    using strip_loop_filter [of s "from" to cap "[]" slice] c(3) assms(3) by auto
  ultimately show "from \<in> set strip" "to \<in> set strip" by simp_all
  show "distinct strip" using assms(4) by (simp add: st sl l_def)
  show "2 \<le> length strip" by (rule c(4))
qed

lemma c_trunc_near: "of_int (c_trunc x) < x + 1" "x - 1 < of_int (c_trunc x)"
proof -
  have "of_int \<lfloor>x\<rfloor> \<le> x" "x < of_int \<lfloor>x\<rfloor> + 1" "of_int \<lceil>x\<rceil> - 1 < x" "x \<le> of_int \<lceil>x\<rceil>"
    using floor_correct [of x] ceiling_correct [of x] by simp_all
  then show "of_int (c_trunc x) < x + 1" "x - 1 < of_int (c_trunc x)" by (cases "0 \<le> x"; simp only: c_trunc_def if_True if_False; linarith)+
qed

lemma c_trunc_shift: "\<bar>c_trunc (of_int k + r) - c_trunc r - k\<bar> \<le> 1"
proof -
  have "of_int (c_trunc (of_int k + r)) < (of_int (c_trunc r + k + 2) :: rat)"
    using c_trunc_near [of "of_int k + r"] c_trunc_near [of r] by simp
  moreover have "of_int (c_trunc r + k - 2) < (of_int (c_trunc (of_int k + r)) :: rat)"
    using c_trunc_near [of "of_int k + r"] c_trunc_near [of r] by simp
  ultimately show ?thesis unfolding of_int_less_iff by simp
qed


subsection \<open>Three workspaces\<close>

definition txn_idle :: "sway \<Rightarrow> txn_state" where
  "txn_idle s = \<lparr>tx_sway = s,
     tx_anim = \<lparr>am_tick_time = 16, am_progress_delta = 1/4, am_tick = 0, am_animations = [], am_anims = (\<lambda>_. init_animation)\<rparr>,
     tx_out_current = (\<lambda>_. \<lparr>os_workspaces = [], os_active_workspace = None\<rparr>),
     tx_ws_current = (\<lambda>w. copy_workspace_state sway0 w), tx_refs = (\<lambda>_. 0), tx_instruction = (\<lambda>_. None),
     tx_queued = None, tx_pending = None, tx_saved = (\<lambda>_. False),
     tx_con_anim = (\<lambda>_. \<lparr>cas_delta_x = 0, cas_delta_y = 0, cas_delta_width = 0, cas_delta_height = 0,
       cas_current_width = 0, cas_current_height = 0, cas_close_running = False, cas_close_timer = 0\<rparr>),
     tx_closing = [], tx_scroll = (\<lambda>_. \<lparr>was_from_x = 0, was_target_x = 0, was_target_x_initialized = False, was_active = False\<rparr>),
     tx_switch = (\<lambda>_. \<lparr>was_from_x = 0, was_target_x = 0, was_target_x_initialized = False, was_active = False\<rparr>),
     tx_switch_direction = 0, tx_freed = (\<lambda>_. False), tx_scene_coords = (\<lambda>_. (0, 0)), tx_noatomic = False, tx_txn_wait = False\<rparr>"

definition three_workspaces :: sway where
  "three_workspaces = sway0\<lparr>outs := (\<lambda>_. zero_output\<lparr>out_workspaces := [2, 3, 4],
       out_usable_area := \<lparr>box_x = 0, box_y = 0, box_width = 1920, box_height = 1080\<rparr>\<rparr>),
     wss := (\<lambda>w. zero_workspace\<lparr>ws_output := Some 1, ws_name := show_nat w, ws_tiling := [10 + w]\<rparr>),
     cfg := (cfg sway0)\<lparr>cfg_animation := default_animation\<lparr>an_workspace_switch_anim := True\<rparr>\<rparr>\<rparr>"

lemma three_strip: "collect_strip_workspaces three_workspaces 2 4 WORKSPACE_STRIP_MAX = [2, 3, 4]"
  by (simp add: collect_strip_workspaces_def three_workspaces_def zero_output_def zero_workspace_def Let_def
      WORKSPACE_STRIP_MAX_def workspace_is_empty_def)


section \<open>The direction of a slide\<close>

lemma slide_right_by_index:
  assumes "ws_output (wss s from) = Some out" "ws_output (wss s to) = Some out" "distinct (out_workspaces (outs s out))"
    "out_workspaces (outs s out) ! i = from" "out_workspaces (outs s out) ! j = to" "i < length (out_workspaces (outs s out))"
    "j < length (out_workspaces (outs s out))" "i \<noteq> j"
    "let f = workspace_switch_num (ws_name (wss s from)); t = workspace_switch_num (ws_name (wss s to)) in
     f \<ge> 0 \<and> t \<ge> 0 \<and> f = t \<or> f < 0 \<and> t < 0"
  shows "workspace_switch_slide_right s from to = (i < j)"
proof -
  define l where "l = out_workspaces (outs s out)"
  have idx: "seq_find (\<lambda>w. w = l ! k) l 0 = int k" if "k < length l" for k
  proof -
    note h = that
    have "l ! k \<in> set l" using h by simp
    then obtain m where "m < length l" "seq_find (\<lambda>w. w = l ! k) l 0 = int m" "l ! m = l ! k"
      by (rule seq_find_present)
    then show ?thesis using assms(3) h by (simp add: l_def nth_eq_iff_index_eq)
  qed
  have "seq_find (\<lambda>w. w = from) (out_workspaces (outs s out)) 0 = int i"
    "seq_find (\<lambda>w. w = to) (out_workspaces (outs s out)) 0 = int j"
    using idx [of i] idx [of j] assms(4-7) by (simp_all add: l_def)
  note f = this assms(1,2,8)
  show ?thesis using assms(9) unfolding Let_def
    by (elim disjE conjE) (simp_all add: workspace_switch_slide_right_def Let_def f)
qed

text \<open>C15. A switch slides towards the new workspace: on an output whose workspaces are sorted
  and whose names are either numbers or do not begin with one, the slide goes right exactly
  when the new workspace comes later in the order of the output. (The code calls a name such
  as \<open>1:a\<close> unnumbered here and numbered when it sorts, so the hypothesis is needed:
  \<open>slide_away_from_prefixed\<close>.)\<close>

theorem slide_follows_order:
  assumes "ws_output (wss s from) = Some out" "ws_output (wss s to) = Some out" "distinct (out_workspaces (outs s out))"
    "sorted_wrt (\<lambda>a b. sort_workspace_cmp_qsort s a b \<le> 0) (out_workspaces (outs s out))"
    "out_workspaces (outs s out) ! i = from" "out_workspaces (outs s out) ! j = to" "i < length (out_workspaces (outs s out))"
    "j < length (out_workspaces (outs s out))" "i \<noteq> j"
    "\<forall>w \<in> {from, to}. if name_digit s w
       then workspace_switch_num (ws_name (wss s w)) = fst (strtol10_int (ws_name (wss s w))) \<and>
            0 \<le> fst (strtol10_int (ws_name (wss s w)))
       else workspace_switch_num (ws_name (wss s w)) = - 1"
  shows "workspace_switch_slide_right s from to = (i < j)"
proof -
  note ix = slide_right_by_index [OF assms(1-3,5-9)]
  have le: "i < j \<Longrightarrow> sort_workspace_cmp_qsort s from to \<le> 0" "j < i \<Longrightarrow> sort_workspace_cmp_qsort s to from \<le> 0"
    using sorted_wrt_nth_less [OF assms(4)] assms(5-8) by auto
  have ij: "i < j \<or> j < i" using assms(9) by auto
  show ?thesis
    using ix le ij assms(10)
    by (cases "name_digit s from"; cases "name_digit s to")
      (auto simp: workspace_switch_slide_right_def sort_workspace_cmp_qsort_def Let_def split: if_splits)
qed

theorem slide_follows_order_witness: "workspace_switch_slide_right three_workspaces 2 4"
proof -
  have l: "out_workspaces (outs three_workspaces out) = [2, 3, 4]" "ws_output (wss three_workspaces w) = Some 1" for w out
    by (simp_all add: three_workspaces_def zero_output_def zero_workspace_def)
  have n: "map (\<lambda>w. (name_digit three_workspaces w, workspace_switch_num (ws_name (wss three_workspaces w)),
      fst (strtol10_int (ws_name (wss three_workspaces w))))) [2, 3, 4] = [(True, 2, 2), (True, 3, 3), (True, 4, 4)]"
    by code_simp
  have "workspace_switch_slide_right three_workspaces 2 4 = ((0::nat) < 2)"
    by (rule slide_follows_order [where out = 1])
      (use n in \<open>simp_all add: l, simp add: sort_workspace_cmp_qsort_def Let_def\<close>)
  then show ?thesis by simp
qed

lemma slide_away_from_prefixed:
  assumes "ws_name (wss s from) = ''1:a''" "ws_name (wss s to) = ''2''"
  shows "\<not> workspace_switch_slide_right s from to" "sort_workspace_cmp_qsort s from to = - 1"
proof -
  have n: "workspace_switch_num ''1:a'' = - 1" "workspace_switch_num ''2'' = 2" "fst (strtol10_int ''1:a'') = 1"
    "fst (strtol10_int ''2'') = 2" "isdigit CHR ''1''" "isdigit CHR ''2''"
    by code_simp+
  show "\<not> workspace_switch_slide_right s from to" by (simp add: workspace_switch_slide_right_def assms n)
  show "sort_workspace_cmp_qsort s from to = - 1" using n by (simp add: sort_workspace_cmp_qsort_def name_digit_def assms)
qed

end
