(* ===== verification/Transaction_System.thy ===== *)
theory Transaction_System
  imports Switch_Laws
begin

text \<open>
  The transactions as a system: the step relation of everything the compositor does around
  the queue, the invariant of its reachable states, and the properties that rest on it.
\<close>

section \<open>The steps of the compositor around transactions\<close>

text \<open>
  Between the handlers the tree code edits the state (\<open>step_edit\<close> leaves no destroyed node
  uncommitted: every \<open>begin_destroy\<close> is followed by a commit in its handler, which is
  \<open>step_commit\<close>); the views answer, the timers fire, the animations run.
\<close>

definition handler_end :: "sway \<Rightarrow> bool" where
  "handler_end s = (\<forall>n \<in> set (dirty_nodes s). \<not> node_destroying s n)"

inductive txn_step :: "txn_state \<Rightarrow> txn_state \<Rightarrow> bool" where
  step_edit: "edit_ok x s \<Longrightarrow> handler_end s \<Longrightarrow> txn_step x (x\<lparr>tx_sway := s\<rparr>)"
| step_scene: "txn_step x (x\<lparr>tx_saved := sv, tx_scene_coords := xy\<rparr>)"
| step_commit: "edit_ok x s \<Longrightarrow> dirty_nodes s \<noteq> [] \<Longrightarrow>
    transaction_commit_dirty_with b serials (x\<lparr>tx_sway := s\<rparr>) = Some y \<Longrightarrow> txn_step x y"
| step_serial: "transaction_notify_view_ready_by_serial c n serials x = Some (b, y) \<Longrightarrow> txn_step x y"
| step_geometry: "transaction_notify_view_ready_by_geometry c vx vy w h serials x = Some (b, y) \<Longrightarrow> txn_step x y"
| step_timeout: "tx_queued x = Some t \<Longrightarrow> txn_timer t \<Longrightarrow> handle_timeout serials x = Some y \<Longrightarrow> txn_step x y"
| step_close_timer: "0 < cas_close_timer (tx_con_anim x c) \<Longrightarrow> txn_step x (handle_close_animation_timeout c x)"
| step_animation: "txn_step x (x\<lparr>tx_anim := animation_timer config (tx_anim x)\<rparr>)"
| step_scroll: "\<not> node_destroying (tx_sway x) (N_WORKSPACE w) \<Longrightarrow> txn_step x (snd (get_animated_scroll_workspace_x w wx x))"
| step_offset: "txn_step x (snd (get_switch_animation_offset w x))"
| step_hint: "txn_step x (workspace_switch_animation_hint d x)"
| step_switch: "\<forall>w \<in> {from, to} \<union> (case ws_output (wss (tx_sway x) from) of None \<Rightarrow> {}
      | Some out \<Rightarrow> set (out_workspaces (outs (tx_sway x) out))). \<not> node_destroying (tx_sway x) (N_WORKSPACE w) \<Longrightarrow>
    txn_step x (workspace_switch_animation_begin_dir (Some from) (Some to) d x)"
| step_open: "\<not> node_destroying (tx_sway x) (N_CONTAINER c) \<Longrightarrow>
    txn_step x (x\<lparr>tx_anim := add_animation (con_open_anim c) (tx_anim x)\<rparr>)"

definition txn_initial :: "txn_state \<Rightarrow> bool" where
  "txn_initial x = (tx_queued x = None \<and> tx_pending x = None \<and> dirty_nodes (tx_sway x) = [] \<and>
     (\<forall>n. tx_refs x n = 0 \<and> tx_instruction x n = None \<and> \<not> node_destroying (tx_sway x) n \<and> \<not> tx_freed x n) \<and>
     (\<forall>c. cas_close_timer (tx_con_anim x c) = 0) \<and> am_animations (tx_anim x) = [] \<and>
     (\<forall>a. \<not> ani_initialized (am_anims (tx_anim x) a)))"

inductive txn_reachable :: "txn_state \<Rightarrow> bool" where
  reach_initial: "txn_initial x \<Longrightarrow> txn_reachable x"
| reach_step: "txn_reachable x \<Longrightarrow> txn_step x y \<Longrightarrow> txn_reachable y"

inductive_cases txn_stepE: "txn_step x y"

lemma stable_initial: "txn_initial x \<Longrightarrow> stable x"
  by (simp add: txn_initial_def stable_def ready_def core_ok_def refs_ok_def mem_but_def closing_def anim_ok_def am_ok_def)

lemma pointers_queue: "queue_ok x t \<Longrightarrow> pointers_ok x t"
  by (simp add: queue_ok_def pointers_ok_def)

lemma stable_cong:
  assumes "stable x" "tx_queued y = tx_queued x" "tx_pending y = tx_pending x" "tx_instruction y = tx_instruction x"
    "tx_noatomic y = tx_noatomic x" "tx_txn_wait y = tx_txn_wait x" "core_ok (nodes_of (tx_queued x)) y"
  shows "stable y"
  using assms queue_ok_cong [of y x] by (auto simp: stable_def ready_def pointers_ok_def split: option.split)

lemma edit_stable:
  assumes "stable x" "edit_ok x s" "handler_end s"
  shows "stable (x\<lparr>tx_sway := s\<rparr>)"
proof (rule stable_cong [OF assms(1)])
  have c: "core_ok (nodes_of (tx_queued x)) x" using assms(1) by (simp add: stable_def ready_def)
  have d: "node_destroying s n = node_destroying (tx_sway x) n" for n
    using assms(2,3) unfolding edit_ok_def handler_end_def by blast
  have "mem_ok (x\<lparr>tx_sway := s\<rparr>)"
    using c assms(2) unfolding core_ok_def mem_but_def edit_ok_def closing_def by (simp add: d) blast
  then show "core_ok (nodes_of (tx_queued x)) (x\<lparr>tx_sway := s\<rparr>)"
    using c assms(3) by (simp add: core_ok_def refs_ok_def anim_ok_def handler_end_def)
qed simp_all

text \<open>An answer makes the transaction one step readier; the timer makes it ready.\<close>

lemma answer_ready:
  assumes "stable x" "tx_queued x = Some t" "tx_instruction x n = Some k"
  shows "ready (x\<lparr>tx_queued := Some (if ins_waiting (txn_instructions t ! k) \<and> txn_num_waiting t > 0
      then t\<lparr>txn_num_waiting := txn_num_waiting t - 1, txn_timer := (txn_timer t \<and> txn_num_waiting t - 1 \<noteq> 0)\<rparr>
      else t), tx_instruction := (tx_instruction x)(ins_node (txn_instructions t ! k) := None)\<rparr>)" (is "ready ?y")
proof -
  have r: "ready x" "0 < txn_num_waiting t" using assms(1,2) by (simp_all add: stable_def)
  then have q: "queue_ok x t" "core_ok (nodes_of (Some t)) x" "typed (txn_instructions t)" "pointers_ok x t"
    using assms(2) by (simp_all add: ready_def)
  obtain u where u: "tx_queued ?y = Some u" "txn_instructions u = txn_instructions t" by simp
  have k: "k < length (txn_instructions t)" "ins_node (txn_instructions t ! k) = n"
    using q(4) assms(3) by (auto simp: pointers_ok_def)
  have d: "distinct (map ins_node (txn_instructions t))" using q(2) by (simp add: core_ok_def refs_ok_def)
  have out: "outstanding ?y u = outstanding x t - {k}"
  proof -
    have "ins_node (txn_instructions t ! j) = n \<longleftrightarrow> j = k" if "j < length (txn_instructions t)" for j
      using nth_eq_iff_index_eq [OF d, of j k] that k by simp
    then show ?thesis unfolding outstanding_def u(2) using k by auto
  qed
  have fin: "finite (outstanding x t)" by (simp add: outstanding_def)
  have card: "card (outstanding x t - {k}) =
      (if ins_waiting (txn_instructions t ! k) then card (outstanding x t) - 1 else card (outstanding x t))"
    using assms(3) k fin by (simp add: outstanding_def)
  have "core_ok (nodes_of (Some u)) ?y" using q(2) u(2) by (simp add: core_ok_cong [of ?y x])
  moreover have "pointers_ok ?y u" using q(4) u(2) by (auto simp: pointers_ok_def split: if_splits)
  moreover have "queue_ok ?y u"
    using q(1) r(2) u unfolding queue_ok_def out card u(2) by (auto split: if_splits)
  ultimately show ?thesis using u q(3) r(1) by (simp add: ready_def)
qed

lemma set_instruction_ready_eq:
  "tx_queued x = Some t \<Longrightarrow> set_instruction_ready k serials x = transaction_progress 2 serials
     (x\<lparr>tx_queued := Some (if ins_waiting (txn_instructions t ! k) \<and> txn_num_waiting t > 0
      then t\<lparr>txn_num_waiting := txn_num_waiting t - 1, txn_timer := (txn_timer t \<and> txn_num_waiting t - 1 \<noteq> 0)\<rparr>
      else t), tx_instruction := (tx_instruction x)(ins_node (txn_instructions t ! k) := None)\<rparr>)"
  by (simp add: set_instruction_ready_def Let_def)

lemma set_instruction_ready_stable:
  assumes "stable x" "tx_queued x = Some t" "tx_instruction x n = Some k" "set_instruction_ready k serials x = Some y"
  shows "stable y"
  using transaction_progress_stable [OF answer_ready [OF assms(1-3)]] assms(4)
  unfolding set_instruction_ready_eq [OF assms(2)] by blast

lemma timeout_ready:
  assumes "stable x" "tx_queued x = Some t"
  shows "ready (x\<lparr>tx_queued := Some (t\<lparr>txn_num_waiting := 0\<rparr>)\<rparr>)"
proof -
  have "core_ok (nodes_of (Some t)) x" "typed (txn_instructions t)" "pointers_ok x t"
    using assms by (simp_all add: stable_def ready_def)
  moreover have "core_ok L (x\<lparr>tx_queued := Some (t\<lparr>txn_num_waiting := 0\<rparr>)\<rparr>) = core_ok L x" for L
    by (rule core_ok_cong) simp_all
  ultimately show ?thesis using assms(1) by (simp add: ready_def stable_def pointers_ok_def)
qed

lemma close_timer_stable:
  assumes "stable x" "0 < cas_close_timer (tx_con_anim x c)"
  shows "stable (handle_close_animation_timeout c x)"
proof -
  define z where "z = transaction_close_animation_cancel c (upd_cas c (cas_close_timer_update (\<lambda>_. 0)) x)"
  have core: "core_ok (nodes_of (tx_queued x)) x" using assms(1) by (simp add: stable_def ready_def)
  then have m: "mem_ok x" "anim_ok x" "handler_end (tx_sway x)" by (simp_all add: core_ok_def handler_end_def)
  have d: "node_destroying (tx_sway x) (N_CONTAINER c)" "\<not> tx_freed x (N_CONTAINER c)"
    using m(1) assms(2) by (auto simp: mem_but_def)
  have z: "tx_sway z = tx_sway x" "tx_refs z = tx_refs x" "tx_freed z = tx_freed x" "tx_anim z = tx_anim x"
    "tx_instruction z = tx_instruction x" "tx_queued z = tx_queued x" "tx_pending z = tx_pending x"
    "tx_noatomic z = tx_noatomic x" "tx_txn_wait z = tx_txn_wait x"
    by (simp_all add: z_def)
  have cl: "closing z n = (closing x n \<and> n \<noteq> N_CONTAINER c)"
    and tm: "0 < cas_close_timer (tx_con_anim z k) \<longleftrightarrow> 0 < cas_close_timer (tx_con_anim x k) \<and> k \<noteq> c" for n k
    by (auto simp: z_def closing_def transaction_close_animation_cancel_def upd_cas_def Let_def)
  have mz: "mem_but {N_CONTAINER c} z" using m(1) unfolding mem_but_def cl tm z by blast
  have az: "anim_ok z" using m(2) by (simp add: anim_ok_def z)
  have y: "handle_close_animation_timeout c x = container_destroy c z"
    by (simp add: handle_close_animation_timeout_def z_def)
  have "mem_ok (container_destroy c z)"
  proof (cases "tx_refs x (N_CONTAINER c) = 0")
    case True
    then show ?thesis using container_destroy_mem [OF mz] d z by simp
  next
    case False
    then have "container_destroy c z = z" by (simp add: container_destroy_def z)
    moreover have "mem_ok z" using mz False unfolding mem_but_def z by auto (metis neq0_conv)
    ultimately show ?thesis by simp
  qed
  moreover have "anim_ok (container_destroy c z)" by (rule container_destroy_anim [OF az])
  moreover note s = same_container_destroy [of z c, unfolded same_txn_def z]
  ultimately have "core_ok (nodes_of (tx_queued x)) (container_destroy c z)"
    using core unfolding core_ok_def refs_ok_def by simp
  then show ?thesis unfolding y using stable_cong [OF assms(1)] s by blast
qed

lemma stable_anim:
  assumes "stable x" "anim_ok (x\<lparr>tx_anim := m\<rparr>)"
  shows "stable (x\<lparr>tx_anim := m\<rparr>)"
proof (rule stable_cong [OF assms(1)])
  have "mem_but {} (x\<lparr>tx_anim := m\<rparr>) = mem_but {} x" by (simp add: mem_but_def closing_def)
  then show "core_ok (nodes_of (tx_queued x)) (x\<lparr>tx_anim := m\<rparr>)"
    using assms by (simp add: stable_def ready_def core_ok_def refs_ok_def)
qed simp_all

lemma stable_slid:
  assumes "stable x" "slid W x y" "\<forall>w \<in> W. \<not> node_destroying (tx_sway x) (N_WORKSPACE w)"
  shows "stable y"
proof (rule stable_cong [OF assms(1)])
  note s = slid_sel [OF assms(2)]
  have c: "core_ok (nodes_of (tx_queued x)) x" using assms(1) by (simp add: stable_def ready_def)
  then have m: "anim_ok x" "mem_ok x" by (simp_all add: core_ok_def)
  have a: "am_ok (tx_anim y)" "set (am_animations (tx_anim y)) \<subseteq> set (am_animations (tx_anim x)) \<union> ws_scroll_anim ` W \<union> ws_switch_anim ` W"
    using assms(2) m(1) by (auto simp: slid_def anim_ok_def)
  have w: "w \<notin> W" if "tx_freed x (N_WORKSPACE w)" for w using that m(2) assms(3) by (auto simp: mem_but_def)
  have "anim_ok y" unfolding anim_ok_def s using a m(1) w by (fastforce simp: anim_ok_def)
  moreover have "mem_ok y = mem_ok x" by (simp add: mem_but_def closing_def s)
  ultimately show "core_ok (nodes_of (tx_queued x)) y" using c by (simp add: core_ok_def refs_ok_def s)
  show "tx_queued y = tx_queued x" "tx_pending y = tx_pending x" "tx_instruction y = tx_instruction x"
    "tx_noatomic y = tx_noatomic x" "tx_txn_wait y = tx_txn_wait x" by (rule s)+
qed

lemma txn_step_stable:
  assumes "stable x" "txn_step x y"
  shows "stable y"
  using assms(2)
proof cases
  case (step_edit s)
  then show ?thesis using edit_stable [OF assms(1)] by blast
next
  case (step_scene xy sv)
  have "core_ok L (x\<lparr>tx_saved := sv, tx_scene_coords := xy\<rparr>) = core_ok L x" for L by (rule core_ok_cong) simp_all
  then show ?thesis using assms(1) stable_cong [OF assms(1), of y] step_scene
    by (simp add: stable_def ready_def)
next
  case (step_commit s b serials)
  then show ?thesis using commit_dirty_stable [OF assms(1)] by blast
next
  case (step_serial c n serials b)
  then show ?thesis using assms(1) set_instruction_ready_stable [OF assms(1)]
    by (auto simp: transaction_notify_view_ready_by_serial_def split: option.splits if_splits)
next
  case (step_geometry c vx vy w h serials b)
  then show ?thesis using assms(1) set_instruction_ready_stable [OF assms(1)]
    by (auto simp: transaction_notify_view_ready_by_geometry_def split: option.splits if_splits instruction_state.splits)
next
  case (step_timeout t serials)
  then show ?thesis using transaction_progress_stable [OF timeout_ready [OF assms(1)]]
    by (auto simp: handle_timeout_def)
next
  case (step_close_timer c)
  then show ?thesis using close_timer_stable [OF assms(1)] by blast
next
  case (step_animation config)
  have "am_ok (tx_anim x)" using assms(1) by (simp add: stable_def ready_def core_ok_def anim_ok_def)
  then show ?thesis using step_animation stable_anim [OF assms(1)] assms(1)
    by (simp add: stable_def ready_def core_ok_def anim_ok_def am_ok_timer animation_timer_sel(2))
next
  case (step_scroll w wx)
  then show ?thesis using stable_slid [OF assms(1) slid_scroll] by simp
next
  case (step_offset w)
  then show ?thesis using stable_slid [OF assms(1) slid_offset(1) [of "{}"]] by simp
next
  case (step_hint d)
  then show ?thesis using stable_slid [OF assms(1) slid_upd(3) [of "{}"]] by (simp add: workspace_switch_animation_hint_def)
next
  case (step_switch "from" to d)
  then show ?thesis using stable_slid [OF assms(1) slid_switch] by blast
next
  case (step_open c)
  have m: "anim_ok x" "mem_ok x" using assms(1) by (simp_all add: stable_def ready_def core_ok_def)
  have "anim_ok (x\<lparr>tx_anim := add_animation (con_open_anim c) (tx_anim x)\<rparr>)"
    using m step_open(2) by (auto simp: anim_ok_def am_ok_add add_animation_list mem_but_def)
  then show ?thesis using step_open stable_anim [OF assms(1)] by simp
qed

lemma txn_reachable_stable: "txn_reachable x \<Longrightarrow> stable x"
  by (induction rule: txn_reachable.induct) (auto intro: stable_initial txn_step_stable)

section \<open>Properties\<close>

lemma core_ok_clear [simp]: "vis_ok (clear_dirty s) = vis_ok s"
  by (simp add: vis_ok_def clear_dirty_def)

text \<open>The pending transaction, committed when nothing is queued, and what it becomes.\<close>

lemma commit_idle:
  assumes st: "stable x" and q: "tx_queued x = None" and e: "edit_ok x s" "dirty_nodes s \<noteq> []" and v: "vis_ok s"
  shows "\<exists>t y. queue_ok y t \<and> ready y \<and> tx_queued y = Some t \<and> tx_pending y = None \<and> vis_ok (tx_sway y) \<and>
    set (nodes_of (Some t)) = set (dirty_nodes s) \<and>
    (\<forall>i \<in> set (txn_instructions t). ins_state i = copy_state s (ins_node i)) \<and>
    (\<forall>n. current_state y n = current_state (x\<lparr>tx_sway := s\<rparr>) n) \<and>
    transaction_commit_dirty_with b serials (x\<lparr>tx_sway := s\<rparr>) =
      Some (if 0 < txn_num_waiting t then y else retire t y)"
proof -
  obtain t1 z where z: "collect b (x\<lparr>tx_sway := s\<rparr>) = (t1, z)" by fastforce
  have r: "ready x" and p: "tx_pending x = None" using st q by (simp_all add: stable_def ready_def)
  note c = collect_ok [OF r e(1) z]
  have vz: "vis_ok (tx_sway (z\<lparr>tx_pending := None\<rparr>))" using v c(6) by simp
  obtain t u where u: "transaction_commit serials t1 (z\<lparr>tx_pending := None\<rparr>) = Some (t, u)"
    using transaction_commit_total [OF vz] by blast
  have ptr: "\<forall>n. tx_instruction z n = None" using r q c(5) by (simp add: ready_def)
  have core: "core_ok [] z" using c(1,4) q by simp
  note k = commit_pending_ready [OF core ptr c(2,3) u]
  have dist: "distinct (nodes_of (Some t1))" using core c(2) by (simp add: core_ok_def refs_ok_def)
  let ?y = "u\<lparr>tx_queued := Some t\<rparr>"
  have "queue_ok ?y t"
    using transaction_commit_ok(4) [OF u c(3) dist] ptr queue_ok_cong [of ?y u t] by simp
  moreover have "vis_ok (tx_sway ?y)" using k(3) c(6) v by simp
  moreover have set_t: "set (nodes_of (Some t)) = set (dirty_nodes s)" using k(4) c(7) p by simp
  moreover have "\<forall>i \<in> set (txn_instructions t). ins_state i = copy_state s (ins_node i)"
  proof
    fix i assume "i \<in> set (txn_instructions t)"
    then obtain j where j: "j < length (txn_instructions t)" "i = txn_instructions t ! j" by (auto simp: in_set_conv_nth)
    have l: "length (txn_instructions t1) = length (txn_instructions t)" using k(5) by (metis length_map)
    have n: "ins_node (txn_instructions t1 ! j) = ins_node i" using arg_cong [OF k(4), of "\<lambda>l. l ! j"] j l by simp
    have s: "ins_state (txn_instructions t1 ! j) = ins_state i" using arg_cong [OF k(5), of "\<lambda>l. l ! j"] j l by simp
    have "txn_instructions t1 ! j \<in> set (txn_instructions t1)" using j l by simp
    moreover from this have "ins_node (txn_instructions t1 ! j) \<in> set (dirty_nodes s)" using c(7) p by auto
    ultimately show "ins_state i = copy_state s (ins_node i)" using c(8) n s by auto
  qed
  moreover have cur: "current_state ?y n = current_state (x\<lparr>tx_sway := s\<rparr>) n" for n
  proof -
    have "current_state ?y n = current_state u n" by (cases n) simp_all
    then show ?thesis using k(6) c(10) by simp
  qed
  moreover have "transaction_commit_dirty_with b serials (x\<lparr>tx_sway := s\<rparr>) =
      Some (if 0 < txn_num_waiting t then ?y else retire t ?y)"
    using e(2) z u c(2,4) q k(1,2) retire_ok(2) [OF k(1)]
    by (simp add: commit_dirty_collect transaction_commit_pending_def commit_pending_then_def numeral_2_eq_2
        transaction_progress_Suc del: transaction_progress.simps)
  ultimately show ?thesis using k(1,2) by (intro exI [of _ t] exI [of _ ?y]) simp
qed

lemma retire_states:
  assumes "ready y" "tx_queued y = Some t" "set (nodes_of (Some t)) = set D"
    "\<forall>i \<in> set (txn_instructions t). ins_state i = copy_state s (ins_node i)"
  shows "current_state (retire t y) n = (if n \<in> set D then copy_state s n else current_state y n)"
proof (cases "n \<in> set D")
  case True
  then have "n \<in> ins_node ` set (txn_instructions t)" using assms(3) by simp
  then obtain i where "i \<in> set (txn_instructions t)" "n = ins_node i" by blast
  then show ?thesis using retire_ok(9) [OF assms(1,2)] assms(4) True by auto
next
  case False
  then show ?thesis using retire_ok(8) [OF assms(1,2)] assms(3) by simp
qed

text \<open>C3. Memory safety of transactions: in every reachable state a freed node is destroyed, no
  transaction refers to it, it is not dirty, and neither its closing timer nor its animations
  can fire; a destroyed node is freed already, or a transaction or its closing animation still
  holds it, so it is not leaked.
\<close>

theorem txn_safe:
  assumes "txn_reachable x"
  shows "(\<forall>n. tx_freed x n \<longrightarrow> node_destroying (tx_sway x) n \<and> n \<notin> set (dirty_nodes (tx_sway x)) \<and>
      n \<notin> set (nodes_of (tx_queued x)) \<and> n \<notin> set (nodes_of (tx_pending x))) \<and>
    (\<forall>c. tx_freed x (N_CONTAINER c) \<longrightarrow> cas_close_timer (tx_con_anim x c) \<le> 0 \<and>
      con_anim c \<notin> set (am_animations (tx_anim x)) \<and> con_open_anim c \<notin> set (am_animations (tx_anim x))) \<and>
    (\<forall>w. tx_freed x (N_WORKSPACE w) \<longrightarrow> ws_scroll_anim w \<notin> set (am_animations (tx_anim x)) \<and>
      ws_switch_anim w \<notin> set (am_animations (tx_anim x))) \<and>
    (\<forall>n. node_destroying (tx_sway x) n \<longrightarrow> tx_freed x n \<or> n \<in> set (nodes_of (tx_queued x)) \<or>
      n \<in> set (nodes_of (tx_pending x)) \<or>
      (\<exists>c. n = N_CONTAINER c \<and> cas_close_running (tx_con_anim x c) \<and> 0 < cas_close_timer (tx_con_anim x c)))"
proof -
  have c: "core_ok (nodes_of (tx_queued x)) x"
    using txn_reachable_stable [OF assms] by (simp add: stable_def ready_def)
  then have m: "mem_ok x" and a: "anim_ok x" and d: "\<forall>n \<in> set (dirty_nodes (tx_sway x)). \<not> node_destroying (tx_sway x) n"
    by (simp_all add: core_ok_def)
  have refs: "tx_refs x n = 0 \<longleftrightarrow> n \<notin> set (nodes_of (tx_queued x)) \<and> n \<notin> set (nodes_of (tx_pending x))" for n
    using c by (simp add: core_ok_def refs_ok_def count_list_0_iff)
  show ?thesis
  proof (intro conjI allI impI)
    fix n assume "tx_freed x n"
    then have "node_destroying (tx_sway x) n \<and> tx_refs x n = 0" using m by (simp add: mem_but_def)
    then show "node_destroying (tx_sway x) n" "n \<notin> set (dirty_nodes (tx_sway x))"
      "n \<notin> set (nodes_of (tx_queued x))" "n \<notin> set (nodes_of (tx_pending x))"
      using d refs [of n] by auto
  next
    fix c assume "tx_freed x (N_CONTAINER c)"
    then show "cas_close_timer (tx_con_anim x c) \<le> 0" "con_anim c \<notin> set (am_animations (tx_anim x))"
      "con_open_anim c \<notin> set (am_animations (tx_anim x))"
      using m a unfolding mem_but_def anim_ok_def by (auto simp flip: not_less)
  next
    fix w assume "tx_freed x (N_WORKSPACE w)"
    then show "ws_scroll_anim w \<notin> set (am_animations (tx_anim x))" "ws_switch_anim w \<notin> set (am_animations (tx_anim x))"
      using a by (simp_all add: anim_ok_def)
  next
    fix n assume "node_destroying (tx_sway x) n"
    then show "tx_freed x n \<or> n \<in> set (nodes_of (tx_queued x)) \<or> n \<in> set (nodes_of (tx_pending x)) \<or>
      (\<exists>c. n = N_CONTAINER c \<and> cas_close_running (tx_con_anim x c) \<and> 0 < cas_close_timer (tx_con_anim x c))"
      using m d refs [of n] unfolding mem_but_def closing_def by (metis empty_iff neq0_conv)
  qed
qed

text \<open>C5. The bookkeeping of transactions in every reachable state: a node's reference count is
  the number of transactions that mention it, each mentions it once; a transaction is pending
  only while another is queued; a queued one waits with its timer armed, for exactly as many
  answers as views have still to give (unless the debug flags overrule), and the instruction
  pointers lead to the node's own instruction in it.
\<close>

theorem txn_counts:
  assumes "txn_reachable x"
  shows "(\<forall>n. tx_refs x n = (if n \<in> set (nodes_of (tx_queued x)) then 1 else 0) +
      (if n \<in> set (nodes_of (tx_pending x)) then 1 else 0)) \<and>
    (tx_pending x \<noteq> None \<longrightarrow> tx_queued x \<noteq> None) \<and>
    (\<forall>t. tx_queued x = Some t \<longrightarrow> 0 < txn_num_waiting t \<and> txn_timer t \<and>
      (\<not> tx_noatomic x \<and> \<not> tx_txn_wait x \<longrightarrow> txn_num_waiting t = card (outstanding x t))) \<and>
    (\<forall>n k. tx_instruction x n = Some k \<longrightarrow> (\<exists>t. tx_queued x = Some t \<and> k < length (txn_instructions t) \<and>
      ins_node (txn_instructions t ! k) = n))"
proof -
  note st = txn_reachable_stable [OF assms]
  then have "refs_ok (nodes_of (tx_queued x)) x" by (simp add: stable_def ready_def core_ok_def)
  moreover have "count_list l n = (if n \<in> set l then 1 else 0)" if "distinct l" for l and n :: sway_node
    using that by (induction l) auto
  ultimately have "\<forall>n. tx_refs x n = (if n \<in> set (nodes_of (tx_queued x)) then 1 else 0) +
      (if n \<in> set (nodes_of (tx_pending x)) then 1 else 0)"
    by (simp add: refs_ok_def)
  moreover have "tx_pending x \<noteq> None \<longrightarrow> tx_queued x \<noteq> None"
    using st by (auto simp: stable_def ready_def split: option.splits)
  moreover have "0 < txn_num_waiting t \<and> queue_ok x t \<and> pointers_ok x t" if "tx_queued x = Some t" for t
    using st that by (simp add: stable_def ready_def)
  moreover have "tx_instruction x n = None" if "tx_queued x = None" for n
    using st that by (simp add: stable_def ready_def)
  ultimately show ?thesis unfolding queue_ok_def pointers_ok_def
    by (cases "tx_queued x") (simp, force)
qed

text \<open>C4. Atomicity: when nothing is queued, committing the dirty nodes of an edited tree either
  applies at once or queues a transaction with an armed timer and changes no current state;
  when that timer fires, the transaction is applied and gone. Either way every dirty node then
  has as current state exactly what was pending when it was committed, and no other node has
  changed.
\<close>

theorem commit_applies:
  assumes "txn_reachable x" "tx_queued x = None" "edit_ok x s" "dirty_nodes s \<noteq> []" "vis_ok s"
  shows "\<exists>y. transaction_commit_dirty_with b serials (x\<lparr>tx_sway := s\<rparr>) = Some y \<and>
    dirty_nodes (tx_sway y) = [] \<and>
    (case tx_queued y of
       None \<Rightarrow> \<forall>n. current_state y n =
         (if n \<in> set (dirty_nodes s) then copy_state s n else current_state (x\<lparr>tx_sway := s\<rparr>) n)
     | Some t \<Rightarrow> txn_timer t \<and> (\<forall>n. current_state y n = current_state (x\<lparr>tx_sway := s\<rparr>) n) \<and>
         (\<forall>serials'. \<exists>z. handle_timeout serials' y = Some z \<and> tx_queued z = None \<and>
            (\<forall>n. current_state z n =
              (if n \<in> set (dirty_nodes s) then copy_state s n else current_state (x\<lparr>tx_sway := s\<rparr>) n))))"
proof -
  obtain t y where c: "queue_ok y t" "ready y" "tx_queued y = Some t" "tx_pending y = None"
    "set (nodes_of (Some t)) = set (dirty_nodes s)"
    "\<forall>i \<in> set (txn_instructions t). ins_state i = copy_state s (ins_node i)"
    "\<forall>n. current_state y n = current_state (x\<lparr>tx_sway := s\<rparr>) n"
    "transaction_commit_dirty_with b serials (x\<lparr>tx_sway := s\<rparr>) = Some (if 0 < txn_num_waiting t then y else retire t y)"
    using commit_idle [OF txn_reachable_stable [OF assms(1)] assms(2-5), of b serials] by blast
  have "same_tree (clear_dirty s) (tx_sway (if 0 < txn_num_waiting t then y else retire t y))"
    using commit_dirty_stable [OF txn_reachable_stable [OF assms(1)] assms(3,4) c(8)] by simp
  then have d: "dirty_nodes (tx_sway (if 0 < txn_num_waiting t then y else retire t y)) = []"
    by (simp add: same_tree_def clear_dirty_def split: if_splits)
  show ?thesis
  proof (cases "0 < txn_num_waiting t")
    case False
    then show ?thesis
      using c(7,8) d retire_states [OF c(2,3,5,6)] retire_ok(7) [OF c(2,3)] by simp
  next
    case True
    let ?t = "t\<lparr>txn_num_waiting := 0\<rparr>"
    let ?y = "y\<lparr>tx_queued := Some ?t\<rparr>"
    have "stable y" using c(2,3) True by (simp add: stable_def)
    note r = timeout_ready [OF this c(3)]
    have q: "tx_queued ?y = Some ?t" "set (nodes_of (Some ?t)) = set (dirty_nodes s)"
      "\<forall>i \<in> set (txn_instructions ?t). ins_state i = copy_state s (ins_node i)" using c(5,6) by simp_all
    have "handle_timeout serials' y = Some (retire ?t ?y)" for serials'
      using c(3,4) retire_ok(2) [OF r q(1)]
      by (simp add: handle_timeout_def numeral_2_eq_2 transaction_progress_Suc del: transaction_progress.simps)
    moreover have "current_state ?y n = current_state y n" for n by (cases n) simp_all
    ultimately show ?thesis
      using c(1,3,7,8) d True retire_states [OF r q] retire_ok(7) [OF r q(1)] by (simp add: queue_ok_def)
  qed
qed

text \<open>C6. Answers: with nothing pending, a view that acknowledges the serial it was configured
  with is taken off the list of those waited for and nothing is shown yet while others are
  missing; the last answer applies the whole transaction and empties the queue, so that a
  transaction whose views all answer is applied without its timer.
\<close>

theorem view_ready_progress:
  assumes "txn_reachable x" "tx_queued x = Some t" "tx_pending x = None" "\<not> tx_noatomic x" "\<not> tx_txn_wait x"
    "tx_instruction x (N_CONTAINER c) = Some k" "ins_waiting (txn_instructions t ! k)"
    "ins_serial (txn_instructions t ! k) = serial"
  shows "\<exists>y. transaction_notify_view_ready_by_serial c serial serials x = Some (True, y) \<and>
    tx_instruction y (N_CONTAINER c) = None \<and>
    (if outstanding x t = {k}
     then tx_queued y = None \<and> (\<forall>i \<in> set (txn_instructions t). current_state y (ins_node i) = ins_state i)
     else \<exists>u. tx_queued y = Some u \<and> txn_instructions u = txn_instructions t \<and>
       outstanding y u = outstanding x t - {k} \<and> txn_timer u \<and> (\<forall>n. current_state y n = current_state x n))"
proof -
  have st: "stable x" using txn_reachable_stable [OF assms(1)] .
  then have q: "queue_ok x t" "pointers_ok x t" "0 < txn_num_waiting t" "core_ok (nodes_of (Some t)) x"
    using assms(2) by (simp_all add: stable_def ready_def)
  then have k: "k < length (txn_instructions t)" "ins_node (txn_instructions t ! k) = N_CONTAINER c"
    using assms(6) by (simp_all add: pointers_ok_def)
  then have mem: "k \<in> outstanding x t" using assms(6,7) by (simp add: outstanding_def)
  have n: "txn_num_waiting t = card (outstanding x t)" using q(1) assms(4,5) by (simp add: queue_ok_def)
  have fin: "finite (outstanding x t)" by (simp add: outstanding_def)
  define u where "u = t\<lparr>txn_num_waiting := txn_num_waiting t - 1, txn_timer := (txn_timer t \<and> txn_num_waiting t - 1 \<noteq> 0)\<rparr>"
  define y where "y = x\<lparr>tx_queued := Some u, tx_instruction := (tx_instruction x)(N_CONTAINER c := None)\<rparr>"
  have r: "ready y" using answer_ready [OF st assms(2,6)] assms(7) q(3) k(2) by (simp add: y_def u_def)
  have cur: "current_state y n = current_state x n" for n by (cases n) (simp_all add: y_def)
  have notify: "transaction_notify_view_ready_by_serial c serial serials x =
      map_option (Pair True) (transaction_progress 2 serials y)"
    using assms(2,6-8) q(3) k(2) by (simp add: transaction_notify_view_ready_by_serial_def set_instruction_ready_eq
      y_def u_def del: transaction_progress.simps)
  have y: "tx_queued y = Some u" "tx_pending y = None" "txn_instructions u = txn_instructions t"
    using assms(3) by (simp_all add: y_def u_def)
  have d: "distinct (map ins_node (txn_instructions t))" using q(4) by (simp add: core_ok_def refs_ok_def)
  have "ins_node (txn_instructions t ! j) = N_CONTAINER c \<longleftrightarrow> j = k" if "j < length (txn_instructions t)" for j
    using nth_eq_iff_index_eq [OF d, of j k] that k by simp
  then have out: "outstanding y u = outstanding x t - {k}" unfolding outstanding_def y(3) by (auto simp: y_def)
  have left: "txn_num_waiting u = card (outstanding x t - {k})" using mem fin n by (simp add: u_def)
  show ?thesis
  proof (cases "outstanding x t = {k}")
    case True
    then have "transaction_progress 2 serials y = Some (retire u y)"
      using y left retire_ok(2) [OF r y(1)] by (simp add: numeral_2_eq_2 transaction_progress_Suc del: transaction_progress.simps)
    then show ?thesis using True notify retire_ok(3,7,9) [OF r y(1)] y(3) by simp
  next
    case False
    then have pos: "0 < txn_num_waiting u" using mem fin left by (metis Diff_empty Diff_eq_empty_iff card_gt_0_iff finite_Diff
          insert_Diff subset_singletonD subset_insert_iff)
    then have "transaction_progress 2 serials y = Some y"
      using y by (simp add: numeral_2_eq_2 transaction_progress_Suc del: transaction_progress.simps)
    moreover have "txn_timer u" using q(1,3) pos by (simp add: u_def queue_ok_def)
    ultimately show ?thesis using False notify y out cur by (auto simp: y_def)
  qed
qed

subsection \<open>A view that is resized\<close>

definition txn_desk :: sway where
  "txn_desk = sway0\<lparr>cons := (cons sway0)(3 := zero_container\<lparr>con_view := Some zero_view,
     con_pending := zero_container_state\<lparr>st_fullscreen_mode := FULLSCREEN_GLOBAL\<rparr>\<rparr>),
     fullscreen_global := Some 3, next_id := 4\<rparr>"

definition txn_resized :: sway where
  "txn_resized = node_set_dirty (N_CONTAINER 3)
     (upd_con 3 (con_pending_update (st_content_width_update (\<lambda>_. 800))) txn_desk)"

lemma txn_idle_reachable: "txn_reachable (txn_idle txn_desk)"
  by (rule reach_initial) (simp add: txn_initial_def txn_idle_def txn_desk_def sway0_def initial_sway_def init_animation_def)

lemma resized_edit: "edit_ok (txn_idle txn_desk) txn_resized" "dirty_nodes txn_resized = [N_CONTAINER 3]"
  by (simp_all add: edit_ok_def txn_idle_def txn_desk_def txn_resized_def sway0_def initial_sway_def node_set_dirty_def upd_con_def)

definition txn_waiting :: txn_state where
  "txn_waiting = the (transaction_commit_dirty_with True (\<lambda>_. 7) ((txn_idle txn_desk)\<lparr>tx_sway := txn_resized\<rparr>))"

definition txn_queue :: sway_transaction where
  "txn_queue = the (tx_queued txn_waiting)"

lemma txn_waiting_eval:
  "map_option (\<lambda>y. (tx_instruction y (N_CONTAINER 3), tx_pending y, tx_noatomic y, tx_txn_wait y,
      map_option (\<lambda>t. (map ins_node (txn_instructions t), map ins_serial (txn_instructions t),
        map ins_waiting (txn_instructions t))) (tx_queued y)))
    (transaction_commit_dirty_with True (\<lambda>_. 7) ((txn_idle txn_desk)\<lparr>tx_sway := txn_resized\<rparr>)) =
   Some (Some 0, None, False, False, Some ([N_CONTAINER 3], [7], [True]))"
  by code_simp

lemma vis_resized: "vis_ok txn_resized"
  by (simp add: vis_ok_def txn_resized_def txn_desk_def node_set_dirty_def upd_con_def sway0_def zero_container_def
      initial_sway_def empty_slot_def zero_container_state_def)

lemma txn_waiting_commit:
  "transaction_commit_dirty_with True (\<lambda>_. 7) ((txn_idle txn_desk)\<lparr>tx_sway := txn_resized\<rparr>) = Some txn_waiting"
  using txn_waiting_eval by (auto simp: txn_waiting_def)

lemma txn_waiting_reachable: "txn_reachable txn_waiting"
  by (rule reach_step [OF txn_idle_reachable step_commit [OF resized_edit(1) _ txn_waiting_commit]])
    (simp add: resized_edit(2))

lemma txn_waiting_queue:
  shows "tx_queued txn_waiting = Some txn_queue" "tx_instruction txn_waiting (N_CONTAINER 3) = Some 0"
    "tx_pending txn_waiting = None" "\<not> tx_noatomic txn_waiting" "\<not> tx_txn_wait txn_waiting"
    "map ins_node (txn_instructions txn_queue) = [N_CONTAINER 3]" "length (txn_instructions txn_queue) = 1"
    "ins_serial (txn_instructions txn_queue ! 0) = 7" "ins_waiting (txn_instructions txn_queue ! 0)"
    "ins_node (txn_instructions txn_queue ! 0) = N_CONTAINER 3"
proof -
  note e = txn_waiting_eval [unfolded txn_waiting_commit, simplified]
  show q: "tx_queued txn_waiting = Some txn_queue" using e by (auto simp: txn_queue_def)
  show "tx_instruction txn_waiting (N_CONTAINER 3) = Some 0"
    "tx_pending txn_waiting = None" "\<not> tx_noatomic txn_waiting" "\<not> tx_txn_wait txn_waiting" using e by blast+
  have i: "map ins_node (txn_instructions txn_queue) = [N_CONTAINER 3]" "map ins_serial (txn_instructions txn_queue) = [7]"
    "map ins_waiting (txn_instructions txn_queue) = [True]" using e q by simp_all
  then show "map ins_node (txn_instructions txn_queue) = [N_CONTAINER 3]" by blast
  from i(1) obtain j where j: "txn_instructions txn_queue = [j]" by (auto simp: map_eq_Cons_conv)
  show "length (txn_instructions txn_queue) = 1" "ins_serial (txn_instructions txn_queue ! 0) = 7"
    "ins_waiting (txn_instructions txn_queue ! 0)" "ins_node (txn_instructions txn_queue ! 0) = N_CONTAINER 3"
    using i unfolding j by simp_all
qed

theorem txn_safe_witness: "\<not> tx_freed txn_waiting (N_CONTAINER 3)"
proof -
  have "N_CONTAINER 3 \<in> set (nodes_of (tx_queued txn_waiting))"
    unfolding txn_waiting_queue(1) nodes_of_simps txn_waiting_queue(6) by simp
  then show ?thesis using conjunct1 [OF txn_safe [OF txn_waiting_reachable]] by meson
qed

theorem txn_counts_witness: "tx_refs txn_waiting (N_CONTAINER 3) = 1 \<and> tx_refs txn_waiting N_ROOT = 0"
proof -
  note r = conjunct1 [OF txn_counts [OF txn_waiting_reachable]]
  show ?thesis unfolding r [rule_format] txn_waiting_queue(1,3) nodes_of_simps txn_waiting_queue(6) by simp
qed

theorem commit_applies_witness:
  "\<exists>z. handle_timeout (\<lambda>_. 8) txn_waiting = Some z \<and> tx_queued z = None \<and>
     st_content_width (con_current (cons (tx_sway z) 3)) = 800"
proof -
  have "tx_queued (txn_idle txn_desk) = None" "dirty_nodes txn_resized \<noteq> []"
    using resized_edit(2) by (simp_all add: txn_idle_def)
  note c = commit_applies [OF txn_idle_reachable this(1) resized_edit(1) this(2) vis_resized, of True "\<lambda>_. 7",
      unfolded txn_waiting_commit option.inject ex_simps simp_thms]
  have w: "st_content_width (copy_container_state txn_resized 3) = 800"
    by (simp add: copy_container_state_def Let_def txn_resized_def txn_desk_def node_set_dirty_def upd_con_def zero_container_def)
  have "\<exists>z. handle_timeout (\<lambda>_. 8) txn_waiting = Some z \<and> tx_queued z = None \<and>
      (\<forall>n. current_state z n = (if n \<in> set [N_CONTAINER 3] then copy_state txn_resized n
         else current_state ((txn_idle txn_desk)\<lparr>tx_sway := txn_resized\<rparr>) n))"
    using c unfolding txn_waiting_queue(1) resized_edit(2) by simp
  then obtain z where z: "handle_timeout (\<lambda>_. 8) txn_waiting = Some z" "tx_queued z = None"
    "\<forall>n. current_state z n = (if n \<in> set [N_CONTAINER 3] then copy_state txn_resized n
       else current_state ((txn_idle txn_desk)\<lparr>tx_sway := txn_resized\<rparr>) n)" by blast
  note z(3) [rule_format, of "N_CONTAINER 3", simplified]
  then show ?thesis using z(1,2) w by auto
qed

theorem view_ready_progress_witness:
  "\<exists>y. transaction_notify_view_ready_by_serial 3 7 (\<lambda>_. 8) txn_waiting = Some (True, y) \<and> tx_queued y = None"
proof -
  note w = txn_waiting_queue
  have "outstanding txn_waiting txn_queue = {0}" using w by (auto simp: outstanding_def)
  then show ?thesis
    using view_ready_progress [OF txn_waiting_reachable w(1,3-5,2,9,8), of "\<lambda>_. 8"] by auto
qed

end
