(* ===== verification/C_Float.thy ===== *)
theory C_Float
  imports Prelude
begin

text \<open>
  \<open>strtof\<close> and \<open>strtod\<close> in the C locale: white space, a sign, then \<open>inf\<close>, \<open>nan\<close>, a
  hexadecimal or a decimal number. The value of a number is exact; beyond the range of the
  format it is an infinity.
\<close>

datatype c_float = Finite rat | Infinite bool | NaN

definition has_iprefix :: "string \<Rightarrow> string \<Rightarrow> bool" where
  "has_iprefix x p = (map tolower (take (length p) x) = p)"

definition rat_pow :: "rat \<Rightarrow> int \<Rightarrow> rat" where
  "rat_pow b e = (if 0 \<le> e then b ^ nat e else 1 / b ^ nat (- e))"

text \<open>The exponent after the letter \<open>e\<close> or \<open>p\<close>; without digits the letter is not part of the number.\<close>

definition float_exponent :: "char \<Rightarrow> string \<Rightarrow> int \<times> string" where
  "float_exponent mark x =
     (case x of
        [] \<Rightarrow> (0, x)
      | c # cs \<Rightarrow>
          if tolower c \<noteq> mark then (0, x)
          else
            let (neg, ds) = (case cs of [] \<Rightarrow> (False, cs)
                | d # r \<Rightarrow> if d = CHR ''-'' then (True, r) else if d = CHR ''+'' then (False, r) else (False, cs));
                v = int (digits_val 10 digit_val (takeWhile isdigit ds))
            in if takeWhile isdigit ds = [] then (0, x) else (if neg then - v else v, dropWhile isdigit ds))"

text \<open>The digits before and after the point; \<open>None\<close> when there is none.\<close>

definition float_digits :: "(char \<Rightarrow> bool) \<Rightarrow> string \<Rightarrow> (string \<times> string \<times> string) option" where
  "float_digits digit x =
     (let whole = takeWhile digit x; r = dropWhile digit x;
          (fr, r2) = (case r of
              c # cs \<Rightarrow> if c = CHR ''.'' \<and> (whole \<noteq> [] \<or> takeWhile digit cs \<noteq> [])
                        then (takeWhile digit cs, dropWhile digit cs) else ([], r)
            | [] \<Rightarrow> ([], r))
      in if whole = [] \<and> fr = [] then None else Some (whole, fr, r2))"

definition float_number :: "bool \<Rightarrow> string \<Rightarrow> (rat \<times> string) option" where
  "float_number hex x =
     (let (digit, val, base, mark, radix) =
        (if hex then (isxdigit, xdigit_val, 16, CHR ''p'', 2) else (isdigit, digit_val, 10, CHR ''e'', 10)) in
      case float_digits digit x of
        None \<Rightarrow> None
      | Some (whole, fr, r) \<Rightarrow>
          (case float_exponent mark r of (e, r2) \<Rightarrow>
             Some (of_nat (digits_val base val (whole @ fr)) / of_nat base ^ length fr * rat_pow radix e, r2)))"

definition nan_rest :: "string \<Rightarrow> string" where
  "nan_rest x =
     (case x of
        c # cs \<Rightarrow>
          if c = CHR ''('' then
            (case dropWhile (\<lambda>d. isdigit d \<or> d = CHR ''_'' \<or> (let n = of_char (tolower d) :: nat in 97 \<le> n \<and> n \<le> 122)) cs of
               d # r \<Rightarrow> if d = CHR '')'' then r else x
             | [] \<Rightarrow> x)
          else x
      | [] \<Rightarrow> x)"

definition strto_float :: "rat \<Rightarrow> string \<Rightarrow> c_float \<times> string" where
  "strto_float limit s =
     (let s1 = dropWhile isspace s;
          (neg, x) = (case s1 of [] \<Rightarrow> (False, s1)
              | c # cs \<Rightarrow> if c = CHR ''-'' then (True, cs) else if c = CHR ''+'' then (False, cs) else (False, s1));
          number = (if has_iprefix x ''0x'' then
                      (case float_number True (drop 2 x) of Some v \<Rightarrow> Some v | None \<Rightarrow> float_number False x)
                    else float_number False x)
      in if has_iprefix x ''infinity'' then (Infinite neg, drop 8 x)
         else if has_iprefix x ''inf'' then (Infinite neg, drop 3 x)
         else if has_iprefix x ''nan'' then (NaN, nan_rest (drop 3 x))
         else case number of
             None \<Rightarrow> (Finite 0, s)
           | Some (v, r) \<Rightarrow> (if v \<ge> limit then Infinite neg else Finite (if neg then - v else v), r))"

text \<open>A value is out of range when it would round to \<open>2 ^ 128\<close> or \<open>2 ^ 1024\<close>.\<close>

definition strtof :: "string \<Rightarrow> c_float \<times> string" where
  "strtof = strto_float (2 ^ 128 - 2 ^ 103)"

definition strtod :: "string \<Rightarrow> c_float \<times> string" where
  "strtod = strto_float (2 ^ 1024 - 2 ^ 970)"

text \<open>Comparisons with a finite value; every comparison with a NaN is false.\<close>

definition f_less :: "c_float \<Rightarrow> rat \<Rightarrow> bool" where
  "f_less x b = (case x of Finite a \<Rightarrow> a < b | Infinite neg \<Rightarrow> neg | NaN \<Rightarrow> False)"

definition f_greater :: "c_float \<Rightarrow> rat \<Rightarrow> bool" where
  "f_greater x b = (case x of Finite a \<Rightarrow> a > b | Infinite neg \<Rightarrow> \<not> neg | NaN \<Rightarrow> False)"

definition finite_of :: "c_float \<Rightarrow> rat option" where
  "finite_of x = (case x of Finite a \<Rightarrow> Some a | _ \<Rightarrow> None)"

lemma strtof_samples:
  "strtof ''-12.5px'' = (Finite (- 25/2), ''px'')" "strtof ''0x1.8p1'' = (Finite 3, [])" "strtof ''1e2e'' = (Finite 100, ''e'')"
  "strtof ''.'' = (Finite 0, ''.'')" "strtof ''NaN(x1)!'' = (NaN, ''!'')" "strtof ''-infinite'' = (Infinite True, ''inite'')"
  "strtof ''0xg'' = (Finite 0, ''xg'')" "strtof ''1e39'' = (Infinite False, [])"
  by code_simp+

end
