(* ===== verification/Command_Base.thy ===== *)
theory Command_Base
  imports Output_Ops Layout_Ops C_Float
begin

text \<open>
  What the command handlers of \<open>sway/commands\<close> share: results, the check of the number of
  arguments, and the context of \<open>config->handler_context\<close>. A handler takes its arguments
  without the name of the command; \<open>None\<close> is a crash, as for the operations of the tree. The
  first argument \<open>sf\<close> of the handlers that change the focus is \<open>seat_set_focus n\<close>. IPC events,
  warping the cursor and log messages are not modelled.
\<close>

section \<open>Results\<close>

datatype cmd_status = CMD_SUCCESS | CMD_FAILURE | CMD_INVALID | CMD_DEFER | CMD_BLOCK | CMD_BLOCK_COMMANDS
  | CMD_BLOCK_END

record cmd_results =
  res_status :: cmd_status
  res_error :: "string option"

definition cmd_results_new :: "cmd_status \<Rightarrow> string option \<Rightarrow> cmd_results" where
  "cmd_results_new status err = \<lparr>res_status = status, res_error = err\<rparr>"

abbreviation success :: cmd_results where
  "success \<equiv> cmd_results_new CMD_SUCCESS None"

abbreviation failure :: "string \<Rightarrow> cmd_results" where
  "failure msg \<equiv> cmd_results_new CMD_FAILURE (Some msg)"

abbreviation invalid :: "string \<Rightarrow> cmd_results" where
  "invalid msg \<equiv> cmd_results_new CMD_INVALID (Some msg)"

type_synonym cmd_outcome = "(cmd_results \<times> sway) option"

datatype expected_args = EXPECTED_AT_LEAST | EXPECTED_AT_MOST | EXPECTED_EQUAL_TO

definition checkarg :: "nat \<Rightarrow> string \<Rightarrow> expected_args \<Rightarrow> nat \<Rightarrow> cmd_results option" where
  "checkarg argc name type val =
     (let error_name = (case type of
            EXPECTED_AT_LEAST \<Rightarrow> if argc < val then Some ''at least '' else None
          | EXPECTED_AT_MOST \<Rightarrow> if argc > val then Some ''at most '' else None
          | EXPECTED_EQUAL_TO \<Rightarrow> if argc \<noteq> val then Some '''' else None)
      in map_option (\<lambda>e. invalid (''Invalid '' @ name @ '' command (expected '' @ e @ show_nat val @ '' argument'' @
           (if val \<noteq> 1 then ''s'' else '''') @ '', got '' @ show_nat argc @ '')'')) error_name)"

text \<open>A handler returns at once when the number of arguments is wrong.\<close>

definition with_args :: "string list \<Rightarrow> string \<Rightarrow> expected_args \<Rightarrow> nat \<Rightarrow> sway \<Rightarrow> cmd_outcome \<Rightarrow> cmd_outcome" where
  "with_args argv name type val s rest =
     (case checkarg (length argv) name type val of Some e \<Rightarrow> Some (e, s) | None \<Rightarrow> rest)"

definition no_outputs :: string where
  "no_outputs = ''Can't run this command while there's no outputs connected.''"

section \<open>The context\<close>

record handler_context =
  hc_node :: "sway_node option"
  hc_container :: "nat option"
  hc_workspace :: "nat option"
  hc_node_overridden :: bool
  hc_seat :: nat

text \<open>
  What handlers ask of wlroots and other libraries: the output next to another in a direction
  from a point, the farthest one, the cursor of a seat, the output at a point, the X11 window
  of a container, whether a string matches a regex (\<open>None\<close> is a null regex), the regex
  compiler's error for a pattern it refuses, the family and the size that Pango reads in a font
  description and the height of its text, the event code of a name (\<open>- 1\<close>: none) and the name of
  an event code (libevdev), the keysym of a name (0: none) and the keycodes of the keymap for
  translating bindings, in ascending order, each with its keysym (xkbcommon; 0: none), and the
  node under the cursor of a seat (from the scene graph).
  \<open>execute_criteria c\<close> is \<open>view_execute_criteria\<close> of the view of \<open>c\<close>, which runs
  commands itself; \<open>Commands\<close> closes the recursion.
\<close>

record cmd_env =
  adjacent_output :: "wlr_direction \<Rightarrow> nat \<Rightarrow> int \<Rightarrow> int \<Rightarrow> nat option"
  farthest_output :: "wlr_direction \<Rightarrow> nat \<Rightarrow> int \<Rightarrow> int \<Rightarrow> nat option"
  cursor_at :: "nat \<Rightarrow> (rat \<times> rat) option"
  output_at :: "rat \<Rightarrow> rat \<Rightarrow> nat option"
  x11_window_id :: "nat \<Rightarrow> nat"
  regex_matches :: "string option \<Rightarrow> string \<Rightarrow> bool"
  regex_error :: "string \<Rightarrow> string option"
  pango_font :: "string \<Rightarrow> string option \<times> int"
  font_text_height :: "string \<Rightarrow> int"
  event_code :: "string \<Rightarrow> int"
  event_name :: "int \<Rightarrow> string option"
  keysym_from_name :: "string \<Rightarrow> nat"
  keymap_keysyms :: "(nat \<times> nat) list"
  node_under_cursor :: "nat \<Rightarrow> sway_node option"
  execute_criteria :: "nat \<Rightarrow> sway \<Rightarrow> sway option"

type_synonym handler = "refocus_op \<Rightarrow> cmd_env \<Rightarrow> handler_context \<Rightarrow> string list \<Rightarrow> sway \<Rightarrow> cmd_outcome"

definition set_config_node :: "sway \<Rightarrow> sway_node option \<Rightarrow> bool \<Rightarrow> nat \<Rightarrow> handler_context" where
  "set_config_node s node node_overridden seat =
     \<lparr>hc_node = node,
      hc_container = (case node of Some (N_CONTAINER c) \<Rightarrow> Some c | _ \<Rightarrow> None),
      hc_workspace = (case node of Some (N_CONTAINER c) \<Rightarrow> workspace_of s c | Some (N_WORKSPACE w) \<Rightarrow> Some w | _ \<Rightarrow> None),
      hc_node_overridden = node_overridden, hc_seat = seat\<rparr>"

section \<open>Shared helpers\<close>

text \<open>
  A setting that the code reads with \<open>strtof\<close>: a NaN passes the comparisons with the bounds,
  but the model has no NaN to store, so it gives no outcome then.
\<close>

definition with_float :: "c_float \<Rightarrow> (rat \<Rightarrow> cmd_outcome) \<Rightarrow> cmd_outcome" where
  "with_float x k = (case finite_of x of None \<Rightarrow> None | Some r \<Rightarrow> k r)"

text \<open>The containers in the order in which \<open>root_for_each_container\<close> visits them.\<close>

definition output_containers :: "sway \<Rightarrow> nat \<Rightarrow> nat list" where
  "output_containers s out = concat (map (workspace_containers s) (out_workspaces (outs s out)))"

definition root_containers :: "sway \<Rightarrow> nat list" where
  "root_containers s =
     concat (map (output_containers s) (root_outputs s))
     @ concat (map (\<lambda>c. if container_is_scratchpad_hidden s c then c # descendants s c else []) (root_scratchpad s))
     @ output_containers s (fallback_output s)"

text \<open>\<open>root_for_each_container\<close> for a function that changes one container and not the tree.\<close>

definition root_for_each_container :: "(nat \<Rightarrow> sway \<Rightarrow> sway) \<Rightarrow> sway \<Rightarrow> sway" where
  "root_for_each_container f s = fold f (root_containers s) s"

definition upd_effects :: "(effects_config \<Rightarrow> effects_config) \<Rightarrow> sway \<Rightarrow> sway" where
  "upd_effects f = cfg_update (cfg_effects_update f)"

definition upd_flags :: "(flags_config \<Rightarrow> flags_config) \<Rightarrow> sway \<Rightarrow> sway" where
  "upd_flags f = cfg_update (cfg_flags_update f)"

definition upd_borders :: "(border_config \<Rightarrow> border_config) \<Rightarrow> sway \<Rightarrow> sway" where
  "upd_borders f = cfg_update (cfg_borders_update f)"

definition upd_animation :: "(animation_config \<Rightarrow> animation_config) \<Rightarrow> sway \<Rightarrow> sway" where
  "upd_animation f = cfg_update (cfg_animation_update f)"

lemmas upd_cfg_defs = upd_effects_def upd_flags_def upd_borders_def upd_animation_def

definition parse_direction :: "string \<Rightarrow> wlr_direction option" where
  "parse_direction name =
     (if strcasecmp_eq name ''left'' then Some WLR_DIRECTION_LEFT
      else if strcasecmp_eq name ''right'' then Some WLR_DIRECTION_RIGHT
      else if strcasecmp_eq name ''up'' then Some WLR_DIRECTION_UP
      else if strcasecmp_eq name ''down'' then Some WLR_DIRECTION_DOWN
      else None)"

text \<open>What a handler arranges when it is done: everything, or one workspace (which must exist).\<close>

definition arrange_after :: "nat option \<Rightarrow> sway \<Rightarrow> sway option" where
  "arrange_after ws s =
     (if fullscreen_global s \<noteq> None then arrange_root s
      else case ws of None \<Rightarrow> None | Some w \<Rightarrow> arrange_workspace w s)"

definition top_of_floating :: "sway \<Rightarrow> nat \<Rightarrow> nat" where
  "top_of_floating s c = (if container_is_floating_or_child s c then container_toplevel_ancestor s c else c)"

text \<open>An environment in which nothing is there but two keys; the witnesses run in it.\<close>

definition plain_cmd_env :: cmd_env where
  "plain_cmd_env = \<lparr>adjacent_output = (\<lambda>_ _ _ _. None), farthest_output = (\<lambda>_ _ _ _. None), cursor_at = (\<lambda>_. None),
     output_at = (\<lambda>_ _. None), x11_window_id = (\<lambda>_. 0), regex_matches = (\<lambda>r x. r = Some x), regex_error = (\<lambda>_. None),
     pango_font = (\<lambda>x. (Some x, 10)), font_text_height = (\<lambda>_. 10), event_code = (\<lambda>_. - 1), event_name = (\<lambda>_. None),
     keysym_from_name = (\<lambda>x. if x = ''a'' then 97 else if x = ''b'' then 98 else 0), keymap_keysyms = [(38, 97), (56, 98)],
     node_under_cursor = (\<lambda>_. None), execute_criteria = (\<lambda>_ s. Some s)\<rparr>"

definition plain_context :: handler_context where
  "plain_context = \<lparr>hc_node = None, hc_container = None, hc_workspace = None, hc_node_overridden = False, hc_seat = 0\<rparr>"

end
