(* ===== verification/Effect_Cmds.thy ===== *)
theory Effect_Cmds
  imports Command_Base
begin

text \<open>
  The commands that set the animations and the effects: the durations and curves, blur, liquid
  glass, shadows, dimming and corners (one file of \<open>sway/commands\<close> each). A command that has a
  window in its context sets the window where the code does, and the configuration otherwise.
  The timers of the animation manager and the damage of the blur layers are not part of the
  state.
\<close>

section \<open>Shared shapes\<close>

text \<open>A number that must be the whole argument and lie within bounds.\<close>

definition float_between :: "string \<Rightarrow> rat \<Rightarrow> rat \<Rightarrow> c_float option" where
  "float_between a lo hi =
     (case strtof a of (x, rest) \<Rightarrow> if rest \<noteq> [] \<or> f_less x lo \<or> f_greater x hi then None else Some x)"

definition float_setting :: "string \<Rightarrow> rat \<Rightarrow> rat \<Rightarrow> cmd_results \<Rightarrow> (rat \<Rightarrow> cmd_outcome) \<Rightarrow> sway \<Rightarrow> cmd_outcome" where
  "float_setting a lo hi err k s = (case float_between a lo hi of None \<Rightarrow> Some (err, s) | Some x \<Rightarrow> with_float x k)"

definition int_between :: "string \<Rightarrow> int \<Rightarrow> int \<Rightarrow> int option" where
  "int_between a lo hi = (case strtol10_int a of (n, rest) \<Rightarrow> if rest \<noteq> [] \<or> n < lo \<or> n > hi then None else Some n)"

definition arranged :: "sway \<Rightarrow> cmd_outcome" where
  "arranged s = map_option (Pair success) (arrange_root s)"

definition duration_setting :: "string \<Rightarrow> string \<Rightarrow> (rat \<Rightarrow> animation_config \<Rightarrow> animation_config) \<Rightarrow> sway \<Rightarrow> cmd_outcome" where
  "duration_setting name a upd s =
     (case strtof a of
        (x, rest) \<Rightarrow>
          if rest \<noteq> [] then Some (invalid (name @ '' float invalid''), s)
          else if f_less x 0 \<or> f_greater x 5000 then Some (failure (name @ '' value out of bounds''), s)
          else with_float x (\<lambda>v. Some (success, upd_animation (upd v) s)))"

definition first_or_second :: "string list \<Rightarrow> string" where
  "first_or_second argv = (if length argv = 1 then argv ! 0 else argv ! 1)"

section \<open>Durations\<close>

definition cmd_animation_duration_ms :: handler where
  "cmd_animation_duration_ms sf e h argv s = with_args argv ''animation_duration_ms'' EXPECTED_AT_LEAST 1 s
     (duration_setting ''animation_duration_ms'' (first_or_second argv) (\<lambda>v. an_duration_ms_update (\<lambda>_. v)) s)"

definition cmd_window_open_animation_delay :: handler where
  "cmd_window_open_animation_delay sf e h argv s = with_args argv ''window_open_animation_delay'' EXPECTED_AT_LEAST 1 s
     (duration_setting ''window_open_animation_delay'' (first_or_second argv) (\<lambda>v. an_window_open_animation_delay_ms_update (\<lambda>_. v)) s)"

definition cmd_window_open_duration_ms :: handler where
  "cmd_window_open_duration_ms sf e h argv s = with_args argv ''window_open_duration_ms'' EXPECTED_AT_LEAST 1 s
     (duration_setting ''window_open_duration_ms'' (first_or_second argv) (\<lambda>v. an_window_open_duration_ms_update (\<lambda>_. v)) s)"

definition cmd_window_close_duration_ms :: handler where
  "cmd_window_close_duration_ms sf e h argv s = with_args argv ''window_close_duration_ms'' EXPECTED_AT_LEAST 1 s
     (duration_setting ''window_close_duration_ms'' (first_or_second argv) (\<lambda>v. an_window_close_duration_ms_update (\<lambda>_. v)) s)"

definition cmd_window_resize_duration_ms :: handler where
  "cmd_window_resize_duration_ms sf e h argv s = with_args argv ''window_resize_duration_ms'' EXPECTED_AT_LEAST 1 s
     (duration_setting ''window_resize_duration_ms'' (first_or_second argv) (\<lambda>v. an_window_resize_duration_ms_update (\<lambda>_. v)) s)"

definition cmd_window_fullscreen_duration_ms :: handler where
  "cmd_window_fullscreen_duration_ms sf e h argv s = with_args argv ''window_fullscreen_duration_ms'' EXPECTED_AT_LEAST 1 s
     (duration_setting ''window_fullscreen_duration_ms'' (first_or_second argv) (\<lambda>v. an_window_fullscreen_duration_ms_update (\<lambda>_. v)) s)"

definition cmd_workspace_anim_duration_ms :: handler where
  "cmd_workspace_anim_duration_ms sf e h argv s = with_args argv ''workspace_anim_duration_ms'' EXPECTED_AT_LEAST 1 s
     (duration_setting ''workspace_anim_duration_ms'' (hd argv) (\<lambda>v. an_workspace_anim_duration_ms_update (\<lambda>_. v)) s)"

definition cmd_workspace_anim_step_ms :: handler where
  "cmd_workspace_anim_step_ms sf e h argv s = with_args argv ''workspace_anim_step_ms'' EXPECTED_AT_LEAST 1 s
     (duration_setting ''workspace_anim_step_ms'' (hd argv) (\<lambda>v. an_workspace_anim_step_ms_update (\<lambda>_. v)) s)"

definition cmd_workspace_switch_anim :: handler where
  "cmd_workspace_switch_anim sf e h argv s = with_args argv ''workspace_switch_anim'' EXPECTED_EQUAL_TO 1 s
     (Some (success, upd_animation (an_workspace_switch_anim_update (parse_boolean (hd argv))) s))"

section \<open>Curves\<close>

text \<open>The x coordinates must lie in \<open>[0, 1]\<close>; \<open>None\<close> is a curve that is not finite.\<close>

definition set_curve :: "c_float \<Rightarrow> c_float \<Rightarrow> c_float \<Rightarrow> c_float \<Rightarrow> bezier_curve option option" where
  "set_curve c1x c1y c2x c2y =
     (if f_less c1x 0 \<or> f_greater c1x 1 \<or> f_less c2x 0 \<or> f_greater c2x 1 then Some None
      else do {
        a \<leftarrow> finite_of c1x; b \<leftarrow> finite_of c1y; c \<leftarrow> finite_of c2x; d \<leftarrow> finite_of c2y;
        Some (Some \<lparr>curve_c1x = a, curve_c1y = b, curve_c2x = c, curve_c2y = d\<rparr>) })"

text \<open>The arguments joined by spaces, as far as the buffer of 256 bytes holds them.\<close>

fun join_bounded :: "string list \<Rightarrow> string \<Rightarrow> string option" where
  "join_bounded [] joined = Some joined"
| "join_bounded (a # as) joined =
     (if length joined + length a + 2 > 256 then None
      else join_bounded as ((if joined \<noteq> [] then joined @ [SPACE] else []) @ a))"

text \<open>The numbers up to the first that \<open>strtod\<close> does not read, four at most.\<close>

fun control_points :: "string list \<Rightarrow> nat \<Rightarrow> c_float list" where
  "control_points toks 0 = []"
| "control_points [] n = []"
| "control_points (t # ts) (Suc n) = (case strtod t of (v, rest) \<Rightarrow> if rest = t then [] else v # control_points ts n)"

definition bezier_points :: "string \<Rightarrow> c_float list option" where
  "bezier_points joined =
     (case dropWhile (\<lambda>c. c \<noteq> CHR ''('') joined of
        [] \<Rightarrow> Some []
      | _ # p \<Rightarrow>
          let buf = takeWhile (\<lambda>c. c \<noteq> CHR '')'') p in
          if length buf \<ge> 128 then None
          else Some (control_points (strtok_all (\<lambda>c. c = SPACE \<or> c = CHR '','') buf) 4))"

definition curve :: "rat \<Rightarrow> rat \<Rightarrow> rat \<Rightarrow> rat \<Rightarrow> bezier_curve" where
  "curve a b c d = \<lparr>curve_c1x = a, curve_c1y = b, curve_c2x = c, curve_c2y = d\<rparr>"

definition common_curves :: "(string \<times> bezier_curve) list" where
  "common_curves = [(''linear'', curve 0 0 1 1), (''ease'', curve (1/4) (1/10) (1/4) 1), (''ease-in'', curve (42/100) 0 1 1),
     (''ease-out'', curve 0 0 (58/100) 1), (''ease-in-out'', curve (42/100) 0 (58/100) 1)]"

definition window_curves :: "(string \<times> bezier_curve) list" where
  "window_curves = common_curves @
     [(''ease-out-cubic'', curve (215/1000) (61/100) (355/1000) 1), (''default'', curve (215/1000) (61/100) (355/1000) 1),
      (''menu_decel'', curve (1/10) 1 0 1)]"

definition workspace_curves :: "(string \<times> bezier_curve) list" where
  "workspace_curves = common_curves @ [(''menu_decel'', curve (1/10) 1 0 1), (''default'', curve (1/10) 1 0 1)]"

definition curve_setting :: "(string \<times> bezier_curve) list \<Rightarrow> string \<Rightarrow> (bezier_curve \<Rightarrow> animation_config \<Rightarrow> animation_config) \<Rightarrow>
    string list \<Rightarrow> sway \<Rightarrow> cmd_outcome" where
  "curve_setting presets name upd argv s = with_args argv name EXPECTED_AT_LEAST 1 s
     (let a = hd argv; done = (\<lambda>c. Some (success, upd_animation (upd c) s));
          too_long = Some (failure (name @ '' cubic-bezier value too long''), s);
          bad = Some (failure (name @ '' cubic-bezier expects four floats with x in [0; 1]''), s) in
      case map_of presets a of
        Some c \<Rightarrow> done c
      | None \<Rightarrow>
          if has_prefix a ''cubic-bezier'' then
            (case join_bounded argv [] of
               None \<Rightarrow> too_long
             | Some joined \<Rightarrow>
                 (case bezier_points joined of
                    None \<Rightarrow> too_long
                  | Some [c1x, c1y, c2x, c2y] \<Rightarrow>
                      (case set_curve c1x c1y c2x c2y of
                         None \<Rightarrow> None
                       | Some None \<Rightarrow> bad
                       | Some (Some c) \<Rightarrow> done c)
                  | Some _ \<Rightarrow> bad))
          else Some (invalid (name @ '': unknown curve''), s))"

definition cmd_window_open_curve :: handler where
  "cmd_window_open_curve sf e h argv s = curve_setting window_curves ''window_open_curve'' (\<lambda>c. an_window_open_curve_update (\<lambda>_. c)) argv s"

definition cmd_window_close_curve :: handler where
  "cmd_window_close_curve sf e h argv s = curve_setting window_curves ''window_close_curve'' (\<lambda>c. an_window_close_curve_update (\<lambda>_. c)) argv s"

definition cmd_window_resize_curve :: handler where
  "cmd_window_resize_curve sf e h argv s = curve_setting window_curves ''window_resize_curve'' (\<lambda>c. an_window_resize_curve_update (\<lambda>_. c)) argv s"

definition cmd_window_fullscreen_curve :: handler where
  "cmd_window_fullscreen_curve sf e h argv s = curve_setting window_curves ''window_fullscreen_curve'' (\<lambda>c. an_window_fullscreen_curve_update (\<lambda>_. c)) argv s"

definition cmd_workspace_switch_curve :: handler where
  "cmd_workspace_switch_curve sf e h argv s = curve_setting workspace_curves ''workspace_switch_curve'' (\<lambda>c. an_workspace_switch_curve_update (\<lambda>_. c)) argv s"

section \<open>Blur\<close>

definition cmd_blur :: handler where
  "cmd_blur sf e h argv s = with_args argv ''blur'' EXPECTED_AT_LEAST 1 s
     (let result = parse_boolean (hd argv) True in
      case hc_container h of
        None \<Rightarrow>
          arranged (root_for_each_container (\<lambda>c. upd_con c (con_blur_enabled_update (\<lambda>_. result)))
            (upd_effects (fx_blur_enabled_update (\<lambda>_. result)) s))
      | Some c \<Rightarrow> Some (success, arrange_container c (upd_con c (con_blur_enabled_update (\<lambda>_. result)) s)))"

definition cmd_blur_xray :: handler where
  "cmd_blur_xray sf e h argv s = with_args argv ''blur_xray'' EXPECTED_AT_LEAST 1 s
     (Some (success, upd_effects (fx_blur_xray_update (parse_boolean (hd argv))) s))"

definition blur_setting :: "string list \<Rightarrow> string \<Rightarrow> string \<Rightarrow> rat \<Rightarrow> (rat \<Rightarrow> blur_data \<Rightarrow> blur_data) \<Rightarrow> sway \<Rightarrow> cmd_outcome" where
  "blur_setting argv name what hi upd s = with_args argv name EXPECTED_EQUAL_TO 1 s
     (float_setting (hd argv) 0 hi (failure (''Invalid '' @ what @ '' specified''))
       (\<lambda>v. Some (success, scene_blur_update (upd v) s)) s)"

definition cmd_blur_brightness :: handler where
  "cmd_blur_brightness sf e h argv s = blur_setting argv ''blur_brightness'' ''brightness'' 2 (\<lambda>v. blur_brightness_update (\<lambda>_. v)) s"

definition cmd_blur_contrast :: handler where
  "cmd_blur_contrast sf e h argv s = blur_setting argv ''blur_contrast'' ''contrast'' 2 (\<lambda>v. blur_contrast_update (\<lambda>_. v)) s"

definition cmd_blur_noise :: handler where
  "cmd_blur_noise sf e h argv s = blur_setting argv ''blur_noise'' ''noise'' 1 (\<lambda>v. blur_noise_update (\<lambda>_. v)) s"

definition cmd_blur_saturation :: handler where
  "cmd_blur_saturation sf e h argv s = blur_setting argv ''blur_saturation'' ''saturation'' 2 (\<lambda>v. blur_saturation_update (\<lambda>_. v)) s"

definition cmd_blur_passes :: handler where
  "cmd_blur_passes sf e h argv s = with_args argv ''blur_passes'' EXPECTED_EQUAL_TO 1 s
     (case int_between (hd argv) 0 10 of
        None \<Rightarrow> Some (failure ''Invalid number of passes specified'', s)
      | Some n \<Rightarrow> Some (success, scene_blur_update (blur_num_passes_update (\<lambda>_. n)) s))"

definition cmd_blur_radius :: handler where
  "cmd_blur_radius sf e h argv s = with_args argv ''blur_radius'' EXPECTED_AT_LEAST 1 s
     (case int_between (hd argv) 0 10 of
        None \<Rightarrow> Some (failure ''Invalid size specified'', s)
      | Some n \<Rightarrow> Some (success, scene_blur_update (blur_radius_update (\<lambda>_. n)) s))"

section \<open>Liquid glass\<close>

definition upd_glass :: "(liquid_glass_data \<Rightarrow> liquid_glass_data) \<Rightarrow> sway \<Rightarrow> sway" where
  "upd_glass f = upd_effects (fx_liquid_glass_data_update f)"

definition cmd_liquid_glass :: handler where
  "cmd_liquid_glass sf e h argv s = with_args argv ''liquid_glass'' EXPECTED_AT_LEAST 1 s
     (let result = parse_boolean (hd argv) True in
      case hc_container h of
        None \<Rightarrow>
          arranged (root_for_each_container (\<lambda>c. upd_con c (con_liquid_glass_enabled_update (\<lambda>_. result)))
            (upd_effects (fx_liquid_glass_enabled_update (\<lambda>_. result)) s))
      | Some c \<Rightarrow> Some (success, node_set_dirty (N_CONTAINER c) (upd_con c (con_liquid_glass_enabled_update (\<lambda>_. result)) s)))"

definition glass_surfaces :: "(string \<times> liquid_glass_surface_type) list" where
  "glass_surfaces = [(''convex_circle'', LIQUID_GLASS_SURFACE_CONVEX_CIRCLE), (''convex_squircle'', LIQUID_GLASS_SURFACE_CONVEX_SQUIRCLE),
     (''concave'', LIQUID_GLASS_SURFACE_CONCAVE), (''lip'', LIQUID_GLASS_SURFACE_LIP)]"

definition cmd_liquid_glass_surface :: handler where
  "cmd_liquid_glass_surface sf e h argv s = with_args argv ''liquid_glass_surface'' EXPECTED_EQUAL_TO 1 s
     (case map_of glass_surfaces (hd argv) of
        None \<Rightarrow> Some (invalid ''Invalid surface type. Expected one of: convex_circle, convex_squircle, concave, lip'', s)
      | Some t \<Rightarrow> arranged (upd_glass (lg_surface_type_update (\<lambda>_. t)) s))"

definition glass_setting :: "string list \<Rightarrow> string \<Rightarrow> string \<Rightarrow> rat \<Rightarrow> rat \<Rightarrow> (rat \<Rightarrow> liquid_glass_data \<Rightarrow> liquid_glass_data) \<Rightarrow>
    sway \<Rightarrow> cmd_outcome" where
  "glass_setting argv name err lo hi upd s = with_args argv name EXPECTED_EQUAL_TO 1 s
     (float_setting (hd argv) lo hi (invalid err) (\<lambda>v. arranged (upd_glass (upd v) s)) s)"

definition cmd_liquid_glass_bezel_width :: handler where
  "cmd_liquid_glass_bezel_width sf e h argv s =
     glass_setting argv ''liquid_glass_bezel_width'' ''Invalid bezel width (must be between 0 and 500)'' 0 500 (\<lambda>v. lg_bezel_width_update (\<lambda>_. v)) s"

definition cmd_liquid_glass_thickness :: handler where
  "cmd_liquid_glass_thickness sf e h argv s =
     glass_setting argv ''liquid_glass_thickness'' ''Invalid thickness (must be between 0 and 20)'' 0 20 (\<lambda>v. lg_thickness_update (\<lambda>_. v)) s"

definition cmd_liquid_glass_refraction_index :: handler where
  "cmd_liquid_glass_refraction_index sf e h argv s =
     glass_setting argv ''liquid_glass_refraction_index'' ''Invalid refraction index (must be between 1.0 and 5.0)'' 1 5 (\<lambda>v. lg_refraction_index_update (\<lambda>_. v)) s"

definition cmd_liquid_glass_specular_opacity :: handler where
  "cmd_liquid_glass_specular_opacity sf e h argv s =
     glass_setting argv ''liquid_glass_specular_opacity'' ''Invalid specular opacity (must be between 0 and 1)'' 0 1 (\<lambda>v. lg_specular_opacity_update (\<lambda>_. v)) s"

definition cmd_liquid_glass_brightness_boost :: handler where
  "cmd_liquid_glass_brightness_boost sf e h argv s =
     glass_setting argv ''liquid_glass_brightness_boost'' ''Invalid brightness boost (must be between 0 and 10)'' 0 10 (\<lambda>v. lg_brightness_boost_update (\<lambda>_. v)) s"

definition cmd_liquid_glass_saturation_boost :: handler where
  "cmd_liquid_glass_saturation_boost sf e h argv s =
     glass_setting argv ''liquid_glass_saturation_boost'' ''Invalid saturation boost (must be between 0 and 10)'' 0 10 (\<lambda>v. lg_saturation_boost_update (\<lambda>_. v)) s"

definition cmd_liquid_glass_noise_intensity :: handler where
  "cmd_liquid_glass_noise_intensity sf e h argv s =
     glass_setting argv ''liquid_glass_noise_intensity'' ''Invalid noise intensity (must be between 0 and 1)'' 0 1 (\<lambda>v. lg_noise_intensity_update (\<lambda>_. v)) s"

definition cmd_liquid_glass_chromatic_aberration :: handler where
  "cmd_liquid_glass_chromatic_aberration sf e h argv s =
     glass_setting argv ''liquid_glass_chromatic_aberration'' ''Invalid chromatic aberration (must be between 0 and 100)'' 0 100 (\<lambda>v. lg_chromatic_aberration_update (\<lambda>_. v)) s"

definition cmd_liquid_glass_specular :: handler where
  "cmd_liquid_glass_specular sf e h argv s = with_args argv ''liquid_glass_specular'' EXPECTED_EQUAL_TO 1 s
     (arranged (upd_glass (lg_specular_enabled_update (\<lambda>_. parse_boolean (hd argv) True)) s))"

definition cmd_liquid_glass_specular_angle :: handler where
  "cmd_liquid_glass_specular_angle sf e h argv s = with_args argv ''liquid_glass_specular_angle'' EXPECTED_EQUAL_TO 1 s
     (case strtof (hd argv) of
        (x, rest) \<Rightarrow>
          if rest \<noteq> [] then Some (invalid ''Invalid specular angle'', s)
          else with_float x (\<lambda>v. arranged (upd_glass (lg_specular_angle_update (\<lambda>_. v)) s)))"

section \<open>Shadows\<close>

definition cmd_shadows :: handler where
  "cmd_shadows sf e h argv s = with_args argv ''shadows'' EXPECTED_AT_LEAST 1 s
     (let result = parse_boolean (hd argv) True; set_shadow = (\<lambda>c. upd_con c (con_shadow_enabled_update (\<lambda>_. result))) in
      arranged (case hc_container h of
          None \<Rightarrow> root_for_each_container set_shadow (upd_effects (fx_shadow_enabled_update (\<lambda>_. result)) s)
        | Some c \<Rightarrow> set_shadow c s))"

definition cmd_shadows_on_csd :: handler where
  "cmd_shadows_on_csd sf e h argv s = with_args argv ''shadows_on_csd'' EXPECTED_AT_LEAST 1 s
     (arranged (upd_effects (fx_shadows_on_csd_enabled_update (parse_boolean (hd argv))) s))"

definition cmd_shadow_blur_radius :: handler where
  "cmd_shadow_blur_radius sf e h argv s = with_args argv ''shadow_blur_radius'' EXPECTED_EQUAL_TO 1 s
     (case int_between (hd argv) 0 99 of
        None \<Rightarrow> Some (failure ''Invalid size specified'', s)
      | Some n \<Rightarrow> arranged (upd_effects (fx_shadow_blur_sigma_update (\<lambda>_. n)) s))"

definition invalid_color :: "string \<Rightarrow> string \<Rightarrow> cmd_results" where
  "invalid_color name a = invalid (''Invalid '' @ name @ '' color '' @ a)"

definition cmd_shadow_color :: handler where
  "cmd_shadow_color sf e h argv s = with_args argv ''shadow_color'' EXPECTED_AT_LEAST 1 s
     (case parse_color (hd argv) of
        None \<Rightarrow> Some (invalid_color ''shadow_color'' (hd argv), s)
      | Some color \<Rightarrow>
          arranged (upd_effects (\<lambda>x. x\<lparr>fx_shadow_inactive_color :=
              (if fx_shadow_color x = fx_shadow_inactive_color x then color_to_rgba color else fx_shadow_inactive_color x),
            fx_shadow_color := color_to_rgba color\<rparr>) s))"

definition cmd_shadow_inactive_color :: handler where
  "cmd_shadow_inactive_color sf e h argv s = with_args argv ''shadow_inactive_color'' EXPECTED_AT_LEAST 1 s
     (case parse_color (hd argv) of
        None \<Rightarrow> Some (invalid_color ''shadow_inactive_color'' (hd argv), s)
      | Some color \<Rightarrow> arranged (upd_effects (fx_shadow_inactive_color_update (\<lambda>_. color_to_rgba color)) s))"

text \<open>Both numbers are read before the end of the second one is looked at; that of the first is lost.\<close>

definition cmd_shadow_offset :: handler where
  "cmd_shadow_offset sf e h argv s = with_args argv ''shadow_offset'' EXPECTED_AT_LEAST 2 s
     (let (x, _) = strtof (argv ! 0); (y, err) = strtof (argv ! 1); lim = 999/10 in
      if err \<noteq> [] \<or> f_less x (- lim) \<or> f_greater x lim then Some (invalid ''x offset float invalid'', s)
      else if f_less y (- lim) \<or> f_greater y lim then Some (invalid ''y offset float invalid'', s)
      else with_float x (\<lambda>vx. with_float y (\<lambda>vy.
        Some (success, upd_effects (\<lambda>f. f\<lparr>fx_shadow_offset_x := vx, fx_shadow_offset_y := vy\<rparr>) s))))"

section \<open>Dimming and corners\<close>

definition cmd_default_dim_inactive :: handler where
  "cmd_default_dim_inactive sf e h argv s = with_args argv ''default_dim_inactive'' EXPECTED_EQUAL_TO 1 s
     (float_setting (hd argv) 0 1 (invalid ''default_dim_inactive float invalid'')
       (\<lambda>v. let s1 = upd_effects (fx_default_dim_inactive_update (\<lambda>_. v)) s in
            if fl_active (cfg_flags (cfg s)) then arranged s1 else Some (success, s1)) s)"

definition cmd_dim_inactive :: handler where
  "cmd_dim_inactive sf e h argv s = with_args argv ''dim_inactive'' EXPECTED_EQUAL_TO 1 s
     (case float_between (hd argv) 0 1 of
        None \<Rightarrow> Some (invalid ''dim_inactive float invalid'', s)
      | Some x \<Rightarrow>
          (case hc_container h of
             None \<Rightarrow> Some (invalid ''cmd_dim cannot be used without a for_window rule'', s)
           | Some c \<Rightarrow> with_float x (\<lambda>v. Some (success, upd_con c (con_dim_update (\<lambda>_. v)) s))))"

definition dim_color :: "string \<Rightarrow> (32 word \<Rightarrow> effects_config \<Rightarrow> effects_config) \<Rightarrow> string list \<Rightarrow> sway \<Rightarrow> cmd_outcome" where
  "dim_color name upd argv s = with_args argv name EXPECTED_AT_LEAST 1 s
     (case parse_color (hd argv) of
        None \<Rightarrow> Some (invalid_color name (hd argv), s)
      | Some color \<Rightarrow>
          let s1 = upd_effects (upd color) s in
          if fl_active (cfg_flags (cfg s)) then arranged s1 else Some (success, s1))"

definition cmd_dim_inactive_colors_unfocused :: handler where
  "cmd_dim_inactive_colors_unfocused sf e h argv s =
     dim_color ''dim_inactive_colors.unfocused'' (\<lambda>c. fx_dim_unfocused_update (\<lambda>_. color_to_rgba c)) argv s"

definition cmd_dim_inactive_colors_urgent :: handler where
  "cmd_dim_inactive_colors_urgent sf e h argv s =
     dim_color ''dim_inactive_colors.urgent'' (\<lambda>c. fx_dim_urgent_update (\<lambda>_. color_to_rgba c)) argv s"

definition cmd_corner_radius :: handler where
  "cmd_corner_radius sf e h argv s = with_args argv ''corner_radius'' EXPECTED_EQUAL_TO 1 s
     (case int_between (hd argv) 0 99 of
        None \<Rightarrow> Some (failure ''Invalid size specified'', s)
      | Some n \<Rightarrow> do {
          let s1 = upd_effects (fx_corner_radius_update (\<lambda>_. n)) s;
          s2 \<leftarrow> (if hc_container h = None
                 then arrange_root (root_for_each_container (\<lambda>c. upd_con c (con_corner_radius_update (\<lambda>_. n))) s1)
                 else Some s1);
          let s3 = (if n > bd_titlebar_h_padding (cfg_borders (cfg s2))
                    then upd_borders (bd_titlebar_h_padding_update (\<lambda>_. n)) s2 else s2);
          Some (success, if n > container_titlebar_height s3
            then cfg_update (cfg_titlebar_v_padding_update (\<lambda>_. c_trunc (of_int (n - cfg_font_height (cfg s3)) / 2))) s3
            else s3) })"

definition cmd_smart_corner_radius :: handler where
  "cmd_smart_corner_radius sf e h argv s = with_args argv ''smart_corner_radius'' EXPECTED_EQUAL_TO 1 s
     (arranged (upd_effects (fx_smart_corner_radius_update (\<lambda>_. parse_boolean (hd argv) True)) s))"

definition cmd_titlebar_separator :: handler where
  "cmd_titlebar_separator sf e h argv s = with_args argv ''titlebar_separator'' EXPECTED_EQUAL_TO 1 s
     (let a = hd argv in
      if a = ''disable'' then Some (success, upd_effects (fx_titlebar_separator_update (\<lambda>_. False)) s)
      else if a = ''enable'' then Some (success, upd_effects (fx_titlebar_separator_update (\<lambda>_. True)) s)
      else Some (failure (''Expected 'titlebar_separator enable|disable'' @ [CHR 0x27]), s))"

end
