(* ===== verification/Setting_Cmds.thy ===== *)
theory Setting_Cmds
  imports Effect_Cmds
begin

text \<open>
  The commands that set one field of the configuration each (\<open>sway/commands\<close>: borders and
  titles, focus and mouse, layout defaults, colours, programs) and \<open>set\<close>, which defines a
  variable. Warnings of the configuration and redrawing title bars are not modelled.
\<close>

section \<open>Borders, titles and marks\<close>

definition parse_border :: "string \<Rightarrow> sway_container_border option" where
  "parse_border a =
     (if a = ''none'' then Some B_NONE else if a = ''normal'' then Some B_NORMAL
      else if a = ''pixel'' then Some B_PIXEL else None)"

definition cmd_default_border :: handler where
  "cmd_default_border sf e h argv s = with_args argv ''default_border'' EXPECTED_AT_LEAST 1 s
     (case parse_border (hd argv) of
        None \<Rightarrow> Some (invalid (''Expected 'default_border <none|normal|pixel>' or 'default_border <normal|pixel> <px>'' @ [CHR 0x27]), s)
      | Some b \<Rightarrow>
          let s1 = upd_borders (bd_border_update (\<lambda>_. b)) s in
          Some (success, if length argv = 2
            then upd_borders (bd_border_thickness_update (\<lambda>_. fst (strtol10_int (argv ! 1)))) s1 else s1))"

definition cmd_default_floating_border :: handler where
  "cmd_default_floating_border sf e h argv s = with_args argv ''default_floating_border'' EXPECTED_AT_LEAST 1 s
     (case parse_border (hd argv) of
        None \<Rightarrow> Some (invalid (''Expected 'default_floating_border <none|normal|pixel>' or 'default_floating_border <normal|pixel> <px>'' @ [CHR 0x27]), s)
      | Some b \<Rightarrow>
          let s1 = upd_borders (bd_floating_border_update (\<lambda>_. b)) s in
          Some (success, if length argv = 2
            then upd_borders (bd_floating_border_thickness_update (\<lambda>_. fst (strtol10_int (argv ! 1)))) s1 else s1))"

definition cmd_new_float :: handler where
  "cmd_new_float sf e h argv s = cmd_default_floating_border sf e h argv s"

definition cmd_new_window :: handler where
  "cmd_new_window sf e h argv s = cmd_default_border sf e h argv s"

definition edge_words :: "(string \<times> edge_border_types \<times> edge_border_smart_types option) list" where
  "edge_words = [(''none'', E_NONE, None), (''vertical'', E_VERTICAL, None), (''horizontal'', E_HORIZONTAL, None),
     (''both'', E_BOTH, None), (''smart'', E_NONE, Some ESMART_ON), (''smart_no_gaps'', E_NONE, Some ESMART_NO_GAPS)]"

definition hide_edge_syntax :: string where
  "hide_edge_syntax = ''Expected '' @ [CHR 0x27] @ ''hide_edge_borders [--i3] none|vertical|horizontal|both|smart|smart_no_gaps''"

definition cmd_hide_edge_borders :: handler where
  "cmd_hide_edge_borders sf e h argv s = with_args argv ''hide_edge_borders'' EXPECTED_AT_LEAST 1 s
     (let i3 = (hd argv = ''--i3''); argv1 = (if i3 then tl argv else argv) in
      case argv1 of
        [] \<Rightarrow> Some (invalid hide_edge_syntax, s)
      | a # _ \<Rightarrow>
          (case map_of edge_words a of
             None \<Rightarrow> Some (invalid hide_edge_syntax, s)
           | Some (edge, smart) \<Rightarrow>
               arranged (cfg_update (\<lambda>c. c\<lparr>cfg_hide_edge_borders := edge,
                 cfg_hide_edge_borders_smart := (case smart of Some x \<Rightarrow> x | None \<Rightarrow> cfg_hide_edge_borders_smart c),
                 cfg_hide_lone_tab := i3\<rparr>) s)))"

definition cmd_smart_borders :: handler where
  "cmd_smart_borders sf e h argv s = with_args argv ''smart_borders'' EXPECTED_EQUAL_TO 1 s
     (arranged (cfg_update (cfg_hide_edge_borders_smart_update (\<lambda>_.
        if hd argv = ''no_gaps'' then ESMART_NO_GAPS
        else if parse_boolean (hd argv) True then ESMART_ON else ESMART_OFF)) s))"

definition cmd_smart_gaps :: handler where
  "cmd_smart_gaps sf e h argv s = with_args argv ''smart_gaps'' EXPECTED_AT_LEAST 1 s
     (arranged (cfg_update (cfg_smart_gaps_update (\<lambda>g.
        if hd argv = ''inverse_outer'' then SMART_GAPS_INVERSE_OUTER
        else if parse_boolean (hd argv) (g \<noteq> SMART_GAPS_OFF) then SMART_GAPS_ON else SMART_GAPS_OFF)) s))"

definition cmd_show_marks :: handler where
  "cmd_show_marks sf e h argv s = with_args argv ''show_marks'' EXPECTED_AT_LEAST 1 s
     (Some (success, upd_borders (bd_show_marks_update (parse_boolean (hd argv))) s))"

definition alignments :: "(string \<times> alignment) list" where
  "alignments = [(''left'', ALIGN_LEFT), (''center'', ALIGN_CENTER), (''right'', ALIGN_RIGHT)]"

definition cmd_title_align :: handler where
  "cmd_title_align sf e h argv s = with_args argv ''title_align'' EXPECTED_AT_LEAST 1 s
     (case map_of alignments (hd argv) of
        None \<Rightarrow> Some (invalid (''Expected 'title_align left|center|right'' @ [CHR 0x27]), s)
      | Some a \<Rightarrow> Some (success, upd_borders (bd_title_align_update (\<lambda>_. a)) s))"

text \<open>Arranges the active workspace of each output; one without a workspace ends the loop.\<close>

primrec arrange_active :: "nat list \<Rightarrow> sway \<Rightarrow> (bool \<times> sway) option" where
  "arrange_active [] s = Some (True, s)"
| "arrange_active (out # rest) s =
     (case output_get_active_workspace s out of
        None \<Rightarrow> Some (False, s)
      | Some w \<Rightarrow> do { s1 \<leftarrow> arrange_workspace w s; arrange_active rest s1 })"

definition cmd_titlebar_border_thickness :: handler where
  "cmd_titlebar_border_thickness sf e h argv s = with_args argv ''titlebar_border_thickness'' EXPECTED_EQUAL_TO 1 s
     (case int_between (hd argv) 0 (cfg_titlebar_v_padding (cfg s)) of
        None \<Rightarrow> Some (failure ''Invalid size specified'', s)
      | Some n \<Rightarrow> do {
          (ok, s1) \<leftarrow> arrange_active (root_outputs s) (upd_borders (bd_titlebar_border_thickness_update (\<lambda>_. n)) s);
          Some (if ok then success else failure ''Expected output to have a workspace'', s1) })"

text \<open>Here the code arranges what it got without a check: a null workspace is only safe while reloading.\<close>

definition cmd_titlebar_padding :: handler where
  "cmd_titlebar_padding sf e h argv s = with_args argv ''titlebar_padding'' EXPECTED_AT_LEAST 1 s
     (let least = max 0 (bd_titlebar_border_thickness (cfg_borders (cfg s)));
          hv = int_between (argv ! 0) least INT_MAX;
          vv = (if length argv = 1 then hv else int_between (argv ! 1) least INT_MAX) in
      case (hv, vv) of
        (Some hpad, Some vpad) \<Rightarrow>
          let s1 = upd_borders (bd_titlebar_h_padding_update (\<lambda>_. hpad)) (cfg_update (cfg_titlebar_v_padding_update (\<lambda>_. vpad)) s) in
          if cfg_reloading (cfg s1) then Some (success, s1)
          else do {
            (ok, s2) \<leftarrow> arrange_active (root_outputs s1) s1;
            if ok then Some (success, s2) else None }
      | _ \<Rightarrow> Some (failure ''Invalid size specified'', s))"

text \<open>
  The height of the text is what Pango measures. The font of the configuration is replaced
  before the new one is looked at.
\<close>

definition cmd_font :: handler where
  "cmd_font sf e h argv s = with_args argv ''font'' EXPECTED_AT_LEAST 1 s
     (do {
        font \<leftarrow> join_args argv;
        let markup = has_prefix font ''pango:'';
        let name = (if markup then drop 6 font else font);
        let s1 = cfg_update (\<lambda>c. c\<lparr>cfg_pango_markup := markup, cfg_font := Some name\<rparr>) s;
        case pango_font e name of
          (None, _) \<Rightarrow> Some (failure ''Invalid font family.'', s1)
        | (Some _, size_of_font) \<Rightarrow>
            if size_of_font = 0 then Some (failure ''Invalid font size.'', s1)
            else
              let height = font_text_height e name; s2 = cfg_update (cfg_font_height_update (\<lambda>_. height)) s1 in
              if height \<noteq> cfg_font_height (cfg s1) then arranged s2 else Some (success, s2) })"

section \<open>Focus and mouse\<close>

text \<open>A word that selects a value of a flag.\<close>

definition flag_word :: "('a \<Rightarrow> flags_config \<Rightarrow> flags_config) \<Rightarrow> 'a option \<Rightarrow> cmd_results \<Rightarrow> sway \<Rightarrow> cmd_outcome" where
  "flag_word upd v err s = Some (case v of None \<Rightarrow> (err, s) | Some x \<Rightarrow> (success, upd_flags (upd x) s))"

definition cmd_focus_follows_mouse :: handler where
  "cmd_focus_follows_mouse sf e h argv s = with_args argv ''focus_follows_mouse'' EXPECTED_EQUAL_TO 1 s
     (flag_word (\<lambda>v. fl_focus_follows_mouse_update (\<lambda>_. v))
       (map_of [(''no'', FOLLOWS_NO), (''yes'', FOLLOWS_YES), (''always'', FOLLOWS_ALWAYS)] (hd argv))
       (failure (''Expected 'focus_follows_mouse no|yes|always'' @ [CHR 0x27])) s)"

definition cmd_focus_on_window_activation :: handler where
  "cmd_focus_on_window_activation sf e h argv s = with_args argv ''focus_on_window_activation'' EXPECTED_EQUAL_TO 1 s
     (flag_word (\<lambda>v. fl_focus_on_window_activation_update (\<lambda>_. v))
       (map_of [(''smart'', FOWA_SMART), (''urgent'', FOWA_URGENT), (''focus'', FOWA_FOCUS), (''none'', FOWA_NONE)] (hd argv))
       (invalid (''Expected 'focus_on_window_activation smart|urgent|focus|none'' @ [CHR 0x27])) s)"

definition cmd_focus_wrapping :: handler where
  "cmd_focus_wrapping sf e h argv s = with_args argv ''focus_wrapping'' EXPECTED_EQUAL_TO 1 s
     (Some (success, upd_flags (fl_focus_wrapping_update (\<lambda>w.
        if strcasecmp_eq (hd argv) ''force'' then WRAP_FORCE
        else if strcasecmp_eq (hd argv) ''workspace'' then WRAP_WORKSPACE
        else if parse_boolean (hd argv) (w = WRAP_YES) then WRAP_YES else WRAP_NO)) s))"

definition cmd_force_focus_wrapping :: handler where
  "cmd_force_focus_wrapping sf e h argv s = with_args argv ''force_focus_wrapping'' EXPECTED_EQUAL_TO 1 s
     (Some (success, upd_flags (fl_focus_wrapping_update (\<lambda>w.
        if parse_boolean (hd argv) (w = WRAP_FORCE) then WRAP_FORCE else WRAP_YES)) s))"

definition lookup_nocase :: "(string \<times> 'a) list \<Rightarrow> string \<Rightarrow> 'a option" where
  "lookup_nocase l a = map_option snd (find (\<lambda>(n, v). strcasecmp_eq a n) l)"

definition cmd_mouse_warping :: handler where
  "cmd_mouse_warping sf e h argv s = with_args argv ''mouse_warping'' EXPECTED_EQUAL_TO 1 s
     (flag_word (\<lambda>v. fl_mouse_warping_update (\<lambda>_. v))
       (lookup_nocase [(''container'', WARP_CONTAINER), (''output'', WARP_OUTPUT), (''none'', WARP_NO)] (hd argv))
       (failure (''Expected 'mouse_warping output|container|none'' @ [CHR 0x27])) s)"

text \<open>\<open>modifiers\<close> of \<open>sway/input/keyboard.c\<close>, with the values of xkbcommon and wlroots.\<close>

definition modifiers :: "(string \<times> 32 word) list" where
  "modifiers = [(''Shift'', 1), (''Lock'', 2), (''Control'', 4), (''Ctrl'', 4), (''Mod1'', 8), (''Alt'', 8), (''Mod2'', 16),
     (''Mod3'', 32), (''Mod4'', 64), (''Super'', 64), (''Mod5'', 128)]"

definition get_modifier_mask_by_name :: "string \<Rightarrow> 32 word" where
  "get_modifier_mask_by_name name = (case lookup_nocase modifiers name of Some m \<Rightarrow> m | None \<Rightarrow> 0)"

definition cmd_floating_modifier :: handler where
  "cmd_floating_modifier sf e h argv s = with_args argv ''floating_modifier'' EXPECTED_AT_LEAST 1 s
     (if strcasecmp_eq (hd argv) ''none'' then Some (success, upd_flags (fl_floating_mod_update (\<lambda>_. 0)) s)
      else
        let m = get_modifier_mask_by_name (hd argv);
            inverse = (if length argv = 1 \<or> strcasecmp_eq (argv ! 1) ''normal'' then Some False
                       else if strcasecmp_eq (argv ! 1) ''inverse'' then Some True else None) in
        if m = 0 then Some (invalid ''Invalid modifier'', s)
        else case inverse of
            None \<Rightarrow> Some (invalid ''Usage: floating_modifier <mod> [inverse|normal]'', s)
          | Some i \<Rightarrow> Some (success, upd_flags (\<lambda>f. f\<lparr>fl_floating_mod_inverse := i, fl_floating_mod := m\<rparr>) s))"

definition cmd_tiling_drag :: handler where
  "cmd_tiling_drag sf e h argv s = with_args argv ''tiling_drag'' EXPECTED_EQUAL_TO 1 s
     (Some (success, upd_flags (fl_tiling_drag_update (parse_boolean (hd argv))) s))"

definition cmd_tiling_drag_threshold :: handler where
  "cmd_tiling_drag_threshold sf e h argv s = with_args argv ''tiling_drag_threshold'' EXPECTED_EQUAL_TO 1 s
     (flag_word (\<lambda>v. fl_tiling_drag_threshold_update (\<lambda>_. v)) (int_between (hd argv) 0 INT_MAX)
       (invalid ''Invalid threshold specified'') s)"

definition cmd_scrollable_tiling_touchpad_scroll :: handler where
  "cmd_scrollable_tiling_touchpad_scroll sf e h argv s = with_args argv ''scrollable_tiling_touchpad_scroll'' EXPECTED_EQUAL_TO 1 s
     (Some (success, upd_flags (fl_scrollable_tiling_touchpad_scroll_update (parse_boolean (hd argv))) s))"

definition cmd_scrollable_tiling_touchpad_pinch_resize :: handler where
  "cmd_scrollable_tiling_touchpad_pinch_resize sf e h argv s =
     with_args argv ''scrollable_tiling_touchpad_pinch_resize'' EXPECTED_EQUAL_TO 1 s
       (Some (success, upd_flags (fl_scrollable_tiling_touchpad_pinch_resize_update (parse_boolean (hd argv))) s))"

definition factor_setting :: "string list \<Rightarrow> string \<Rightarrow> (rat \<Rightarrow> flags_config \<Rightarrow> flags_config) \<Rightarrow> sway \<Rightarrow> cmd_outcome" where
  "factor_setting argv name upd s = with_args argv name EXPECTED_EQUAL_TO 1 s
     (case strtof (hd argv) of
        (x, rest) \<Rightarrow>
          if rest \<noteq> [] then Some (invalid (name @ '' float invalid''), s)
          else if f_less x 0 \<or> f_greater x 10 then Some (failure (name @ '' value out of bounds''), s)
          else with_float x (\<lambda>v. Some (success, upd_flags (upd v) s)))"

definition cmd_scrollable_tiling_touchpad_scroll_factor :: handler where
  "cmd_scrollable_tiling_touchpad_scroll_factor sf e h argv s =
     factor_setting argv ''scrollable_tiling_touchpad_scroll_factor''
       (\<lambda>v. fl_scrollable_tiling_touchpad_scroll_factor_update (\<lambda>_. v)) s"

definition cmd_scrollable_tiling_touchpad_pinch_resize_factor :: handler where
  "cmd_scrollable_tiling_touchpad_pinch_resize_factor sf e h argv s =
     factor_setting argv ''scrollable_tiling_touchpad_pinch_resize_factor''
       (\<lambda>v. fl_scrollable_tiling_touchpad_pinch_resize_factor_update (\<lambda>_. v)) s"

section \<open>Windows and workspaces\<close>

definition cmd_default_orientation :: handler where
  "cmd_default_orientation sf e h argv s = with_args argv ''default_orientation'' EXPECTED_EQUAL_TO 1 s
     (let a = hd argv; set_it = (\<lambda>l. Some (success, cfg_update (cfg_default_orientation_update (\<lambda>_. l)) s)) in
      if strcasecmp_eq a ''horizontal'' then set_it L_HORIZ
      else if strcasecmp_eq a ''vertical'' then set_it L_VERT
      else if strcasecmp_eq a ''auto'' then Some (success, s)
      else Some (invalid (''Expected 'orientation <horizontal|vertical|auto>'' @ [CHR 0x27]), s))"

definition workspace_layouts :: "(string \<times> sway_container_layout \<times> sway_container_layout) list" where
  "workspace_layouts = [(''default'', L_NONE, L_NONE), (''scrollable'', L_SCROLL_H, L_NONE),
     (''stacking'', L_NONE, L_STACKED), (''tabbed'', L_NONE, L_TABBED)]"

definition cmd_workspace_layout :: handler where
  "cmd_workspace_layout sf e h argv s = with_args argv ''workspace_layout'' EXPECTED_EQUAL_TO 1 s
     (case lookup_nocase workspace_layouts (hd argv) of
        None \<Rightarrow> Some (invalid (''Expected 'workspace_layout <default|scrollable|stacking|tabbed>'' @ [CHR 0x27]), s)
      | Some (wl, layout) \<Rightarrow>
          Some (success, cfg_update (\<lambda>c. c\<lparr>cfg_default_workspace_layout := wl, cfg_default_layout := layout\<rparr>) s))"

definition cmd_ws_auto_back_and_forth :: handler where
  "cmd_ws_auto_back_and_forth sf e h argv s = with_args argv ''workspace_auto_back_and_forth'' EXPECTED_EQUAL_TO 1 s
     (Some (success, cfg_update (cfg_auto_back_and_forth_update (parse_boolean (hd argv))) s))"

definition cmd_dwindle :: handler where
  "cmd_dwindle sf e h argv s = with_args argv ''dwindle'' EXPECTED_EQUAL_TO 1 s
     (Some (success, upd_flags (fl_dwindle_update (parse_boolean (hd argv))) s))"

definition popup_words :: "(string \<times> sway_popup_during_fullscreen) list" where
  "popup_words = [(''smart'', POPUP_SMART), (''ignore'', POPUP_IGNORE), (''leave_fullscreen'', POPUP_LEAVE)]"

definition cmd_popup_during_fullscreen :: handler where
  "cmd_popup_during_fullscreen sf e h argv s = with_args argv ''popup_during_fullscreen'' EXPECTED_EQUAL_TO 1 s
     (case lookup_nocase popup_words (hd argv) of
        None \<Rightarrow> Some (invalid (''Expected 'popup_during_fullscreen smart|ignore|leave_fullscreen'' @ [CHR 0x27]), s)
      | Some p \<Rightarrow> Some (success, cfg_update (cfg_popup_during_fullscreen_update (\<lambda>_. p)) s))"

definition floating_size :: "string list \<Rightarrow> string \<Rightarrow> string \<Rightarrow> (int \<Rightarrow> int \<Rightarrow> sway_config \<Rightarrow> sway_config) \<Rightarrow> sway \<Rightarrow> cmd_outcome" where
  "floating_size argv name usage upd s = with_args argv name EXPECTED_EQUAL_TO 3 s
     (let (w, err) = strtol10_int (argv ! 0); (ht, err2) = strtol10_int (argv ! 2) in
      if err \<noteq> [] \<or> argv ! 1 \<noteq> ''x'' \<or> err2 \<noteq> [] then Some (invalid usage, s)
      else Some (success, cfg_update (upd w ht) s))"

definition cmd_floating_minimum_size :: handler where
  "cmd_floating_minimum_size sf e h argv s =
     floating_size argv ''floating_minimum_size'' (''Expected 'floating_minimum_size <width> x <height>'' @ [CHR 0x27])
       (\<lambda>w ht c. c\<lparr>cfg_floating_minimum_width := w, cfg_floating_minimum_height := ht\<rparr>) s"

definition cmd_floating_maximum_size :: handler where
  "cmd_floating_maximum_size sf e h argv s =
     floating_size argv ''floating_maximum_size'' (''Expected 'floating_maximum_size <width> x <height>'' @ [CHR 0x27])
       (\<lambda>w ht c. c\<lparr>cfg_floating_maximum_width := w, cfg_floating_maximum_height := ht\<rparr>) s"

definition cmd_force_display_urgency_hint :: handler where
  "cmd_force_display_urgency_hint sf e h argv s = with_args argv ''force_display_urgency_hint'' EXPECTED_AT_LEAST 1 s
     (case strtoll10 (hd argv) of
        (n, erange, rest) \<Rightarrow>
          if erange \<or> rest = hd argv \<or> (rest \<noteq> [] \<and> rest \<noteq> ''ms'') then Some (invalid ''timeout integer invalid'', s)
          else if length argv > 1 \<and> argv ! 1 \<noteq> ''ms''
          then Some (invalid (''Expected 'force_display_urgency_hint <timeout> [ms]'' @ [CHR 0x27]), s)
          else Some (success, cfg_update (cfg_urgent_timeout_update (\<lambda>_. nat (to_int32 n))) s))"

definition cmd_scratchpad_minimize :: handler where
  "cmd_scratchpad_minimize sf e h argv s = with_args argv ''scratchpad_minimize'' EXPECTED_AT_LEAST 1 s
     (Some (success, upd_flags (fl_scratchpad_minimize_update (parse_boolean (hd argv))) s))"

section \<open>Programs and start-up\<close>

definition cmd_primary_selection :: handler where
  "cmd_primary_selection sf e h argv s = with_args argv ''primary_selection'' EXPECTED_EQUAL_TO 1 s
     (let v = parse_boolean (hd argv) True in
      if cfg_reloading (cfg s) \<and> fl_primary_selection (cfg_flags (cfg s)) \<noteq> v
      then Some (failure ''primary_selection can only be enabled/disabled at launch'', s)
      else Some (success, upd_flags (fl_primary_selection_update (\<lambda>_. v)) s))"

definition cmd_xwayland :: handler where
  "cmd_xwayland sf e h argv s = with_args argv ''xwayland'' EXPECTED_EQUAL_TO 1 s
     (let v = (if hd argv = ''force'' then XWAYLAND_MODE_IMMEDIATE
               else if parse_boolean (hd argv) True then XWAYLAND_MODE_LAZY else XWAYLAND_MODE_DISABLED) in
      if cfg_reloading (cfg s) \<and> fl_xwayland (cfg_flags (cfg s)) \<noteq> v
      then Some (failure ''xwayland can only be enabled/disabled at launch'', s)
      else Some (success, upd_flags (fl_xwayland_update (\<lambda>_. v)) s))"

definition program :: "string list \<Rightarrow> string option" where
  "program argv = (case join_args argv of Some c \<Rightarrow> if c = ''-'' then None else Some c | None \<Rightarrow> None)"

definition cmd_swaybg_command :: handler where
  "cmd_swaybg_command sf e h argv s = with_args argv ''swaybg_command'' EXPECTED_AT_LEAST 1 s
     (Some (success, upd_flags (fl_swaybg_command_update (\<lambda>_. program argv)) s))"

definition cmd_swaynag_command :: handler where
  "cmd_swaynag_command sf e h argv s = with_args argv ''swaynag_command'' EXPECTED_AT_LEAST 1 s
     (Some (success, upd_flags (fl_swaynag_command_update (\<lambda>_. program argv)) s))"

section \<open>Colours\<close>

fun parse_colors :: "string \<Rightarrow> (string \<times> string) list \<Rightarrow> cmd_results + rat list list" where
  "parse_colors cmd [] = Inr []"
| "parse_colors cmd ((name, hex) # rest) =
     (case parse_color hex of
        None \<Rightarrow> Inl (invalid (''Invalid '' @ name @ '' color '' @ hex))
      | Some c \<Rightarrow> (case parse_colors cmd rest of Inl err \<Rightarrow> Inl err | Inr cs \<Rightarrow> Inr (color_to_rgba c # cs)))"

definition client_colors :: "string list \<Rightarrow> string \<Rightarrow> string \<Rightarrow> (border_colors \<Rightarrow> border_config \<Rightarrow> border_config) \<Rightarrow> sway \<Rightarrow> cmd_outcome" where
  "client_colors argv name default_indicator upd s =
     with_args argv name EXPECTED_AT_LEAST 3 s (with_args argv name EXPECTED_AT_MOST 5 s
       (let ind = (if length argv > 3 then argv ! 3 else default_indicator);
            child = (if length argv > 4 then argv ! 4 else argv ! 1) in
        case parse_colors name [(''border'', argv ! 0), (''background'', argv ! 1), (''text'', argv ! 2),
            (''indicator'', ind), (''child_border'', child)] of
          Inl err \<Rightarrow> Some (err, s)
        | Inr [b, bg, t, i, cb] \<Rightarrow>
            Some (success, upd_borders (upd \<lparr>bc_border = b, bc_background = bg, bc_text = t, bc_indicator = i,
              bc_child_border = cb\<rparr>) s)
        | Inr _ \<Rightarrow> None))"

definition cmd_client_focused :: handler where
  "cmd_client_focused sf e h argv s =
     client_colors argv ''client.focused'' ''#2e9ef4ff'' (\<lambda>c. bd_focused_update (\<lambda>_. c)) s"

definition cmd_client_focused_inactive :: handler where
  "cmd_client_focused_inactive sf e h argv s =
     client_colors argv ''client.focused_inactive'' ''#484e50ff'' (\<lambda>c. bd_focused_inactive_update (\<lambda>_. c)) s"

definition cmd_client_unfocused :: handler where
  "cmd_client_unfocused sf e h argv s =
     client_colors argv ''client.unfocused'' ''#292d2eff'' (\<lambda>c. bd_unfocused_update (\<lambda>_. c)) s"

definition cmd_client_urgent :: handler where
  "cmd_client_urgent sf e h argv s =
     client_colors argv ''client.urgent'' ''#900000ff'' (\<lambda>c. bd_urgent_update (\<lambda>_. c)) s"

definition cmd_client_noop :: handler where
  "cmd_client_noop sf e h argv s = Some (success, s)"

definition cmd_client_focused_tab_title :: handler where
  "cmd_client_focused_tab_title sf e h argv s = do {
     (r, s1) \<leftarrow> client_colors argv ''client.focused_tab_title'' ''#2e9ef4ff'' (\<lambda>c. bd_focused_tab_title_update (\<lambda>_. c)) s;
     Some (r, if res_status r = CMD_SUCCESS then upd_borders (bd_has_focused_tab_title_update (\<lambda>_. True)) s1 else s1) }"

section \<open>Variables\<close>

text \<open>
  Longest names first. Names of one length are different, so at most one of them starts at a
  place of a text, and their order does not matter.
\<close>

definition set_symbol :: "string \<Rightarrow> string \<Rightarrow> (string \<times> string) list \<Rightarrow> (string \<times> string) list" where
  "set_symbol name value l =
     (if map_of l name \<noteq> None then map (\<lambda>(n, v). if n = name then (n, value) else (n, v)) l
      else sort_key (\<lambda>(n, v). - int (length n)) (l @ [(name, value)]))"

definition cmd_set :: handler where
  "cmd_set sf e h argv s = with_args argv ''set'' EXPECTED_AT_LEAST 2 s
     (case hd argv of
        [] \<Rightarrow> Some (invalid (''variable '' @ [CHR 0x27] @ hd argv @ [CHR 0x27] @ '' must start with $''), s)
      | c # name \<Rightarrow>
          if c \<noteq> CHR ''$'' then Some (invalid (''variable '' @ [CHR 0x27] @ hd argv @ [CHR 0x27] @ '' must start with $''), s)
          else do {
            value \<leftarrow> join_args (tl argv);
            Some (success, cfg_update (cfg_symbols_update (set_symbol name value)) s) })"

end
