(* ===== verification/Bind_Cmds.thy ===== *)
theory Bind_Cmds
  imports Setting_Cmds
begin

unbundle bit_operations_syntax

text \<open>
  Bindings of keys, buttons, switches and gestures: \<open>sway/commands/bind.c\<close>,
  \<open>gesture.c\<close> and \<open>mode.c\<close>, with the names of mouse buttons of \<open>sway/input/cursor.c\<close>. A mode
  has a list of bindings of each kind; a command adds to, overwrites in or removes from a list
  of the current mode. The warnings of swaynag about overwritten bindings are not modelled.
\<close>

definition upd_current_mode :: "(sway_mode \<Rightarrow> sway_mode) \<Rightarrow> sway \<Rightarrow> sway" where
  "upd_current_mode f = cfg_update (\<lambda>c. c\<lparr>cfg_modes := (cfg_modes c)[cfg_current_mode c := f (cfg_modes c ! cfg_current_mode c)]\<rparr>)"

definition current_mode :: "sway \<Rightarrow> sway_mode" where
  "current_mode s = cfg_modes (cfg s) ! cfg_current_mode (cfg s)"

section \<open>Comparing bindings\<close>

definition binding_switch_compare :: "sway_switch_binding \<Rightarrow> sway_switch_binding \<Rightarrow> bool" where
  "binding_switch_compare a b =
     (if switch_type a \<noteq> switch_type b then False
      else if switch_trigger a \<noteq> switch_trigger b then False
      else switch_flags a AND BINDING_LOCKED = switch_flags b AND BINDING_LOCKED)"

definition conflict_generating_flags :: "32 word" where
  "conflict_generating_flags = BINDING_RELEASE OR BINDING_BORDER OR BINDING_CONTENTS OR BINDING_TITLEBAR OR
     BINDING_LOCKED OR BINDING_INHIBITED"

fun same_keys :: "nat list \<Rightarrow> nat list \<Rightarrow> bool" where
  "same_keys (a # as) (b # bs) = (a = b \<and> same_keys as bs)"
| "same_keys as bs = True"

definition binding_key_compare :: "sway_binding \<Rightarrow> sway_binding \<Rightarrow> bool" where
  "binding_key_compare a b =
     (if binding_input a \<noteq> binding_input b then False
      else if binding_type a \<noteq> binding_type b then False
      else if binding_flags a AND conflict_generating_flags \<noteq> binding_flags b AND conflict_generating_flags then False
      else if binding_group a \<noteq> binding_group b then False
      else if binding_modifiers a XOR binding_modifiers b \<noteq> 0 then False
      else if length (binding_keys a) \<noteq> length (binding_keys b) then False
      else same_keys (binding_keys a) (binding_keys b))"

definition binding_gesture_equal :: "sway_gesture_binding \<Rightarrow> sway_gesture_binding \<Rightarrow> bool" where
  "binding_gesture_equal a b =
     (if gesture_input a \<noteq> gesture_input b then False
      else if \<not> gesture_equal (gesture_of a) (gesture_of b) then False
      else gesture_flags a AND BINDING_EXACT = gesture_flags b AND BINDING_EXACT)"

section \<open>Storing bindings\<close>

text \<open>
  The loops over a list of bindings, for the comparison of each kind: \<open>binding_upsert\<close>
  overwrites the first equal binding, \<open>overwrite_all\<close> (switches and gestures) every equal one,
  and \<open>remove_binding\<close> takes out the first one (\<open>None\<close>: there is none).
\<close>

fun binding_upsert :: "('b \<Rightarrow> 'b \<Rightarrow> bool) \<Rightarrow> 'b \<Rightarrow> 'b list \<Rightarrow> 'b list" where
  "binding_upsert same b [] = [b]"
| "binding_upsert same b (c # cs) = (if same b c then b # cs else c # binding_upsert same b cs)"

definition overwrite_all :: "('b \<Rightarrow> 'b \<Rightarrow> bool) \<Rightarrow> 'b \<Rightarrow> 'b list \<Rightarrow> 'b list" where
  "overwrite_all same b l =
     (let l1 = map (\<lambda>c. if same b c then b else c) l in if list_ex (same b) l then l1 else l1 @ [b])"

fun remove_binding :: "('b \<Rightarrow> 'b \<Rightarrow> bool) \<Rightarrow> 'b \<Rightarrow> 'b list \<Rightarrow> 'b list option" where
  "remove_binding same b [] = None"
| "remove_binding same b (c # cs) =
     (if same b c then Some cs else map_option (\<lambda>l. c # l) (remove_binding same b cs))"

definition switch_binding_add :: "sway_switch_binding \<Rightarrow> sway \<Rightarrow> cmd_results \<times> sway" where
  "switch_binding_add b s =
     (success, upd_current_mode (mode_switch_bindings_update (overwrite_all binding_switch_compare b)) s)"

definition switch_binding_remove :: "sway_switch_binding \<Rightarrow> string \<Rightarrow> sway \<Rightarrow> cmd_results \<times> sway" where
  "switch_binding_remove b switchcombo s =
     (case remove_binding binding_switch_compare b (mode_switch_bindings (current_mode s)) of
        Some l \<Rightarrow> (success, upd_current_mode (mode_switch_bindings_update (\<lambda>_. l)) s)
      | None \<Rightarrow> (failure (''Could not find switch binding `'' @ switchcombo @ ''`''), s))"

definition gesture_binding_add :: "sway_gesture_binding \<Rightarrow> sway \<Rightarrow> cmd_results \<times> sway" where
  "gesture_binding_add b s =
     (success, upd_current_mode (mode_gesture_bindings_update (overwrite_all binding_gesture_equal b)) s)"

definition gesture_binding_remove :: "sway_gesture_binding \<Rightarrow> string \<Rightarrow> sway \<Rightarrow> cmd_results \<times> sway" where
  "gesture_binding_remove b gesturecombo s =
     (case remove_binding binding_gesture_equal b (mode_gesture_bindings (current_mode s)) of
        Some l \<Rightarrow> (success, upd_current_mode (mode_gesture_bindings_update (\<lambda>_. l)) s)
      | None \<Rightarrow> (failure (''Could not find gesture binding `'' @ gesturecombo @ ''`''), s))"

text \<open>The list of a mode that holds bindings of a type.\<close>

definition bindings_of_type :: "binding_input_type \<Rightarrow> sway_mode \<Rightarrow> sway_binding list" where
  "bindings_of_type t m =
     (if t = BINDING_KEYCODE then mode_keycode_bindings m
      else if t = BINDING_KEYSYM then mode_keysym_bindings m else mode_mouse_bindings m)"

definition upd_bindings :: "binding_input_type \<Rightarrow> (sway_binding list \<Rightarrow> sway_binding list) \<Rightarrow> sway_mode \<Rightarrow> sway_mode" where
  "upd_bindings t f =
     (if t = BINDING_KEYCODE then mode_keycode_bindings_update f
      else if t = BINDING_KEYSYM then mode_keysym_bindings_update f else mode_mouse_bindings_update f)"

definition binding_add :: "sway_binding \<Rightarrow> sway \<Rightarrow> cmd_results \<times> sway" where
  "binding_add b s =
     (success, upd_current_mode (upd_bindings (binding_type b) (binding_upsert binding_key_compare b)) s)"

definition binding_remove :: "sway_binding \<Rightarrow> string \<Rightarrow> sway \<Rightarrow> cmd_results \<times> sway" where
  "binding_remove b keycombo s =
     (case remove_binding binding_key_compare b (bindings_of_type (binding_type b) (current_mode s)) of
        Some l \<Rightarrow> (success, upd_current_mode (upd_bindings (binding_type b) (\<lambda>_. l)) s)
      | None \<Rightarrow> (failure (''Could not find binding `'' @ keycombo @ ''` for the given flags''), s))"

section \<open>Keys and buttons\<close>

text \<open>The button, 0 for none, and the error message.\<close>

definition show_int :: "int \<Rightarrow> string" where
  "show_int n = (if n < 0 then CHR ''-'' # show_nat (nat (- n)) else show_nat (nat n))"

definition mouse_buttons :: "nat list" where
  "mouse_buttons = [0x110, 0x112, 0x111, 0x300, 0x301, 0x302, 0x303, 0x113, 0x114]"

definition get_mouse_bindsym :: "cmd_env \<Rightarrow> string \<Rightarrow> nat \<times> string option" where
  "get_mouse_bindsym e name =
     (if strcasecmp_eq (take 6 name) ''button'' then
        (let d = (case drop 6 name of [] \<Rightarrow> 0 | c # _ \<Rightarrow> (of_char c :: nat)) in
         if d < 49 \<or> d > 57 \<or> length name > 7
         then (0, Some ''Only buttons 1-9 are supported. For other mouse buttons, use the name of the event code.'')
         else (mouse_buttons ! (d - 49), None))
      else if has_prefix name ''BTN_'' then
        (if event_code e name = - 1 then (0, Some (''Unknown event '' @ name))
         else (nat (event_code e name mod 2 ^ 32), None))
      else (0, None))"

definition get_mouse_bindcode :: "cmd_env \<Rightarrow> string \<Rightarrow> nat \<times> string option" where
  "get_mouse_bindcode e name =
     (case strtoll10 name of (n, erange, rest) \<Rightarrow>
        let code = to_int32 n in
        if rest = name \<and> code \<le> 0 then (0, Some ''Button event code must be a positive integer.'')
        else if erange then (0, Some ''Button event code out of range.'')
        else case event_name e code of
            Some event \<Rightarrow>
              if has_prefix event ''BTN_'' then (nat (code mod 2 ^ 32), None)
              else (0, Some (''Event code '' @ show_int code @ '' ('' @ event @ '') is not a button''))
          | None \<Rightarrow> (0, Some (''Event code '' @ show_int code @ '' ((null)) is not a button'')))"

definition get_mouse_button :: "cmd_env \<Rightarrow> string \<Rightarrow> nat \<times> string option" where
  "get_mouse_button e name =
     (case get_mouse_bindsym e name of
        (b, err) \<Rightarrow> if b = 0 \<and> err = None then get_mouse_bindcode e name else (b, err))"

text \<open>The key of a name and the type of the binding, which the first key settles.\<close>

definition identify_key :: "cmd_env \<Rightarrow> string \<Rightarrow> bool \<Rightarrow> binding_input_type \<Rightarrow> cmd_results + (nat \<times> binding_input_type)" where
  "identify_key e name first_key type =
     (let code = get_mouse_bindcode e name; button_sym = get_mouse_bindsym e name in
      if type = BINDING_MOUSECODE then
        (case code of (0, Some message) \<Rightarrow> Inl (invalid message)
         | (0, None) \<Rightarrow> Inl (invalid (''Unknown button code '' @ name))
         | (button, _) \<Rightarrow> Inr (button, type))
      else if type = BINDING_MOUSESYM then
        (case button_sym of (0, Some message) \<Rightarrow> Inl (invalid message)
         | (0, None) \<Rightarrow> Inl (invalid (''Unknown button '' @ name))
         | (button, _) \<Rightarrow> Inr (button, type))
      else if type = BINDING_KEYCODE then
        (if first_key \<and> fst code \<noteq> 0 then Inr (fst code, BINDING_MOUSECODE)
         else
           let keycode = fst (strtoll10 name) mod 2 ^ 32 in
           if keycode > 0xfffffffe
           then Inl (invalid ((if first_key then ''Invalid keycode or button code '' else ''Invalid keycode '') @
                  [CHR 0x27] @ name @ [CHR 0x27]))
           else Inr (nat keycode, type))
      else
        (case (first_key, button_sym) of
           (True, (b, Some message)) \<Rightarrow> Inl (invalid message)
         | (f, (b, _)) \<Rightarrow>
             if f \<and> b \<noteq> 0 then Inr (b, BINDING_MOUSESYM)
             else
               let keysym = keysym_from_name e name in
               if keysym = 0
               then Inl (invalid ((if f then ''Unknown key or button '' else ''Unknown key '') @
                      [CHR 0x27] @ name @ [CHR 0x27]))
               else Inr (keysym, type)))"

section \<open>Translating keysyms into keycodes\<close>

text \<open>The last keycode with the keysym (\<open>None\<close> is \<open>XKB_KEYCODE_INVALID\<close>) and the number of them.\<close>

definition find_keycode :: "nat \<Rightarrow> nat \<times> nat \<Rightarrow> nat option \<times> nat \<Rightarrow> nat option \<times> nat" where
  "find_keycode keysym key matches =
     (case (key, matches) of ((code, keysym'), (found, n)) \<Rightarrow>
        if keysym' = 0 then matches else if keysym' = keysym then (Some code, n + 1) else matches)"

definition get_keycode_for_keysym :: "cmd_env \<Rightarrow> nat \<Rightarrow> nat option \<times> nat" where
  "get_keycode_for_keysym e keysym = fold (find_keycode keysym) (keymap_keysyms e) (None, 0)"

text \<open>The keycodes of some keysyms, \<open>None\<close> when one has not exactly one keycode.\<close>

fun keycodes_for :: "cmd_env \<Rightarrow> nat list \<Rightarrow> nat list option" where
  "keycodes_for e [] = Some []"
| "keycodes_for e (k # ks) =
     (case get_keycode_for_keysym e k of
        (Some code, n) \<Rightarrow> if n \<noteq> 1 then None else map_option (\<lambda>l. code # l) (keycodes_for e ks)
      | (None, n) \<Rightarrow> None)"

text \<open>
  Whether the binding is translated, and the binding; a keycode binding to re-translate has the
  keysyms it came from.
\<close>

definition translate_binding :: "cmd_env \<Rightarrow> sway_binding \<Rightarrow> (bool \<times> sway_binding) option" where
  "translate_binding e b =
     (if binding_flags b AND BINDING_CODE = 0 then Some (True, b)
      else if binding_type b \<noteq> BINDING_KEYSYM \<and> binding_type b \<noteq> BINDING_KEYCODE then Some (True, b)
      else do {
        syms \<leftarrow> (if binding_type b = BINDING_KEYSYM then Some (binding_keys b) else binding_syms b);
        Some (case keycodes_for e syms of
            Some codes \<Rightarrow> (True, b\<lparr>binding_keys := sort codes, binding_syms := Some syms, binding_type := BINDING_KEYCODE\<rparr>)
          | None \<Rightarrow> (False, b\<lparr>binding_keys := syms, binding_syms := None, binding_type := BINDING_KEYSYM\<rparr>)) })"

definition binding_add_translated :: "sway_binding \<Rightarrow> sway_binding list \<Rightarrow> sway_binding list" where
  "binding_add_translated b mode_bindings = binding_upsert binding_key_compare b mode_bindings"

section \<open>The commands for keys and buttons\<close>

record bind_options =
  opt_input :: string
  opt_flags :: "32 word"
  opt_exclude_titlebar :: bool

definition bind_flag :: "bool \<Rightarrow> string \<Rightarrow> 32 word option" where
  "bind_flag bindcode a =
     (if a = ''--release'' then Some BINDING_RELEASE
      else if a = ''--locked'' then Some BINDING_LOCKED
      else if a = ''--inhibited'' then Some BINDING_INHIBITED
      else if a = ''--whole-window'' then Some (BINDING_BORDER OR BINDING_CONTENTS OR BINDING_TITLEBAR)
      else if a = ''--border'' then Some BINDING_BORDER
      else if a = ''--to-code'' then Some (if bindcode then 0 else BINDING_CODE)
      else if a = ''--no-repeat'' then Some BINDING_NOREPEAT
      else if a = ''--no-warn'' then Some 0
      else None)"

fun bind_flags :: "bool \<Rightarrow> bind_options \<Rightarrow> string list \<Rightarrow> bind_options \<times> string list" where
  "bind_flags bindcode p [] = (p, [])"
| "bind_flags bindcode p (a # as) =
     (case bind_flag bindcode a of
        Some f \<Rightarrow> bind_flags bindcode (p\<lparr>opt_flags := opt_flags p OR f\<rparr>) as
      | None \<Rightarrow>
          if a = ''--exclude-titlebar'' then bind_flags bindcode (p\<lparr>opt_exclude_titlebar := True\<rparr>) as
          else if has_prefix a ''--input-device='' then bind_flags bindcode (p\<lparr>opt_input := strip_quotes (drop 15 a)\<rparr>) as
          else (p, a # as))"

definition invalid_bind :: "string \<Rightarrow> nat \<Rightarrow> nat \<Rightarrow> cmd_results" where
  "invalid_bind bindtype minargs argc =
     failure (''Invalid '' @ bindtype @ '' command (expected at least '' @ show_nat minargs @
       '' non-option arguments, got '' @ show_nat argc @ '')'')"

text \<open>
  One part of \<open>Group2+Mod4+a\<close>. \<open>Mode_switch\<close> sets the group and then goes on to be bound as a
  key as well.
\<close>

definition bind_part :: "cmd_env \<Rightarrow> string \<Rightarrow> sway_binding \<Rightarrow> cmd_results + sway_binding" where
  "bind_part e item b =
     (let as_key = (\<lambda>b.
        let modifier = get_modifier_mask_by_name item in
        if modifier > 0 then Inr (b\<lparr>binding_modifiers := binding_modifiers b OR modifier\<rparr>)
        else case identify_key e item (binding_keys b = []) (binding_type b) of
            Inl err \<Rightarrow> Inl err
          | Inr (key, type) \<Rightarrow> Inr (b\<lparr>binding_keys := binding_keys b @ [key], binding_type := type\<rparr>))
      in if has_prefix item ''Group'' then
           (if binding_group b \<noteq> None then Inl (failure ''Only one group can be specified'')
            else case strtol10_int (drop 5 item) of (n, rest) \<Rightarrow>
                if n < 1 \<or> n > 4 \<or> rest \<noteq> [] then Inl (failure ''Invalid group'')
                else Inr (b\<lparr>binding_group := Some (nat (n - 1))\<rparr>))
         else if item = ''Mode_switch'' then
           (if binding_group b \<noteq> None then Inl (failure ''Only one group can be specified'')
            else as_key (b\<lparr>binding_group := Some 1\<rparr>))
         else as_key b)"

fun bind_parts :: "cmd_env \<Rightarrow> string list \<Rightarrow> sway_binding \<Rightarrow> cmd_results + sway_binding" where
  "bind_parts e [] b = Inr b"
| "bind_parts e (item # rest) b =
     (case bind_part e item b of Inl err \<Rightarrow> Inl err | Inr b1 \<Rightarrow> bind_parts e rest b1)"

text \<open>The binding that the options and the combination of keys describe.\<close>

definition parse_binding :: "cmd_env \<Rightarrow> bool \<Rightarrow> bind_options \<Rightarrow> string \<Rightarrow> cmd_results + sway_binding" where
  "parse_binding e bindcode p combo =
     (let mouse = (opt_flags p AND (BINDING_BORDER OR BINDING_CONTENTS OR BINDING_TITLEBAR) \<noteq> 0 \<or> opt_exclude_titlebar p);
          type = (if bindcode then (if mouse then BINDING_MOUSECODE else BINDING_KEYCODE)
                  else if mouse then BINDING_MOUSESYM else BINDING_KEYSYM);
          b = \<lparr>binding_type = type, binding_order = 0, binding_input = opt_input p, binding_flags = opt_flags p,
               binding_keys = [], binding_syms = None, binding_modifiers = 0, binding_group = None, binding_command = []\<rparr>
      in case bind_parts e (split_string combo ''+'') b of
          Inl err \<Rightarrow> Inl err
        | Inr b1 \<Rightarrow>
            let flags = (if opt_exclude_titlebar p then binding_flags b1 AND NOT BINDING_TITLEBAR
                         else if binding_type b1 = BINDING_MOUSECODE \<or> binding_type b1 = BINDING_MOUSESYM
                         then binding_flags b1 OR BINDING_TITLEBAR else binding_flags b1)
            in Inr (b1\<lparr>binding_flags := flags, binding_keys := sort (binding_keys b1)\<rparr>))"

definition cmd_bindsym_or_bindcode :: "bool \<Rightarrow> bool \<Rightarrow> cmd_env \<Rightarrow> string list \<Rightarrow> sway \<Rightarrow> cmd_outcome" where
  "cmd_bindsym_or_bindcode bindcode unbind e argv s =
     (let bindtype = (if unbind then (if bindcode then ''unbindcode'' else ''unbindsym'')
                      else if bindcode then ''bindcode'' else ''bindsym'');
          minargs = (if unbind then 1 else 2) in
      with_args argv bindtype EXPECTED_AT_LEAST minargs s
      (case bind_flags bindcode \<lparr>opt_input = ''*'', opt_flags = 0, opt_exclude_titlebar = False\<rparr> argv of
         (p, rest) \<Rightarrow>
           if length rest < minargs then Some (invalid_bind bindtype minargs (length rest), s)
           else case parse_binding e bindcode p (hd rest) of
               Inl err \<Rightarrow> Some (err, s)
             | Inr b \<Rightarrow> do {
                 (_, b1) \<leftarrow> translate_binding e b;
                 if unbind then Some (binding_remove b1 (hd rest) s)
                 else do {
                   cmd \<leftarrow> join_args (tl rest);
                   next \<leftarrow> c_int (next_binding_order s + 1);
                   Some (binding_add (b1\<lparr>binding_command := cmd, binding_order := next_binding_order s\<rparr>)
                     (s\<lparr>next_binding_order := next\<rparr>)) } }))"

definition cmd_bindsym :: handler where
  "cmd_bindsym sf e h argv s = cmd_bindsym_or_bindcode False False e argv s"

definition cmd_bindcode :: handler where
  "cmd_bindcode sf e h argv s = cmd_bindsym_or_bindcode True False e argv s"

definition cmd_unbindsym :: handler where
  "cmd_unbindsym sf e h argv s = cmd_bindsym_or_bindcode False True e argv s"

definition cmd_unbindcode :: handler where
  "cmd_unbindcode sf e h argv s = cmd_bindsym_or_bindcode True True e argv s"

section \<open>The commands for switches\<close>

fun switch_options :: "32 word \<Rightarrow> string list \<Rightarrow> 32 word \<times> string list" where
  "switch_options flags [] = (flags, [])"
| "switch_options flags (a # as) =
     (if a = ''--locked'' then switch_options (flags OR BINDING_LOCKED) as
      else if a = ''--no-warn'' then switch_options flags as
      else if a = ''--reload'' then switch_options (flags OR BINDING_RELOAD) as
      else (flags, a # as))"

definition parse_switch :: "string \<Rightarrow> string \<Rightarrow> cmd_results + (wlr_switch_type \<times> sway_switch_trigger)" where
  "parse_switch bindtype combo =
     (let split = split_string combo '':'';
          fail = (\<lambda>msg. failure (''Invalid '' @ bindtype @ '' command '' @ msg)) in
      if length split \<noteq> 2 then Inl (fail ''(expected binding with the form <switch>:<state>)'')
      else
        case (if split ! 0 = ''tablet'' then Some WLR_SWITCH_TYPE_TABLET_MODE
              else if split ! 0 = ''lid'' then Some WLR_SWITCH_TYPE_LID else None) of
          None \<Rightarrow> Inl (fail (''(expected switch binding: unknown switch '' @ split ! 0 @ '')''))
        | Some type \<Rightarrow>
            (case (if split ! 1 = ''on'' then Some SWAY_SWITCH_TRIGGER_ON
                   else if split ! 1 = ''off'' then Some SWAY_SWITCH_TRIGGER_OFF
                   else if split ! 1 = ''toggle'' then Some SWAY_SWITCH_TRIGGER_TOGGLE else None) of
               None \<Rightarrow> Inl (fail (''(expected switch state: unknown state '' @ split ! 1 @ '')''))
             | Some trigger \<Rightarrow> Inr (type, trigger)))"

definition cmd_bind_or_unbind_switch :: "bool \<Rightarrow> string list \<Rightarrow> sway \<Rightarrow> cmd_outcome" where
  "cmd_bind_or_unbind_switch unbind argv s =
     (let bindtype = (if unbind then ''unbindswitch'' else ''bindswitch''); minargs = (if unbind then 1 else 2) in
      with_args argv bindtype EXPECTED_AT_LEAST minargs s
      (case switch_options 0 argv of
         (flags, rest) \<Rightarrow>
           if length rest < minargs then Some (invalid_bind bindtype minargs (length rest), s)
           else case parse_switch bindtype (hd rest) of
               Inl err \<Rightarrow> Some (err, s)
             | Inr (type, trigger) \<Rightarrow>
                 let b = \<lparr>switch_type = type, switch_trigger = trigger, switch_flags = flags, switch_command = []\<rparr> in
                 if unbind then Some (switch_binding_remove b (hd rest) s)
                 else do {
                   cmd \<leftarrow> join_args (tl rest);
                   Some (switch_binding_add (b\<lparr>switch_command := cmd\<rparr>) s) }))"

definition cmd_bindswitch :: handler where
  "cmd_bindswitch sf e h argv s = cmd_bind_or_unbind_switch False argv s"

definition cmd_unbindswitch :: handler where
  "cmd_unbindswitch sf e h argv s = cmd_bind_or_unbind_switch True argv s"

section \<open>The commands for gestures\<close>

fun gesture_options :: "string \<Rightarrow> 32 word \<Rightarrow> string list \<Rightarrow> string \<times> 32 word \<times> string list" where
  "gesture_options input flags [] = (input, flags, [])"
| "gesture_options input flags (a # as) =
     (if a = ''--exact'' then gesture_options input (flags OR BINDING_EXACT) as
      else if a = ''--no-warn'' then gesture_options input flags as
      else if has_prefix a ''--input-device='' then gesture_options (drop 15 a) flags as
      else (input, flags, a # as))"

definition cmd_bind_or_unbind_gesture :: "bool \<Rightarrow> string list \<Rightarrow> sway \<Rightarrow> cmd_outcome" where
  "cmd_bind_or_unbind_gesture unbind argv s =
     (let bindtype = (if unbind then ''unbindgesture'' else ''bindgesture''); minargs = (if unbind then 1 else 2) in
      with_args argv bindtype EXPECTED_AT_LEAST minargs s
      (case gesture_options ''*'' 0 argv of
         (input, flags, rest) \<Rightarrow>
           if length rest < minargs then Some (invalid_bind bindtype minargs (length rest), s)
           else case gesture_parse (hd rest) of
               (Some errmsg, _) \<Rightarrow> Some (failure (''Invalid '' @ bindtype @ '' command ('' @ errmsg @ '')''), s)
             | (None, g) \<Rightarrow>
                 let b = \<lparr>gesture_input = input, gesture_flags = flags, gesture_of = g, gesture_command = []\<rparr> in
                 if unbind then Some (gesture_binding_remove b (hd rest) s)
                 else do {
                   cmd \<leftarrow> join_args (tl rest);
                   Some (gesture_binding_add (b\<lparr>gesture_command := cmd\<rparr>) s) }))"

definition cmd_bindgesture :: handler where
  "cmd_bindgesture sf e h argv s = cmd_bind_or_unbind_gesture False argv s"

definition cmd_unbindgesture :: handler where
  "cmd_unbindgesture sf e h argv s = cmd_bind_or_unbind_gesture True argv s"

section \<open>Modes\<close>

text \<open>
  \<open>find_handler\<close>: the binary search of libc over a table of handlers in the alphabetic order
  of their names without case. The handler of an entry is the name of its C function.
\<close>

type_synonym cmd_handler = "string \<times> string"

fun strcasecmp :: "string \<Rightarrow> string \<Rightarrow> int" where
  "strcasecmp [] [] = 0"
| "strcasecmp [] (b # bs) = - 1"
| "strcasecmp (a # as) [] = 1"
| "strcasecmp (a # as) (b # bs) =
     (let x = (of_char (tolower a) :: nat); y = of_char (tolower b) in
      if x < y then - 1 else if x > y then 1 else strcasecmp as bs)"

definition handler_compare :: "string \<Rightarrow> cmd_handler \<Rightarrow> int" where
  "handler_compare line entry = strcasecmp line (fst entry)"

function bsearch :: "('a \<Rightarrow> int) \<Rightarrow> 'a list \<Rightarrow> nat \<Rightarrow> nat \<Rightarrow> 'a option" where
  "bsearch key table lo hi =
     (if lo < hi then
        let mid = (lo + hi) div 2; c = key (table ! mid) in
        if c < 0 then bsearch key table lo mid
        else if c > 0 then bsearch key table (mid + 1) hi
        else Some (table ! mid)
      else None)"
  by pat_completeness auto
termination
  by (relation "measure (\<lambda>(_, _, lo, hi). hi - lo)") auto

declare bsearch.simps [simp del]

definition find_handler :: "string \<Rightarrow> cmd_handler list \<Rightarrow> cmd_handler option" where
  "find_handler line table = (if table = [] then None else bsearch (handler_compare line) table 0 (length table))"

definition mode_handlers :: "cmd_handler list" where
  "mode_handlers = [(''bindcode'', ''cmd_bindcode''), (''bindgesture'', ''cmd_bindgesture''),
     (''bindswitch'', ''cmd_bindswitch''), (''bindsym'', ''cmd_bindsym''), (''set'', ''cmd_set''),
     (''unbindcode'', ''cmd_unbindcode''), (''unbindgesture'', ''cmd_unbindgesture''),
     (''unbindswitch'', ''cmd_unbindswitch''), (''unbindsym'', ''cmd_unbindsym'')]"

text \<open>The functions of a table of handlers.\<close>

definition mode_functions :: "(string \<times> handler) list" where
  "mode_functions = [(''cmd_bindcode'', cmd_bindcode), (''cmd_bindgesture'', cmd_bindgesture),
     (''cmd_bindswitch'', cmd_bindswitch), (''cmd_bindsym'', cmd_bindsym), (''cmd_set'', cmd_set),
     (''cmd_unbindcode'', cmd_unbindcode), (''cmd_unbindgesture'', cmd_unbindgesture),
     (''cmd_unbindswitch'', cmd_unbindswitch), (''cmd_unbindsym'', cmd_unbindsym)]"

definition config_subcommand :: "cmd_handler list \<Rightarrow> (string \<times> handler) list \<Rightarrow> handler" where
  "config_subcommand table functions sf e h argv s =
     (case argv of
        [] \<Rightarrow> None
      | name # args \<Rightarrow>
          let unknown = Some (invalid (''Unknown/invalid command '' @ [CHR 0x27] @ name @ [CHR 0x27]), s) in
          case find_handler name table of
            None \<Rightarrow> unknown
          | Some entry \<Rightarrow> (case map_of functions (snd entry) of None \<Rightarrow> None | Some f \<Rightarrow> f sf e h args s))"

text \<open>The position of the mode with a name, and the configuration with the mode, which is new when a binding follows.\<close>

definition find_mode :: "string \<Rightarrow> sway_mode list \<Rightarrow> nat option" where
  "find_mode name modes = find (\<lambda>i. mode_name (modes ! i) = name) [0..<length modes]"

definition find_or_create_mode :: "string \<Rightarrow> bool \<Rightarrow> bool \<Rightarrow> sway \<Rightarrow> (nat \<times> sway) option" where
  "find_or_create_mode name pango create s =
     (case find_mode name (cfg_modes (cfg s)) of
        Some i \<Rightarrow> Some (i, s)
      | None \<Rightarrow>
          if create then Some (length (cfg_modes (cfg s)), cfg_update (cfg_modes_update (\<lambda>l. l @ [new_mode name pango])) s)
          else None)"

definition switch_mode :: "nat \<Rightarrow> sway \<Rightarrow> sway" where
  "switch_mode i = cfg_update (cfg_current_mode_update (\<lambda>_. i))"

definition cmd_mode :: handler where
  "cmd_mode sf e h argv s = with_args argv ''mode'' EXPECTED_AT_LEAST 1 s
     (let pango = (hd argv = ''--pango_markup''); args = (if pango then tl argv else argv) in
      case args of
        [] \<Rightarrow> Some (failure ''Mode name is missing'', s)
      | a # rest \<Rightarrow>
          if fl_reading (cfg_flags (cfg s)) \<and> rest = [] then Some (cmd_results_new CMD_DEFER None, s)
          else
            let name = strip_quotes a in
            case find_or_create_mode name pango (rest \<noteq> []) s of
              None \<Rightarrow> Some (invalid (''Unknown mode `'' @ name @ [CHR 0x27]), s)
            | Some (i, s1) \<Rightarrow>
                let stored = cfg_current_mode (cfg s1); s2 = switch_mode i s1 in
                if rest = [] then Some (success, s2)
                else do {
                  (r, s3) \<leftarrow> config_subcommand mode_handlers mode_functions sf e h rest s2;
                  Some (r, switch_mode stored s3) })"

end
