(* ===== verification/Bind_Laws.thy ===== *)
theory Bind_Laws
  imports Bind_Cmds "HOL-Library.Sublist"
begin

unbundle bit_operations_syntax

text \<open>
  A list of bindings is a map from what triggers a binding to its command. The locale
  \<open>binding_kind\<close> proves this for every comparison that is an equivalence; keys, switches and
  gestures interpret it. In a mode no two bindings of a list are equal, and every binding is in
  the list of its type with its keys in order.
\<close>

section \<open>Lists of bindings\<close>

definition unique_bindings :: "('b \<Rightarrow> 'b \<Rightarrow> bool) \<Rightarrow> 'b list \<Rightarrow> bool" where
  "unique_bindings same l = sorted_wrt (\<lambda>a b. \<not> same a b) l"

definition bound :: "('b \<Rightarrow> 'b \<Rightarrow> bool) \<Rightarrow> 'b list \<Rightarrow> 'b \<Rightarrow> 'b option" where
  "bound same l b = find (same b) l"

lemma unique_Nil [simp]: "unique_bindings same []"
  by (simp add: unique_bindings_def)

lemma bound_simps [simp]:
  "bound same [] b = None"
  "bound same (c # l) b = (if same b c then Some c else bound same l b)"
  by (simp_all add: bound_def)

lemma set_binding_upsert: "set (binding_upsert same b l) \<subseteq> insert b (set l)"
  by (induction l) auto

lemma set_overwrite_all: "set (overwrite_all same b l) \<subseteq> insert b (set l)"
  by (auto simp: overwrite_all_def Let_def)

lemma set_remove_binding: "remove_binding same b l = Some l' \<Longrightarrow> set l' \<subseteq> set l"
  by (induction l arbitrary: l') (auto split: if_splits)

locale binding_kind =
  fixes same :: "'b \<Rightarrow> 'b \<Rightarrow> bool"
  assumes same_refl: "same b b"
    and same_sym: "same a b \<Longrightarrow> same b a"
    and same_trans: "same a b \<Longrightarrow> same b c \<Longrightarrow> same a c"
begin

lemma upsert_equal: "c \<in> set (binding_upsert same b l) \<Longrightarrow> c = b \<or> c \<in> set l"
  using set_binding_upsert [of same b l] by auto

lemma upsert_unique: "unique_bindings same l \<Longrightarrow> unique_bindings same (binding_upsert same b l)"
proof (induction l)
  case (Cons a l)
  show ?case
  proof (cases "same b a")
    case True
    have "\<not> same b c" if "c \<in> set l" for c
      using Cons(2) that same_trans [OF same_sym [OF True]] by (auto simp: unique_bindings_def)
    then show ?thesis using Cons(2) True by (simp add: unique_bindings_def)
  next
    case False
    have "\<not> same a c" if "c \<in> set (binding_upsert same b l)" for c
      using upsert_equal [OF that] Cons(2) False same_sym by (auto simp: unique_bindings_def)
    then show ?thesis using Cons False by (simp add: unique_bindings_def)
  qed
qed (simp add: unique_bindings_def)

lemma upsert_bound: "bound same (binding_upsert same b l) c = (if same c b then Some b else bound same l c)"
  by (induction l) (auto intro: same_trans same_sym)

lemma overwrite_all_upsert: "unique_bindings same l \<Longrightarrow> overwrite_all same b l = binding_upsert same b l"
proof (induction l)
  case (Cons a l)
  show ?case
  proof (cases "same b a")
    case True
    have "\<not> same b c" if "c \<in> set l" for c
      using Cons(2) that same_trans [OF same_sym [OF True]] by (auto simp: unique_bindings_def)
    then have "map (\<lambda>c. if same b c then b else c) l = l" by (intro map_idI) auto
    then show ?thesis using True by (simp add: overwrite_all_def)
  next
    case False
    have "overwrite_all same b (a # l) = a # overwrite_all same b l"
      using False by (simp add: overwrite_all_def Let_def)
    then show ?thesis using Cons False by (simp add: unique_bindings_def)
  qed
qed (simp add: overwrite_all_def)

lemma remove_unique: "remove_binding same b l = Some l' \<Longrightarrow> unique_bindings same l \<Longrightarrow> unique_bindings same l'"
proof (induction l arbitrary: l')
  case (Cons a l)
  show ?case
  proof (cases "same b a")
    case True
    then show ?thesis using Cons(2,3) by (simp add: unique_bindings_def)
  next
    case False
    then obtain m where m: "remove_binding same b l = Some m" "l' = a # m" using Cons(2) by auto
    then show ?thesis using Cons(1) [OF m(1)] Cons(3) set_remove_binding [OF m(1)] by (auto simp: unique_bindings_def)
  qed
qed simp

lemma remove_None: "remove_binding same b l = None \<longleftrightarrow> bound same l b = None"
  by (induction l) auto

lemma remove_bound:
  "remove_binding same b l = Some l' \<Longrightarrow> unique_bindings same l \<Longrightarrow>
     bound same l' c = (if same c b then None else bound same l c)"
proof (induction l arbitrary: l')
  case (Cons a l)
  show ?case
  proof (cases "same b a")
    case True
    have "\<not> same b x" if "x \<in> set l" for x
      using Cons(3) that same_trans [OF same_sym [OF True]] by (auto simp: unique_bindings_def)
    then have "bound same l c = None" if "same c b"
      using that by (auto simp: bound_def find_None_iff intro: same_trans same_sym)
    then show ?thesis using Cons(2) True by (auto intro: same_trans same_sym)
  next
    case False
    then obtain m where m: "remove_binding same b l = Some m" "l' = a # m" using Cons(2) by auto
    have "\<not> same c a" if "same c b" using that False by (auto intro: same_trans same_sym)
    moreover have "bound same m c = (if same c b then None else bound same l c)"
      using Cons(1) [OF m(1)] Cons(3) by (simp add: unique_bindings_def)
    ultimately show ?thesis using m by simp
  qed
qed simp

end

lemma same_keys_eq: "length a = length b \<Longrightarrow> same_keys a b \<longleftrightarrow> a = b"
  by (induction a b rule: same_keys.induct) auto

text \<open>Two key bindings are equal when they have the same device, type, conflicting flags, group, modifiers and keys.\<close>

definition binding_key :: "sway_binding \<Rightarrow> string \<times> binding_input_type \<times> 32 word \<times> nat option \<times> 32 word \<times> nat list" where
  "binding_key b = (binding_input b, binding_type b, binding_flags b AND conflict_generating_flags, binding_group b,
     binding_modifiers b, binding_keys b)"

lemma xor_eq_0: "a XOR b = 0 \<longleftrightarrow> a = (b :: 32 word)"
  by (metis xor.left_commute xor.right_neutral xor_self_eq)

lemma binding_key_compare_eq: "binding_key_compare a b \<longleftrightarrow> binding_key a = binding_key b"
  using same_keys_eq [of "binding_keys a" "binding_keys b"]
  by (auto simp: binding_key_compare_def binding_key_def xor_eq_0)

interpretation key_bindings: binding_kind binding_key_compare
  by unfold_locales (auto simp: binding_key_compare_eq)

interpretation switch_bindings: binding_kind binding_switch_compare
  by unfold_locales (auto simp: binding_switch_compare_def split: if_splits)

lemma gesture_equal_iff: "gesture_equal a b \<longleftrightarrow> a = b"
  by (cases a; cases b) (auto simp: gesture_equal_def)

interpretation gesture_bindings: binding_kind binding_gesture_equal
  by unfold_locales (auto simp: binding_gesture_equal_def gesture_equal_iff split: if_splits)

section \<open>The modes\<close>

text \<open>The bindings of a mode: no two are equal, and each is where its type belongs, with its keys sorted.\<close>

definition unique_mode :: "sway_mode \<Rightarrow> bool" where
  "unique_mode m \<longleftrightarrow>
     unique_bindings binding_key_compare (mode_keysym_bindings m) \<and>
     unique_bindings binding_key_compare (mode_keycode_bindings m) \<and>
     unique_bindings binding_key_compare (mode_mouse_bindings m) \<and>
     unique_bindings binding_switch_compare (mode_switch_bindings m) \<and>
     unique_bindings binding_gesture_equal (mode_gesture_bindings m)"

definition typed_binding :: "binding_input_type set \<Rightarrow> sway_binding \<Rightarrow> bool" where
  "typed_binding types b \<longleftrightarrow> binding_type b \<in> types \<and> sorted (binding_keys b)"

definition typed_mode :: "sway_mode \<Rightarrow> bool" where
  "typed_mode m \<longleftrightarrow>
     (\<forall>b \<in> set (mode_keysym_bindings m). typed_binding {BINDING_KEYSYM} b) \<and>
     (\<forall>b \<in> set (mode_keycode_bindings m). typed_binding {BINDING_KEYCODE} b) \<and>
     (\<forall>b \<in> set (mode_mouse_bindings m). typed_binding {BINDING_MOUSESYM, BINDING_MOUSECODE} b)"

definition modes_ok :: "(sway_mode \<Rightarrow> bool) \<Rightarrow> sway \<Rightarrow> bool" where
  "modes_ok P s \<longleftrightarrow> cfg_current_mode (cfg s) < length (cfg_modes (cfg s)) \<and> (\<forall>m \<in> set (cfg_modes (cfg s)). P m)"

lemma modes_ok_current: "modes_ok P s \<Longrightarrow> P (current_mode s)"
  by (simp add: modes_ok_def current_mode_def)

lemma modes_ok_upd: "modes_ok P s \<Longrightarrow> P (f (current_mode s)) \<Longrightarrow> modes_ok P (upd_current_mode f s)"
  by (auto simp: modes_ok_def upd_current_mode_def current_mode_def dest!: subsetD [OF set_update_subset_insert])

lemma current_mode_upd: "modes_ok P s \<Longrightarrow> current_mode (upd_current_mode f s) = f (current_mode s)"
  by (simp add: modes_ok_def upd_current_mode_def current_mode_def)

text \<open>Both hold of every binding command, as they add and remove bindings of the right type.\<close>

definition key_type :: "binding_input_type \<Rightarrow> bool" where
  "key_type t \<longleftrightarrow> t \<in> {BINDING_KEYCODE, BINDING_KEYSYM, BINDING_MOUSECODE, BINDING_MOUSESYM}"

lemma key_typeE:
  assumes "key_type t"
  obtains "t = BINDING_KEYCODE" | "t = BINDING_KEYSYM" | "t = BINDING_MOUSECODE" | "t = BINDING_MOUSESYM"
  using assms by (auto simp: key_type_def)

lemma bindings_upd:
  "bindings_of_type t (upd_bindings t f m) = f (bindings_of_type t m)"
  by (auto simp: bindings_of_type_def upd_bindings_def)

lemma unique_mode_bindings: "unique_mode m \<Longrightarrow> unique_bindings binding_key_compare (bindings_of_type t m)"
  by (auto simp: bindings_of_type_def unique_mode_def)

lemma unique_mode_upd:
  "unique_mode m \<Longrightarrow> unique_bindings binding_key_compare (f (bindings_of_type t m)) \<Longrightarrow> unique_mode (upd_bindings t f m)"
  by (auto simp: upd_bindings_def bindings_of_type_def unique_mode_def split: if_splits)

lemma typed_mode_upd:
  assumes "typed_mode m" "set (f (bindings_of_type t m)) \<subseteq> insert b (set (bindings_of_type t m))"
    and "binding_type b = t" "key_type t" "sorted (binding_keys b)"
  shows "typed_mode (upd_bindings t f m)"
  using assms(4,1-3,5)
  by (elim key_typeE; fastforce simp: typed_mode_def upd_bindings_def bindings_of_type_def typed_binding_def)

lemma typed_mode_shrinks:
  assumes "typed_mode m" "set (f (bindings_of_type t m)) \<subseteq> set (bindings_of_type t m)"
  shows "typed_mode (upd_bindings t f m)"
  using assms by (auto simp: typed_mode_def upd_bindings_def bindings_of_type_def split: if_splits)

lemmas mode_defs = unique_mode_def typed_mode_def

lemma binding_add_modes:
  assumes "key_type (binding_type b)" "sorted (binding_keys b)"
  shows "modes_ok unique_mode s \<Longrightarrow> modes_ok unique_mode (snd (binding_add b s))"
    and "modes_ok typed_mode s \<Longrightarrow> modes_ok typed_mode (snd (binding_add b s))"
  using assms modes_ok_current [of unique_mode s] modes_ok_current [of typed_mode s]
  by (simp_all add: binding_add_def modes_ok_upd unique_mode_upd key_bindings.upsert_unique unique_mode_bindings
      typed_mode_upd [where b = b and f = "binding_upsert binding_key_compare b", OF _ set_binding_upsert])

lemma binding_remove_modes:
  shows "modes_ok unique_mode s \<Longrightarrow> modes_ok unique_mode (snd (binding_remove b combo s))"
    and "modes_ok typed_mode s \<Longrightarrow> modes_ok typed_mode (snd (binding_remove b combo s))"
proof -
  let ?r = "remove_binding binding_key_compare b (bindings_of_type (binding_type b) (current_mode s))"
  show "modes_ok unique_mode (snd (binding_remove b combo s))" if ok: "modes_ok unique_mode s"
  proof (cases ?r)
    case (Some l)
    have "unique_bindings binding_key_compare l"
      using Some by (rule key_bindings.remove_unique) (rule unique_mode_bindings [OF modes_ok_current [OF ok]])
    then show ?thesis using Some ok
      by (simp add: binding_remove_def modes_ok_upd unique_mode_upd modes_ok_current)
  qed (use ok in \<open>simp add: binding_remove_def\<close>)
  show "modes_ok typed_mode (snd (binding_remove b combo s))" if ok: "modes_ok typed_mode s"
  proof (cases ?r)
    case (Some l)
    show ?thesis using set_remove_binding [OF Some] ok Some
      by (simp add: binding_remove_def modes_ok_upd typed_mode_shrinks modes_ok_current)
  qed (use ok in \<open>simp add: binding_remove_def\<close>)
qed

lemma identify_key_type: "identify_key e name first type = Inr (key, t) \<Longrightarrow> key_type type \<Longrightarrow> key_type t"
  by (auto simp: identify_key_def key_type_def Let_def split: if_splits prod.splits option.splits nat.splits bool.splits)

lemma bind_part_type: "bind_part e item b = Inr b' \<Longrightarrow> key_type (binding_type b) \<Longrightarrow> key_type (binding_type b')"
  by (auto simp: bind_part_def Let_def split: if_splits prod.splits sum.splits dest: identify_key_type)

lemma bind_parts_type: "bind_parts e its b = Inr b' \<Longrightarrow> key_type (binding_type b) \<Longrightarrow> key_type (binding_type b')"
  by (induction its arbitrary: b) (auto split: sum.splits dest: bind_part_type)

lemma key_types [simp]: "key_type BINDING_KEYCODE" "key_type BINDING_KEYSYM" "key_type BINDING_MOUSECODE" "key_type BINDING_MOUSESYM"
  by (simp_all add: key_type_def)

lemma parse_bindingE:
  assumes "parse_binding e bindcode p combo = Inr b"
  obtains b0 b1 where "bind_parts e (split_string combo ''+'') b0 = Inr b1" "key_type (binding_type b0)" "binding_syms b0 = None"
    "binding_type b = binding_type b1" "binding_keys b = sort (binding_keys b1)" "binding_syms b = binding_syms b1"
proof -
  define type where "type = (if bindcode then (if opt_flags p AND (BINDING_BORDER OR BINDING_CONTENTS OR BINDING_TITLEBAR) \<noteq> 0 \<or>
      opt_exclude_titlebar p then BINDING_MOUSECODE else BINDING_KEYCODE)
    else if opt_flags p AND (BINDING_BORDER OR BINDING_CONTENTS OR BINDING_TITLEBAR) \<noteq> 0 \<or> opt_exclude_titlebar p
      then BINDING_MOUSESYM else BINDING_KEYSYM)"
  have "key_type type" by (simp add: type_def)
  then show ?thesis using assms that
    unfolding parse_binding_def Let_def type_def [symmetric] by (auto split: sum.splits)
qed

lemma parse_binding_ok:
  "parse_binding e bindcode p combo = Inr b \<Longrightarrow> key_type (binding_type b) \<and> sorted (binding_keys b)"
  by (elim parse_bindingE) (simp add: bind_parts_type)

lemma translate_binding_ok:
  assumes "translate_binding e b = Some (t, b')" "key_type (binding_type b)" "sorted (binding_keys b)"
    "binding_syms b = None \<or> sorted (the (binding_syms b))"
  shows "key_type (binding_type b') \<and> sorted (binding_keys b')"
  using assms by (auto simp: translate_binding_def key_type_def split: if_splits option.splits Option.bind_splits)

lemma parse_binding_syms: "parse_binding e bindcode p combo = Inr b \<Longrightarrow> binding_syms b = None"
proof -
  have part: "bind_part e item b = Inr b' \<Longrightarrow> binding_syms b' = binding_syms b" for item b b'
    by (auto simp: bind_part_def Let_def split: if_splits prod.splits sum.splits)
  have "bind_parts e its b = Inr b' \<Longrightarrow> binding_syms b' = binding_syms b" for its b b'
    by (induction its arbitrary: b) (auto split: sum.splits dest: part)
  then show "parse_binding e bindcode p combo = Inr b \<Longrightarrow> binding_syms b = None"
    by (elim parse_bindingE) simp
qed

lemma with_argsE:
  assumes "with_args argv name type val s rest = Some (r, s')"
  obtains "s' = s" "res_status r \<noteq> CMD_SUCCESS" | "checkarg (length argv) name type val = None" "rest = Some (r, s')"
  using assms by (auto simp: with_args_def checkarg_def cmd_results_new_def split: option.splits)

lemma next_binding_order_modes [simp]: "modes_ok P (s\<lparr>next_binding_order := n\<rparr>) = modes_ok P s"
  by (simp add: modes_ok_def)

lemma identify_key_error: "identify_key e name first type = Inl err \<Longrightarrow> res_status err \<noteq> CMD_SUCCESS"
  by (auto simp: identify_key_def Let_def cmd_results_new_def split: if_splits prod.splits option.splits nat.splits bool.splits)

lemma bind_part_error: "bind_part e item b = Inl err \<Longrightarrow> res_status err \<noteq> CMD_SUCCESS"
  by (auto simp: bind_part_def Let_def cmd_results_new_def split: if_splits prod.splits sum.splits dest: identify_key_error)

lemma parse_binding_error: "parse_binding e bindcode p combo = Inl err \<Longrightarrow> res_status err \<noteq> CMD_SUCCESS"
proof -
  have "bind_parts e its b = Inl err \<Longrightarrow> res_status err \<noteq> CMD_SUCCESS" for its b
    by (induction its arbitrary: b) (auto split: sum.splits dest: bind_part_error)
  then show "parse_binding e bindcode p combo = Inl err \<Longrightarrow> ?thesis"
    unfolding parse_binding_def Let_def by (auto split: sum.splits)
qed

lemma invalid_bind_error [simp]: "res_status (invalid_bind bindtype minargs argc) = CMD_FAILURE"
  by (simp add: invalid_bind_def cmd_results_new_def)

text \<open>What \<open>bindsym\<close> and \<open>bindcode\<close> do when they get to it.\<close>

lemma cmd_bindsym_or_bindcodeE:
  assumes "cmd_bindsym_or_bindcode bindcode unbind e argv s = Some (r, s')"
  obtains "s' = s" "res_status r \<noteq> CMD_SUCCESS"
  | p rest b t b1 where "bind_flags bindcode \<lparr>opt_input = ''*'', opt_flags = 0, opt_exclude_titlebar = False\<rparr> argv = (p, rest)"
      "parse_binding e bindcode p (hd rest) = Inr b" "translate_binding e b = Some (t, b1)" "unbind"
      "binding_remove b1 (hd rest) s = (r, s')"
  | p rest b t b1 cmd n where "bind_flags bindcode \<lparr>opt_input = ''*'', opt_flags = 0, opt_exclude_titlebar = False\<rparr> argv = (p, rest)"
      "parse_binding e bindcode p (hd rest) = Inr b" "translate_binding e b = Some (t, b1)" "\<not> unbind"
      "join_args (tl rest) = Some cmd"
      "binding_add (b1\<lparr>binding_command := cmd, binding_order := next_binding_order s\<rparr>) (s\<lparr>next_binding_order := n\<rparr>) = (r, s')"
  using assms unfolding cmd_bindsym_or_bindcode_def Let_def
  by (elim with_argsE) (auto split: prod.splits if_splits sum.splits Option.bind_splits dest: parse_binding_error)

lemma cmd_bindsym_or_bindcode_modes:
  assumes "cmd_bindsym_or_bindcode bindcode unbind e argv s = Some (r, s')"
  shows "modes_ok unique_mode s \<Longrightarrow> modes_ok unique_mode s'" and "modes_ok typed_mode s \<Longrightarrow> modes_ok typed_mode s'"
proof -
  have "(modes_ok unique_mode s \<longrightarrow> modes_ok unique_mode s') \<and> (modes_ok typed_mode s \<longrightarrow> modes_ok typed_mode s')"
    using assms
  proof (cases rule: cmd_bindsym_or_bindcodeE)
    case (2 p rest b t b1)
    then have "s' = snd (binding_remove b1 (hd rest) s)" by simp
    then show ?thesis using binding_remove_modes by simp
  next
    case (3 p rest b t b1 cmd n)
    have "key_type (binding_type b1) \<and> sorted (binding_keys b1)"
      using translate_binding_ok [OF 3(3)] parse_binding_ok [OF 3(2)] parse_binding_syms [OF 3(2)] by simp
    then show ?thesis
      using 3(6) binding_add_modes [of "b1\<lparr>binding_command := cmd, binding_order := next_binding_order s\<rparr>" "s\<lparr>next_binding_order := n\<rparr>"]
      by simp
  qed simp
  then show "modes_ok unique_mode s \<Longrightarrow> modes_ok unique_mode s'" "modes_ok typed_mode s \<Longrightarrow> modes_ok typed_mode s'"
    by blast+
qed

lemma switch_binding_modes:
  shows "modes_ok unique_mode s \<Longrightarrow> modes_ok unique_mode (snd (switch_binding_add b s))"
    and "modes_ok typed_mode s \<Longrightarrow> modes_ok typed_mode (snd (switch_binding_add b s))"
    and "modes_ok unique_mode s \<Longrightarrow> modes_ok unique_mode (snd (switch_binding_remove b combo s))"
    and "modes_ok typed_mode s \<Longrightarrow> modes_ok typed_mode (snd (switch_binding_remove b combo s))"
  using modes_ok_current [of unique_mode s] modes_ok_current [of typed_mode s]
  by (auto simp: switch_binding_add_def switch_binding_remove_def mode_defs switch_bindings.overwrite_all_upsert
      switch_bindings.upsert_unique intro!: modes_ok_upd dest: switch_bindings.remove_unique split: option.splits)

lemma gesture_binding_modes:
  shows "modes_ok unique_mode s \<Longrightarrow> modes_ok unique_mode (snd (gesture_binding_add b s))"
    and "modes_ok typed_mode s \<Longrightarrow> modes_ok typed_mode (snd (gesture_binding_add b s))"
    and "modes_ok unique_mode s \<Longrightarrow> modes_ok unique_mode (snd (gesture_binding_remove b combo s))"
    and "modes_ok typed_mode s \<Longrightarrow> modes_ok typed_mode (snd (gesture_binding_remove b combo s))"
  using modes_ok_current [of unique_mode s] modes_ok_current [of typed_mode s]
  by (auto simp: gesture_binding_add_def gesture_binding_remove_def mode_defs gesture_bindings.overwrite_all_upsert
      gesture_bindings.upsert_unique intro!: modes_ok_upd dest: gesture_bindings.remove_unique split: option.splits)

definition keeps_modes :: "(sway_mode \<Rightarrow> bool) \<Rightarrow> handler \<Rightarrow> bool" where
  "keeps_modes P f \<longleftrightarrow> (\<forall>sf e h argv s r s'. f sf e h argv s = Some (r, s') \<longrightarrow> modes_ok P s \<longrightarrow> modes_ok P s')"

lemma cmd_bind_or_unbind_switch_modes:
  assumes "cmd_bind_or_unbind_switch unbind argv s = Some (r, s')"
  shows "modes_ok unique_mode s \<Longrightarrow> modes_ok unique_mode s'" and "modes_ok typed_mode s \<Longrightarrow> modes_ok typed_mode s'"
proof -
  have "s' = s \<or> (\<exists>b combo. switch_binding_remove b combo s = (r, s')) \<or> (\<exists>b. switch_binding_add b s = (r, s'))"
    using assms unfolding cmd_bind_or_unbind_switch_def Let_def
    by (elim with_argsE) (auto split: prod.splits if_splits sum.splits Option.bind_splits)
  then show "modes_ok unique_mode s \<Longrightarrow> modes_ok unique_mode s'" "modes_ok typed_mode s \<Longrightarrow> modes_ok typed_mode s'"
    by (metis switch_binding_modes(1,3) snd_conv, metis switch_binding_modes(2,4) snd_conv)
qed

lemma cmd_bind_or_unbind_gesture_modes:
  assumes "cmd_bind_or_unbind_gesture unbind argv s = Some (r, s')"
  shows "modes_ok unique_mode s \<Longrightarrow> modes_ok unique_mode s'" and "modes_ok typed_mode s \<Longrightarrow> modes_ok typed_mode s'"
proof -
  have "s' = s \<or> (\<exists>b combo. gesture_binding_remove b combo s = (r, s')) \<or> (\<exists>b. gesture_binding_add b s = (r, s'))"
    using assms unfolding cmd_bind_or_unbind_gesture_def Let_def
    by (elim with_argsE) (auto split: prod.splits if_splits option.splits Option.bind_splits)
  then show "modes_ok unique_mode s \<Longrightarrow> modes_ok unique_mode s'" "modes_ok typed_mode s \<Longrightarrow> modes_ok typed_mode s'"
    by (metis gesture_binding_modes(1,3) snd_conv, metis gesture_binding_modes(2,4) snd_conv)
qed

lemma set_modes: "cmd_set sf e h argv s = Some (r, s') \<Longrightarrow> modes_ok P s \<Longrightarrow> modes_ok P s'"
  unfolding cmd_set_def by (elim with_argsE) (auto simp: modes_ok_def split: list.splits if_splits Option.bind_splits)

lemma mode_functions_modes: "(name, f) \<in> set mode_functions \<Longrightarrow> keeps_modes unique_mode f \<and> keeps_modes typed_mode f"
  unfolding mode_functions_def keeps_modes_def
  by (auto simp: cmd_bindcode_def cmd_bindgesture_def cmd_bindswitch_def cmd_bindsym_def cmd_unbindcode_def
      cmd_unbindgesture_def cmd_unbindswitch_def cmd_unbindsym_def
      dest: cmd_bindsym_or_bindcode_modes cmd_bind_or_unbind_switch_modes cmd_bind_or_unbind_gesture_modes set_modes)

lemma config_subcommand_modes:
  assumes "config_subcommand table mode_functions sf e h argv s = Some (r, s')"
  shows "modes_ok unique_mode s \<Longrightarrow> modes_ok unique_mode s'" and "modes_ok typed_mode s \<Longrightarrow> modes_ok typed_mode s'"
proof -
  have "s' = s \<or> (\<exists>name f args. (name, f) \<in> set mode_functions \<and> f sf e h args s = Some (r, s'))"
    using assms by (auto simp: config_subcommand_def Let_def split: list.splits option.splits dest: map_of_SomeD)
  then show "modes_ok unique_mode s \<Longrightarrow> modes_ok unique_mode s'" "modes_ok typed_mode s \<Longrightarrow> modes_ok typed_mode s'"
    using mode_functions_modes unfolding keeps_modes_def by blast+
qed

lemma find_or_create_mode_ok:
  assumes "find_or_create_mode name pango create s = Some (i, s1)" "modes_ok P s" "P (new_mode name pango)"
  shows "modes_ok P s1 \<and> i < length (cfg_modes (cfg s1))"
  using assms by (auto simp: find_or_create_mode_def find_mode_def modes_ok_def find_Some_iff split: option.splits if_splits)

lemma new_mode_ok [simp]: "unique_mode (new_mode name pango)" "typed_mode (new_mode name pango)"
  by (simp_all add: new_mode_def mode_defs)

text \<open>A command never makes the list of modes shorter.\<close>

lemma upd_current_mode_length [simp]: "length (cfg_modes (cfg (upd_current_mode f s))) = length (cfg_modes (cfg s))"
  by (simp add: upd_current_mode_def)

lemma mode_functions_length:
  "(name, f) \<in> set mode_functions \<Longrightarrow> f sf e h args s = Some (r, s') \<Longrightarrow> length (cfg_modes (cfg s')) = length (cfg_modes (cfg s))"
  unfolding mode_functions_def
  by (auto simp: cmd_bindcode_def cmd_bindgesture_def cmd_bindswitch_def cmd_bindsym_def cmd_unbindcode_def
      cmd_unbindgesture_def cmd_unbindswitch_def cmd_unbindsym_def cmd_bind_or_unbind_switch_def cmd_bind_or_unbind_gesture_def
      cmd_set_def binding_add_def binding_remove_def switch_binding_add_def switch_binding_remove_def gesture_binding_add_def
      gesture_binding_remove_def Let_def
      elim!: cmd_bindsym_or_bindcodeE with_argsE split: prod.splits if_splits sum.splits option.splits list.splits Option.bind_splits)

lemma config_subcommand_length:
  "config_subcommand table mode_functions sf e h args s = Some (r, s') \<Longrightarrow> length (cfg_modes (cfg s')) = length (cfg_modes (cfg s))"
  by (auto simp: config_subcommand_def Let_def split: list.splits option.splits dest: mode_functions_length map_of_SomeD)

lemma switch_mode_ok: "modes_ok P s \<Longrightarrow> i < length (cfg_modes (cfg s)) \<Longrightarrow> modes_ok P (switch_mode i s)"
  by (simp add: modes_ok_def switch_mode_def)

lemma cmd_modeE:
  assumes "cmd_mode sf e h argv s = Some (r, s')"
  obtains "s' = s"
  | name pango create i s1 where "find_or_create_mode name pango create s = Some (i, s1)" "s' = switch_mode i s1"
  | name pango create i s1 rest s3 where "find_or_create_mode name pango create s = Some (i, s1)"
      "config_subcommand mode_handlers mode_functions sf e h rest (switch_mode i s1) = Some (r, s3)"
      "s' = switch_mode (cfg_current_mode (cfg s1)) s3"
  using assms unfolding cmd_mode_def
  by (elim with_argsE) (auto simp: Let_def split: list.splits if_splits option.splits prod.splits Option.bind_splits)

lemma cmd_mode_modes:
  assumes "cmd_mode sf e h argv s = Some (r, s')"
    and "P = unique_mode \<or> P = typed_mode" "modes_ok P s"
  shows "modes_ok P s'"
proof -
  have new: "P (new_mode name pango)" for name pango using assms(2) by auto
  from assms(1) show ?thesis
  proof (cases rule: cmd_modeE)
    case (2 name pango create i s1)
    then show ?thesis using find_or_create_mode_ok [OF 2(1) assms(3) new] by (simp add: switch_mode_ok)
  next
    case (3 name pango create i s1 rest s3)
    note s1 = find_or_create_mode_ok [OF 3(1) assms(3) new]
    then have "modes_ok P (switch_mode i s1)" by (simp add: switch_mode_ok)
    then have "modes_ok P s3" using config_subcommand_modes [OF 3(2)] assms(2) by auto
    moreover have "cfg_current_mode (cfg s1) < length (cfg_modes (cfg s3))"
      using config_subcommand_length [OF 3(2)] s1 by (simp add: switch_mode_def modes_ok_def)
    ultimately show ?thesis using 3(3) by (simp add: switch_mode_ok)
  qed (use assms(3) in simp)
qed

section \<open>Properties\<close>

text \<open>C26. No command on bindings or modes ever leaves two equal bindings of a kind in a mode: a binding that is bound again
  is overwritten. The current mode stays one of the modes.\<close>

theorem bindings_stay_unique:
  assumes "(name, f) \<in> set ((''cmd_mode'', cmd_mode) # mode_functions)"
    and "f sf e h argv s = Some (r, s')" and "modes_ok unique_mode s"
  shows "modes_ok unique_mode s'"
  using assms mode_functions_modes cmd_mode_modes unfolding keeps_modes_def by auto

lemma sway0_modes [simp]: "modes_ok unique_mode sway0" "modes_ok typed_mode sway0"
  by (simp_all add: modes_ok_def sway0_def initial_sway_def default_config_def)

text \<open>\<open>bindsym Mod4+b+a exec x\<close> in the state after start-up.\<close>

definition bind_args :: "string list" where
  "bind_args = [''--to-code'', ''Mod4+b+a'', ''exec'', ''x'']"

definition bound_sway :: sway where
  "bound_sway = snd (the (cmd_bindsym (\<lambda>_ _. Some) plain_cmd_env plain_context bind_args sway0))"

lemma bind_args_run:
  "cmd_bindsym (\<lambda>_ _. Some) plain_cmd_env plain_context bind_args sway0 = Some (success, bound_sway)"
proof -
  let ?X = "cmd_bindsym (\<lambda>_ _. Some) plain_cmd_env plain_context bind_args sway0"
  have "\<not> Option.is_none ?X" "fst (the ?X) = success" by code_simp+
  then show ?thesis unfolding bound_sway_def by (cases ?X) (auto simp: Option.is_none_def)
qed

lemma bindings_stay_unique_witness: "modes_ok unique_mode bound_sway"
  by (rule bindings_stay_unique [where name = "''cmd_bindsym''" and f = cmd_bindsym, OF _ bind_args_run sway0_modes(1)])
    (simp add: mode_functions_def)

text \<open>C29. Every binding is kept in the list of its type (keysyms, keycodes or mouse buttons) with its keys in ascending order,
  whatever binding and mode commands run; the comparison of two bindings relies on the order.\<close>

theorem bindings_stay_typed:
  assumes "(name, f) \<in> set ((''cmd_mode'', cmd_mode) # mode_functions)"
    and "f sf e h argv s = Some (r, s')" and "modes_ok typed_mode s"
  shows "modes_ok typed_mode s'"
  using assms mode_functions_modes cmd_mode_modes unfolding keeps_modes_def by auto

lemma bindings_stay_typed_witness: "modes_ok typed_mode bound_sway \<and> mode_keycode_bindings (current_mode bound_sway) \<noteq> []"
proof
  show "modes_ok typed_mode bound_sway"
    by (rule bindings_stay_typed [where name = "''cmd_bindsym''" and f = cmd_bindsym, OF _ bind_args_run sway0_modes(2)])
      (simp add: mode_functions_def)
  show "mode_keycode_bindings (current_mode bound_sway) \<noteq> []" by code_simp
qed

text \<open>The binding of the current mode that is triggered like \<open>c\<close>.\<close>

definition binding_for :: "sway \<Rightarrow> sway_binding \<Rightarrow> sway_binding option" where
  "binding_for s c = bound binding_key_compare (bindings_of_type (binding_type c) (current_mode s)) c"

lemma binding_for_order [simp]: "binding_for (s\<lparr>next_binding_order := n\<rparr>) = binding_for s"
  by (intro ext) (simp add: binding_for_def current_mode_def)

lemma bindings_upd_other:
  "bindings_of_type u (upd_bindings t f m) =
     (if bindings_of_type u = bindings_of_type t then f (bindings_of_type t m) else bindings_of_type u m)"
proof (cases "bindings_of_type u = bindings_of_type t")
  case True
  then show ?thesis by (simp add: bindings_upd)
next
  case False
  then have "(u = BINDING_KEYCODE) \<noteq> (t = BINDING_KEYCODE) \<or> (u = BINDING_KEYSYM) \<noteq> (t = BINDING_KEYSYM)"
    unfolding bindings_of_type_def by auto
  then show ?thesis using False by (auto simp: bindings_of_type_def upd_bindings_def)
qed

lemma binding_for_add:
  assumes "modes_ok P s" "binding_add b s = (r, s')"
  shows "binding_for s' c = (if binding_key_compare c b then Some b else binding_for s c)"
proof -
  have "binding_type c = binding_type b" if "binding_key_compare c b" using that by (simp add: binding_key_compare_eq binding_key_def)
  then show ?thesis
    using assms by (auto simp: binding_add_def binding_for_def current_mode_upd bindings_upd_other key_bindings.upsert_bound)
qed

lemma binding_for_remove:
  assumes "modes_ok unique_mode s" "binding_for s b \<noteq> None"
  obtains s' where "binding_remove b combo s = (success, s')"
    "\<And>c. binding_for s' c = (if binding_key_compare c b then None else binding_for s c)"
proof -
  obtain l where l: "remove_binding binding_key_compare b (bindings_of_type (binding_type b) (current_mode s)) = Some l"
    using assms(2) key_bindings.remove_None unfolding binding_for_def by fastforce
  note r = key_bindings.remove_bound [OF l unique_mode_bindings [OF modes_ok_current [OF assms(1)]]]
  have "binding_type c = binding_type b" if "binding_key_compare c b" for c
    using that by (simp add: binding_key_compare_eq binding_key_def)
  then have "binding_for (upd_current_mode (upd_bindings (binding_type b) (\<lambda>_. l)) s) c
      = (if binding_key_compare c b then None else binding_for s c)" for c
    using r [of c] assms(1) by (auto simp: binding_for_def current_mode_upd bindings_upd_other)
  then show ?thesis using that l by (simp add: binding_remove_def)
qed

lemma bind_flags_suffix: "bind_flags bindcode p argv = (p', rest) \<Longrightarrow> suffix rest argv"
  by (induction bindcode p argv rule: bind_flags.induct) (auto intro: suffix_ConsI split: option.splits if_splits)



text \<open>C28. \<open>unbindsym\<close> takes back what \<open>bindsym\<close> with the same arguments did: it succeeds, nothing answers the keys any
  more, and every other binding is as it was before the two commands.\<close>

theorem unbind_undoes_bind:
  assumes "modes_ok unique_mode s"
    and "cmd_bindsym_or_bindcode bindcode False e argv s = Some (r, s1)" and "res_status r = CMD_SUCCESS"
  shows "\<exists>b s2. cmd_bindsym_or_bindcode bindcode True e argv s1 = Some (success, s2) \<and> binding_for s1 b = Some b \<and>
    (\<forall>c. binding_for s2 c = (if binding_key_compare c b then None else binding_for s c))"
  using assms(2)
proof (cases rule: cmd_bindsym_or_bindcodeE)
  case (3 p rest b t b1 cmd n)
  let ?b = "b1\<lparr>binding_command := cmd, binding_order := next_binding_order s\<rparr>"
  have same: "binding_key_compare c b1 = binding_key_compare c ?b" for c by (simp add: binding_key_compare_eq binding_key_def)
  have add: "binding_for s1 c = (if binding_key_compare c ?b then Some ?b else binding_for s c)" for c
    using binding_for_add [OF _ 3(6), of unique_mode] assms(1) by simp
  have ok: "modes_ok unique_mode s1" using cmd_bindsym_or_bindcode_modes(1) [OF assms(2,1)] .
  have "binding_for s1 b1 \<noteq> None" using add [of b1] same [of b1] key_bindings.same_refl by simp
  then obtain s2 where s2: "binding_remove b1 (hd rest) s1 = (success, s2)"
      "\<And>c. binding_for s2 c = (if binding_key_compare c b1 then None else binding_for s1 c)"
    using binding_for_remove [OF ok] by blast
  have len: "length rest \<ge> 1" using 3(5) by (cases rest) (auto simp: join_args_def)
  then have "length argv \<ge> 1" using suffix_length_le [OF bind_flags_suffix [OF 3(1)]] by simp
  then have "cmd_bindsym_or_bindcode bindcode True e argv s1 = Some (success, s2)"
    using 3(1-3) s2(1) len by (auto simp: cmd_bindsym_or_bindcode_def with_args_def checkarg_def Let_def)
  moreover have "binding_for s1 ?b = Some ?b" using add [of ?b] key_bindings.same_refl by simp
  moreover have "\<forall>c. binding_for s2 c = (if binding_key_compare c ?b then None else binding_for s c)"
    using s2(2) same add by simp
  ultimately show ?thesis by blast
qed (use assms(3) in auto)

lemma unbind_undoes_bind_witness:
  "\<exists>b s2. cmd_bindsym_or_bindcode False True plain_cmd_env bind_args bound_sway = Some (success, s2) \<and>
    binding_for bound_sway b = Some b \<and>
    (\<forall>c. binding_for s2 c = (if binding_key_compare c b then None else binding_for sway0 c))"
  by (rule unbind_undoes_bind [OF sway0_modes(1) bind_args_run [unfolded cmd_bindsym_def]]) (simp add: cmd_results_new_def)

end
