(* ===== verification/Focus_Cmd.thy ===== *)
theory Focus_Cmd
  imports Command_Base Seat_Focus
begin

text \<open>The command \<open>focus\<close> of \<open>sway/commands/focus.c\<close>.\<close>

section \<open>Directions\<close>

text \<open>\<open>None\<close>: not a direction; \<open>Some None\<close>: the direction is left unset, as the layout has none.\<close>

definition get_direction_from_next_prev :: "sway \<Rightarrow> nat option \<Rightarrow> string \<Rightarrow> wlr_direction option option" where
  "get_direction_from_next_prev s container name =
     (let parent_layout = (case container of None \<Rightarrow> L_NONE | Some c \<Rightarrow> container_parent_layout s c) in
      if strcasecmp_eq name ''prev'' then
        (case parent_layout of
           L_HORIZ \<Rightarrow> Some (Some WLR_DIRECTION_LEFT) | L_SCROLL_H \<Rightarrow> Some (Some WLR_DIRECTION_LEFT)
         | L_TABBED \<Rightarrow> Some (Some WLR_DIRECTION_LEFT)
         | L_VERT \<Rightarrow> Some (Some WLR_DIRECTION_UP) | L_STACKED \<Rightarrow> Some (Some WLR_DIRECTION_UP)
         | L_NONE \<Rightarrow> Some None)
      else if strcasecmp_eq name ''next'' then
        (case parent_layout of
           L_HORIZ \<Rightarrow> Some (Some WLR_DIRECTION_RIGHT) | L_SCROLL_H \<Rightarrow> Some (Some WLR_DIRECTION_RIGHT)
         | L_TABBED \<Rightarrow> Some (Some WLR_DIRECTION_RIGHT)
         | L_VERT \<Rightarrow> Some (Some WLR_DIRECTION_DOWN) | L_STACKED \<Rightarrow> Some (Some WLR_DIRECTION_DOWN)
         | L_NONE \<Rightarrow> Some None)
      else None)"

text \<open>The node to focus when the focus enters an output; a failed assertion returns \<open>NULL\<close>.\<close>

definition get_node_in_output_direction :: "sway \<Rightarrow> nat \<Rightarrow> nat \<Rightarrow> wlr_direction \<Rightarrow> sway_node option" where
  "get_node_in_output_direction s seat out dir =
     (case output_get_active_workspace s out of
        None \<Rightarrow> None
      | Some ws \<Rightarrow>
          (case ws_fullscreen (wss s ws) of
             Some f \<Rightarrow> seat_get_focus_inactive s seat (N_CONTAINER f)
           | None \<Rightarrow>
               let tiling = ws_tiling (wss s ws); layout = ws_layout (wss s ws);
                   container =
                     (if tiling = [] then None
                      else case dir of
                        WLR_DIRECTION_LEFT \<Rightarrow> if layout_is_horizontal layout then Some (last tiling)
                            else seat_get_focus_inactive_tiling s seat ws
                      | WLR_DIRECTION_RIGHT \<Rightarrow> if layout_is_horizontal layout then Some (hd tiling)
                            else seat_get_focus_inactive_tiling s seat ws
                      | WLR_DIRECTION_UP \<Rightarrow> if layout_is_vertical layout then Some (last tiling)
                            else seat_get_focus_inactive_tiling s seat ws
                      | WLR_DIRECTION_DOWN \<Rightarrow> if layout_is_vertical layout then Some (hd tiling)
                            else seat_get_focus_inactive_tiling s seat ws)
               in case container of
                    Some c \<Rightarrow> map_option N_CONTAINER (seat_get_focus_inactive_view s seat (N_CONTAINER c))
                  | None \<Rightarrow> Some (N_WORKSPACE ws)))"

definition output_in_direction_of :: "cmd_env \<Rightarrow> sway \<Rightarrow> nat \<Rightarrow> wlr_direction \<Rightarrow> nat option" where
  "output_in_direction_of e s out dir = output_get_in_direction (adjacent_output e) s out dir"

text \<open>
  The loop of \<open>node_get_in_direction_tiling\<close> over a container and its ancestors: it returns, or
  it runs out with a candidate for wrapping around.
\<close>

datatype focus_walk_result = FOUND "sway_node option" | RAN_OUT "nat option"

fun focus_walk :: "cmd_env \<Rightarrow> sway \<Rightarrow> nat \<Rightarrow> wlr_direction \<Rightarrow> bool \<Rightarrow> nat list \<Rightarrow> nat option \<Rightarrow> focus_walk_result option" where
  "focus_walk e s seat dir descend [] wrap_candidate = Some (RAN_OUT wrap_candidate)"
| "focus_walk e s seat dir descend (current # rest) wrap_candidate =
     (if fullscreen_mode_of s current = FULLSCREEN_WORKSPACE then do {
        ws \<leftarrow> workspace_of s current;
        out \<leftarrow> ws_output (wss s ws);
        Some (FOUND (case output_in_direction_of e s out dir of
            None \<Rightarrow> None
          | Some new_output \<Rightarrow> get_node_in_output_direction s seat new_output dir)) }
      else if fullscreen_mode_of s current = FULLSCREEN_GLOBAL then Some (FOUND None)
      else do {
        idx \<leftarrow> container_sibling_index s current;
        siblings \<leftarrow> container_get_siblings s current;
        let parent_layout = container_parent_layout s current;
        let can_move = (if dir = WLR_DIRECTION_LEFT \<or> dir = WLR_DIRECTION_RIGHT
                        then layout_is_horizontal parent_layout else layout_is_vertical parent_layout);
        let desired = idx + (if dir = WLR_DIRECTION_LEFT \<or> dir = WLR_DIRECTION_UP then - 1 else 1);
        if \<not> can_move then focus_walk e s seat dir descend rest wrap_candidate
        else if desired < 0 \<or> desired \<ge> int (length siblings) then
          (if fl_focus_wrapping (cfg_flags (cfg s)) \<noteq> WRAP_NO \<and> wrap_candidate = None \<and> length siblings > 1
           then let candidate = (if desired < 0 then last siblings else hd siblings) in
             if fl_focus_wrapping (cfg_flags (cfg s)) = WRAP_FORCE
             then Some (FOUND (map_option N_CONTAINER (seat_get_focus_inactive_view s seat (N_CONTAINER candidate))))
             else focus_walk e s seat dir descend rest (Some candidate)
           else focus_walk e s seat dir descend rest wrap_candidate)
        else
          let desired_con = siblings ! nat desired in
          if \<not> descend then Some (FOUND (Some (N_CONTAINER desired_con)))
          else Some (FOUND (map_option N_CONTAINER (seat_get_focus_inactive_view s seat (N_CONTAINER desired_con)))) })"

definition node_get_in_direction_tiling ::
  "cmd_env \<Rightarrow> sway \<Rightarrow> nat \<Rightarrow> nat \<Rightarrow> wlr_direction \<Rightarrow> bool \<Rightarrow> sway_node option option" where
  "node_get_in_direction_tiling e s container seat dir descend = do {
     r \<leftarrow> focus_walk e s seat dir descend (container # ancestors s container) None;
     case r of
       FOUND n \<Rightarrow> Some n
     | RAN_OUT wrap_candidate \<Rightarrow> do {
         ws \<leftarrow> workspace_of s container;
         out \<leftarrow> ws_output (wss s ws);
         let wrapped = (case wrap_candidate of
               None \<Rightarrow> None
             | Some w \<Rightarrow> map_option N_CONTAINER (seat_get_focus_inactive_view s seat (N_CONTAINER w)));
         Some (case output_in_direction_of e s out dir of
             Some new_output \<Rightarrow>
               if fl_focus_wrapping (cfg_flags (cfg s)) \<noteq> WRAP_WORKSPACE
               then get_node_in_output_direction s seat new_output dir else wrapped
           | None \<Rightarrow> wrapped) } }"

text \<open>The distance of the centre of a floating container, in the direction; \<open>None\<close> is \<open>DBL_MAX\<close>.\<close>

definition floating_distance :: "sway \<Rightarrow> wlr_direction \<Rightarrow> nat \<Rightarrow> nat \<Rightarrow> rat" where
  "floating_distance s dir con floater =
     (let p = pending s con; f = pending s floater;
          distance = (if dir = WLR_DIRECTION_LEFT \<or> dir = WLR_DIRECTION_RIGHT
                      then (st_x f + st_width f / 2) - (st_x p + st_width p / 2)
                      else (st_y f + st_height f / 2) - (st_y p + st_height p / 2))
      in if dir = WLR_DIRECTION_LEFT \<or> dir = WLR_DIRECTION_UP then - distance else distance)"

fun closest_floater :: "sway \<Rightarrow> wlr_direction \<Rightarrow> nat \<Rightarrow> nat list \<Rightarrow> (rat \<times> nat) option \<Rightarrow> nat option" where
  "closest_floater s dir con [] best = map_option snd best"
| "closest_floater s dir con (floater # rest) best =
     (let distance = floating_distance s dir con floater in
      if floater = con \<or> distance < 0 then closest_floater s dir con rest best
      else if best = None \<or> distance < fst (the best) then closest_floater s dir con rest (Some (distance, floater))
      else closest_floater s dir con rest best)"

definition node_get_in_direction_floating :: "sway \<Rightarrow> nat \<Rightarrow> wlr_direction \<Rightarrow> sway_node option" where
  "node_get_in_direction_floating s con dir =
     (case workspace_of s con of
        None \<Rightarrow> None
      | Some ws \<Rightarrow> map_option N_CONTAINER (closest_floater s dir con (ws_floating (wss s ws)) None))"

section \<open>The command\<close>

definition focus_mode :: "refocus_op \<Rightarrow> nat option \<Rightarrow> nat \<Rightarrow> bool \<Rightarrow> sway \<Rightarrow> cmd_outcome" where
  "focus_mode sf ws seat floating s = do {
     w \<leftarrow> ws;
     let new_focus = (if floating then seat_get_focus_inactive_floating s seat w
                      else seat_get_focus_inactive_tiling s seat w);
     case new_focus of
       Some c \<Rightarrow> do {
         let target = (case seat_get_focus_inactive_view s seat (N_CONTAINER c) of Some v \<Rightarrow> v | None \<Rightarrow> c);
         s1 \<leftarrow> sf seat (Some (N_CONTAINER target)) s;
         Some (success, s1) }
     | None \<Rightarrow> Some (failure (''Failed to find a '' @ (if floating then ''floating'' else ''tiling'') @
                 '' container in workspace.''), s) }"

definition focus_output :: "refocus_op \<Rightarrow> cmd_env \<Rightarrow> nat \<Rightarrow> string list \<Rightarrow> sway \<Rightarrow> cmd_outcome" where
  "focus_output sf e seat argv s =
     (case join_args argv of
        None \<Rightarrow> Some (invalid ''Expected 'focus output <direction|name>'.'', s)
      | Some identifier \<Rightarrow>
          let focus_it = (\<lambda>output. case output of
                None \<Rightarrow> Some (success, s)
              | Some out \<Rightarrow> do {
                  s1 \<leftarrow> sf seat (seat_get_focus_inactive s seat (N_OUTPUT out)) s;
                  Some (success, s1) })
          in case output_by_name_or_id s identifier of
               Some out \<Rightarrow> focus_it (Some out)
             | None \<Rightarrow>
                 (case parse_direction identifier of
                    None \<Rightarrow> Some (invalid ''There is no output with that name.'', s)
                  | Some direction \<Rightarrow>
                      (case seat_get_focused_workspace s seat of
                         None \<Rightarrow> Some (failure ''No focused workspace to base directions off of.'', s)
                       | Some ws \<Rightarrow> do {
                           out \<leftarrow> ws_output (wss s ws);
                           let o1 = output_in_direction_of e s out direction;
                           let o2 = (case o1 of
                                 Some x \<Rightarrow> Some x
                               | None \<Rightarrow> farthest_output e (opposite_direction direction) out
                                   (out_lx (outs s out) + c_trunc (of_int (out_width (outs s out)) / 2))
                                   (out_ly (outs s out) + c_trunc (of_int (out_height (outs s out)) / 2)));
                           focus_it o2 })))"

definition focus_parent :: "refocus_op \<Rightarrow> handler_context \<Rightarrow> sway \<Rightarrow> cmd_outcome" where
  "focus_parent sf h s =
     (case hc_container h of
        None \<Rightarrow> Some (success, s)
      | Some con \<Rightarrow>
          if fullscreen_mode_of s con \<noteq> FULLSCREEN_NONE then Some (success, s)
          else case node_get_parent s (N_CONTAINER con) of
            None \<Rightarrow> Some (success, s)
          | Some parent \<Rightarrow> do { s1 \<leftarrow> sf (hc_seat h) (Some parent) s; Some (success, s1) })"

definition focus_child :: "refocus_op \<Rightarrow> handler_context \<Rightarrow> sway \<Rightarrow> cmd_outcome" where
  "focus_child sf h s = do {
     node \<leftarrow> hc_node h;
     case seat_get_active_tiling_child s (hc_seat h) node of
       None \<Rightarrow> Some (success, s)
     | Some focus \<Rightarrow> do { s1 \<leftarrow> sf (hc_seat h) (Some focus) s; Some (success, s1) } }"

text \<open>\<open>focus\<close> without arguments.\<close>

definition focus_container :: "refocus_op \<Rightarrow> handler_context \<Rightarrow> sway \<Rightarrow> cmd_outcome" where
  "focus_container sf h s =
     (case hc_container h of
        None \<Rightarrow> Some (failure ''No container to focus was specified.'', s)
      | Some c \<Rightarrow> do {
          s1 \<leftarrow> (if container_is_scratchpad_hidden_or_child s c then root_scratchpad_show sf c s else Some s);
          s2 \<leftarrow> (case container_obstructing_fullscreen_container s1 c of
                  None \<Rightarrow> Some s1
                | Some f \<Rightarrow> do { s2 \<leftarrow> container_fullscreen_disable sf f s1; arrange_root s2 });
          s3 \<leftarrow> sf (hc_seat h) (Some (N_CONTAINER c)) s2;
          Some (success, container_raise_floating c s3) })"

definition focus_direction :: "refocus_op \<Rightarrow> cmd_env \<Rightarrow> handler_context \<Rightarrow> wlr_direction \<Rightarrow> bool \<Rightarrow> sway \<Rightarrow> cmd_outcome" where
  "focus_direction sf e h direction descend s =
     (case hc_node h of
        Some (N_WORKSPACE _) \<Rightarrow> do {
          ws \<leftarrow> hc_workspace h;
          out \<leftarrow> ws_output (wss s ws);
          case output_in_direction_of e s out direction of
            None \<Rightarrow> Some (success, s)
          | Some new_output \<Rightarrow> do {
              s1 \<leftarrow> sf (hc_seat h) (get_node_in_output_direction s (hc_seat h) new_output direction) s;
              Some (success, s1) } }
      | _ \<Rightarrow>
          (case hc_container h of
             None \<Rightarrow> Some (failure '''', s)
           | Some container \<Rightarrow> do {
               next_focus \<leftarrow> (if container_is_floating s container \<and> fullscreen_mode_of s container = FULLSCREEN_NONE
                              then Some (node_get_in_direction_floating s container direction)
                              else node_get_in_direction_tiling e s container (hc_seat h) direction descend);
               case next_focus of
                 None \<Rightarrow> Some (success, s)
               | Some n \<Rightarrow> do {
                   s1 \<leftarrow> sf (hc_seat h) (Some n) s;
                   Some (success, (case n of N_CONTAINER c \<Rightarrow> container_raise_floating c s1 | _ \<Rightarrow> s1)) } }))"

definition cmd_focus :: handler where
  "cmd_focus sf e h argv s =
     (if fl_reading (cfg_flags (cfg s)) \<or> \<not> fl_active (cfg_flags (cfg s)) then Some (cmd_results_new CMD_DEFER None, s)
      else if root_outputs s = [] then Some (invalid no_outputs, s)
      else case hc_node h of
        None \<Rightarrow> None
      | Some node \<Rightarrow>
          if (case node of N_ROOT \<Rightarrow> True | N_OUTPUT _ \<Rightarrow> True | _ \<Rightarrow> False)
          then Some (failure ''Command 'focus' cannot be used above the workspace level.'', s)
          else case argv of
            [] \<Rightarrow> focus_container sf h s
          | a # as \<Rightarrow>
              if a = ''floating'' then focus_mode sf (hc_workspace h) (hc_seat h) True s
              else if a = ''tiling'' then focus_mode sf (hc_workspace h) (hc_seat h) False s
              else if a = ''mode_toggle'' then
                focus_mode sf (hc_workspace h) (hc_seat h)
                  (\<not> (case hc_container h of None \<Rightarrow> False | Some c \<Rightarrow> container_is_floating_or_child s c)) s
              else if a = ''output'' then focus_output sf e (hc_seat h) as s
              else if strcasecmp_eq a ''parent'' then focus_parent sf h s
              else if strcasecmp_eq a ''child'' then focus_child sf h s
              else case parse_direction a of
                Some direction \<Rightarrow> focus_direction sf e h direction True s
              | None \<Rightarrow>
                  (case get_direction_from_next_prev s (hc_container h) a of
                     None \<Rightarrow> Some (invalid
                       (''Expected 'focus <direction|next|prev|parent|child|mode_toggle|floating|tiling>' or 'focus output <direction|name>'' @ [CHR 0x27]), s)
                   | Some None \<Rightarrow> Some (success, s)
                   | Some (Some direction) \<Rightarrow>
                       focus_direction sf e h direction
                         (\<not> (length as = 1 \<and> strcasecmp_eq (hd as) ''sibling'')) s))"

end
