(* ===== verification/Tree_Cmds.thy ===== *)
theory Tree_Cmds
  imports Command_Base
begin

text \<open>
  Commands that change the shape of the window tree: \<open>split.c\<close>, \<open>layout.c\<close>, \<open>floating.c\<close>,
  \<open>fullscreen.c\<close>, \<open>sticky.c\<close>, \<open>maximize.c\<close>, \<open>swap.c\<close> and \<open>scratchpad.c\<close> of
  \<open>sway/commands\<close>.
\<close>

section \<open>\<open>split\<close>\<close>

definition context_workspace :: "handler_context \<Rightarrow> sway \<Rightarrow> nat option" where
  "context_workspace h s =
     (case hc_workspace h of
        Some w \<Rightarrow> Some w
      | None \<Rightarrow> (case hc_container h of Some c \<Rightarrow> workspace_of s c | None \<Rightarrow> None))"

definition scrollable :: "sway \<Rightarrow> nat option \<Rightarrow> bool" where
  "scrollable s ws = (case ws of Some w \<Rightarrow> ws_layout (wss s w) = L_SCROLL_H | None \<Rightarrow> False)"

definition no_scroll_split :: string where
  "no_scroll_split = ''Split commands are unavailable while scrollable layout is active''"

definition do_split :: "refocus_op \<Rightarrow> handler_context \<Rightarrow> sway_container_layout \<Rightarrow> sway \<Rightarrow> cmd_outcome" where
  "do_split sf h layout s =
     (let ws = context_workspace h s in
      if scrollable s ws then Some (failure no_scroll_split, s)
      else case hc_container h of
        Some con \<Rightarrow>
          if container_is_scratchpad_hidden_or_child s con \<and> fullscreen_mode_of s con \<noteq> FULLSCREEN_GLOBAL
          then Some (failure ''Cannot split a hidden scratchpad container'', s)
          else do {
            s1 \<leftarrow> map_option snd (container_split sf con layout s);
            s2 \<leftarrow> arrange_after ws s1;
            Some (success, s2) }
      | None \<Rightarrow> do {
          w \<leftarrow> ws;
          s1 \<leftarrow> map_option snd (workspace_split sf w layout s);
          s2 \<leftarrow> arrange_after ws s1;
          Some (success, s2) })"

definition do_unsplit :: "refocus_op \<Rightarrow> handler_context \<Rightarrow> sway \<Rightarrow> cmd_outcome" where
  "do_unsplit sf h s =
     (let ws = context_workspace h s;
          only = failure ''Can only flatten a child container with no siblings'' in
      if scrollable s ws then Some (failure no_scroll_split, s)
      else case hc_container h of
        None \<Rightarrow> Some (only, s)
      | Some con \<Rightarrow>
          (case parent_of s con of
             None \<Rightarrow> Some (only, s)
           | Some p \<Rightarrow>
               if length (kids s p) = 1 then do {
                 s1 \<leftarrow> map_option snd (container_flatten sf p s);
                 s2 \<leftarrow> arrange_after ws s1;
                 Some (success, s2) }
               else Some (only, s)))"

definition toggled_split :: "handler_context \<Rightarrow> sway \<Rightarrow> sway_container_layout" where
  "toggled_split h s =
     (case hc_container h of
        Some c \<Rightarrow> if container_parent_layout s c = L_VERT then L_HORIZ else L_VERT
      | None \<Rightarrow> L_VERT)"

definition cmd_split :: handler where
  "cmd_split sf e h argv s = with_args argv ''split'' EXPECTED_EQUAL_TO 1 s
     (let a = hd argv in
      if root_outputs s = [] then Some (invalid no_outputs, s)
      else if strcasecmp_eq a ''v'' \<or> strcasecmp_eq a ''vertical'' then do_split sf h L_VERT s
      else if strcasecmp_eq a ''h'' \<or> strcasecmp_eq a ''horizontal'' then do_split sf h L_HORIZ s
      else if strcasecmp_eq a ''t'' \<or> strcasecmp_eq a ''toggle'' then do_split sf h (toggled_split h s) s
      else if strcasecmp_eq a ''n'' \<or> strcasecmp_eq a ''none'' then do_unsplit sf h s
      else Some (failure ''Invalid split command (expected either horizontal or vertical).'', s))"

definition cmd_splitv :: handler where
  "cmd_splitv sf e h argv s = with_args argv ''splitv'' EXPECTED_EQUAL_TO 0 s (do_split sf h L_VERT s)"

definition cmd_splith :: handler where
  "cmd_splith sf e h argv s = with_args argv ''splith'' EXPECTED_EQUAL_TO 0 s (do_split sf h L_HORIZ s)"

definition cmd_splitt :: handler where
  "cmd_splitt sf e h argv s = with_args argv ''splitt'' EXPECTED_EQUAL_TO 0 s (do_split sf h (toggled_split h s) s)"

section \<open>\<open>layout\<close>\<close>

definition parse_layout_string :: "string \<Rightarrow> sway_container_layout" where
  "parse_layout_string x =
     (if strcasecmp_eq x ''splith'' then L_HORIZ
      else if strcasecmp_eq x ''splitv'' then L_VERT
      else if strcasecmp_eq x ''scrollable'' \<or> strcasecmp_eq x ''scrollh'' then L_SCROLL_H
      else if strcasecmp_eq x ''tabbed'' then L_TABBED
      else if strcasecmp_eq x ''stacking'' then L_STACKED
      else L_NONE)"

definition layout_syntax :: string where
  "layout_syntax = ''Expected 'layout default|scrollable|tabbed|stacking|splitv|splith' or ''
     @ [CHR 0x27] @ ''layout toggle [split|all]' or '' @ [CHR 0x27]
     @ ''layout toggle [split|scrollable|tabbed|stacking|splitv|splith] [split|scrollable|tabbed|stacking|splitv|splith]...''
     @ [CHR 0x27]"

definition toggle_split_layout :: "sway \<Rightarrow> sway_container_layout \<Rightarrow> sway_container_layout \<Rightarrow> nat option \<Rightarrow>
    sway_container_layout option" where
  "toggle_split_layout s layout prev_split_layout output =
     (if layout = L_HORIZ then Some L_VERT
      else if layout = L_VERT then Some L_HORIZ
      else if prev_split_layout \<noteq> L_NONE then Some prev_split_layout
      else if cfg_default_orientation (cfg s) \<noteq> L_NONE then Some (cfg_default_orientation (cfg s))
      else case output of
        None \<Rightarrow> None
      | Some out \<Rightarrow> Some (if out_height (outs s out) > out_width (outs s out) then L_VERT else L_HORIZ))"

text \<open>
  The cycle of \<open>layout toggle a b c\<close>: \<open>toggle_start\<close> finds the argument for the layout now in
  use (or the number of arguments), \<open>toggle_cycle\<close> goes round from the next one until it is
  back. The fuel is more than one round; running out of it is a loop that does not end.
\<close>

fun toggle_start :: "sway_container_layout \<Rightarrow> nat \<Rightarrow> string list \<Rightarrow> nat" where
  "toggle_start layout cur [] = cur"
| "toggle_start layout cur (a # as) =
     (if parse_layout_string a = layout \<or> (a = ''split'' \<and> (layout = L_VERT \<or> layout = L_HORIZ))
      then cur else toggle_start layout (cur + 1) as)"

primrec toggle_cycle :: "nat \<Rightarrow> string list \<Rightarrow> sway_container_layout option \<Rightarrow> nat \<Rightarrow> nat \<Rightarrow> sway_container_layout option" where
  "toggle_cycle 0 argv toggled cur i = None"
| "toggle_cycle (Suc n) argv toggled cur i =
     (if i = cur then Some L_NONE
      else
        let j = (if i \<ge> length argv then 1 else i);
            parsed = parse_layout_string (argv ! j)
        in if parsed \<noteq> L_NONE then Some parsed
           else if argv ! j = ''split'' then toggled
           else toggle_cycle n argv toggled cur (j + 1))"

definition get_layout_toggle :: "sway \<Rightarrow> string list \<Rightarrow> sway_container_layout \<Rightarrow> sway_container_layout \<Rightarrow> nat option \<Rightarrow>
    sway_container_layout option" where
  "get_layout_toggle s argv layout prev_split_layout output =
     (let toggled = toggle_split_layout s layout prev_split_layout output in
      if length argv = 1 then toggled
      else if length argv = 2 then
        (if strcasecmp_eq (argv ! 1) ''split'' then toggled
         else if strcasecmp_eq (argv ! 1) ''all'' then Some
           (if layout = L_HORIZ then L_VERT else if layout = L_VERT then L_SCROLL_H
            else if layout = L_SCROLL_H then L_STACKED else if layout = L_STACKED then L_TABBED else L_HORIZ)
         else Some L_NONE)
      else let cur = toggle_start layout 1 (tl argv)
           in toggle_cycle (2 * length argv) argv toggled cur (cur + 1))"

definition get_layout :: "sway \<Rightarrow> string list \<Rightarrow> sway_container_layout \<Rightarrow> sway_container_layout \<Rightarrow> nat option \<Rightarrow>
    sway_container_layout option" where
  "get_layout s argv layout prev_split_layout output =
     (let parsed = parse_layout_string (hd argv) in
      if parsed \<noteq> L_NONE then Some parsed
      else if strcasecmp_eq (hd argv) ''default'' then Some prev_split_layout
      else if strcasecmp_eq (hd argv) ''toggle'' then get_layout_toggle s argv layout prev_split_layout output
      else Some L_NONE)"

text \<open>The change of the layout: of a container, of a wrapper around the workspace's windows, or of the workspace.\<close>

definition change_layout :: "refocus_op \<Rightarrow> handler_context \<Rightarrow> nat option \<Rightarrow> nat option \<Rightarrow> sway_container_layout \<Rightarrow>
    sway_container_layout \<Rightarrow> sway \<Rightarrow> sway option" where
  "change_layout sf h container workspace old_layout new_layout s =
     (let keeps_split = (old_layout \<noteq> L_TABBED \<and> old_layout \<noteq> L_STACKED) in
      case container of
        Some c \<Rightarrow>
          let s1 = (if keeps_split then upd_con c (con_prev_split_layout_update (\<lambda>_. old_layout)) s else s)
          in Some (container_update_representation c (upd_pending c (st_layout_update (\<lambda>_. new_layout)) s1))
      | None \<Rightarrow> do {
          w \<leftarrow> workspace;
          if hc_container h \<noteq> None then do {
            (c, s1) \<leftarrow> workspace_wrap_children sf w s;
            Some (container_update_representation c (upd_pending c (st_layout_update (\<lambda>_. new_layout)) s1)) }
          else
            let s1 = (if keeps_split then upd_ws w (ws_prev_split_layout_update (\<lambda>_. old_layout)) s else s)
            in Some (workspace_update_representation w (upd_ws w (ws_layout_update (\<lambda>_. new_layout)) s1)) })"

definition layout_target :: "handler_context \<Rightarrow> nat option \<Rightarrow> sway \<Rightarrow> nat option" where
  "layout_target h workspace s =
     (if scrollable s workspace then None
      else case hc_container h of Some c \<Rightarrow> parent_of s c | None \<Rightarrow> None)"

definition cmd_layout :: handler where
  "cmd_layout sf e h argv s = with_args argv ''layout'' EXPECTED_AT_LEAST 1 s
     (let config_time = fl_reading (cfg_flags (cfg s)) \<and> hc_container h = None \<and> hc_workspace h = None \<and> length argv = 1 in
      if config_time \<and> strcasecmp_eq (hd argv) ''scrollable''
      then Some (success, s\<lparr>cfg := (cfg s)\<lparr>cfg_default_workspace_layout := L_SCROLL_H\<rparr>\<rparr>)
      else if config_time \<and> strcasecmp_eq (hd argv) ''default''
      then Some (success, s\<lparr>cfg := (cfg s)\<lparr>cfg_default_workspace_layout := L_NONE\<rparr>\<rparr>)
      else if root_outputs s = [] then Some (invalid no_outputs, s)
      else if (case hc_container h of Some c \<Rightarrow> container_is_floating s c | None \<Rightarrow> False)
      then Some (failure ''Unable to change layout of floating windows'', s)
      else do {
        let workspace = context_workspace h s;
        let container = layout_target h workspace s;
        (old_layout, new_layout) \<leftarrow> (case container of
            Some c \<Rightarrow> do {
              w \<leftarrow> workspace_of s c;
              new \<leftarrow> get_layout s argv (st_layout (pending s c)) (con_prev_split_layout (cons s c)) (ws_output (wss s w));
              Some (st_layout (pending s c), new) }
          | None \<Rightarrow> do {
              w \<leftarrow> workspace;
              new \<leftarrow> get_layout s argv (ws_layout (wss s w)) (ws_prev_split_layout (wss s w)) (ws_output (wss s w));
              Some (ws_layout (wss s w), new) });
        if new_layout = L_NONE then Some (invalid layout_syntax, s)
        else if scrollable s workspace \<and> new_layout \<noteq> L_SCROLL_H
        then Some (failure ''Layout changes are unavailable while scrollable layout is active'', s)
        else do {
          (container, old_layout) \<leftarrow> (if new_layout = L_SCROLL_H
              then (case workspace of None \<Rightarrow> None | Some w \<Rightarrow> Some (None, ws_layout (wss s w)))
              else Some (container, old_layout));
          if new_layout = old_layout then Some (success, s)
          else do {
            s1 \<leftarrow> change_layout sf h container workspace old_layout new_layout s;
            s2 \<leftarrow> arrange_after workspace s1;
            Some (success, s2) } } })"

section \<open>\<open>floating\<close>, \<open>fullscreen\<close>, \<open>sticky\<close>, \<open>maximize\<close>\<close>

definition float_it :: "refocus_op \<Rightarrow> nat \<Rightarrow> string \<Rightarrow> sway \<Rightarrow> cmd_outcome" where
  "float_it sf c a s =
     (if container_is_scratchpad_hidden s c
      then Some (invalid ''Can't change floating on hidden scratchpad container'', s)
      else do {
        let c1 = top_of_floating s c;
        s1 \<leftarrow> container_set_floating sf c1 (parse_boolean a (container_is_floating s c1)) s;
        s2 \<leftarrow> (case workspace_of s1 c1 of Some w \<Rightarrow> arrange_workspace w s1 | None \<Rightarrow> Some s1);
        Some (success, s2) })"

definition cmd_floating :: handler where
  "cmd_floating sf e h argv s = with_args argv ''floating'' EXPECTED_EQUAL_TO 1 s
     (if root_outputs s = [] then Some (invalid no_outputs, s)
      else case hc_container h of
        Some c \<Rightarrow> float_it sf c (hd argv) s
      | None \<Rightarrow> do {
          w \<leftarrow> hc_workspace h;
          if ws_tiling (wss s w) = [] then Some (invalid ''Can't float an empty workspace'', s)
          else do {
            (c, s1) \<leftarrow> workspace_wrap_children sf w s;
            s2 \<leftarrow> sf (hc_seat h) (Some (N_CONTAINER c)) (upd_ws w (ws_layout_update (\<lambda>_. L_HORIZ)) s1);
            float_it sf c (hd argv) s2 } })"

definition fullscreen_mode_for :: "string list \<Rightarrow> bool \<Rightarrow> sway_fullscreen_mode" where
  "fullscreen_mode_for argv is_fullscreen =
     (let first_global = (argv \<noteq> [] \<and> strcasecmp_eq (hd argv) ''global'');
          enable = (if argv \<noteq> [] \<and> \<not> first_global then parse_boolean (hd argv) is_fullscreen else \<not> is_fullscreen);
          global = (if length argv \<ge> 2 then strcasecmp_eq (argv ! 1) ''global'' else first_global)
      in if \<not> enable then FULLSCREEN_NONE else if global then FULLSCREEN_GLOBAL else FULLSCREEN_WORKSPACE)"

definition cmd_fullscreen :: handler where
  "cmd_fullscreen sf e h argv s = with_args argv ''fullscreen'' EXPECTED_AT_MOST 2 s
     (if root_outputs s = [] then Some (failure no_outputs, s)
      else case hc_container h of
        None \<Rightarrow> Some (success, s)
      | Some c0 \<Rightarrow> do {
          let c = (if workspace_of s c0 = None then container_toplevel_ancestor s c0 else c0);
          s1 \<leftarrow> container_set_fullscreen sf c (fullscreen_mode_for argv (fullscreen_mode_of s c \<noteq> FULLSCREEN_NONE)) s;
          s2 \<leftarrow> arrange_root s1;
          Some (success, s2) })"

definition cmd_sticky :: handler where
  "cmd_sticky sf e h argv s = with_args argv ''sticky'' EXPECTED_EQUAL_TO 1 s
     (case hc_container h of
        None \<Rightarrow> Some (failure ''No current container'', s)
      | Some c \<Rightarrow>
          let s1 = upd_con c (con_is_sticky_update (\<lambda>b. parse_boolean (hd argv) b)) s in
          if \<not> (container_is_sticky_or_child s1 c \<and> \<not> container_is_scratchpad_hidden s1 c) then Some (success, s1)
          else do {
            w \<leftarrow> workspace_of s1 c;
            out \<leftarrow> ws_output (wss s1 w);
            case output_get_active_workspace s1 out of
              None \<Rightarrow> Some (failure ''Expected output to have a workspace'', s1)
            | Some active \<Rightarrow>
                if w = active then Some (success, s1)
                else do {
                  s2 \<leftarrow> container_detach c s1;
                  s3 \<leftarrow> workspace_add_floating sf active c s2;
                  s4 \<leftarrow> container_handle_fullscreen_reparent sf c s3;
                  s5 \<leftarrow> arrange_workspace active s4;
                  s6 \<leftarrow> workspace_consider_destroy sf w s5;
                  Some (success, s6) } })"

definition cmd_maximize :: handler where
  "cmd_maximize sf e h argv s = with_args argv ''maximize'' EXPECTED_AT_MOST 1 s
     (if root_outputs s = [] then Some (failure no_outputs, s)
      else case hc_container h of
        None \<Rightarrow> Some (success, s)
      | Some c0 \<Rightarrow> do {
          let c = (if workspace_of s c0 = None \<or> container_is_floating_or_child s c0
                   then container_toplevel_ancestor s c0 else c0);
          let is_maximized = container_is_maximized s c;
          let enable = (case argv of [a] \<Rightarrow> parse_boolean a is_maximized | _ \<Rightarrow> \<not> is_maximized);
          s1 \<leftarrow> container_set_maximized sf c enable s;
          s2 \<leftarrow> arrange_root s1;
          Some (success, s2) })"

section \<open>\<open>swap\<close>\<close>

text \<open>\<open>strtol (s, NULL, 0)\<close>, truncated to the 32 bits of an X11 window id.\<close>

definition strtol_any_base :: "string \<Rightarrow> int" where
  "strtol_any_base x =
     (let s1 = dropWhile isspace x;
          (neg, s2) = (case s1 of [] \<Rightarrow> (False, s1)
                       | c # cs \<Rightarrow> if c = CHR ''-'' then (True, cs)
                                   else if c = CHR ''+'' then (False, cs) else (False, s1));
          oct = (\<lambda>c. isdigit c \<and> digit_val c < 8);
          v = (case s2 of
                 z # y # d # cs \<Rightarrow>
                   if z = CHR ''0'' \<and> (y = CHR ''x'' \<or> y = CHR ''X'') \<and> isxdigit d
                   then digits_val 16 xdigit_val (takeWhile isxdigit (d # cs))
                   else if z = CHR ''0'' then digits_val 8 digit_val (takeWhile oct s2)
                   else digits_val 10 digit_val (takeWhile isdigit s2)
               | z # cs \<Rightarrow> if z = CHR ''0'' then digits_val 8 digit_val (takeWhile oct s2)
                           else digits_val 10 digit_val (takeWhile isdigit s2)
               | [] \<Rightarrow> 0);
          n = (if neg then - int v else int v)
      in max (- (2 ^ 63)) (min (2 ^ 63 - 1) n) mod 2 ^ 32)"

definition test_con_id :: "int \<Rightarrow> nat \<Rightarrow> bool" where
  "test_con_id con_id c = (int c = con_id)"

definition test_id :: "sway \<Rightarrow> int \<Rightarrow> nat \<Rightarrow> bool" where
  "test_id s wid c =
     (case con_view (cons s c) of
        None \<Rightarrow> False
      | Some v \<Rightarrow> view_type v = SWAY_VIEW_XWAYLAND \<and> int (view_x11_window_id v) = wid)"

definition test_mark :: "sway \<Rightarrow> string \<Rightarrow> nat \<Rightarrow> bool" where
  "test_mark s mark c =
     (if con_marks (cons s c) \<noteq> [] then seq_find (\<lambda>m. m = mark) (con_marks (cons s c)) 0 \<noteq> - 1 else False)"

definition swap_syntax :: string where
  "swap_syntax = ''Expected 'swap container with id|con_id|mark <arg>'' @ [CHR 0x27]"

definition arrange_parents :: "nat \<Rightarrow> nat \<Rightarrow> sway \<Rightarrow> sway option" where
  "arrange_parents current other s =
     (if fullscreen_global s \<noteq> None then arrange_root s
      else do {
        let current_parent = node_get_parent s (N_CONTAINER current);
        let other_parent = node_get_parent s (N_CONTAINER other);
        s1 \<leftarrow> (case current_parent of Some p \<Rightarrow> arrange_node p s | None \<Rightarrow> Some s);
        case other_parent of
          Some p \<Rightarrow> if current_parent \<noteq> Some p then arrange_node p s1 else Some s1
        | None \<Rightarrow> Some s1 })"

definition cmd_swap :: handler where
  "cmd_swap sf e h argv s = with_args argv ''swap'' EXPECTED_AT_LEAST 4 s
     (if root_outputs s = [] then Some (invalid no_outputs, s)
      else if \<not> strcasecmp_eq (argv ! 0) ''container'' \<or> \<not> strcasecmp_eq (argv ! 1) ''with''
      then Some (invalid swap_syntax, s)
      else do {
        value \<leftarrow> join_args (drop 3 argv);
        let kind = argv ! 2;
        if strcasecmp_eq kind ''id'' \<or> strcasecmp_eq kind ''con_id'' \<or> strcasecmp_eq kind ''mark'' then
          (let other =
             (if strcasecmp_eq kind ''id'' then root_find_container s (test_id s (strtol_any_base value))
              else if strcasecmp_eq kind ''con_id'' then root_find_container s (test_con_id (fst (strtol10_int value)))
              else root_find_container s (test_mark s value)) in
           case other of
             None \<Rightarrow> Some (failure (''Failed to find '' @ kind @ '' '' @ [CHR 0x27] @ value @ [CHR 0x27]), s)
           | Some o' \<Rightarrow>
               (case hc_container h of
                  None \<Rightarrow> Some (failure ''Can only swap with containers and views'', s)
                | Some current \<Rightarrow>
                    if current = o' then Some (failure ''Cannot swap a container with itself'', s)
                    else if container_has_ancestor s (Some current) o' \<or> container_has_ancestor s (Some o') current
                    then Some (failure ''Cannot swap ancestor and descendant'', s)
                    else do {
                      s1 \<leftarrow> container_swap sf current o' s;
                      s2 \<leftarrow> arrange_parents current o' s1;
                      Some (success, s2) }))
        else Some (invalid swap_syntax, s) })"

section \<open>\<open>scratchpad\<close>\<close>

text \<open>The container that \<open>scratchpad show\<close> brings up when the focus is not on a scratchpad window.\<close>

definition scratchpad_candidate :: "sway \<Rightarrow> nat \<Rightarrow> nat option \<Rightarrow> nat option" where
  "scratchpad_candidate s ws focus =
     (case find (\<lambda>floater. con_scratchpad (cons s floater) \<and> focus \<noteq> Some floater) (ws_floating (wss s ws)) of
        Some c \<Rightarrow> Some c
      | None \<Rightarrow>
          (case find (\<lambda>c. parent_of s c \<noteq> None) (root_scratchpad s) of
             Some c \<Rightarrow> Some c
           | None \<Rightarrow> (case root_scratchpad s of [] \<Rightarrow> None | c # _ \<Rightarrow> Some c)))"

definition scratchpad_toggle_auto :: "refocus_op \<Rightarrow> sway \<Rightarrow> sway option" where
  "scratchpad_toggle_auto sf s =
     (let seat = current_seat s in
      case seat_get_focused_workspace s seat of
        None \<Rightarrow> Some s
      | Some ws \<Rightarrow>
          let focus = map_option (top_of_floating s) (seat_get_focused_container s seat) in
          case focus of
            Some f \<Rightarrow>
              if con_scratchpad (cons s f) then root_scratchpad_hide sf f s
              else (case scratchpad_candidate s ws focus of None \<Rightarrow> Some s | Some c \<Rightarrow> root_scratchpad_show sf c s)
          | None \<Rightarrow> (case scratchpad_candidate s ws focus of None \<Rightarrow> Some s | Some c \<Rightarrow> root_scratchpad_show sf c s))"

definition scratchpad_toggle_container :: "refocus_op \<Rightarrow> nat \<Rightarrow> sway \<Rightarrow> sway option" where
  "scratchpad_toggle_container sf c s =
     (if \<not> con_scratchpad (cons s c) then Some s
      else
        let ws = seat_get_focused_workspace s (current_seat s) in
        if workspace_of s c \<noteq> None \<and> ws = workspace_of s c then root_scratchpad_hide sf c s
        else root_scratchpad_show sf c s)"

definition cmd_scratchpad :: handler where
  "cmd_scratchpad sf e h argv s = with_args argv ''scratchpad'' EXPECTED_EQUAL_TO 1 s
     (if hd argv \<noteq> ''show'' then Some (invalid (''Expected 'scratchpad show'' @ [CHR 0x27]), s)
      else if root_outputs s = [] then Some (invalid no_outputs, s)
      else if root_scratchpad s = [] then Some (invalid ''Scratchpad is empty'', s)
      else if hc_node_overridden h then
        (case map_option (top_of_floating s) (hc_container h) of
           None \<Rightarrow> Some (invalid ''Container is not in scratchpad.'', s)
         | Some c \<Rightarrow>
             if \<not> con_scratchpad (cons s c) then Some (invalid ''Container is not in scratchpad.'', s)
             else do { s1 \<leftarrow> scratchpad_toggle_container sf c s; Some (success, s1) })
      else do { s1 \<leftarrow> scratchpad_toggle_auto sf s; Some (success, s1) })"

end
