(* ===== verification/Move_Cmd.thy ===== *)
theory Move_Cmd
  imports Command_Base Seat_Focus
begin

text \<open>The command \<open>move\<close> of \<open>sway/commands/move.c\<close>.\<close>

section \<open>Directions\<close>

definition output_in_direction :: "cmd_env \<Rightarrow> handler_context \<Rightarrow> string \<Rightarrow> nat option \<Rightarrow> int \<Rightarrow> int \<Rightarrow> sway \<Rightarrow> nat option" where
  "output_in_direction e h direction_string reference ref_lx ref_ly s =
     (if strcasecmp_eq direction_string ''current'' then
        (case seat_get_focused_workspace s (hc_seat h) of
           None \<Rightarrow> None
         | Some w \<Rightarrow> ws_output (wss s w))
      else
        let target = (case (reference, parse_direction direction_string) of
            (Some r, Some d) \<Rightarrow>
              (case adjacent_output e d r ref_lx ref_ly of
                 Some t \<Rightarrow> Some t
               | None \<Rightarrow> farthest_output e (opposite_direction d) r ref_lx ref_ly)
          | _ \<Rightarrow> None)
        in case target of
             Some t \<Rightarrow> Some t
           | None \<Rightarrow> output_by_name_or_id s direction_string)"

definition is_parallel_dir :: "sway_container_layout \<Rightarrow> wlr_direction \<Rightarrow> bool" where
  "is_parallel_dir layout dir =
     (case layout of
        L_NONE \<Rightarrow> False
      | L_STACKED \<Rightarrow> dir = WLR_DIRECTION_UP \<or> dir = WLR_DIRECTION_DOWN
      | L_VERT \<Rightarrow> dir = WLR_DIRECTION_UP \<or> dir = WLR_DIRECTION_DOWN
      | _ \<Rightarrow> dir = WLR_DIRECTION_LEFT \<or> dir = WLR_DIRECTION_RIGHT)"

abbreviation backward :: "wlr_direction \<Rightarrow> bool" where
  "backward dir \<equiv> dir = WLR_DIRECTION_LEFT \<or> dir = WLR_DIRECTION_UP"

abbreviation sideways :: "wlr_direction \<Rightarrow> bool" where
  "sideways dir \<equiv> dir = WLR_DIRECTION_LEFT \<or> dir = WLR_DIRECTION_RIGHT"

section \<open>Moving a container\<close>

definition focus_inside_fullscreen :: "nat \<Rightarrow> nat \<Rightarrow> nat \<Rightarrow> sway \<Rightarrow> sway" where
  "focus_inside_fullscreen w fs i s =
     (if seat_get_focused_workspace s i = Some w
      then seat_set_raw_focus i (seat_get_focus_inactive s i (N_CONTAINER fs)) s else s)"

definition workspace_focus_fullscreen :: "nat \<Rightarrow> sway \<Rightarrow> sway" where
  "workspace_focus_fullscreen w s =
     (case ws_fullscreen (wss s w) of
        None \<Rightarrow> s
      | Some fs \<Rightarrow> fold (focus_inside_fullscreen w fs) (seat_ids s) s)"

text \<open>A container that changes its place starts without a size.\<close>

definition forget_size :: "nat \<Rightarrow> sway \<Rightarrow> sway" where
  "forget_size c s = set_fractions c 0 0 (upd_pending c (\<lambda>p. p\<lparr>st_width := 0, st_height := 0\<rparr>) s)"

definition squash_all :: "refocus_op \<Rightarrow> nat option \<Rightarrow> sway \<Rightarrow> sway option" where
  "squash_all sf ws s = (case ws of None \<Rightarrow> None | Some w \<Rightarrow> workspace_squash (2 * next_id s + 2) sf w s)"

definition swap_siblings :: "nat \<Rightarrow> nat \<Rightarrow> sway \<Rightarrow> sway option" where
  "swap_siblings a b s = do {
     l \<leftarrow> siblings_ref s a;
     let i = seq_find (\<lambda>x. x = a) (list_at s l) 0;
     let j = seq_find (\<lambda>x. x = b) (list_at s l) 0;
     if i < 0 \<or> j < 0 then None
     else Some (upd_list l (\<lambda>xs. xs[nat i := b, nat j := a]) s) }"

primrec container_move_to_container_from_direction ::
  "nat \<Rightarrow> refocus_op \<Rightarrow> nat \<Rightarrow> nat \<Rightarrow> nat \<Rightarrow> wlr_direction \<Rightarrow> sway \<Rightarrow> sway option" where
  "container_move_to_container_from_direction 0 sf seat container destination move_dir s = None"
| "container_move_to_container_from_direction (Suc n) sf seat container destination move_dir s =
     (if con_view (cons s destination) \<noteq> None then
        (if parent_of s destination = parent_of s container \<and> workspace_of s destination = workspace_of s container
         then map_option (container_update_representation container) (swap_siblings container destination s)
         else do {
           i \<leftarrow> container_sibling_index s destination;
           let index = i + (if backward move_dir then 1 else 0);
           s1 \<leftarrow> (case parent_of s destination of
               Some p \<Rightarrow> container_insert_child sf p container index s
             | None \<Rightarrow> do {
                 w \<leftarrow> workspace_of s destination;
                 map_option snd (workspace_insert_tiling sf w container index s) });
           let s2 = forget_size container s1;
           squash_all sf (workspace_of s2 destination) s2 })
      else if is_parallel_dir (st_layout (pending s destination)) move_dir then do {
        l \<leftarrow> children_of s destination;
        s1 \<leftarrow> container_insert_child sf destination container (if backward move_dir then int (length l) else 0) s;
        let s2 = forget_size container s1;
        squash_all sf (workspace_of s2 destination) s2 }
      else
        case seat_get_active_tiling_child s seat (N_CONTAINER destination) of
          None \<Rightarrow> container_add_child sf destination container s
        | Some f \<Rightarrow>
            if f = N_CONTAINER destination then container_add_child sf destination container s
            else (case f of
                N_CONTAINER d \<Rightarrow> container_move_to_container_from_direction n sf seat container d move_dir s
              | _ \<Rightarrow> None))"

definition container_move_to_workspace_from_direction ::
  "refocus_op \<Rightarrow> nat \<Rightarrow> nat \<Rightarrow> nat \<Rightarrow> wlr_direction \<Rightarrow> sway \<Rightarrow> sway option" where
  "container_move_to_workspace_from_direction sf seat container w move_dir s0 =
     (let s = forget_size container s0 in
      if is_parallel_dir (ws_layout (wss s w)) move_dir then
        map_option snd (workspace_insert_tiling sf w container
          (if backward move_dir then int (length (ws_tiling (wss s w))) else 0) s)
      else case seat_get_focus_inactive_tiling s seat w of
          None \<Rightarrow> map_option snd (workspace_add_tiling sf w container s)
        | Some f \<Rightarrow> container_move_to_container_from_direction (Suc (next_id s)) sf seat container
                      (container_toplevel_ancestor s f) move_dir s)"

definition container_move_to_workspace :: "refocus_op \<Rightarrow> nat \<Rightarrow> nat \<Rightarrow> sway \<Rightarrow> sway option" where
  "container_move_to_workspace sf container w s =
     (if workspace_of s container = Some w then Some s
      else do {
        s3 \<leftarrow> (if container_is_floating s container then do {
            old \<leftarrow> workspace_of s container;
            let old_output = ws_output (wss s old);
            s1 \<leftarrow> container_detach container s;
            s2 \<leftarrow> workspace_add_floating sf w container s1;
            s3 \<leftarrow> container_handle_fullscreen_reparent sf container s2;
            if old_output \<noteq> ws_output (wss s3 w) \<and> fullscreen_mode_of s3 container = FULLSCREEN_NONE then do {
              s4 \<leftarrow> floating_fix_coordinates container (workspace_get_box s3 old) (workspace_get_box s3 w) s3;
              Some (if con_scratchpad (cons s4 container) \<and> ws_output (wss s4 w) \<noteq> None
                    then upd_con container (con_transform_update (\<lambda>_. workspace_get_box s3 w)) s4 else s4) }
            else Some s3 }
          else do {
            s1 \<leftarrow> container_detach container s;
            s2 \<leftarrow> (if workspace_is_empty s1 w \<and> children_of s1 container \<noteq> None then do {
                s2 \<leftarrow> workspace_unwrap_children sf w container s1;
                container_reap_empty sf container s2 }
              else map_option snd (workspace_add_tiling sf w container (forget_size container s1)));
            Some (container_update_representation container s2) });
        old \<leftarrow> workspace_of s container;
        Some (workspace_focus_fullscreen w (workspace_detect_urgent w (workspace_detect_urgent old s3))) })"

definition container_move_to_container :: "refocus_op \<Rightarrow> nat \<Rightarrow> nat \<Rightarrow> sway \<Rightarrow> sway option" where
  "container_move_to_container sf container destination s =
     (if container = destination \<or> container_has_ancestor s (Some destination) container then Some s
      else if container_is_floating s container then do {
        w \<leftarrow> workspace_of s destination;
        container_move_to_workspace sf container w s }
      else do {
        let old = workspace_of s container;
        s1 \<leftarrow> container_detach container s;
        let s2 = forget_size container s1;
        s3 \<leftarrow> (if con_view (cons s2 destination) \<noteq> None then container_add_sibling sf destination container True s2
               else container_add_child sf destination container s2);
        let s4 = (case workspace_of s3 destination of
            Some w \<Rightarrow> workspace_detect_urgent w (workspace_focus_fullscreen w s3) | None \<Rightarrow> s3);
        Some (case old of
            Some o' \<Rightarrow> if old \<noteq> workspace_of s4 destination then workspace_detect_urgent o' s4 else s4
          | None \<Rightarrow> s4) })"

text \<open>The flag is whether the container moved.\<close>

definition container_move_to_next_output ::
  "refocus_op \<Rightarrow> cmd_env \<Rightarrow> nat \<Rightarrow> nat \<Rightarrow> nat option \<Rightarrow> wlr_direction \<Rightarrow> sway \<Rightarrow> (bool \<times> sway) option" where
  "container_move_to_next_output sf e seat container output move_dir s = do {
     out \<leftarrow> output;
     case output_get_in_direction (adjacent_output e) s out move_dir of
       None \<Rightarrow> Some (False, s)
     | Some next_output \<Rightarrow>
         (case output_get_active_workspace s next_output of
            None \<Rightarrow> Some (False, s)
          | Some w \<Rightarrow>
              (case fullscreen_mode_of s container of
                 FULLSCREEN_NONE \<Rightarrow>
                   map_option (Pair True) (container_move_to_workspace_from_direction sf seat container w move_dir s)
               | FULLSCREEN_WORKSPACE \<Rightarrow> map_option (Pair True) (container_move_to_workspace sf container w s)
               | FULLSCREEN_GLOBAL \<Rightarrow> Some (False, s))) }"

text \<open>
  The loop that looks for an ancestor to move within: the move is settled, or the loop ends at
  an ancestor, with the sibling to move in with and the position of the ancestor. The fuel
  covers the way up to the workspace and once more after the workspace was reoriented.
\<close>

datatype move_walk = SETTLED bool | WITHIN nat "nat option" int bool

primrec move_loop ::
  "nat \<Rightarrow> refocus_op \<Rightarrow> cmd_env \<Rightarrow> nat \<Rightarrow> nat \<Rightarrow> wlr_direction \<Rightarrow> nat \<Rightarrow> bool \<Rightarrow> sway \<Rightarrow> (move_walk \<times> sway) option" where
  "move_loop 0 sf e seat container move_dir current wrapped s = None"
| "move_loop (Suc n) sf e seat container move_dir current wrapped s =
     (if fullscreen_mode_of s current \<noteq> FULLSCREEN_NONE \<or> container_is_floating s current then Some (SETTLED False, s)
      else if \<not> is_parallel_dir (container_parent_layout s current) move_dir then
        (case parent_of s current of
           Some p \<Rightarrow> move_loop n sf e seat container move_dir p wrapped s
         | None \<Rightarrow> do {
             w \<leftarrow> workspace_of s current;
             (c, s1) \<leftarrow> workspace_wrap_children sf w s;
             w1 \<leftarrow> workspace_of s1 c;
             let s2 = upd_ws w1 (ws_layout_update (\<lambda>_. if sideways move_dir then L_HORIZ else L_VERT)) s1;
             let s3 = workspace_update_representation w1 (forget_size container s2);
             move_loop n sf e seat container move_dir c True s3 })
      else do {
        siblings \<leftarrow> container_get_siblings s current;
        let index = seq_find (\<lambda>x. x = current) siblings 0;
        let desired = index + (if backward move_dir then - 1 else 1);
        if desired < - 1 \<or> desired > int (length siblings) then None
        else
          let target = (if desired = - 1 \<or> desired = int (length siblings) then None else Some (siblings ! nat desired)) in
          if current \<noteq> container then Some (WITHIN current target index wrapped, s)
          else case target of
              Some t \<Rightarrow> map_option (Pair (SETTLED True))
                (container_move_to_container_from_direction (Suc (next_id s)) sf seat container t move_dir s)
            | None \<Rightarrow>
                (case parent_of s container of
                   None \<Rightarrow> do {
                     w \<leftarrow> workspace_of s current;
                     (moved, s1) \<leftarrow> container_move_to_next_output sf e seat container (ws_output (wss s w)) move_dir s;
                     Some (SETTLED moved, s1) }
                 | Some p \<Rightarrow> move_loop n sf e seat container move_dir p wrapped s) })"

definition promote :: "refocus_op \<Rightarrow> nat \<Rightarrow> nat \<Rightarrow> int \<Rightarrow> sway \<Rightarrow> sway option" where
  "promote sf container ancestor index s = do {
     let old_parent = parent_of s container;
     s1 \<leftarrow> (case parent_of s ancestor of
         Some p \<Rightarrow> container_insert_child sf p container index s
       | None \<Rightarrow> do {
           w \<leftarrow> workspace_of s ancestor;
           map_option snd (workspace_insert_tiling sf w container index s) });
     let s2 = forget_size ancestor s1;
     s3 \<leftarrow> (case old_parent of Some p \<Rightarrow> container_reap_empty sf p s2 | None \<Rightarrow> Some s2);
     squash_all sf (workspace_of s3 container) s3 }"

definition container_move_in_direction ::
  "refocus_op \<Rightarrow> cmd_env \<Rightarrow> nat \<Rightarrow> nat \<Rightarrow> wlr_direction \<Rightarrow> sway \<Rightarrow> (bool \<times> sway) option" where
  "container_move_in_direction sf e seat container move_dir s =
     (case fullscreen_mode_of s container of
        FULLSCREEN_WORKSPACE \<Rightarrow> do {
          w \<leftarrow> workspace_of s container;
          container_move_to_next_output sf e seat container (ws_output (wss s w)) move_dir s }
      | FULLSCREEN_GLOBAL \<Rightarrow> Some (False, s)
      | FULLSCREEN_NONE \<Rightarrow> do {
          (r, s1) \<leftarrow> move_loop (2 * next_id s + 4) sf e seat container move_dir container False s;
          case r of
            SETTLED moved \<Rightarrow> Some (moved, s1)
          | WITHIN ancestor (Some t) index wrapped \<Rightarrow>
              map_option (Pair True)
                (container_move_to_container_from_direction (Suc (next_id s1)) sf seat container t move_dir s1)
          | WITHIN ancestor None index wrapped \<Rightarrow>
              (case (if wrapped then Some False
                     else map_option (\<lambda>p. parent_of s1 p = None \<and> length (kids s1 p) = 1) (parent_of s1 container)) of
                 None \<Rightarrow> None
               | Some True \<Rightarrow> do {
                   w \<leftarrow> workspace_of s1 ancestor;
                   container_move_to_next_output sf e seat container (ws_output (wss s1 w)) move_dir s1 }
               | Some False \<Rightarrow>
                   map_option (Pair True)
                     (promote sf container ancestor (index + (if backward move_dir then 0 else 1)) s1)) })"

section \<open>\<open>move\<close> to the scratchpad\<close>

definition cmd_move_to_scratchpad :: "refocus_op \<Rightarrow> handler_context \<Rightarrow> sway \<Rightarrow> cmd_outcome" where
  "cmd_move_to_scratchpad sf h s = do {
     node \<leftarrow> hc_node h;
     let on_ws = (case node of N_WORKSPACE _ \<Rightarrow> True | _ \<Rightarrow> False);
     if on_ws \<and> (case hc_workspace h of Some w \<Rightarrow> ws_tiling (wss s w) = [] | None \<Rightarrow> False)
     then Some (invalid (''Can'' @ [CHR 0x27] @ ''t move an empty workspace to the scratchpad''), s)
     else do {
       (con, s1) \<leftarrow> (if on_ws then do {
           w \<leftarrow> hc_workspace h;
           (c, s1) \<leftarrow> workspace_wrap_children sf w s;
           Some (c, upd_ws w (ws_layout_update (\<lambda>_. L_HORIZ)) s1) }
         else map_option (\<lambda>c. (c, s)) (hc_container h));
       let c = top_of_floating s1 con;
       s2 \<leftarrow> (if \<not> con_scratchpad (cons s1 c) then root_scratchpad_add_container sf c None s1
              else if workspace_of s1 c \<noteq> None then root_scratchpad_hide sf c s1
              else Some s1);
       Some (success, s2) } }"

section \<open>\<open>move container\<close>\<close>

definition move_syntax :: string where
  "move_syntax = ''Expected 'move <left|right|up|down> <[px] px>' or 'move [--no-auto-back-and-forth] <container|window> [to] workspace <name>' or 'move <container|window|workspace> [to] output <name|direction>' or 'move <container|window> [to] mark <mark>'' @ [CHR 0x27]"

text \<open>A step that either answers the command or gives a value.\<close>

type_synonym 'a answer = "(cmd_results + 'a) option"

definition relative_names :: "string list" where
  "relative_names = [''next'', ''prev'', ''next_on_output'', ''prev_on_output'', ''current'']"

text \<open>The workspace of \<open>move to workspace\<close> if it exists, and the name to create it with.\<close>

definition named_workspace :: "sway_seat \<Rightarrow> nat option \<Rightarrow> bool \<Rightarrow> string list \<Rightarrow> sway \<Rightarrow> (nat option \<times> string option) answer" where
  "named_workspace seat old_ws no_auto argv s =
     (let a = argv ! 1 in
      if \<exists>n \<in> set relative_names. strcasecmp_eq a n then
        map_option (\<lambda>ws. Inr (ws, None)) (workspace_by_name s a)
      else if strcasecmp_eq a ''back_and_forth'' then do {
        ws \<leftarrow> workspace_by_name s a;
        Some (case ws of
            Some w \<Rightarrow> Inr (ws, None)
          | None \<Rightarrow> (case seat_prev_workspace_name seat of
                Some name \<Rightarrow> Inr (None, Some name)
              | None \<Rightarrow> Inl (failure ''No workspace was previously active.''))) }
      else do {
        let number = strcasecmp_eq a ''number'';
        if number \<and> length argv < 3 then Some (Inl (invalid move_syntax))
        else if number \<and> (case argv ! 2 of [] \<Rightarrow> True | c # _ \<Rightarrow> \<not> isdigit c)
        then Some (Inl (invalid (''Invalid workspace number '' @ [CHR 0x27] @ argv ! 2 @ [CHR 0x27])))
        else do {
          name \<leftarrow> join_args (drop (if number then 2 else 1) argv);
          ws \<leftarrow> (if number then Some (workspace_by_number s name) else workspace_by_name s name);
          case (old_ws, seat_prev_workspace_name seat) of
            (Some w, Some prev) \<Rightarrow>
              if \<not> no_auto \<and> cfg_auto_back_and_forth (cfg s) \<and> ws_name (wss s w) = name
              then map_option (\<lambda>ws. Inr (ws, Some prev)) (workspace_by_name s prev)
              else Some (Inr (ws, Some name))
          | _ \<Rightarrow> Some (Inr (ws, Some name)) } })"

definition destination_workspace ::
  "handler_context \<Rightarrow> nat \<Rightarrow> nat option \<Rightarrow> bool \<Rightarrow> string list \<Rightarrow> sway \<Rightarrow> ((cmd_results + sway_node) \<times> sway) option" where
  "destination_workspace h container old_ws no_auto argv s = do {
     r \<leftarrow> named_workspace (seats s (hc_seat h)) old_ws no_auto argv s;
     case r of
       Inl err \<Rightarrow> Some (Inl err, s)
     | Inr (ws, new_name) \<Rightarrow>
         let arrive = (\<lambda>w s. Inr (case seat_get_focus_inactive_tiling s (hc_seat h) w of
                 Some c \<Rightarrow> N_CONTAINER c | None \<Rightarrow> N_WORKSPACE w)) in
         (case ws of
            Some w \<Rightarrow> Some (arrive w s, s)
          | None \<Rightarrow> do {
              name \<leftarrow> new_name;
              let old_output = (case old_ws of Some w \<Rightarrow> ws_output (wss s w) | None \<Rightarrow> None);
              if container_is_sticky_or_child s container \<and> old_output = workspace_get_initial_output s name
              then Some (Inl (failure (''Can'' @ [CHR 0x27] @ ''t move sticky container to another workspace on the same output'')), s)
              else do {
                (w, s1) \<leftarrow> workspace_create None name s;
                s2 \<leftarrow> arrange_workspace w s1;
                Some (arrive w s2, s2) } }) }"

definition move_destination ::
  "cmd_env \<Rightarrow> handler_context \<Rightarrow> nat \<Rightarrow> nat option \<Rightarrow> bool \<Rightarrow> string list \<Rightarrow> sway \<Rightarrow> ((cmd_results + sway_node) \<times> sway) option" where
  "move_destination e h container old_ws no_auto argv s =
     (let kind = argv ! 0; a = argv ! 1;
          old_output = (case old_ws of Some w \<Rightarrow> ws_output (wss s w) | None \<Rightarrow> None) in
      if strcasecmp_eq kind ''workspace'' then destination_workspace h container old_ws no_auto argv s
      else if strcasecmp_eq kind ''output'' then
        (case output_in_direction e h a old_output (c_trunc (st_x (pending s container))) (c_trunc (st_y (pending s container))) s of
           None \<Rightarrow> Some (Inl (failure (''Can'' @ [CHR 0x27] @ ''t find output with name/direction '' @ [CHR 0x27] @ a @ [CHR 0x27])), s)
         | Some out \<Rightarrow> map_option (\<lambda>n. (Inr n, s)) (seat_get_focus_inactive s (hc_seat h) (N_OUTPUT out)))
      else if strcasecmp_eq kind ''mark'' then
        (case container_find_mark s a of
           None \<Rightarrow> Some (Inl (failure (''Mark '' @ [CHR 0x27] @ a @ [CHR 0x27] @ '' not found'')), s)
         | Some c \<Rightarrow> Some (Inr (N_CONTAINER c), s))
      else Some (Inl (invalid move_syntax), s))"

definition no_workspace_on_output :: string where
  "no_workspace_on_output = ''Expected output to have a workspace''"

text \<open>The move itself; \<open>Inl\<close> is the failed assertion.\<close>

definition move_to_destination :: "refocus_op \<Rightarrow> nat \<Rightarrow> sway_node \<Rightarrow> sway \<Rightarrow> ((cmd_results + unit) \<times> sway) option" where
  "move_to_destination sf container destination s = do {
     s1 \<leftarrow> (if container_is_scratchpad_hidden_or_child s container then do {
         s1 \<leftarrow> container_detach container s;
         root_scratchpad_show sf container s1 }
       else Some s);
     case destination of
       N_WORKSPACE w \<Rightarrow> map_option (Pair (Inr ())) (container_move_to_workspace sf container w s1)
     | N_OUTPUT out \<Rightarrow>
         (case output_get_active_workspace s1 out of
            None \<Rightarrow> Some (Inl (failure no_workspace_on_output), s1)
          | Some w \<Rightarrow> map_option (Pair (Inr ())) (container_move_to_workspace sf container w s1))
     | N_CONTAINER c \<Rightarrow> map_option (Pair (Inr ())) (container_move_to_container sf container c s1)
     | N_ROOT \<Rightarrow> Some (Inr (), s1) }"

definition restore_focus :: "refocus_op \<Rightarrow> nat \<Rightarrow> sway_node option \<Rightarrow> nat \<Rightarrow> nat option \<Rightarrow> nat option \<Rightarrow> sway \<Rightarrow> sway option" where
  "restore_focus sf seat focus container old_parent old_ws s =
     (let beside = (case old_parent of
          Some p \<Rightarrow> seat_get_focus_inactive s seat (N_CONTAINER p) | None \<Rightarrow> None);
          inside = (case old_ws of Some w \<Rightarrow> seat_get_focus_inactive s seat (N_WORKSPACE w) | None \<Rightarrow> None)
      in sf seat (if focus = Some (N_CONTAINER container)
                  then (if beside \<noteq> None then beside else inside) else focus) s)"

definition move_cleanup :: "refocus_op \<Rightarrow> nat option \<Rightarrow> nat option \<Rightarrow> sway \<Rightarrow> sway option" where
  "move_cleanup sf old_parent old_ws s =
     (case old_parent of
        Some p \<Rightarrow> container_reap_empty sf p s
      | None \<Rightarrow> (case old_ws of Some w \<Rightarrow> workspace_consider_destroy sf w s | None \<Rightarrow> Some s))"

definition move_arrange :: "nat option \<Rightarrow> sway_node \<Rightarrow> sway \<Rightarrow> sway option" where
  "move_arrange old_ws destination s =
     (if fullscreen_global s \<noteq> None then arrange_root s
      else do {
        s1 \<leftarrow> (case old_ws of
            Some w \<Rightarrow> if \<not> node_destroying s (N_WORKSPACE w) then arrange_workspace w s else Some s
          | None \<Rightarrow> Some s);
        parent \<leftarrow> node_get_parent s1 destination;
        arrange_node parent s1 })"

definition move_and_restore ::
  "refocus_op \<Rightarrow> handler_context \<Rightarrow> nat \<Rightarrow> nat option \<Rightarrow> nat option \<Rightarrow> sway_node \<Rightarrow> sway \<Rightarrow> cmd_outcome" where
  "move_and_restore sf h container old_parent old_ws destination s =
     (let seat = hc_seat h;
          old_output = (case old_ws of Some w \<Rightarrow> ws_output (wss s w) | None \<Rightarrow> None);
          new_output = node_get_output s destination;
          new_output_last_ws = (case new_output of
              Some out \<Rightarrow> if old_output \<noteq> new_output then output_get_active_workspace s out else None | None \<Rightarrow> None);
          focus = seat_get_focus s seat in do {
        (r, s1) \<leftarrow> move_to_destination sf container destination s;
        case r of
          Inl err \<Rightarrow> Some (err, s1)
        | Inr _ \<Rightarrow>
            let new_workspace = (case new_output of Some out \<Rightarrow> output_get_active_workspace s1 out | None \<Rightarrow> None) in
            if new_output \<noteq> None \<and> new_workspace = None then Some (failure no_workspace_on_output, s1)
            else
              let s2 = (case new_output_last_ws of
                  Some w \<Rightarrow> if new_output_last_ws \<noteq> new_workspace
                            then seat_set_raw_focus seat (seat_get_focus_inactive s1 seat (N_WORKSPACE w)) s1 else s1
                | None \<Rightarrow> s1)
              in do {
                s3 \<leftarrow> restore_focus sf seat focus container old_parent old_ws s2;
                s4 \<leftarrow> move_cleanup sf old_parent old_ws s3;
                s5 \<leftarrow> move_arrange old_ws destination s4;
                Some (success, s5) } })"

definition cmd_move_container :: "refocus_op \<Rightarrow> cmd_env \<Rightarrow> handler_context \<Rightarrow> bool \<Rightarrow> string list \<Rightarrow> sway \<Rightarrow> cmd_outcome" where
  "cmd_move_container sf e h no_auto argv s = with_args argv ''move container/window'' EXPECTED_AT_LEAST 2 s
     (do {
        node \<leftarrow> hc_node h;
        let on_ws = (case node of N_WORKSPACE _ \<Rightarrow> True | _ \<Rightarrow> False);
        if on_ws \<and> (case hc_workspace h of Some w \<Rightarrow> ws_tiling (wss s w) = [] | None \<Rightarrow> False)
        then Some (failure (''Can'' @ [CHR 0x27] @ ''t move an empty workspace''), s)
        else do {
          (container, s1) \<leftarrow> (if on_ws then do { w \<leftarrow> hc_workspace h; workspace_wrap_children sf w s }
                              else map_option (\<lambda>c. (c, s)) (hc_container h));
          if fullscreen_mode_of s1 container = FULLSCREEN_GLOBAL
          then Some (failure (''Can'' @ [CHR 0x27] @ ''t move fullscreen global container''), s1)
          else do {
            let old_parent = parent_of s1 container;
            let old_ws = workspace_of s1 container;
            let old_output = (case old_ws of Some w \<Rightarrow> ws_output (wss s1 w) | None \<Rightarrow> None);
            (r, s2) \<leftarrow> move_destination e h container old_ws no_auto argv s1;
            case r of
              Inl err \<Rightarrow> Some (err, s2)
            | Inr destination \<Rightarrow>
                if (case destination of N_CONTAINER d \<Rightarrow> container_is_scratchpad_hidden s2 d | _ \<Rightarrow> False)
                then cmd_move_to_scratchpad sf h s2
                else if container_is_sticky_or_child s2 container \<and>
                  (case old_output of Some out \<Rightarrow> node_has_ancestor s2 destination (N_OUTPUT out) | None \<Rightarrow> False)
                then Some (failure (''Can'' @ [CHR 0x27] @ ''t move sticky container to another workspace on the same output''), s2)
                else move_and_restore sf h container old_parent old_ws destination s2 } } })"

section \<open>\<open>move workspace\<close>\<close>

definition workspace_move_to_output :: "refocus_op \<Rightarrow> nat \<Rightarrow> nat \<Rightarrow> nat \<Rightarrow> sway \<Rightarrow> sway option" where
  "workspace_move_to_output sf seat w output s =
     (if ws_output (wss s w) = Some output then Some s
      else do {
        old_output \<leftarrow> ws_output (wss s w);
        s1 \<leftarrow> workspace_detach w s;
        case output_get_active_workspace s1 output of
          None \<Rightarrow> Some s1
        | Some new_output_old_ws \<Rightarrow> do {
            s2 \<leftarrow> output_add_workspace output w s1;
            s3 \<leftarrow> (if out_workspaces (outs s2 old_output) = [] then do {
                next_name \<leftarrow> workspace_next_name s2 (out_name (outs s2 old_output));
                name \<leftarrow> next_name;
                (ws, s3) \<leftarrow> workspace_create (Some old_output) name s2;
                Some (seat_set_raw_focus seat (Some (N_WORKSPACE ws)) s3) }
              else Some s2);
            s4 \<leftarrow> workspace_consider_destroy sf new_output_old_ws s3;
            let s5 = output_sort_workspaces output s4;
            s6 \<leftarrow> sf seat (seat_get_focus_inactive s5 seat (N_WORKSPACE w)) s5;
            Some (workspace_output_raise_priority w old_output output s6) } })"

definition cmd_move_workspace :: "refocus_op \<Rightarrow> cmd_env \<Rightarrow> handler_context \<Rightarrow> string list \<Rightarrow> sway \<Rightarrow> cmd_outcome" where
  "cmd_move_workspace sf e h argv s = with_args argv ''move workspace'' EXPECTED_AT_LEAST 1 s
     (let argv1 = (if strcasecmp_eq (hd argv) ''output'' then tl argv else argv) in
      case argv1 of
        [] \<Rightarrow> Some (invalid (''Expected 'move workspace to [output] <output>'' @ [CHR 0x27]), s)
      | a # _ \<Rightarrow>
          (case hc_workspace h of
             None \<Rightarrow> Some (failure ''No workspace to move'', s)
           | Some w \<Rightarrow>
               let x = wss s w;
                   center_x = c_trunc (of_int (c_trunc (of_int (ws_width x) / 2)) + ws_x x);
                   center_y = c_trunc (of_int (c_trunc (of_int (ws_height x) / 2)) + ws_y x) in
               (case output_in_direction e h a (ws_output x) center_x center_y s of
                  None \<Rightarrow> Some (failure (''Can'' @ [CHR 0x27] @ ''t find output with name/direction '' @ [CHR 0x27] @ a @ [CHR 0x27]), s)
                | Some new_output \<Rightarrow> do {
                    s1 \<leftarrow> workspace_move_to_output sf (hc_seat h) w new_output s;
                    old_output \<leftarrow> ws_output x;
                    s2 \<leftarrow> arrange_output old_output s1;
                    s3 \<leftarrow> arrange_output new_output s2;
                    Some (success, s3) })))"

section \<open>Moving floating windows\<close>

definition container_floating_move_to :: "refocus_op \<Rightarrow> nat \<Rightarrow> rat \<Rightarrow> rat \<Rightarrow> sway \<Rightarrow> sway option" where
  "container_floating_move_to sf c lx ly s =
     (if \<not> container_is_floating s c then Some s
      else
        let s1 = container_floating_translate c (lx - st_x (pending s c)) (ly - st_y (pending s c)) s in
        if container_is_scratchpad_hidden s1 c then Some s1
        else case container_floating_find_output s1 c of
            None \<Rightarrow> Some s1
          | Some new_output \<Rightarrow>
              (case output_get_active_workspace s1 new_output of
                 None \<Rightarrow> Some s1
               | Some new_ws \<Rightarrow>
                   if workspace_of s1 c = Some new_ws then Some s1
                   else do {
                     old_ws \<leftarrow> workspace_of s1 c;
                     s2 \<leftarrow> container_detach c s1;
                     s3 \<leftarrow> workspace_add_floating sf new_ws c s2;
                     s4 \<leftarrow> arrange_workspace old_ws s3;
                     s5 \<leftarrow> arrange_workspace new_ws s4;
                     let s6 = (if con_scratchpad (cons s5 c)
                               then upd_con c (con_transform_update (\<lambda>_. output_get_box s5 new_output)) s5 else s5);
                     Some (workspace_detect_urgent new_ws (workspace_detect_urgent old_ws s6)) }))"

definition cmd_move_in_direction :: "refocus_op \<Rightarrow> cmd_env \<Rightarrow> handler_context \<Rightarrow> wlr_direction \<Rightarrow> string list \<Rightarrow> sway \<Rightarrow> cmd_outcome" where
  "cmd_move_in_direction sf e h direction argv s =
     (let parsed = (case argv of
          [] \<Rightarrow> Some 10
        | a # _ \<Rightarrow> (case strtol10_int a of (n, rest) \<Rightarrow>
            if rest \<noteq> [] \<and> \<not> strcasecmp_eq rest ''px'' then None else Some n)) in
      case parsed of
        None \<Rightarrow> Some (failure ''Invalid distance specified'', s)
      | Some move_amt \<Rightarrow>
          (case hc_container h of
             None \<Rightarrow> Some (failure ''Cannot move workspaces in a direction'', s)
           | Some c \<Rightarrow>
               if container_is_floating s c then
                 (if fullscreen_mode_of s c \<noteq> FULLSCREEN_NONE
                  then Some (failure ''Cannot move fullscreen floating container'', s)
                  else
                    let d = (if backward direction then - of_int move_amt else of_int move_amt);
                        (dx, dy) = (if sideways direction then (d, 0) else (0, d)) in do {
                    s1 \<leftarrow> container_floating_move_to sf c (st_x (pending s c) + dx) (st_y (pending s c) + dy) s;
                    Some (success, s1) })
               else do {
                 let old_ws = workspace_of s c;
                 let old_parent = parent_of s c;
                 (moved, s1) \<leftarrow> container_move_in_direction sf e (hc_seat h) c direction s;
                 if \<not> moved then Some (success, s1)
                 else do {
                   s2 \<leftarrow> move_cleanup sf old_parent old_ws s1;
                   let new_ws = workspace_of s2 c;
                   s4 \<leftarrow> (if fullscreen_global s2 \<noteq> None then arrange_root s2
                     else do {
                       ow \<leftarrow> old_ws;
                       s3 \<leftarrow> arrange_workspace ow s2;
                       if new_ws \<noteq> old_ws then (case new_ws of Some w \<Rightarrow> arrange_workspace w s3 | None \<Rightarrow> None)
                       else Some s3 });
                   Some (success, s4) } }))"

definition cmd_move_to_position_pointer :: "refocus_op \<Rightarrow> cmd_env \<Rightarrow> handler_context \<Rightarrow> nat \<Rightarrow> sway \<Rightarrow> cmd_outcome" where
  "cmd_move_to_position_pointer sf e h c s =
     (case cursor_at e (hc_seat h) of
        None \<Rightarrow> Some (failure ''No cursor device'', s)
      | Some (x, y) \<Rightarrow>
          let p = pending s c;
              lx0 = x - st_width p / 2; ly0 = y - st_height p / 2;
              (lx, ly) = (case output_at e x y of
                  None \<Rightarrow> (lx0, ly0)
                | Some out \<Rightarrow>
                    let box = output_layout_box (env s) (Some out);
                        lx1 = max lx0 (of_int (box_x box)); ly1 = max ly0 (of_int (box_y box));
                        right = of_int (box_x box + box_width box); bottom = of_int (box_y box + box_height box)
                    in (if lx1 + st_width p > right then right - st_width p else lx1,
                        if ly1 + st_height p > bottom then bottom - st_height p else ly1)) in do {
            s1 \<leftarrow> container_floating_move_to sf c lx ly s;
            Some (success, s1) })"

definition position_syntax :: string where
  "position_syntax = ''Expected 'move [absolute] position <x> [px] <y> [px]' or 'move [absolute] position center' or 'move position cursor|mouse|pointer'' @ [CHR 0x27]"

text \<open>The coordinate in pixels: percentages are of the workspace, relative ones start at it.\<close>

definition position_in_px :: "nat \<Rightarrow> bool \<Rightarrow> (sway_workspace \<Rightarrow> int) \<Rightarrow> nat option \<Rightarrow> movement_amount \<Rightarrow> sway \<Rightarrow> int answer" where
  "position_in_px c absolute extent ws m s =
     (if amount_unit m = MOVEMENT_UNIT_PPT then
        (if container_is_scratchpad_hidden s c
         then Some (Inl (failure ''Cannot move a hidden scratchpad container by ppt''))
         else if absolute then Some (Inl (failure ''Cannot move to absolute positions by ppt''))
         else do {
           w \<leftarrow> ws;
           p \<leftarrow> c_int (extent (wss s w) * amount m);
           Some (Inr (c_trunc (of_int p / 100))) })
      else Some (Inr (amount m)))"

definition from_workspace :: "bool \<Rightarrow> rat option \<Rightarrow> int \<Rightarrow> int option" where
  "from_workspace absolute origin n = (if absolute then Some n else do { x \<leftarrow> origin; c_int (c_trunc (of_int n + x)) })"

definition move_to_coordinates :: "refocus_op \<Rightarrow> handler_context \<Rightarrow> nat \<Rightarrow> bool \<Rightarrow> movement_amount \<Rightarrow> movement_amount \<Rightarrow> sway \<Rightarrow> cmd_outcome" where
  "move_to_coordinates sf h c absolute lx ly s =
     (let ws = (case workspace_of s c of Some w \<Rightarrow> Some w | None \<Rightarrow> seat_get_focused_workspace s (hc_seat h)) in do {
        rx \<leftarrow> position_in_px c absolute ws_width ws lx s;
        case rx of
          Inl err \<Rightarrow> Some (err, s)
        | Inr x \<Rightarrow> do {
            ry \<leftarrow> position_in_px c absolute ws_height ws ly s;
            case ry of
              Inl err \<Rightarrow> Some (err, s)
            | Inr y \<Rightarrow> do {
                x1 \<leftarrow> from_workspace absolute (map_option (\<lambda>w. ws_x (wss s w)) ws) x;
                y1 \<leftarrow> from_workspace absolute (map_option (\<lambda>w. ws_y (wss s w)) ws) y;
                s1 \<leftarrow> container_floating_move_to sf c (of_int x1) (of_int y1) s;
                Some (success, s1) } } })"

definition center_position :: "handler_context \<Rightarrow> nat \<Rightarrow> bool \<Rightarrow> sway \<Rightarrow> (rat \<times> rat) option" where
  "center_position h c absolute s =
     (let p = pending s c in
      if absolute then Some (root_x s + (root_width s - st_width p) / 2, root_y s + (root_height s - st_height p) / 2)
      else map_option (\<lambda>w. (ws_x (wss s w) + (of_int (ws_width (wss s w)) - st_width p) / 2,
                            ws_y (wss s w) + (of_int (ws_height (wss s w)) - st_height p) / 2))
             (case workspace_of s c of Some w \<Rightarrow> Some w | None \<Rightarrow> seat_get_focused_workspace s (hc_seat h)))"

definition move_to_position :: "refocus_op \<Rightarrow> cmd_env \<Rightarrow> handler_context \<Rightarrow> nat \<Rightarrow> bool \<Rightarrow> string list \<Rightarrow> sway \<Rightarrow> cmd_outcome" where
  "move_to_position sf e h c absolute argv s =
     (case argv of
        [] \<Rightarrow> Some (invalid position_syntax, s)
      | a # _ \<Rightarrow>
          if a = ''cursor'' \<or> a = ''mouse'' \<or> a = ''pointer'' then
            (if absolute then Some (invalid position_syntax, s) else cmd_move_to_position_pointer sf e h c s)
          else if a = ''center'' then do {
            (lx, ly) \<leftarrow> center_position h c absolute s;
            s1 \<leftarrow> container_floating_move_to sf c lx ly s;
            Some (success, s1) }
          else if length argv < 2 then Some (failure position_syntax, s)
          else case parse_movement_amount argv of
            (used, lx) \<Rightarrow>
              if amount_unit lx = MOVEMENT_UNIT_INVALID then Some (invalid ''Invalid x position specified'', s)
              else if drop used argv = [] then Some (failure position_syntax, s)
              else case parse_movement_amount (drop used argv) of
                (used2, ly) \<Rightarrow>
                  if drop used2 (drop used argv) \<noteq> [] then Some (invalid position_syntax, s)
                  else if amount_unit ly = MOVEMENT_UNIT_INVALID then Some (invalid ''Invalid y position specified'', s)
                  else move_to_coordinates sf h c absolute lx ly s)"

definition cmd_move_to_position :: "refocus_op \<Rightarrow> cmd_env \<Rightarrow> handler_context \<Rightarrow> string list \<Rightarrow> sway \<Rightarrow> cmd_outcome" where
  "cmd_move_to_position sf e h argv s =
     (case hc_container h of
        None \<Rightarrow> Some (failure ''Only floating containers can be moved to an absolute position'', s)
      | Some c \<Rightarrow>
          if \<not> container_is_floating s c
          then Some (failure ''Only floating containers can be moved to an absolute position'', s)
          else
            let absolute = (case argv of a # _ \<Rightarrow> a = ''absolute'' | [] \<Rightarrow> False);
                argv1 = (if absolute then tl argv else argv);
                argv2 = (case argv1 of a # as \<Rightarrow> if a = ''position'' then as else argv1 | [] \<Rightarrow> [])
            in move_to_position sf e h c absolute argv2 s)"

section \<open>The command\<close>

definition move_full_syntax :: string where
  "move_full_syntax = ''Expected 'move left|right|up|down [<amount> [px]]' or 'move [--no-auto-back-and-forth] [window|container] [to] workspace  <name>|next|prev|next_on_output|prev_on_output|current|(number <num>)' or 'move [window|container] [to] output <name/id>|left|right|up|down' or 'move [window|container] [to] mark <mark>' or 'move [window|container] [to] scratchpad' or 'move workspace to [output] <name/id>|left|right|up|down' or 'move [window|container] [to] [absolute] position <x> [px] <y> [px]' or 'move [window|container] [to] [absolute] position center' or 'move [window|container] [to] position mouse|cursor|pointer'' @ [CHR 0x27]"

definition skip_word :: "string list \<Rightarrow> string list \<Rightarrow> string list" where
  "skip_word words argv = (case argv of a # as \<Rightarrow> if list_ex (strcasecmp_eq a) words then as else argv | [] \<Rightarrow> [])"

definition cmd_move :: handler where
  "cmd_move sf e h argv s = with_args argv ''move'' EXPECTED_AT_LEAST 1 s
     (if root_outputs s = [] then Some (invalid no_outputs, s)
      else case parse_direction (hd argv) of
        Some d \<Rightarrow> cmd_move_in_direction sf e h d (tl argv) s
      | None \<Rightarrow>
          if strcasecmp_eq (hd argv) ''workspace'' \<and> length argv \<ge> 2 \<and>
             (strcasecmp_eq (argv ! 1) ''to'' \<or> strcasecmp_eq (argv ! 1) ''output'')
          then cmd_move_workspace sf e h (drop 2 argv) s
          else
            let no_auto = strcasecmp_eq (hd argv) ''--no-auto-back-and-forth'';
                argv1 = (if no_auto then tl argv else argv);
                argv2 = skip_word [''to''] (skip_word [''window'', ''container''] argv1) in
            (case argv2 of
               [] \<Rightarrow> Some (invalid move_full_syntax, s)
             | a # _ \<Rightarrow>
                 if no_auto \<and> \<not> strcasecmp_eq a ''workspace'' then Some (invalid move_full_syntax, s)
                 else if strcasecmp_eq a ''workspace'' \<or> strcasecmp_eq a ''output'' \<or> strcasecmp_eq a ''mark''
                 then cmd_move_container sf e h no_auto argv2 s
                 else if strcasecmp_eq a ''scratchpad'' then cmd_move_to_scratchpad sf h s
                 else if strcasecmp_eq a ''position'' \<or>
                   (length argv2 > 1 \<and> strcasecmp_eq a ''absolute'' \<and> strcasecmp_eq (argv2 ! 1) ''position'')
                 then cmd_move_to_position sf e h argv2 s
                 else Some (invalid move_full_syntax, s)))"

end
