(* ===== verification/Resize_Cmd.thy ===== *)
theory Resize_Cmd
  imports Command_Base
begin

unbundle bit_operations_syntax

text \<open>
  The command \<open>resize\<close> of \<open>sway/commands/resize.c\<close>. An axis is a set of edges as the bits of
  \<open>enum wlr_edges\<close>; one flag, \<open>hor\<close>, selects between the code for widths and the same code for
  heights.
\<close>

section \<open>Axes\<close>

definition WLR_EDGE_NONE :: "32 word" where "WLR_EDGE_NONE = 0"
definition WLR_EDGE_TOP :: "32 word" where "WLR_EDGE_TOP = 1"
definition WLR_EDGE_BOTTOM :: "32 word" where "WLR_EDGE_BOTTOM = 2"
definition WLR_EDGE_LEFT :: "32 word" where "WLR_EDGE_LEFT = 4"
definition WLR_EDGE_RIGHT :: "32 word" where "WLR_EDGE_RIGHT = 8"
definition AXIS_HORIZONTAL :: "32 word" where "AXIS_HORIZONTAL = WLR_EDGE_LEFT OR WLR_EDGE_RIGHT"
definition AXIS_VERTICAL :: "32 word" where "AXIS_VERTICAL = WLR_EDGE_TOP OR WLR_EDGE_BOTTOM"

lemmas edge_defs = WLR_EDGE_NONE_def WLR_EDGE_TOP_def WLR_EDGE_BOTTOM_def WLR_EDGE_LEFT_def WLR_EDGE_RIGHT_def
  AXIS_HORIZONTAL_def AXIS_VERTICAL_def

definition parse_resize_axis :: "string \<Rightarrow> 32 word" where
  "parse_resize_axis axis =
     (if strcasecmp_eq axis ''width'' \<or> strcasecmp_eq axis ''horizontal'' then AXIS_HORIZONTAL
      else if strcasecmp_eq axis ''height'' \<or> strcasecmp_eq axis ''vertical'' then AXIS_VERTICAL
      else if strcasecmp_eq axis ''up'' then WLR_EDGE_TOP
      else if strcasecmp_eq axis ''down'' then WLR_EDGE_BOTTOM
      else if strcasecmp_eq axis ''left'' then WLR_EDGE_LEFT
      else if strcasecmp_eq axis ''right'' then WLR_EDGE_RIGHT
      else WLR_EDGE_NONE)"

definition is_horizontal :: "32 word \<Rightarrow> bool" where
  "is_horizontal axis = (axis AND (WLR_EDGE_LEFT OR WLR_EDGE_RIGHT) \<noteq> 0)"

section \<open>What to resize\<close>

definition container_find_scrollable_resize_parent :: "sway \<Rightarrow> nat \<Rightarrow> 32 word \<Rightarrow> nat option" where
  "container_find_scrollable_resize_parent s con axis =
     (if \<not> is_horizontal axis then None
      else
        let column = container_toplevel_ancestor s con in
        case (parent_of s column, workspace_of s column) of
          (None, Some w) \<Rightarrow> if ws_layout (wss s w) = L_SCROLL_H then Some column else None
        | _ \<Rightarrow> None)"

fun resize_parent :: "sway \<Rightarrow> 32 word \<Rightarrow> nat list \<Rightarrow> nat option option" where
  "resize_parent s axis [] = Some None"
| "resize_parent s axis (con # rest) = do {
     siblings \<leftarrow> container_get_siblings s con;
     index \<leftarrow> container_sibling_index s con;
     let allow_first = (axis \<noteq> WLR_EDGE_TOP \<and> axis \<noteq> WLR_EDGE_LEFT);
     let allow_last = (axis \<noteq> WLR_EDGE_RIGHT \<and> axis \<noteq> WLR_EDGE_BOTTOM);
     if container_parent_layout s con = (if is_horizontal axis then L_HORIZ else L_VERT) \<and> length siblings > 1 \<and>
       (allow_first \<or> index > 0) \<and> (allow_last \<or> index < int (length siblings) - 1)
     then Some (Some con) else resize_parent s axis rest }"

definition container_find_resize_parent :: "sway \<Rightarrow> nat \<Rightarrow> 32 word \<Rightarrow> nat option option" where
  "container_find_resize_parent s con axis =
     (case container_find_scrollable_resize_parent s con axis of
        Some c \<Rightarrow> Some (Some c)
      | None \<Rightarrow> resize_parent s axis (con # ancestors s con))"

section \<open>Resizing tiled containers\<close>

definition pending_extent :: "bool \<Rightarrow> sway \<Rightarrow> nat \<Rightarrow> rat" where
  "pending_extent hor s c = (if hor then st_width (pending s c) else st_height (pending s c))"

definition child_total :: "bool \<Rightarrow> sway \<Rightarrow> nat \<Rightarrow> rat" where
  "child_total hor s c = (if hor then con_child_total_width (cons s c) else con_child_total_height (cons s c))"

definition upd_fraction :: "bool \<Rightarrow> nat \<Rightarrow> (rat \<Rightarrow> rat) \<Rightarrow> sway \<Rightarrow> sway" where
  "upd_fraction hor c f = upd_con c (if hor then con_width_fraction_update f else con_height_fraction_update f)"

text \<open>The first fractions are snapped to the pixels that the siblings have now.\<close>

definition snap_fraction :: "bool \<Rightarrow> nat \<Rightarrow> sway \<Rightarrow> sway" where
  "snap_fraction hor c s = upd_fraction hor c (\<lambda>_. pending_extent hor s c / child_total hor s c) s"

definition resize_between :: "bool \<Rightarrow> nat \<Rightarrow> nat option \<Rightarrow> nat \<Rightarrow> int \<Rightarrow> nat list \<Rightarrow> sway \<Rightarrow> sway option" where
  "resize_between hor con prev nxt n siblings s =
     (let least = (if hor then MIN_SANE_W else MIN_SANE_H);
          sibling_amount = (if prev \<noteq> None then \<lceil>(of_int n :: rat) / 2\<rceil> else n);
          too_small = (\<lambda>c. pending_extent hor s c - of_int sibling_amount < of_int least)
      in if pending_extent hor s con + of_int n < of_int least \<or> too_small nxt \<or>
            (case prev of Some p \<Rightarrow> too_small p | None \<Rightarrow> False) \<or> child_total hor s con \<le> 0
         then Some s
         else
           let s1 = fold (snap_fraction hor) siblings s;
               d = of_int n / child_total hor s1 con;
               sd = (if prev \<noteq> None then d / 2 else d);
               s2 = upd_fraction hor nxt (\<lambda>f. f - sd) (upd_fraction hor con (\<lambda>f. f + d) s1);
               s3 = (case prev of Some p \<Rightarrow> upd_fraction hor p (\<lambda>f. f - sd) s2 | None \<Rightarrow> s2)
           in case parent_of s3 con of
                Some p \<Rightarrow> Some (arrange_container p s3)
              | None \<Rightarrow> (case workspace_of s3 con of Some w \<Rightarrow> arrange_workspace w s3 | None \<Rightarrow> None))"

text \<open>The container to grow, its neighbours and the amount.\<close>

definition resize_neighbours :: "32 word \<Rightarrow> nat \<Rightarrow> int \<Rightarrow> nat list \<Rightarrow> int \<Rightarrow> (nat \<times> nat option \<times> nat \<times> int) option option" where
  "resize_neighbours axis con index siblings n =
     (let len = int (length siblings); sib = (\<lambda>i. siblings ! nat i);
          backwards = map_option (\<lambda>m. Some (sib (index - 1), None, con, m)) (c_int (- n)) in
      if axis = AXIS_HORIZONTAL \<or> axis = AXIS_VERTICAL then
        (if index = 0 then Some (Some (con, None, sib 1, n))
         else if index = len - 1 then backwards
         else Some (Some (con, Some (sib (index - 1)), sib (index + 1), n)))
      else if axis = WLR_EDGE_TOP \<or> axis = WLR_EDGE_LEFT then
        (if \<not> index > 0 then Some None else backwards)
      else if \<not> index < len - 1 then Some None
      else Some (Some (con, None, sib (index + 1), n)))"

definition resize_column :: "nat \<Rightarrow> nat \<Rightarrow> int \<Rightarrow> sway \<Rightarrow> sway option" where
  "resize_column con w n s =
     (let workspace_width = ws_width (wss s w) in
      if workspace_width \<le> 0 then Some s
      else
        let width = min (max (c_trunc (st_width (pending s con) + of_int n)) MIN_SANE_W) workspace_width
        in arrange_workspace w (upd_fraction True con (\<lambda>_. of_int width / of_int workspace_width) s))"

definition container_resize_tiled :: "nat \<Rightarrow> 32 word \<Rightarrow> int \<Rightarrow> sway \<Rightarrow> sway option" where
  "container_resize_tiled con0 axis n s = do {
     found \<leftarrow> container_find_resize_parent s con0 axis;
     case found of
       None \<Rightarrow> Some s
     | Some con \<Rightarrow>
         if container_is_scratchpad_hidden_or_child s con then Some s
         else
           let column = (case workspace_of s con of
               Some w \<Rightarrow> if is_horizontal axis \<and> parent_of s con = None \<and> ws_layout (wss s w) = L_SCROLL_H
                         then Some w else None
             | None \<Rightarrow> None) in
           case column of
             Some w \<Rightarrow> resize_column con w n s
           | None \<Rightarrow> do {
               siblings \<leftarrow> container_get_siblings s con;
               index \<leftarrow> container_sibling_index s con;
               plan \<leftarrow> resize_neighbours axis con index siblings n;
               case plan of
                 None \<Rightarrow> Some s
               | Some (c, prev, nxt, m) \<Rightarrow> do {
                   snapped \<leftarrow> container_get_siblings s c;
                   resize_between (is_horizontal axis) c prev nxt m snapped s } } }"

text \<open>The closest ancestor with the layout.\<close>

definition ancestor_with_layout :: "sway \<Rightarrow> nat \<Rightarrow> sway_container_layout \<Rightarrow> nat option" where
  "ancestor_with_layout s c layout = find (\<lambda>p. st_layout (pending s p) = layout) (ancestors s c)"

text \<open>\<open>pct\<close> per cent of the parent in the direction, or of the workspace.\<close>

definition percent_of_parent :: "bool \<Rightarrow> nat \<Rightarrow> int \<Rightarrow> sway \<Rightarrow> int option" where
  "percent_of_parent hor c n s =
     (case ancestor_with_layout s c (if hor then L_HORIZ else L_VERT) of
        Some p \<Rightarrow> Some (c_trunc (pending_extent hor s p * (of_int n / 100)))
      | None \<Rightarrow> map_option (\<lambda>w. c_trunc (of_int (if hor then ws_width (wss s w) else ws_height (wss s w)) * (of_int n / 100)))
                  (workspace_of s c))"

definition cannot_resize :: cmd_results where
  "cannot_resize = invalid ''Cannot resize any further''"

definition hidden_resize :: cmd_results where
  "hidden_resize = failure ''Cannot resize a hidden scratchpad container''"

definition resize_adjust_tiled :: "nat \<Rightarrow> 32 word \<Rightarrow> movement_amount \<Rightarrow> sway \<Rightarrow> cmd_outcome" where
  "resize_adjust_tiled c axis m s =
     (if container_is_scratchpad_hidden_or_child s c then Some (hidden_resize, s)
      else do {
        n \<leftarrow> (if amount_unit m = MOVEMENT_UNIT_DEFAULT \<or> amount_unit m = MOVEMENT_UNIT_PPT
              then percent_of_parent (is_horizontal axis) c (amount m) s else Some (amount m));
        s1 \<leftarrow> container_resize_tiled c axis n s;
        Some (if con_width_fraction (cons s1 c) = con_width_fraction (cons s c) \<and>
                 con_height_fraction (cons s1 c) = con_height_fraction (cons s c)
              then cannot_resize else success, s1) })"

definition resize_set_extent :: "bool \<Rightarrow> nat \<Rightarrow> movement_amount \<Rightarrow> sway \<Rightarrow> sway option" where
  "resize_set_extent hor c m s =
     (if amount m = 0 \<or> amount_unit m = MOVEMENT_UNIT_INVALID then Some s
      else do {
        n \<leftarrow> (if amount_unit m = MOVEMENT_UNIT_PX then Some (amount m)
              else case ancestor_with_layout s c (if hor then L_HORIZ else L_VERT) of
                  Some p \<Rightarrow> Some (c_trunc (pending_extent hor s p * of_int (amount m) / 100))
                | None \<Rightarrow> do {
                    w \<leftarrow> workspace_of s c;
                    x \<leftarrow> c_int ((if hor then ws_width (wss s w) else ws_height (wss s w)) * amount m);
                    Some (c_trunc (of_int x / 100)) });
        container_resize_tiled c (if hor then AXIS_HORIZONTAL else AXIS_VERTICAL)
          (c_trunc (of_int n - pending_extent hor s c)) s })"

definition resize_set_tiled :: "nat \<Rightarrow> movement_amount \<Rightarrow> movement_amount \<Rightarrow> sway \<Rightarrow> cmd_outcome" where
  "resize_set_tiled c width height s =
     (if container_is_scratchpad_hidden_or_child s c then Some (hidden_resize, s)
      else do {
        s1 \<leftarrow> resize_set_extent True c width s;
        s2 \<leftarrow> resize_set_extent False c height s1;
        Some (success, s2) })"

section \<open>Resizing floating containers\<close>

text \<open>What is left of a growth within the bounds.\<close>

definition bounded_growth :: "rat \<Rightarrow> int \<Rightarrow> int \<Rightarrow> int \<Rightarrow> int" where
  "bounded_growth extent n least most =
     (if extent + of_int n < of_int least then c_trunc (of_int least - extent)
      else if extent + of_int n > of_int most then c_trunc (of_int most - extent)
      else n)"

definition half :: "int \<Rightarrow> int" where
  "half n = c_trunc (of_int n / 2)"

definition grow_content :: "nat \<Rightarrow> int \<Rightarrow> int \<Rightarrow> int \<Rightarrow> int \<Rightarrow> sway \<Rightarrow> sway" where
  "grow_content c dx dy dw dh =
     upd_pending c (\<lambda>p. p\<lparr>st_content_x := st_content_x p + of_int dx, st_content_y := st_content_y p + of_int dy,
       st_content_width := st_content_width p + of_int dw, st_content_height := st_content_height p + of_int dh\<rparr>)"

definition resize_adjust_floating :: "nat \<Rightarrow> 32 word \<Rightarrow> movement_amount \<Rightarrow> sway \<Rightarrow> cmd_outcome" where
  "resize_adjust_floating c axis m s =
     (case floating_calculate_constraints s of
        (min_width, max_width, min_height, max_height) \<Rightarrow>
          let p = pending s c; hor = is_horizontal axis;
              dw = bounded_growth (st_width p) (if hor then amount m else 0) min_width max_width;
              dh = bounded_growth (st_height p) (if hor then 0 else amount m) min_height max_height;
              dx = (if axis = AXIS_HORIZONTAL then half (- dw) else if axis = WLR_EDGE_LEFT then - dw else 0);
              dy = (if axis = AXIS_VERTICAL then half (- dh) else if axis = WLR_EDGE_TOP then - dh else 0)
          in if dw = 0 \<and> dh = 0 then Some (cannot_resize, s)
             else
               let s1 = upd_pending c (\<lambda>p. p\<lparr>st_x := st_x p + of_int dx, st_y := st_y p + of_int dy,
                     st_width := st_width p + of_int dw, st_height := st_height p + of_int dh\<rparr>) s
               in Some (success, arrange_container c (grow_content c dx dy dw dh s1)))"

text \<open>The new extent and the growth of one dimension; the state is changed at once.\<close>

definition resize_floating_extent ::
  "bool \<Rightarrow> nat \<Rightarrow> int \<Rightarrow> int \<Rightarrow> movement_amount \<Rightarrow> sway \<Rightarrow> ((cmd_results + int) \<times> sway) option" where
  "resize_floating_extent hor c least most m s =
     (if amount m = 0 \<or> amount_unit m = MOVEMENT_UNIT_INVALID then Some (Inr 0, s)
      else if amount_unit m = MOVEMENT_UNIT_PPT \<and> container_is_scratchpad_hidden s c
      then Some (Inl (failure ''Cannot resize a hidden scratchpad container by ppt''), s)
      else do {
        n \<leftarrow> (if amount_unit m = MOVEMENT_UNIT_PPT then do {
            w \<leftarrow> workspace_of s c;
            x \<leftarrow> c_int ((if hor then ws_width (wss s w) else ws_height (wss s w)) * amount m);
            Some (c_trunc (of_int x / 100)) }
          else Some (amount m));
        let extent = max least (min n most);
        let grow = c_trunc (of_int extent - pending_extent hor s c);
        Some (Inr grow, upd_pending c (\<lambda>p. if hor
          then p\<lparr>st_x := st_x p - of_int (half grow), st_width := of_int extent\<rparr>
          else p\<lparr>st_y := st_y p - of_int (half grow), st_height := of_int extent\<rparr>) s) })"

definition resize_set_floating :: "nat \<Rightarrow> movement_amount \<Rightarrow> movement_amount \<Rightarrow> sway \<Rightarrow> cmd_outcome" where
  "resize_set_floating c width height s =
     (case floating_calculate_constraints s of
        (min_width, max_width, min_height, max_height) \<Rightarrow> do {
          let s0 = (if container_is_maximized s c then container_clear_maximized c s else s);
          (rw, s1) \<leftarrow> resize_floating_extent True c min_width max_width width s0;
          case rw of
            Inl err \<Rightarrow> Some (err, s1)
          | Inr dw \<Rightarrow> do {
              (rh, s2) \<leftarrow> resize_floating_extent False c min_height max_height height s1;
              case rh of
                Inl err \<Rightarrow> Some (err, s2)
              | Inr dh \<Rightarrow>
                  Some (success, arrange_container c (grow_content c (- half dw) (- half dh) dw dh s2)) } })"

section \<open>The command\<close>

definition resize_set_usage :: cmd_results where
  "resize_set_usage = invalid (''Expected 'resize set [width] <width> [px|ppt]' or 'resize set height <height> [px|ppt]' or 'resize set [width] <width> [px|ppt] [height] <height> [px|ppt]'' @ [CHR 0x27])"

definition no_amount :: movement_amount where
  "no_amount = \<lparr>amount = 0, amount_unit = MOVEMENT_UNIT_PX\<rparr>"

text \<open>The width and the height of \<open>resize set\<close>; \<open>None\<close> is the usage message.\<close>

definition resize_set_amounts :: "string list \<Rightarrow> (movement_amount \<times> movement_amount) option" where
  "resize_set_amounts argv =
     (let argv1 = (if length argv \<ge> 2 \<and> argv ! 0 = ''width'' \<and> argv ! 1 \<noteq> ''height'' then tl argv else argv);
          (used, width) = (if hd argv1 \<noteq> ''height'' then parse_movement_amount argv1 else (0, no_amount));
          argv2 = drop used argv1
      in if hd argv1 \<noteq> ''height'' \<and> amount_unit width = MOVEMENT_UNIT_INVALID then None
         else if argv2 = [] then Some (width, no_amount)
         else
           let argv3 = (if length argv2 \<ge> 2 \<and> hd argv2 = ''height'' then tl argv2 else argv2);
               (used3, height) = parse_movement_amount argv3
           in if length argv3 > used3 \<or> amount_unit height = MOVEMENT_UNIT_INVALID then None
              else Some (width, height))"

definition cmd_resize_set :: "nat \<Rightarrow> string list \<Rightarrow> sway \<Rightarrow> cmd_outcome" where
  "cmd_resize_set c argv s = with_args argv ''resize'' EXPECTED_AT_LEAST 1 s
     (case resize_set_amounts argv of
        None \<Rightarrow> Some (resize_set_usage, s)
      | Some (width, height) \<Rightarrow>
          let given = (\<lambda>m extent. if amount m \<le> 0 then m\<lparr>amount := c_trunc extent\<rparr> else m);
              w = given width (st_width (pending s c)); hh = given height (st_height (pending s c))
          in if container_is_floating s c then resize_set_floating c w hh s else resize_set_tiled c w hh s)"

definition resize_adjust_usage :: cmd_results where
  "resize_adjust_usage = invalid (''Expected 'resize grow|shrink <direction> [<amount> px|ppt [or <amount> px|ppt]]'' @ [CHR 0x27])"

text \<open>The two amounts of \<open>resize grow\<close>; \<open>None\<close> is the usage message.\<close>

definition resize_adjust_amounts :: "string list \<Rightarrow> (movement_amount \<times> movement_amount) option" where
  "resize_adjust_amounts argv =
     (let (used, m1) = (if argv = [] then (0, \<lparr>amount = 10, amount_unit = MOVEMENT_UNIT_DEFAULT\<rparr>) else parse_movement_amount argv);
          argv1 = drop used argv
      in if amount_unit m1 = MOVEMENT_UNIT_INVALID then None
         else case argv1 of
             [] \<Rightarrow> Some (m1, \<lparr>amount = 0, amount_unit = MOVEMENT_UNIT_INVALID\<rparr>)
           | a # argv2 \<Rightarrow>
               if a \<noteq> ''or'' then None
               else if argv2 = [] then Some (m1, \<lparr>amount = 0, amount_unit = MOVEMENT_UNIT_INVALID\<rparr>)
               else case parse_movement_amount argv2 of
                   (used2, m2) \<Rightarrow>
                     if length argv2 > used2 \<or> amount_unit m2 = MOVEMENT_UNIT_INVALID then None else Some (m1, m2))"

text \<open>The first of the two amounts that has one of the units, the units in the order of preference.\<close>

fun prefer_unit :: "movement_unit list \<Rightarrow> movement_amount \<Rightarrow> movement_amount \<Rightarrow> movement_amount option" where
  "prefer_unit [] m1 m2 = None"
| "prefer_unit (u # us) m1 m2 =
     (if amount_unit m1 = u then Some m1 else if amount_unit m2 = u then Some m2 else prefer_unit us m1 m2)"

definition cmd_resize_adjust :: "nat \<Rightarrow> string list \<Rightarrow> int \<Rightarrow> sway \<Rightarrow> cmd_outcome" where
  "cmd_resize_adjust c argv multiplier s =
     (let axis = parse_resize_axis (hd argv) in
      if axis = WLR_EDGE_NONE then Some (resize_adjust_usage, s)
      else case resize_adjust_amounts (tl argv) of
          None \<Rightarrow> Some (resize_adjust_usage, s)
        | Some (m1, m2) \<Rightarrow> do {
            n1 \<leftarrow> c_int (amount m1 * multiplier);
            n2 \<leftarrow> c_int (amount m2 * multiplier);
            let m1 = m1\<lparr>amount := n1\<rparr>;
            let m2 = m2\<lparr>amount := n2\<rparr>;
            if container_is_floating s c then
              (case prefer_unit [MOVEMENT_UNIT_PX, MOVEMENT_UNIT_DEFAULT] m1 m2 of
                 Some m \<Rightarrow> resize_adjust_floating c axis m s
               | None \<Rightarrow> Some (invalid ''Floating containers cannot use ppt measurements'', s))
            else
              (case prefer_unit [MOVEMENT_UNIT_PPT, MOVEMENT_UNIT_DEFAULT] m1 m2 of
                 Some m \<Rightarrow> resize_adjust_tiled c axis m s
               | None \<Rightarrow> resize_adjust_tiled c axis m1 s) })"

definition cmd_resize :: handler where
  "cmd_resize sf e h argv s =
     (if root_outputs s = [] then Some (invalid no_outputs, s)
      else case hc_container h of
        None \<Rightarrow> Some (invalid ''Cannot resize nothing'', s)
      | Some c \<Rightarrow> with_args argv ''resize'' EXPECTED_AT_LEAST 2 s
          (if strcasecmp_eq (hd argv) ''set'' then cmd_resize_set c (tl argv) s
           else if strcasecmp_eq (hd argv) ''grow'' then cmd_resize_adjust c (tl argv) 1 s
           else if strcasecmp_eq (hd argv) ''shrink'' then cmd_resize_adjust c (tl argv) (- 1) s
           else Some (invalid (''Expected 'resize <shrink|grow> <width|height|up|down|left|right> [<amount>] [px|ppt]'' @ [CHR 0x27]), s)))"

end
