(* ===== verification/Window_Cmds.thy ===== *)
theory Window_Cmds
  imports Command_Base
begin

text \<open>
  Commands about one window or workspace that leave the tree as it is: \<open>mark.c\<close>, \<open>unmark.c\<close>,
  \<open>border.c\<close>, \<open>title_format.c\<close>, \<open>opacity.c\<close>, \<open>urgent.c\<close>, \<open>kill.c\<close>, \<open>gaps.c\<close>, \<open>scroll.c\<close>,
  \<open>allow_tearing.c\<close>, \<open>max_render_time.c\<close>, \<open>shortcuts_inhibitor.c\<close> and \<open>nop.c\<close> of
  \<open>sway/commands\<close>.
\<close>

section \<open>Marks\<close>

datatype mark_flags = MARK_FLAGS bool bool "string list" | MARK_UNRECOGNIZED string

fun mark_options :: "bool \<Rightarrow> bool \<Rightarrow> string list \<Rightarrow> mark_flags" where
  "mark_options add toggle [] = MARK_FLAGS add toggle []"
| "mark_options add toggle (a # as) =
     (if \<not> has_prefix a ''--'' then MARK_FLAGS add toggle (a # as)
      else if a = ''--add'' then mark_options True toggle as
      else if a = ''--replace'' then mark_options False toggle as
      else if a = ''--toggle'' then mark_options add True as
      else MARK_UNRECOGNIZED a)"

definition set_mark :: "bool \<Rightarrow> bool \<Rightarrow> string \<Rightarrow> nat \<Rightarrow> sway \<Rightarrow> sway" where
  "set_mark add toggle mark c s =
     (let had_mark = container_has_mark s c mark;
          s1 = (if add then s else container_clear_marks c s);
          s2 = snd (container_find_and_unmark mark s1)
      in if \<not> toggle \<or> \<not> had_mark then container_add_mark c mark s2 else s2)"

definition cmd_mark :: handler where
  "cmd_mark sf e h argv s = with_args argv ''mark'' EXPECTED_AT_LEAST 1 s
     (case hc_container h of
        None \<Rightarrow> Some (invalid ''Only containers can have marks'', s)
      | Some c \<Rightarrow>
          (case mark_options False False argv of
             MARK_UNRECOGNIZED a \<Rightarrow> Some (invalid (''Unrecognized argument '' @ [CHR 0x27] @ a @ [CHR 0x27]), s)
           | MARK_FLAGS add toggle rest \<Rightarrow>
               (case join_args rest of
                  None \<Rightarrow> Some (invalid (''Expected '' @ [CHR 0x27] @ ''[--add|--replace] [--toggle] <identifier>'' @ [CHR 0x27]), s)
                | Some mark \<Rightarrow> do {
                    let s1 = set_mark add toggle mark c s;
                    s2 \<leftarrow> (if con_view (cons s1 c) \<noteq> None then execute_criteria e c s1 else Some s1);
                    Some (success, s2) })))"

definition cmd_unmark :: handler where
  "cmd_unmark sf e h argv s =
     (let con = (if hc_node_overridden h then hc_container h else None);
          mark = (if argv = [] then None else join_args argv)
      in Some (success,
         (case con of
            Some c \<Rightarrow> (case mark of
                Some m \<Rightarrow> if container_has_mark s c m then snd (container_find_and_unmark m s) else s
              | None \<Rightarrow> container_clear_marks c s)
          | None \<Rightarrow> (case mark of
                Some m \<Rightarrow> snd (container_find_and_unmark m s)
              | None \<Rightarrow> root_for_each_container container_clear_marks s))))"

section \<open>Looks\<close>

definition set_border :: "nat \<Rightarrow> sway_container_border \<Rightarrow> sway \<Rightarrow> sway" where
  "set_border c new_border s =
     (let s1 = (case con_view (cons s c) of
            Some v \<Rightarrow> if \<not> view_using_csd v \<and> new_border = B_CSD
                      then upd_con c (con_saved_border_update (\<lambda>_. st_border (pending s c))) s else s
          | None \<Rightarrow> s);
          s2 = (if new_border \<noteq> B_CSD \<or> container_is_floating s1 c
                then upd_pending c (st_border_update (\<lambda>_. new_border)) s1 else s1)
      in upd_view c (view_using_csd_update (\<lambda>_. new_border = B_CSD)) s2)"

text \<open>A container that is bordered by the client has \<open>using_csd\<close> set: the last case does nothing.\<close>

definition border_toggle :: "nat \<Rightarrow> sway \<Rightarrow> sway" where
  "border_toggle c s =
     (let view = con_view (cons s c) in
      if (case view of Some v \<Rightarrow> view_using_csd v | None \<Rightarrow> False) then set_border c B_NONE s
      else case st_border (pending s c) of
          B_NONE \<Rightarrow> set_border c B_PIXEL s
        | B_PIXEL \<Rightarrow> set_border c B_NORMAL s
        | B_NORMAL \<Rightarrow> set_border c (if (case view of Some v \<Rightarrow> view_xdg_decoration v | None \<Rightarrow> False) then B_CSD else B_NONE) s
        | B_CSD \<Rightarrow> s)"

definition border_done :: "string list \<Rightarrow> nat \<Rightarrow> sway \<Rightarrow> cmd_outcome" where
  "border_done argv c s =
     (let s1 = (if length argv = 2
                then upd_pending c (st_border_thickness_update (\<lambda>_. fst (strtol10_int (argv ! 1)))) s else s);
          s2 = (if container_is_floating s1 c then container_set_geometry_from_content c s1 else s1)
      in Some (success, arrange_container c s2))"

definition cmd_border :: handler where
  "cmd_border sf e h argv s = with_args argv ''border'' EXPECTED_AT_LEAST 1 s
     (case hc_container h of
        None \<Rightarrow> Some (invalid ''Only views can have borders'', s)
      | Some c \<Rightarrow>
          (case con_view (cons s c) of
             None \<Rightarrow> Some (invalid ''Only views can have borders'', s)
           | Some view \<Rightarrow>
               let a = hd argv in
               if a = ''none'' then border_done argv c (set_border c B_NONE s)
               else if a = ''normal'' then border_done argv c (set_border c B_NORMAL s)
               else if a = ''pixel'' then border_done argv c (set_border c B_PIXEL s)
               else if a = ''csd'' then
                 (if \<not> view_xdg_decoration view
                  then Some (invalid (''This window doesn'' @ [CHR 0x27] @ ''t support client side decorations''), s)
                  else border_done argv c (set_border c B_CSD s))
               else if a = ''toggle'' then border_done argv c (border_toggle c s)
               else Some (invalid (''Expected 'border <none|normal|pixel|csd|toggle>' or 'border pixel <px>'' @ [CHR 0x27]), s)))"

definition view_update_title :: "nat \<Rightarrow> bool \<Rightarrow> sway \<Rightarrow> sway" where
  "view_update_title c force s =
     (case con_view (cons s c) of
        None \<Rightarrow> s
      | Some view \<Rightarrow>
          if \<not> force \<and> view_title view = con_title (cons s c) then s
          else
            let len = fst (parse_title_format s c None);
                formatted = (if len > 0 then snd (parse_title_format s c (Some [])) else None)
            in upd_con c (\<lambda>x. x\<lparr>con_title := view_title view, con_formatted_title := formatted\<rparr>) s)"

definition cmd_title_format :: handler where
  "cmd_title_format sf e h argv s = with_args argv ''title_format'' EXPECTED_AT_LEAST 1 s
     (case hc_container h of
        None \<Rightarrow> Some (invalid ''Only valid containers can have a title_format'', s)
      | Some c \<Rightarrow>
          let s1 = upd_con c (con_title_format_update (\<lambda>_. join_args argv)) s in
          Some (success, if con_view (cons s1 c) \<noteq> None then view_update_title c True s1
                         else container_update_representation c s1))"

definition opacity_value :: "string list \<Rightarrow> rat \<Rightarrow> rat \<Rightarrow> rat option" where
  "opacity_value argv old val =
     (if strcasecmp_eq (hd argv) ''plus'' then Some (old + val)
      else if strcasecmp_eq (hd argv) ''minus'' then Some (old - val)
      else if length argv > 1 \<and> \<not> strcasecmp_eq (hd argv) ''set'' then None
      else Some val)"

definition cmd_opacity :: handler where
  "cmd_opacity sf e h argv s = with_args argv ''opacity'' EXPECTED_AT_LEAST 1 s
     (case hc_container h of
        None \<Rightarrow> Some (failure ''No current container'', s)
      | Some c \<Rightarrow>
          (case strtof (if length argv = 1 then argv ! 0 else argv ! 1) of
             (x, err) \<Rightarrow>
               if err \<noteq> [] then Some (invalid ''opacity float invalid'', s)
               else case x of
                   Finite val \<Rightarrow>
                     (case opacity_value argv (con_alpha (cons s c)) val of
                        None \<Rightarrow> Some (invalid (''Expected: set|plus|minus <0..1>: '' @ hd argv), s)
                      | Some v \<Rightarrow>
                          if v < 0 \<or> v > 1 then Some (failure ''opacity value out of bounds'', s)
                          else Some (success, upd_con c (con_alpha_update (\<lambda>_. v)) s))
                 | Infinite neg \<Rightarrow>
                     if opacity_value argv 0 0 = None then Some (invalid (''Expected: set|plus|minus <0..1>: '' @ hd argv), s)
                     else Some (failure ''opacity value out of bounds'', s)
                 | NaN \<Rightarrow> None))"

definition cmd_urgent :: handler where
  "cmd_urgent sf e h argv s = with_args argv ''urgent'' EXPECTED_EQUAL_TO 1 s
     (case hc_container h of
        None \<Rightarrow> Some (failure ''No current container'', s)
      | Some c \<Rightarrow>
          if con_view (cons s c) = None then Some (invalid ''Only views can be urgent'', s)
          else if hd argv = ''allow'' then Some (success, upd_view c (view_allow_request_urgent_update (\<lambda>_. True)) s)
          else if hd argv = ''deny'' then Some (success, upd_view c (view_allow_request_urgent_update (\<lambda>_. False)) s)
          else do {
            s1 \<leftarrow> view_set_urgent c (parse_boolean (hd argv) (is_urgent_con s c)) s;
            Some (success, s1) })"

section \<open>Requests to the client and rendering\<close>

text \<open>The containers whose views \<open>kill\<close> asks to close; closing is up to the clients.\<close>

definition kill_targets :: "handler_context \<Rightarrow> sway \<Rightarrow> nat list option" where
  "kill_targets h s =
     map_option (filter (\<lambda>c. con_view (cons s c) \<noteq> None))
       (case hc_container h of
          Some c \<Rightarrow> Some (c # descendants s c)
        | None \<Rightarrow> map_option (workspace_containers s) (hc_workspace h))"

definition cmd_kill :: handler where
  "cmd_kill sf e h argv s =
     (if root_outputs s = [] then Some (invalid no_outputs, s)
      else case kill_targets h s of None \<Rightarrow> None | Some _ \<Rightarrow> Some (success, s))"

definition cmd_nop :: handler where
  "cmd_nop sf e h argv s = Some (success, s)"

definition view_context :: "handler_context \<Rightarrow> sway \<Rightarrow> nat option" where
  "view_context h s =
     (case hc_container h of Some c \<Rightarrow> if con_view (cons s c) \<noteq> None then Some c else None | None \<Rightarrow> None)"

definition cmd_allow_tearing :: handler where
  "cmd_allow_tearing sf e h argv s = with_args argv ''allow_tearing'' EXPECTED_AT_LEAST 1 s
     (case view_context h s of
        None \<Rightarrow> Some (invalid ''Tearing can only be allowed on views'', s)
      | Some c \<Rightarrow> Some (success, upd_view c (view_tearing_mode_update
          (\<lambda>_. if parse_boolean (hd argv) True then TEARING_OVERRIDE_TRUE else TEARING_OVERRIDE_FALSE)) s))"

definition render_time :: "string \<Rightarrow> int option" where
  "render_time a =
     (if a = ''off'' then Some 0
      else case strtol10_int a of (n, rest) \<Rightarrow> if rest \<noteq> [] \<or> n \<le> 0 then None else Some n)"

definition cmd_max_render_time :: handler where
  "cmd_max_render_time sf e h argv s =
     (case argv of
        [] \<Rightarrow> Some (invalid ''Missing max render time argument.'', s)
      | a # _ \<Rightarrow>
          (case render_time a of
             None \<Rightarrow> Some (invalid ''Invalid max render time.'', s)
           | Some n \<Rightarrow>
               (case view_context h s of
                  None \<Rightarrow> Some (invalid ''Only views can have a max_render_time'', s)
                | Some c \<Rightarrow> Some (success, upd_view c (view_max_render_time_update (\<lambda>_. n)) s))))"

definition cmd_shortcuts_inhibitor :: handler where
  "cmd_shortcuts_inhibitor sf e h argv s = with_args argv ''shortcuts_inhibitor'' EXPECTED_EQUAL_TO 1 s
     (case view_context h s of
        None \<Rightarrow> Some (invalid ''Only views can have shortcuts inhibitors'', s)
      | Some c \<Rightarrow>
          if hd argv = ''enable'' then Some (success, upd_view c (view_shortcuts_inhibit_update (\<lambda>_. SHORTCUTS_INHIBIT_ENABLE)) s)
          else if hd argv = ''disable'' then Some (success, upd_view c (view_shortcuts_inhibit_update (\<lambda>_. SHORTCUTS_INHIBIT_DISABLE)) s)
          else Some (invalid ''Expected `shortcuts_inhibitor enable|disable`'', s))"

section \<open>Gaps\<close>

datatype gaps_op = GAPS_OP_SET | GAPS_OP_ADD | GAPS_OP_SUBTRACT | GAPS_OP_TOGGLE

record gaps_data =
  gd_inner :: bool
  gd_top :: bool
  gd_right :: bool
  gd_bottom :: bool
  gd_left :: bool
  gd_operation :: gaps_op
  gd_amount :: int

definition prevent_invalid_outer_gaps :: "sway \<Rightarrow> sway option" where
  "prevent_invalid_outer_gaps s = do {
     least \<leftarrow> c_int (- cfg_gaps_inner (cfg s));
     Some (cfg_update (cfg_gaps_outer_update (\<lambda>g.
       \<lparr>gap_top = max least (gap_top g), gap_right = max least (gap_right g),
        gap_bottom = max least (gap_bottom g), gap_left = max least (gap_left g)\<rparr>)) s) }"

definition gaps_expected_defaults :: string where
  "gaps_expected_defaults = [CHR 0x27] @ ''gaps inner|outer|horizontal|vertical|top|right|bottom|left <px>'' @ [CHR 0x27]"

definition gaps_expected_runtime :: string where
  "gaps_expected_runtime = [CHR 0x27] @ ''gaps inner|outer|horizontal|vertical|top|right|bottom|left current|all set|plus|minus|toggle <px>'' @ [CHR 0x27]"

definition px_amount :: "string \<Rightarrow> int option" where
  "px_amount a = (case strtol10_int a of (n, rest) \<Rightarrow> if rest \<noteq> [] \<and> \<not> strcasecmp_eq rest ''px'' then None else Some n)"

text \<open>Which sides of the outer gaps a word names: top, right, bottom, left.\<close>

definition gap_sides :: "string \<Rightarrow> bool \<times> bool \<times> bool \<times> bool" where
  "gap_sides a =
     (let names = (\<lambda>side axis. strcasecmp_eq a ''outer'' \<or> strcasecmp_eq a axis \<or> strcasecmp_eq a side)
      in (names ''top'' ''vertical'', names ''right'' ''horizontal'', names ''bottom'' ''vertical'', names ''left'' ''horizontal''))"

definition set_gap_sides :: "bool \<times> bool \<times> bool \<times> bool \<Rightarrow> int \<Rightarrow> side_gaps \<Rightarrow> side_gaps" where
  "set_gap_sides sides n g =
     (case sides of (t, r, b, l) \<Rightarrow>
        \<lparr>gap_top = (if t then n else gap_top g), gap_right = (if r then n else gap_right g),
         gap_bottom = (if b then n else gap_bottom g), gap_left = (if l then n else gap_left g)\<rparr>)"

definition gaps_set_defaults :: "string list \<Rightarrow> sway \<Rightarrow> cmd_outcome" where
  "gaps_set_defaults argv s = with_args argv ''gaps'' EXPECTED_EQUAL_TO 2 s
     (case px_amount (argv ! 1) of
        None \<Rightarrow> Some (invalid (''Expected '' @ gaps_expected_defaults), s)
      | Some n \<Rightarrow>
          let inner = strcasecmp_eq (argv ! 0) ''inner''; sides = gap_sides (argv ! 0) in
          if inner then do {
            s1 \<leftarrow> prevent_invalid_outer_gaps (cfg_update (cfg_gaps_inner_update (\<lambda>_. max 0 n)) s);
            Some (success, s1) }
          else if sides = (False, False, False, False) then Some (invalid (''Expected '' @ gaps_expected_defaults), s)
          else do {
            s1 \<leftarrow> prevent_invalid_outer_gaps (cfg_update (cfg_gaps_outer_update (set_gap_sides sides n)) s);
            Some (success, s1) })"

definition apply_gaps_op :: "gaps_op \<Rightarrow> int \<Rightarrow> int \<Rightarrow> int option" where
  "apply_gaps_op op n prop =
     (case op of
        GAPS_OP_SET \<Rightarrow> Some n
      | GAPS_OP_ADD \<Rightarrow> c_int (prop + n)
      | GAPS_OP_SUBTRACT \<Rightarrow> c_int (prop - n)
      | GAPS_OP_TOGGLE \<Rightarrow> Some (if prop \<noteq> 0 then 0 else n))"

definition configure_gaps :: "gaps_data \<Rightarrow> nat \<Rightarrow> sway \<Rightarrow> sway option" where
  "configure_gaps d w s = do {
     let op = (\<lambda>on prop. if on then apply_gaps_op (gd_operation d) (gd_amount d) prop else Some prop);
     let g = ws_gaps_outer (wss s w);
     inner \<leftarrow> op (gd_inner d) (ws_gaps_inner (wss s w));
     t \<leftarrow> op (gd_top d) (gap_top g);
     r \<leftarrow> op (gd_right d) (gap_right g);
     b \<leftarrow> op (gd_bottom d) (gap_bottom g);
     l \<leftarrow> op (gd_left d) (gap_left g);
     s1 \<leftarrow> prevent_invalid_outer_gaps (upd_ws w (\<lambda>x. x\<lparr>ws_gaps_inner := max 0 inner,
             ws_gaps_outer := \<lparr>gap_top = t, gap_right = r, gap_bottom = b, gap_left = l\<rparr>\<rparr>) s);
     arrange_workspace w s1 }"

definition gaps_operation :: "string \<Rightarrow> gaps_op option" where
  "gaps_operation a =
     (if strcasecmp_eq a ''set'' then Some GAPS_OP_SET
      else if strcasecmp_eq a ''plus'' then Some GAPS_OP_ADD
      else if strcasecmp_eq a ''minus'' then Some GAPS_OP_SUBTRACT
      else if strcasecmp_eq a ''toggle'' then Some GAPS_OP_TOGGLE
      else None)"

definition gaps_set_runtime :: "handler_context \<Rightarrow> string list \<Rightarrow> sway \<Rightarrow> cmd_outcome" where
  "gaps_set_runtime h argv s = with_args argv ''gaps'' EXPECTED_EQUAL_TO 4 s
     (let bad = Some (invalid (''Expected '' @ gaps_expected_runtime), s);
          inner = strcasecmp_eq (argv ! 0) ''inner'';
          sides = (if inner then (False, False, False, False) else gap_sides (argv ! 0));
          all_ws = strcasecmp_eq (argv ! 1) ''all''
      in if root_outputs s = [] then Some (invalid no_outputs, s)
         else if \<not> inner \<and> sides = (False, False, False, False) then bad
         else if \<not> strcasecmp_eq (argv ! 1) ''current'' \<and> \<not> all_ws then bad
         else case gaps_operation (argv ! 2) of
             None \<Rightarrow> bad
           | Some op \<Rightarrow>
               (case px_amount (argv ! 3) of
                  None \<Rightarrow> bad
                | Some n \<Rightarrow>
                    (case sides of (t, r, b, l) \<Rightarrow> do {
                       let d = \<lparr>gd_inner = inner, gd_top = t, gd_right = r, gd_bottom = b, gd_left = l,
                                gd_operation = op, gd_amount = n\<rparr>;
                       s1 \<leftarrow> (if all_ws then for_seats (configure_gaps d) (all_workspaces s) s
                              else case hc_workspace h of None \<Rightarrow> None | Some w \<Rightarrow> configure_gaps d w s);
                       Some (success, s1) })))"

definition cmd_gaps :: handler where
  "cmd_gaps sf e h argv s = with_args argv ''gaps'' EXPECTED_AT_LEAST 2 s
     (let reading = fl_reading (cfg_flags (cfg s)) in
      if length argv = 2 then gaps_set_defaults argv s
      else if length argv = 4 \<and> \<not> reading then gaps_set_runtime h argv s
      else if reading then Some (invalid (''Expected '' @ gaps_expected_defaults), s)
      else Some (invalid (''Expected '' @ gaps_expected_runtime @ '' or '' @ gaps_expected_defaults), s))"

section \<open>Scrolling\<close>

text \<open>The transaction that the code commits at the end is left to who runs the command, which commits as well.\<close>

definition scroll_default_amount :: int where "scroll_default_amount = 100"

definition scroll_syntax :: string where
  "scroll_syntax = ''Expected 'scroll left|right [<px> px]', 'scroll center', 'scroll follow', 'scroll home', or 'scroll end'' @ [CHR 0x27]"

definition get_scrollable_workspace :: "handler_context \<Rightarrow> sway \<Rightarrow> nat option" where
  "get_scrollable_workspace h s =
     (case hc_workspace h of
        Some w \<Rightarrow> Some w
      | None \<Rightarrow>
          (case (case hc_container h of Some c \<Rightarrow> workspace_of s c | None \<Rightarrow> None) of
             Some w \<Rightarrow> Some w
           | None \<Rightarrow> seat_get_focused_workspace s (hc_seat h)))"

text \<open>\<open>strtol\<close> gives a \<open>long\<close>; the amount is its low 32 bits.\<close>

definition scroll_amount :: "string list \<Rightarrow> int option" where
  "scroll_amount argv =
     (case argv of
        [a] \<Rightarrow> Some scroll_default_amount
      | [a, b] \<Rightarrow>
          (case strtoll10 b of (n, erange, rest) \<Rightarrow>
             if erange \<or> rest = b \<or> n < 0 \<or> (rest \<noteq> [] \<and> \<not> strcasecmp_eq rest ''px'') then None
             else Some (to_int32 n))
      | _ \<Rightarrow> None)"

definition scroll_to :: "nat \<Rightarrow> bool \<Rightarrow> int \<Rightarrow> sway \<Rightarrow> cmd_outcome" where
  "scroll_to w follow target s = do {
     s1 \<leftarrow> arrange_workspace w (upd_ws w (\<lambda>x. x\<lparr>ws_scroll_follow_focus := follow, ws_target_scroll_x := target\<rparr>) s);
     Some (success, s1) }"

definition cmd_scroll :: handler where
  "cmd_scroll sf e h argv s = with_args argv ''scroll'' EXPECTED_AT_LEAST 1 s
     (let bad = Some (invalid scroll_syntax, s); a = hd argv in
      case get_scrollable_workspace h s of
        None \<Rightarrow> Some (failure ''Can only scroll a workspace in scrollable layout'', s)
      | Some w \<Rightarrow>
          if ws_layout (wss s w) \<noteq> L_SCROLL_H then Some (failure ''Can only scroll a workspace in scrollable layout'', s)
          else
            let alone = (length argv = 1); s1 = upd_ws w (ws_scroll_follow_focus_update (\<lambda>_. False)) s in
            if strcasecmp_eq a ''follow'' then
              (if \<not> alone then bad else scroll_to w True (ws_target_scroll_x (wss s w)) s)
            else if strcasecmp_eq a ''center'' then
              (if \<not> alone then bad else scroll_to w False (workspace_scroll_center_offset s1 w (hc_seat h)) s)
            else if strcasecmp_eq a ''home'' \<or> strcasecmp_eq a ''end'' then
              (if \<not> alone then bad
               else scroll_to w False (if strcasecmp_eq a ''home'' then 0 else workspace_scroll_max_offset s1 w) s)
            else case scroll_amount argv of
                None \<Rightarrow> bad
              | Some n \<Rightarrow>
                  if \<not> strcasecmp_eq a ''left'' \<and> \<not> strcasecmp_eq a ''right'' then bad
                  else do {
                    d \<leftarrow> c_int (if strcasecmp_eq a ''left'' then - n else n);
                    target \<leftarrow> c_int (ws_target_scroll_x (wss s w) + d);
                    scroll_to w False (workspace_scroll_clamp s1 w target) s })"

end
