(* ===== verification/Workspace_Cmd.thy ===== *)
theory Workspace_Cmd
  imports Window_Cmds
begin

text \<open>
  The commands \<open>workspace\<close> and \<open>rename workspace\<close> of \<open>sway/commands/workspace.c\<close> and
  \<open>sway/commands/rename.c\<close>. The direction that \<open>workspace next\<close> hints to the slide animation
  belongs to the transactions and is left out.
\<close>

section \<open>The configuration of a workspace\<close>

definition new_workspace_config :: "string \<Rightarrow> workspace_config" where
  "new_workspace_config name = \<lparr>wsc_workspace = name, wsc_outputs = [], wsc_gaps_inner = INT_MIN,
     wsc_gaps_outer = \<lparr>gap_top = INT_MIN, gap_right = INT_MIN, gap_bottom = INT_MIN, gap_left = INT_MIN\<rparr>\<rparr>"

text \<open>The position of the configuration in the list.\<close>

definition workspace_config_find_or_create :: "string \<Rightarrow> sway \<Rightarrow> nat \<times> sway" where
  "workspace_config_find_or_create name s =
     (let l = cfg_workspace_configs (cfg s); i = seq_find (\<lambda>w. wsc_workspace w = name) l 0 in
      if i \<ge> 0 then (nat i, s)
      else (length l, cfg_update (cfg_workspace_configs_update (\<lambda>_. l @ [new_workspace_config name])) s))"

definition upd_workspace_config :: "nat \<Rightarrow> (workspace_config \<Rightarrow> workspace_config) \<Rightarrow> sway \<Rightarrow> sway" where
  "upd_workspace_config i f = cfg_update (cfg_workspace_configs_update (\<lambda>l. l[i := f (l ! i)]))"

text \<open>With the inner gaps not set, the negation of \<open>INT_MIN\<close> overflows.\<close>

definition clamp_outer_gap :: "int \<Rightarrow> int \<Rightarrow> int option" where
  "clamp_outer_gap inner g =
     (if g = INT_MIN then Some g else do { least \<leftarrow> c_int (- inner); Some (if g < least then least else g) })"

definition prevent_invalid_wsc_gaps :: "workspace_config \<Rightarrow> workspace_config option" where
  "prevent_invalid_wsc_gaps w = do {
     let g = wsc_gaps_outer w;
     t \<leftarrow> clamp_outer_gap (wsc_gaps_inner w) (gap_top g);
     r \<leftarrow> clamp_outer_gap (wsc_gaps_inner w) (gap_right g);
     b \<leftarrow> clamp_outer_gap (wsc_gaps_inner w) (gap_bottom g);
     l \<leftarrow> clamp_outer_gap (wsc_gaps_inner w) (gap_left g);
     Some (w\<lparr>wsc_gaps_outer := \<lparr>gap_top = t, gap_right = r, gap_bottom = b, gap_left = l\<rparr>\<rparr>) }"

definition workspace_gaps_syntax :: string where
  "workspace_gaps_syntax = ''Expected 'workspace <name> gaps inner|outer|horizontal|vertical|top|right|bottom|left <px>'' @ [CHR 0x27]"

text \<open>\<open>Inl\<close> is an error to return; the code goes on to report success otherwise.\<close>

definition cmd_workspace_gaps :: "string list \<Rightarrow> nat \<Rightarrow> sway \<Rightarrow> ((cmd_results + unit) \<times> sway) option" where
  "cmd_workspace_gaps argv loc s =
     (if loc = 0 then Some (Inl (invalid workspace_gaps_syntax), s)
      else case checkarg (length argv) ''workspace'' EXPECTED_EQUAL_TO (loc + 3) of
        Some err \<Rightarrow> Some (Inl err, s)
      | None \<Rightarrow> do {
          name \<leftarrow> join_args (take (length argv - 3) argv);
          let (i, s1) = workspace_config_find_or_create name s;
          let (n, rest) = strtol10_int (argv ! (loc + 2));
          let kind = argv ! (loc + 1);
          if rest \<noteq> [] then Some (Inl (failure workspace_gaps_syntax), s1)
          else do {
            let inner = strcasecmp_eq kind ''inner'';
            let sides = gap_sides kind;
            if \<not> inner \<and> sides = (False, False, False, False) then Some (Inl (invalid workspace_gaps_syntax), s1)
            else do {
              let w = cfg_workspace_configs (cfg s1) ! i;
              let w1 = (if inner then w\<lparr>wsc_gaps_inner := max 0 n\<rparr>
                        else w\<lparr>wsc_gaps_outer := set_gap_sides sides n (wsc_gaps_outer w)\<rparr>);
              let w2 = (if wsc_gaps_inner w1 \<noteq> INT_MIN \<and> wsc_gaps_inner w1 < 0 then w1\<lparr>wsc_gaps_inner := 0\<rparr> else w1);
              w3 \<leftarrow> prevent_invalid_wsc_gaps w2;
              Some (Inr (), upd_workspace_config i (\<lambda>_. w3) s1) } } })"

section \<open>Switching\<close>

definition find_word :: "string \<Rightarrow> string list \<Rightarrow> nat option" where
  "find_word word argv = (let i = seq_find (\<lambda>a. strcasecmp_eq a word) argv 0 in if i < 0 then None else Some (nat i))"

text \<open>\<open>None\<close> when nothing follows the options.\<close>

fun skip_no_auto :: "bool \<Rightarrow> string list \<Rightarrow> (bool \<times> string list) option" where
  "skip_no_auto auto [] = None"
| "skip_no_auto auto (a # as) =
     (if strcasecmp_eq a ''--no-auto-back-and-forth'' then skip_no_auto False as else Some (auto, a # as))"

definition find_or_create :: "(nat option) option \<Rightarrow> string \<Rightarrow> sway \<Rightarrow> (nat \<times> sway) option" where
  "find_or_create found name s =
     (case found of
        None \<Rightarrow> None
      | Some (Some w) \<Rightarrow> Some (w, s)
      | Some None \<Rightarrow> workspace_create None name s)"

definition switch_target :: "sway_seat \<Rightarrow> bool \<Rightarrow> string list \<Rightarrow> sway \<Rightarrow> ((cmd_results + nat option) \<times> sway) option" where
  "switch_target seat auto argv s =
     (let a = hd argv;
          arrive = (\<lambda>r. case r of
              None \<Rightarrow> None
            | Some (w, s1) \<Rightarrow>
                if auto then map_option (\<lambda>(w, s2). (Inr (Some w), s2)) (workspace_auto_back_and_forth w s1)
                else Some (Inr (Some w), s1)) in
      if strcasecmp_eq a ''number'' then
        (if length argv < 2 then Some (Inl (invalid ''Expected workspace number''), s)
         else if (case argv ! 1 of [] \<Rightarrow> True | c # _ \<Rightarrow> \<not> isdigit c)
         then Some (Inl (invalid (''Invalid workspace number '' @ [CHR 0x27] @ argv ! 1 @ [CHR 0x27])), s)
         else do {
           name \<leftarrow> join_args (tl argv);
           arrive (find_or_create (Some (workspace_by_number s (argv ! 1))) name s) })
      else if list_ex (strcasecmp_eq a) [''next'', ''prev'', ''next_on_output'', ''prev_on_output'', ''current'']
      then map_option (\<lambda>w. (Inr w, s)) (workspace_by_name s a)
      else if strcasecmp_eq a ''back_and_forth'' then
        (case seat_prev_workspace_name seat of
           None \<Rightarrow> Some (Inl (invalid ''There is no previous workspace''), s)
         | Some prev \<Rightarrow> map_option (\<lambda>(w, s1). (Inr (Some w), s1)) (find_or_create (workspace_by_name s a) prev s))
      else do {
        name \<leftarrow> join_args argv;
        arrive (find_or_create (workspace_by_name s name) name s) })"

definition switch_command :: "refocus_op \<Rightarrow> handler_context \<Rightarrow> string list \<Rightarrow> sway \<Rightarrow> cmd_outcome" where
  "switch_command sf h argv s =
     (if fl_reading (cfg_flags (cfg s)) \<or> \<not> fl_active (cfg_flags (cfg s)) then Some (cmd_results_new CMD_DEFER None, s)
      else if root_outputs s = [] then Some (invalid no_outputs, s)
      else if fullscreen_global s \<noteq> None
      then Some (failure (''Can'' @ [CHR 0x27] @ ''t switch workspaces while fullscreen global''), s)
      else case skip_no_auto True argv of
        None \<Rightarrow> map_option (\<lambda>err. (err, s)) (checkarg 0 ''workspace'' EXPECTED_AT_LEAST 1)
      | Some (auto, argv1) \<Rightarrow> do {
          (r, s1) \<leftarrow> switch_target (seats s (hc_seat h)) auto argv1 s;
          case r of
            Inl err \<Rightarrow> Some (err, s1)
          | Inr None \<Rightarrow> Some (failure ''No workspace to switch to'', s1)
          | Inr (Some w) \<Rightarrow> do { s2 \<leftarrow> workspace_switch sf w s1; Some (success, s2) } })"

definition cmd_workspace :: handler where
  "cmd_workspace sf e h argv s = with_args argv ''workspace'' EXPECTED_AT_LEAST 1 s
     (case find_word ''output'' argv of
        Some 0 \<Rightarrow> Some (invalid (''Expected 'workspace <name> output <output>'' @ [CHR 0x27]), s)
      | Some loc \<Rightarrow> with_args argv ''workspace'' EXPECTED_AT_LEAST (loc + 2) s
          (do {
             name \<leftarrow> join_args (take loc argv);
             let (i, s1) = workspace_config_find_or_create name s;
             Some (success, upd_workspace_config i (wsc_outputs_update (\<lambda>l. l @ drop (loc + 1) argv)) s1) })
      | None \<Rightarrow>
          (case find_word ''gaps'' argv of
             Some loc \<Rightarrow> do {
               (r, s1) \<leftarrow> cmd_workspace_gaps argv loc s;
               Some (case r of Inl err \<Rightarrow> (err, s1) | Inr _ \<Rightarrow> (success, s1)) }
           | None \<Rightarrow> switch_command sf h argv s))"

section \<open>Renaming\<close>

definition rename_syntax :: string where
  "rename_syntax = ''Expected 'rename workspace <old_name> to <new_name>' or 'rename workspace to <new_name>'' @ [CHR 0x27]"

definition reserved_names :: "string list" where
  "reserved_names = [''next'', ''prev'', ''next_on_output'', ''prev_on_output'', ''back_and_forth'', ''current'', ''number'']"

text \<open>The position of \<open>to\<close> from the second argument on, or the number of arguments.\<close>

definition to_position :: "string list \<Rightarrow> nat" where
  "to_position argv = 1 + length (takeWhile (\<lambda>a. \<not> strcasecmp_eq a ''to'') (drop 1 argv))"

text \<open>The workspace to rename and the position of \<open>to\<close>; a name without arguments is \<open>NULL\<close>.\<close>

definition rename_target :: "handler_context \<Rightarrow> string list \<Rightarrow> sway \<Rightarrow> (cmd_results + nat option \<times> nat) option" where
  "rename_target h argv s =
     (if strcasecmp_eq (argv ! 1) ''to'' then Some (Inr (hc_workspace h, 1))
      else if strcasecmp_eq (argv ! 1) ''number'' then
        (if (case argv ! 2 of [] \<Rightarrow> True | c # _ \<Rightarrow> \<not> isdigit c)
         then Some (Inl (invalid (''Invalid workspace number '' @ [CHR 0x27] @ argv ! 2 @ [CHR 0x27])))
         else Some (Inr (workspace_by_number s (argv ! 2), to_position argv)))
      else do {
        old_name \<leftarrow> join_args (take (to_position argv - 1) (drop 1 argv));
        w \<leftarrow> workspace_by_name s old_name;
        Some (Inr (w, to_position argv)) })"

definition cmd_rename :: handler where
  "cmd_rename sf e h argv s = with_args argv ''rename'' EXPECTED_AT_LEAST 3 s
     (if root_outputs s = [] then Some (invalid no_outputs, s)
      else if \<not> strcasecmp_eq (hd argv) ''workspace'' then Some (invalid rename_syntax, s)
      else do {
        r \<leftarrow> rename_target h argv s;
        case r of
          Inl err \<Rightarrow> Some (err, s)
        | Inr (None, _) \<Rightarrow> Some (invalid ''There is no workspace with that name'', s)
        | Inr (Some w, at_to) \<Rightarrow>
            (case join_args (drop (at_to + 1) argv) of
               None \<Rightarrow> Some (invalid rename_syntax, s)
             | Some new_name \<Rightarrow>
                 if list_ex (strcasecmp_eq new_name) reserved_names
                 then Some (invalid (''Cannot use special workspace name '' @ [CHR 0x27] @ argv ! (at_to + 1) @ [CHR 0x27]), s)
                 else do {
                   clash \<leftarrow> workspace_by_name s new_name;
                   case clash of
                     Some w' \<Rightarrow> if w' = w then Some (success, s) else Some (invalid ''Workspace already exists'', s)
                   | None \<Rightarrow> do {
                       out \<leftarrow> ws_output (wss s w);
                       Some (success, output_sort_workspaces out (upd_ws w (ws_name_update (\<lambda>_. new_name)) s)) } }) })"

end
