(* ===== verification/Criteria.thy ===== *)
theory Criteria
  imports Command_Base Dyn_List_Sort
begin

text \<open>
  Criteria, \<open>sway/criteria.c\<close>: parsing \<open>[class="foo" floating]\<close>, matching views and
  containers, and the commands that store criteria (\<open>for_window\<close>, \<open>no_focus\<close>, \<open>assign\<close>). The
  regex compiler and matcher are arguments (\<open>cmd_env\<close>). A match is \<open>None\<close> where the code would
  follow a null pointer or read past the end of a list.
\<close>

section \<open>Patterns\<close>

definition no_criteria :: sway_criteria where
  "no_criteria = \<lparr>crit_type = CT_NONE, crit_raw = [], crit_cmdlist = [], crit_target = None, crit_title = None,
     crit_shell = None, crit_app_id = None, crit_con_mark = None, crit_con_id = 0, crit_class = None,
     crit_id = 0, crit_instance = None, crit_window_role = None, crit_window_type = ATOM_LAST,
     crit_all = False, crit_floating = False, crit_tiling = False, crit_urgent = URGENT_ANY,
     crit_workspace = None, crit_pid = 0, crit_sandbox_engine = None, crit_sandbox_app_id = None,
     crit_sandbox_instance_id = None\<rparr>"

definition criteria_is_empty :: "sway_criteria \<Rightarrow> bool" where
  "criteria_is_empty c =
     (crit_title c = None \<and> crit_shell c = None \<and> \<not> crit_all c \<and> crit_app_id c = None \<and> crit_con_mark c = None \<and>
      crit_con_id c = 0 \<and> crit_class c = None \<and> crit_id c = 0 \<and> crit_instance c = None \<and>
      crit_window_role c = None \<and> crit_window_type c = ATOM_LAST \<and> \<not> crit_floating c \<and> \<not> crit_tiling c \<and>
      crit_urgent c = URGENT_ANY \<and> crit_workspace c = None \<and> crit_pid c = 0 \<and> crit_sandbox_engine c = None \<and>
      crit_sandbox_app_id c = None \<and> crit_sandbox_instance_id c = None)"

definition quoted :: "string \<Rightarrow> string" where
  "quoted x = [CHR 0x27] @ x @ [CHR 0x27]"

definition generate_regex :: "cmd_env \<Rightarrow> string \<Rightarrow> string + string" where
  "generate_regex e value =
     (case regex_error e value of
        None \<Rightarrow> Inr value
      | Some msg \<Rightarrow> Inl (''Regex compilation for '' @ quoted value @ '' failed: '' @ msg))"

definition pattern_create :: "cmd_env \<Rightarrow> string \<Rightarrow> string + pattern" where
  "pattern_create e value =
     (if value = ''__focused__'' then Inr \<lparr>match_type = PATTERN_FOCUSED, regex = None\<rparr>
      else case generate_regex e value of
          Inl err \<Rightarrow> Inl err
        | Inr r \<Rightarrow> Inr \<lparr>match_type = PATTERN_PCRE2, regex = Some r\<rparr>)"

section \<open>Parsing\<close>

datatype criteria_token = T_ALL | T_APP_ID | T_CON_ID | T_CON_MARK | T_FLOATING | T_CLASS | T_ID | T_INSTANCE
  | T_WINDOW_ROLE | T_WINDOW_TYPE | T_SHELL | T_TILING | T_TITLE | T_URGENT | T_WORKSPACE | T_PID
  | T_SANDBOX_ENGINE | T_SANDBOX_APP_ID | T_SANDBOX_INSTANCE_ID | T_INVALID

definition token_names :: "(string \<times> criteria_token) list" where
  "token_names = [(''all'', T_ALL), (''app_id'', T_APP_ID), (''con_id'', T_CON_ID), (''con_mark'', T_CON_MARK),
     (''class'', T_CLASS), (''id'', T_ID), (''instance'', T_INSTANCE), (''window_role'', T_WINDOW_ROLE),
     (''window_type'', T_WINDOW_TYPE), (''shell'', T_SHELL), (''title'', T_TITLE), (''urgent'', T_URGENT),
     (''workspace'', T_WORKSPACE), (''tiling'', T_TILING), (''floating'', T_FLOATING), (''pid'', T_PID),
     (''sandbox_engine'', T_SANDBOX_ENGINE), (''sandbox_app_id'', T_SANDBOX_APP_ID),
     (''sandbox_instance_id'', T_SANDBOX_INSTANCE_ID)]"

definition token_from_name :: "string \<Rightarrow> criteria_token" where
  "token_from_name name = (case map_of token_names name of Some t \<Rightarrow> t | None \<Rightarrow> T_INVALID)"

definition window_types :: "(string \<times> atom_name) list" where
  "window_types = [(''normal'', NET_WM_WINDOW_TYPE_NORMAL), (''dialog'', NET_WM_WINDOW_TYPE_DIALOG),
     (''utility'', NET_WM_WINDOW_TYPE_UTILITY), (''toolbar'', NET_WM_WINDOW_TYPE_TOOLBAR),
     (''splash'', NET_WM_WINDOW_TYPE_SPLASH), (''menu'', NET_WM_WINDOW_TYPE_MENU),
     (''dropdown_menu'', NET_WM_WINDOW_TYPE_DROPDOWN_MENU), (''popup_menu'', NET_WM_WINDOW_TYPE_POPUP_MENU),
     (''tooltip'', NET_WM_WINDOW_TYPE_TOOLTIP), (''notification'', NET_WM_WINDOW_TYPE_NOTIFICATION)]"

definition parse_window_type :: "string \<Rightarrow> atom_name" where
  "parse_window_type type =
     (case find (\<lambda>(n, t). strcasecmp_eq type n) window_types of Some (n, t) \<Rightarrow> t | None \<Rightarrow> ATOM_LAST)"

text \<open>\<open>strtoul (s, &end, 10)\<close> on a 64-bit \<open>long\<close>: a minus negates modulo \<open>2 ^ 64\<close>.\<close>

definition strtoul10 :: "string \<Rightarrow> nat \<times> string" where
  "strtoul10 s =
     (let s1 = dropWhile isspace s;
          (neg, s2) = (case s1 of [] \<Rightarrow> (False, s1)
                       | c # cs \<Rightarrow> if c = CHR ''-'' then (True, cs)
                                   else if c = CHR ''+'' then (False, cs) else (False, s1));
          ds = takeWhile isdigit s2;
          v = digits_val 10 digit_val ds
      in if ds = [] then (0, s)
         else (if v \<ge> 2 ^ 64 then 2 ^ 64 - 1 else if neg then (2 ^ 64 - v) mod 2 ^ 64 else v, dropWhile isdigit s2))"

definition set_pattern :: "cmd_env \<Rightarrow> ((pattern option \<Rightarrow> pattern option) \<Rightarrow> sway_criteria \<Rightarrow> sway_criteria) \<Rightarrow>
    string \<Rightarrow> sway_criteria \<Rightarrow> string + sway_criteria" where
  "set_pattern e upd value c =
     (case pattern_create e value of Inl err \<Rightarrow> Inl err | Inr p \<Rightarrow> Inr (upd (\<lambda>_. Some p) c))"

definition set_number :: "(nat \<Rightarrow> sway_criteria \<Rightarrow> sway_criteria) \<Rightarrow> string \<Rightarrow> string \<Rightarrow> sway_criteria \<Rightarrow> string + sway_criteria" where
  "set_number upd msg value c = (case strtoul10 value of (n, rest) \<Rightarrow> if rest \<noteq> [] then Inl msg else Inr (upd n c))"

definition set_urgency :: "string \<Rightarrow> sway_criteria \<Rightarrow> string + sway_criteria" where
  "set_urgency value c =
     (if value \<in> {''latest'', ''newest'', ''last'', ''recent''} then Inr (c\<lparr>crit_urgent := URGENT_LATEST\<rparr>)
      else if value \<in> {''oldest'', ''first''} then Inr (c\<lparr>crit_urgent := URGENT_OLDEST\<rparr>)
      else Inl (''The value for 'urgent' must be 'first', 'last', 'latest', 'newest', 'oldest' or 'recent'' @ [CHR 0x27]))"

definition set_token :: "cmd_env \<Rightarrow> sway \<Rightarrow> criteria_token \<Rightarrow> string \<Rightarrow> sway_criteria \<Rightarrow> string + sway_criteria" where
  "set_token e s token value c =
     (case token of
        T_ALL \<Rightarrow> Inr (c\<lparr>crit_all := True\<rparr>)
      | T_TITLE \<Rightarrow> set_pattern e crit_title_update value c
      | T_SHELL \<Rightarrow> set_pattern e crit_shell_update value c
      | T_APP_ID \<Rightarrow> set_pattern e crit_app_id_update value c
      | T_CON_ID \<Rightarrow>
          if value = ''__focused__''
          then Inr (c\<lparr>crit_con_id := (case seat_get_focused_container s (current_seat s) of Some f \<Rightarrow> f | None \<Rightarrow> 0)\<rparr>)
          else set_number (\<lambda>n. crit_con_id_update (\<lambda>_. n mod 2 ^ 32))
                 ''The value for 'con_id' should be '__focused__' or numeric'' value c
      | T_CON_MARK \<Rightarrow> set_pattern e crit_con_mark_update value c
      | T_CLASS \<Rightarrow> set_pattern e crit_class_update value c
      | T_ID \<Rightarrow> set_number (\<lambda>n. crit_id_update (\<lambda>_. n mod 2 ^ 32)) ''The value for 'id' should be numeric'' value c
      | T_INSTANCE \<Rightarrow> set_pattern e crit_instance_update value c
      | T_WINDOW_ROLE \<Rightarrow> set_pattern e crit_window_role_update value c
      | T_WINDOW_TYPE \<Rightarrow> Inr (c\<lparr>crit_window_type := parse_window_type value\<rparr>)
      | T_FLOATING \<Rightarrow> Inr (c\<lparr>crit_floating := True\<rparr>)
      | T_TILING \<Rightarrow> Inr (c\<lparr>crit_tiling := True\<rparr>)
      | T_URGENT \<Rightarrow> set_urgency value c
      | T_WORKSPACE \<Rightarrow> set_pattern e crit_workspace_update value c
      | T_PID \<Rightarrow> set_number (\<lambda>n. crit_pid_update (\<lambda>_. to_int32 (int n))) ''The value for 'pid' should be numeric'' value c
      | T_SANDBOX_ENGINE \<Rightarrow> set_pattern e crit_sandbox_engine_update value c
      | T_SANDBOX_APP_ID \<Rightarrow> set_pattern e crit_sandbox_app_id_update value c
      | T_SANDBOX_INSTANCE_ID \<Rightarrow> set_pattern e crit_sandbox_instance_id_update value c
      | T_INVALID \<Rightarrow> Inr c)"

text \<open>\<open>value\<close> is \<open>None\<close> for \<open>NULL\<close>.\<close>

definition parse_token :: "cmd_env \<Rightarrow> sway \<Rightarrow> string \<Rightarrow> string option \<Rightarrow> sway_criteria \<Rightarrow> string + sway_criteria" where
  "parse_token e s name value c =
     (let token = token_from_name name in
      if token = T_INVALID then Inl (''Token '' @ quoted name @ '' is not recognized'')
      else case value of
          None \<Rightarrow> if token \<noteq> T_ALL \<and> token \<noteq> T_FLOATING \<and> token \<noteq> T_TILING
                  then Inl (''Token '' @ quoted name @ '' requires a value'')
                  else set_token e s token [] c
        | Some v \<Rightarrow> set_token e s token v c)"

definition skip_spaces :: "string \<Rightarrow> string" where
  "skip_spaces = dropWhile (\<lambda>c. c = SPACE)"

text \<open>Removes a backslash that stands before a double quote.\<close>

fun unescape :: "string \<Rightarrow> string" where
  "unescape [] = []"
| "unescape [c] = [c]"
| "unescape (c # d # cs) = (if c = BACKSLASH \<and> d = DQUOTE then d # unescape cs else c # unescape (d # cs))"

text \<open>
  The text up to the closing quote; \<open>prev\<close> is the character before. \<open>None\<close>: no closing quote.
\<close>

fun quoted_value :: "char \<Rightarrow> string \<Rightarrow> (string \<times> string) option" where
  "quoted_value prev [] = None"
| "quoted_value prev (c # cs) =
     (if c = DQUOTE \<and> prev \<noteq> BACKSLASH then Some ([], cs)
      else map_option (\<lambda>(v, rest). (c # v, rest)) (quoted_value c cs))"

definition is_name_char :: "char \<Rightarrow> bool" where
  "is_name_char c = (let n = of_char c :: nat in 97 \<le> n \<and> n \<le> 122 \<or> c = CHR ''_'')"

text \<open>The value after a name, if there is one, and the rest; \<open>None\<close> is a quote mismatch.\<close>

definition token_value :: "string \<Rightarrow> (string option \<times> string) option" where
  "token_value head =
     (case head of
        c # cs \<Rightarrow>
          if c = CHR ''='' then
            (case skip_spaces cs of
               d # ds \<Rightarrow>
                 if d = DQUOTE then map_option (\<lambda>(v, rest). (Some (unescape v), rest)) (quoted_value DQUOTE ds)
                 else let stop = (\<lambda>x. x \<noteq> SPACE \<and> x \<noteq> CHR '']'') in
                   Some (Some (unescape (takeWhile stop (d # ds))), dropWhile stop (d # ds))
             | [] \<Rightarrow> Some (Some [], []))
          else Some (None, head)
      | [] \<Rightarrow> Some (None, []))"

text \<open>The loop over the tokens; \<open>n\<close> bounds the tokens (each takes a character of the text).\<close>

primrec criteria_tokens :: "nat \<Rightarrow> cmd_env \<Rightarrow> sway \<Rightarrow> string \<Rightarrow> sway_criteria \<Rightarrow> (string + sway_criteria \<times> string) option" where
  "criteria_tokens 0 e s head c = None"
| "criteria_tokens (Suc n) e s head c =
     (case head of
        [] \<Rightarrow> Some (Inr (c, head))
      | h # _ \<Rightarrow>
          if h = CHR '']'' then Some (Inr (c, head))
          else
            let head1 = skip_spaces head; name = takeWhile is_name_char head1 in
            case token_value (skip_spaces (dropWhile is_name_char head1)) of
              None \<Rightarrow> Some (Inl ''Quote mismatch in criteria'')
            | Some (value, head2) \<Rightarrow>
                (case parse_token e s name value c of
                   Inl err \<Rightarrow> Some (Inl err)
                 | Inr c1 \<Rightarrow> criteria_tokens n e s (skip_spaces head2) c1))"

definition criteria_parse :: "cmd_env \<Rightarrow> sway \<Rightarrow> string \<Rightarrow> (string + sway_criteria) option" where
  "criteria_parse e s raw =
     (case skip_spaces raw of
        [] \<Rightarrow> Some (Inl ''No criteria'')
      | h # head \<Rightarrow>
          if h \<noteq> CHR ''['' then Some (Inl ''No criteria'')
          else do {
            r \<leftarrow> criteria_tokens (Suc (length head)) e s head no_criteria;
            Some (case r of
                Inl err \<Rightarrow> Inl err
              | Inr (c, rest) \<Rightarrow>
                  if rest = [] then Inl ''No closing brace found in criteria''
                  else if criteria_is_empty c then Inl ''Criteria is empty''
                  else Inr (c\<lparr>crit_raw := take (length raw - length (tl rest)) raw\<rparr>)) })"

section \<open>Matching\<close>

definition view_has_window_type :: "sway \<Rightarrow> sway_view \<Rightarrow> atom_name \<Rightarrow> bool" where
  "view_has_window_type s v name =
     (view_type v = SWAY_VIEW_XWAYLAND \<and> list_ex (\<lambda>t. t = xwayland_atoms (env s) name) (view_window_types v))"

definition cmp_time :: "int \<times> int \<Rightarrow> int \<times> int \<Rightarrow> int" where
  "cmp_time a b =
     (if fst a < fst b then - 1 else if fst a > fst b then 1
      else if snd a < snd b then - 1 else if snd a > snd b then 1 else 0)"

definition urgent_since :: "sway \<Rightarrow> nat \<Rightarrow> int \<times> int" where
  "urgent_since s c = (case con_view (cons s c) of Some v \<Rightarrow> view_urgent v | None \<Rightarrow> (0, 0))"

definition cmp_urgent :: "sway \<Rightarrow> nat \<Rightarrow> nat \<Rightarrow> int" where
  "cmp_urgent s a b = cmp_time (urgent_since s a) (urgent_since s b)"

definition urgent_views :: "sway \<Rightarrow> nat list" where
  "urgent_views s =
     (let l = filter (is_urgent_con s) (root_containers s) in
      items (list_stable_sort \<lparr>capacity = length l, items = l\<rparr> (cmp_urgent s)))"

definition has_container_criteria :: "sway_criteria \<Rightarrow> bool" where
  "has_container_criteria c = (crit_con_mark c \<noteq> None \<or> crit_con_id c \<noteq> 0)"

definition criteria_matches_container :: "cmd_env \<Rightarrow> sway \<Rightarrow> sway_criteria \<Rightarrow> nat \<Rightarrow> bool" where
  "criteria_matches_container e s c con =
     ((case crit_con_mark c of
         None \<Rightarrow> True
       | Some p \<Rightarrow> list_ex (regex_matches e (regex p)) (con_marks (cons s con))) \<and>
      (crit_con_id c = 0 \<or> con = crit_con_id c))"

text \<open>
  A property of the view against a pattern. \<open>focused\<close> is the property of the focused view
  (\<open>None\<close>: no view has the focus, and then \<open>__focused__\<close> matches everything).
\<close>

definition match_pattern :: "cmd_env \<Rightarrow> pattern \<Rightarrow> string \<Rightarrow> string option option \<Rightarrow> bool" where
  "match_pattern e p value focused =
     (case match_type p of
        PATTERN_FOCUSED \<Rightarrow> (case focused of None \<Rightarrow> True | Some f \<Rightarrow> lenient_strcmp (Some value) f = 0)
      | PATTERN_PCRE2 \<Rightarrow> regex_matches e (regex p) value)"

definition match_text :: "cmd_env \<Rightarrow> pattern option \<Rightarrow> (sway_view \<Rightarrow> string option) \<Rightarrow> sway_view \<Rightarrow> sway_view option \<Rightarrow> bool" where
  "match_text e pat prop v focused =
     (case pat of
        None \<Rightarrow> True
      | Some p \<Rightarrow> match_pattern e p (case prop v of Some x \<Rightarrow> x | None \<Rightarrow> []) (map_option prop focused))"

text \<open>The same for a property that must be there.\<close>

definition match_sandbox :: "cmd_env \<Rightarrow> pattern option \<Rightarrow> (sway_view \<Rightarrow> string option) \<Rightarrow> sway_view \<Rightarrow> sway_view option \<Rightarrow> bool" where
  "match_sandbox e pat prop v focused =
     (case pat of
        None \<Rightarrow> True
      | Some p \<Rightarrow> (case prop v of None \<Rightarrow> False | Some x \<Rightarrow> match_pattern e p x (map_option prop focused)))"

definition match_urgent :: "sway \<Rightarrow> criteria_urgent \<Rightarrow> nat \<Rightarrow> bool option" where
  "match_urgent s u con =
     (if u = URGENT_ANY then Some True
      else if \<not> is_urgent_con s con then Some False
      else case urgent_views s of
          [] \<Rightarrow> None
        | v # vs \<Rightarrow> Some (con = (if u = URGENT_OLDEST then v else last (v # vs))))"

definition match_workspace :: "cmd_env \<Rightarrow> sway \<Rightarrow> pattern option \<Rightarrow> nat \<Rightarrow> nat option \<Rightarrow> bool option" where
  "match_workspace e s pat con focused =
     (case pat of
        None \<Rightarrow> Some True
      | Some p \<Rightarrow>
          (case workspace_of s con of
             None \<Rightarrow> Some False
           | Some w \<Rightarrow>
               if match_type p = PATTERN_FOCUSED then
                 (case focused of
                    None \<Rightarrow> Some True
                  | Some f \<Rightarrow> map_option (\<lambda>fw. ws_name (wss s w) = ws_name (wss s fw)) (workspace_of s f))
               else Some (regex_matches e (regex p) (ws_name (wss s w)))))"

definition matches_texts :: "cmd_env \<Rightarrow> sway_criteria \<Rightarrow> sway_view \<Rightarrow> sway_view option \<Rightarrow> bool" where
  "matches_texts e c v focused =
     (match_text e (crit_title c) view_title v focused \<and>
      match_text e (crit_shell c) (\<lambda>v. Some (view_get_shell v)) v focused \<and>
      match_text e (crit_app_id c) view_app_id v focused \<and>
      match_sandbox e (crit_sandbox_engine c) view_sandbox_engine v focused \<and>
      match_sandbox e (crit_sandbox_app_id c) view_sandbox_app_id v focused \<and>
      match_sandbox e (crit_sandbox_instance_id c) view_sandbox_instance_id v focused)"

definition matches_xwayland :: "cmd_env \<Rightarrow> sway \<Rightarrow> sway_criteria \<Rightarrow> sway_view \<Rightarrow> sway_view option \<Rightarrow> bool" where
  "matches_xwayland e s c v focused =
     ((crit_id c = 0 \<or> view_x11_window_id v \<noteq> 0 \<and> view_x11_window_id v = crit_id c) \<and>
      match_text e (crit_class c) view_class v focused \<and>
      match_text e (crit_instance c) view_instance v focused \<and>
      match_text e (crit_window_role c) view_window_role v focused \<and>
      (crit_window_type c = ATOM_LAST \<or> view_has_window_type s v (crit_window_type c)))"

definition focused_view :: "sway \<Rightarrow> nat option" where
  "focused_view s =
     (case seat_get_focused_container s (current_seat s) of
        Some f \<Rightarrow> if con_view (cons s f) \<noteq> None then Some f else None
      | None \<Rightarrow> None)"

definition criteria_matches_view :: "cmd_env \<Rightarrow> sway \<Rightarrow> sway_criteria \<Rightarrow> nat \<Rightarrow> bool option" where
  "criteria_matches_view e s c con =
     (case con_view (cons s con) of
        None \<Rightarrow> None
      | Some v \<Rightarrow>
          let f = focused_view s; fv = (case f of Some x \<Rightarrow> con_view (cons s x) | None \<Rightarrow> None) in
          if \<not> matches_texts e c v fv \<or> \<not> criteria_matches_container e s c con \<or> \<not> matches_xwayland e s c v fv \<or>
             (crit_floating c \<and> \<not> container_is_floating s con) \<or> (crit_tiling c \<and> container_is_floating s con)
          then Some False
          else do {
            u \<leftarrow> match_urgent s (crit_urgent c) con;
            if \<not> u then Some False
            else do {
              w \<leftarrow> match_workspace e s (crit_workspace c) con f;
              Some (w \<and> (crit_pid c = 0 \<or> crit_pid c = view_pid v)) } })"

text \<open>The positions in the configuration of the criteria of some types that match a view.\<close>

fun criteria_for :: "cmd_env \<Rightarrow> sway \<Rightarrow> criteria_type set \<Rightarrow> nat \<Rightarrow> nat \<Rightarrow> sway_criteria list \<Rightarrow> nat list option" where
  "criteria_for e s types con i [] = Some []"
| "criteria_for e s types con i (c # cs) = do {
     m \<leftarrow> (if crit_type c \<in> types then criteria_matches_view e s c con else Some False);
     rest \<leftarrow> criteria_for e s types con (i + 1) cs;
     Some (if m then i # rest else rest) }"

definition criteria_for_view :: "cmd_env \<Rightarrow> sway \<Rightarrow> criteria_type set \<Rightarrow> nat \<Rightarrow> nat list option" where
  "criteria_for_view e s types con = criteria_for e s types con 0 (cfg_criteria (cfg s))"

definition criteria_selects :: "cmd_env \<Rightarrow> sway \<Rightarrow> sway_criteria \<Rightarrow> nat \<Rightarrow> bool option" where
  "criteria_selects e s c con =
     (if con_view (cons s con) \<noteq> None then criteria_matches_view e s c con
      else Some (has_container_criteria c \<and> criteria_matches_container e s c con))"

fun select_containers :: "cmd_env \<Rightarrow> sway \<Rightarrow> sway_criteria \<Rightarrow> nat list \<Rightarrow> nat list option" where
  "select_containers e s c [] = Some []"
| "select_containers e s c (con # rest) = do {
     m \<leftarrow> criteria_selects e s c con;
     l \<leftarrow> select_containers e s c rest;
     Some (if m then con # l else l) }"

definition criteria_get_containers :: "cmd_env \<Rightarrow> sway \<Rightarrow> sway_criteria \<Rightarrow> nat list option" where
  "criteria_get_containers e s c = select_containers e s c (root_containers s)"

section \<open>Storing criteria\<close>

definition criteria_is_equal :: "sway_criteria \<Rightarrow> sway_criteria \<Rightarrow> bool" where
  "criteria_is_equal a b =
     (crit_type a = crit_type b \<and>
      (case crit_type a of
         CT_NO_FOCUS \<Rightarrow> crit_raw a = crit_raw b
       | CT_COMMAND \<Rightarrow> crit_raw a = crit_raw b \<and> crit_cmdlist a = crit_cmdlist b
       | _ \<Rightarrow> False))"

definition criteria_already_exists :: "sway \<Rightarrow> sway_criteria \<Rightarrow> bool" where
  "criteria_already_exists s c =
     ((crit_type c = CT_NO_FOCUS \<or> crit_type c = CT_COMMAND) \<and> list_ex (criteria_is_equal c) (cfg_criteria (cfg s)))"

definition add_criteria :: "sway_criteria \<Rightarrow> sway \<Rightarrow> sway" where
  "add_criteria c = cfg_update (cfg_criteria_update (\<lambda>l. l @ [c]))"

definition cmd_for_window :: handler where
  "cmd_for_window sf e h argv s = with_args argv ''for_window'' EXPECTED_AT_LEAST 2 s
     (do {
        r \<leftarrow> criteria_parse e s (hd argv);
        case r of
          Inl err \<Rightarrow> Some (invalid err, s)
        | Inr c \<Rightarrow> do {
            cmdlist \<leftarrow> join_args (tl argv);
            let c1 = c\<lparr>crit_type := CT_COMMAND, crit_cmdlist := cmdlist\<rparr>;
            Some (success, if criteria_already_exists s c1 then s else add_criteria c1 s) } })"

definition cmd_no_focus :: handler where
  "cmd_no_focus sf e h argv s = with_args argv ''no_focus'' EXPECTED_AT_LEAST 1 s
     (do {
        r \<leftarrow> criteria_parse e s (hd argv);
        case r of
          Inl err \<Rightarrow> Some (invalid err, s)
        | Inr c \<Rightarrow>
            let c1 = c\<lparr>crit_type := CT_NO_FOCUS\<rparr> in
            Some (success, if criteria_already_exists s c1 then s else add_criteria c1 s) })"

definition assign_arrow :: string where
  "assign_arrow = [CHR 0xE2, CHR 0x86, CHR 0x92]"

text \<open>
  The type and the target; the arguments end with a null pointer, and \<open>strcmp\<close> on it crashes.
  \<open>Inl\<close> is an error.
\<close>

definition assign_target :: "string list \<Rightarrow> (cmd_results + criteria_type \<times> string list) option" where
  "assign_target argv =
     (case argv of
        [] \<Rightarrow> None
      | a # as \<Rightarrow>
          if a = ''output'' then Some (Inr (CT_ASSIGN_OUTPUT, as))
          else case (if a = ''workspace'' then as else argv) of
              [] \<Rightarrow> None
            | b # bs \<Rightarrow>
                if b = ''number'' then
                  (case bs of
                     [] \<Rightarrow> None
                   | n # _ \<Rightarrow> if n = [] \<or> \<not> isdigit (hd n) then Some (Inl (invalid (''Invalid workspace number '' @ quoted n)))
                              else Some (Inr (CT_ASSIGN_WORKSPACE_NUMBER, bs)))
                else Some (Inr (CT_ASSIGN_WORKSPACE, b # bs)))"

definition cmd_assign :: handler where
  "cmd_assign sf e h argv s = with_args argv ''assign'' EXPECTED_AT_LEAST 2 s
     (do {
        r \<leftarrow> criteria_parse e s (hd argv);
        case r of
          Inl err \<Rightarrow> Some (invalid err, s)
        | Inr c \<Rightarrow>
            let arrow = has_prefix (argv ! 1) assign_arrow in
            if arrow \<and> length argv < 3 then Some (invalid ''Missing workspace'', s)
            else do {
              t \<leftarrow> assign_target (drop (if arrow then 2 else 1) argv);
              Some (case t of
                  Inl err \<Rightarrow> (err, s)
                | Inr (type, rest) \<Rightarrow> (success, add_criteria (c\<lparr>crit_type := type, crit_target := join_args rest\<rparr>) s)) } })"

end
