(* ===== verification/Commands.thy ===== *)
theory Commands
  imports Focus_Cmd Tree_Cmds Move_Cmd Resize_Cmd Workspace_Cmd Criteria Bind_Cmds String_Laws Transaction
begin

text \<open>
  \<open>sway/commands.c\<close>: the tables of commands, the search for a handler, the execution of a
  list of commands and of a line of the configuration, with \<open>view_execute_criteria\<close> of
  \<open>sway/tree/view.c\<close> and \<open>seat_execute_command\<close> of \<open>sway/commands/bind.c\<close>, which call them
  and are called by them. The handlers that are not modelled are the argument \<open>other\<close>.
\<close>

section \<open>The tables\<close>

definition core_handlers :: "cmd_handler list" where
  "core_handlers = [
    (''animation_duration_ms'', ''cmd_animation_duration_ms''), (''assign'', ''cmd_assign''), (''bar'', ''cmd_bar''),
    (''bindcode'', ''cmd_bindcode''), (''bindgesture'', ''cmd_bindgesture''), (''bindswitch'', ''cmd_bindswitch''),
    (''bindsym'', ''cmd_bindsym''), (''blur'', ''cmd_blur''), (''blur_brightness'', ''cmd_blur_brightness''),
    (''blur_contrast'', ''cmd_blur_contrast''), (''blur_noise'', ''cmd_blur_noise''),
    (''blur_passes'', ''cmd_blur_passes''), (''blur_radius'', ''cmd_blur_radius''),
    (''blur_saturation'', ''cmd_blur_saturation''), (''blur_xray'', ''cmd_blur_xray''),
    (''client.background'', ''cmd_client_noop''), (''client.focused'', ''cmd_client_focused''),
    (''client.focused_inactive'', ''cmd_client_focused_inactive''),
    (''client.focused_tab_title'', ''cmd_client_focused_tab_title''), (''client.placeholder'', ''cmd_client_noop''),
    (''client.unfocused'', ''cmd_client_unfocused''), (''client.urgent'', ''cmd_client_urgent''),
    (''corner_radius'', ''cmd_corner_radius''), (''default_border'', ''cmd_default_border''),
    (''default_dim_inactive'', ''cmd_default_dim_inactive''),
    (''default_floating_border'', ''cmd_default_floating_border''), (''dim_inactive'', ''cmd_dim_inactive''),
    (''dim_inactive_colors.unfocused'', ''cmd_dim_inactive_colors_unfocused''),
    (''dim_inactive_colors.urgent'', ''cmd_dim_inactive_colors_urgent''), (''dwindle'', ''cmd_dwindle''),
    (''exec'', ''cmd_exec''), (''exec_always'', ''cmd_exec_always''),
    (''floating_maximum_size'', ''cmd_floating_maximum_size''),
    (''floating_minimum_size'', ''cmd_floating_minimum_size''), (''floating_modifier'', ''cmd_floating_modifier''),
    (''focus'', ''cmd_focus''), (''focus_follows_mouse'', ''cmd_focus_follows_mouse''),
    (''focus_on_window_activation'', ''cmd_focus_on_window_activation''),
    (''focus_wrapping'', ''cmd_focus_wrapping''), (''font'', ''cmd_font''), (''for_window'', ''cmd_for_window''),
    (''force_display_urgency_hint'', ''cmd_force_display_urgency_hint''),
    (''force_focus_wrapping'', ''cmd_force_focus_wrapping''), (''fullscreen'', ''cmd_fullscreen''),
    (''gaps'', ''cmd_gaps''), (''hide_edge_borders'', ''cmd_hide_edge_borders''), (''input'', ''cmd_input''),
    (''layer_effects'', ''cmd_layer_effects''), (''layout'', ''cmd_layout''),
    (''liquid_glass'', ''cmd_liquid_glass''), (''liquid_glass_bezel_width'', ''cmd_liquid_glass_bezel_width''),
    (''liquid_glass_brightness_boost'', ''cmd_liquid_glass_brightness_boost''),
    (''liquid_glass_chromatic_aberration'', ''cmd_liquid_glass_chromatic_aberration''),
    (''liquid_glass_noise_intensity'', ''cmd_liquid_glass_noise_intensity''),
    (''liquid_glass_refraction_index'', ''cmd_liquid_glass_refraction_index''),
    (''liquid_glass_saturation_boost'', ''cmd_liquid_glass_saturation_boost''),
    (''liquid_glass_specular'', ''cmd_liquid_glass_specular''),
    (''liquid_glass_specular_angle'', ''cmd_liquid_glass_specular_angle''),
    (''liquid_glass_specular_opacity'', ''cmd_liquid_glass_specular_opacity''),
    (''liquid_glass_surface'', ''cmd_liquid_glass_surface''),
    (''liquid_glass_thickness'', ''cmd_liquid_glass_thickness''), (''mode'', ''cmd_mode''),
    (''mouse_warping'', ''cmd_mouse_warping''), (''new_float'', ''cmd_new_float''),
    (''new_window'', ''cmd_new_window''), (''no_focus'', ''cmd_no_focus''), (''output'', ''cmd_output''),
    (''popup_during_fullscreen'', ''cmd_popup_during_fullscreen''),
    (''scrollable_tiling_touchpad_pinch_resize'', ''cmd_scrollable_tiling_touchpad_pinch_resize''),
    (''scrollable_tiling_touchpad_pinch_resize_factor'', ''cmd_scrollable_tiling_touchpad_pinch_resize_factor''),
    (''scrollable_tiling_touchpad_scroll'', ''cmd_scrollable_tiling_touchpad_scroll''),
    (''scrollable_tiling_touchpad_scroll_factor'', ''cmd_scrollable_tiling_touchpad_scroll_factor''),
    (''seat'', ''cmd_seat''), (''set'', ''cmd_set''), (''shadow_blur_radius'', ''cmd_shadow_blur_radius''),
    (''shadow_color'', ''cmd_shadow_color''), (''shadow_inactive_color'', ''cmd_shadow_inactive_color''),
    (''shadow_offset'', ''cmd_shadow_offset''), (''shadows'', ''cmd_shadows''),
    (''shadows_on_csd'', ''cmd_shadows_on_csd''), (''show_marks'', ''cmd_show_marks''),
    (''smart_borders'', ''cmd_smart_borders''), (''smart_corner_radius'', ''cmd_smart_corner_radius''),
    (''smart_gaps'', ''cmd_smart_gaps''), (''tiling_drag'', ''cmd_tiling_drag''),
    (''tiling_drag_threshold'', ''cmd_tiling_drag_threshold''), (''title_align'', ''cmd_title_align''),
    (''titlebar_border_thickness'', ''cmd_titlebar_border_thickness''),
    (''titlebar_padding'', ''cmd_titlebar_padding''), (''titlebar_separator'', ''cmd_titlebar_separator''),
    (''unbindcode'', ''cmd_unbindcode''), (''unbindgesture'', ''cmd_unbindgesture''),
    (''unbindswitch'', ''cmd_unbindswitch''), (''unbindsym'', ''cmd_unbindsym''),
    (''window_close_curve'', ''cmd_window_close_curve''),
    (''window_close_duration_ms'', ''cmd_window_close_duration_ms''),
    (''window_fullscreen_curve'', ''cmd_window_fullscreen_curve''),
    (''window_fullscreen_duration_ms'', ''cmd_window_fullscreen_duration_ms''),
    (''window_open_animation_delay'', ''cmd_window_open_animation_delay''),
    (''window_open_curve'', ''cmd_window_open_curve''),
    (''window_open_duration_ms'', ''cmd_window_open_duration_ms''),
    (''window_resize_curve'', ''cmd_window_resize_curve''),
    (''window_resize_duration_ms'', ''cmd_window_resize_duration_ms''), (''workspace'', ''cmd_workspace''),
    (''workspace_auto_back_and_forth'', ''cmd_ws_auto_back_and_forth'')]"

definition config_handlers :: "cmd_handler list" where
  "config_handlers = [
    (''default_orientation'', ''cmd_default_orientation''), (''include'', ''cmd_include''),
    (''primary_selection'', ''cmd_primary_selection''), (''scratchpad_minimize'', ''cmd_scratchpad_minimize''),
    (''swaybg_command'', ''cmd_swaybg_command''), (''swaynag_command'', ''cmd_swaynag_command''),
    (''workspace_anim_duration_ms'', ''cmd_workspace_anim_duration_ms''),
    (''workspace_anim_step_ms'', ''cmd_workspace_anim_step_ms''), (''workspace_layout'', ''cmd_workspace_layout''),
    (''workspace_switch_anim'', ''cmd_workspace_switch_anim''),
    (''workspace_switch_curve'', ''cmd_workspace_switch_curve''), (''xwayland'', ''cmd_xwayland'')]"

definition command_handlers :: "cmd_handler list" where
  "command_handlers = [
    (''allow_tearing'', ''cmd_allow_tearing''), (''border'', ''cmd_border''),
    (''create_output'', ''cmd_create_output''), (''exit'', ''cmd_exit''), (''floating'', ''cmd_floating''),
    (''fullscreen'', ''cmd_fullscreen''), (''inhibit_idle'', ''cmd_inhibit_idle''), (''kill'', ''cmd_kill''),
    (''mark'', ''cmd_mark''), (''max_render_time'', ''cmd_max_render_time''), (''maximize'', ''cmd_maximize''),
    (''move'', ''cmd_move''), (''nop'', ''cmd_nop''), (''opacity'', ''cmd_opacity''), (''reload'', ''cmd_reload''),
    (''rename'', ''cmd_rename''), (''resize'', ''cmd_resize''), (''scratchpad'', ''cmd_scratchpad''),
    (''scroll'', ''cmd_scroll''), (''shortcuts_inhibitor'', ''cmd_shortcuts_inhibitor''), (''split'', ''cmd_split''),
    (''splith'', ''cmd_splith''), (''splitt'', ''cmd_splitt''), (''splitv'', ''cmd_splitv''),
    (''sticky'', ''cmd_sticky''), (''swap'', ''cmd_swap''), (''title_format'', ''cmd_title_format''),
    (''unmark'', ''cmd_unmark''), (''urgent'', ''cmd_urgent'')]"

definition core_functions :: "(string \<times> handler) list" where
  "core_functions = [
    (''cmd_allow_tearing'', cmd_allow_tearing), (''cmd_animation_duration_ms'', cmd_animation_duration_ms),
    (''cmd_assign'', cmd_assign), (''cmd_bindcode'', cmd_bindcode), (''cmd_bindgesture'', cmd_bindgesture),
    (''cmd_bindswitch'', cmd_bindswitch), (''cmd_bindsym'', cmd_bindsym), (''cmd_blur'', cmd_blur),
    (''cmd_blur_brightness'', cmd_blur_brightness), (''cmd_blur_contrast'', cmd_blur_contrast),
    (''cmd_blur_noise'', cmd_blur_noise), (''cmd_blur_passes'', cmd_blur_passes),
    (''cmd_blur_radius'', cmd_blur_radius), (''cmd_blur_saturation'', cmd_blur_saturation),
    (''cmd_blur_xray'', cmd_blur_xray), (''cmd_border'', cmd_border), (''cmd_client_focused'', cmd_client_focused),
    (''cmd_client_focused_inactive'', cmd_client_focused_inactive),
    (''cmd_client_focused_tab_title'', cmd_client_focused_tab_title), (''cmd_client_noop'', cmd_client_noop),
    (''cmd_client_unfocused'', cmd_client_unfocused), (''cmd_client_urgent'', cmd_client_urgent),
    (''cmd_corner_radius'', cmd_corner_radius), (''cmd_default_border'', cmd_default_border),
    (''cmd_default_dim_inactive'', cmd_default_dim_inactive),
    (''cmd_default_floating_border'', cmd_default_floating_border),
    (''cmd_default_orientation'', cmd_default_orientation), (''cmd_dim_inactive'', cmd_dim_inactive),
    (''cmd_dim_inactive_colors_unfocused'', cmd_dim_inactive_colors_unfocused),
    (''cmd_dim_inactive_colors_urgent'', cmd_dim_inactive_colors_urgent), (''cmd_dwindle'', cmd_dwindle),
    (''cmd_floating'', cmd_floating), (''cmd_floating_maximum_size'', cmd_floating_maximum_size),
    (''cmd_floating_minimum_size'', cmd_floating_minimum_size), (''cmd_floating_modifier'', cmd_floating_modifier),
    (''cmd_focus'', cmd_focus), (''cmd_focus_follows_mouse'', cmd_focus_follows_mouse),
    (''cmd_focus_on_window_activation'', cmd_focus_on_window_activation),
    (''cmd_focus_wrapping'', cmd_focus_wrapping), (''cmd_font'', cmd_font), (''cmd_for_window'', cmd_for_window),
    (''cmd_force_display_urgency_hint'', cmd_force_display_urgency_hint),
    (''cmd_force_focus_wrapping'', cmd_force_focus_wrapping), (''cmd_fullscreen'', cmd_fullscreen),
    (''cmd_gaps'', cmd_gaps), (''cmd_hide_edge_borders'', cmd_hide_edge_borders), (''cmd_kill'', cmd_kill),
    (''cmd_layout'', cmd_layout), (''cmd_liquid_glass'', cmd_liquid_glass),
    (''cmd_liquid_glass_bezel_width'', cmd_liquid_glass_bezel_width),
    (''cmd_liquid_glass_brightness_boost'', cmd_liquid_glass_brightness_boost),
    (''cmd_liquid_glass_chromatic_aberration'', cmd_liquid_glass_chromatic_aberration),
    (''cmd_liquid_glass_noise_intensity'', cmd_liquid_glass_noise_intensity),
    (''cmd_liquid_glass_refraction_index'', cmd_liquid_glass_refraction_index),
    (''cmd_liquid_glass_saturation_boost'', cmd_liquid_glass_saturation_boost),
    (''cmd_liquid_glass_specular'', cmd_liquid_glass_specular),
    (''cmd_liquid_glass_specular_angle'', cmd_liquid_glass_specular_angle),
    (''cmd_liquid_glass_specular_opacity'', cmd_liquid_glass_specular_opacity),
    (''cmd_liquid_glass_surface'', cmd_liquid_glass_surface),
    (''cmd_liquid_glass_thickness'', cmd_liquid_glass_thickness), (''cmd_mark'', cmd_mark),
    (''cmd_max_render_time'', cmd_max_render_time), (''cmd_maximize'', cmd_maximize), (''cmd_mode'', cmd_mode),
    (''cmd_mouse_warping'', cmd_mouse_warping), (''cmd_move'', cmd_move), (''cmd_new_float'', cmd_new_float),
    (''cmd_new_window'', cmd_new_window), (''cmd_no_focus'', cmd_no_focus), (''cmd_nop'', cmd_nop),
    (''cmd_opacity'', cmd_opacity), (''cmd_popup_during_fullscreen'', cmd_popup_during_fullscreen),
    (''cmd_primary_selection'', cmd_primary_selection), (''cmd_rename'', cmd_rename), (''cmd_resize'', cmd_resize),
    (''cmd_scratchpad'', cmd_scratchpad), (''cmd_scratchpad_minimize'', cmd_scratchpad_minimize),
    (''cmd_scroll'', cmd_scroll),
    (''cmd_scrollable_tiling_touchpad_pinch_resize'', cmd_scrollable_tiling_touchpad_pinch_resize),
    (''cmd_scrollable_tiling_touchpad_pinch_resize_factor'', cmd_scrollable_tiling_touchpad_pinch_resize_factor),
    (''cmd_scrollable_tiling_touchpad_scroll'', cmd_scrollable_tiling_touchpad_scroll),
    (''cmd_scrollable_tiling_touchpad_scroll_factor'', cmd_scrollable_tiling_touchpad_scroll_factor),
    (''cmd_set'', cmd_set), (''cmd_shadow_blur_radius'', cmd_shadow_blur_radius),
    (''cmd_shadow_color'', cmd_shadow_color), (''cmd_shadow_inactive_color'', cmd_shadow_inactive_color),
    (''cmd_shadow_offset'', cmd_shadow_offset), (''cmd_shadows'', cmd_shadows),
    (''cmd_shadows_on_csd'', cmd_shadows_on_csd), (''cmd_shortcuts_inhibitor'', cmd_shortcuts_inhibitor),
    (''cmd_show_marks'', cmd_show_marks), (''cmd_smart_borders'', cmd_smart_borders),
    (''cmd_smart_corner_radius'', cmd_smart_corner_radius), (''cmd_smart_gaps'', cmd_smart_gaps),
    (''cmd_split'', cmd_split), (''cmd_splith'', cmd_splith), (''cmd_splitt'', cmd_splitt),
    (''cmd_splitv'', cmd_splitv), (''cmd_sticky'', cmd_sticky), (''cmd_swap'', cmd_swap),
    (''cmd_swaybg_command'', cmd_swaybg_command), (''cmd_swaynag_command'', cmd_swaynag_command),
    (''cmd_tiling_drag'', cmd_tiling_drag), (''cmd_tiling_drag_threshold'', cmd_tiling_drag_threshold),
    (''cmd_title_align'', cmd_title_align), (''cmd_title_format'', cmd_title_format),
    (''cmd_titlebar_border_thickness'', cmd_titlebar_border_thickness),
    (''cmd_titlebar_padding'', cmd_titlebar_padding), (''cmd_titlebar_separator'', cmd_titlebar_separator),
    (''cmd_unbindcode'', cmd_unbindcode), (''cmd_unbindgesture'', cmd_unbindgesture),
    (''cmd_unbindswitch'', cmd_unbindswitch), (''cmd_unbindsym'', cmd_unbindsym), (''cmd_unmark'', cmd_unmark),
    (''cmd_urgent'', cmd_urgent), (''cmd_window_close_curve'', cmd_window_close_curve),
    (''cmd_window_close_duration_ms'', cmd_window_close_duration_ms),
    (''cmd_window_fullscreen_curve'', cmd_window_fullscreen_curve),
    (''cmd_window_fullscreen_duration_ms'', cmd_window_fullscreen_duration_ms),
    (''cmd_window_open_animation_delay'', cmd_window_open_animation_delay),
    (''cmd_window_open_curve'', cmd_window_open_curve),
    (''cmd_window_open_duration_ms'', cmd_window_open_duration_ms),
    (''cmd_window_resize_curve'', cmd_window_resize_curve),
    (''cmd_window_resize_duration_ms'', cmd_window_resize_duration_ms), (''cmd_workspace'', cmd_workspace),
    (''cmd_workspace_anim_duration_ms'', cmd_workspace_anim_duration_ms),
    (''cmd_workspace_anim_step_ms'', cmd_workspace_anim_step_ms), (''cmd_workspace_layout'', cmd_workspace_layout),
    (''cmd_workspace_switch_anim'', cmd_workspace_switch_anim),
    (''cmd_workspace_switch_curve'', cmd_workspace_switch_curve),
    (''cmd_ws_auto_back_and_forth'', cmd_ws_auto_back_and_forth), (''cmd_xwayland'', cmd_xwayland)]"

section \<open>Finding a handler\<close>

definition find_handler_ex :: "sway \<Rightarrow> string \<Rightarrow> cmd_handler list \<Rightarrow> cmd_handler list \<Rightarrow> cmd_handler list \<Rightarrow> cmd_handler option" where
  "find_handler_ex s line config_table command_table table =
     (let f = cfg_flags (cfg s);
          handler = (if fl_reading f then find_handler line config_table
                     else if fl_active f then find_handler line command_table else None)
      in case handler of Some x \<Rightarrow> Some x | None \<Rightarrow> find_handler line table)"

definition find_core_handler :: "sway \<Rightarrow> string \<Rightarrow> cmd_handler option" where
  "find_core_handler s line = find_handler_ex s line config_handlers command_handlers core_handlers"

definition handle :: "(string \<Rightarrow> handler) \<Rightarrow> cmd_handler \<Rightarrow> handler" where
  "handle other entry = (case map_of core_functions (snd entry) of Some f \<Rightarrow> f | None \<Rightarrow> other (snd entry))"

section \<open>Executing commands\<close>

definition begins_with_quote :: "string \<Rightarrow> bool" where
  "begins_with_quote a = (a \<noteq> [] \<and> (hd a = DQUOTE \<or> hd a = SQUOTE))"

text \<open>The arguments with the quotes stripped, except for the commands that need them.\<close>

definition strip_argv :: "string list \<Rightarrow> string list" where
  "strip_argv argv =
     (if hd argv = ''exec'' \<or> hd argv = ''exec_always'' \<or> hd argv = ''mode'' then argv
      else hd argv # map (\<lambda>a. if begins_with_quote a then strip_quotes a else a) (tl argv))"

text \<open>Variables are replaced in all arguments but the name of the command and the first one of \<open>set\<close>.\<close>

definition replace_vars :: "sway \<Rightarrow> nat \<Rightarrow> string list \<Rightarrow> string list" where
  "replace_vars s from argv = take from argv @ map (do_var_replacement s) (drop from argv)"

text \<open>
  One command on every container that the criteria select: the last failure is the result,
  and an invalid command stops (\<open>True\<close>).
\<close>

fun run_on_all :: "(handler_context \<Rightarrow> sway \<Rightarrow> cmd_outcome) \<Rightarrow> nat \<Rightarrow> nat list \<Rightarrow> cmd_results option \<Rightarrow> sway \<Rightarrow>
    (bool \<times> cmd_results \<times> sway) option" where
  "run_on_all f seat [] fail_res s = Some (False, case fail_res of Some r \<Rightarrow> r | None \<Rightarrow> success, s)"
| "run_on_all f seat (c # cs) fail_res s = do {
     (r, s1) \<leftarrow> f (set_config_node s (Some (N_CONTAINER c)) True seat) s;
     if res_status r = CMD_SUCCESS then run_on_all f seat cs fail_res s1
     else if res_status r = CMD_INVALID then Some (True, r, s1)
     else run_on_all f seat cs (Some r) s1 }"

text \<open>
  One command of a list: whether it stops the list, its result and the state. \<open>targets\<close> are
  the containers of the criteria, \<open>None\<close> without criteria; \<open>con\<close> overrides the focus.
\<close>

definition run_command :: "(string \<Rightarrow> handler) \<Rightarrow> refocus_op \<Rightarrow> cmd_env \<Rightarrow> nat \<Rightarrow> nat option \<Rightarrow> nat list option \<Rightarrow>
    string \<Rightarrow> sway \<Rightarrow> (bool \<times> cmd_results \<times> sway) option" where
  "run_command other sf e seat con targets cmd s =
     (case split_args (Some cmd) of
        [] \<Rightarrow> None
      | a # as \<Rightarrow>
          let argv = strip_argv (a # as) in
          case find_core_handler s a of
            None \<Rightarrow> Some (True, invalid (''Unknown/invalid command '' @ quoted a), s)
          | Some entry \<Rightarrow>
              let args = tl (replace_vars s (if snd entry = ''cmd_set'' then 2 else 1) argv);
                  f = (\<lambda>h. handle other entry sf e h args) in
              case targets of
                None \<Rightarrow> do {
                  let h = (case con of
                      Some c \<Rightarrow> set_config_node s (Some (N_CONTAINER c)) True seat
                    | None \<Rightarrow> set_config_node s (seat_get_focus_inactive s seat N_ROOT) False seat);
                  (r, s1) \<leftarrow> f h s;
                  Some (res_status r = CMD_INVALID, r, s1) }
              | Some [] \<Rightarrow> Some (False, failure ''No matching node.'', s)
              | Some cs \<Rightarrow> run_on_all f seat cs None s)"

text \<open>The text after criteria and the containers they select; criteria hold for the commands up to the next \<open>;\<close>.\<close>

definition read_criteria :: "cmd_env \<Rightarrow> char \<Rightarrow> nat list option \<Rightarrow> string \<Rightarrow> sway \<Rightarrow> (string + string \<times> nat list option) option" where
  "read_criteria e matched_delim targets head s =
     (if matched_delim \<noteq> CHR '';'' then Some (Inr (head, targets))
      else if head = [] \<or> hd head \<noteq> CHR ''['' then Some (Inr (head, None))
      else do {
        r \<leftarrow> criteria_parse e s head;
        case r of
          Inl err \<Rightarrow> Some (Inl err)
        | Inr c \<Rightarrow> do {
            containers \<leftarrow> criteria_get_containers e s c;
            Some (Inr (dropWhile isspace (drop (length (crit_raw c)) head), Some containers)) } })"

lemma read_criteria_shortens: "read_criteria e d targets head s = Some (Inr (head', targets')) \<Longrightarrow> length head' \<le> length head"
  unfolding read_criteria_def
  by (auto split: if_splits Option.bind_splits sum.splits intro: order.trans [OF length_dropWhile_le])

lemma argsep_shortens: "argsep str delim = (tok, Some rest, d) \<Longrightarrow> length rest < length str"
  using argsep_decompose [where s = str and delim = delim] by auto

lemma loop_shortens:
  assumes "read_criteria e d targets (dropWhile isspace head) s = Some (Inr (head1, targets1))"
    "(tok, Some rest1, d') = argsep head1 '';,''"
  shows "length rest1 < length head"
proof -
  have "length head1 \<le> length head"
    using read_criteria_shortens [OF assms(1)] length_dropWhile_le [of isspace head] by simp
  moreover have "length rest1 < length head1" using argsep_shortens assms(2) by metis
  ultimately show ?thesis by simp
qed

function command_loop :: "(string \<Rightarrow> handler) \<Rightarrow> refocus_op \<Rightarrow> cmd_env \<Rightarrow> nat \<Rightarrow> nat option \<Rightarrow> char \<Rightarrow> nat list option \<Rightarrow>
    string \<Rightarrow> sway \<Rightarrow> (cmd_results list \<times> sway) option" where
  "command_loop other sf e seat con matched_delim targets head s =
     (case read_criteria e matched_delim targets (dropWhile isspace head) s of
        None \<Rightarrow> None
      | Some (Inl err) \<Rightarrow> Some ([invalid err], s)
      | Some (Inr (head1, targets1)) \<Rightarrow>
          (case argsep head1 '';,'' of (tok, rest, delim) \<Rightarrow>
             let cmd = dropWhile isspace tok;
                 outcome = (if cmd = [] then Some (False, [], s)
                            else map_option (\<lambda>(stop, r, s1). (stop, [r], s1)) (run_command other sf e seat con targets1 cmd s))
             in case outcome of
                  None \<Rightarrow> None
                | Some (stop, res, s1) \<Rightarrow>
                    (case rest of
                       None \<Rightarrow> Some (res, s1)
                     | Some rest1 \<Rightarrow>
                         if stop then Some (res, s1)
                         else map_option (\<lambda>(more, s2). (res @ more, s2))
                                (command_loop other sf e seat con delim targets1 rest1 s1))))"
  by pat_completeness auto
termination
  by (relation "measure (\<lambda>(_, _, _, _, _, _, _, head, _). length head)") (auto dest: loop_shortens sym [of _ "argsep _ _"])

declare command_loop.simps [simp del]

text \<open>
  The whole of \<open>view_execute_criteria\<close> for the view of container \<open>con\<close>, with \<open>run\<close> to
  execute a command list. A criterion is marked as executed before its commands run, and the
  list of the matching criteria is fixed before the first of them.
\<close>

fun execute_criteria_list :: "(string \<Rightarrow> nat \<Rightarrow> sway \<Rightarrow> sway option) \<Rightarrow> nat \<Rightarrow> nat list \<Rightarrow> sway \<Rightarrow> sway option" where
  "execute_criteria_list run con [] s = Some s"
| "execute_criteria_list run con (i # is) s =
     (case con_view (cons s con) of
        None \<Rightarrow> None
      | Some v \<Rightarrow>
          if i \<in> set (view_executed_criteria v) then execute_criteria_list run con is s
          else
            let s1 = upd_con con (con_view_update (map_option (view_executed_criteria_update (\<lambda>l. l @ [i])))) s in
            case run (crit_cmdlist (cfg_criteria (cfg s) ! i)) con s1 of
              None \<Rightarrow> None
            | Some s2 \<Rightarrow> execute_criteria_list run con is s2)"

definition view_execute_criteria_with :: "(string \<Rightarrow> nat \<Rightarrow> sway \<Rightarrow> sway option) \<Rightarrow> cmd_env \<Rightarrow> nat \<Rightarrow> sway \<Rightarrow> sway option" where
  "view_execute_criteria_with run e con s = do {
     l \<leftarrow> criteria_for_view e s {CT_COMMAND} con;
     execute_criteria_list run con l s }"

text \<open>
  \<open>execute_command\<close>, with room for \<open>n\<close> nested executions: a command may change a view so
  that criteria match it, whose commands are executed in turn. Without a seat it is the default
  one.
\<close>

primrec execute_command :: "nat \<Rightarrow> (string \<Rightarrow> handler) \<Rightarrow> refocus_op \<Rightarrow> cmd_env \<Rightarrow> string \<Rightarrow> nat option \<Rightarrow> nat option \<Rightarrow>
    sway \<Rightarrow> (cmd_results list \<times> sway) option" where
  "execute_command 0 other sf e exec seat con s = None"
| "execute_command (Suc n) other sf e exec seat con s =
     (let run = (\<lambda>cmdlist c s. map_option snd (execute_command n other sf e cmdlist None (Some c) s));
          e1 = e\<lparr>execute_criteria := view_execute_criteria_with run e\<rparr>
      in command_loop other sf e1 (case seat of Some i \<Rightarrow> i | None \<Rightarrow> default_seat s) con CHR '';'' None exec s)"

definition view_execute_criteria :: "nat \<Rightarrow> (string \<Rightarrow> handler) \<Rightarrow> refocus_op \<Rightarrow> cmd_env \<Rightarrow> nat \<Rightarrow> sway \<Rightarrow> sway option" where
  "view_execute_criteria n other sf e =
     view_execute_criteria_with (\<lambda>cmdlist c s. map_option snd (execute_command n other sf e cmdlist None (Some c) s)) e"

text \<open>A binding runs its command, or waits until the compositor is active, and its changes are committed.\<close>

definition defer_binding :: "nat \<Rightarrow> sway_binding \<Rightarrow> sway \<Rightarrow> sway" where
  "defer_binding seat b = upd_seat seat (seat_deferred_bindings_update (\<lambda>l. l @ [b]))"

definition binding_container :: "cmd_env \<Rightarrow> nat \<Rightarrow> sway_binding \<Rightarrow> nat option" where
  "binding_container e seat b =
     (if binding_type b = BINDING_MOUSESYM \<or> binding_type b = BINDING_MOUSECODE
      then (case node_under_cursor e seat of Some (N_CONTAINER c) \<Rightarrow> Some c | _ \<Rightarrow> None)
      else None)"

definition seat_execute_command :: "nat \<Rightarrow> (string \<Rightarrow> handler) \<Rightarrow> refocus_op \<Rightarrow> cmd_env \<Rightarrow> (nat \<Rightarrow> nat) \<Rightarrow> nat \<Rightarrow> sway_binding \<Rightarrow>
    txn_state \<Rightarrow> txn_state option" where
  "seat_execute_command n other sf e serials seat b x =
     (if \<not> fl_active (cfg_flags (cfg (tx_sway x))) then Some (x\<lparr>tx_sway := defer_binding seat b (tx_sway x)\<rparr>)
      else do {
        (res, s1) \<leftarrow> execute_command n other sf e (binding_command b) (Some seat) (binding_container e seat b) (tx_sway x);
        transaction_commit_dirty serials (x\<lparr>tx_sway := s1\<rparr>) })"

text \<open>
  The queue of the commands that the configuration could not run yet, and of the bindings of
  every seat. An element is removed after it ran; a command may add to the queue, so the loop
  takes fuel.
\<close>

primrec run_deferred_commands :: "nat \<Rightarrow> nat \<Rightarrow> (string \<Rightarrow> handler) \<Rightarrow> refocus_op \<Rightarrow> cmd_env \<Rightarrow> sway \<Rightarrow> sway option" where
  "run_deferred_commands 0 n other sf e s = None"
| "run_deferred_commands (Suc k) n other sf e s =
     (case cfg_cmd_queue (cfg s) of
        [] \<Rightarrow> Some s
      | line # _ \<Rightarrow> do {
          (res, s1) \<leftarrow> execute_command n other sf e line None None s;
          run_deferred_commands k n other sf e (cfg_update (cfg_cmd_queue_update tl) s1) })"

primrec run_bindings_of :: "nat \<Rightarrow> nat \<Rightarrow> (string \<Rightarrow> handler) \<Rightarrow> refocus_op \<Rightarrow> cmd_env \<Rightarrow> (nat \<Rightarrow> nat) \<Rightarrow> nat \<Rightarrow> txn_state \<Rightarrow> txn_state option" where
  "run_bindings_of 0 n other sf e serials seat x = None"
| "run_bindings_of (Suc k) n other sf e serials seat x =
     (case seat_deferred_bindings (seats (tx_sway x) seat) of
        [] \<Rightarrow> Some x
      | b # _ \<Rightarrow> do {
          x1 \<leftarrow> seat_execute_command n other sf e serials seat b x;
          run_bindings_of k n other sf e serials seat
            (x1\<lparr>tx_sway := upd_seat seat (seat_deferred_bindings_update tl) (tx_sway x1)\<rparr>) })"

fun run_deferred_bindings :: "nat \<Rightarrow> nat \<Rightarrow> (string \<Rightarrow> handler) \<Rightarrow> refocus_op \<Rightarrow> cmd_env \<Rightarrow> (nat \<Rightarrow> nat) \<Rightarrow> nat list \<Rightarrow> txn_state \<Rightarrow> txn_state option" where
  "run_deferred_bindings k n other sf e serials [] x = Some x"
| "run_deferred_bindings k n other sf e serials (i # is) x = do {
     x1 \<leftarrow> run_bindings_of k n other sf e serials i x;
     run_deferred_bindings k n other sf e serials is x1 }"

section \<open>Lines of the configuration\<close>

text \<open>
  The handlers whose arguments keep their quotes. The escapes are replaced in the arguments of
  all handlers, but for the name of the variable of \<open>set\<close>.
\<close>

definition quoting_handlers :: "string list" where
  "quoting_handlers = [''cmd_exec'', ''cmd_exec_always'', ''cmd_mode'', ''cmd_bindsym'', ''cmd_bindcode'',
     ''cmd_bindswitch'', ''cmd_bindgesture'', ''cmd_set'', ''cmd_for_window'']"

fun unescape_args :: "bool \<Rightarrow> string list \<Rightarrow> string list option" where
  "unescape_args strip [] = Some []"
| "unescape_args strip (a # as) = do {
     (_, b) \<leftarrow> unescape_string (if strip \<and> begins_with_quote a then strip_quotes a else a);
     rest \<leftarrow> unescape_args strip as;
     Some (b # rest) }"

text \<open>The arguments after the replacement of variables, and what is run on them.\<close>

definition run_config_command :: "(string \<Rightarrow> handler) \<Rightarrow> refocus_op \<Rightarrow> cmd_env \<Rightarrow> handler_context \<Rightarrow> string list \<Rightarrow> sway \<Rightarrow> cmd_outcome" where
  "run_config_command other sf e h argv s =
     (case find_core_handler s (hd argv) of
        None \<Rightarrow> Some (invalid (''Unknown/invalid command '' @ quoted (hd argv)), s)
      | Some entry \<Rightarrow> do {
          let is_set = (snd entry = ''cmd_set'');
          let argv1 = (if is_set \<and> length argv > 1 \<and> has_prefix (argv ! 1) ''$'' then argv[1 := CHR ''$'' # argv ! 1] else argv);
          joined \<leftarrow> join_args argv1;
          let argv2 = split_args (Some (do_var_replacement s joined));
          let from = (if is_set then 2 else 1);
          args \<leftarrow> unescape_args (snd entry \<notin> set quoting_handlers) (drop from argv2);
          handle other entry sf e h (tl (take from argv2 @ args)) s })"

text \<open>The result, the name of a block that the line opens, and the state.\<close>

definition config_command :: "(string \<Rightarrow> handler) \<Rightarrow> refocus_op \<Rightarrow> cmd_env \<Rightarrow> handler_context \<Rightarrow> string \<Rightarrow> sway \<Rightarrow>
    (cmd_results \<times> string option \<times> sway) option" where
  "config_command other sf e h exec s =
     (let argv = split_args (Some exec); run = (\<lambda>argv. map_option (\<lambda>(r, s1). (r, None, s1)) (run_config_command other sf e h argv s)) in
      if argv = [] then Some (success, None, s)
      else if length argv > 1 \<and> last argv = ''{'' then Some (cmd_results_new CMD_BLOCK None, join_args (butlast argv), s)
      else if last argv = ''}'' then Some (cmd_results_new CMD_BLOCK_END None, None, s)
      else if has_prefix (hd argv) ''$'' then do {
        joined \<leftarrow> join_args (do_var_replacement s (hd argv) # tl argv);
        let argv1 = split_args (Some joined);
        if argv1 = [] then Some (success, None, s) else run argv1 }
      else run argv)"

text \<open>A line in a block of command policies, which are not supported any more.\<close>

definition config_commands_command :: "string \<Rightarrow> cmd_results" where
  "config_commands_command exec =
     (case split_args (Some exec) of
        [] \<Rightarrow> success
      | cmd # _ \<Rightarrow>
          if cmd = ''}'' then cmd_results_new CMD_BLOCK_END None
          else if find_handler cmd [] = None \<and> cmd \<noteq> ''*'' then invalid (''Unknown/invalid command '' @ quoted cmd)
          else success)"

end
