(* ===== verification/Commands_Laws.thy ===== *)
theory Commands_Laws
  imports Commands "HOL-Library.List_Lexorder"
begin

text \<open>
  Laws of \<open>sway/commands.c\<close>. The binary search for a handler finds what a linear search
  through the tables would find, because the tables are sorted; a command list is executed one
  command after the other.
\<close>

section \<open>The binary search\<close>

text \<open>
  The interface of \<open>bsearch\<close>: the sign of \<open>key\<close> says on which side of an entry the searched
  one is, and it falls along the table.
\<close>

locale ordered_table =
  fixes key :: "'a \<Rightarrow> int" and table :: "'a list"
  assumes key_falls: "i < j \<Longrightarrow> j < length table \<Longrightarrow> key (table ! i) \<le> 0 \<Longrightarrow> key (table ! j) < 0"
begin

lemma bsearch_finds:
  "hi \<le> length table \<Longrightarrow> \<forall>i < lo. 0 < key (table ! i) \<Longrightarrow> \<forall>i. hi \<le> i \<longrightarrow> i < length table \<longrightarrow> key (table ! i) < 0
   \<Longrightarrow> bsearch key table lo hi = find (\<lambda>x. key x = 0) table"
proof (induction "hi - lo" arbitrary: lo hi rule: less_induct)
  case less
  show ?case
  proof (cases "lo < hi")
    case False
    then have "key (table ! i) \<noteq> 0" if "i < length table" for i
      using less.prems(2, 3) that by (metis less_irrefl not_less order.trans)
    then have "find (\<lambda>x. key x = 0) table = None" by (auto simp: find_None_iff in_set_conv_nth)
    then show ?thesis using False by (simp add: bsearch.simps [of key table])
  next
    case True
    define mid where "mid = (lo + hi) div 2"
    have mid: "lo \<le> mid" "mid < hi" "mid < length table" using True less.prems(1) by (auto simp: mid_def)
    consider (less) "key (table ! mid) < 0" | (greater) "key (table ! mid) > 0" | (equal) "key (table ! mid) = 0"
      by linarith
    then show ?thesis
    proof cases
      case less
      then have "\<forall>i. mid \<le> i \<longrightarrow> i < length table \<longrightarrow> key (table ! i) < 0"
        using key_falls [of mid] by (metis le_eq_less_or_eq less_imp_le)
      then have "bsearch key table lo mid = find (\<lambda>x. key x = 0) table"
        using less.hyps [of mid lo] less.prems mid by simp
      then show ?thesis using True \<open>key (table ! mid) < 0\<close> by (simp add: bsearch.simps [of key table lo hi] mid_def [symmetric] Let_def)
    next
      case greater
      then have "\<forall>i < Suc mid. 0 < key (table ! i)"
        using key_falls [of _ mid] mid(3) by (metis less_SucE not_less order.asym)
      then have "bsearch key table (mid + 1) hi = find (\<lambda>x. key x = 0) table"
        using less.hyps [of hi "mid + 1"] less.prems mid by simp
      then show ?thesis using True greater by (simp add: bsearch.simps [of key table lo hi] mid_def [symmetric] Let_def)
    next
      case equal
      then have "\<forall>i < mid. key (table ! i) \<noteq> 0" using key_falls [of _ mid] mid(3) by fastforce
      then have "find (\<lambda>x. key x = 0) table = Some (table ! mid)" using equal mid(3) by (auto simp: find_Some_iff)
      then show ?thesis using True equal by (simp add: bsearch.simps [of key table lo hi] mid_def [symmetric] Let_def)
    qed
  qed
qed

lemma bsearch_whole: "bsearch key table 0 (length table) = find (\<lambda>x. key x = 0) table"
  by (rule bsearch_finds) auto

end

section \<open>The tables are sorted\<close>

definition folded :: "string \<Rightarrow> nat list" where
  "folded a = map (\<lambda>c. of_char (tolower c)) a"

lemma folded_Cons [simp]: "folded (c # a) = of_char (tolower c) # folded a"
  by (simp add: folded_def)

lemma folded_Nil [simp]: "folded [] = []"
  by (simp add: folded_def)

lemma strcasecmp_Cons_cases:
  fixes x y :: nat
  assumes "x = of_char (tolower a)" "y = of_char (tolower b)"
  shows "strcasecmp (a # as) (b # bs) = (if x < y then - 1 else if y < x then 1 else strcasecmp as bs)"
  by (simp only: assms strcasecmp.simps Let_def)

declare strcasecmp.simps(4) [simp del]

lemma strcasecmp_folded:
  "(strcasecmp a b < 0 \<longleftrightarrow> folded a < folded b) \<and> (0 < strcasecmp a b \<longleftrightarrow> folded b < folded a)"
proof (induction a b rule: strcasecmp.induct)
  case (4 a as b bs)
  define x y :: nat where "x = of_char (tolower a)" and "y = of_char (tolower b)"
  have ih: "(strcasecmp as bs < 0 \<longleftrightarrow> folded as < folded bs) \<and> (0 < strcasecmp as bs \<longleftrightarrow> folded bs < folded as)" if "x = y"
    using that by (intro 4 [OF x_def y_def]) simp_all
  show ?case unfolding strcasecmp_Cons_cases [OF x_def y_def] folded_Cons x_def [symmetric] y_def [symmetric]
    using ih by (cases x y rule: linorder_cases) simp_all
qed simp_all

lemma strcasecmp_zero: "strcasecmp a b = 0 \<longleftrightarrow> folded a = folded b"
  using strcasecmp_folded [of a b] by (cases "folded a" "folded b" rule: linorder_cases) auto

lemma folded_eq: "folded a = folded b \<longleftrightarrow> map tolower a = map tolower b"
proof -
  have "folded a = map of_char (map tolower a)" for a by (simp add: folded_def)
  moreover have "inj (of_char :: char \<Rightarrow> nat)" by (rule injI) simp
  ultimately show ?thesis by (simp only: inj_map_eq_map)
qed

definition alphabetized :: "cmd_handler list \<Rightarrow> bool" where
  "alphabetized table = successively (\<lambda>x y. strcasecmp (fst x) (fst y) < 0) table"

lemma alphabetized_ordered:
  assumes "alphabetized table"
  shows "ordered_table (handler_compare line) table"
proof
  fix i j assume "i < j" "j < length table" "handler_compare line (table ! i) \<le> 0"
  have "transp (\<lambda>x y. folded (fst (x :: cmd_handler)) < folded (fst (y :: cmd_handler)))" by (auto simp: transp_def)
  then have "sorted_wrt (\<lambda>x y. folded (fst x) < folded (fst y)) table"
    using assms by (simp add: alphabetized_def strcasecmp_folded successively_conv_sorted_wrt)
  then have "folded (fst (table ! i)) < folded (fst (table ! j))"
    using \<open>i < j\<close> \<open>j < length table\<close> by (rule sorted_wrt_nth_less)
  moreover have "folded line \<le> folded (fst (table ! i))"
    using \<open>handler_compare line (table ! i) \<le> 0\<close> strcasecmp_folded [of line "fst (table ! i)"]
    by (simp add: handler_compare_def not_less [symmetric])
  ultimately show "handler_compare line (table ! j) < 0" by (simp add: handler_compare_def strcasecmp_folded)
qed

lemma core_handlers_alphabetized: "alphabetized core_handlers" by code_simp
lemma config_handlers_alphabetized: "alphabetized config_handlers" by code_simp
lemma command_handlers_alphabetized: "alphabetized command_handlers" by code_simp
lemma mode_handlers_alphabetized: "alphabetized mode_handlers" by code_simp

interpretation core_table: ordered_table "handler_compare line" core_handlers for line
  by (rule alphabetized_ordered [OF core_handlers_alphabetized])

interpretation config_table: ordered_table "handler_compare line" config_handlers for line
  by (rule alphabetized_ordered [OF config_handlers_alphabetized])

interpretation command_table: ordered_table "handler_compare line" command_handlers for line
  by (rule alphabetized_ordered [OF command_handlers_alphabetized])

interpretation mode_table: ordered_table "handler_compare line" mode_handlers for line
  by (rule alphabetized_ordered [OF mode_handlers_alphabetized])

text \<open>The entry of a table with a name, without case.\<close>

definition entry_named :: "string \<Rightarrow> cmd_handler list \<Rightarrow> cmd_handler option" where
  "entry_named line table = find (\<lambda>x. map tolower (fst x) = map tolower line) table"

lemma find_handler_entry_named:
  assumes "bsearch (handler_compare line) table 0 (length table) = find (\<lambda>x. handler_compare line x = 0) table"
  shows "find_handler line table = entry_named line table"
proof -
  have "find (\<lambda>x. handler_compare line x = 0) table = entry_named line table"
    unfolding entry_named_def by (rule find_cong) (auto simp: handler_compare_def strcasecmp_zero folded_eq)
  then show ?thesis using assms by (auto simp: find_handler_def entry_named_def)
qed

lemmas find_handler_tables =
  find_handler_entry_named [OF core_table.bsearch_whole] find_handler_entry_named [OF config_table.bsearch_whole]
  find_handler_entry_named [OF command_table.bsearch_whole] find_handler_entry_named [OF mode_table.bsearch_whole]

lemma find_append: "find P (xs @ ys) = (case find P xs of Some x \<Rightarrow> Some x | None \<Rightarrow> find P ys)"
  by (induction xs) auto

lemma find_core_handler_tables:
  "find_core_handler s line = find (\<lambda>x. map tolower (fst x) = map tolower line)
     ((if fl_reading (cfg_flags (cfg s)) then config_handlers
       else if fl_active (cfg_flags (cfg s)) then command_handlers else []) @ core_handlers)"
  by (simp add: find_core_handler_def find_handler_ex_def find_handler_tables entry_named_def find_append Let_def split: option.split)

text \<open>C32. The binary search for the handler of a command finds the entry that a linear search finds,
  without regard to case: first in the table for the time of the configuration or for run time,
  then in the table of the commands for both.\<close>

theorem find_core_handler_linear:
  "find_core_handler s line = find (\<lambda>x. map tolower (fst x) = map tolower line)
     ((if fl_reading (cfg_flags (cfg s)) then config_handlers
       else if fl_active (cfg_flags (cfg s)) then command_handlers else []) @ core_handlers)"
  by (rule find_core_handler_tables)

section \<open>Command lists\<close>

text \<open>
  A command without quotes, escapes and separators, and a list of commands with either
  separator in front of all but the first. Without criteria a comma is as good as a semicolon.
\<close>

definition plain_command :: "string \<Rightarrow> bool" where
  "plain_command c =
     (dropWhile isspace c \<noteq> [] \<and> hd (dropWhile isspace c) \<noteq> CHR ''['' \<and> (\<forall>x \<in> set c. x \<notin> interesting '';,''))"

definition command_list :: "string \<Rightarrow> (char \<times> string) list \<Rightarrow> string" where
  "command_list c cs = c @ concat (map (\<lambda>(d, c). d # c) cs)"

text \<open>One command after the other, each in the state that the one before has left, until one stops the list.\<close>

fun in_sequence :: "('c \<Rightarrow> sway \<Rightarrow> (bool \<times> cmd_results \<times> sway) option) \<Rightarrow> 'c list \<Rightarrow> sway \<Rightarrow> (cmd_results list \<times> sway) option" where
  "in_sequence f [] s = Some ([], s)"
| "in_sequence f (c # cs) s =
     (case f c s of
        None \<Rightarrow> None
      | Some (stop, r, s1) \<Rightarrow>
          if stop then Some ([r], s1) else map_option (\<lambda>(more, s2). (r # more, s2)) (in_sequence f cs s1))"

lemma argsep_alone:
  assumes "\<forall>c \<in> set w. c \<notin> interesting delim"
  shows "argsep w delim = (w, None, NUL)"
proof -
  have "argsep_next_interesting w 0 delim = None"
    using next_interesting_bounds(1,2) [of w 0 delim] assms by (meson nth_mem option.exhaust)
  then show ?thesis unfolding argsep_def by (subst argsep_loop.simps) simp
qed

lemma plain_command_argsep:
  assumes "plain_command c" "d \<in> {CHR '';'', CHR '',''}"
  shows "argsep (dropWhile isspace c @ d # rest) '';,'' = (dropWhile isspace c, Some rest, d)"
  using assms by (intro argsep_plain) (auto simp: plain_command_def dest: set_dropWhileD)

lemma plain_command_argsep_last:
  assumes "plain_command c"
  shows "argsep (dropWhile isspace c) '';,'' = (dropWhile isspace c, None, NUL)"
  using assms by (intro argsep_alone) (auto simp: plain_command_def dest: set_dropWhileD)

lemma dropWhile_nonempty_append: "dropWhile P xs \<noteq> [] \<Longrightarrow> dropWhile P (xs @ ys) = dropWhile P xs @ ys"
  by (induction xs) auto

lemma plain_command_read:
  assumes "plain_command c"
  shows "read_criteria e d None (dropWhile isspace (c @ rest)) s = Some (Inr (dropWhile isspace c @ rest, None))"
  using assms by (auto simp: plain_command_def read_criteria_def dropWhile_nonempty_append)

lemma command_loop_plain:
  assumes "plain_command c" "d \<in> {CHR '';'', CHR '',''}"
  shows "command_loop other sf e seat con md None (c @ d # rest) s =
     (case run_command other sf e seat con None (dropWhile isspace c) s of
        None \<Rightarrow> None
      | Some (stop, r, s1) \<Rightarrow>
          if stop then Some ([r], s1)
          else map_option (\<lambda>(more, s2). (r # more, s2)) (command_loop other sf e seat con d None rest s1))"
proof -
  define w where "w = dropWhile isspace c"
  have w: "dropWhile isspace w = w" "w \<noteq> []" using assms(1) by (auto simp: w_def dropWhile_idem plain_command_def)
  show ?thesis
    unfolding command_loop.simps [of other sf e seat con md] plain_command_read [OF assms(1)]
    using w plain_command_argsep [OF assms, of rest, folded w_def]
    by (auto simp: w_def [symmetric] Let_def simp del: dropWhile_eq_Nil_conv split: option.splits)
qed

lemma command_loop_last:
  assumes "plain_command c"
  shows "command_loop other sf e seat con md None c s =
     map_option (\<lambda>(stop, r, s1). ([r], s1)) (run_command other sf e seat con None (dropWhile isspace c) s)"
proof -
  define w where "w = dropWhile isspace c"
  have w: "dropWhile isspace w = w" "w \<noteq> []" using assms by (auto simp: w_def dropWhile_idem plain_command_def)
  have read: "read_criteria e md None (dropWhile isspace c) s = Some (Inr (dropWhile isspace c, None))"
    using plain_command_read [OF assms, where rest = "[]"] by simp
  show ?thesis
    unfolding command_loop.simps [of other sf e seat con md] read
    using w plain_command_argsep_last [OF assms, folded w_def]
    by (auto simp: w_def [symmetric] Let_def simp del: dropWhile_eq_Nil_conv split: option.splits)
qed

lemma command_loop_in_sequence:
  assumes "plain_command c" "\<forall>(d, c) \<in> set cs. plain_command c \<and> d \<in> {CHR '';'', CHR '',''}"
  shows "command_loop other sf e seat con md None (command_list c cs) s =
     in_sequence (run_command other sf e seat con None) (map (dropWhile isspace) (c # map snd cs)) s"
  using assms
proof (induction cs arbitrary: c md s)
  case Nil
  then show ?case
    by (auto simp: command_list_def command_loop_last split: option.splits)
next
  case (Cons dc cs)
  obtain d c1 where dc: "dc = (d, c1)" by (cases dc)
  have step: "command_list c (dc # cs) = c @ d # command_list c1 cs" by (simp add: command_list_def dc)
  have ih: "command_loop other sf e seat con d None (command_list c1 cs) s1 =
      in_sequence (run_command other sf e seat con None) (map (dropWhile isspace) (c1 # map snd cs)) s1" for s1
    using Cons.prems dc by (intro Cons.IH) auto
  have "plain_command c" "d \<in> {CHR '';'', CHR '',''}" using Cons.prems dc by auto
  note first = command_loop_plain [OF this, of other sf e seat con md "command_list c1 cs" s]
  show ?case
    unfolding step first ih by (simp add: dc split: option.split)
qed



lemma split_args_word_alone: "arg_word w \<Longrightarrow> split_args (Some w) = [w]"
  using split_args_join_loop [of "[w]"] dropWhile_join [of "[w]"] by (simp add: split_args_def)

lemma bogus_unknown:
  "\<forall>entry \<in> set (core_handlers @ config_handlers @ command_handlers). map tolower (fst entry) \<noteq> map tolower ''bogus''"
  by code_simp

text \<open>C31. The name of a command that is in no table is reported and nothing after it is executed: neither the
  state nor the tree changes.\<close>

theorem unknown_command_stops:
  assumes "list_all plain_char w" "plain_command w" "d \<in> {CHR '';'', CHR '',''}"
    and "\<forall>entry \<in> set (core_handlers @ config_handlers @ command_handlers). map tolower (fst entry) \<noteq> map tolower w"
  shows "execute_command (Suc n) other sf e (w @ d # rest) (Some seat) con s =
    Some ([invalid (''Unknown/invalid command '' @ quoted w)], s)"
proof -
  have unknown: "find_core_handler s w = None"
    unfolding find_core_handler_tables find_None_iff using assms(4) by (simp only: set_append list.set split: if_split) blast
  have "w \<noteq> []" using assms(2) unfolding plain_command_def by (cases w) simp_all
  moreover have "\<not> isspace (hd w)" using \<open>w \<noteq> []\<close> assms(1) by (cases w) (auto simp: plain_char_def)
  ultimately have blank: "dropWhile isspace w = w" by (cases w) auto
  have split: "split_args (Some w) = [w]" using \<open>w \<noteq> []\<close> assms(1) by (intro split_args_word_alone) (simp add: arg_word_def)
  show ?thesis
    using unknown by (simp add: Let_def command_loop_plain [OF assms(2,3)] blank run_command_def split)
qed

lemma unknown_command_stops_witness:
  "execute_command (Suc 0) (\<lambda>_ _ _ _ _ _. None) (seat_set_focus 0) plain_cmd_env ''bogus; kill'' (Some 0) None sway0 =
     Some ([invalid (''Unknown/invalid command '' @ quoted ''bogus'')], sway0)"
  using unknown_command_stops [of "''bogus''" "CHR '';''" 0 "\<lambda>_ _ _ _ _ _. None" "seat_set_focus 0" plain_cmd_env "'' kill''" 0 None sway0]
    bogus_unknown by (simp add: plain_command_def plain_char_def isspace_def del: execute_command.simps)

end
