(* ===== verification/Criteria_Laws.thy ===== *)
theory Criteria_Laws
  imports Criteria "HOL-Library.Sublist"
begin

text \<open>
  Laws of the parser of criteria, \<open>sway/criteria.c\<close>: it returns on every text, what it takes
  as the criteria ends at their closing bracket, and criteria that are written with quotes and
  escapes are read as their tokens say.
\<close>

section \<open>The parser returns\<close>

lemma token_from_name_Nil: "token_from_name [] = T_INVALID" by code_simp

lemma parse_token_named: "parse_token e s name value c = Inr c' \<Longrightarrow> name \<noteq> []"
  by (auto simp: parse_token_def token_from_name_Nil Let_def)

lemma quoted_value_suffix: "quoted_value prev cs = Some (v, rest) \<Longrightarrow> suffix rest cs"
  by (induction prev cs arbitrary: v rest rule: quoted_value.induct)
     (auto simp: suffix_ConsI split: if_splits)

lemma skip_spaces_suffix: "suffix (skip_spaces cs) cs"
  by (simp add: skip_spaces_def suffix_dropWhile)

lemma token_value_suffix:
  assumes "token_value head = Some (value, rest)"
  shows "suffix rest head"
proof (cases head)
  case head: (Cons c cs)
  show ?thesis
  proof (cases "c = CHR ''=''")
    case True
    have "suffix rest (skip_spaces cs)"
    proof (cases "skip_spaces cs")
      case Nil
      then show ?thesis using assms True by (simp add: token_value_def head)
    next
      case (Cons d ds)
      show ?thesis
      proof (cases "d = DQUOTE")
        case quote: True
        then show ?thesis using assms True Cons
          by (auto simp: token_value_def head intro: suffix_ConsI dest: quoted_value_suffix)
      next
        case False
        then have "rest = dropWhile (\<lambda>x. x \<noteq> SPACE \<and> x \<noteq> CHR '']'') (d # ds)"
          using assms True Cons by (simp add: token_value_def head Let_def del: dropWhile.simps)
        then show ?thesis unfolding Cons by (simp only: suffix_dropWhile)
      qed
    qed
    then show ?thesis unfolding head by (meson skip_spaces_suffix suffix_ConsI suffix_order.trans)
  next
    case False
    then show ?thesis using assms by (simp add: token_value_def head)
  qed
qed (use assms in \<open>simp add: token_value_def\<close>)

text \<open>The text that is left after one token.\<close>

lemma token_step:
  assumes "token_value (skip_spaces (dropWhile is_name_char (skip_spaces head))) = Some (value, head2)"
  shows "suffix (skip_spaces head2) head"
    "takeWhile is_name_char (skip_spaces head) \<noteq> [] \<Longrightarrow> length (skip_spaces head2) < length head"
proof -
  let ?h = "skip_spaces head"
  have to_rest: "suffix (skip_spaces head2) (dropWhile is_name_char ?h)"
    using token_value_suffix [OF assms] skip_spaces_suffix by (meson suffix_order.trans)
  then show "suffix (skip_spaces head2) head"
    using skip_spaces_suffix [of head] suffix_dropWhile by (meson suffix_order.trans)
  assume "takeWhile is_name_char ?h \<noteq> []"
  then have "length (dropWhile is_name_char ?h) < length ?h"
  proof -
    have "length (takeWhile is_name_char ?h) + length (dropWhile is_name_char ?h) = length ?h"
      by (simp only: length_append [symmetric] takeWhile_dropWhile_id)
    then show ?thesis using \<open>takeWhile is_name_char ?h \<noteq> []\<close> by (cases "takeWhile is_name_char ?h") auto
  qed
  then show "length (skip_spaces head2) < length head"
    using suffix_length_le [OF to_rest] suffix_length_le [OF skip_spaces_suffix [of head]] by simp
qed

lemma criteria_tokens_returns:
  "length head < n \<Longrightarrow> \<exists>r. criteria_tokens n e s head c = Some r"
proof (induction n arbitrary: head c)
  case (Suc n)
  show ?case
    using Suc.prems Suc.IH token_step(2) [of head]
    by (auto simp: Let_def split: list.splits option.splits sum.splits dest!: parse_token_named)
qed simp

lemma criteria_tokens_stops:
  "criteria_tokens n e s head c = Some (Inr (c', rest)) \<Longrightarrow> suffix rest head \<and> (rest = [] \<or> hd rest = CHR '']'')"
proof (induction n arbitrary: head c)
  case (Suc n)
  then show ?case
    using token_step(1) [of head]
    by (auto simp: Let_def split: list.splits option.splits sum.splits if_splits) (meson suffix_order.trans)+
qed simp

text \<open>C33. The parser of criteria returns on every text, with an error or with criteria that are not
  empty, and the text it takes for them is the beginning of the given one up to a closing bracket.\<close>

theorem criteria_parse_returns:
  "\<exists>r. criteria_parse e s raw = Some r \<and>
     (case r of
        Inl err \<Rightarrow> True
      | Inr c \<Rightarrow> \<not> criteria_is_empty c \<and> (\<exists>body rest. crit_raw c = body @ [CHR '']''] \<and> raw = crit_raw c @ rest))"
proof (cases "skip_spaces raw")
  case Nil
  then show ?thesis by (simp add: criteria_parse_def)
next
  case (Cons h head)
  show ?thesis
  proof (cases "h = CHR ''[''")
    case True
    obtain r where r: "criteria_tokens (Suc (length head)) e s head no_criteria = Some r"
      using criteria_tokens_returns [of head "Suc (length head)"] by blast
    have "suffix head raw" using skip_spaces_suffix [of raw] Cons by (metis suffix_ConsD)
    have "\<exists>body rest. take (length raw - length (tl left)) raw = body @ [CHR '']''] \<and> raw = (body @ [CHR '']'']) @ rest"
      if "r = Inr (c, left)" "left \<noteq> []" for c left
    proof -
      note left = that
      have "suffix left raw" "hd left = CHR '']''"
        using criteria_tokens_stops r that \<open>suffix head raw\<close> by (blast dest: suffix_order.trans)+
      then obtain body where raw: "raw = body @ CHR '']'' # tl left"
        using left(2) by (metis list.exhaust_sel suffix_def)
      then have "length raw - length (tl left) = length (body @ [CHR '']''])" using arg_cong [OF raw, of length] by simp
      then show ?thesis using raw by (metis append.assoc append_Cons append_Nil append_eq_conv_conj)
    qed
    then show ?thesis using True r Cons
      by (auto simp: criteria_parse_def criteria_is_empty_def split: sum.splits)
  qed (simp add: criteria_parse_def Cons)
qed

section \<open>Written criteria are read back\<close>

text \<open>Values with their quotes escaped, and a list of tokens as it is written in a configuration.\<close>

fun escape_quotes :: "string \<Rightarrow> string" where
  "escape_quotes [] = []"
| "escape_quotes (c # cs) = (if c = DQUOTE then BACKSLASH # c # escape_quotes cs else c # escape_quotes cs)"

definition token_text :: "string \<times> string \<Rightarrow> string" where
  "token_text p = (case p of (name, value) \<Rightarrow> name @ CHR ''='' # DQUOTE # escape_quotes value @ [DQUOTE])"

definition criteria_text :: "(string \<times> string) list \<Rightarrow> string" where
  "criteria_text ps = CHR ''['' # concat (map (\<lambda>p. token_text p @ [SPACE]) ps) @ [CHR '']'']"

fun set_tokens :: "cmd_env \<Rightarrow> sway \<Rightarrow> (string \<times> string) list \<Rightarrow> sway_criteria \<Rightarrow> string + sway_criteria" where
  "set_tokens e s [] c = Inr c"
| "set_tokens e s ((name, value) # ps) c =
     (case set_token e s (token_from_name name) value c of Inl err \<Rightarrow> Inl err | Inr c1 \<Rightarrow> set_tokens e s ps c1)"

lemma quoted_value_escaped:
  "BACKSLASH \<notin> set value \<Longrightarrow> prev \<noteq> BACKSLASH \<Longrightarrow> quoted_value prev (escape_quotes value @ DQUOTE # rest) = Some (escape_quotes value, rest)"
proof (induction "value" arbitrary: prev)
  case (Cons c cs)
  then have "c \<noteq> BACKSLASH" by auto
  then show ?case using Cons by (cases "c = DQUOTE") simp_all
qed simp

lemma unescape_escaped: "BACKSLASH \<notin> set value \<Longrightarrow> unescape (escape_quotes value) = value"
proof (induction "value")
  case (Cons c cs)
  then show ?case by (cases "escape_quotes cs") (auto split: if_splits)
qed simp

lemma token_names_are_names:
  assumes "name \<in> fst ` set token_names"
  shows "name \<noteq> []" "\<forall>c \<in> set name. is_name_char c" "token_from_name name \<noteq> T_INVALID"
proof -
  have "list_all (\<lambda>p. fst p \<noteq> [] \<and> list_all is_name_char (fst p) \<and> token_from_name (fst p) \<noteq> T_INVALID) token_names"
    by code_simp
  then show "name \<noteq> []" "\<forall>c \<in> set name. is_name_char c" "token_from_name name \<noteq> T_INVALID"
    using assms by (auto simp: list_all_iff)
qed

lemma token_value_written:
  "BACKSLASH \<notin> set value \<Longrightarrow>
   token_value (CHR ''='' # DQUOTE # escape_quotes value @ DQUOTE # rest) = Some (Some value, rest)"
  by (simp add: token_value_def skip_spaces_def quoted_value_escaped unescape_escaped)

lemma special_not_name: "\<not> is_name_char SPACE" "\<not> is_name_char (CHR '']'')" "\<not> is_name_char (CHR ''='')"
  by code_simp+

lemma written_token_read:
  fixes rest :: string
  assumes "name \<in> fst ` set token_names" "BACKSLASH \<notin> set value"
  defines "head \<equiv> token_text (name, value) @ rest"
  shows "skip_spaces head = head" "takeWhile is_name_char head = name" "hd head \<noteq> CHR '']''" "head \<noteq> []"
    "token_value (skip_spaces (dropWhile is_name_char head)) = Some (Some value, rest)"
proof -
  note named = token_names_are_names [OF assms(1)]
  have head: "head = name @ CHR ''='' # DQUOTE # escape_quotes value @ DQUOTE # rest" by (simp add: head_def token_text_def)
  obtain n ns where n: "name = n # ns" using named(1) by (cases name) auto
  have "n \<noteq> SPACE \<and> n \<noteq> CHR '']''" using named(2) special_not_name n by auto
  then show "skip_spaces head = head" "hd head \<noteq> CHR '']''" "head \<noteq> []" by (auto simp: head n skip_spaces_def)
  show "takeWhile is_name_char head = name" using named(2) special_not_name by (simp add: head takeWhile_append)
  have "dropWhile is_name_char head = CHR ''='' # DQUOTE # escape_quotes value @ DQUOTE # rest"
    using named(2) special_not_name by (simp add: head dropWhile_append)
  then show "token_value (skip_spaces (dropWhile is_name_char head)) = Some (Some value, rest)"
    using token_value_written [OF assms(2)] by (simp add: skip_spaces_def)
qed

lemma criteria_tokens_written:
  assumes "\<forall>(name, value) \<in> set ps. name \<in> fst ` set token_names \<and> BACKSLASH \<notin> set value" "length ps < n"
  shows "criteria_tokens n e s (concat (map (\<lambda>p. token_text p @ [SPACE]) ps) @ CHR '']'' # rest) c =
    Some (map_sum (\<lambda>err. err) (\<lambda>c. (c, CHR '']'' # rest)) (set_tokens e s ps c))"
  using assms
proof (induction ps arbitrary: n c)
  case Nil
  then show ?case by (cases n) auto
next
  case (Cons p ps)
  obtain name "value" where p: "p = (name, value)" by (cases p)
  obtain m where m: "n = Suc m" using Cons.prems(2) by (cases n) auto
  define rest1 where "rest1 = concat (map (\<lambda>p. token_text p @ [SPACE]) ps) @ CHR '']'' # rest"
  define head where "head = token_text (name, value) @ SPACE # rest1"
  have ok: "name \<in> fst ` set token_names" "BACKSLASH \<notin> set value" using Cons.prems(1) p by auto
  note tok = written_token_read [OF ok, of "SPACE # rest1", folded head_def]
  have no_space: "skip_spaces rest1 = rest1"
  proof (cases ps)
    case Nil
    then show ?thesis by (simp add: rest1_def skip_spaces_def)
  next
    case (Cons q qs)
    obtain name2 value2 where q: "q = (name2, value2)" by (cases q)
    have "rest1 = token_text (name2, value2) @ SPACE # concat (map (\<lambda>p. token_text p @ [SPACE]) qs) @ CHR '']'' # rest"
      by (simp add: rest1_def Cons q)
    then show ?thesis using written_token_read(1) Cons.prems(1) p q Cons by auto
  qed
  have ih: "criteria_tokens m e s rest1 c1 = Some (map_sum (\<lambda>err. err) (\<lambda>c. (c, CHR '']'' # rest)) (set_tokens e s ps c1))" for c1
    unfolding rest1_def using Cons.prems m by (intro Cons.IH) auto
  have start: "concat (map (\<lambda>p. token_text p @ [SPACE]) (p # ps)) @ CHR '']'' # rest = head"
    by (simp add: head_def rest1_def p)
  obtain h t where h: "head = h # t" "h \<noteq> CHR '']''" using tok(3,4) by (cases head) auto
  have "skip_spaces (SPACE # rest1) = rest1" using no_space by (simp add: skip_spaces_def)
  then have "criteria_tokens n e s head c =
      (case set_token e s (token_from_name name) value c of Inl err \<Rightarrow> Some (Inl err) | Inr c1 \<Rightarrow> criteria_tokens m e s rest1 c1)"
    using tok(1,2,5) h token_names_are_names(3) [OF ok(1)]
    by (simp add: m parse_token_def Let_def split: sum.split)
  then show ?case unfolding start by (simp add: p ih split: sum.split)
qed

lemma token_texts_length: "length ps \<le> length (concat (map (\<lambda>p. token_text p @ [SPACE]) ps))"
  by (induction ps) auto



end
