(* ===== verification/Config_Read.thy ===== *)
theory Config_Read
  imports Commands
begin

text \<open>
  Reading a configuration file, \<open>read_config\<close> of \<open>sway/config.c\<close>. The file is the text that is
  still to be read (without null bytes). A line may continue on the next one and open a block
  whose name is put before the lines in it. The copy of the file that is kept for IPC, the line numbers of the
  messages and the current bar are not modelled.
\<close>

section \<open>Lines\<close>

definition NEWLINE :: char where "NEWLINE = CHR 0x0A"

text \<open>A line with its newline, and the rest of the file.\<close>

definition getline :: "string \<Rightarrow> (string \<times> string) option" where
  "getline file =
     (if file = [] then None
      else let line = takeWhile (\<lambda>c. c \<noteq> NEWLINE) file; rest = dropWhile (\<lambda>c. c \<noteq> NEWLINE) file
           in Some (line @ take 1 rest, drop 1 rest))"

lemma getline_append: "getline file = Some (line, rest) \<Longrightarrow> file = line @ rest \<and> line \<noteq> []"
proof -
  assume a: "getline file = Some (line, rest)"
  define l where "l = takeWhile (\<lambda>c. c \<noteq> NEWLINE) file"
  define r where "r = dropWhile (\<lambda>c. c \<noteq> NEWLINE) file"
  have ne: "file \<noteq> []" and line: "line = l @ take 1 r" and rest: "rest = drop 1 r"
    using a by (auto simp: getline_def l_def r_def Let_def split: if_splits)
  have "l @ r = file" by (simp add: l_def r_def)
  then show ?thesis using ne line rest by (cases r) auto
qed

lemma getline_shortens: "getline file = Some (line, rest) \<Longrightarrow> length rest < length file"
  by (drule getline_append) auto

text \<open>\<open>strip_whitespace\<close> never fails (\<open>strip_whitespace_correct\<close>).\<close>

definition stripped :: "string \<Rightarrow> string" where
  "stripped line = (case strip_whitespace line of Some x \<Rightarrow> x | None \<Rightarrow> [])"

definition continues :: "string \<Rightarrow> bool" where
  "continues line =
     (length line \<ge> 2 \<and> drop (length line - 2) line = [BACKSLASH, NEWLINE] \<and> hd line \<noteq> CHR ''#'')"

function append_cont :: "string \<Rightarrow> string \<Rightarrow> string \<times> string" where
  "append_cont line file =
     (if \<not> continues line then (line, file)
      else case getline file of
          None \<Rightarrow> (line, file)
        | Some (next_line, rest) \<Rightarrow> append_cont (take (length line - 2) line @ next_line) rest)"
  by pat_completeness auto
termination
  by (relation "measure (\<lambda>(line, file). length file)") (auto dest: getline_shortens)

declare append_cont.simps [simp del]

definition getline_with_cont :: "string \<Rightarrow> (string \<times> string) option" where
  "getline_with_cont file = map_option (\<lambda>(line, rest). append_cont line rest) (getline file)"

text \<open>Whether an opening brace stands alone on the next line that is not blank, and what follows it.\<close>

function detect_brace :: "string \<Rightarrow> string option" where
  "detect_brace file =
     (case getline file of
        None \<Rightarrow> None
      | Some (line, rest) \<Rightarrow>
          (case stripped line of
             [] \<Rightarrow> detect_brace rest
           | c # cs \<Rightarrow> if c # cs = ''{'' then Some rest else None))"
  by pat_completeness auto
termination
  by (relation "measure length") (auto dest: getline_shortens)

declare detect_brace.simps [simp del]

definition expand_line :: "string option \<Rightarrow> string \<Rightarrow> bool \<Rightarrow> string" where
  "expand_line block line add_brace =
     (case block of None \<Rightarrow> [] | Some b \<Rightarrow> b @ '' '') @ line @ (if add_brace then '' {'' else [])"

lemma append_cont_shortens: "length (snd (append_cont line file)) \<le> length file"
proof (induction line "file" rule: append_cont.induct)
  case (1 line "file")
  show ?case
  proof (cases "continues line \<and> getline file \<noteq> None")
    case False
    then show ?thesis by (subst append_cont.simps) (auto split: option.splits)
  next
    case True
    then obtain x rest where g: "continues line" "getline file = Some (x, rest)" by auto
    have "length (snd (append_cont line file)) \<le> length rest"
      using 1 g by (subst append_cont.simps) simp
    then show ?thesis using getline_shortens [OF g(2)] by simp
  qed
qed

lemma getline_with_cont_shortens: "getline_with_cont file = Some (line, rest) \<Longrightarrow> length rest < length file"
proof -
  assume "getline_with_cont file = Some (line, rest)"
  then obtain l r where g: "getline file = Some (l, r)" "append_cont l r = (line, rest)"
    by (auto simp: getline_with_cont_def)
  then show ?thesis using append_cont_shortens [of l r] getline_shortens [OF g(1)] by simp
qed

lemma detect_brace_shortens: "detect_brace file = Some rest \<Longrightarrow> length rest < length file"
proof (induction "file" rule: detect_brace.induct)
  case (1 "file")
  have e: "detect_brace file = (case getline file of None \<Rightarrow> None
      | Some (line, rest) \<Rightarrow> (case stripped line of [] \<Rightarrow> detect_brace rest
          | c # cs \<Rightarrow> if c # cs = ''{'' then Some rest else None))"
    by (rule detect_brace.simps)
  from 1(2) obtain l r where g: "getline file = Some (l, r)"
    unfolding e by (auto split: option.splits)
  have "length rest \<le> length r"
    using 1 g unfolding e by (auto split: list.splits if_splits intro: less_imp_le)
  then show ?case using getline_shortens [OF g] by simp
qed

section \<open>Reading\<close>

text \<open>The blocks that are open, the innermost first, the context of the handlers, and whether all went well.\<close>

record reader =
  rd_stack :: "string list"
  rd_context :: handler_context
  rd_success :: bool
  rd_sway :: sway

text \<open>What a result does. The seat of the context is not cleared: no command uses it in a configuration.\<close>

definition read_result :: "string \<Rightarrow> cmd_results \<Rightarrow> string option \<Rightarrow> reader \<Rightarrow> reader" where
  "read_result expanded res new_block r =
     (case res_status res of
        CMD_FAILURE \<Rightarrow> r\<lparr>rd_success := False\<rparr>
      | CMD_INVALID \<Rightarrow> r\<lparr>rd_success := False\<rparr>
      | CMD_DEFER \<Rightarrow> r\<lparr>rd_sway := cfg_update (cfg_cmd_queue_update (\<lambda>l. l @ [expanded])) (rd_sway r)\<rparr>
      | CMD_BLOCK_COMMANDS \<Rightarrow> r\<lparr>rd_stack := ''<commands>'' # rd_stack r\<rparr>
      | CMD_BLOCK \<Rightarrow> r\<lparr>rd_stack := (case new_block of Some b \<Rightarrow> b | None \<Rightarrow> []) # rd_stack r\<rparr>
      | CMD_BLOCK_END \<Rightarrow>
          (case rd_stack r of
             [] \<Rightarrow> r\<lparr>rd_success := False\<rparr>
           | _ # stack \<Rightarrow> r\<lparr>rd_stack := stack,
               rd_context := \<lparr>hc_node = None, hc_container = None, hc_workspace = None, hc_node_overridden = False,
                 hc_seat = hc_seat (rd_context r)\<rparr>\<rparr>)
      | CMD_SUCCESS \<Rightarrow> r)"

definition ends_with_brace :: "string \<Rightarrow> bool" where
  "ends_with_brace line = (last line = CHR ''{'' \<or> last line = CHR ''}'')"

text \<open>One line, stripped and not blank, with the text after it.\<close>

definition read_line :: "(string \<Rightarrow> handler) \<Rightarrow> refocus_op \<Rightarrow> cmd_env \<Rightarrow> string \<Rightarrow> bool \<Rightarrow> reader \<Rightarrow> reader option" where
  "read_line other sf e line brace r =
     (let block = (case rd_stack r of [] \<Rightarrow> None | b # _ \<Rightarrow> Some b);
          expanded = expand_line block line brace
      in if block = Some ''<commands>'' then Some (read_result expanded (config_commands_command expanded) None r)
         else do {
           (res, new_block, s1) \<leftarrow> config_command other sf e (rd_context r) expanded (rd_sway r);
           Some (read_result expanded res new_block (r\<lparr>rd_sway := s1\<rparr>)) })"

function read_lines :: "(string \<Rightarrow> handler) \<Rightarrow> refocus_op \<Rightarrow> cmd_env \<Rightarrow> string \<Rightarrow> reader \<Rightarrow> reader option" where
  "read_lines other sf e file r =
     (case getline_with_cont file of
        None \<Rightarrow> Some r
      | Some (raw, rest) \<Rightarrow>
          let line = stripped (if last raw = NEWLINE then butlast raw else raw) in
          if line = [] \<or> hd line = CHR ''#'' then read_lines other sf e rest r
          else
            let brace = (if ends_with_brace line then None else detect_brace rest) in
            case read_line other sf e line (brace \<noteq> None) r of
              None \<Rightarrow> None
            | Some r1 \<Rightarrow> read_lines other sf e (case brace of Some rest1 \<Rightarrow> rest1 | None \<Rightarrow> rest) r1)"
  by pat_completeness auto
termination
  by (relation "measure (\<lambda>(_, _, _, file, _). length file)")
     (auto dest: getline_with_cont_shortens detect_brace_shortens intro: less_trans split: if_splits option.splits)

declare read_lines.simps [simp del]

definition read_config :: "(string \<Rightarrow> handler) \<Rightarrow> refocus_op \<Rightarrow> cmd_env \<Rightarrow> handler_context \<Rightarrow> string \<Rightarrow> sway \<Rightarrow> (bool \<times> sway) option" where
  "read_config other sf e h file s =
     map_option (\<lambda>r. (rd_success r, rd_sway r))
       (read_lines other sf e file \<lparr>rd_stack = [], rd_context = h, rd_success = True, rd_sway = s\<rparr>)"

end
